(* ===== verification/Prelude.thy ===== *)
theory Prelude
  imports Main "HOL-Library.Signed_Division"
begin

text \<open>
  Shared vocabulary of the development: the error-propagating state passing that models
  Rust's \<^verbatim>\<open>?\<close> on a \<^verbatim>\<open>&mut self\<close> method, the visiting order of a hash map, the string
  helpers of the standard library the components call, the generic contracts
  (\<open>machine\<close>, \<open>cursor\<close>) that several components meet, and the lemmas on lists, options
  and maps that the component theories share.
\<close>

section \<open>Collections of facts\<close>

named_theorems inv_intros \<open>preservation of a component invariant by one operation\<close>

section \<open>Results with state: the \<open>?\<close> operator\<close>

text \<open>
  A method \<^verbatim>\<open>fn m(&mut self) -> Result<()>\<close> returns the new state and an optional
  error. The state is returned on the error path too, because the mutations made before the
  early return stay visible to the caller.
\<close>

type_synonym ('s, 'e) outcome = "'s \<times> 'e option"

fun and_then :: "('s, 'e) outcome \<Rightarrow> ('s \<Rightarrow> ('s, 'e) outcome) \<Rightarrow> ('s, 'e) outcome" where
  "and_then (s, None) f = f s"
| "and_then (s, Some e) f = (s, Some e)"

text \<open>A \<^verbatim>\<open>for\<close> loop whose body may return early with an error.\<close>

fun for_each :: "('a \<Rightarrow> 's \<Rightarrow> ('s, 'e) outcome) \<Rightarrow> 'a list \<Rightarrow> 's \<Rightarrow> ('s, 'e) outcome" where
  "for_each f [] s = (s, None)"
| "for_each f (x # xs) s = and_then (f x s) (for_each f xs)"

lemma and_then_inv:
  assumes "P (fst r)" and "\<And>s. P s \<Longrightarrow> P (fst (f s))"
  shows "P (fst (and_then r f))"
  using assms by (cases "(r, f)" rule: and_then.cases) auto

lemma and_then_pair: "and_then r f = (if snd r = None then f (fst r) else r)"
  by (cases "(r, f)" rule: and_then.cases) auto

lemma and_then_assoc:
  "and_then (and_then r f) g = and_then r (\<lambda>s. and_then (f s) g)"
  by (cases "(r, f)" rule: and_then.cases) auto

lemma and_then_ok:
  "snd (and_then r f) = None \<longleftrightarrow> snd r = None \<and> snd (f (fst r)) = None"
  by (cases "(r, f)" rule: and_then.cases) auto

lemma and_then_None: "snd r = None \<Longrightarrow> and_then r f = f (fst r)"
  by (simp add: and_then_pair)

lemma for_each_inv:
  assumes "P s" and "\<And>x s. x \<in> set xs \<Longrightarrow> P s \<Longrightarrow> P (fst (f x s))"
  shows "P (fst (for_each f xs s))"
  using assms
proof (induction xs arbitrary: s)
  case Nil
  then show ?case by simp
next
  case (Cons x xs)
  have first: "P (fst (f x s))" using Cons.prems by simp
  have rest: "\<And>t. P t \<Longrightarrow> P (fst (for_each f xs t))"
    using Cons.IH Cons.prems(2) by simp
  show ?case
    unfolding for_each.simps by (rule and_then_inv [where P = P, OF first rest])
qed

text \<open>What holds after a handler that returned without an error.\<close>

definition post :: "('s \<Rightarrow> bool) \<Rightarrow> ('s, 'e) outcome \<Rightarrow> bool" where
  "post P r \<longleftrightarrow> (snd r = None \<longrightarrow> P (fst r))"

lemma post_return [simp]: "post P (s, None) = P s" "post P (s, Some e)"
  by (simp_all add: post_def)

lemma post_and_then:
  assumes "post P r" and "\<And>s. P s \<Longrightarrow> post Q (f s)"
  shows "post Q (and_then r f)"
  using assms by (cases "(r, f)" rule: and_then.cases) auto

lemma post_mono: "post P r \<Longrightarrow> (\<And>s. P s \<Longrightarrow> Q s) \<Longrightarrow> post Q r"
  by (simp add: post_def)

lemma post_for_each:
  assumes "P s" and "\<And>x s. x \<in> set xs \<Longrightarrow> P s \<Longrightarrow> post P (f x s)"
  shows "post P (for_each f xs s)"
  using assms
proof (induction xs arbitrary: s)
  case Nil
  then show ?case by simp
next
  case (Cons x xs)
  have first: "post P (f x s)" using Cons.prems by simp
  have rest: "\<And>t. P t \<Longrightarrow> post P (for_each f xs t)"
    using Cons.IH Cons.prems(2) by simp
  show ?case
    unfolding for_each.simps by (rule post_and_then [where P = P, OF first rest])
qed

section \<open>Hash maps and their iteration order\<close>

text \<open>
  A \<^verbatim>\<open>HashMap\<close> is a partial function; its iteration order is not specified, so an
  operation that iterates takes the order as an argument: any list that holds every key of
  the map once is a possible order. Keys of the list that the map lacks are skipped.
\<close>

definition iteration_order :: "'k list \<Rightarrow> ('k \<rightharpoonup> 'v) \<Rightarrow> bool" where
  "iteration_order order m \<longleftrightarrow> distinct order \<and> dom m \<subseteq> set order"

definition visited :: "'k list \<Rightarrow> ('k \<rightharpoonup> 'v) \<Rightarrow> 'k list" where
  "visited order m = filter (\<lambda>k. m k \<noteq> None) order"

lemma set_visited [simp]: "iteration_order order m \<Longrightarrow> set (visited order m) = dom m"
  by (auto simp: iteration_order_def visited_def)

lemma distinct_visited [simp]: "iteration_order order m \<Longrightarrow> distinct (visited order m)"
  by (simp add: iteration_order_def visited_def)

lemma visited_subset: "k \<in> set (visited order m) \<Longrightarrow> m k \<noteq> None"
  by (simp add: visited_def)

lemma sorted_order:
  "finite (dom m) \<Longrightarrow> iteration_order (sorted_list_of_set (dom m)) m"
  by (simp add: iteration_order_def)

section \<open>Lists and options of the standard library\<close>

text \<open>\<^verbatim>\<open>Option::filter\<close> and \<^verbatim>\<open>Iterator::position\<close>.\<close>

definition option_filter :: "('a \<Rightarrow> bool) \<Rightarrow> 'a option \<Rightarrow> 'a option" where
  "option_filter P x = (case x of None \<Rightarrow> None | Some a \<Rightarrow> if P a then Some a else None)"

fun position :: "('a \<Rightarrow> bool) \<Rightarrow> 'a list \<Rightarrow> nat option" where
  "position P [] = None"
| "position P (x # xs) = (if P x then Some 0 else map_option Suc (position P xs))"

text \<open>\<^verbatim>\<open>slice::get\<close>.\<close>

definition get :: "'a list \<Rightarrow> nat \<Rightarrow> 'a option" where
  "get xs i = (if i < length xs then Some (xs ! i) else None)"

lemma option_filter_Some_iff [simp]:
  "option_filter P x = Some a \<longleftrightarrow> x = Some a \<and> P a"
  by (auto simp: option_filter_def split: option.splits)

lemma position_SomeD:
  "position P xs = Some i \<Longrightarrow> i < length xs \<and> P (xs ! i) \<and> (\<forall>j<i. \<not> P (xs ! j))"
proof (induction xs arbitrary: i)
  case Nil
  then show ?case by simp
next
  case (Cons x xs)
  show ?case
  proof (cases "P x")
    case True
    with Cons.prems show ?thesis by simp
  next
    case False
    with Cons.prems obtain k where "position P xs = Some k" "i = Suc k" by auto
    with Cons.IH[of k] False show ?thesis
      by (auto simp: less_Suc_eq_0_disj)
  qed
qed

lemma position_None_iff: "position P xs = None \<longleftrightarrow> (\<forall>x\<in>set xs. \<not> P x)"
  by (induction xs) auto

lemma position_Some_ex: "x \<in> set xs \<Longrightarrow> P x \<Longrightarrow> \<exists>i. position P xs = Some i"
  using position_None_iff[of P xs] by (cases "position P xs") auto

lemma get_Some_iff: "get xs i = Some x \<longleftrightarrow> i < length xs \<and> xs ! i = x"
  by (auto simp: get_def)

lemma map_update_same: "n < length xs \<Longrightarrow> f x = f (xs ! n) \<Longrightarrow> map f (xs[n := x]) = map f xs"
  by (simp add: list_eq_iff_nth_eq nth_list_update)

lemma find_append:
  "find P (xs @ ys) = (case find P xs of None \<Rightarrow> find P ys | Some x \<Rightarrow> Some x)"
  by (induction xs) auto

lemma find_Some_set: "find P xs = Some x \<Longrightarrow> x \<in> set xs \<and> P x"
  by (auto simp: find_Some_iff)

section \<open>Integer arithmetic of Rust\<close>

text \<open>\<^verbatim>\<open>/\<close> on signed integers truncates towards zero: \<^verbatim>\<open>sdiv\<close>.\<close>

lemma sdiv_bounds_pos:
  fixes a b :: int
  assumes "0 < b"
  shows "b * \<bar>a sdiv b\<bar> \<le> \<bar>a\<bar>"
proof -
  have "\<bar>a sdiv b\<bar> = \<bar>a\<bar> div b"
    using assms by (auto simp: signed_divide_int_def abs_mult sgn_if pos_imp_zdiv_nonneg_iff)
  moreover have "b * (\<bar>a\<bar> div b) \<le> \<bar>a\<bar>"
    using assms by (metis abs_ge_zero mult.commute pos_mod_sign div_mult_mod_eq
        le_add_same_cancel1)
  ultimately show ?thesis by simp
qed

definition clamp_int :: "int \<Rightarrow> int \<Rightarrow> int \<Rightarrow> int" where
  "clamp_int lo hi x = (if x < lo then lo else if hi < x then hi else x)"

lemma clamp_int_bounds: "lo \<le> hi \<Longrightarrow> lo \<le> clamp_int lo hi x \<and> clamp_int lo hi x \<le> hi"
  by (simp add: clamp_int_def)

section \<open>Runs of an operation that emits events\<close>

text \<open>
  A run applies operations in order and collects what they emit; \<open>run_ok\<close> says every
  operation was possible where it was applied.
\<close>

fun run_ops :: "('i \<Rightarrow> 's \<Rightarrow> 's \<times> 'e list) \<Rightarrow> 'i list \<Rightarrow> 's \<Rightarrow> 's \<times> 'e list" where
  "run_ops op [] s = (s, [])"
| "run_ops op (i # is) s =
     (let (s, evs) = op i s; (s, rest) = run_ops op is s in (s, evs @ rest))"

fun run_ok :: "('i \<Rightarrow> 's \<Rightarrow> bool) \<Rightarrow> ('i \<Rightarrow> 's \<Rightarrow> 's \<times> 'e list) \<Rightarrow> 'i list \<Rightarrow> 's \<Rightarrow> bool" where
  "run_ok ok op [] s \<longleftrightarrow> True"
| "run_ok ok op (i # is) s \<longleftrightarrow> ok i s \<and> run_ok ok op is (fst (op i s))"

lemma run_ops_Cons [simp]:
  "fst (run_ops op (i # is) s) = fst (run_ops op is (fst (op i s)))"
  "snd (run_ops op (i # is) s) = snd (op i s) @ snd (run_ops op is (fst (op i s)))"
  by (simp_all add: split_beta Let_def)

lemma run_ops_inv:
  assumes "\<And>i s. P s \<Longrightarrow> ok i s \<Longrightarrow> P (fst (op i s))" and "run_ok ok op is s" and "P s"
  shows "P (fst (run_ops op is s))"
  using assms by (induction "is" arbitrary: s) (auto simp del: run_ops.simps(2))

section \<open>Machines: an invariant kept by every step\<close>

text \<open>
  The contract of every event-driven component: a start state, a step per event, and an
  invariant both keep. A guard \<open>ok\<close> restricts the events the environment may send;
  \<open>steps_ok\<close> says every event of a run was allowed where it happened.
\<close>

fun steps_ok :: "('e \<Rightarrow> 's \<Rightarrow> bool) \<Rightarrow> ('e \<Rightarrow> 's \<Rightarrow> 's) \<Rightarrow> 'e list \<Rightarrow> 's \<Rightarrow> bool" where
  "steps_ok ok step [] s \<longleftrightarrow> True"
| "steps_ok ok step (e # es) s \<longleftrightarrow> ok e s \<and> steps_ok ok step es (step e s)"

locale machine =
  fixes start :: 's
    and step :: "'e \<Rightarrow> 's \<Rightarrow> 's"
    and ok :: "'e \<Rightarrow> 's \<Rightarrow> bool"
    and inv :: "'s \<Rightarrow> bool"
  assumes start_inv: "inv start"
    and step_inv: "inv s \<Longrightarrow> ok e s \<Longrightarrow> inv (step e s)"
begin

inductive reaches :: "'s \<Rightarrow> 's \<Rightarrow> bool" where
  here: "reaches s s"
| there: "reaches s t \<Longrightarrow> ok e t \<Longrightarrow> reaches s (step e t)"

lemma reaches_inv: "reaches s t \<Longrightarrow> inv s \<Longrightarrow> inv t"
  by (induction rule: reaches.induct) (auto intro: step_inv)

lemma reachable_inv: "reaches start t \<Longrightarrow> inv t"
  by (auto intro: reaches_inv start_inv)

lemma steps_reach: "steps_ok ok step es t \<Longrightarrow> reaches s t \<Longrightarrow> reaches s (fold step es t)"
  by (induction es arbitrary: t) (auto intro: there)

lemma steps_inv: "steps_ok ok step es start \<Longrightarrow> inv (fold step es start)"
  by (rule reachable_inv[OF steps_reach[OF _ here]])

end

section \<open>Cursors: a position kept on something that exists\<close>

text \<open>
  The contract of the focus modules: clamping puts a cursor on something the layout has and
  leaves a cursor that is already there alone; a step from such a cursor lands on another.
\<close>

locale cursor =
  fixes clamp :: "'l \<Rightarrow> 'c \<Rightarrow> 'c"
    and step :: "'d \<Rightarrow> 'l \<Rightarrow> 'c \<Rightarrow> 'c"
    and layout_ok :: "'l \<Rightarrow> bool"
    and valid :: "'l \<Rightarrow> 'c \<Rightarrow> bool"
  assumes clamp_valid: "layout_ok l \<Longrightarrow> valid l (clamp l c)"
    and clamp_id: "layout_ok l \<Longrightarrow> valid l c \<Longrightarrow> clamp l c = c"
    and step_valid: "layout_ok l \<Longrightarrow> valid l c \<Longrightarrow> valid l (step d l c)"
begin

lemma clamp_idem: "layout_ok l \<Longrightarrow> clamp l (clamp l c) = clamp l c"
  by (simp add: clamp_id clamp_valid)

lemma walk_valid: "layout_ok l \<Longrightarrow> valid l c \<Longrightarrow> valid l (fold (\<lambda>d. step d l) ds c)"
  by (induction ds arbitrary: c) (auto intro: step_valid)

lemma relayout_valid:
  "layout_ok l' \<Longrightarrow> valid l' (fold (\<lambda>d. step d l') ds (clamp l' c))"
  by (simp add: walk_valid clamp_valid)

end

end
