(* ===== verification/Protocol_Input.thy ===== *)
theory Protocol_Input
  imports Prelude "HOL-Library.Word"
begin

text \<open>
  The controller delivery protocol of \<^verbatim>\<open>hearthdeck-protocol/src/input.rs\<close>: the vocabulary
  shared by the input broker and its clients, the admission rule of a connection, and the
  newline-delimited frame transport. The JSON codec (\<^verbatim>\<open>serde_json\<close>) is a parameter of the
  transport.
\<close>

definition VERSION :: "16 word" where "VERSION = 1"

definition MAX_FRAME :: nat where "MAX_FRAME = 1024"

definition QUEUE :: nat where "QUEUE = 32"

datatype action =
    MoveUp | MoveDown | MoveLeft | MoveRight
  | Confirm | Back | Search | ContextMenu
  | PrevGroup | NextGroup | PrevTab | NextTab
  | FilterPanel | Keyboard | ToggleOverlay

datatype role = Frontend | Overlay

datatype delivery = Observe | Handoff | Frontend | TextEntry | Overlay

record hello =
  hello_version :: "16 word"
  hello_role :: role
  hello_delivery :: delivery

definition Hello_valid :: "hello \<Rightarrow> bool" where
  "Hello_valid h \<longleftrightarrow>
     hello_version h = VERSION \<and>
     (case (hello_role h, hello_delivery h) of
        (role.Frontend, delivery.Observe) \<Rightarrow> True
      | (role.Frontend, delivery.Handoff) \<Rightarrow> True
      | (role.Frontend, delivery.Frontend) \<Rightarrow> True
      | (role.Frontend, delivery.TextEntry) \<Rightarrow> True
      | (role.Overlay, delivery.Observe) \<Rightarrow> True
      | (role.Overlay, delivery.Overlay) \<Rightarrow> True
      | _ \<Rightarrow> False)"

datatype input_profile = Native | Desktop

record input_mode =
  profile :: input_profile
  retro_osk :: bool

definition InputMode_default :: input_mode where
  "InputMode_default = \<lparr>profile = Native, retro_osk = False\<rparr>"

record session_context =
  session_mode :: input_mode
  app_ids :: "string list"

definition SessionContext_default :: session_context where
  "SessionContext_default = \<lparr>session_mode = InputMode_default, app_ids = []\<rparr>"

definition SessionContext_matches_focus :: "session_context \<Rightarrow> string option \<Rightarrow> bool" where
  "SessionContext_matches_focus s focused =
     (case focused of None \<Rightarrow> False | Some f \<Rightarrow> list_ex (\<lambda>i. i = f) (app_ids s))"

datatype event = Ready | Action action | Failed string

section \<open>Admission\<close>

lemma valid_overlay_role:
  "Hello_valid h \<Longrightarrow> hello_delivery h = delivery.Overlay \<Longrightarrow> hello_role h = role.Overlay"
  by (auto simp: Hello_valid_def split: role.splits)

lemma valid_frontend_role:
  "Hello_valid h \<Longrightarrow> hello_delivery h \<in> {delivery.Frontend, delivery.TextEntry, delivery.Handoff}
     \<Longrightarrow> hello_role h = role.Frontend"
  by (auto simp: Hello_valid_def split: role.splits)

section \<open>Frames\<close>

text \<open>
  One frame is the encoded value and a newline. \<open>decode\<close> and \<open>encode\<close> stand for
  \<^verbatim>\<open>serde_json\<close>; a stream is the bytes still to be read. Reading returns the result and the
  rest of the stream.
\<close>

type_synonym byte = "8 word"

definition newline :: byte where "newline = 10"

datatype io_error = UnexpectedEof | InvalidData | Codec | TimedOut | Other string

fun transport_read_loop ::
  "(byte list \<Rightarrow> 'a option) \<Rightarrow> byte list \<Rightarrow> byte list \<Rightarrow> (io_error + 'a) \<times> byte list" where
  "transport_read_loop decode bytes [] = (Inl UnexpectedEof, [])"
| "transport_read_loop decode bytes (b # stream) =
     (if b = newline
      then (case decode bytes of None \<Rightarrow> Inl Codec | Some v \<Rightarrow> Inr v, stream)
      else let bytes = bytes @ [b] in
        if length bytes > MAX_FRAME then (Inl InvalidData, stream)
        else transport_read_loop decode bytes stream)"

definition transport_read ::
  "(byte list \<Rightarrow> 'a option) \<Rightarrow> byte list \<Rightarrow> (io_error + 'a) \<times> byte list" where
  "transport_read decode stream = transport_read_loop decode [] stream"

text \<open>
  Writing appends a frame to what the peer has still to read. \<open>written\<close> is what the socket's
  \<^verbatim>\<open>write_all\<close> does with the frame: it finishes, or the two seconds run out or the socket fails
  after a part of the frame (so at least without its newline) has gone out.
\<close>

datatype written = Finished | TimedOutAfter nat | FailedAfter nat io_error

definition transport_write ::
  "('a \<Rightarrow> byte list option) \<Rightarrow> written \<Rightarrow> 'a \<Rightarrow> byte list \<Rightarrow> (byte list, io_error) outcome" where
  "transport_write encode socket v stream =
     (case encode v of
        None \<Rightarrow> (stream, Some Codec)
      | Some bytes \<Rightarrow>
          if length bytes > MAX_FRAME then (stream, Some InvalidData)
          else case socket of
            Finished \<Rightarrow> (stream @ bytes @ [newline], None)
          | TimedOutAfter n \<Rightarrow> (stream @ take n bytes, Some TimedOut)
          | FailedAfter n e \<Rightarrow> (stream @ take n bytes, Some e))"

lemma read_loop_frame:
  assumes "newline \<notin> set bytes" and "length (acc @ bytes) \<le> MAX_FRAME"
  shows "transport_read_loop decode acc (bytes @ newline # rest) =
    (case decode (acc @ bytes) of None \<Rightarrow> Inl Codec | Some v \<Rightarrow> Inr v, rest)"
  using assms
proof (induction bytes arbitrary: acc)
  case Nil
  then show ?case by simp
next
  case (Cons b bytes)
  have "transport_read_loop decode (acc @ [b]) (bytes @ newline # rest) =
    (case decode ((acc @ [b]) @ bytes) of None \<Rightarrow> Inl Codec | Some v \<Rightarrow> Inr v, rest)"
    by (rule Cons.IH) (use Cons.prems in auto)
  with Cons.prems show ?case by auto
qed

lemma read_loop_bounded:
  assumes "newline \<notin> set bytes" and "length acc \<le> MAX_FRAME" and "MAX_FRAME < length (acc @ bytes)"
  shows "transport_read_loop decode acc (bytes @ rest) =
    (Inl InvalidData, drop (Suc MAX_FRAME - length acc) (bytes @ rest))"
  using assms
proof (induction bytes arbitrary: acc)
  case Nil
  then show ?case by simp
next
  case (Cons b bytes)
  show ?case
  proof (cases "length (acc @ [b]) > MAX_FRAME")
    case True
    with Cons.prems have "length acc = MAX_FRAME" by simp
    with Cons.prems show ?thesis by auto
  next
    case False
    then have "transport_read_loop decode (acc @ [b]) (bytes @ rest) =
      (Inl InvalidData, drop (Suc MAX_FRAME - length (acc @ [b])) (bytes @ rest))"
      using Cons.prems by (intro Cons.IH) auto
    with False Cons.prems show ?thesis
      by (auto simp: Suc_diff_le)
  qed
qed

lemma read_loop_eof:
  assumes "newline \<notin> set bytes" and "length (acc @ bytes) \<le> MAX_FRAME"
  shows "transport_read_loop decode acc bytes = (Inl UnexpectedEof, [])"
  using assms by (induction bytes arbitrary: acc) auto

text \<open>
  One side of a connection writes values one after the other, until a write fails; the other reads
  a number of frames.
\<close>

definition write_all ::
  "('a \<Rightarrow> byte list option) \<Rightarrow> (written \<times> 'a) list \<Rightarrow> byte list \<Rightarrow> (byte list, io_error) outcome" where
  "write_all encode ws stream = for_each (\<lambda>(socket, v). transport_write encode socket v) ws stream"

fun read_n :: "(byte list \<Rightarrow> 'a option) \<Rightarrow> nat \<Rightarrow> byte list \<Rightarrow> (io_error + 'a) list \<times> byte list" where
  "read_n decode 0 stream = ([], stream)"
| "read_n decode (Suc n) stream =
     (let (r, stream) = transport_read decode stream; (rs, stream) = read_n decode n stream
      in (r # rs, stream))"

text \<open>
  What the transport relies on of the codec for a value: if it encodes, it decodes back, and
  newlines are escaped (compact JSON holds no raw newline byte).
\<close>

definition codec_ok :: "('a \<Rightarrow> byte list option) \<Rightarrow> (byte list \<Rightarrow> 'a option) \<Rightarrow> 'a \<Rightarrow> bool" where
  "codec_ok encode decode v \<longleftrightarrow>
     (\<forall>bytes. encode v = Some bytes \<longrightarrow> decode bytes = Some v \<and> newline \<notin> set bytes)"

text \<open>The writes that go out, and the error of one that does not.\<close>

definition goes_out :: "('a \<Rightarrow> byte list option) \<Rightarrow> written \<times> 'a \<Rightarrow> bool" where
  "goes_out encode w \<longleftrightarrow> (\<exists>bytes. encode (snd w) = Some bytes \<and> length bytes \<le> 1024) \<and> fst w = Finished"

definition write_error :: "('a \<Rightarrow> byte list option) \<Rightarrow> written \<times> 'a \<Rightarrow> io_error" where
  "write_error encode w =
     (case encode (snd w) of
        None \<Rightarrow> Codec
      | Some bytes \<Rightarrow> if length bytes > 1024 then InvalidData
          else case fst w of FailedAfter _ e \<Rightarrow> e | _ \<Rightarrow> TimedOut)"

lemma write_goes_out:
  assumes "goes_out encode (socket, v)" and "codec_ok encode decode v"
  shows "\<exists>bytes. (\<forall>stream. transport_write encode socket v stream = (stream @ bytes @ [newline], None))
    \<and> (\<forall>rest. transport_read decode (bytes @ newline # rest) = (Inr v, rest))"
proof -
  obtain bytes where b: "encode v = Some bytes" "length bytes \<le> MAX_FRAME" "socket = Finished"
    using assms(1) by (auto simp: goes_out_def MAX_FRAME_def)
  with assms(2) show ?thesis
    by (intro exI[of _ bytes]) (simp add: transport_write_def transport_read_def read_loop_frame codec_ok_def)
qed

lemma write_refused:
  assumes "\<not> goes_out encode (socket, v)" and "codec_ok encode decode v"
  shows "\<exists>part. (\<forall>stream. transport_write encode socket v stream = (stream @ part, Some (write_error encode (socket, v))))
    \<and> transport_read decode part = (Inl UnexpectedEof, [])"
proof (cases "encode v")
  case None
  then show ?thesis
    by (intro exI[of _ "[]"]) (simp add: transport_write_def write_error_def transport_read_def)
next
  case (Some bytes)
  show ?thesis
  proof (cases "length bytes > MAX_FRAME")
    case True
    with Some show ?thesis
      by (intro exI[of _ "[]"]) (simp add: transport_write_def write_error_def transport_read_def MAX_FRAME_def)
  next
    case False
    have part: "transport_read decode (take n bytes) = (Inl UnexpectedEof, [])" for n
      using assms(2) Some False set_take_subset[of n bytes]
      by (auto simp: transport_read_def codec_ok_def intro!: read_loop_eof)
    have "socket \<noteq> Finished" using assms(1) Some False by (auto simp: goes_out_def MAX_FRAME_def)
    then show ?thesis
      using Some False part
      by (cases socket) (auto simp: transport_write_def write_error_def MAX_FRAME_def)
  qed
qed

text \<open>What a sequence of writes leaves in the stream, and what is read of it.\<close>

lemma write_all_read:
  assumes "\<forall>w\<in>set ws. codec_ok encode decode (snd w)"
  defines "sent \<equiv> takeWhile (goes_out encode) ws"
  shows "\<exists>bytes part. (\<forall>stream. write_all encode ws stream = (stream @ bytes @ part,
        if sent = ws then None else Some (write_error encode (ws ! length sent))))
    \<and> (\<forall>rest. read_n decode (length sent) (bytes @ rest) = (map (Inr \<circ> snd) sent, rest))
    \<and> transport_read decode part = (Inl UnexpectedEof, []) \<and> (sent = ws \<longrightarrow> part = [])"
  using assms(1) unfolding sent_def
proof (induction ws)
  case Nil
  then show ?case by (simp add: write_all_def transport_read_def)
next
  case (Cons w ws)
  obtain socket v where w: "w = (socket, v)" by force
  have v: "codec_ok encode decode v" using Cons.prems by (simp add: w)
  show ?case
  proof (cases "goes_out encode w")
    case True
    let ?sent = "takeWhile (goes_out encode) ws"
    obtain tail part where tail: "\<And>stream. write_all encode ws stream = (stream @ tail @ part,
        if ?sent = ws then None else Some (write_error encode (ws ! length ?sent)))"
      "\<And>rest. read_n decode (length ?sent) (tail @ rest) = (map (Inr \<circ> snd) ?sent, rest)"
      "transport_read decode part = (Inl UnexpectedEof, [])" "?sent = ws \<longrightarrow> part = []"
      using Cons.IH Cons.prems by (metis (no_types, lifting) list.set_intros(2))
    obtain bytes where head: "\<And>stream. transport_write encode socket v stream = (stream @ bytes @ [newline], None)"
      "\<And>rest. transport_read decode (bytes @ newline # rest) = (Inr v, rest)"
      using write_goes_out[OF _ v] True w by blast
    have "write_all encode (w # ws) stream = (stream @ (bytes @ newline # tail) @ part,
        if w # ?sent = w # ws then None else Some (write_error encode ((w # ws) ! length (w # ?sent))))" for stream
      using head(1) tail(1) by (simp add: write_all_def w)
    moreover have "read_n decode (length (w # ?sent)) ((bytes @ newline # tail) @ rest) = (map (Inr \<circ> snd) (w # ?sent), rest)" for rest
      using head(2) tail(2) by (simp add: w)
    ultimately show ?thesis
      using True tail(3,4) by (intro exI[of _ "bytes @ newline # tail"] exI[of _ part]) (simp only: takeWhile.simps if_True list.inject, simp)
  next
    case False
    with write_refused[OF _ v, of socket] w obtain part where
      "\<And>stream. transport_write encode socket v stream = (stream @ part, Some (write_error encode w))"
      "transport_read decode part = (Inl UnexpectedEof, [])" by auto
    with False show ?thesis
      by (intro exI[of _ "[]"] exI[of _ part]) (simp add: write_all_def w)
  qed
qed

lemma read_n_append:
  assumes "read_n decode n stream = (rs, rest)"
  shows "read_n decode (Suc n) stream = (rs @ [fst (transport_read decode rest)], snd (transport_read decode rest))"
  using assms
proof (induction n arbitrary: stream rs)
  case 0
  then show ?case by (simp add: Let_def split: prod.splits)
next
  case (Suc n)
  obtain r s1 where r: "transport_read decode stream = (r, s1)" by force
  obtain rs' where rs': "read_n decode n s1 = (rs', rest)" "rs = r # rs'"
    using Suc.prems by (auto simp: r split: prod.splits)
  show ?case
    unfolding read_n.simps(2)[of decode "Suc n"] r Let_def prod.case Suc.IH[OF rs'(1)] by (simp add: rs'(2))
qed

text \<open>
  C25: a reader of the frame transport gets back exactly the values whose writes went out, in order
  and one per frame, whatever the timing. A write goes out when its value encodes to at most 1024
  bytes and the socket takes the frame within two seconds. If all writes go out they all succeed,
  and the reader leaves what follows them in the stream; the first that does not is answered with
  its own error (not encodable, too large, timed out or the socket's error), and a reader of the
  closed connection gets the values before it and then an unexpected end, never a value made of
  the part of a frame that went out. The codec is assumed to decode what it encoded and to escape
  newlines.
\<close>

theorem frames_roundtrip:
  assumes "\<forall>w\<in>set ws. codec_ok encode decode (snd w)"
  shows "let sent = takeWhile (goes_out encode) ws; (stream, err) = write_all encode ws [] in
    (sent = ws \<longrightarrow> err = None \<and> (\<forall>rest. read_n decode (length ws) (stream @ rest) = (map (Inr \<circ> snd) ws, rest)))
    \<and> (sent \<noteq> ws \<longrightarrow> err = Some (write_error encode (ws ! length sent))
        \<and> read_n decode (Suc (length sent)) stream = (map (Inr \<circ> snd) sent @ [Inl UnexpectedEof], []))"
proof -
  define sent where "sent = takeWhile (goes_out encode) ws"
  obtain bytes part where w: "\<And>stream. write_all encode ws stream = (stream @ bytes @ part,
        if sent = ws then None else Some (write_error encode (ws ! length sent)))"
    and r: "\<And>rest. read_n decode (length sent) (bytes @ rest) = (map (Inr \<circ> snd) sent, rest)"
    and part: "transport_read decode part = (Inl UnexpectedEof, [])" "sent = ws \<longrightarrow> part = []"
    using write_all_read[OF assms, folded sent_def] by blast
  show ?thesis
    unfolding sent_def[symmetric]
    using w[of "[]"] r part read_n_append[OF r[of part]] by (auto simp: Let_def simp del: read_n.simps)
qed

text \<open>
  A codec for role values: two frames that go out, a third whose write times out after one byte.
\<close>

theorem frames_roundtrip_witness:
  "let enc = (\<lambda>r. Some (if r = role.Frontend then [70 :: byte] else [79, 86]));
       dec = (\<lambda>b. if b = [70] then Some role.Frontend else if b = [79, 86] then Some role.Overlay else None);
       (stream, err) = write_all enc [(Finished, role.Overlay), (Finished, role.Frontend), (TimedOutAfter 1, role.Overlay)] []
   in err = Some TimedOut \<and> read_n dec 3 stream = ([Inr role.Overlay, Inr role.Frontend, Inl UnexpectedEof], [])"
proof -
  define enc where "enc = (\<lambda>r. Some (if r = role.Frontend then [70 :: byte] else [79, 86]))"
  define dec where "dec = (\<lambda>b :: byte list.
    if b = [70] then Some role.Frontend else if b = [79, 86] then Some role.Overlay else None)"
  define ws where "ws = [(Finished, role.Overlay), (Finished, role.Frontend), (TimedOutAfter 1, role.Overlay)]"
  have ok: "\<forall>w\<in>set ws. codec_ok enc dec (snd w)"
    by (simp add: ws_def codec_ok_def enc_def dec_def newline_def)
  have sent: "takeWhile (goes_out enc) ws = [(Finished, role.Overlay), (Finished, role.Frontend)]"
    by (simp add: ws_def goes_out_def enc_def)
  have err: "write_error enc (ws ! 2) = TimedOut" by (simp add: ws_def write_error_def enc_def)
  from frames_roundtrip[OF ok] show ?thesis
    unfolding sent unfolding Let_def enc_def [symmetric] dec_def [symmetric] ws_def[symmetric]
    using err by (simp add: ws_def numeral_2_eq_2 numeral_3_eq_3 split: prod.splits del: read_n.simps)
qed

text \<open>
  A peer that sends more than \<open>MAX_FRAME\<close> bytes without a newline is refused with
  \<open>InvalidData\<close> after exactly one byte more than the frame limit has been consumed, so the
  reader's buffer is bounded whatever the peer sends.
\<close>

theorem oversized_frame_refused:
  assumes "newline \<notin> set bytes" and "MAX_FRAME < length bytes"
  shows "transport_read decode (bytes @ rest) = (Inl InvalidData, drop (Suc MAX_FRAME) (bytes @ rest))"
  using read_loop_bounded[of bytes "[]" decode rest] assms by (simp add: transport_read_def)

theorem oversized_frame_refused_witness:
  "newline \<notin> set (replicate 1025 (120 :: byte)) \<and> MAX_FRAME < length (replicate 1025 (120 :: byte))
   \<and> transport_read (\<lambda>_. Some ()) (replicate 1025 120 @ [7])
       = (Inl InvalidData, drop (Suc MAX_FRAME) (replicate 1025 120 @ [7]))"
proof -
  have small: "newline \<notin> set (replicate 1025 (120 :: byte))"
    and long: "MAX_FRAME < length (replicate 1025 (120 :: byte))"
    by (simp_all add: newline_def MAX_FRAME_def)
  show ?thesis
    using small long oversized_frame_refused[OF small long] by blast
qed

end
