(* ===== verification/Mapping_Keys.thy ===== *)
theory Mapping_Keys
  imports Prelude "HOL-Library.Word" "HOL-Library.Product_Lexorder"
begin

text \<open>
  The compatibility mapper of the input service: \<^verbatim>\<open>hearthdeck-input/src/mapping.rs\<close> (a
  controller drives a virtual keyboard and mouse) and the evdev side of it in
  \<^verbatim>\<open>hearthdeck-input/src/linux.rs\<close> (axis normalisation, key and axis dispatch). Several
  controls may hold the same key, so the mapper counts its sources; the development shows that
  the count always is the number of sources and that the emitted events are exactly the
  changes of the set of keys held down.
\<close>

datatype control =
    Other "16 word" | Guide
  | PointerLeft | PointerRight | PointerUp | PointerDown
  | South | East | West | North | LeftBumper | RightBumper | Start | Select
  | DpadLeft | DpadRight | DpadUp | DpadDown
  | StickLeft | StickRight | StickUp | StickDown
  | LeftTrigger | RightTrigger

datatype output_key =
    Enter | Escape | Space | Tab | PageUp | PageDown
  | Left | Right | Up | Down | MouseLeft | MouseRight

text \<open>
  Both enumerations are ordered, so that a finite map over keys or sources has a sorted
  iteration order.
\<close>

fun control_rank :: "control \<Rightarrow> nat" where
  "control_rank (Other code) = 23 + unat code"
| "control_rank Guide = 0"
| "control_rank PointerLeft = 1"
| "control_rank PointerRight = 2"
| "control_rank PointerUp = 3"
| "control_rank PointerDown = 4"
| "control_rank South = 5"
| "control_rank East = 6"
| "control_rank West = 7"
| "control_rank North = 8"
| "control_rank LeftBumper = 9"
| "control_rank RightBumper = 10"
| "control_rank Start = 11"
| "control_rank Select = 12"
| "control_rank DpadLeft = 13"
| "control_rank DpadRight = 14"
| "control_rank DpadUp = 15"
| "control_rank DpadDown = 16"
| "control_rank StickLeft = 17"
| "control_rank StickRight = 18"
| "control_rank StickUp = 19"
| "control_rank StickDown = 20"
| "control_rank LeftTrigger = 21"
| "control_rank RightTrigger = 22"

fun output_key_rank :: "output_key \<Rightarrow> nat" where
  "output_key_rank Enter = 0"
| "output_key_rank Escape = 1"
| "output_key_rank Space = 2"
| "output_key_rank Tab = 3"
| "output_key_rank PageUp = 4"
| "output_key_rank PageDown = 5"
| "output_key_rank Left = 6"
| "output_key_rank Right = 7"
| "output_key_rank Up = 8"
| "output_key_rank Down = 9"
| "output_key_rank MouseLeft = 10"
| "output_key_rank MouseRight = 11"

lemma control_rank_inj: "control_rank c = control_rank d \<Longrightarrow> c = d"
  by (cases c; cases d) (simp_all add: word_unat_eq_iff)

lemma output_key_rank_inj: "output_key_rank k = output_key_rank l \<Longrightarrow> k = l"
  by (cases k; cases l) simp_all

instantiation control :: linorder
begin

definition less_eq_control :: "control \<Rightarrow> control \<Rightarrow> bool" where
  "less_eq_control c d \<longleftrightarrow> control_rank c \<le> control_rank d"

definition less_control :: "control \<Rightarrow> control \<Rightarrow> bool" where
  "less_control c d \<longleftrightarrow> control_rank c < control_rank d"

instance
  by standard (auto simp: less_eq_control_def less_control_def intro: control_rank_inj)

end

instantiation output_key :: linorder
begin

definition less_eq_output_key :: "output_key \<Rightarrow> output_key \<Rightarrow> bool" where
  "less_eq_output_key k l \<longleftrightarrow> output_key_rank k \<le> output_key_rank l"

definition less_output_key :: "output_key \<Rightarrow> output_key \<Rightarrow> bool" where
  "less_output_key k l \<longleftrightarrow> output_key_rank k < output_key_rank l"

instance
  by standard (auto simp: less_eq_output_key_def less_output_key_def intro: output_key_rank_inj)

end

datatype output_event = Key output_key bool | MouseMove int int

text \<open>A source is a control of a device; device ids are the broker's \<^verbatim>\<open>u64\<close> counters.\<close>

type_synonym source = "nat \<times> control"

record mapper =
  active :: bool
  sources :: "source \<rightharpoonup> output_key"
  output_counts :: "output_key \<rightharpoonup> nat"
  right_sticks :: "nat \<rightharpoonup> int \<times> int"

definition Mapper_default :: mapper where
  "Mapper_default = \<lparr>active = False, sources = Map.empty, output_counts = Map.empty,
     right_sticks = Map.empty\<rparr>"

definition DEADZONE :: int where "DEADZONE = 350"

fun output_for :: "control \<Rightarrow> output_key option" where
  "output_for (Other _) = None"
| "output_for Guide = None"
| "output_for PointerLeft = None"
| "output_for PointerRight = None"
| "output_for PointerUp = None"
| "output_for PointerDown = None"
| "output_for South = Some Enter"
| "output_for Start = Some Enter"
| "output_for East = Some Escape"
| "output_for West = Some Space"
| "output_for North = Some Tab"
| "output_for Select = Some Tab"
| "output_for LeftBumper = Some PageUp"
| "output_for RightBumper = Some PageDown"
| "output_for DpadLeft = Some Left"
| "output_for StickLeft = Some Left"
| "output_for DpadRight = Some Right"
| "output_for StickRight = Some Right"
| "output_for DpadUp = Some Up"
| "output_for StickUp = Some Up"
| "output_for DpadDown = Some Down"
| "output_for StickDown = Some Down"
| "output_for LeftTrigger = Some MouseRight"
| "output_for RightTrigger = Some MouseLeft"

definition mouse_delta :: "int \<Rightarrow> int" where
  "mouse_delta value = (if \<bar>value\<bar> \<le> DEADZONE then 0 else (value * 14) sdiv 1000)"

section \<open>The operations of the mapper\<close>

text \<open>
  \<^verbatim>\<open>output_counts.drain()\<close> visits the counted keys in hash order, which is the argument
  \<open>order\<close>.
\<close>

definition Mapper_set_active ::
  "output_key list \<Rightarrow> bool \<Rightarrow> mapper \<Rightarrow> mapper \<times> output_event list" where
  "Mapper_set_active order act m =
     (if active m = act then (m, [])
      else let m = m\<lparr>active := act\<rparr> in
        if act then (m, [])
        else (m\<lparr>sources := Map.empty, right_sticks := Map.empty, output_counts := Map.empty\<rparr>,
              map (\<lambda>key. Key key False) (visited order (output_counts m))))"

text \<open>
  \<^verbatim>\<open>*count -= 1\<close> cannot underflow: the counts of a well-formed mapper are positive.
\<close>

definition Mapper_release_source :: "source \<Rightarrow> mapper \<Rightarrow> mapper \<times> output_event list" where
  "Mapper_release_source source m =
     (case sources m source of
        None \<Rightarrow> (m, [])
      | Some key \<Rightarrow>
          let m = m\<lparr>sources := (sources m)(source := None)\<rparr> in
          case output_counts m key of
            None \<Rightarrow> (m, [])
          | Some count \<Rightarrow>
              let count = count - 1 in
              if count = 0
              then (m\<lparr>output_counts := (output_counts m)(key := None)\<rparr>, [Key key False])
              else (m\<lparr>output_counts := (output_counts m)(key \<mapsto> count)\<rparr>, []))"

definition Mapper_set_source ::
  "source \<Rightarrow> output_key \<Rightarrow> bool \<Rightarrow> mapper \<Rightarrow> mapper \<times> output_event list" where
  "Mapper_set_source source key pressed m =
     (if pressed then
        let old = sources m source; m = m\<lparr>sources := (sources m)(source \<mapsto> key)\<rparr> in
        if old \<noteq> None then (m, [])
        else
          let count = (case output_counts m key of None \<Rightarrow> 0 | Some c \<Rightarrow> c) + 1;
              m = m\<lparr>output_counts := (output_counts m)(key \<mapsto> count)\<rparr>
          in if count = 1 then (m, [Key key True]) else (m, [])
      else Mapper_release_source source m)"

definition Mapper_button ::
  "nat \<Rightarrow> control \<Rightarrow> bool \<Rightarrow> mapper \<Rightarrow> mapper \<times> output_event list" where
  "Mapper_button device control pressed m =
     (if \<not> active m then (m, [])
      else case output_for control of
             None \<Rightarrow> (m, [])
           | Some key \<Rightarrow> Mapper_set_source (device, control) key pressed m)"

definition Mapper_directional_axis ::
  "nat \<Rightarrow> control \<Rightarrow> control \<Rightarrow> int \<Rightarrow> mapper \<Rightarrow> mapper \<times> output_event list" where
  "Mapper_directional_axis device negative positive value m =
     (if \<not> active m then (m, [])
      else let (m, events) = Mapper_button device negative (value < - DEADZONE) m;
               (m, more) = Mapper_button device positive (value > DEADZONE) m
           in (m, events @ more))"

definition Mapper_right_stick_axis :: "nat \<Rightarrow> bool \<Rightarrow> int \<Rightarrow> mapper \<Rightarrow> mapper" where
  "Mapper_right_stick_axis device horizontal value m =
     (if \<not> active m then m
      else let (x, y) = (case right_sticks m device of None \<Rightarrow> (0, 0) | Some p \<Rightarrow> p) in
        m\<lparr>right_sticks :=
          (right_sticks m)(device \<mapsto> (if horizontal then (value, y) else (x, value)))\<rparr>)"

definition Mapper_mouse_tick :: "nat list \<Rightarrow> mapper \<Rightarrow> output_event option" where
  "Mapper_mouse_tick order m =
     (if \<not> active m then None
      else let (x, y) =
             fold (\<lambda>d (sum_x, sum_y).
                 case the (right_sticks m d) of (x, y) \<Rightarrow>
                   (sum_x + mouse_delta x, sum_y + mouse_delta y))
               (visited order (right_sticks m)) (0, 0)
           in if x \<noteq> 0 \<or> y \<noteq> 0 then Some (MouseMove x y) else None)"

fun release_sources :: "source list \<Rightarrow> mapper \<Rightarrow> mapper \<times> output_event list" where
  "release_sources [] m = (m, [])"
| "release_sources (source # rest) m =
     (let (m, events) = Mapper_release_source source m; (m, more) = release_sources rest m
      in (m, events @ more))"

definition Mapper_remove_device ::
  "source list \<Rightarrow> nat \<Rightarrow> mapper \<Rightarrow> mapper \<times> output_event list" where
  "Mapper_remove_device order device m =
     (let m = m\<lparr>right_sticks := (right_sticks m)(device := None)\<rparr> in
      release_sources (filter (\<lambda>(source_device, _). source_device = device)
        (visited order (sources m))) m)"

section \<open>The evdev side\<close>

text \<open>
  evdev key codes: the ones the source names, and every other code by its number. Axes
  likewise.
\<close>

datatype key_code =
    BTN_MODE | BTN_SOUTH | BTN_EAST | BTN_WEST | BTN_NORTH | BTN_TL | BTN_TR
  | BTN_START | BTN_SELECT | BTN_TL2 | BTN_TR2
  | BTN_DPAD_UP | BTN_DPAD_DOWN | BTN_DPAD_LEFT | BTN_DPAD_RIGHT
  | KeyCode "16 word"

datatype axis =
    ABS_X | ABS_Y | ABS_Z | ABS_RX | ABS_RY | ABS_RZ | ABS_HAT0X | ABS_HAT0Y | Axis "16 word"

record axis_range =
  minimum :: int
  maximum :: int

text \<open>The \<^verbatim>\<open>i64\<close> intermediate values are bounded in \<open>normalize_bounds\<close> below.\<close>

definition normalize_centered :: "int \<Rightarrow> axis_range option \<Rightarrow> int" where
  "normalize_centered value rng =
     (case rng of
        None \<Rightarrow> clamp_int (- 1) 1 value * 1000
      | Some rng \<Rightarrow>
          let center = (minimum rng + maximum rng) sdiv 2;
              half_range = (maximum rng - minimum rng) sdiv 2
          in if half_range \<le> 0 then 0
             else clamp_int (- 1000) 1000 (((value - center) * 1000) sdiv half_range))"

definition normalize_trigger :: "int \<Rightarrow> axis_range option \<Rightarrow> int" where
  "normalize_trigger value rng =
     (case rng of
        None \<Rightarrow> of_bool (value > 0) * 1000
      | Some rng \<Rightarrow>
          let width = maximum rng - minimum rng
          in if width \<le> 0 then 0
             else clamp_int 0 1000 (((value - minimum rng) * 1000) sdiv width))"

fun map_key_control :: "key_code \<Rightarrow> control option" where
  "map_key_control BTN_SOUTH = Some South"
| "map_key_control BTN_EAST = Some East"
| "map_key_control BTN_WEST = Some West"
| "map_key_control BTN_NORTH = Some North"
| "map_key_control BTN_TL = Some LeftBumper"
| "map_key_control BTN_TR = Some RightBumper"
| "map_key_control BTN_START = Some Start"
| "map_key_control BTN_SELECT = Some Select"
| "map_key_control BTN_DPAD_LEFT = Some DpadLeft"
| "map_key_control BTN_DPAD_RIGHT = Some DpadRight"
| "map_key_control BTN_DPAD_UP = Some DpadUp"
| "map_key_control BTN_DPAD_DOWN = Some DpadDown"
| "map_key_control BTN_TL2 = Some LeftTrigger"
| "map_key_control BTN_TR2 = Some RightTrigger"
| "map_key_control _ = None"

definition map_key :: "nat \<Rightarrow> key_code \<Rightarrow> int \<Rightarrow> mapper \<Rightarrow> mapper \<times> output_event list" where
  "map_key device code value m =
     (case map_key_control code of
        None \<Rightarrow> (m, [])
      | Some control \<Rightarrow> Mapper_button device control (value \<noteq> 0) m)"

fun map_axis ::
  "nat \<Rightarrow> axis \<Rightarrow> int \<Rightarrow> axis_range option \<Rightarrow> mapper \<Rightarrow> mapper \<times> output_event list" where
  "map_axis device ABS_HAT0X value rng m =
     Mapper_directional_axis device DpadLeft DpadRight (normalize_centered value rng) m"
| "map_axis device ABS_HAT0Y value rng m =
     Mapper_directional_axis device DpadUp DpadDown (normalize_centered value rng) m"
| "map_axis device ABS_X value rng m =
     Mapper_directional_axis device StickLeft StickRight (normalize_centered value rng) m"
| "map_axis device ABS_Y value rng m =
     Mapper_directional_axis device StickUp StickDown (normalize_centered value rng) m"
| "map_axis device ABS_RX value rng m =
     (Mapper_right_stick_axis device True (normalize_centered value rng) m, [])"
| "map_axis device ABS_RY value rng m =
     (Mapper_right_stick_axis device False (normalize_centered value rng) m, [])"
| "map_axis device ABS_Z value rng m =
     Mapper_button device LeftTrigger (normalize_trigger value rng > 500) m"
| "map_axis device ABS_RZ value rng m =
     Mapper_button device RightTrigger (normalize_trigger value rng > 500) m"
| "map_axis device (Axis _) value rng m = (m, [])"

section \<open>The mapper's invariant\<close>

text \<open>
  Every key is counted by the number of its sources, every source holds the key its control
  stands for, and an inactive mapper holds nothing.
\<close>

definition holders :: "mapper \<Rightarrow> output_key \<Rightarrow> source set" where
  "holders m key = {source. sources m source = Some key}"

definition count_of :: "nat \<Rightarrow> nat option" where
  "count_of n = (if n = 0 then None else Some n)"

definition mapper_inv :: "mapper \<Rightarrow> bool" where
  "mapper_inv m \<longleftrightarrow>
     finite (dom (sources m))
   \<and> (\<forall>key. output_counts m key = count_of (card (holders m key)))
   \<and> (\<forall>source key. sources m source = Some key \<longrightarrow> output_for (snd source) = Some key)
   \<and> (\<not> active m \<longrightarrow> sources m = Map.empty \<and> right_sticks m = Map.empty)"

text \<open>The keys held down on the virtual keyboard.\<close>

definition pressed_keys :: "mapper \<Rightarrow> output_key set" where
  "pressed_keys m = ran (sources m)"

text \<open>
  What a host sees of an event list: a key press is only meaningful for a key that is up, a
  release for one that is down; \<open>None\<close> is a redundant event.
\<close>

fun key_effect :: "output_event list \<Rightarrow> output_key set \<Rightarrow> output_key set option" where
  "key_effect [] K = Some K"
| "key_effect (Key k True # evs) K = (if k \<in> K then None else key_effect evs (insert k K))"
| "key_effect (Key k False # evs) K = (if k \<in> K then key_effect evs (K - {k}) else None)"
| "key_effect (MouseMove _ _ # evs) K = key_effect evs K"

lemma key_effect_append:
  "key_effect (xs @ ys) K = Option.bind (key_effect xs K) (key_effect ys)"
  by (induction xs K rule: key_effect.induct) auto

lemma key_effect_releases:
  assumes "distinct ks" and "set ks = K"
  shows "key_effect (map (\<lambda>k. Key k False) ks) K = Some {}"
  using assms by (induction ks arbitrary: K) auto

lemma count_of_eq_None [simp]: "count_of n = None \<longleftrightarrow> n = 0"
  by (simp add: count_of_def)

lemma count_of_eq_Some [simp]: "count_of n = Some c \<longleftrightarrow> n = c \<and> 0 < c"
  by (auto simp: count_of_def)

lemma finite_holders: "mapper_inv m \<Longrightarrow> finite (holders m key)"
  by (rule finite_subset[of _ "dom (sources m)"]) (auto simp: mapper_inv_def holders_def)

lemma pressed_iff: "key \<in> pressed_keys m \<longleftrightarrow> holders m key \<noteq> {}"
  by (auto simp: pressed_keys_def holders_def ran_def)

lemma mapper_inv_counts:
  "mapper_inv m \<Longrightarrow> output_counts m key = count_of (card (holders m key))"
  by (simp add: mapper_inv_def)

lemma pressed_counts:
  assumes "mapper_inv m"
  shows "dom (output_counts m) = pressed_keys m"
  using assms finite_holders[OF assms]
  by (auto simp: mapper_inv_counts dom_def pressed_iff card_eq_0_iff)

lemma mapper_inv_default: "mapper_inv Mapper_default"
  by (simp add: mapper_inv_def Mapper_default_def holders_def count_of_def)

text \<open>One operation on the mapper with the events it emits: the invariant is kept and the
  events are exactly the changes of the held keys.\<close>

definition tracks :: "mapper \<Rightarrow> mapper \<times> output_event list \<Rightarrow> bool" where
  "tracks m r \<longleftrightarrow>
     mapper_inv (fst r) \<and> key_effect (snd r) (pressed_keys m) = Some (pressed_keys (fst r))"

lemma tracks_refl: "mapper_inv m \<Longrightarrow> tracks m (m, [])"
  by (simp add: tracks_def)

lemma tracks_seq:
  assumes "tracks m (m', evs)" and "tracks m' (m'', evs')"
  shows "tracks m (m'', evs @ evs')"
  using assms by (simp add: tracks_def key_effect_append)

lemma holders_press:
  assumes "sources m s = None"
  shows "holders (m\<lparr>sources := (sources m)(s \<mapsto> key)\<rparr>) k =
    (if k = key then insert s (holders m k) else holders m k)"
  using assms by (auto simp: holders_def)

lemma holders_release:
  assumes "sources m s = Some key"
  shows "holders (m\<lparr>sources := (sources m)(s := None)\<rparr>) k =
    (if k = key then holders m k - {s} else holders m k)"
  using assms by (auto simp: holders_def)

lemma holders_counts_update [simp]:
  "holders (m\<lparr>output_counts := c\<rparr>) k = holders m k"
  "holders (m\<lparr>right_sticks := r\<rparr>) k = holders m k"
  "holders (m\<lparr>active := a\<rparr>) k = holders m k"
  by (simp_all add: holders_def)

lemma mapper_invI:
  assumes "mapper_inv m" and "active m' = active m"
    and "finite (dom (sources m'))"
    and "\<And>k. output_counts m' k = count_of (card (holders m' k))"
    and "\<And>s k. sources m' s = Some k \<Longrightarrow> output_for (snd s) = Some k"
    and "\<not> active m \<Longrightarrow> sources m' = Map.empty \<and> right_sticks m' = Map.empty"
  shows "mapper_inv m'"
  using assms by (simp add: mapper_inv_def)

lemma release_source_inv:
  assumes inv: "mapper_inv m" and src: "sources m s = Some key"
    and m': "m' = m\<lparr>sources := (sources m)(s := None),
        output_counts := (output_counts m)(key := count_of (card (holders m key - {s})))\<rparr>"
  shows "mapper_inv m'"
    and "pressed_keys m' = (if holders m key = {s} then pressed_keys m - {key} else pressed_keys m)"
proof -
  have h: "holders m' k = (if k = key then holders m k - {s} else holders m k)" for k
    using holders_release[OF src, of k] by (simp add: m' holders_def)
  show "mapper_inv m'"
  proof (rule mapper_invI[OF inv])
    show "finite (dom (sources m'))"
      using inv by (simp add: m' mapper_inv_def)
    show "output_counts m' k = count_of (card (holders m' k))" for k
      using mapper_inv_counts[OF inv] unfolding h by (simp add: m')
  qed (use inv src in \<open>auto simp: m' mapper_inv_def split: if_splits\<close>)
  have "s \<in> holders m key" using src by (simp add: holders_def)
  then show "pressed_keys m' = (if holders m key = {s} then pressed_keys m - {key} else pressed_keys m)"
    by (auto simp: pressed_iff h split: if_splits)
qed

lemma release_source_eq:
  assumes inv: "mapper_inv m" and src: "sources m s = Some key"
  shows "Mapper_release_source s m =
    (m\<lparr>sources := (sources m)(s := None),
       output_counts := (output_counts m)(key := count_of (card (holders m key - {s})))\<rparr>,
     if holders m key = {s} then [Key key False] else [])"
proof -
  have s: "s \<in> holders m key" using src by (simp add: holders_def)
  have fin: "finite (holders m key)" by (rule finite_holders[OF inv])
  with s have pos: "0 < card (holders m key)" by (auto simp: card_gt_0_iff)
  then have cnt: "output_counts m key = Some (card (holders m key))"
    by (simp add: mapper_inv_counts[OF inv])
  have one: "card (holders m key) - 1 = 0 \<longleftrightarrow> holders m key = {s}"
    using s fin pos by (auto simp: card_1_singleton_iff dest!: le_antisym intro: card_1_singletonE)
  have minus: "card (holders m key - {s}) = card (holders m key) - 1"
    using s fin by simp
  show ?thesis
    using src cnt one by (auto simp: Mapper_release_source_def Let_def minus count_of_def)
qed

lemma release_source_tracks:
  assumes inv: "mapper_inv m"
  shows "tracks m (Mapper_release_source s m)"
proof (cases "sources m s")
  case None
  then show ?thesis using inv by (simp add: Mapper_release_source_def tracks_refl)
next
  case (Some key)
  have "key \<in> pressed_keys m" unfolding pressed_keys_def using Some by (rule ranI)
  then show ?thesis
    using release_source_inv[OF inv Some refl]
    by (simp add: tracks_def release_source_eq[OF inv Some])
qed

lemma press_source_inv:
  assumes inv: "mapper_inv m" and act: "active m" and key: "output_for (snd s) = Some key"
    and src: "sources m s = None"
    and m': "m' = m\<lparr>sources := (sources m)(s \<mapsto> key),
        output_counts := (output_counts m)(key := Some (Suc (card (holders m key))))\<rparr>"
  shows "mapper_inv m'" and "pressed_keys m' = insert key (pressed_keys m)"
proof -
  have h: "holders m' k = (if k = key then insert s (holders m k) else holders m k)" for k
    using holders_press[OF src, of key k] by (simp add: m' holders_def)
  have s: "s \<notin> holders m key" using src by (simp add: holders_def)
  show "mapper_inv m'"
  proof (rule mapper_invI[OF inv])
    show "finite (dom (sources m'))"
      using inv by (simp add: m' mapper_inv_def)
    show "output_counts m' k = count_of (card (holders m' k))" for k
      using mapper_inv_counts[OF inv] s finite_holders[OF inv] unfolding h
      by (simp add: m' count_of_def)
  qed (use inv act key in \<open>auto simp: m' mapper_inv_def split: if_splits\<close>)
  show "pressed_keys m' = insert key (pressed_keys m)"
    by (auto simp: pressed_iff h)
qed

lemma set_source_tracks:
  assumes inv: "mapper_inv m" and act: "active m" and key: "output_for (snd s) = Some key"
  shows "tracks m (Mapper_set_source s key pressed m)"
proof (cases "pressed \<and> sources m s = None")
  case True
  have "Mapper_set_source s key pressed m =
    (m\<lparr>sources := (sources m)(s \<mapsto> key),
       output_counts := (output_counts m)(key := Some (Suc (card (holders m key))))\<rparr>,
     if key \<in> pressed_keys m then [] else [Key key True])"
    using True mapper_inv_counts[OF inv, of key] finite_holders[OF inv, of key]
    by (auto simp: Mapper_set_source_def Let_def pressed_iff card_eq_0_iff count_of_def
        split: option.splits if_splits)
  then show ?thesis
    using press_source_inv[OF inv act key _ refl] True by (auto simp: tracks_def insert_absorb)
next
  case False
  show ?thesis
  proof (cases pressed)
    case True
    with False obtain k where k: "sources m s = Some k" by auto
    with inv have "output_for (snd s) = Some k" unfolding mapper_inv_def by blast
    with key have "k = key" by simp
    with k have "m\<lparr>sources := (sources m)(s \<mapsto> key)\<rparr> = m"
      by (simp add: fun_upd_idem)
    then show ?thesis
      using True k inv by (simp add: Mapper_set_source_def Let_def tracks_refl)
  next
    case False
    then show ?thesis using inv by (simp add: Mapper_set_source_def release_source_tracks)
  qed
qed

lemma button_tracks: "mapper_inv m \<Longrightarrow> tracks m (Mapper_button d c p m)"
  by (auto simp: Mapper_button_def tracks_refl set_source_tracks split: option.splits)

lemma directional_axis_tracks:
  assumes "mapper_inv m"
  shows "tracks m (Mapper_directional_axis d neg pos v m)"
proof -
  obtain m1 evs where 1: "Mapper_button d neg (v < - DEADZONE) m = (m1, evs)" by force
  obtain m2 evs' where 2: "Mapper_button d pos (DEADZONE < v) m1 = (m2, evs')" by force
  have t1: "tracks m (m1, evs)" using button_tracks[OF assms] 1 by metis
  then have "mapper_inv m1" by (simp add: tracks_def)
  then have "tracks m1 (m2, evs')" using button_tracks 2 by metis
  with t1 have "tracks m (m2, evs @ evs')" by (rule tracks_seq)
  then show ?thesis
    using 1 2 assms by (simp add: Mapper_directional_axis_def tracks_refl)
qed

lemma pressed_keys_right_sticks [simp]: "pressed_keys (m\<lparr>right_sticks := r\<rparr>) = pressed_keys m"
  by (simp add: pressed_keys_def)

lemma right_stick_axis_tracks:
  assumes "mapper_inv m"
  shows "tracks m (Mapper_right_stick_axis d h v m, [])"
  using assms
  by (auto simp: Mapper_right_stick_axis_def tracks_def mapper_inv_def holders_def pressed_keys_def
      split: prod.splits option.splits)

lemma release_sources_tracks:
  "mapper_inv m \<Longrightarrow> tracks m (release_sources ss m)"
proof (induction ss arbitrary: m)
  case Nil
  then show ?case by (simp add: tracks_refl)
next
  case (Cons s ss)
  obtain m1 evs where 1: "Mapper_release_source s m = (m1, evs)" by force
  obtain m2 evs' where 2: "release_sources ss m1 = (m2, evs')" by force
  have t1: "tracks m (m1, evs)" using release_source_tracks[OF Cons.prems] 1 by metis
  then have "mapper_inv m1" by (simp add: tracks_def)
  then have "tracks m1 (m2, evs')" using Cons.IH 2 by metis
  with t1 show ?case using tracks_seq by (simp add: 1 2)
qed

lemma remove_device_tracks:
  assumes "mapper_inv m"
  shows "tracks m (Mapper_remove_device order d m)"
proof -
  have inv: "mapper_inv (m\<lparr>right_sticks := (right_sticks m)(d := None)\<rparr>)"
    using assms by (simp add: mapper_inv_def)
  show ?thesis
    unfolding Mapper_remove_device_def Let_def
    using release_sources_tracks[OF inv] by (simp add: tracks_def)
qed

lemma set_active_tracks:
  assumes inv: "mapper_inv m" and order: "iteration_order order (output_counts m)"
  shows "tracks m (Mapper_set_active order act m)"
proof -
  have "key_effect (map (\<lambda>k. Key k False) (visited order (output_counts m))) (pressed_keys m) = Some {}"
    using order by (simp add: key_effect_releases pressed_counts[OF inv])
  then show ?thesis
    using inv
    by (auto simp: Mapper_set_active_def tracks_def mapper_inv_def holders_def count_of_def
        pressed_keys_def Let_def)
qed

lemma map_key_tracks: "mapper_inv m \<Longrightarrow> tracks m (map_key d code v m)"
  by (simp add: map_key_def tracks_refl button_tracks split: option.splits)

lemma map_axis_tracks: "mapper_inv m \<Longrightarrow> tracks m (map_axis d code v rng m)"
  by (cases code)
     (simp_all add: tracks_refl button_tracks directional_axis_tracks right_stick_axis_tracks)

section \<open>The virtual keyboard as a contract\<close>

text \<open>
  The operations the broker drives the mapper with, as one step function. The hash orders are
  part of the input; \<open>mapper_ok\<close> says they are possible.
\<close>

datatype mapper_op =
    SetActive "output_key list" bool
  | MapKey nat key_code int
  | MapAxis nat axis int "axis_range option"
  | RemoveDevice "source list" nat

fun mapper_step :: "mapper_op \<Rightarrow> mapper \<Rightarrow> mapper \<times> output_event list" where
  "mapper_step (SetActive order act) m = Mapper_set_active order act m"
| "mapper_step (MapKey d code v) m = map_key d code v m"
| "mapper_step (MapAxis d code v rng) m = map_axis d code v rng m"
| "mapper_step (RemoveDevice order d) m = Mapper_remove_device order d m"

fun mapper_ok :: "mapper_op \<Rightarrow> mapper \<Rightarrow> bool" where
  "mapper_ok (SetActive order act) m = iteration_order order (output_counts m)"
| "mapper_ok (RemoveDevice order d) m = iteration_order order (sources m)"
| "mapper_ok _ m = True"

text \<open>
  A provider of key events: each operation keeps the invariant and emits exactly the changes
  of its held keys. Then any run does, from its first state to its last.
\<close>

locale key_provider =
  fixes op :: "'i \<Rightarrow> 's \<Rightarrow> 's \<times> output_event list"
    and ok :: "'i \<Rightarrow> 's \<Rightarrow> bool"
    and inv :: "'s \<Rightarrow> bool"
    and held :: "'s \<Rightarrow> output_key set"
  assumes op_inv: "inv s \<Longrightarrow> ok i s \<Longrightarrow> inv (fst (op i s))"
    and op_effect: "inv s \<Longrightarrow> ok i s \<Longrightarrow> key_effect (snd (op i s)) (held s) = Some (held (fst (op i s)))"
begin

lemma run_inv: "run_ok ok op is s \<Longrightarrow> inv s \<Longrightarrow> inv (fst (run_ops op is s))"
  using op_inv by (rule run_ops_inv)

lemma run_effect:
  "run_ok ok op is s \<Longrightarrow> inv s \<Longrightarrow>
     key_effect (snd (run_ops op is s)) (held s) = Some (held (fst (run_ops op is s)))"
  by (induction "is" arbitrary: s)
     (auto simp: key_effect_append op_effect op_inv simp del: run_ops.simps(2))

end

interpretation mapper_keys: key_provider mapper_step mapper_ok mapper_inv pressed_keys
proof
  fix s i assume inv: "mapper_inv s" and ok: "mapper_ok i s"
  have "tracks s (mapper_step i s)"
    using inv ok
    by (cases i) (simp_all add: set_active_tracks map_key_tracks map_axis_tracks remove_device_tracks)
  then show "mapper_inv (fst (mapper_step i s))"
    and "key_effect (snd (mapper_step i s)) (pressed_keys s) = Some (pressed_keys (fst (mapper_step i s)))"
    by (simp_all add: tracks_def)
qed

lemma mapper_active_frame [simp]:
  "active (fst (Mapper_button d c p m)) = active m"
  "active (fst (Mapper_directional_axis d n q v m)) = active m"
  "active (Mapper_right_stick_axis d hor v m) = active m"
proof -
  have rel: "active (fst (Mapper_release_source s m)) = active m" for s m
    by (auto simp: Mapper_release_source_def Let_def split: option.splits)
  have button: "active (fst (Mapper_button d c p m)) = active m" for d c p m
    by (auto simp: Mapper_button_def Mapper_set_source_def Let_def rel split: option.splits)
  show "active (fst (Mapper_button d c p m)) = active m" by (rule button)
  show "active (fst (Mapper_directional_axis d n q v m)) = active m"
    by (simp add: Mapper_directional_axis_def split_beta Let_def button)
  show "active (Mapper_right_stick_axis d hor v m) = active m"
    by (simp add: Mapper_right_stick_axis_def split_beta Let_def)
qed

lemma map_key_active [simp]: "active (fst (map_key d code v m)) = active m"
  by (simp add: map_key_def split: option.splits)

lemma map_axis_active [simp]: "active (fst (map_axis d code v rng m)) = active m"
  by (cases code) simp_all

section \<open>What the mapper guarantees\<close>

text \<open>
  C23: whatever the controllers do, the key events the mapper emits from its start are exactly
  the changes of the set of keys its sources hold (no key is pressed twice or released while
  up), and once mapping is off every key it ever pressed has been released.
\<close>

theorem mapper_events_are_key_changes:
  assumes "run_ok mapper_ok mapper_step ops Mapper_default"
    and "run_ops mapper_step ops Mapper_default = (m, evs)"
  shows "key_effect evs {} = Some (pressed_keys m) \<and> (\<not> active m \<longrightarrow> key_effect evs {} = Some {})"
proof -
  have "mapper_inv m" and "key_effect evs {} = Some (pressed_keys m)"
    using mapper_keys.run_inv[OF assms(1) mapper_inv_default]
      mapper_keys.run_effect[OF assms(1) mapper_inv_default] assms(2)
    by (simp_all add: pressed_keys_def Mapper_default_def)
  then show ?thesis
    by (auto simp: mapper_inv_def pressed_keys_def)
qed

text \<open>South and Start hold Enter together; the key stays down until mapping stops.\<close>

definition mapper_demo :: "mapper_op list" where
  "mapper_demo = [SetActive [] True, MapKey 1 BTN_SOUTH 1, MapKey 2 BTN_START 1, MapKey 1 BTN_SOUTH 0,
     MapAxis 1 ABS_X (- 32768) (Some \<lparr>minimum = - 32768, maximum = 32767\<rparr>),
     SetActive [Left, Enter] False]"

lemmas mapper_eval =
  mapper_demo_def Mapper_default_def Mapper_set_active_def map_key_def Mapper_button_def
  Mapper_set_source_def Mapper_release_source_def Mapper_directional_axis_def
  normalize_centered_def clamp_int_def signed_divide_int_def iteration_order_def visited_def
  DEADZONE_def dom_def

theorem mapper_events_are_key_changes_witness:
  "run_ok mapper_ok mapper_step mapper_demo Mapper_default
   \<and> snd (run_ops mapper_step mapper_demo Mapper_default)
      = [Key Enter True, Key Left True, Key Left False, Key Enter False]
   \<and> key_effect (snd (run_ops mapper_step mapper_demo Mapper_default)) {} = Some {}"
proof -
  have ok: "run_ok mapper_ok mapper_step mapper_demo Mapper_default"
    and run: "run_ops mapper_step mapper_demo Mapper_default =
      (Mapper_default, [Key Enter True, Key Left True, Key Left False, Key Enter False])"
    by (auto simp: mapper_eval)
  have off: "\<not> active Mapper_default" by (simp add: Mapper_default_def)
  show ?thesis
    using ok off mapper_events_are_key_changes[OF ok run] by (simp add: run)
qed

lemma release_source_sources:
  "sources (fst (Mapper_release_source s m)) = (sources m)(s := None)"
  by (auto simp: Mapper_release_source_def Let_def fun_upd_idem split: option.splits)

lemma release_sources_sources:
  "sources (fst (release_sources ss m)) = (\<lambda>s. if s \<in> set ss then None else sources m s)"
  by (induction ss arbitrary: m)
     (auto simp: split_beta Let_def release_source_sources fun_eq_iff)

lemma release_source_frame [simp]:
  "right_sticks (fst (Mapper_release_source s m)) = right_sticks m"
  "active (fst (Mapper_release_source s m)) = active m"
  by (auto simp: Mapper_release_source_def Let_def split: option.splits)

lemma release_sources_frame [simp]:
  "right_sticks (fst (release_sources ss m)) = right_sticks m"
  "active (fst (release_sources ss m)) = active m"
  by (induction ss arbitrary: m) (auto simp: split_beta Let_def)

text \<open>
  Removing a disconnected device drops exactly that device's sources and stick, leaves the
  other devices' alone, and releases exactly the keys that no other device still holds.
\<close>

theorem remove_device_is_local:
  assumes inv: "mapper_inv m" and order: "iteration_order order (sources m)"
    and result: "Mapper_remove_device order d m = (m', evs)"
  shows "sources m' = (\<lambda>s. if fst s = d then None else sources m s)
    \<and> right_sticks m' = (right_sticks m)(d := None)
    \<and> key_effect evs (pressed_keys m) = Some {key. \<exists>s. fst s \<noteq> d \<and> sources m s = Some key}"
proof -
  let ?m = "m\<lparr>right_sticks := (right_sticks m)(d := None)\<rparr>"
  let ?ss = "filter (\<lambda>(e, _). e = d) (visited order (sources m))"
  have m': "m' = fst (release_sources ?ss ?m)"
    using result by (simp add: Mapper_remove_device_def)
  have in_ss: "s \<in> set ?ss \<longleftrightarrow> fst s = d \<and> sources m s \<noteq> None" for s
    using set_visited[OF order] by (auto simp: split_beta dom_def)
  have src: "sources m' = (\<lambda>s. if fst s = d then None else sources m s)"
    unfolding m' release_sources_sources fun_eq_iff in_ss by auto
  have "key_effect evs (pressed_keys m) = Some (pressed_keys m')"
    using remove_device_tracks[OF inv, of order d] result by (simp add: tracks_def)
  moreover have "pressed_keys m' = {key. \<exists>s. fst s \<noteq> d \<and> sources m s = Some key}"
    by (auto simp: pressed_keys_def src ran_def)
  ultimately show ?thesis
    using src by (simp add: m')
qed

definition two_pads :: mapper where
  "two_pads = fst (run_ops mapper_step
     [SetActive [] True, MapKey 1 BTN_SOUTH 1, MapKey 2 BTN_SOUTH 1, MapKey 1 BTN_EAST 1] Mapper_default)"

theorem remove_device_is_local_witness:
  "let m = two_pads; order = [(1, South), (2, South), (1, East)] in
     mapper_inv m \<and> iteration_order order (sources m)
     \<and> key_effect (snd (Mapper_remove_device order 1 m)) (pressed_keys m) = Some {Enter}
     \<and> snd (Mapper_remove_device order 1 m) = [Key Escape False]"
proof -
  have two: "two_pads = \<lparr>active = True,
      sources = [(1, South) \<mapsto> Enter, (2, South) \<mapsto> Enter, (1, East) \<mapsto> Escape],
      output_counts = [Enter \<mapsto> 2, Escape \<mapsto> 1], right_sticks = Map.empty\<rparr>"
    by (simp add: two_pads_def mapper_eval numeral_2_eq_2)
  have inv: "mapper_inv two_pads"
    unfolding two_pads_def
    by (rule mapper_keys.run_inv[OF _ mapper_inv_default]) (simp add: mapper_eval)
  have order: "iteration_order [(1, South), (2, South), (1, East)] (sources two_pads)"
    by (auto simp: two iteration_order_def split: if_splits)
  have evs: "snd (Mapper_remove_device [(1, South), (2, South), (1, East)] 1 two_pads) = [Key Escape False]"
    by (simp add: two Mapper_remove_device_def mapper_eval)
  have "{key. \<exists>s. fst s \<noteq> (1::nat) \<and> sources two_pads s = Some key} = {Enter}"
    by (auto simp: two split: if_splits)
  then have "key_effect (snd (Mapper_remove_device [(1, South), (2, South), (1, East)] 1 two_pads))
      (pressed_keys two_pads) = Some {Enter}"
    using remove_device_is_local[OF inv order prod.collapse[symmetric], of 1] by metis
  with inv order evs show ?thesis unfolding Let_def by blast
qed

definition is_i32 :: "int \<Rightarrow> bool" where
  "is_i32 x \<longleftrightarrow> - (2 ^ 31) \<le> x \<and> x < 2 ^ 31"

definition is_i64 :: "int \<Rightarrow> bool" where
  "is_i64 x \<longleftrightarrow> - (2 ^ 63) \<le> x \<and> x < 2 ^ 63"

text \<open>
  An axis reading is normalised into \<open>-1000..1000\<close> (a trigger into \<open>0..1000\<close>) for every
  range a device may report, and for \<^verbatim>\<open>i32\<close> inputs no \<^verbatim>\<open>i64\<close> intermediate value overflows, so
  the narrowing cast keeps the value.
\<close>

theorem normalize_bounds:
  assumes "is_i32 v" and "is_i32 lo" and "is_i32 hi"
  shows "normalize_centered v rng \<in> {- 1000..1000}
    \<and> normalize_trigger v rng \<in> {0..1000}
    \<and> is_i64 ((v - (lo + hi) sdiv 2) * 1000)
    \<and> is_i64 ((v - lo) * 1000)"
proof -
  have "2 * \<bar>(lo + hi) sdiv 2\<bar> \<le> \<bar>lo + hi\<bar>"
    using sdiv_bounds_pos[of 2 "lo + hi"] by simp
  then have "\<bar>(lo + hi) sdiv 2\<bar> \<le> 2 ^ 31"
    using assms by (auto simp: is_i32_def)
  then have "is_i64 ((v - (lo + hi) sdiv 2) * 1000)"
    using assms by (auto simp: is_i32_def is_i64_def)
  moreover have "is_i64 ((v - lo) * 1000)"
    using assms by (auto simp: is_i32_def is_i64_def)
  ultimately show ?thesis
    by (auto simp: normalize_centered_def normalize_trigger_def clamp_int_def Let_def split: option.splits)
qed

theorem normalize_bounds_witness:
  "normalize_centered 32767 (Some \<lparr>minimum = - 32768, maximum = 32767\<rparr>) \<in> {- 1000..1000}
   \<and> normalize_centered 32767 (Some \<lparr>minimum = - 32768, maximum = 32767\<rparr>) = 1000
   \<and> is_i64 ((2147483647 - (- 2147483648 + - 2147483648) sdiv 2) * 1000)"
proof -
  have "is_i32 2147483647" and "is_i32 (- 2147483648)" and "is_i32 32767"
    by (simp_all add: is_i32_def)
  then show ?thesis
    using normalize_bounds[of 2147483647 "- 2147483648" "- 2147483648"]
      normalize_bounds[of 32767 "- 2147483648" "- 2147483648" "Some \<lparr>minimum = - 32768, maximum = 32767\<rparr>"]
    by (simp add: normalize_centered_def clamp_int_def signed_divide_int_def)
qed

end
