(* ===== verification/Ownership.thy ===== *)
theory Ownership
  imports Protocol_Input Mapping_Keys
begin

text \<open>
  The ownership state machine of the input service,
  \<^verbatim>\<open>hearthdeck-input/src/ownership.rs\<close>: who receives the controllers' presses, which pads are
  armed, and how presses become semantic signals (chords, single actions, repeats). Times are
  milliseconds since the service started (\<^verbatim>\<open>u64\<close>, which does not wrap within the life of a
  process); device ids are the broker's counters.
\<close>

datatype owner = Observe | Frontend | TextEntry | Desktop | Overlay | Keyboard

datatype signal = Action action | Keyboard

record pad =
  held :: "control set"
  armed :: bool
  guide_used :: bool
  select_used :: bool
  start_used :: bool
  repeat :: "(action \<times> nat) option"

definition Pad_default :: pad where
  "Pad_default = \<lparr>held = {}, armed = False, guide_used = False, select_used = False,
     start_used = False, repeat = None\<rparr>"

record ownership =
  owner :: owner
  pads :: "nat \<rightharpoonup> pad"

definition Ownership_default :: ownership where
  "Ownership_default = \<lparr>owner = owner.Observe, pads = Map.empty\<rparr>"

definition Pad_suspend :: "pad \<Rightarrow> pad" where
  "Pad_suspend p = p\<lparr>armed := False, repeat := None, guide_used := True, select_used := True,
     start_used := True\<rparr>"

definition Ownership_suspend :: "ownership \<Rightarrow> ownership" where
  "Ownership_suspend s = s\<lparr>pads := (\<lambda>dev. map_option Pad_suspend (pads s dev))\<rparr>"

definition Ownership_set_owner :: "owner \<Rightarrow> ownership \<Rightarrow> ownership" where
  "Ownership_set_owner o' s =
     (if owner s \<noteq> o' then Ownership_suspend (s\<lparr>owner := o'\<rparr>) else s)"

definition Ownership_remove :: "nat \<Rightarrow> ownership \<Rightarrow> ownership" where
  "Ownership_remove dev s = s\<lparr>pads := (pads s)(dev := None)\<rparr>"

definition Ownership_armed :: "nat \<Rightarrow> ownership \<Rightarrow> bool" where
  "Ownership_armed dev s = (case pads s dev of None \<Rightarrow> False | Some p \<Rightarrow> armed p)"

definition Ownership_guide_held :: "nat \<Rightarrow> ownership \<Rightarrow> bool" where
  "Ownership_guide_held dev s = (case pads s dev of None \<Rightarrow> False | Some p \<Rightarrow> Guide \<in> held p)"

text \<open>The private function \<^verbatim>\<open>action\<close> of the source.\<close>

fun control_action :: "control \<Rightarrow> action option" where
  "control_action South = Some Confirm"
| "control_action East = Some Back"
| "control_action West = Some ContextMenu"
| "control_action North = Some Search"
| "control_action LeftBumper = Some PrevGroup"
| "control_action RightBumper = Some NextGroup"
| "control_action LeftTrigger = Some PrevTab"
| "control_action RightTrigger = Some NextTab"
| "control_action DpadUp = Some MoveUp"
| "control_action StickUp = Some MoveUp"
| "control_action DpadDown = Some MoveDown"
| "control_action StickDown = Some MoveDown"
| "control_action DpadLeft = Some MoveLeft"
| "control_action StickLeft = Some MoveLeft"
| "control_action DpadRight = Some MoveRight"
| "control_action StickRight = Some MoveRight"
| "control_action _ = None"

definition moves :: "action set" where
  "moves = {MoveUp, MoveDown, MoveLeft, MoveRight}"

text \<open>
  The body of \<^verbatim>\<open>Ownership::button\<close> on the pad it looked up. The last branch is reached with
  the chord bookkeeping of the frontend branch already done, so that branch hands its pad on.
\<close>

definition Pad_action_button ::
  "control \<Rightarrow> bool \<Rightarrow> nat \<Rightarrow> pad \<Rightarrow> pad \<times> signal list" where
  "Pad_action_button control pressed now p =
     (case control_action control of
        None \<Rightarrow> (p, [])
      | Some a \<Rightarrow>
          if \<not> pressed then
            (case repeat p of
               Some (act, _) \<Rightarrow> (if act = a then p\<lparr>repeat := None\<rparr> else p, [])
             | None \<Rightarrow> (p, []))
          else
            (if a \<in> moves then p\<lparr>repeat := Some (a, now + 400)\<rparr> else p, [signal.Action a]))"

definition Pad_frontend_button ::
  "control \<Rightarrow> bool \<Rightarrow> nat \<Rightarrow> pad \<Rightarrow> pad \<times> signal list" where
  "Pad_frontend_button control pressed now p =
     (let p = (if pressed \<and> control = Start then p\<lparr>start_used := False\<rparr> else p);
          p = (if pressed \<and> control = Select then p\<lparr>select_used := False\<rparr> else p) in
      if pressed \<and> control \<in> {Start, Select} \<and> Start \<in> held p \<and> Select \<in> held p
         \<and> \<not> start_used p \<and> \<not> select_used p
      then (p\<lparr>start_used := True, select_used := True\<rparr>, [signal.Action action.Keyboard])
      else if control = Select \<and> \<not> pressed \<and> \<not> select_used p
      then (p, [signal.Action FilterPanel])
      else Pad_action_button control pressed now p)"

definition Pad_button ::
  "owner \<Rightarrow> control \<Rightarrow> bool \<Rightarrow> nat \<Rightarrow> bool \<Rightarrow> pad \<Rightarrow> pad \<times> signal list" where
  "Pad_button ow control pressed now keyboard_enabled p =
     (let changed = (if pressed then control \<notin> held p else control \<in> held p);
          p = p\<lparr>held := (if pressed then insert control (held p) else held p - {control})\<rparr> in
      if \<not> changed \<or> \<not> armed p then (p, [])
      else if control = Guide then
        (if pressed then (p\<lparr>guide_used := False, repeat := None\<rparr>, [])
         else if \<not> guide_used p then (p, [signal.Action ToggleOverlay])
         else (p, []))
      else if pressed \<and> control = West \<and> Guide \<in> held p then
        (if \<not> guide_used p \<and> keyboard_enabled \<and> ow \<in> {owner.Observe, owner.Desktop}
         then (p\<lparr>guide_used := True\<rparr>, [signal.Keyboard])
         else (p, []))
      else if Guide \<in> held p then (p, [])
      else if ow = owner.TextEntry then
        (p, if control = East \<and> pressed then [signal.Action Back] else [])
      else if ow \<notin> {owner.Frontend, owner.Overlay} then (p, [])
      else if ow = owner.Frontend then Pad_frontend_button control pressed now p
      else Pad_action_button control pressed now p)"

definition Ownership_button ::
  "nat \<Rightarrow> control \<Rightarrow> bool \<Rightarrow> nat \<Rightarrow> bool \<Rightarrow> ownership \<Rightarrow> ownership \<times> signal list" where
  "Ownership_button dev control pressed now keyboard_enabled s =
     (let p = (case pads s dev of None \<Rightarrow> Pad_default | Some p \<Rightarrow> p);
          (p, signals) = Pad_button (owner s) control pressed now keyboard_enabled p
      in (s\<lparr>pads := (pads s)(dev \<mapsto> p)\<rparr>, signals))"

text \<open>\<^verbatim>\<open>Ownership::tick\<close>: the loop body on one pad, and the loop in hash order.\<close>

definition Pad_tick :: "nat \<Rightarrow> pad \<Rightarrow> pad \<times> signal list" where
  "Pad_tick now p =
     (let p = (if \<not> armed p \<and> held p = {} then p\<lparr>armed := True\<rparr> else p) in
      case repeat p of
        None \<Rightarrow> (p, [])
      | Some (a, at) \<Rightarrow>
          if armed p \<and> now \<ge> at
          then (p\<lparr>repeat := Some (a, now + 180)\<rparr>, [signal.Action a])
          else (p, []))"

fun tick_pads :: "nat list \<Rightarrow> nat \<Rightarrow> ownership \<Rightarrow> ownership \<times> signal list" where
  "tick_pads [] now s = (s, [])"
| "tick_pads (dev # ids) now s =
     (case pads s dev of
        None \<Rightarrow> tick_pads ids now s
      | Some p \<Rightarrow>
          let (p, evs) = Pad_tick now p;
              (s, rest) = tick_pads ids now (s\<lparr>pads := (pads s)(dev \<mapsto> p)\<rparr>)
          in (s, evs @ rest))"

definition Ownership_tick :: "nat list \<Rightarrow> nat \<Rightarrow> ownership \<Rightarrow> ownership \<times> signal list" where
  "Ownership_tick order now s = tick_pads order now s"

section \<open>The machine\<close>

datatype ownership_op =
    SetOwner owner | Suspend | Remove nat
  | Button nat control bool nat bool
  | Tick "nat list" nat

fun ownership_step :: "ownership_op \<Rightarrow> ownership \<Rightarrow> ownership \<times> signal list" where
  "ownership_step (SetOwner o') s = (Ownership_set_owner o' s, [])"
| "ownership_step Suspend s = (Ownership_suspend s, [])"
| "ownership_step (Remove dev) s = (Ownership_remove dev s, [])"
| "ownership_step (Button dev c p now kb) s = Ownership_button dev c p now kb s"
| "ownership_step (Tick order now) s = Ownership_tick order now s"

fun ownership_ok :: "ownership_op \<Rightarrow> ownership \<Rightarrow> bool" where
  "ownership_ok (Tick order now) s = iteration_order order (pads s)"
| "ownership_ok _ s = True"

section \<open>Pad invariant\<close>

text \<open>
  A repeat is only ever pending on an armed pad that still holds a control of that direction,
  with Guide up and a navigating owner.
\<close>

definition pad_inv :: "owner \<Rightarrow> pad \<Rightarrow> bool" where
  "pad_inv ow p \<longleftrightarrow>
     (case repeat p of
        None \<Rightarrow> True
      | Some (a, _) \<Rightarrow> armed p \<and> a \<in> moves \<and> (\<exists>c\<in>held p. control_action c = Some a)
          \<and> Guide \<notin> held p \<and> ow \<in> {owner.Frontend, owner.Overlay})"

definition ownership_inv :: "ownership \<Rightarrow> bool" where
  "ownership_inv s \<longleftrightarrow> (\<forall>dev p. pads s dev = Some p \<longrightarrow> pad_inv (owner s) p)"

lemma pad_inv_no_repeat [simp]: "repeat p = None \<Longrightarrow> pad_inv ow p"
  by (simp add: pad_inv_def)

lemma pad_inv_default [simp]: "pad_inv ow Pad_default"
  by (simp add: Pad_default_def)

lemma pad_inv_suspend [simp]: "pad_inv ow (Pad_suspend p)"
  by (simp add: Pad_suspend_def)

lemma pad_inv_unarmed: "pad_inv ow p \<Longrightarrow> \<not> armed p \<Longrightarrow> repeat p = None"
  by (auto simp: pad_inv_def split: option.splits)

lemma moves_control: "control_action c = Some a \<Longrightarrow> a \<in> moves \<Longrightarrow> c \<notin> {Start, Select, Guide, West}"
  by (cases c) (auto simp: moves_def)

lemma pad_inv_used [simp]:
  "pad_inv ow (p\<lparr>guide_used := b\<rparr>) = pad_inv ow p"
  "pad_inv ow (p\<lparr>start_used := b\<rparr>) = pad_inv ow p"
  "pad_inv ow (p\<lparr>select_used := b\<rparr>) = pad_inv ow p"
  by (cases "repeat p"; simp add: pad_inv_def split_beta)+

text \<open>An edge of a control that is no direction (or is pressed) keeps the invariant.\<close>

lemma pad_inv_edge:
  assumes "pad_inv ow q" and "repeat p = repeat q" and "armed p = armed q"
    and "held p = (if pressed then insert c (held q) else held q - {c})" and "c \<noteq> Guide"
    and "pressed \<or> (\<forall>a\<in>moves. control_action c \<noteq> Some a)"
  shows "pad_inv ow p"
proof (cases "repeat q")
  case None
  then show ?thesis using assms(2) by simp
next
  case (Some r)
  obtain a t where r: "r = (a, t)" by force
  from assms(1) Some r obtain d where d: "d \<in> held q" "control_action d = Some a"
    and rest: "armed q" "a \<in> moves" "Guide \<notin> held q" "ow \<in> {owner.Frontend, owner.Overlay}"
    by (auto simp: pad_inv_def)
  have "d \<in> held p" using assms(4,6) d rest(2) by auto
  moreover have "Guide \<notin> held p" using assms(4,5) rest(3) by auto
  ultimately show ?thesis
    using Some r d(2) rest assms(2,3) by (auto simp: pad_inv_def)
qed

text \<open>The tail of the button handler, on a pad whose held set already has the edge.\<close>

lemma action_button_inv:
  assumes "repeat p = repeat q" and "held p = (if pressed then insert c (held q) else held q - {c})"
    and "pad_inv ow q" and "armed p" and "Guide \<notin> held p" and "ow \<in> {owner.Frontend, owner.Overlay}"
    and "c \<noteq> Guide"
  shows "pad_inv ow (fst (Pad_action_button c pressed now p))"
  using assms
  by (auto simp: pad_inv_def Pad_action_button_def split: option.splits if_splits)

lemma frontend_button_inv:
  assumes "repeat p = repeat q" and "held p = (if pressed then insert c (held q) else held q - {c})"
    and "pad_inv owner.Frontend q" and "armed p" and "armed q" and "Guide \<notin> held p" and "c \<noteq> Guide"
  shows "pad_inv owner.Frontend (fst (Pad_frontend_button c pressed now p))"
proof -
  define p1 where "p1 = (if pressed \<and> c = Start then p\<lparr>start_used := False\<rparr> else p)"
  define p2 where "p2 = (if pressed \<and> c = Select then p1\<lparr>select_used := False\<rparr> else p1)"
  have p2: "repeat p2 = repeat q" "held p2 = held p" "armed p2"
    using assms by (simp_all add: p1_def p2_def)
  have act: "pad_inv owner.Frontend (fst (Pad_action_button c pressed now p2))"
    using p2(1) _ assms(3)
    by (rule action_button_inv) (use assms p2 in simp_all)
  have chord: "pad_inv owner.Frontend p2" if "c \<in> {Start, Select}"
    by (rule pad_inv_edge[OF assms(3) p2(1), of pressed c]) (use that p2 assms in auto)
  show ?thesis
    unfolding Pad_frontend_button_def p1_def[symmetric] Let_def p2_def[symmetric]
    using act chord by (simp split: if_splits)
qed

lemma pad_button_inv:
  assumes inv: "pad_inv ow p"
  shows "pad_inv ow (fst (Pad_button ow c pressed now kb p))"
proof -
  define q where "q = p\<lparr>held := (if pressed then insert c (held p) else held p - {c})\<rparr>"
  have q: "repeat q = repeat p" "held q = (if pressed then insert c (held p) else held p - {c})"
    "armed q = armed p"
    by (simp_all add: q_def)
  have unarmed: "\<not> armed p \<Longrightarrow> pad_inv ow q"
    using pad_inv_unarmed[OF inv] q by simp
  have unchanged: "(if pressed then c \<in> held p else c \<notin> held p) \<Longrightarrow> q = p"
    by (auto simp: q_def insert_absorb split: if_splits)
  have guide: "Guide \<in> held q \<Longrightarrow> c \<noteq> Guide \<Longrightarrow> pad_inv ow q"
    using inv q by (auto simp: pad_inv_def split: option.splits if_splits)
  have guide_up: "c = Guide \<Longrightarrow> \<not> pressed \<Longrightarrow> c \<in> held p \<Longrightarrow> pad_inv ow q"
    using inv q by (auto simp: pad_inv_def split: option.splits if_splits)
  have idle: "ow \<notin> {owner.Frontend, owner.Overlay} \<Longrightarrow> pad_inv ow q"
    using inv q by (auto simp: pad_inv_def split: option.splits if_splits)
  have act: "armed p \<Longrightarrow> c \<noteq> Guide \<Longrightarrow> Guide \<notin> held q \<Longrightarrow> ow = owner.Overlay \<Longrightarrow>
      pad_inv ow (fst (Pad_action_button c pressed now q))"
    by (rule action_button_inv[OF q(1,2) inv]) (simp_all add: q)
  have front: "armed p \<Longrightarrow> c \<noteq> Guide \<Longrightarrow> Guide \<notin> held q \<Longrightarrow> ow = owner.Frontend \<Longrightarrow>
      pad_inv ow (fst (Pad_frontend_button c pressed now q))"
    using frontend_button_inv[OF q(1,2), of now] inv by (simp add: q)
  show ?thesis
    using inv unarmed unchanged guide guide_up idle act front
    by (auto simp: Pad_button_def Let_def q_def[symmetric] q(3) split: if_splits)
qed

lemma pad_tick_inv: "pad_inv ow p \<Longrightarrow> pad_inv ow (fst (Pad_tick now p))"
  by (auto simp: Pad_tick_def pad_inv_def Let_def split: option.splits)

section \<open>Lookups after an operation\<close>

definition pad_of :: "ownership \<Rightarrow> nat \<Rightarrow> pad" where
  "pad_of s dev = (case pads s dev of None \<Rightarrow> Pad_default | Some p \<Rightarrow> p)"

lemma button_pads [simp]:
  "pads (fst (Ownership_button dev c pr now kb s)) =
     (pads s)(dev \<mapsto> fst (Pad_button (owner s) c pr now kb (pad_of s dev)))"
  "owner (fst (Ownership_button dev c pr now kb s)) = owner s"
  "snd (Ownership_button dev c pr now kb s) = snd (Pad_button (owner s) c pr now kb (pad_of s dev))"
  by (simp_all add: Ownership_button_def pad_of_def split_beta Let_def)

lemma tick_pads_owner [simp]: "owner (fst (tick_pads ids now s)) = owner s"
  by (induction ids arbitrary: s) (auto simp: split_beta Let_def split: option.splits)

lemma tick_pads_lookup:
  "distinct ids \<Longrightarrow> pads (fst (tick_pads ids now s)) dev =
     (if dev \<in> set ids then map_option (\<lambda>p. fst (Pad_tick now p)) (pads s dev) else pads s dev)"
  by (induction ids arbitrary: s) (auto simp: split_beta Let_def split: option.splits)

lemma tick_pads_signals:
  "distinct ids \<Longrightarrow> sig \<in> set (snd (tick_pads ids now s)) \<longleftrightarrow>
     (\<exists>dev\<in>set ids. \<exists>p. pads s dev = Some p \<and> sig \<in> set (snd (Pad_tick now p)))"
proof (induction ids arbitrary: s)
  case Nil
  then show ?case by simp
next
  case (Cons dev ids)
  show ?case
  proof (cases "pads s dev")
    case None
    with Cons show ?thesis by auto
  next
    case (Some p)
    let ?s = "s\<lparr>pads := (pads s)(dev \<mapsto> fst (Pad_tick now p))\<rparr>"
    have same: "d \<in> set ids \<Longrightarrow> pads ?s d = pads s d" for d
      using Cons.prems by auto
    have "sig \<in> set (snd (tick_pads ids now ?s)) \<longleftrightarrow>
      (\<exists>d\<in>set ids. \<exists>q. pads s d = Some q \<and> sig \<in> set (snd (Pad_tick now q)))"
      using Cons.IH[of ?s] Cons.prems same by simp
    with Some show ?thesis by (auto simp: split_beta Let_def)
  qed
qed

lemma tick_lookup [simp]:
  assumes "iteration_order order (pads s)"
  shows "pads (fst (Ownership_tick order now s)) dev = map_option (\<lambda>p. fst (Pad_tick now p)) (pads s dev)"
proof -
  have "dev \<notin> set order \<Longrightarrow> pads s dev = None"
    using assms by (auto simp: iteration_order_def)
  then show ?thesis
    using assms by (auto simp: Ownership_tick_def tick_pads_lookup iteration_order_def)
qed

lemma tick_owner [simp]: "owner (fst (Ownership_tick order now s)) = owner s"
  by (simp add: Ownership_tick_def)

lemma tick_signals:
  assumes "iteration_order order (pads s)"
  shows "sig \<in> set (snd (Ownership_tick order now s)) \<longleftrightarrow>
    (\<exists>dev p. pads s dev = Some p \<and> sig \<in> set (snd (Pad_tick now p)))"
  using assms
  by (auto simp: Ownership_tick_def tick_pads_signals iteration_order_def)

lemma pad_of_inv: "ownership_inv s \<Longrightarrow> pad_inv (owner s) (pad_of s dev)"
  by (auto simp: ownership_inv_def pad_of_def split: option.splits)

lemma ownership_step_inv:
  assumes "ownership_inv s" and "ownership_ok e s"
  shows "ownership_inv (fst (ownership_step e s))"
proof (cases e)
  case (Button dev c pr now kb)
  then show ?thesis
    using assms(1) pad_button_inv[OF pad_of_inv[OF assms(1)]]
    by (auto simp: ownership_inv_def)
next
  case (Tick order now)
  then show ?thesis
    using assms by (auto simp: ownership_inv_def pad_tick_inv)
qed (use assms(1) in \<open>auto simp: ownership_inv_def Ownership_set_owner_def Ownership_suspend_def
       Ownership_remove_def split: if_splits\<close>)

interpretation ownership_machine:
  machine Ownership_default "\<lambda>e s. fst (ownership_step e s)" ownership_ok ownership_inv
  by unfold_locales
     (simp add: ownership_inv_def Ownership_default_def, rule ownership_step_inv)

lemma ownership_run_inv:
  "run_ok ownership_ok ownership_step ops Ownership_default \<Longrightarrow>
     ownership_inv (fst (run_ops ownership_step ops Ownership_default))"
  by (rule run_ops_inv[where P = ownership_inv])
     (auto intro: ownership_machine.step_inv ownership_machine.start_inv)

section \<open>Repeats\<close>

lemma pad_tick_signal:
  assumes "pad_inv ow p" and "sig \<in> set (snd (Pad_tick now p))"
  shows "\<exists>a t. sig = signal.Action a \<and> repeat p = Some (a, t) \<and> t \<le> now"
  using assms by (auto simp: Pad_tick_def Let_def split: option.splits if_splits)

text \<open>
  At any moment of any run, a tick only repeats a direction whose control is still held
  down on an armed pad with Guide up, and only while the frontend or the overlay owns the
  controllers; every other signal is emitted by an edge.
\<close>

theorem tick_repeats_held_directions:
  assumes run: "run_ok ownership_ok ownership_step ops Ownership_default"
    and s: "s = fst (run_ops ownership_step ops Ownership_default)"
    and order: "iteration_order order (pads s)"
    and sig: "sig \<in> set (snd (Ownership_tick order now s))"
  shows "\<exists>dev p c a. pads s dev = Some p \<and> sig = signal.Action a \<and> a \<in> moves \<and> armed p
    \<and> c \<in> held p \<and> control_action c = Some a \<and> Guide \<notin> held p
    \<and> owner s \<in> {owner.Frontend, owner.Overlay}"
proof -
  obtain dev p where p: "pads s dev = Some p" and sp: "sig \<in> set (snd (Pad_tick now p))"
    using sig tick_signals[OF order] by blast
  have "ownership_inv s" using ownership_run_inv[OF run] s by simp
  with p have inv: "pad_inv (owner s) p" by (auto simp: ownership_inv_def)
  with pad_tick_signal[OF inv sp] obtain a t where "sig = signal.Action a" "repeat p = Some (a, t)"
    by blast
  with inv p show ?thesis by (fastforce simp: pad_inv_def)
qed

definition ready_frontend :: "ownership_op list" where
  "ready_frontend = [SetOwner owner.Frontend, Button 1 South False 0 False, Tick [1] 0]"

lemmas ownership_eval =
  ready_frontend_def Ownership_default_def Ownership_set_owner_def Ownership_suspend_def
  Ownership_remove_def Ownership_button_def Ownership_tick_def Pad_default_def Pad_button_def
  Pad_frontend_button_def Pad_action_button_def Pad_tick_def Pad_suspend_def moves_def
  iteration_order_def

theorem tick_repeats_held_directions_witness:
  "let ops = ready_frontend @ [Button 1 DpadDown True 0 False];
       s = fst (run_ops ownership_step ops Ownership_default)
   in run_ok ownership_ok ownership_step ops Ownership_default \<and> iteration_order [1] (pads s)
      \<and> snd (Ownership_tick [1] 400 s) = [signal.Action MoveDown]
      \<and> (\<exists>dev p c a. pads s dev = Some p \<and> signal.Action MoveDown = signal.Action a \<and> a \<in> moves
          \<and> armed p \<and> c \<in> held p \<and> control_action c = Some a \<and> Guide \<notin> held p
          \<and> owner s \<in> {owner.Frontend, owner.Overlay})"
proof -
  define ops where "ops = ready_frontend @ [Button 1 DpadDown True 0 False]"
  define s where "s = fst (run_ops ownership_step ops Ownership_default)"
  have ok: "run_ok ownership_ok ownership_step ops Ownership_default"
    by (auto simp: ops_def ownership_eval)
  have order: "iteration_order [1] (pads s)"
    by (auto simp: s_def ops_def ownership_eval split: if_splits)
  have sig: "snd (Ownership_tick [1] 400 s) = [signal.Action MoveDown]"
    by (simp add: s_def ops_def ownership_eval)
  have mem: "signal.Action MoveDown \<in> set (snd (Ownership_tick [1] 400 s))"
    unfolding sig by simp
  show ?thesis
    unfolding Let_def ops_def[symmetric] s_def[symmetric]
    using ok order sig tick_repeats_held_directions[OF ok s_def order mem] by blast
qed

section \<open>Neutral before delivery\<close>

lemma action_button_frame [simp]:
  "armed (fst (Pad_action_button c pr now p)) = armed p"
  "held (fst (Pad_action_button c pr now p)) = held p"
  "guide_used (fst (Pad_action_button c pr now p)) = guide_used p"
  by (simp_all add: Pad_action_button_def split: option.splits)

lemma frontend_button_frame [simp]:
  "armed (fst (Pad_frontend_button c pr now p)) = armed p"
  "held (fst (Pad_frontend_button c pr now p)) = held p"
  "guide_used (fst (Pad_frontend_button c pr now p)) = guide_used p"
  by (simp_all add: Pad_frontend_button_def Let_def)

lemma pad_button_frame [simp]:
  "armed (fst (Pad_button ow c pr now kb p)) = armed p"
  "held (fst (Pad_button ow c pr now kb p)) = (if pr then insert c (held p) else held p - {c})"
  by (simp_all add: Pad_button_def Let_def)

lemma pad_button_unarmed: "\<not> armed p \<Longrightarrow> snd (Pad_button ow c pr now kb p) = []"
  by (simp add: Pad_button_def Let_def)

lemma pad_tick_armed: "armed (fst (Pad_tick now p)) \<longleftrightarrow> armed p \<or> held p = {}"
  by (auto simp: Pad_tick_def Let_def split: option.splits)

lemma armed_pad_of: "Ownership_armed dev s \<longleftrightarrow> armed (pad_of s dev)"
  by (simp add: Ownership_armed_def pad_of_def Pad_default_def split: option.splits)

text \<open>Only a tick arms a pad, and only one whose held set is empty.\<close>

lemma step_arms:
  assumes "ownership_ok e s" and "\<not> Ownership_armed dev s"
    and "Ownership_armed dev (fst (ownership_step e s))"
  shows "\<exists>order t. e = Tick order t \<and> held (pad_of s dev) = {}"
  using assms
  by (cases e)
     (auto simp: Ownership_armed_def pad_of_def Ownership_set_owner_def Ownership_suspend_def
        Ownership_remove_def Pad_suspend_def Pad_default_def pad_tick_armed
        split: option.splits if_splits)

lemma run_arms:
  assumes "run_ok ownership_ok ownership_step ops s" and "\<not> Ownership_armed dev s"
    and "Ownership_armed dev (fst (run_ops ownership_step ops s))"
  shows "\<exists>pre order t post. ops = pre @ Tick order t # post
    \<and> held (pad_of (fst (run_ops ownership_step pre s)) dev) = {}"
  using assms
proof (induction ops arbitrary: s)
  case Nil
  then show ?case by simp
next
  case (Cons e ops)
  let ?s = "fst (ownership_step e s)"
  show ?case
  proof (cases "Ownership_armed dev ?s")
    case True
    with Cons.prems obtain order t where "e = Tick order t" "held (pad_of s dev) = {}"
      using step_arms[of e s dev] by auto
    then have "e # ops = [] @ Tick order t # ops
        \<and> held (pad_of (fst (run_ops ownership_step [] s)) dev) = {}" by simp
    then show ?thesis by blast
  next
    case False
    with Cons.prems Cons.IH[of ?s] obtain pre order t post where
      "ops = pre @ Tick order t # post" "held (pad_of (fst (run_ops ownership_step pre ?s)) dev) = {}"
      by (auto simp del: run_ops.simps(2))
    then have "e # ops = (e # pre) @ Tick order t # post
        \<and> held (pad_of (fst (run_ops ownership_step (e # pre) s)) dev) = {}"
      by (simp del: run_ops.simps(2))
    then show ?thesis by blast
  qed
qed

lemma set_owner_disarms: "owner s \<noteq> o' \<Longrightarrow> \<not> Ownership_armed dev (Ownership_set_owner o' s)"
  by (simp add: Ownership_armed_def Ownership_set_owner_def Ownership_suspend_def Pad_suspend_def
      split: option.splits)

text \<open>
  C22: after the controllers change owner, a press or release on a pad is delivered only if, at
  some tick since the change, every control of that pad was up: nothing held across the change
  reaches the new owner.
\<close>

theorem neutral_before_delivery:
  assumes change: "owner s0 \<noteq> o'"
    and run: "run_ok ownership_ok ownership_step ops (Ownership_set_owner o' s0)"
    and s: "s = fst (run_ops ownership_step ops (Ownership_set_owner o' s0))"
    and delivered: "snd (Ownership_button dev c pr now kb s) \<noteq> []"
  shows "\<exists>pre order t post. ops = pre @ Tick order t # post
    \<and> held (pad_of (fst (run_ops ownership_step pre (Ownership_set_owner o' s0))) dev) = {}"
proof -
  have "armed (pad_of s dev)"
    using delivered pad_button_unarmed by fastforce
  then have "Ownership_armed dev (fst (run_ops ownership_step ops (Ownership_set_owner o' s0)))"
    by (simp add: armed_pad_of s)
  with run_arms[OF run set_owner_disarms[OF change]] show ?thesis .
qed

definition owner_change_demo :: "ownership_op list" where
  "owner_change_demo = [Button 1 StickUp True 1 False, Tick [1] 2, Button 1 StickUp False 3 False, Tick [1] 4]"

theorem neutral_before_delivery_witness:
  "let s1 = Ownership_set_owner owner.Overlay Ownership_default;
       s = fst (run_ops ownership_step owner_change_demo s1)
   in owner Ownership_default \<noteq> owner.Overlay
     \<and> run_ok ownership_ok ownership_step owner_change_demo s1
     \<and> snd (Ownership_button 1 South True 5 False s) = [signal.Action Confirm]
     \<and> (\<exists>pre order t post. owner_change_demo = pre @ Tick order t # post
          \<and> held (pad_of (fst (run_ops ownership_step pre s1)) 1) = {})"
proof -
  define s1 where "s1 = Ownership_set_owner owner.Overlay Ownership_default"
  define s where "s = fst (run_ops ownership_step owner_change_demo s1)"
  have change: "owner Ownership_default \<noteq> owner.Overlay" by (simp add: Ownership_default_def)
  have ok: "run_ok ownership_ok ownership_step owner_change_demo s1"
    by (auto simp: s1_def owner_change_demo_def ownership_eval split: if_splits)
  have sig: "snd (Ownership_button 1 South True 5 False s) = [signal.Action Confirm]"
    by (simp add: s_def s1_def owner_change_demo_def ownership_eval)
  then have some: "snd (Ownership_button 1 South True 5 False s) \<noteq> []" by (metis list.distinct(1))
  show ?thesis
    unfolding Let_def s1_def[symmetric] s_def[symmetric]
    using change ok sig neutral_before_delivery[OF change ok[unfolded s1_def] s_def[unfolded s1_def] some]
    unfolding s1_def[symmetric] by blast
qed

section \<open>One Guide hold, one signal\<close>

text \<open>What can happen to one pad while it is watched: edges, ticks and suspensions.\<close>

datatype pad_op = PadButton owner control bool nat bool | PadTick nat | PadSuspend

fun pad_step :: "pad_op \<Rightarrow> pad \<Rightarrow> pad \<times> signal list" where
  "pad_step (PadButton ow c pr now kb) p = Pad_button ow c pr now kb p"
| "pad_step (PadTick now) p = Pad_tick now p"
| "pad_step PadSuspend p = (Pad_suspend p, [])"

fun is_guide :: "pad_op \<Rightarrow> bool" where
  "is_guide (PadButton ow c pr now kb) = (c = Guide)"
| "is_guide _ = False"

lemma hold_step:
  assumes "\<not> is_guide e" and "Guide \<in> held p" and "repeat p = None"
  shows "Guide \<in> held (fst (pad_step e p)) \<and> repeat (fst (pad_step e p)) = None
    \<and> (guide_used p \<longrightarrow> guide_used (fst (pad_step e p)) \<and> snd (pad_step e p) = [])
    \<and> (snd (pad_step e p) = [] \<or> snd (pad_step e p) = [signal.Keyboard] \<and> guide_used (fst (pad_step e p)))"
  using assms
  by (cases e) (auto simp: Pad_button_def Pad_tick_def Pad_suspend_def Let_def split: if_splits)

lemma hold_run:
  assumes "list_all (\<lambda>e. \<not> is_guide e) ops" and "Guide \<in> held p" and "repeat p = None"
  shows "(guide_used p \<longrightarrow> snd (run_ops pad_step ops p) = [] \<and> guide_used (fst (run_ops pad_step ops p)))
    \<and> (snd (run_ops pad_step ops p) = []
       \<or> snd (run_ops pad_step ops p) = [signal.Keyboard] \<and> guide_used (fst (run_ops pad_step ops p)))"
  using assms
proof (induction ops arbitrary: p)
  case Nil
  then show ?case by simp
next
  case (Cons e ops)
  have e: "\<not> is_guide e" using Cons.prems(1) by simp
  note h = hold_step[OF e Cons.prems(2,3)]
  show ?case
    using h Cons.IH[of "fst (pad_step e p)"] Cons.prems(1)
    by (auto simp del: run_ops.simps(2))
qed

text \<open>
  From a Guide press on an armed pad to the next Guide release, whatever else is pressed on
  it and whenever it is suspended, the pad emits at most one signal: the in-game keyboard
  chord, or the overlay toggle of the release, never both and never a navigation action.
\<close>

theorem guide_hold_emits_at_most_one:
  assumes "armed p" and "Guide \<notin> held p"
    and "list_all (\<lambda>e. \<not> is_guide e) ops"
  shows "snd (run_ops pad_step
      (PadButton ow Guide True t kb # ops @ [PadButton ow' Guide False t' kb']) p)
    \<in> {[], [signal.Keyboard], [signal.Action ToggleOverlay]}"
proof -
  define q where "q = fst (Pad_button ow Guide True t kb p)"
  define r where "r = fst (run_ops pad_step ops q)"
  have q: "Guide \<in> held q" "repeat q = None" "snd (Pad_button ow Guide True t kb p) = []"
    using assms(1,2) by (auto simp: q_def Pad_button_def Let_def)
  have split: "snd (run_ops pad_step (ops @ [e]) q) = snd (run_ops pad_step ops q) @ snd (pad_step e r)" for e
    unfolding r_def by (induction ops arbitrary: q) (auto simp: split_beta Let_def)
  have release: "snd (Pad_button ow' Guide False t' kb' r) \<in> {[], [signal.Action ToggleOverlay]}"
    "guide_used r \<Longrightarrow> snd (Pad_button ow' Guide False t' kb' r) = []"
    by (auto simp: Pad_button_def Let_def)
  have "snd (run_ops pad_step (PadButton ow Guide True t kb # ops @ [PadButton ow' Guide False t' kb']) p)
      = snd (run_ops pad_step ops q) @ snd (Pad_button ow' Guide False t' kb' r)"
    using split[of "PadButton ow' Guide False t' kb'"] q(3)
    by (simp add: q_def[symmetric] del: run_ops.simps(2))
  with hold_run[OF assms(3) q(1,2)] release show ?thesis
    by (auto simp: r_def)
qed

theorem guide_hold_emits_at_most_one_witness:
  "let p = Pad_default\<lparr>armed := True\<rparr>;
       chord = [PadButton owner.Observe West True 1 True, PadButton owner.Observe West False 2 True,
         PadButton owner.Observe West True 3 True]
   in armed p \<and> Guide \<notin> held p \<and> list_all (\<lambda>e. \<not> is_guide e) chord
     \<and> snd (run_ops pad_step
          (PadButton owner.Observe Guide True 0 True # chord @ [PadButton owner.Observe Guide False 4 True]) p)
        \<in> {[], [signal.Keyboard], [signal.Action ToggleOverlay]}
     \<and> snd (run_ops pad_step
          (PadButton owner.Observe Guide True 0 True # chord @ [PadButton owner.Observe Guide False 4 True]) p)
        = [signal.Keyboard]"
proof -
  have a: "armed (Pad_default\<lparr>armed := True\<rparr>)" "Guide \<notin> held (Pad_default\<lparr>armed := True\<rparr>)"
    by (simp_all add: Pad_default_def)
  have l: "list_all (\<lambda>e. \<not> is_guide e) [PadButton owner.Observe West True 1 True,
      PadButton owner.Observe West False 2 True, PadButton owner.Observe West True 3 True]"
    by simp
  show ?thesis
    unfolding Let_def using a l guide_hold_emits_at_most_one[OF a l]
    by (auto simp: Pad_button_def Pad_default_def Let_def)
qed

section \<open>Signals by owner\<close>

text \<open>What each owner may receive; only the frontend sees the chord and filter actions.\<close>

fun allowed :: "owner \<Rightarrow> signal \<Rightarrow> bool" where
  "allowed owner.Observe sig \<longleftrightarrow> sig \<in> {signal.Action ToggleOverlay, signal.Keyboard}"
| "allowed owner.Desktop sig \<longleftrightarrow> sig \<in> {signal.Action ToggleOverlay, signal.Keyboard}"
| "allowed owner.Keyboard sig \<longleftrightarrow> sig = signal.Action ToggleOverlay"
| "allowed owner.TextEntry sig \<longleftrightarrow> sig \<in> {signal.Action ToggleOverlay, signal.Action Back}"
| "allowed owner.Overlay sig \<longleftrightarrow>
     sig \<noteq> signal.Keyboard \<and> sig \<notin> {signal.Action action.Keyboard, signal.Action FilterPanel}"
| "allowed owner.Frontend sig \<longleftrightarrow> sig \<noteq> signal.Keyboard"

lemma control_action_range:
  "control_action c = Some a \<Longrightarrow> a \<notin> {action.Keyboard, FilterPanel, ToggleOverlay}"
  by (cases c) auto

lemma action_button_signals:
  "sig \<in> set (snd (Pad_action_button c pr now p)) \<Longrightarrow>
     pr \<and> (\<exists>a. control_action c = Some a \<and> sig = signal.Action a)"
  by (auto simp: Pad_action_button_def split: option.splits if_splits)

lemma frontend_button_signals:
  "sig \<in> set (snd (Pad_frontend_button c pr now p)) \<Longrightarrow> \<exists>a. sig = signal.Action a"
  by (auto simp: Pad_frontend_button_def Let_def split: if_splits dest: action_button_signals)

lemma pad_button_allowed:
  assumes "sig \<in> set (snd (Pad_button ow c pr now kb p))"
  shows "allowed ow sig \<and> armed p \<and> (sig = signal.Keyboard \<longrightarrow> kb)"
  using assms
  by (cases ow)
     (auto simp: Pad_button_def Let_def split: if_splits
       dest!: action_button_signals frontend_button_signals control_action_range)

text \<open>
  An edge is delivered only from an armed pad, and only as a signal its owner may receive: a
  game or desktop application gets no navigation (only the overlay toggle and, where enabled,
  the keyboard chord), text entry only gets Back, and a running keyboard adapter nothing but
  the toggle.
\<close>

theorem button_signals_respect_owner:
  assumes "sig \<in> set (snd (Ownership_button dev c pr now kb s))"
  shows "allowed (owner s) sig \<and> Ownership_armed dev s \<and> (sig = signal.Keyboard \<longrightarrow> kb)"
proof -
  have "sig \<in> set (snd (Pad_button (owner s) c pr now kb (pad_of s dev)))"
    using assms by simp
  from pad_button_allowed[OF this] show ?thesis by (simp add: armed_pad_of)
qed

theorem button_signals_respect_owner_witness:
  "let s = \<lparr>owner = owner.TextEntry, pads = [7 \<mapsto> Pad_default\<lparr>armed := True\<rparr>]\<rparr> in
     signal.Action Back \<in> set (snd (Ownership_button 7 East True 0 True s))
     \<and> allowed (owner s) (signal.Action Back) \<and> Ownership_armed 7 s"
proof -
  define s where "s = \<lparr>owner = owner.TextEntry, pads = [7 \<mapsto> Pad_default\<lparr>armed := True\<rparr>]\<rparr>"
  have "signal.Action Back \<in> set (snd (Ownership_button 7 East True 0 True s))"
    by (simp add: s_def Ownership_button_def Pad_button_def Pad_default_def Let_def)
  with button_signals_respect_owner[OF this] show ?thesis
    unfolding Let_def s_def[symmetric] by blast
qed

end
