(* ===== verification/Broker.thy ===== *)
theory Broker
  imports Ownership
begin

text \<open>
  The input broker, \<^verbatim>\<open>hearthdeck-input/src/broker.rs\<close>: clients connect with a role and a
  requested delivery, the broker decides who owns the controllers, grabs the physical devices
  for the overlay, hands them to the keyboard adapter, polls the pads and delivers signals.
  Devices, the virtual output device, the clock, child processes and hash orders belong to the
  host and enter as a record of operations; a handler returns the new broker and the error it
  returned early with, if any. A client's bounded channel is its queue and whether its
  receiving task is gone.
\<close>

section \<open>The host\<close>

datatype out_code =
    KEY_ENTER | KEY_ESC | KEY_SPACE | KEY_TAB | KEY_PAGEUP | KEY_PAGEDOWN
  | KEY_LEFT | KEY_RIGHT | KEY_UP | KEY_DOWN | BTN_LEFT | BTN_RIGHT

datatype input_event = KEY out_code int | REL_X int | REL_Y int

datatype raw_event = KeyEvent key_code int | AbsoluteAxis axis int | OtherEvent

datatype fetched = Events "raw_event list" | WouldBlock | FetchError io_error

datatype broker_error =
    Io io_error | ReleaseFailed io_error | RollbackFailed io_error | AdapterMissing

record ('d, 'o, 'c) host =
  grab :: "'d \<Rightarrow> ('d, io_error) outcome"
  ungrab :: "'d \<Rightarrow> ('d, io_error) outcome"
  set_nonblocking :: "'d \<Rightarrow> ('d, io_error) outcome"
  get_absinfo :: "'d \<Rightarrow> io_error + (axis \<times> int \<times> axis_range) list"
  get_key_state :: "'d \<Rightarrow> io_error + key_code list"
  fetch_events :: "'d \<Rightarrow> 'd \<times> fetched"
  gamepad_devices :: "(string \<times> 'd) list"
  emit_raw :: "'o \<Rightarrow> input_event list \<Rightarrow> ('o, io_error) outcome"
  osk_adapter :: "string option"
  spawn :: "string \<Rightarrow> io_error + 'c"
  try_wait :: "'c \<Rightarrow> 'c \<times> (io_error + int option)"
  clock :: nat
  show_error :: "broker_error \<Rightarrow> string"
  order_keys :: "(output_key \<rightharpoonup> nat) \<Rightarrow> output_key list"
  order_sources :: "(source \<rightharpoonup> output_key) \<Rightarrow> source list"
  order_pads :: "(nat \<rightharpoonup> pad) \<Rightarrow> nat list"
  order_sticks :: "(nat \<rightharpoonup> int \<times> int) \<Rightarrow> nat list"

record 'd device_pad =
  pad_id :: nat
  pad_path :: string
  pad_device :: 'd
  pad_ranges :: "axis \<rightharpoonup> axis_range"

record client =
  client_id :: nat
  client_hello :: hello
  client_queue :: "event list"
  client_gone :: bool

record ('d, 'o, 'c) broker =
  b_pads :: "'d device_pad list"
  b_clients :: "client list"
  b_state :: ownership
  b_mapper :: mapper
  b_output :: 'o
  b_mode :: input_mode
  b_session :: session_context
  b_session_at :: nat
  b_focused :: "string option"
  b_capture :: "nat option"
  b_keyboard :: "'c option"
  b_next_pad :: nat
  b_started :: nat
  b_mouse_at :: nat

type_synonym ('d, 'o, 'c) result = "(('d, 'o, 'c) broker, broker_error) outcome"

definition Broker_new :: "('d, 'o, 'c) host \<Rightarrow> 'o \<Rightarrow> ('d, 'o, 'c) broker" where
  "Broker_new h out = \<lparr>b_pads = [], b_clients = [], b_state = Ownership_default,
     b_mapper = Mapper_default, b_output = out, b_mode = InputMode_default,
     b_session = SessionContext_default, b_session_at = clock h, b_focused = None,
     b_capture = None, b_keyboard = None, b_next_pad = 1, b_started = clock h,
     b_mouse_at = clock h\<rparr>"

section \<open>Output\<close>

fun output_key_code :: "output_key \<Rightarrow> out_code" where
  "output_key_code Enter = KEY_ENTER"
| "output_key_code Escape = KEY_ESC"
| "output_key_code Space = KEY_SPACE"
| "output_key_code Tab = KEY_TAB"
| "output_key_code PageUp = KEY_PAGEUP"
| "output_key_code PageDown = KEY_PAGEDOWN"
| "output_key_code Left = KEY_LEFT"
| "output_key_code Right = KEY_RIGHT"
| "output_key_code Up = KEY_UP"
| "output_key_code Down = KEY_DOWN"
| "output_key_code MouseLeft = BTN_LEFT"
| "output_key_code MouseRight = BTN_RIGHT"

fun raw_events :: "output_event \<Rightarrow> input_event list" where
  "raw_events (Key key pressed) = [KEY (output_key_code key) (of_bool pressed)]"
| "raw_events (MouseMove x y) = [REL_X x, REL_Y y]"

definition emit :: "('d, 'o, 'c) host \<Rightarrow> output_event list \<Rightarrow> ('d, 'o, 'c) broker \<Rightarrow> ('d, 'o, 'c) result" where
  "emit h evs b =
     (let raw = concat (map raw_events evs) in
      if raw = [] then (b, None)
      else case emit_raw h (b_output b) raw of
             (out, err) \<Rightarrow> (b\<lparr>b_output := out\<rparr>, map_option Io err))"

text \<open>\<^verbatim>\<open>linux::emit(&mut self.output, self.mapper.set_active(act))?\<close>, and with a device removed.\<close>

definition mapper_active :: "('d, 'o, 'c) host \<Rightarrow> bool \<Rightarrow> ('d, 'o, 'c) broker \<Rightarrow> ('d, 'o, 'c) result" where
  "mapper_active h act b =
     (case Mapper_set_active (order_keys h (output_counts (b_mapper b))) act (b_mapper b) of
        (m, evs) \<Rightarrow> emit h evs (b\<lparr>b_mapper := m\<rparr>))"

definition mapper_remove :: "('d, 'o, 'c) host \<Rightarrow> nat \<Rightarrow> ('d, 'o, 'c) broker \<Rightarrow> ('d, 'o, 'c) result" where
  "mapper_remove h dev b =
     (case Mapper_remove_device (order_sources h (sources (b_mapper b))) dev (b_mapper b) of
        (m, evs) \<Rightarrow> emit h evs (b\<lparr>b_mapper := m\<rparr>))"

section \<open>Ownership and capture\<close>

definition Broker_session_has_focus :: "('d, 'o, 'c) host \<Rightarrow> ('d, 'o, 'c) broker \<Rightarrow> bool" where
  "Broker_session_has_focus h b \<longleftrightarrow>
     clock h - b_session_at b < 5 * 10 ^ 9 \<and> SessionContext_matches_focus (b_session b) (b_focused b)"

definition frontend_delivery :: "client list \<Rightarrow> delivery option" where
  "frontend_delivery cs =
     map_option (\<lambda>c. hello_delivery (client_hello c))
       (find (\<lambda>c. hello_role (client_hello c) = role.Frontend) cs)"

definition target_owner :: "('d, 'o, 'c) host \<Rightarrow> ('d, 'o, 'c) broker \<Rightarrow> owner" where
  "target_owner h b =
     (if b_keyboard b \<noteq> None then owner.Keyboard
      else if b_capture b \<noteq> None then owner.Overlay
      else case frontend_delivery (b_clients b) of
             Some delivery.Frontend \<Rightarrow> owner.Frontend
           | Some delivery.TextEntry \<Rightarrow> owner.TextEntry
           | Some delivery.Handoff \<Rightarrow> owner.Observe
           | _ \<Rightarrow> if profile (b_mode b) = input_profile.Desktop \<and> Broker_session_has_focus h b
                   then owner.Desktop else owner.Observe)"

definition Broker_reconcile :: "('d, 'o, 'c) host \<Rightarrow> ('d, 'o, 'c) broker \<Rightarrow> ('d, 'o, 'c) result" where
  "Broker_reconcile h b =
     (let ow = target_owner h b in
      and_then
        (if ow \<noteq> owner (b_state b)
         then and_then (mapper_active h False b)
                (\<lambda>b. (b\<lparr>b_state := Ownership_set_owner ow (b_state b)\<rparr>, None))
         else (b, None))
        (mapper_active h (ow = owner.Desktop)))"

text \<open>
  \<^verbatim>\<open>ungrab\<close> over a list of devices stops at the first error; \<^verbatim>\<open>grab_all\<close> rolls back what it
  grabbed when one device refuses.
\<close>

fun ungrab_list :: "('a \<Rightarrow> ('a, io_error) outcome) \<Rightarrow> 'a list \<Rightarrow> ('a list, io_error) outcome" where
  "ungrab_list un [] = ([], None)"
| "ungrab_list un (d # ds) =
     (case un d of
        (d, Some e) \<Rightarrow> (d # ds, Some e)
      | (d, None) \<Rightarrow> (case ungrab_list un ds of (ds, err) \<Rightarrow> (d # ds, err)))"

fun grab_from ::
  "('a \<Rightarrow> ('a, io_error) outcome) \<Rightarrow> ('a \<Rightarrow> ('a, io_error) outcome) \<Rightarrow> 'a list \<Rightarrow> 'a list
     \<Rightarrow> 'a list \<times> (broker_error + io_error option)" where
  "grab_from gr un grabbed [] = (grabbed, Inr None)"
| "grab_from gr un grabbed (d # ds) =
     (case gr d of
        (d, None) \<Rightarrow> grab_from gr un (grabbed @ [d]) ds
      | (d, Some e) \<Rightarrow>
          (case ungrab_list un grabbed of
             (grabbed, Some f) \<Rightarrow> (grabbed @ d # ds, Inl (RollbackFailed f))
           | (grabbed, None) \<Rightarrow> (grabbed @ d # ds, Inr (Some e))))"

definition grab_all ::
  "('a \<Rightarrow> ('a, io_error) outcome) \<Rightarrow> ('a \<Rightarrow> ('a, io_error) outcome) \<Rightarrow> 'a list
     \<Rightarrow> 'a list \<times> (broker_error + io_error option)" where
  "grab_all gr un devices = grab_from gr un [] devices"

definition on_device :: "('d \<Rightarrow> ('d, io_error) outcome) \<Rightarrow> 'd device_pad \<Rightarrow> ('d device_pad, io_error) outcome" where
  "on_device f p = (case f (pad_device p) of (d, err) \<Rightarrow> (p\<lparr>pad_device := d\<rparr>, err))"

definition Broker_release :: "('d, 'o, 'c) host \<Rightarrow> ('d, 'o, 'c) broker \<Rightarrow> ('d, 'o, 'c) result" where
  "Broker_release h b =
     (if b_capture b \<noteq> None
      then (case ungrab_list (on_device (ungrab h)) (b_pads b) of
              (ps, err) \<Rightarrow> (b\<lparr>b_capture := None, b_pads := ps\<rparr>, map_option ReleaseFailed err))
      else (b, None))"

section \<open>Clients\<close>

definition Broker_disconnect :: "('d, 'o, 'c) host \<Rightarrow> nat \<Rightarrow> ('d, 'o, 'c) broker \<Rightarrow> ('d, 'o, 'c) result" where
  "Broker_disconnect h i b =
     (let b = b\<lparr>b_clients := filter (\<lambda>c. client_id c \<noteq> i) (b_clients b)\<rparr> in
      and_then (if b_capture b = Some i then Broker_release h b else (b, None))
        (Broker_reconcile h))"

definition try_send :: "event \<Rightarrow> client \<Rightarrow> client option" where
  "try_send e c =
     (if client_gone c \<or> length (client_queue c) \<ge> QUEUE then None
      else Some (c\<lparr>client_queue := client_queue c @ [e]\<rparr>))"

definition Broker_send :: "('d, 'o, 'c) host \<Rightarrow> nat \<Rightarrow> event \<Rightarrow> ('d, 'o, 'c) broker \<Rightarrow> ('d, 'o, 'c) result" where
  "Broker_send h i e b =
     (case position (\<lambda>c. client_id c = i) (b_clients b) of
        None \<Rightarrow> (b, None)
      | Some n \<Rightarrow>
          (case try_send e (b_clients b ! n) of
             None \<Rightarrow> Broker_disconnect h i b
           | Some c \<Rightarrow> (b\<lparr>b_clients := (b_clients b)[n := c]\<rparr>, None)))"

definition Broker_revoke :: "('d, 'o, 'c) host \<Rightarrow> string \<Rightarrow> ('d, 'o, 'c) broker \<Rightarrow> ('d, 'o, 'c) result" where
  "Broker_revoke h reason b =
     (let ow = b_capture b in
      and_then (and_then (Broker_release h b) (Broker_reconcile h))
        (\<lambda>b. case ow of None \<Rightarrow> (b, None) | Some i \<Rightarrow> Broker_send h i (Failed reason) b))"

definition Broker_capture :: "('d, 'o, 'c) host \<Rightarrow> nat \<Rightarrow> ('d, 'o, 'c) broker \<Rightarrow> ('d, 'o, 'c) result" where
  "Broker_capture h i b =
     and_then (mapper_active h False b) (\<lambda>b.
       let b = b\<lparr>b_state := Ownership_suspend (b_state b)\<rparr> in
       if b_keyboard b \<noteq> None
          \<or> list_ex (\<lambda>c. hello_delivery (client_hello c) = delivery.TextEntry) (b_clients b)
       then Broker_send h i (Failed ''Dismiss the keyboard before opening the overlay'') b
       else case grab_all (on_device (grab h)) (on_device (ungrab h)) (b_pads b) of
              (ps, Inl err) \<Rightarrow> (b\<lparr>b_pads := ps\<rparr>, Some err)
            | (ps, Inr (Some e)) \<Rightarrow>
                and_then
                  (Broker_send h i (Failed (''Controller capture failed: '' @ show_error h (Io e)))
                     (b\<lparr>b_pads := ps\<rparr>))
                  (Broker_reconcile h)
            | (ps, Inr None) \<Rightarrow>
                and_then (Broker_reconcile h (b\<lparr>b_pads := ps, b_capture := Some i\<rparr>))
                  (Broker_send h i Ready))"

definition Broker_connect :: "('d, 'o, 'c) host \<Rightarrow> client \<Rightarrow> ('d, 'o, 'c) broker \<Rightarrow> ('d, 'o, 'c) result" where
  "Broker_connect h c b =
     (let same = (\<lambda>other. hello_role (client_hello other) = hello_role (client_hello c)) in
      and_then
        (if list_ex same (b_clients b)
         then for_each (Broker_disconnect h) (map client_id (filter same (b_clients b))) b
         else (b, None))
        (\<lambda>b.
           let b = b\<lparr>b_clients := b_clients b @ [c]\<rparr> in
           if hello_delivery (client_hello c) = delivery.Overlay
           then Broker_capture h (client_id c) b
           else and_then (Broker_reconcile h b) (Broker_send h (client_id c) Ready)))"

section \<open>Discovering pads\<close>

fun key_control :: "key_code \<Rightarrow> control option" where
  "key_control BTN_MODE = Some Guide"
| "key_control BTN_SOUTH = Some South"
| "key_control BTN_EAST = Some East"
| "key_control BTN_WEST = Some West"
| "key_control BTN_NORTH = Some North"
| "key_control BTN_TL = Some LeftBumper"
| "key_control BTN_TR = Some RightBumper"
| "key_control BTN_START = Some Start"
| "key_control BTN_SELECT = Some Select"
| "key_control BTN_TL2 = Some LeftTrigger"
| "key_control BTN_TR2 = Some RightTrigger"
| "key_control BTN_DPAD_UP = Some DpadUp"
| "key_control BTN_DPAD_DOWN = Some DpadDown"
| "key_control BTN_DPAD_LEFT = Some DpadLeft"
| "key_control BTN_DPAD_RIGHT = Some DpadRight"
| "key_control (KeyCode code) = Some (control.Other code)"

definition axis_controls :: "(axis \<rightharpoonup> axis_range) \<Rightarrow> axis \<Rightarrow> int \<Rightarrow> (control \<times> bool) list" where
  "axis_controls ranges code value =
     (let value = normalize_centered value (ranges code);
          both = (\<lambda>negative positive. [(negative, value < - 350), (positive, value > 350)]) in
      case code of
        ABS_X \<Rightarrow> both StickLeft StickRight
      | ABS_Y \<Rightarrow> both StickUp StickDown
      | ABS_HAT0X \<Rightarrow> both DpadLeft DpadRight
      | ABS_HAT0Y \<Rightarrow> both DpadUp DpadDown
      | ABS_RX \<Rightarrow> both PointerLeft PointerRight
      | ABS_RY \<Rightarrow> both PointerUp PointerDown
      | ABS_Z \<Rightarrow> [(LeftTrigger, value > 0)]
      | ABS_RZ \<Rightarrow> [(RightTrigger, value > 0)]
      | Axis _ \<Rightarrow> [])"

text \<open>Edges fed to the ownership machine, collecting the signals.\<close>

fun buttons :: "nat \<Rightarrow> (control \<times> bool) list \<Rightarrow> nat \<Rightarrow> bool \<Rightarrow> ownership \<Rightarrow> ownership \<times> signal list" where
  "buttons dev [] now kb s = (s, [])"
| "buttons dev ((c, pressed) # rest) now kb s =
     (case Ownership_button dev c pressed now kb s of
        (s, evs) \<Rightarrow> (case buttons dev rest now kb s of (s, evs2) \<Rightarrow> (s, evs @ evs2)))"

text \<open>
  The held state a pad is opened with: its keys that are down, then its axes (and last Guide).
\<close>

definition key_edges :: "key_code list \<Rightarrow> (control \<times> bool) list" where
  "key_edges keys = List.map_filter (\<lambda>key. map_option (\<lambda>c. (c, True)) (key_control key)) keys"

definition axis_edges ::
  "(axis \<rightharpoonup> axis_range) \<Rightarrow> (axis \<times> int \<times> axis_range) list \<Rightarrow> (control \<times> bool) list" where
  "axis_edges ranges axes = concat (map (\<lambda>(code, value, _). axis_controls ranges code value) axes)"

text \<open>
  The body of the discovery loop: from \<^verbatim>\<open>let id = self.next_pad\<close> on, and the part before.
\<close>

definition register_pad ::
  "('d, 'o, 'c) host \<Rightarrow> string \<Rightarrow> 'd \<Rightarrow> ('d, 'o, 'c) broker \<Rightarrow> ('d, 'o, 'c) result" where
  "register_pad h path device b =
     (let i = b_next_pad b; b = b\<lparr>b_next_pad := Suc i\<rparr> in
      case get_absinfo h device of
        Inl e \<Rightarrow> (b, Some (Io e))
      | Inr infos \<Rightarrow>
          let ranges = map_of (rev (map (\<lambda>(code, _, rng). (code, rng)) infos)) in
          case get_key_state h device of
            Inl e \<Rightarrow> (b, Some (Io e))
          | Inr keys \<Rightarrow>
              let b = b\<lparr>b_state := fst (buttons i (key_edges keys) 0 False (b_state b))\<rparr> in
              case get_absinfo h device of
                Inl e \<Rightarrow> (b, Some (Io e))
              | Inr axes \<Rightarrow>
                  let b = b\<lparr>b_state := fst (buttons i
                        (axis_edges ranges axes @ [(Guide, BTN_MODE \<in> set keys)]) 0 False (b_state b))\<rparr> in
                  case fetch_events h device of
                    (device, FetchError e) \<Rightarrow> (b, Some (Io e))
                  | (device, _) \<Rightarrow>
                      (b\<lparr>b_pads := b_pads b @ [\<lparr>pad_id = i, pad_path = path,
                         pad_device = device, pad_ranges = ranges\<rparr>]\<rparr>, None))"

definition scan_device ::
  "('d, 'o, 'c) host \<Rightarrow> string \<times> 'd \<Rightarrow> ('d, 'o, 'c) broker \<Rightarrow> ('d, 'o, 'c) result" where
  "scan_device h found b =
     (case found of (path, device) \<Rightarrow>
      if list_ex (\<lambda>p. pad_path p = path) (b_pads b) then (b, None)
      else case set_nonblocking h device of
        (device, Some e) \<Rightarrow> (b, Some (Io e))
      | (device, None) \<Rightarrow>
          (case (if b_capture b \<noteq> None then grab h device else (device, None)) of
            (device, err) \<Rightarrow>
              and_then
                (case err of
                   None \<Rightarrow> (b, None)
                 | Some e \<Rightarrow> Broker_revoke h
                     (''New controller could not be captured: '' @ show_error h (Io e)) b)
                (register_pad h path device)))"

definition Broker_scan :: "('d, 'o, 'c) host \<Rightarrow> ('d, 'o, 'c) broker \<Rightarrow> ('d, 'o, 'c) result" where
  "Broker_scan h b =
     (if b_keyboard b \<noteq> None then (b, None)
      else for_each (scan_device h) (gamepad_devices h) b)"

section \<open>Delivering signals\<close>

definition Broker_open_keyboard :: "('d, 'o, 'c) host \<Rightarrow> ('d, 'o, 'c) broker \<Rightarrow> ('d, 'o, 'c) result" where
  "Broker_open_keyboard h b =
     (let attempt =
        (case osk_adapter h of
           None \<Rightarrow> (b, Some AdapterMissing)
         | Some program \<Rightarrow>
             and_then (and_then (mapper_active h False b) (Broker_release h)) (\<lambda>b.
               let b = b\<lparr>b_state := fold (\<lambda>p. Ownership_remove (pad_id p)) (b_pads b) (b_state b),
                        b_pads := []\<rparr> in
               case spawn h program of
                 Inl e \<Rightarrow> (b, Some (Io e))
               | Inr child \<Rightarrow> Broker_reconcile h (b\<lparr>b_keyboard := Some child\<rparr>)))
      in case attempt of
           (b, None) \<Rightarrow> (b, None)
         | (b, Some err) \<Rightarrow>
             and_then
               (for_each (\<lambda>i. Broker_send h i (Failed (show_error h err))) (map client_id (b_clients b)) b)
               (Broker_reconcile h))"

definition Broker_deliver :: "('d, 'o, 'c) host \<Rightarrow> signal \<Rightarrow> ('d, 'o, 'c) broker \<Rightarrow> ('d, 'o, 'c) result" where
  "Broker_deliver h sig b =
     (case sig of
        signal.Keyboard \<Rightarrow> Broker_open_keyboard h b
      | signal.Action a \<Rightarrow>
          let r = (if a = ToggleOverlay \<or> b_capture b \<noteq> None then role.Overlay else role.Frontend) in
          case find (\<lambda>c. hello_role (client_hello c) = r) (b_clients b) of
            None \<Rightarrow> (b, None)
          | Some c \<Rightarrow> Broker_send h (client_id c) (event.Action a) b)"

fun deliver_all :: "('d, 'o, 'c) host \<Rightarrow> signal list \<Rightarrow> ('d, 'o, 'c) broker \<Rightarrow> ('d, 'o, 'c) result" where
  "deliver_all h [] b = (b, None)"
| "deliver_all h (sig # rest) b =
     (let ow = owner (b_state b) in
      and_then (Broker_deliver h sig b)
        (\<lambda>b. if owner (b_state b) \<noteq> ow then (b, None) else deliver_all h rest b))"

section \<open>Polling\<close>

text \<open>The state of the polling loop: the broker, and the signals collected so far.\<close>

definition lift_signals ::
  "signal list \<Rightarrow> ('d, 'o, 'c) result \<Rightarrow> (('d, 'o, 'c) broker \<times> signal list, broker_error) outcome" where
  "lift_signals sigs r = (case r of (b, err) \<Rightarrow> ((b, sigs), err))"

definition map_and_emit ::
  "('d, 'o, 'c) host \<Rightarrow> (mapper \<Rightarrow> mapper \<times> output_event list) \<Rightarrow> ('d, 'o, 'c) broker \<Rightarrow> ('d, 'o, 'c) result" where
  "map_and_emit h f b = (case f (b_mapper b) of (m, evs) \<Rightarrow> emit h evs (b\<lparr>b_mapper := m\<rparr>))"

definition poll_event ::
  "('d, 'o, 'c) host \<Rightarrow> nat \<Rightarrow> bool \<Rightarrow> 'd device_pad \<Rightarrow> raw_event \<Rightarrow> ('d, 'o, 'c) broker \<times> signal list
     \<Rightarrow> (('d, 'o, 'c) broker \<times> signal list, broker_error) outcome" where
  "poll_event h now kb pad ev bs =
     (case bs of (b, sigs) \<Rightarrow>
      let dev = pad_id pad; was_armed = Ownership_armed dev (b_state b) in
      case ev of
        KeyEvent code value \<Rightarrow>
          if value = 2 then ((b, sigs), None)
          else
            let (st, evs) = (case key_control code of
                  None \<Rightarrow> (b_state b, [])
                | Some c \<Rightarrow> Ownership_button dev c (value \<noteq> 0) now kb (b_state b));
                b = b\<lparr>b_state := st\<rparr> in
            lift_signals (sigs @ evs)
              (and_then
                (if code = BTN_MODE \<and> value = 1 then mapper_remove h dev b else (b, None))
                (\<lambda>b. if was_armed \<and> \<not> Ownership_guide_held dev (b_state b)
                     then map_and_emit h (map_key dev code value) b else (b, None)))
      | AbsoluteAxis code value \<Rightarrow>
          let (st, evs) = buttons dev (axis_controls (pad_ranges pad) code value) now kb (b_state b);
              b = b\<lparr>b_state := st\<rparr> in
          lift_signals (sigs @ evs)
            (if was_armed \<and> \<not> Ownership_guide_held dev (b_state b)
             then map_and_emit h (map_axis dev code value (pad_ranges pad code)) b else (b, None))
      | OtherEvent \<Rightarrow> ((b, sigs), None))"

text \<open>
  The loop over the pads: \<open>seen\<close> are the pads already polled, with their devices as the
  fetch left them; \<open>gone\<close> the ids of the pads whose device failed.
\<close>

fun poll_pads ::
  "('d, 'o, 'c) host \<Rightarrow> nat \<Rightarrow> bool \<Rightarrow> 'd device_pad list \<Rightarrow> 'd device_pad list
     \<Rightarrow> ('d, 'o, 'c) broker \<times> signal list \<Rightarrow> nat list
     \<Rightarrow> (('d, 'o, 'c) broker \<times> signal list, broker_error) outcome \<times> nat list" where
  "poll_pads h now kb seen [] (b, sigs) gone = (((b\<lparr>b_pads := seen\<rparr>, sigs), None), gone)"
| "poll_pads h now kb seen (p # ps) (b, sigs) gone =
     (case fetch_events h (pad_device p) of
        (d, WouldBlock) \<Rightarrow>
          poll_pads h now kb (seen @ [p\<lparr>pad_device := d\<rparr>]) ps (b, sigs) gone
      | (d, FetchError _) \<Rightarrow>
          poll_pads h now kb (seen @ [p\<lparr>pad_device := d\<rparr>]) ps (b, sigs) (gone @ [pad_id p])
      | (d, Events evs) \<Rightarrow>
          (case for_each (poll_event h now kb p) evs (b, sigs) of
             ((b, sigs), Some e) \<Rightarrow>
               (((b\<lparr>b_pads := seen @ p\<lparr>pad_device := d\<rparr> # ps\<rparr>, sigs), Some e), gone)
           | (bs, None) \<Rightarrow>
               poll_pads h now kb (seen @ [p\<lparr>pad_device := d\<rparr>]) ps bs gone))"

definition drop_pad :: "('d, 'o, 'c) host \<Rightarrow> nat \<Rightarrow> ('d, 'o, 'c) broker \<Rightarrow> ('d, 'o, 'c) result" where
  "drop_pad h i b =
     mapper_remove h i (b\<lparr>b_pads := filter (\<lambda>p. pad_id p \<noteq> i) (b_pads b),
       b_state := Ownership_remove i (b_state b)\<rparr>)"

definition mouse_step :: "('d, 'o, 'c) host \<Rightarrow> ('d, 'o, 'c) broker \<Rightarrow> ('d, 'o, 'c) result" where
  "mouse_step h b =
     (if clock h - b_mouse_at b \<ge> 16 * 10 ^ 6 then
        let b = b\<lparr>b_mouse_at := clock h\<rparr> in
        case Mapper_mouse_tick (order_sticks h (right_sticks (b_mapper b))) (b_mapper b) of
          None \<Rightarrow> (b, None)
        | Some ev \<Rightarrow> emit h [ev] b
      else (b, None))"

definition poll_active :: "('d, 'o, 'c) host \<Rightarrow> ('d, 'o, 'c) broker \<Rightarrow> ('d, 'o, 'c) result" where
  "poll_active h b =
     (let now = (clock h - b_started b) div 10 ^ 6;
          kb = (retro_osk (b_mode b) \<and> Broker_session_has_focus h b) in
      case poll_pads h now kb [] (b_pads b) (b, []) [] of
        (((b, sigs), Some e), gone) \<Rightarrow> (b, Some e)
      | (((b, sigs), None), gone) \<Rightarrow>
          and_then (for_each (drop_pad h) gone b) (\<lambda>b.
            let (st, ticked) = Ownership_tick (order_pads h (pads (b_state b))) now (b_state b) in
            and_then (deliver_all h (sigs @ ticked) (b\<lparr>b_state := st\<rparr>)) (mouse_step h)))"

definition Broker_poll :: "('d, 'o, 'c) host \<Rightarrow> ('d, 'o, 'c) broker \<Rightarrow> ('d, 'o, 'c) result" where
  "Broker_poll h b =
     and_then (Broker_reconcile h b) (\<lambda>b.
       case b_keyboard b of
         Some child \<Rightarrow>
           (case try_wait h child of
              (child, Inl e) \<Rightarrow> (b\<lparr>b_keyboard := Some child\<rparr>, Some (Io e))
            | (child, Inr None) \<Rightarrow> (b\<lparr>b_keyboard := Some child\<rparr>, None)
            | (child, Inr (Some status)) \<Rightarrow>
                and_then (Broker_reconcile h (b\<lparr>b_keyboard := None\<rparr>)) (Broker_scan h))
       | None \<Rightarrow> poll_active h b)"

section \<open>The event loop\<close>

text \<open>
  The branches of the \<^verbatim>\<open>select!\<close> loop of \<^verbatim>\<open>run\<close> that reach the broker, and the connection
  task's side of a client: it forwards one queued event, or ends. A connection is only
  announced with a valid hello (\<^verbatim>\<open>connection\<close> refuses the others) and a fresh id.
\<close>

datatype broker_event =
    Open client | Closed nat | Scan | Poll
  | FocusChanged "string option" | Datagram "session_context option"
  | Forwarded nat | TaskEnded nat

definition update_client :: "nat \<Rightarrow> (client \<Rightarrow> client) \<Rightarrow> ('d, 'o, 'c) broker \<Rightarrow> ('d, 'o, 'c) broker" where
  "update_client i f b = b\<lparr>b_clients := map (\<lambda>c. if client_id c = i then f c else c) (b_clients b)\<rparr>"

fun broker_step :: "('d, 'o, 'c) host \<Rightarrow> broker_event \<Rightarrow> ('d, 'o, 'c) broker \<Rightarrow> ('d, 'o, 'c) result" where
  "broker_step h (Open c) b = Broker_connect h c b"
| "broker_step h (Closed i) b = Broker_disconnect h i b"
| "broker_step h Scan b = Broker_scan h b"
| "broker_step h Poll b = Broker_poll h b"
| "broker_step h (FocusChanged f) b = Broker_reconcile h (b\<lparr>b_focused := f\<rparr>)"
| "broker_step h (Datagram None) b = (b, None)"
| "broker_step h (Datagram (Some session)) b =
     Broker_reconcile h (b\<lparr>b_mode := session_mode session, b_session := session, b_session_at := clock h\<rparr>)"
| "broker_step h (Forwarded i) b =
     (update_client i (\<lambda>c. c\<lparr>client_queue := tl (client_queue c)\<rparr>) b, None)"
| "broker_step h (TaskEnded i) b = (update_client i (\<lambda>c. c\<lparr>client_gone := True\<rparr>) b, None)"

end
