(* ===== verification/Broker_Inv.thy ===== *)
theory Broker_Inv
  imports Broker
begin

text \<open>
  The invariants of the input broker: what every handler of \<^verbatim>\<open>broker.rs\<close> keeps, for any host
  whose devices behave as evdev documents (\<open>device_laws\<close>) and whatever the hash orders. The
  summary theorems state the capture and delivery rules of \<^verbatim>\<open>docs/input-ownership.md\<close> over
  every reachable state of the event loop.
\<close>

section \<open>What the host promises\<close>

text \<open>
  \<open>g d\<close> says that device \<open>d\<close> is grabbed: a successful grab or ungrab sets it, a failed one
  and the other operations leave it, and a newly opened device is not grabbed.
\<close>

definition device_laws :: "('d, 'o, 'c) host \<Rightarrow> ('d \<Rightarrow> bool) \<Rightarrow> bool" where
  "device_laws h g \<longleftrightarrow>
     (\<forall>d. g (fst (grab h d)) = (snd (grab h d) = None \<or> g d))
   \<and> (\<forall>d. g (fst (ungrab h d)) = (snd (ungrab h d) \<noteq> None \<and> g d))
   \<and> (\<forall>d. g (fst (set_nonblocking h d)) = g d)
   \<and> (\<forall>d. g (fst (fetch_events h d)) = g d)
   \<and> (\<forall>(path, d)\<in>set (gamepad_devices h). \<not> g d)"

text \<open>The hash orders visit every key once.\<close>

definition orders_ok :: "('d, 'o, 'c) host \<Rightarrow> bool" where
  "orders_ok h \<longleftrightarrow>
     (\<forall>m. finite (dom m) \<longrightarrow> iteration_order (order_keys h m) m)"

text \<open>
  \<open>T\<close> collects the clock readings of a run: the owner of the controllers was decided at one of
  them.
\<close>

definition host_ok :: "nat set \<Rightarrow> ('d, 'o, 'c) host \<Rightarrow> bool" where
  "host_ok T h \<longleftrightarrow> orders_ok h \<and> clock h \<in> T"

lemma host_ok_now: "orders_ok h \<Longrightarrow> host_ok {clock h} h"
  by (simp add: host_ok_def)

lemma device_lawsD:
  assumes "device_laws h g"
  shows "grab h d = (d', None) \<Longrightarrow> g d'"
    and "grab h d = (d', Some e) \<Longrightarrow> g d' = g d"
    and "ungrab h d = (d', None) \<Longrightarrow> \<not> g d'"
    and "set_nonblocking h d = (d', err) \<Longrightarrow> g d' = g d"
    and "fetch_events h d = (d', r) \<Longrightarrow> g d' = g d"
    and "(path, d) \<in> set (gamepad_devices h) \<Longrightarrow> \<not> g d"
  using assms unfolding device_laws_def by (metis fst_conv snd_conv option.distinct(1) case_prodD)+

section \<open>The invariant\<close>

definition clients_ok :: "client list \<Rightarrow> bool" where
  "clients_ok cs \<longleftrightarrow>
     distinct (map client_id cs) \<and> distinct (map (\<lambda>c. hello_role (client_hello c)) cs)
   \<and> (\<forall>c\<in>set cs. Hello_valid (client_hello c) \<and> length (client_queue c) \<le> QUEUE)"

definition capture_ok :: "('d, 'o, 'c) broker \<Rightarrow> bool" where
  "capture_ok b \<longleftrightarrow>
     (\<forall>i. b_capture b = Some i \<longrightarrow>
        (\<exists>c\<in>set (b_clients b). client_id c = i \<and> hello_delivery (client_hello c) = delivery.Overlay))"

definition pads_ok :: "('d \<Rightarrow> bool) \<Rightarrow> ('d, 'o, 'c) broker \<Rightarrow> bool" where
  "pads_ok g b \<longleftrightarrow> (\<forall>p\<in>set (b_pads b). g (pad_device p) = (b_capture b \<noteq> None))"

definition keyboard_ok :: "('d, 'o, 'c) broker \<Rightarrow> bool" where
  "keyboard_ok b \<longleftrightarrow> (b_keyboard b \<noteq> None \<longrightarrow> b_capture b = None \<and> b_pads b = [])"

definition output_ok :: "('d, 'o, 'c) broker \<Rightarrow> bool" where
  "output_ok b \<longleftrightarrow>
     mapper_inv (b_mapper b) \<and> (active (b_mapper b) \<longrightarrow> owner (b_state b) = owner.Desktop)"

definition core :: "('d \<Rightarrow> bool) \<Rightarrow> ('d, 'o, 'c) broker \<Rightarrow> bool" where
  "core g b \<longleftrightarrow>
     clients_ok (b_clients b) \<and> capture_ok b \<and> pads_ok g b \<and> keyboard_ok b \<and> output_ok b"

text \<open>
  The owner the broker's state calls for, given whether the session has the focus. \<open>focus_at\<close> is
  that focus (\<^verbatim>\<open>session_has_focus\<close>) at a clock reading \<open>t\<close>: the session the bridge announced is
  at most five seconds old and the window the compositor reports belongs to it.
\<close>

definition owner_for :: "bool \<Rightarrow> ('d, 'o, 'c) broker \<Rightarrow> owner" where
  "owner_for focus b =
     (if b_keyboard b \<noteq> None then owner.Keyboard
      else if b_capture b \<noteq> None then owner.Overlay
      else case frontend_delivery (b_clients b) of
             Some delivery.Frontend \<Rightarrow> owner.Frontend
           | Some delivery.TextEntry \<Rightarrow> owner.TextEntry
           | Some delivery.Handoff \<Rightarrow> owner.Observe
           | _ \<Rightarrow> if profile (b_mode b) = input_profile.Desktop \<and> focus
                   then owner.Desktop else owner.Observe)"

definition focus_at :: "nat \<Rightarrow> ('d, 'o, 'c) broker \<Rightarrow> bool" where
  "focus_at t b \<longleftrightarrow>
     t - b_session_at b < 5 * 10 ^ 9 \<and> SessionContext_matches_focus (b_session b) (b_focused b)"

definition agrees :: "nat set \<Rightarrow> ('d, 'o, 'c) broker \<Rightarrow> bool" where
  "agrees T b \<longleftrightarrow> (\<exists>t\<in>T. owner (b_state b) = owner_for (focus_at t b) b)"

lemma target_owner_for: "target_owner h b = owner_for (focus_at (clock h) b) b"
proof -
  have "focus_at (clock h) b = Broker_session_has_focus h b"
    by (simp add: focus_at_def Broker_session_has_focus_def)
  then show ?thesis by (simp add: target_owner_def owner_for_def)
qed

text \<open>States that differ in nothing the invariant reads but the ownership and mapper parts.\<close>

definition keeps :: "('d, 'o, 'c) broker \<Rightarrow> ('d, 'o, 'c) broker \<Rightarrow> bool" where
  "keeps b b' \<longleftrightarrow>
     b_clients b' = b_clients b \<and> b_capture b' = b_capture b \<and> b_keyboard b' = b_keyboard b
   \<and> b_pads b' = b_pads b \<and> b_mode b' = b_mode b \<and> b_session b' = b_session b
   \<and> b_session_at b' = b_session_at b \<and> b_focused b' = b_focused b"

lemma keeps_refl [simp]: "keeps b b"
  by (simp add: keeps_def)

lemma keeps_trans: "keeps a b \<Longrightarrow> keeps b c \<Longrightarrow> keeps a c"
  by (simp add: keeps_def)

lemma keeps_core: "keeps b b' \<Longrightarrow> core g b \<Longrightarrow> output_ok b' \<Longrightarrow> core g b'"
  by (simp add: keeps_def core_def capture_ok_def pads_ok_def keyboard_ok_def)

lemma owner_for_cong:
  assumes "frontend_delivery (b_clients b') = frontend_delivery (b_clients b)"
    and "b_capture b' = b_capture b" and "b_keyboard b' = b_keyboard b" and "b_mode b' = b_mode b"
  shows "owner_for f b' = owner_for f b"
  unfolding owner_for_def assms by (rule refl)

lemma keeps_owner_for: "keeps b b' \<Longrightarrow> owner_for f b' = owner_for f b"
  by (rule owner_for_cong) (simp_all add: keeps_def)

lemma keeps_focus_at: "keeps b b' \<Longrightarrow> focus_at t b' = focus_at t b"
  by (simp add: keeps_def focus_at_def)

lemma emit_keeps:
  "keeps b (fst (emit h evs b))" "b_state (fst (emit h evs b)) = b_state b"
  "b_mapper (fst (emit h evs b)) = b_mapper b"
  by (simp_all add: emit_def keeps_def Let_def split: prod.splits)

lemma mapper_active_keeps:
  "keeps b (fst (mapper_active h act b))"
  "b_state (fst (mapper_active h act b)) = b_state b"
  "active (b_mapper (fst (mapper_active h act b))) = act"
proof -
  obtain m evs where m: "Mapper_set_active (order_keys h (output_counts (b_mapper b))) act (b_mapper b) = (m, evs)"
    by force
  have eq: "mapper_active h act b = emit h evs (b\<lparr>b_mapper := m\<rparr>)"
    by (simp add: mapper_active_def m)
  have "keeps b (b\<lparr>b_mapper := m\<rparr>)" by (simp add: keeps_def)
  then show "keeps b (fst (mapper_active h act b))"
    unfolding eq using emit_keeps(1) by (rule keeps_trans)
  show "b_state (fst (mapper_active h act b)) = b_state b"
    by (simp add: eq emit_keeps)
  show "active (b_mapper (fst (mapper_active h act b))) = act"
    using m by (auto simp: eq emit_keeps Mapper_set_active_def Let_def split: if_splits)
qed

lemma mapper_active_inv:
  assumes "mapper_inv (b_mapper b)" and "host_ok T h"
  shows "mapper_inv (b_mapper (fst (mapper_active h act b)))"
proof -
  have "finite (dom (output_counts (b_mapper b)))"
    using assms(1) by (simp add: pressed_counts pressed_keys_def mapper_inv_def finite_ran)
  then have "iteration_order (order_keys h (output_counts (b_mapper b))) (output_counts (b_mapper b))"
    using assms(2) by (simp add: orders_ok_def host_ok_def)
  from set_active_tracks[OF assms(1) this] show ?thesis
    by (simp add: mapper_active_def emit_keeps tracks_def split_beta)
qed

lemma mapper_active_core:
  assumes "core g b" and "host_ok T h" and "act \<Longrightarrow> owner (b_state b) = owner.Desktop"
  shows "core g (fst (mapper_active h act b))"
  using assms
  by (intro keeps_core[OF mapper_active_keeps(1) assms(1)])
     (auto simp: output_ok_def core_def mapper_active_keeps mapper_active_inv)

section \<open>Reconciling\<close>

lemma set_owner_owner [simp]: "owner (Ownership_set_owner o' s) = o'"
  by (simp add: Ownership_set_owner_def Ownership_suspend_def)

lemma reconcile_spec:
  assumes "core g b" and "host_ok T h"
  shows "core g (fst (Broker_reconcile h b)) \<and> keeps b (fst (Broker_reconcile h b))
    \<and> (snd (Broker_reconcile h b) = None \<longrightarrow> owner (b_state (fst (Broker_reconcile h b))) = target_owner h b)"
proof -
  define ow where "ow = target_owner h b"
  define r where "r = (if ow \<noteq> owner (b_state b)
         then and_then (mapper_active h False b)
                (\<lambda>b. (b\<lparr>b_state := Ownership_set_owner ow (b_state b)\<rparr>, None))
         else (b, None))"
  have off: "core g (fst (mapper_active h False b))" "\<not> active (b_mapper (fst (mapper_active h False b)))"
    using mapper_active_core[OF assms] by (simp_all add: mapper_active_keeps)
  have r: "core g (fst r) \<and> keeps b (fst r) \<and> (snd r = None \<longrightarrow> owner (b_state (fst r)) = ow)"
  proof (cases "ow = owner (b_state b)")
    case True
    then show ?thesis using assms(1) by (simp add: r_def)
  next
    case False
    let ?b = "fst (mapper_active h False b)"
    have k: "keeps ?b (?b\<lparr>b_state := s\<rparr>)" for s by (simp add: keeps_def)
    have "core g (?b\<lparr>b_state := s\<rparr>)" for s
      using k off(1) by (rule keeps_core) (use off in \<open>simp add: output_ok_def core_def\<close>)
    moreover have "keeps b (?b\<lparr>b_state := s\<rparr>)" for s
      using mapper_active_keeps(1) k by (rule keeps_trans)
    ultimately show ?thesis
      using False off mapper_active_keeps(1)[of b h False]
      by (auto simp: r_def and_then_pair)
  qed
  have eq: "Broker_reconcile h b = and_then r (mapper_active h (ow = owner.Desktop))"
    by (simp add: Broker_reconcile_def r_def ow_def Let_def)
  show ?thesis
  proof (cases "snd r")
    case (Some e)
    then show ?thesis using r by (simp add: eq and_then_pair)
  next
    case None
    with r have "core g (fst (mapper_active h (ow = owner.Desktop) (fst r)))"
      by (intro mapper_active_core[OF _ assms(2)]) auto
    moreover have "keeps b (fst (mapper_active h (ow = owner.Desktop) (fst r)))"
      using r mapper_active_keeps(1) keeps_trans by blast
    ultimately show ?thesis
      using r None by (simp add: eq and_then_pair mapper_active_keeps ow_def)
  qed
qed

lemma reconcile_core: "core g b \<Longrightarrow> host_ok T h \<Longrightarrow> core g (fst (Broker_reconcile h b))"
  by (simp add: reconcile_spec)

lemma reconcile_keeps:
  "core g b \<Longrightarrow> host_ok T h \<Longrightarrow> keeps b (fst (Broker_reconcile h b))"
  by (simp add: reconcile_spec)

lemma reconcile_agrees:
  assumes "core g b" and "host_ok T h" and "snd (Broker_reconcile h b) = None"
  shows "agrees T (fst (Broker_reconcile h b))"
proof -
  let ?b = "fst (Broker_reconcile h b)"
  have "keeps b ?b" "owner (b_state ?b) = owner_for (focus_at (clock h) b) b"
    using reconcile_spec[OF assms(1,2)] assms(3) by (simp_all add: target_owner_for)
  then have "owner (b_state ?b) = owner_for (focus_at (clock h) ?b) ?b"
    by (simp add: keeps_owner_for keeps_focus_at)
  then show ?thesis using assms(2) by (auto simp: agrees_def host_ok_def)
qed

text \<open>A state that satisfies the invariant and whose owner is the one it calls for.\<close>

definition good :: "('d \<Rightarrow> bool) \<Rightarrow> nat set \<Rightarrow> ('d, 'o, 'c) broker \<Rightarrow> bool" where
  "good g T b \<longleftrightarrow> core g b \<and> agrees T b"

lemma reconcile_good:
  assumes "core g b" and "host_ok T h"
  shows "post (\<lambda>b'. good g T b' \<and> keeps b b') (Broker_reconcile h b)"
  using assms by (simp add: post_def good_def reconcile_core reconcile_keeps reconcile_agrees)

section \<open>Grabbing and releasing\<close>

text \<open>
  A run over a device list keeps its length and, when the operation leaves some view of a
  device alone, that view of every device.
\<close>

lemma ungrab_list_view:
  assumes "\<And>d. v (fst (un d)) = v d"
  shows "map v (fst (ungrab_list un ds)) = map v ds"
proof (induction ds)
  case (Cons d ds)
  then show ?case using assms[of d] by (auto split: prod.splits option.splits)
qed simp

lemma ungrab_list_free:
  assumes "\<And>d d'. un d = (d', None) \<Longrightarrow> \<not> g d'" and "snd (ungrab_list un ds) = None"
  shows "\<forall>d\<in>set (fst (ungrab_list un ds)). \<not> g d"
  using assms(2)
proof (induction ds)
  case (Cons d ds)
  then show ?case using assms(1)[of d] by (auto split: prod.splits option.splits)
qed simp

lemma grab_from_all_or_nothing:
  assumes gr: "\<And>d d'. gr d = (d', None) \<Longrightarrow> g d'" "\<And>d d' e. gr d = (d', Some e) \<Longrightarrow> g d' = g d"
    and un: "\<And>d d'. un d = (d', None) \<Longrightarrow> \<not> g d'"
    and "\<forall>d\<in>set grabbed. g d" and "\<forall>d\<in>set ds. \<not> g d"
    and "grab_from gr un grabbed ds = (ds', Inr err)"
  shows "\<forall>d\<in>set ds'. g d = (err = None)"
  using assms(4-)
proof (induction ds arbitrary: grabbed)
  case Nil
  then show ?case by auto
next
  case (Cons d ds)
  obtain d' r where d: "gr d = (d', r)" by force
  show ?case
  proof (cases r)
    case None
    with d gr have "g d'" by simp
    with Cons.prems None d show ?thesis
      by (intro Cons.IH[of "grabbed @ [d']"]) auto
  next
    case (Some e)
    obtain us f where u: "ungrab_list un grabbed = (us, f)" by force
    with Some d Cons.prems(3) have f: "f = None" and eq: "ds' = us @ d' # ds" "err = Some e"
      by (auto split: option.splits)
    have "\<forall>d\<in>set us. \<not> g d"
      using ungrab_list_free[of un g grabbed] un u f by auto
    moreover have "\<not> g d'" using gr(2) d Some Cons.prems(2) by simp
    ultimately show ?thesis using Cons.prems(2) eq by auto
  qed
qed

lemma grab_from_view:
  assumes "\<And>d. v (fst (gr d)) = v d" and "\<And>d. v (fst (un d)) = v d"
  shows "map v (fst (grab_from gr un grabbed ds)) = map v grabbed @ map v ds"
proof (induction ds arbitrary: grabbed)
  case Nil
  then show ?case by simp
next
  case (Cons d ds)
  show ?case
    using Cons.IH assms(1)[of d] ungrab_list_view[of v un grabbed] assms(2)
    by (auto split: prod.splits option.splits)
qed

text \<open>The broker's devices as the grab functions see them.\<close>

lemma on_device_cases:
  "on_device f p = (p', err) \<longleftrightarrow> (\<exists>d. f (pad_device p) = (d, err) \<and> p' = p\<lparr>pad_device := d\<rparr>)"
  by (auto simp: on_device_def split: prod.splits)

lemma on_device_laws:
  assumes "device_laws h g"
  shows "on_device (grab h) p = (p', None) \<Longrightarrow> g (pad_device p')"
    and "on_device (grab h) p = (p', Some e) \<Longrightarrow> g (pad_device p') = g (pad_device p)"
    and "on_device (ungrab h) p = (p', None) \<Longrightarrow> \<not> g (pad_device p')"
  using device_lawsD(1-3)[OF assms] by (auto simp: on_device_cases)

lemma release_spec:
  assumes laws: "device_laws h g" and pads: "pads_ok g b"
  shows "post (\<lambda>b'. b_capture b' = None \<and> (\<forall>p\<in>set (b_pads b'). \<not> g (pad_device p))
      \<and> b_clients b' = b_clients b \<and> b_keyboard b' = b_keyboard b \<and> b_mode b' = b_mode b
      \<and> b_state b' = b_state b \<and> b_mapper b' = b_mapper b
      \<and> length (b_pads b') = length (b_pads b)) (Broker_release h b)"
proof (cases "b_capture b")
  case None
  then show ?thesis using pads by (simp add: Broker_release_def pads_ok_def)
next
  case (Some i)
  obtain ps err where u: "ungrab_list (on_device (ungrab h)) (b_pads b) = (ps, err)" by force
  have "\<forall>p\<in>set ps. \<not> g (pad_device p)" if "err = None"
    using ungrab_list_free[of "on_device (ungrab h)" "\<lambda>p. g (pad_device p)" "b_pads b",
        OF on_device_laws(3)[OF laws]] that u by simp
  moreover have "length ps = length (b_pads b)"
    using arg_cong[OF ungrab_list_view[of "\<lambda>_. ()" "on_device (ungrab h)" "b_pads b"], of length] u
    by simp
  ultimately show ?thesis using Some u by (simp add: Broker_release_def post_def)
qed

lemma release_core:
  assumes laws: "device_laws h g" and "pads_ok g b" and "clients_ok (b_clients b)"
    and "keyboard_ok b" and "output_ok b"
  shows "post (\<lambda>b'. core g b' \<and> b_capture b' = None \<and> b_clients b' = b_clients b
      \<and> b_keyboard b' = b_keyboard b) (Broker_release h b)"
  using release_spec[OF assms(1,2)]
  by (rule post_mono)
     (use assms in \<open>auto simp: core_def capture_ok_def pads_ok_def keyboard_ok_def output_ok_def\<close>)

section \<open>Clients\<close>

lemma clients_ok_filter: "clients_ok cs \<Longrightarrow> clients_ok (filter P cs)"
  by (auto simp: clients_ok_def distinct_map inj_on_def)

definition dropped :: "(nat \<Rightarrow> bool) \<Rightarrow> ('d, 'o, 'c) broker \<Rightarrow> ('d, 'o, 'c) broker \<Rightarrow> bool" where
  "dropped gone b b' \<longleftrightarrow>
     b_clients b' = filter (\<lambda>c. \<not> gone (client_id c)) (b_clients b)
   \<and> b_keyboard b' = b_keyboard b
   \<and> b_capture b' = option_filter (\<lambda>i. \<not> gone i) (b_capture b)"

lemma disconnect_good:
  assumes laws: "device_laws h g" and orders: "host_ok T h" and core: "core g b"
  shows "post (\<lambda>b'. good g T b' \<and> dropped (\<lambda>j. j = i) b b') (Broker_disconnect h i b)"
proof -
  define b1 where "b1 = b\<lparr>b_clients := filter (\<lambda>c. client_id c \<noteq> i) (b_clients b)\<rparr>"
  have ok: "clients_ok (b_clients b1)" "pads_ok g b1" "keyboard_ok b1" "output_ok b1"
    using core by (auto simp: b1_def core_def clients_ok_filter pads_ok_def keyboard_ok_def output_ok_def)
  define r where "r = (if b_capture b1 = Some i then Broker_release h b1 else (b1, None))"
  have r: "post (\<lambda>b'. core g b' \<and> dropped (\<lambda>j. j = i) b b') r"
  proof (cases "b_capture b1 = Some i")
    case True
    then show ?thesis
      unfolding r_def
      using post_mono[OF release_core[OF laws ok(2,1,3,4)]]
      by (simp add: dropped_def b1_def option_filter_def)
  next
    case False
    then have "capture_ok b1" "option_filter (\<lambda>j. j \<noteq> i) (b_capture b) = b_capture b"
      using core by (auto simp: b1_def core_def capture_ok_def option_filter_def split: option.splits)
    with False ok show ?thesis by (simp add: r_def core_def dropped_def b1_def)
  qed
  have eq: "Broker_disconnect h i b = and_then r (Broker_reconcile h)"
    by (simp add: Broker_disconnect_def r_def b1_def Let_def)
  show ?thesis
    unfolding eq using r
    by (rule post_and_then)
       (auto intro: post_mono[OF reconcile_good[OF _ orders]] simp: keeps_def dropped_def)
qed

lemma disconnect_all:
  assumes laws: "device_laws h g" and orders: "host_ok T h"
  shows "good g T b \<Longrightarrow>
    post (\<lambda>b'. good g T b' \<and> dropped (\<lambda>j. j \<in> set is) b b') (for_each (Broker_disconnect h) is b)"
proof (induction "is" arbitrary: b)
  case Nil
  then show ?case by (simp add: dropped_def option_filter_def split: option.splits)
next
  case (Cons i "is")
  then have core: "core g b" by (simp add: good_def)
  show ?case
    unfolding for_each.simps
  proof (rule post_and_then[OF disconnect_good[OF laws orders core, of i]])
    fix b1 assume b1: "good g T b1 \<and> dropped (\<lambda>j. j = i) b b1"
    then have "dropped (\<lambda>j. j \<in> set (i # is)) b b'" if "dropped (\<lambda>j. j \<in> set is) b1 b'" for b'
      using that by (auto simp: dropped_def option_filter_def split: option.splits intro: filter_cong)
    then show "post (\<lambda>b'. good g T b' \<and> dropped (\<lambda>j. j \<in> set (i # is)) b b')
        (for_each (Broker_disconnect h) is b1)"
      using post_mono[OF Cons.IH[of b1]] b1 by simp
  qed
qed

text \<open>
  A delivered event only changes the queue of its client, so the hellos the owner is decided
  from stay; a refused one disconnects the client.
\<close>

lemma agrees_hellos:
  assumes "map client_hello (b_clients b') = map client_hello (b_clients b)"
    and "b_capture b' = b_capture b" and "b_keyboard b' = b_keyboard b" and "b_mode b' = b_mode b"
    and "owner (b_state b') = owner (b_state b)" and "b_session b' = b_session b"
    and "b_session_at b' = b_session_at b" and "b_focused b' = b_focused b"
  shows "agrees T b' = agrees T b"
proof -
  have find: "map_option client_hello (find (\<lambda>c. P (client_hello c)) cs)
      = find P (map client_hello cs)" for P cs
    by (induction cs) auto
  have "frontend_delivery cs = map_option hello_delivery
      (find (\<lambda>hl. hello_role hl = role.Frontend) (map client_hello cs))" for cs
    by (simp add: frontend_delivery_def find[symmetric] option.map_comp comp_def)
  then have "frontend_delivery (b_clients b') = frontend_delivery (b_clients b)"
    using assms(1) by simp
  then have "owner_for f b' = owner_for f b" for f
    using assms(2-4) by (rule owner_for_cong)
  then show ?thesis using assms(5-) by (simp add: agrees_def focus_at_def)
qed

lemma clients_ok_update:
  assumes "clients_ok cs" and "n < length cs" and "client_id c = client_id (cs ! n)"
    and "client_hello c = client_hello (cs ! n)" and "length (client_queue c) \<le> QUEUE"
  shows "clients_ok (cs[n := c])"
  using assms
  by (auto simp: clients_ok_def map_update_same dest!: set_update_subset_insert[THEN subsetD])

lemma queued_spec:
  assumes "core g b" and "n < length (b_clients b)" and "try_send e (b_clients b ! n) = Some c"
    and b': "b' = b\<lparr>b_clients := (b_clients b)[n := c]\<rparr>"
  shows "core g b' \<and> agrees T b' = agrees T b"
proof -
  have c: "client_id c = client_id (b_clients b ! n)" "client_hello c = client_hello (b_clients b ! n)"
    "length (client_queue c) \<le> QUEUE"
    using assms(3) by (auto simp: try_send_def split: if_splits)
  have hellos: "map client_hello (b_clients b') = map client_hello (b_clients b)"
    using c(2) assms(2) by (simp add: b' map_update_same)
  have "\<exists>x\<in>set ((b_clients b)[n := c]). client_id x = i \<and> P (client_hello x)"
    if x: "x \<in> set (b_clients b)" "client_id x = i" "P (client_hello x)" for x i P
  proof -
    obtain k where k: "k < length (b_clients b)" "b_clients b ! k = x"
      using x(1) by (auto simp: in_set_conv_nth)
    have "(b_clients b)[n := c] ! k \<in> set ((b_clients b)[n := c])"
      using k(1) by (intro nth_mem) simp
    moreover have "client_id ((b_clients b)[n := c] ! k) = i"
      "client_hello ((b_clients b)[n := c] ! k) = client_hello x"
      using k c x(2) assms(2) by (auto simp: nth_list_update)
    ultimately show ?thesis using x(3) by metis
  qed
  from this[where P = "\<lambda>hl. hello_delivery hl = delivery.Overlay"] have "capture_ok b'"
    using assms(1) by (fastforce simp: b' core_def capture_ok_def)
  then have "core g b'"
    using assms(1,2) c clients_ok_update[OF _ assms(2) c]
    by (simp add: b' core_def pads_ok_def keyboard_ok_def output_ok_def)
  moreover have "agrees T b' = agrees T b"
    using hellos by (rule agrees_hellos) (simp_all add: b')
  ultimately show ?thesis ..
qed

text \<open>What a handler that only talks to clients leaves: the keyboard, and an absent capture.\<close>

definition calm :: "('d, 'o, 'c) broker \<Rightarrow> ('d, 'o, 'c) broker \<Rightarrow> bool" where
  "calm b b' \<longleftrightarrow> b_keyboard b' = b_keyboard b \<and> (b_capture b = None \<longrightarrow> b_capture b' = None)"

lemma calm_trans: "calm a b \<Longrightarrow> calm b c \<Longrightarrow> calm a c"
  by (simp add: calm_def)

lemma send_core:
  assumes laws: "device_laws h g" and orders: "host_ok T h" and core: "core g b"
  shows "post (\<lambda>b'. core g b' \<and> calm b b' \<and> (agrees T b \<longrightarrow> agrees T b')) (Broker_send h i e b)"
proof (cases "position (\<lambda>c. client_id c = i) (b_clients b)")
  case None
  then show ?thesis using core by (simp add: Broker_send_def calm_def)
next
  case (Some n)
  then have n: "n < length (b_clients b)" by (auto dest: position_SomeD)
  show ?thesis
  proof (cases "try_send e (b_clients b ! n)")
    case (Some c)
    with \<open>position _ _ = Some n\<close> queued_spec[OF core n Some refl] show ?thesis
      by (simp add: Broker_send_def calm_def)
  next
    case None
    with \<open>position _ _ = Some n\<close> have "Broker_send h i e b = Broker_disconnect h i b"
      by (simp add: Broker_send_def)
    then show ?thesis
      using post_mono[OF disconnect_good[OF laws orders core]]
      by (simp add: good_def dropped_def calm_def option_filter_def)
  qed
qed

lemma send_good:
  assumes "device_laws h g" and "host_ok T h" and "good g T b"
  shows "post (\<lambda>b'. good g T b' \<and> calm b b') (Broker_send h i e b)"
  using assms(3) post_mono[OF send_core[OF assms(1,2)]] by (simp add: good_def)

lemma reconcile_calm:
  assumes "core g b" and "host_ok T h"
  shows "post (\<lambda>b'. good g T b' \<and> calm b b') (Broker_reconcile h b)"
  by (rule post_mono[OF reconcile_good[OF assms]]) (simp add: keeps_def calm_def)

lemma revoke_good:
  assumes laws: "device_laws h g" and orders: "host_ok T h" and core: "core g b"
  shows "post (\<lambda>b'. good g T b' \<and> b_keyboard b' = b_keyboard b \<and> b_capture b' = None)
    (Broker_revoke h reason b)"
proof -
  let ?P = "\<lambda>b'. good g T b' \<and> b_keyboard b' = b_keyboard b \<and> b_capture b' = None"
  have ok: "pads_ok g b" "clients_ok (b_clients b)" "keyboard_ok b" "output_ok b"
    using core by (simp_all add: core_def)
  have rel: "post (\<lambda>b'. core g b' \<and> b_capture b' = None \<and> b_keyboard b' = b_keyboard b)
      (Broker_release h b)"
    by (rule post_mono[OF release_core[OF laws ok]]) simp
  have "post ?P (and_then (Broker_release h b) (Broker_reconcile h))"
    by (rule post_and_then[OF rel])
       (auto intro: post_mono[OF reconcile_calm[OF _ orders]] simp: calm_def)
  then show ?thesis
    unfolding Broker_revoke_def Let_def
    by (rule post_and_then)
       (auto split: option.split intro!: post_mono[OF send_good[OF laws orders]] simp: calm_def)
qed

section \<open>Connecting\<close>

lemma suspend_owner [simp]: "owner (Ownership_suspend s) = owner s"
  by (simp add: Ownership_suspend_def)

lemma suspended_good:
  assumes "good g T b" and "host_ok T h"
  defines "r \<equiv> mapper_active h False b"
  shows "good g T ((fst r)\<lparr>b_state := Ownership_suspend (b_state (fst r))\<rparr>)"
    and "keeps b ((fst r)\<lparr>b_state := Ownership_suspend (b_state (fst r))\<rparr>)"
proof -
  let ?b = "(fst r)\<lparr>b_state := Ownership_suspend (b_state (fst r))\<rparr>"
  have core: "core g (fst r)"
    using assms(1,2) unfolding r_def by (intro mapper_active_core) (simp_all add: good_def)
  have k1: "keeps b (fst r)" unfolding r_def by (rule mapper_active_keeps)
  have k2: "keeps (fst r) ?b" by (simp add: keeps_def)
  show k: "keeps b ?b" using k1 k2 by (rule keeps_trans)
  have "output_ok ?b" using core by (simp add: core_def output_ok_def)
  with k2 core have "core g ?b" by (rule keeps_core)
  moreover have "agrees T ?b = agrees T b"
    using k by (intro agrees_hellos) (simp_all add: keeps_def r_def mapper_active_keeps)
  ultimately show "good g T ?b" using assms(1) by (simp add: good_def)
qed

lemma core_pads:
  assumes "core g b" and "\<forall>p\<in>set ps. g (pad_device p) = (cap \<noteq> None)" and "b_keyboard b = None"
    and "\<forall>i. cap = Some i \<longrightarrow>
        (\<exists>c\<in>set (b_clients b). client_id c = i \<and> hello_delivery (client_hello c) = delivery.Overlay)"
  shows "core g (b\<lparr>b_pads := ps, b_capture := cap\<rparr>)"
  using assms by (simp add: core_def capture_ok_def pads_ok_def keyboard_ok_def output_ok_def)

lemma capture_good:
  assumes laws: "device_laws h g" and orders: "host_ok T h" and b: "good g T b" and none: "b_capture b = None"
    and c: "c \<in> set (b_clients b)" "hello_delivery (client_hello c) = delivery.Overlay"
  shows "post (\<lambda>b'. good g T b') (Broker_capture h (client_id c) b)"
proof -
  define b1 where "b1 = (fst (mapper_active h False b))
    \<lparr>b_state := Ownership_suspend (b_state (fst (mapper_active h False b)))\<rparr>"
  have b1: "good g T b1" "b_capture b1 = None" "b_clients b1 = b_clients b"
    using suspended_good[OF b orders] none by (simp_all add: b1_def keeps_def)
  then have core1: "core g b1" and free: "\<forall>p\<in>set (b_pads b1). \<not> g (pad_device p)"
    by (simp_all add: good_def core_def pads_ok_def)
  define denied where "denied = (b_keyboard b1 \<noteq> None
      \<or> list_ex (\<lambda>c. hello_delivery (client_hello c) = delivery.TextEntry) (b_clients b1))"
  obtain ps res where grab: "grab_all (on_device (grab h)) (on_device (ungrab h)) (b_pads b1) = (ps, res)"
    by force
  have all: "\<forall>p\<in>set ps. g (pad_device p) = (err = None)" if "res = Inr err" for err
    using grab_from_all_or_nothing[of "on_device (grab h)" "\<lambda>p. g (pad_device p)" "on_device (ungrab h)" "[]"
        "b_pads b1" ps err] on_device_laws[OF laws] free grab that
    by (simp add: grab_all_def)
  have send: "post (\<lambda>b'. good g T b') (Broker_send h i e b')" if "good g T b'" for i e b'
    using post_mono[OF send_good[OF laws orders that]] by simp
  have rec: "post (\<lambda>b'. good g T b') (Broker_reconcile h b')" if "core g b'" for b'
    using post_mono[OF reconcile_good[OF that orders]] by simp
  have same: "b1\<lparr>b_pads := ps, b_capture := None\<rparr> = b1\<lparr>b_pads := ps\<rparr>"
    using b1(2) by (cases b1) simp
  have failed: "core g (b1\<lparr>b_pads := ps\<rparr>)" if "res = Inr (Some e)" "\<not> denied" for e
    using core_pads[OF core1, of ps None] all[OF that(1)] that(2)
    by (simp add: denied_def same)
  have taken: "core g (b1\<lparr>b_pads := ps, b_capture := Some (client_id c)\<rparr>)" if "res = Inr None" "\<not> denied"
    using core_pads[OF core1, of ps "Some (client_id c)"] all[OF that(1)] that(2) b1(3) c
    by (auto simp: denied_def)
  have body: "post (\<lambda>b'. good g T b')
     (if denied then Broker_send h (client_id c) (Failed ''Dismiss the keyboard before opening the overlay'') b1
      else case (ps, res) of
              (ps, Inl err) \<Rightarrow> (b1\<lparr>b_pads := ps\<rparr>, Some err)
            | (ps, Inr (Some e)) \<Rightarrow>
                and_then
                  (Broker_send h (client_id c) (Failed (''Controller capture failed: '' @ show_error h (Io e)))
                     (b1\<lparr>b_pads := ps\<rparr>))
                  (Broker_reconcile h)
            | (ps, Inr None) \<Rightarrow>
                and_then (Broker_reconcile h (b1\<lparr>b_pads := ps, b_capture := Some (client_id c)\<rparr>))
                  (Broker_send h (client_id c) Ready))"
    using send[OF b1(1)] failed taken
    by (auto simp: split: sum.splits option.splits
        intro!: post_and_then[OF send_core[OF laws orders]] post_and_then[OF rec] send rec)
  show ?thesis
    using body
    unfolding Broker_capture_def grab[symmetric] denied_def b1_def
    by (cases "snd (mapper_active h False b)") (simp_all add: and_then_pair post_def Let_def)
qed

text \<open>
  A connection is announced once, with a valid hello and an id no client has.
\<close>

definition fresh_client :: "client \<Rightarrow> ('d, 'o, 'c) broker \<Rightarrow> bool" where
  "fresh_client c b \<longleftrightarrow>
     Hello_valid (client_hello c) \<and> client_queue c = [] \<and> client_id c \<notin> client_id ` set (b_clients b)
   \<and> b_capture b \<noteq> Some (client_id c)"

lemma push_core:
  assumes core: "core g b" and c: "fresh_client c b"
    and roles: "\<forall>d\<in>set (b_clients b). hello_role (client_hello d) \<noteq> hello_role (client_hello c)"
  shows "core g (b\<lparr>b_clients := b_clients b @ [c]\<rparr>)"
  using assms
  by (fastforce simp: core_def clients_ok_def capture_ok_def pads_ok_def keyboard_ok_def output_ok_def
      fresh_client_def)

lemma connect_good:
  assumes laws: "device_laws h g" and orders: "host_ok T h" and b: "good g T b" and c: "fresh_client c b"
  shows "post (\<lambda>b'. good g T b') (Broker_connect h c b)"
proof -
  let ?same = "\<lambda>other. hello_role (client_hello other) = hello_role (client_hello c)"
  let ?ids = "map client_id (filter ?same (b_clients b))"
  let ?r = "if list_ex ?same (b_clients b) then for_each (Broker_disconnect h) ?ids b else (b, None)"
  let ?Q = "\<lambda>b1. good g T b1 \<and> dropped (\<lambda>j. j \<in> set ?ids) b b1"
  have "post ?Q (for_each (Broker_disconnect h) ?ids b)"
    by (rule disconnect_all[OF laws orders b])
  moreover have "?Q b" if "\<not> list_ex ?same (b_clients b)"
  proof -
    have "filter ?same (b_clients b) = []" using that by (auto simp: filter_empty_conv list_ex_iff)
    then show ?thesis using b by (simp add: dropped_def option_filter_def split: option.splits)
  qed
  ultimately have first: "post ?Q ?r" by simp
  show ?thesis
    unfolding Broker_connect_def Let_def
  proof (rule post_and_then[OF first])
    fix b1 assume b1: "?Q b1"
    let ?b2 = "b1\<lparr>b_clients := b_clients b1 @ [c]\<rparr>"
    have clients: "b_clients b1 = filter (\<lambda>d. client_id d \<notin> set ?ids) (b_clients b)"
      using b1 by (simp add: dropped_def)
    have fresh: "fresh_client c b1"
      using c b1 by (auto simp: fresh_client_def dropped_def option_filter_def split: option.splits)
    have roles: "\<forall>d\<in>set (b_clients b1). \<not> ?same d" by (auto simp: clients)
    have core: "core g ?b2" using b1 fresh roles by (intro push_core) (simp_all add: good_def)
    show "post (\<lambda>b'. good g T b')
        (if hello_delivery (client_hello c) = delivery.Overlay then Broker_capture h (client_id c) ?b2
         else and_then (Broker_reconcile h ?b2) (Broker_send h (client_id c) Ready))"
    proof (cases "hello_delivery (client_hello c) = delivery.Overlay")
      case True
      have role: "hello_role (client_hello c) = role.Overlay"
        using True fresh by (auto simp: fresh_client_def valid_overlay_role)
      have none: "b_capture b1 = None"
      proof (rule ccontr)
        assume "b_capture b1 \<noteq> None"
        then obtain d where d: "d \<in> set (b_clients b1)" "hello_delivery (client_hello d) = delivery.Overlay"
          using b1 by (fastforce simp: good_def core_def capture_ok_def)
        then have "hello_role (client_hello d) = role.Overlay"
          using b1 by (auto simp: good_def core_def clients_ok_def intro: valid_overlay_role)
        then show False using d roles role by simp
      qed
      have "frontend_delivery (b_clients b1 @ [c]) = frontend_delivery (b_clients b1)"
        using role by (simp add: frontend_delivery_def find_append split: option.splits)
      then have "owner_for f ?b2 = owner_for f b1" for f
        by (intro owner_for_cong) simp_all
      then have "good g T ?b2" using core b1 by (simp add: good_def agrees_def focus_at_def)
      from capture_good[OF laws orders this, of c] True none show ?thesis by simp
    next
      case False
      then show ?thesis
        using post_and_then[OF reconcile_good[OF core orders], where Q = "good g T"]
          post_mono[OF send_good[OF laws orders]] by simp
    qed
  qed
qed

end
