(* ===== verification/Broker_Run.thy ===== *)
theory Broker_Run
  imports Broker_Inv
begin

text \<open>
  The rest of the broker's handlers keep the invariant: discovery, the keyboard handoff and the
  polling pass. The event loop is then a machine whose reachable states satisfy it, and the
  properties of the broker are read off that invariant.
\<close>

section \<open>Discovery\<close>

lemma buttons_owner [simp]: "owner (fst (buttons dev es now kb s)) = owner s"
proof (induction es arbitrary: s)
  case (Cons e es)
  then show ?case by (cases e) (simp add: split_beta)
qed simp

lemma reconcile_post:
  assumes "host_ok T h" and "core g b"
  shows "post (good g T) (Broker_reconcile h b)"
  by (rule post_mono[OF reconcile_good[OF assms(2,1)]]) simp

lemma good_state:
  assumes "good g T b" and "owner s = owner (b_state b)"
  shows "good g T (b\<lparr>b_state := s\<rparr>)"
proof -
  have "agrees T (b\<lparr>b_state := s\<rparr>) = agrees T b" by (rule agrees_hellos) (simp_all add: assms(2))
  with assms show ?thesis
    by (simp add: good_def core_def capture_ok_def pads_ok_def keyboard_ok_def output_ok_def)
qed

lemma good_fields:
  "good g T (b\<lparr>b_next_pad := n\<rparr>) = good g T b"
  "good g T (b\<lparr>b_mouse_at := t\<rparr>) = good g T b"
  by (simp_all add: good_def core_def capture_ok_def pads_ok_def keyboard_ok_def output_ok_def
      agrees_def owner_for_def focus_at_def)

lemma good_pads:
  assumes "good g T b" and "\<forall>p\<in>set ps. g (pad_device p) = (b_capture b \<noteq> None)"
    and "b_keyboard b = None \<or> ps = []"
  shows "good g T (b\<lparr>b_pads := ps\<rparr>)"
proof -
  have "agrees T (b\<lparr>b_pads := ps\<rparr>) = agrees T b" by (rule agrees_hellos) simp_all
  with assms show ?thesis
    by (auto simp: good_def core_def capture_ok_def pads_ok_def keyboard_ok_def output_ok_def)
qed

lemma register_pad_good:
  assumes laws: "device_laws h g" and b: "good g T b" "b_keyboard b = None"
    and dev: "g dev = (b_capture b \<noteq> None)"
  shows "post (\<lambda>b'. good g T b' \<and> b_keyboard b' = None) (register_pad h path dev b)"
proof -
  obtain d f where d: "fetch_events h dev = (d, f)" by force
  have "g d = (b_capture b \<noteq> None)" using dev device_lawsD(5)[OF laws d] by simp
  moreover have seeded: "good g T (b\<lparr>b_next_pad := n, b_state := s\<rparr>)" if "owner s = owner (b_state b)" for n s
    using that b by (intro good_state) (simp_all add: good_fields)
  ultimately have "good g T (b\<lparr>b_next_pad := n, b_state := s, b_pads := b_pads b @ [\<lparr>pad_id = i,
      pad_path = path, pad_device = d, pad_ranges = rs\<rparr>]\<rparr>)"
    if "owner s = owner (b_state b)" for n s i rs
    using good_pads[OF seeded[OF that, of n], of "b_pads b @ [\<lparr>pad_id = i,
      pad_path = path, pad_device = d, pad_ranges = rs\<rparr>]"] b
    by (auto simp: good_def core_def pads_ok_def)
  then show ?thesis
    using b by (auto simp: register_pad_def Let_def d split: sum.splits fetched.splits)
qed

lemma scan_device_good:
  assumes laws: "device_laws h g" and orders: "host_ok T h" and b: "good g T b"
    and free: "b_keyboard b = None" and dev: "\<not> g dev"
  shows "post (\<lambda>b'. good g T b' \<and> b_keyboard b' = None) (scan_device h (path, dev) b)"
proof (cases "list_ex (\<lambda>p. pad_path p = path) (b_pads b)")
  case True
  then show ?thesis using b free by (simp add: scan_device_def)
next
  case False
  obtain d1 e1 where d1: "set_nonblocking h dev = (d1, e1)" by force
  obtain d2 e2 where d2: "(if b_capture b \<noteq> None then grab h d1 else (d1, None)) = (d2, e2)" by force
  have "\<not> g d1" using dev device_lawsD(4)[OF laws d1] by simp
  then have grabbed: "g d2 = (b_capture b \<noteq> None \<and> e2 = None)"
    using d2 device_lawsD(1,2)[OF laws] by (cases e2) (auto split: if_splits)
  define r where "r = (case e2 of None \<Rightarrow> (b, None)
      | Some e \<Rightarrow> Broker_revoke h (''New controller could not be captured: '' @ show_error h (Io e)) b)"
  have r: "post (\<lambda>b'. good g T b' \<and> b_keyboard b' = None \<and> g d2 = (b_capture b' \<noteq> None)) r"
  proof (cases e2)
    case None
    then show ?thesis using b free grabbed by (simp add: r_def)
  next
    case (Some e)
    then show ?thesis
      using b free grabbed post_mono[OF revoke_good[OF laws orders]] by (simp add: r_def good_def)
  qed
  have "scan_device h (path, dev) b =
      (case e1 of Some e \<Rightarrow> (b, Some (Io e)) | None \<Rightarrow> and_then r (register_pad h path d2))"
    using False by (simp only: scan_device_def prod.case if_False d1 d2 r_def option.case_eq_if)
  then show ?thesis
    using post_and_then[OF r, of _ "register_pad h path d2"] register_pad_good[OF laws]
    by (simp split: option.splits)
qed

lemma scan_good:
  fixes h :: "('d, 'o, 'c) host"
  assumes laws: "device_laws h g" and orders: "host_ok T h" and b: "good g T b"
  shows "post (good g T) (Broker_scan h b)"
proof (cases "b_keyboard b")
  case (Some child)
  then show ?thesis using b by (simp add: Broker_scan_def)
next
  case None
  have "post (\<lambda>b'. good g T b' \<and> b_keyboard b' = None) (for_each (scan_device h) (gamepad_devices h) b)"
  proof (rule post_for_each[where P = "\<lambda>b'. good g T b' \<and> b_keyboard b' = None"])
    show "good g T b \<and> b_keyboard b = None" using b None by simp
    fix x and b' :: "('d, 'o, 'c) broker" assume x: "x \<in> set (gamepad_devices h)" and b': "good g T b' \<and> b_keyboard b' = None"
    obtain path dev where "x = (path, dev)" by force
    with x b' device_lawsD(6)[OF laws] show "post (\<lambda>b'. good g T b' \<and> b_keyboard b' = None) (scan_device h x b')"
      using scan_device_good[OF laws orders] by blast
  qed
  from post_mono[OF this, of "good g T"] None show ?thesis by (simp add: Broker_scan_def)
qed

section \<open>The keyboard handoff\<close>

text \<open>
  The in-game keyboard is only asked for by an owner that neither captures nor delivers, so a
  handoff starts with no grab to undo: its error paths leave a sound broker.
\<close>

lemma observing:
  assumes "good g T b" and "owner (b_state b) \<in> {owner.Observe, owner.Desktop}"
  shows "b_capture b = None" and "b_keyboard b = None"
proof -
  from assms(1) obtain t where t: "owner (b_state b) = owner_for (focus_at t b) b"
    by (auto simp: good_def agrees_def)
  show "b_capture b = None" "b_keyboard b = None"
    using assms(2) unfolding t
    by (auto simp: owner_for_def split: if_splits)
qed

definition keyboard_attempt :: "('d, 'o, 'c) host \<Rightarrow> ('d, 'o, 'c) broker \<Rightarrow> ('d, 'o, 'c) result" where
  "keyboard_attempt h b =
     (case osk_adapter h of
        None \<Rightarrow> (b, Some AdapterMissing)
      | Some program \<Rightarrow>
          and_then (and_then (mapper_active h False b) (Broker_release h)) (\<lambda>b.
            let b = b\<lparr>b_state := fold (\<lambda>p. Ownership_remove (pad_id p)) (b_pads b) (b_state b),
                     b_pads := []\<rparr> in
            case spawn h program of
              Inl e \<Rightarrow> (b, Some (Io e))
            | Inr child \<Rightarrow> Broker_reconcile h (b\<lparr>b_keyboard := Some child\<rparr>)))"

lemma remove_owner [simp]: "owner (fold (\<lambda>p. Ownership_remove (pad_id p)) ps s) = owner s"
  by (induction ps arbitrary: s) (simp_all add: Ownership_remove_def)

lemma keyboard_attempt_core:
  assumes orders: "host_ok T h" and b: "good g T b" and free: "b_capture b = None" "b_keyboard b = None"
  shows "core g (fst (keyboard_attempt h b)) \<and> post (good g T) (keyboard_attempt h b)"
proof (cases "osk_adapter h")
  case None
  then show ?thesis using b by (simp add: keyboard_attempt_def good_def)
next
  case (Some program)
  obtain b1 e where r: "mapper_active h False b = (b1, e)" by force
  have core1: "core g b1" and keep: "keeps b b1"
    using mapper_active_core[of g b T h False] mapper_active_keeps(1)[of b h False] b orders
    by (simp_all add: r good_def)
  then have none: "b_capture b1 = None" "b_keyboard b1 = None" using free by (simp_all add: keeps_def)
  define b2 where "b2 = b1\<lparr>b_state := fold (\<lambda>p. Ownership_remove (pad_id p)) (b_pads b1) (b_state b1),
     b_pads := []\<rparr>"
  have core2: "core g b2" and core3: "core g (b2\<lparr>b_keyboard := k\<rparr>)" for k
    using core1 none
    by (simp_all add: b2_def core_def capture_ok_def pads_ok_def keyboard_ok_def output_ok_def)
  have "keyboard_attempt h b = (if e \<noteq> None then (b1, e) else
      case spawn h program of Inl e \<Rightarrow> (b2, Some (Io e))
      | Inr child \<Rightarrow> Broker_reconcile h (b2\<lparr>b_keyboard := Some child\<rparr>))"
    using Some none by (cases e) (simp_all add: keyboard_attempt_def r Broker_release_def Let_def b2_def split: sum.split)
  moreover have "core g (fst (Broker_reconcile h (b2\<lparr>b_keyboard := k\<rparr>)))"
    "post (good g T) (Broker_reconcile h (b2\<lparr>b_keyboard := k\<rparr>))" for k
    using reconcile_core[OF core3 orders] post_mono[OF reconcile_good[OF core3 orders]] by simp_all
  ultimately show ?thesis
    using core1 core2 by (auto split: sum.splits)
qed

lemma open_keyboard_good:
  assumes laws: "device_laws h g" and orders: "host_ok T h" and b: "good g T b"
    and free: "b_capture b = None" "b_keyboard b = None"
  shows "post (good g T) (Broker_open_keyboard h b)"
proof -
  obtain b1 err where r: "keyboard_attempt h b = (b1, err)" by force
  have eq: "Broker_open_keyboard h b = (case (b1, err) of
       (b, None) \<Rightarrow> (b, None)
     | (b, Some err) \<Rightarrow>
         and_then
           (for_each (\<lambda>i. Broker_send h i (Failed (show_error h err))) (map client_id (b_clients b)) b)
           (Broker_reconcile h))"
    unfolding r[symmetric] Broker_open_keyboard_def keyboard_attempt_def Let_def by (rule refl)
  have b1: "core g b1" "err = None \<Longrightarrow> good g T b1"
    using keyboard_attempt_core[OF orders b free] r by auto
  have "post (core g) (for_each (\<lambda>i. Broker_send h i e) ids b1)" for e ids
    using b1(1)
    by (rule post_for_each[where P = "core g"]) (rule post_mono[OF send_core[OF laws orders]], auto)
  then show ?thesis
    unfolding eq
    using b1 post_mono[OF reconcile_good[OF _ orders], of g _ "good g T"]
    by (auto split: option.splits intro: post_and_then)
qed

section \<open>Delivering\<close>

lemma deliver_good:
  assumes laws: "device_laws h g" and orders: "host_ok T h" and b: "good g T b"
    and kb: "sig = signal.Keyboard \<Longrightarrow> owner (b_state b) \<in> {owner.Observe, owner.Desktop}"
  shows "post (good g T) (Broker_deliver h sig b)"
proof (cases sig)
  case (Action a)
  then show ?thesis
    using b post_mono[OF send_good[OF laws orders b]]
    by (auto simp: Broker_deliver_def Let_def split: option.splits)
next
  case Keyboard
  then show ?thesis
    using open_keyboard_good[OF laws orders b] observing[OF b] kb by (simp add: Broker_deliver_def)
qed

lemma deliver_all_good:
  assumes laws: "device_laws h g" and orders: "host_ok T h"
    and kb: "signal.Keyboard \<in> set sigs \<Longrightarrow> ow \<in> {owner.Observe, owner.Desktop}"
  shows "good g T b \<Longrightarrow> owner (b_state b) = ow \<Longrightarrow> post (good g T) (deliver_all h sigs b)"
  using kb
proof (induction sigs arbitrary: b)
  case Nil
  then show ?case by simp
next
  case (Cons sig sigs)
  have "post (good g T) (Broker_deliver h sig b)"
    using Cons.prems by (intro deliver_good[OF laws orders]) auto
  then show ?case
    unfolding deliver_all.simps Let_def
    by (rule post_and_then) (use Cons in auto)
qed

section \<open>The polling pass\<close>

text \<open>
  While the pads are read, nothing but the ownership's pads and the mapper's sources change,
  and every signal collected is one the owner may receive.
\<close>

definition evolves :: "('d, 'o, 'c) broker \<Rightarrow> ('d, 'o, 'c) broker \<times> signal list \<Rightarrow> bool" where
  "evolves b bs \<longleftrightarrow>
     keeps b (fst bs) \<and> owner (b_state (fst bs)) = owner (b_state b)
   \<and> mapper_inv (b_mapper (fst bs)) \<and> active (b_mapper (fst bs)) = active (b_mapper b)
   \<and> (\<forall>sig\<in>set (snd bs). allowed (owner (b_state b)) sig)"

lemma buttons_allowed: "sig \<in> set (snd (buttons dev es now kb s)) \<Longrightarrow> allowed (owner s) sig"
proof (induction es arbitrary: s)
  case (Cons e es)
  obtain c pr where e: "e = (c, pr)" by force
  have "allowed (owner (fst (Ownership_button dev c pr now kb s))) sig"
    if "sig \<in> set (snd (buttons dev es now kb (fst (Ownership_button dev c pr now kb s))))"
    using Cons.IH that by blast
  with Cons.prems show ?case by (auto simp: e split_beta dest: pad_button_allowed)
qed simp

lemma map_and_emit_evolves:
  assumes "evolves b (b1, sigs)" and "mapper_inv (fst (f (b_mapper b1)))"
    and "active (fst (f (b_mapper b1))) = active (b_mapper b1)"
  shows "evolves b (fst (map_and_emit h f b1), sigs)"
proof -
  obtain m evs where f: "f (b_mapper b1) = (m, evs)" by force
  have "keeps b b1" using assms(1) by (simp add: evolves_def)
  moreover have "keeps b1 (b1\<lparr>b_mapper := m\<rparr>)" by (simp add: keeps_def)
  ultimately have "keeps b (fst (emit h evs (b1\<lparr>b_mapper := m\<rparr>)))"
    using emit_keeps(1) by (blast intro: keeps_trans)
  then show ?thesis
    using assms f by (simp add: map_and_emit_def evolves_def emit_keeps)
qed

lemma mapper_remove_map: "mapper_remove h dev b = map_and_emit h
    (Mapper_remove_device (order_sources h (sources (b_mapper b))) dev) b"
  by (simp add: mapper_remove_def map_and_emit_def)

lemma mapper_remove_evolves:
  assumes "evolves b (b1, sigs)"
  shows "evolves b (fst (mapper_remove h dev b1), sigs)"
  unfolding mapper_remove_map using assms
proof (rule map_and_emit_evolves)
  have "mapper_inv (b_mapper b1)" using assms by (simp add: evolves_def)
  then show "mapper_inv (fst (Mapper_remove_device (order_sources h (sources (b_mapper b1))) dev (b_mapper b1)))"
    using remove_device_tracks by (simp add: tracks_def)
qed (simp add: Mapper_remove_device_def Let_def)

lemma evolves_edge:
  assumes "evolves b (b1, sigs)" and "owner st = owner (b_state b1)"
    and "\<forall>sig\<in>set evs. allowed (owner (b_state b1)) sig"
  shows "evolves b (b1\<lparr>b_state := st\<rparr>, sigs @ evs)"
  using assms by (auto simp: evolves_def keeps_def)

lemma poll_key_evolves:
  assumes b1: "evolves b (b1, sigs)"
  shows "evolves b (fst (and_then (if c then mapper_remove h dev b1 else (b1, None))
      (\<lambda>b. if P b then map_and_emit h (map_key dev code v) b else (b, None))), sigs)"
proof -
  have removed: "evolves b (fst (if c then mapper_remove h dev b1 else (b1, None)), sigs)"
    using b1 by (auto intro: mapper_remove_evolves)
  have mapped: "evolves b (fst (if P b2 then map_and_emit h (map_key dev code v) b2 else (b2, None)), sigs)"
    if "evolves b (b2, sigs)" for b2
  proof -
    have "mapper_inv (b_mapper b2)" using that by (simp add: evolves_def)
    then have "mapper_inv (fst (map_key dev code v (b_mapper b2)))"
      using map_key_tracks by (simp add: tracks_def)
    with that show ?thesis by (simp add: map_and_emit_evolves)
  qed
  show ?thesis
    by (rule and_then_inv[where P = "\<lambda>b2. evolves b (b2, sigs)", OF removed mapped])
qed

lemma poll_event_evolves:
  assumes bs: "evolves b bs"
  shows "evolves b (fst (poll_event h now kb pad ev bs))"
proof -
  obtain b1 sigs where b1: "bs = (b1, sigs)" by force
  let ?dev = "pad_id pad"
  show ?thesis
  proof (cases ev)
    case (KeyEvent code v)
    have edge: "owner (fst (case key_control code of None \<Rightarrow> (b_state b1, [])
        | Some c \<Rightarrow> Ownership_button ?dev c (v \<noteq> 0) now kb (b_state b1))) = owner (b_state b1)"
      "\<forall>sig\<in>set (snd (case key_control code of None \<Rightarrow> (b_state b1, [])
        | Some c \<Rightarrow> Ownership_button ?dev c (v \<noteq> 0) now kb (b_state b1))). allowed (owner (b_state b1)) sig"
      by (auto split: option.splits dest: pad_button_allowed)
    obtain st evs where st: "(case key_control code of None \<Rightarrow> (b_state b1, [])
        | Some c \<Rightarrow> Ownership_button ?dev c (v \<noteq> 0) now kb (b_state b1)) = (st, evs)" by force
    have "owner st = owner (b_state b1)" "\<forall>sig\<in>set evs. allowed (owner (b_state b1)) sig"
      using edge by (simp_all add: st)
    then have "evolves b (b1\<lparr>b_state := st\<rparr>, sigs @ evs)"
      using bs b1 by (intro evolves_edge) simp_all
    note keyed = poll_key_evolves[OF this]
    have "poll_event h now kb pad ev bs = (if v = 2 then ((b1, sigs), None) else
        lift_signals (sigs @ evs) (and_then
          (if code = BTN_MODE \<and> v = 1 then mapper_remove h ?dev (b1\<lparr>b_state := st\<rparr>)
           else (b1\<lparr>b_state := st\<rparr>, None))
          (\<lambda>b. if Ownership_armed ?dev (b_state b1) \<and> \<not> Ownership_guide_held ?dev (b_state b)
               then map_and_emit h (map_key ?dev code v) b else (b, None))))"
      by (simp only: poll_event_def b1 KeyEvent prod.case raw_event.case Let_def st)
    then show ?thesis
      using bs b1 keyed by (simp add: lift_signals_def case_prod_beta)
  next
    case (AbsoluteAxis code v)
    obtain st evs where st: "buttons ?dev (axis_controls (pad_ranges pad) code v) now kb (b_state b1)
        = (st, evs)" by force
    have "owner st = owner (b_state b1)" "\<forall>sig\<in>set evs. allowed (owner (b_state b1)) sig"
      using st buttons_owner[of ?dev _ now kb "b_state b1"] buttons_allowed[of _ ?dev _ now kb "b_state b1"]
      by (metis fst_conv, metis snd_conv)
    then have e: "evolves b (b1\<lparr>b_state := st\<rparr>, sigs @ evs)"
      using bs b1 by (intro evolves_edge) simp_all
    have "evolves b (fst (map_and_emit h (map_axis ?dev code v rng) (b1\<lparr>b_state := st\<rparr>)), sigs @ evs)" for rng
      using e map_axis_tracks[of "b_mapper b1" ?dev code v rng]
      by (intro map_and_emit_evolves) (simp_all add: evolves_def tracks_def)
    with e b1 AbsoluteAxis st show ?thesis
      by (simp add: poll_event_def Let_def lift_signals_def split_beta)
  next
    case OtherEvent
    with bs b1 show ?thesis by (simp add: poll_event_def)
  qed
qed

text \<open>
  The devices a pass leaves are the ones it found, read from: their grabs are unchanged.
\<close>

definition rides :: "('d \<Rightarrow> bool) \<Rightarrow> ('d, 'o, 'c) broker \<Rightarrow> ('d, 'o, 'c) broker \<times> signal list \<Rightarrow> bool" where
  "rides g b bs \<longleftrightarrow> evolves b ((fst bs)\<lparr>b_pads := b_pads b\<rparr>, snd bs)
     \<and> (\<forall>p\<in>set (b_pads (fst bs)). g (pad_device p) = (b_capture b \<noteq> None))"

lemma evolves_rides:
  assumes "evolves b bs" and "\<forall>p\<in>set ps. g (pad_device p) = (b_capture b \<noteq> None)"
  shows "rides g b ((fst bs)\<lparr>b_pads := ps\<rparr>, snd bs)"
  using assms by (simp add: rides_def evolves_def keeps_def)

lemma poll_pads_rides:
  assumes laws: "device_laws h g"
  shows "evolves b bs \<Longrightarrow> \<forall>p\<in>set (seen @ ps). g (pad_device p) = (b_capture b \<noteq> None) \<Longrightarrow>
    rides g b (fst (fst (poll_pads h now kb seen ps bs gone)))"
proof (induction ps arbitrary: seen bs gone)
  case Nil
  then show ?case using evolves_rides[of b bs seen g] by (cases bs) simp
next
  case (Cons p ps)
  obtain b1 sigs where bs: "bs = (b1, sigs)" by force
  obtain d f where d: "fetch_events h (pad_device p) = (d, f)" by force
  have seen: "\<forall>q\<in>set ((seen @ [p\<lparr>pad_device := d\<rparr>]) @ ps). g (pad_device q) = (b_capture b \<noteq> None)"
    using Cons.prems(2) device_lawsD(5)[OF laws d] by auto
  show ?case
  proof (cases f)
    case (Events evs)
    obtain b2 err where r: "for_each (poll_event h now kb p) evs bs = (b2, err)"
      by (rule prod.exhaust)
    have b2: "evolves b b2"
      using for_each_inv[of "evolves b" bs evs "poll_event h now kb p"] Cons.prems(1) poll_event_evolves r
      by (metis fst_conv)
    show ?thesis
    proof (cases err)
      case None
      with Events bs d r Cons.IH[OF b2 seen] show ?thesis by simp
    next
      case (Some e)
      with Events bs d r evolves_rides[OF b2, of "seen @ p\<lparr>pad_device := d\<rparr> # ps" g] seen show ?thesis
        by (cases b2) simp
    qed
  qed (use bs d Cons.IH[OF Cons.prems(1) seen] in simp_all)
qed

lemma drop_pad_rides:
  assumes "rides g b (b1, sigs)"
  shows "rides g b (fst (drop_pad h i b1), sigs)"
proof -
  let ?b = "b1\<lparr>b_pads := filter (\<lambda>p. pad_id p \<noteq> i) (b_pads b1), b_state := Ownership_remove i (b_state b1)\<rparr>"
  have b: "evolves ?b (?b, [])" using assms by (simp add: rides_def evolves_def)
  have "evolves ?b (fst (mapper_remove h i ?b), [])" by (rule mapper_remove_evolves[OF b])
  with assms show ?thesis
    by (auto simp: drop_pad_def rides_def evolves_def keeps_def Ownership_remove_def)
qed

lemma rides_good:
  assumes "good g T b" and "b_keyboard b = None" and "rides g b (b1, sigs)"
  shows "good g T b1 \<and> owner (b_state b1) = owner (b_state b)"
proof -
  have "agrees T b1 = agrees T b"
    using assms(3) by (intro agrees_hellos) (simp_all add: rides_def evolves_def keeps_def)
  with assms show ?thesis
    by (auto simp: good_def core_def rides_def evolves_def keeps_def capture_ok_def pads_ok_def
        keyboard_ok_def output_ok_def)
qed

lemma tick_pads_actions: "sig \<in> set (snd (tick_pads ids now s)) \<Longrightarrow> sig \<noteq> signal.Keyboard"
proof (induction ids arbitrary: s)
  case (Cons i ids)
  have "signal.Keyboard \<notin> set (snd (Pad_tick now p))" for p
    by (auto simp: Pad_tick_def Let_def split: option.splits)
  with Cons show ?case by (auto simp: split_beta Let_def split: option.splits)
qed simp

lemma mouse_step_good:
  assumes "good g T b"
  shows "post (good g T) (mouse_step h b)"
proof -
  have emitted: "good g T (fst (emit h evs b1))" if "good g T b1" for evs b1
  proof -
    have k: "keeps b1 (fst (emit h evs b1))" by (rule emit_keeps)
    have "agrees T (fst (emit h evs b1)) = agrees T b1"
      using k by (intro agrees_hellos) (simp_all add: keeps_def emit_keeps)
    moreover have "core g (fst (emit h evs b1))"
      using that by (intro keeps_core[OF k]) (simp_all add: good_def core_def output_ok_def emit_keeps)
    ultimately show ?thesis using that by (simp add: good_def)
  qed
  have "good g T (b\<lparr>b_mouse_at := clock h\<rparr>)" using assms by (simp add: good_fields)
  with assms emitted show ?thesis
    by (auto simp: mouse_step_def Let_def post_def split: option.splits)
qed

lemma poll_active_good:
  assumes laws: "device_laws h g" and orders: "host_ok T h" and b: "good g T b" and free: "b_keyboard b = None"
  shows "post (good g T) (poll_active h b)"
proof -
  define now where "now = (clock h - b_started b) div 10 ^ 6"
  define kb where "kb = (retro_osk (b_mode b) \<and> Broker_session_has_focus h b)"
  obtain b1 sigs err gone where p: "poll_pads h now kb [] (b_pads b) (b, []) [] = (((b1, sigs), err), gone)"
    by (metis prod.exhaust)
  have "evolves b (b, [])" using b by (simp add: evolves_def good_def core_def output_ok_def)
  from poll_pads_rides[OF laws this, of "[]" "b_pads b" now kb "[]"] b p
  have ride: "rides g b (b1, sigs)" by (simp add: good_def core_def pads_ok_def)
  obtain b2 e2 where r2: "for_each (drop_pad h) gone b1 = (b2, e2)" by force
  have ride2: "rides g b (b2, sigs)"
    using for_each_inv[of "\<lambda>b'. rides g b (b', sigs)" b1 gone "drop_pad h"] drop_pad_rides ride r2
    by (metis fst_conv)
  define tk where "tk = Ownership_tick (order_pads h (pads (b_state b2))) now (b_state b2)"
  have good2: "good g T (b2\<lparr>b_state := fst tk\<rparr>)" and own: "owner (fst tk) = owner (b_state b)"
    using rides_good[OF b free ride2] good_state[of g T b2 "fst tk"] by (simp_all add: tk_def)
  have kbd: "owner (b_state b) \<in> {owner.Observe, owner.Desktop}" if "signal.Keyboard \<in> set (sigs @ snd tk)"
  proof -
    have "signal.Keyboard \<in> set sigs"
      using that tick_pads_actions by (auto simp: tk_def Ownership_tick_def)
    then have "allowed (owner (b_state b)) signal.Keyboard" using ride by (simp add: rides_def evolves_def)
    then show ?thesis by (cases "owner (b_state b)") simp_all
  qed
  have delivered: "post (good g T) (and_then (deliver_all h (sigs @ snd tk) (b2\<lparr>b_state := fst tk\<rparr>)) (mouse_step h))"
    by (rule post_and_then[OF _ mouse_step_good])
       (rule deliver_all_good[OF laws orders kbd good2], use own in simp_all)
  have "poll_active h b = (case err of Some e \<Rightarrow> (b1, Some e) | None \<Rightarrow>
      (case e2 of Some e \<Rightarrow> (b2, Some e) | None \<Rightarrow>
        and_then (deliver_all h (sigs @ snd tk) (b2\<lparr>b_state := fst tk\<rparr>)) (mouse_step h)))"
    unfolding poll_active_def Let_def now_def[symmetric] kb_def[symmetric] p
    by (cases err; cases e2) (simp_all add: r2 tk_def split_beta)
  with delivered show ?thesis by (auto split: option.splits)
qed

lemma poll_good:
  fixes h :: "('d, 'o, 'c) host"
  assumes laws: "device_laws h g" and orders: "host_ok T h" and b: "core g b"
  shows "post (good g T) (Broker_poll h b)"
  unfolding Broker_poll_def
proof (rule post_and_then)
  show "post (good g T) (Broker_reconcile h b)"
    using b by (rule reconcile_post[OF orders])
next
  fix b1 :: "('d, 'o, 'c) broker" assume b1: "good g T b1"
  have kept: "good g T (b1\<lparr>b_keyboard := Some c\<rparr>)" if "b_keyboard b1 = Some c'" for c c'
    using b1 that
    by (auto simp: good_def core_def capture_ok_def pads_ok_def keyboard_ok_def output_ok_def
        agrees_def owner_for_def focus_at_def)
  have ended: "post (good g T) (and_then (Broker_reconcile h (b1\<lparr>b_keyboard := None\<rparr>)) (Broker_scan h))"
  proof (rule post_and_then)
    have "core g (b1\<lparr>b_keyboard := None\<rparr>)"
      using b1 by (simp add: good_def core_def capture_ok_def pads_ok_def keyboard_ok_def output_ok_def)
    then show "post (good g T) (Broker_reconcile h (b1\<lparr>b_keyboard := None\<rparr>))"
      by (rule reconcile_post[OF orders])
  qed (rule scan_good[OF laws orders])
  show "post (good g T) (case b_keyboard b1 of
         Some child \<Rightarrow>
           (case try_wait h child of
              (child, Inl e) \<Rightarrow> (b1\<lparr>b_keyboard := Some child\<rparr>, Some (Io e))
            | (child, Inr None) \<Rightarrow> (b1\<lparr>b_keyboard := Some child\<rparr>, None)
            | (child, Inr (Some status)) \<Rightarrow>
                and_then (Broker_reconcile h (b1\<lparr>b_keyboard := None\<rparr>)) (Broker_scan h))
       | None \<Rightarrow> poll_active h b1)"
    using kept ended poll_active_good[OF laws orders b1]
    by (auto split: option.splits prod.splits sum.splits)
qed

section \<open>The event loop is a machine\<close>

text \<open>
  An event comes with the host it is handled on, so every event may see other devices, another
  clock and other hash orders. A handler that returns an error ends the process (\<^verbatim>\<open>?\<close> in
  \<^verbatim>\<open>run\<close>), so the loop goes on only from handlers that returned without one.
\<close>

fun event_ok :: "broker_event \<Rightarrow> ('d, 'o, 'c) broker \<Rightarrow> bool" where
  "event_ok (Open c) b = fresh_client c b"
| "event_ok _ b = True"

definition loop_step ::
  "('d, 'o, 'c) host \<times> broker_event \<Rightarrow> ('d, 'o, 'c) broker \<Rightarrow> ('d, 'o, 'c) broker" where
  "loop_step he b = fst (broker_step (fst he) (snd he) b)"

definition loop_ok ::
  "('d \<Rightarrow> bool) \<Rightarrow> ('d, 'o, 'c) host \<times> broker_event \<Rightarrow> ('d, 'o, 'c) broker \<Rightarrow> bool" where
  "loop_ok g he b \<longleftrightarrow> device_laws (fst he) g \<and> orders_ok (fst he) \<and> event_ok (snd he) b
     \<and> snd (broker_step (fst he) (snd he) b) = None"

lemma update_client_good:
  assumes "good g T b" and "\<And>c. client_id (f c) = client_id c" "\<And>c. client_hello (f c) = client_hello c"
    and "\<And>c. length (client_queue (f c)) \<le> length (client_queue c)"
  shows "good g T (update_client i f b)"
proof -
  let ?f = "\<lambda>c. if client_id c = i then f c else c"
  have ids: "map client_id (map ?f (b_clients b)) = map client_id (b_clients b)"
    and hellos: "map client_hello (map ?f (b_clients b)) = map client_hello (b_clients b)"
    and roles: "map (\<lambda>c. hello_role (client_hello c)) (map ?f (b_clients b))
      = map (\<lambda>c. hello_role (client_hello c)) (b_clients b)"
    using assms(2,3) by simp_all
  have "Hello_valid (client_hello c) \<and> length (client_queue c) \<le> QUEUE" if "c \<in> set (b_clients b)" for c
    using assms(1) that by (simp add: good_def core_def clients_ok_def)
  then have "\<forall>c\<in>set (map ?f (b_clients b)). Hello_valid (client_hello c) \<and> length (client_queue c) \<le> QUEUE"
    using assms(3) by (auto intro: le_trans[OF assms(4)])
  then have "clients_ok (map ?f (b_clients b))"
    using assms(1) ids roles by (simp only: good_def core_def clients_ok_def)
  moreover have "capture_ok (update_client i f b)"
    unfolding capture_ok_def
  proof (intro allI impI)
    fix j assume "b_capture (update_client i f b) = Some j"
    then obtain c where c: "c \<in> set (b_clients b)" "client_id c = j"
      "hello_delivery (client_hello c) = delivery.Overlay"
      using assms(1) by (auto simp: good_def core_def capture_ok_def update_client_def)
    have "?f c \<in> set (b_clients (update_client i f b))" using c(1) by (simp add: update_client_def)
    moreover have "client_id (?f c) = j" "hello_delivery (client_hello (?f c)) = delivery.Overlay"
      using c assms(2,3) by simp_all
    ultimately show "\<exists>c\<in>set (b_clients (update_client i f b)). client_id c = j
        \<and> hello_delivery (client_hello c) = delivery.Overlay" by blast
  qed
  moreover have "agrees T (update_client i f b) = agrees T b"
    using hellos by (intro agrees_hellos) (simp_all add: update_client_def)
  ultimately show ?thesis
    using assms(1)
    by (simp add: good_def core_def update_client_def pads_ok_def keyboard_ok_def output_ok_def)
qed

lemma step_good:
  assumes "good g T b" and "loop_ok g (h, e) b" and "clock h \<in> T"
  shows "good g T (loop_step (h, e) b)"
proof -
  have laws: "device_laws h g" and orders: "host_ok T h" and ok: "event_ok e b"
    using assms(2,3) by (simp_all add: loop_ok_def host_ok_def)
  note rec = reconcile_post[OF orders]
  have core: "core g b" "core g (b\<lparr>b_mode := m, b_session := s, b_session_at := t\<rparr>)"
    "core g (b\<lparr>b_focused := f\<rparr>)" for m s t f
    using assms(1) by (simp_all add: good_def core_def capture_ok_def pads_ok_def keyboard_ok_def output_ok_def)
  have "post (good g T) (broker_step h e b)"
  proof (cases "(h, e, b)" rule: broker_step.cases)
    case (2 h i b)
    then show ?thesis
      using assms(1) post_mono[OF disconnect_good[OF laws orders, of b i], of "good g T"]
      by (simp add: good_def)
  qed (use assms(1) ok laws orders rec core in
      \<open>simp_all add: connect_good scan_good poll_good update_client_good\<close>)
  then show ?thesis using assms(2) by (simp add: loop_step_def loop_ok_def post_def)
qed

text \<open>The events that decide the owner anew: afterwards it is the owner of that very moment.\<close>

fun decides :: "broker_event \<Rightarrow> bool" where
  "decides Poll = True"
| "decides (FocusChanged f) = True"
| "decides (Datagram (Some session)) = True"
| "decides _ = False"

lemma step_decides:
  assumes "core g b" and "loop_ok g (h, e) b" and "decides e"
  shows "good g {clock h} (loop_step (h, e) b)"
proof -
  have laws: "device_laws h g" and orders: "host_ok {clock h} h"
    using assms(2) by (simp_all add: loop_ok_def host_ok_def)
  note rec = reconcile_post[OF orders]
  have core: "core g (b\<lparr>b_mode := m, b_session := s, b_session_at := t\<rparr>)"
    "core g (b\<lparr>b_focused := f\<rparr>)" for m s t f
    using assms(1) by (simp_all add: core_def capture_ok_def pads_ok_def keyboard_ok_def output_ok_def)
  have "post (good g {clock h}) (broker_step h e b)"
    using assms(3) poll_good[OF laws orders assms(1)] rec core by (cases e rule: decides.cases) simp_all
  then show ?thesis using assms(2) by (simp add: loop_step_def loop_ok_def post_def)
qed

text \<open>
  The machine of the loop, over the clock readings of its run: the start's and those of the
  hosts its events are handled on.
\<close>

interpretation broker_loop:
  machine "Broker_new h0 out" loop_step "\<lambda>he b. loop_ok g he b \<and> clock (fst he) \<in> T"
    "good g (insert (clock h0) T)" for h0 out g T
proof
  show "good g (insert (clock h0) T) (Broker_new h0 out)"
    by (simp add: good_def core_def Broker_new_def clients_ok_def capture_ok_def pads_ok_def
        keyboard_ok_def output_ok_def Mapper_default_def mapper_inv_default[unfolded Mapper_default_def]
        agrees_def owner_for_def Ownership_default_def frontend_delivery_def InputMode_default_def
        exI[of _ "clock h0"])
next
  fix s :: "('a, 'b, 'c) broker" and e
  assume "good g (insert (clock h0) T) s" "loop_ok g e s \<and> clock (fst e) \<in> T"
  then show "good g (insert (clock h0) T) (loop_step e s)" using step_good by (metis fst_conv insertI2 prod.exhaust)
qed

end
