(* ===== verification/Broker_Props.thy ===== *)
theory Broker_Props
  imports Broker_Run
begin

text \<open>
  What the input broker guarantees, over every run of its event loop: capture and the keyboard
  exclude each other, no pad is ever half captured, the compatibility output only runs for a
  focused desktop session, one client holds each role, and an action reaches exactly the client
  it is routed to. A run is a list of events, each with the host it is handled on.
\<close>

section \<open>Runs of the loop\<close>

abbreviation broker_run ::
  "(('d, 'o, 'c) host \<times> broker_event) list \<Rightarrow> ('d, 'o, 'c) broker \<Rightarrow> ('d, 'o, 'c) broker" where
  "broker_run es b \<equiv> fold loop_step es b"

text \<open>The clock readings of a run: when the broker was started and at every event.\<close>

definition readings ::
  "('d, 'o, 'c) host \<Rightarrow> (('d, 'o, 'c) host \<times> broker_event) list \<Rightarrow> nat set" where
  "readings h0 es = insert (clock h0) ((\<lambda>he. clock (fst he)) ` set es)"

lemma steps_ok_also:
  assumes "steps_ok ok step es s" and "\<forall>e\<in>set es. Q e"
  shows "steps_ok (\<lambda>e s. ok e s \<and> Q e) step es s"
  using assms by (induction es arbitrary: s) simp_all

lemma run_good:
  assumes "steps_ok (loop_ok g) loop_step es (Broker_new h0 out)"
    and "b = broker_run es (Broker_new h0 out)"
  shows "good g (readings h0 es) b"
proof -
  let ?T = "(\<lambda>he. clock (fst he)) ` set es"
  have "steps_ok (\<lambda>he b. loop_ok g he b \<and> clock (fst he) \<in> ?T) loop_step es (Broker_new h0 out)"
    using assms(1) by (rule steps_ok_also) simp
  then show ?thesis unfolding assms(2) readings_def by (rule broker_loop.steps_inv)
qed

lemma steps_ok_snoc:
  "steps_ok ok step (es @ [e]) s \<longleftrightarrow> steps_ok ok step es s \<and> ok e (fold step es s)"
  by (induction es arbitrary: s) simp_all

lemma run_decides:
  assumes ok: "steps_ok (loop_ok g) loop_step (es @ [(h, e)]) (Broker_new h0 out)" and "decides e"
    and b: "b = broker_run (es @ [(h, e)]) (Broker_new h0 out)"
  shows "good g {clock h} b"
proof -
  let ?b = "broker_run es (Broker_new h0 out)"
  have run: "steps_ok (loop_ok g) loop_step es (Broker_new h0 out)" "loop_ok g (h, e) ?b"
    using ok by (simp_all add: steps_ok_snoc)
  have "core g ?b" using run_good[OF run(1) refl] by (simp add: good_def)
  from step_decides[OF this run(2) assms(2)] show ?thesis by (simp add: b)
qed

text \<open>
  A concrete host: a device is whether it is grabbed, the output the events written to it, and
  one pad is found. \<open>evs\<close> is what the pad delivers when it is read.
\<close>

definition demo_host :: "nat \<Rightarrow> raw_event list \<Rightarrow> (bool, input_event list, nat) host" where
  "demo_host now evs = \<lparr>grab = (\<lambda>d. (True, None)), ungrab = (\<lambda>d. (False, None)),
     set_nonblocking = (\<lambda>d. (d, None)), get_absinfo = (\<lambda>d. Inr []), get_key_state = (\<lambda>d. Inr []),
     fetch_events = (\<lambda>d. (d, if evs = [] then WouldBlock else Events evs)),
     gamepad_devices = [(''pad0'', False)], emit_raw = (\<lambda>o' raw. (o' @ raw, None)),
     osk_adapter = Some ''osk'', spawn = (\<lambda>_. Inr 0), try_wait = (\<lambda>c. (c, Inr None)), clock = now,
     show_error = (\<lambda>_. ''error''), order_keys = (\<lambda>m. sorted_list_of_set (dom m)),
     order_sources = (\<lambda>m. sorted_list_of_set (dom m)), order_pads = (\<lambda>m. sorted_list_of_set (dom m)),
     order_sticks = (\<lambda>m. sorted_list_of_set (dom m))\<rparr>"

lemma demo_laws: "device_laws (demo_host now evs) (\<lambda>d. d) \<and> orders_ok (demo_host now evs)"
  by (simp add: device_laws_def orders_ok_def demo_host_def sorted_order)

definition demo_overlay :: client where
  "demo_overlay = \<lparr>client_id = 7, client_hello = \<lparr>hello_version = VERSION, hello_role = role.Overlay,
     hello_delivery = delivery.Overlay\<rparr>, client_queue = [], client_gone = False\<rparr>"

text \<open>The overlay opens while a pad is connected; and a game session asks for its keyboard.\<close>

definition overlay_run :: "((bool, input_event list, nat) host \<times> broker_event) list" where
  "overlay_run = [(demo_host 0 [], Scan), (demo_host 1 [], Open demo_overlay)]"

definition retro_session :: session_context where
  "retro_session = \<lparr>session_mode = \<lparr>profile = Native, retro_osk = True\<rparr>, app_ids = [''game'']\<rparr>"

definition keyboard_run :: "((bool, input_event list, nat) host \<times> broker_event) list" where
  "keyboard_run = [(demo_host 0 [], Scan), (demo_host 0 [], FocusChanged (Some ''game'')),
     (demo_host 0 [], Datagram (Some retro_session)), (demo_host 0 [], Poll),
     (demo_host 0 [KeyEvent BTN_MODE 1, KeyEvent BTN_WEST 1], Poll)]"

lemma suspended_dom: "dom (\<lambda>dev. map_option f (if dev = a then Some p else None)) = {a}"
  by (auto split: if_splits)

lemmas broker_eval = suspended_dom
  overlay_run_def keyboard_run_def retro_session_def demo_overlay_def demo_host_def
  loop_step_def Broker_new_def Broker_scan_def scan_device_def register_pad_def
  Broker_connect_def Broker_capture_def Broker_reconcile_def Broker_send_def Broker_poll_def
  poll_active_def poll_event_def deliver_all.simps Broker_deliver_def Broker_open_keyboard_def
  Broker_release_def mouse_step_def target_owner_def frontend_delivery_def mapper_active_def
  mapper_remove_def map_and_emit_def lift_signals_def emit_def grab_all_def on_device_def
  try_send_def Broker_session_has_focus_def SessionContext_matches_focus_def
  InputMode_default_def SessionContext_default_def Mapper_default_def Mapper_set_active_def
  Mapper_remove_device_def Mapper_mouse_tick_def map_key_def Mapper_button_def
  key_edges_def axis_edges_def fresh_client_def Hello_valid_def VERSION_def QUEUE_def
  ownership_eval Ownership_armed_def Ownership_guide_held_def visited_def List.map_filter_def

lemma demo_loop_ok:
  "loop_ok (\<lambda>d. d) (demo_host now evs, e) b \<longleftrightarrow>
     event_ok e b \<and> snd (broker_step (demo_host now evs) e b) = None"
  by (simp add: loop_ok_def demo_laws)

lemma overlay_run_ok: "steps_ok (loop_ok (\<lambda>d. d)) loop_step overlay_run (Broker_new (demo_host 0 []) [])"
  unfolding overlay_run_def steps_ok.simps demo_loop_ok by (simp add: broker_eval)

lemma overlay_run_state:
  "b_capture (broker_run overlay_run (Broker_new (demo_host 0 []) [])) = Some 7"
  "b_keyboard (broker_run overlay_run (Broker_new (demo_host 0 []) [])) = None"
  "map pad_device (b_pads (broker_run overlay_run (Broker_new (demo_host 0 []) []))) = [True]"
  "owner (b_state (broker_run overlay_run (Broker_new (demo_host 0 []) []))) = owner.Overlay"
  by (simp_all add: broker_eval)

lemma keyboard_run_ok: "steps_ok (loop_ok (\<lambda>d. d)) loop_step keyboard_run (Broker_new (demo_host 0 []) [])"
  unfolding keyboard_run_def steps_ok.simps demo_loop_ok by (simp add: broker_eval)

lemma keyboard_run_state:
  "b_keyboard (broker_run keyboard_run (Broker_new (demo_host 0 []) [])) = Some 0"
  by (simp add: broker_eval)

section \<open>Capture and the keyboard\<close>

text \<open>
  While the in-game keyboard adapter runs, at any point of any run of the broker, no overlay
  holds a capture, the broker has closed every controller (the adapter reads them itself), the
  keyboard owns the controllers and the compatibility output is off.
\<close>

theorem keyboard_excludes_capture:
  assumes "steps_ok (loop_ok g) loop_step es (Broker_new h0 out)"
    and "b = broker_run es (Broker_new h0 out)" and "b_keyboard b \<noteq> None"
  shows "b_capture b = None \<and> b_pads b = [] \<and> owner (b_state b) = owner.Keyboard
    \<and> \<not> active (b_mapper b)"
  using run_good[OF assms(1,2)] assms(3)
  by (auto simp: good_def core_def keyboard_ok_def output_ok_def agrees_def owner_for_def)

theorem keyboard_excludes_capture_witness:
  "let b = broker_run keyboard_run (Broker_new (demo_host 0 []) []) in
     steps_ok (loop_ok (\<lambda>d. d)) loop_step keyboard_run (Broker_new (demo_host 0 []) [])
     \<and> b_keyboard b \<noteq> None \<and> b_capture b = None \<and> b_pads b = []
     \<and> owner (b_state b) = owner.Keyboard \<and> \<not> active (b_mapper b)"
proof -
  have "b_keyboard (broker_run keyboard_run (Broker_new (demo_host 0 []) [])) \<noteq> None"
    by (simp only: keyboard_run_state) simp
  from keyboard_excludes_capture[OF keyboard_run_ok refl this] this keyboard_run_ok show ?thesis
    by (simp only: Let_def) simp
qed

text \<open>
  C2: the capture of the controllers is all or nothing: at any point of any run every open
  controller is grabbed exactly when an overlay holds the capture, a capture belongs to a
  connected client that asked for the overlay delivery, and then the overlay owns the
  controllers.
\<close>

theorem capture_is_total:
  assumes "steps_ok (loop_ok g) loop_step es (Broker_new h0 out)"
    and "b = broker_run es (Broker_new h0 out)"
  shows "(\<forall>p\<in>set (b_pads b). g (pad_device p) = (b_capture b \<noteq> None))
    \<and> (\<forall>i. b_capture b = Some i \<longrightarrow> owner (b_state b) = owner.Overlay
        \<and> (\<exists>c\<in>set (b_clients b). client_id c = i \<and> hello_delivery (client_hello c) = delivery.Overlay))"
  using run_good[OF assms]
  by (auto simp: good_def core_def pads_ok_def capture_ok_def keyboard_ok_def agrees_def owner_for_def)

theorem capture_is_total_witness:
  "let b = broker_run overlay_run (Broker_new (demo_host 0 []) []) in
     steps_ok (loop_ok (\<lambda>d. d)) loop_step overlay_run (Broker_new (demo_host 0 []) [])
     \<and> b_capture b = Some 7 \<and> length (b_pads b) = 1 \<and> (\<forall>p\<in>set (b_pads b). pad_device p)
     \<and> owner (b_state b) = owner.Overlay
     \<and> (\<exists>c\<in>set (b_clients b). client_id c = 7 \<and> hello_delivery (client_hello c) = delivery.Overlay)"
proof -
  let ?b = "broker_run overlay_run (Broker_new (demo_host 0 []) [])"
  have "length (b_pads ?b) = 1" using arg_cong[OF overlay_run_state(3), of length] by simp
  with capture_is_total[OF overlay_run_ok refl] overlay_run_state(1) overlay_run_ok show ?thesis
    unfolding Let_def by blast
qed

section \<open>The owner\<close>

lemma mapper_needs_desktop:
  assumes "good g T b" and "active (b_mapper b)"
  shows "owner (b_state b) = owner.Desktop" and "\<exists>t\<in>T. owner_for (focus_at t b) b = owner.Desktop"
  using assms by (auto simp: good_def core_def output_ok_def agrees_def)

lemma desktop_owner_for:
  assumes "owner_for focus b = owner.Desktop"
  shows "focus" and "b_keyboard b = None" and "b_capture b = None"
    and "profile (b_mode b) = input_profile.Desktop"
    and "frontend_delivery (b_clients b) \<notin>
      {Some delivery.Frontend, Some delivery.TextEntry, Some delivery.Handoff}"
  using assms by (auto simp: owner_for_def split: if_splits option.splits delivery.splits)

lemma focused_window:
  assumes "focus_at t b"
  shows "\<exists>app. b_focused b = Some app \<and> app \<in> set (app_ids (b_session b))"
  using assms by (auto simp: focus_at_def SessionContext_matches_focus_def list_ex_iff split: option.splits)

text \<open>
  C1: at any point of any run the owner of the controllers is the one the precedence of the
  delivery rules gives: a running keyboard adapter, then an overlay's capture, then the
  frontend's requested delivery (a handoff leaves the controllers to the game), then a desktop
  session that has the focus; otherwise the broker only observes. The session has the focus when
  the compositor's focused window is one of the session's and the session was announced less
  than five seconds before. The window and the session are those of the current state; the age
  is as of a clock reading of the run, and right after a poll, a focus change or a session
  datagram it is the reading of that very event. The virtual keyboard and mouse only run while
  the owner is such a desktop session, whose window is the focused one.
\<close>

theorem owner_follows_precedence:
  assumes "steps_ok (loop_ok g) loop_step es (Broker_new h0 out)"
    and "b = broker_run es (Broker_new h0 out)"
  shows "(\<exists>t\<in>readings h0 es. owner (b_state b) = owner_for (focus_at t b) b)
    \<and> (\<forall>es' h e. es = es' @ [(h, e)] \<and> decides e \<longrightarrow>
        owner (b_state b) = owner_for (Broker_session_has_focus h b) b)
    \<and> (active (b_mapper b) \<longrightarrow> owner (b_state b) = owner.Desktop \<and> b_keyboard b = None
        \<and> b_capture b = None \<and> profile (b_mode b) = input_profile.Desktop
        \<and> frontend_delivery (b_clients b) \<notin>
            {Some delivery.Frontend, Some delivery.TextEntry, Some delivery.Handoff}
        \<and> (\<exists>app. b_focused b = Some app \<and> app \<in> set (app_ids (b_session b))))"
proof (intro conjI allI impI)
  show "\<exists>t\<in>readings h0 es. owner (b_state b) = owner_for (focus_at t b) b"
    using run_good[OF assms] by (simp add: good_def agrees_def)
next
  fix es' h e assume es: "es = es' @ [(h, e)] \<and> decides e"
  have "good g {clock h} b" using assms es by (intro run_decides[of g es' h e h0 out]) simp_all
  then show "owner (b_state b) = owner_for (Broker_session_has_focus h b) b"
    by (simp add: good_def agrees_def focus_at_def Broker_session_has_focus_def)
next
  assume act: "active (b_mapper b)"
  note mapper = mapper_needs_desktop[OF run_good[OF assms] act]
  obtain t where t: "owner_for (focus_at t b) b = owner.Desktop" using mapper(2) by blast
  show "owner (b_state b) = owner.Desktop" by (rule mapper(1))
  show "b_keyboard b = None" "b_capture b = None" "profile (b_mode b) = input_profile.Desktop"
    "frontend_delivery (b_clients b) \<notin>
       {Some delivery.Frontend, Some delivery.TextEntry, Some delivery.Handoff}"
    using desktop_owner_for[OF t] by blast+
  show "\<exists>app. b_focused b = Some app \<and> app \<in> set (app_ids (b_session b))"
    by (rule focused_window[OF desktop_owner_for(1)[OF t]])
qed

definition desktop_session :: session_context where
  "desktop_session = \<lparr>session_mode = \<lparr>profile = input_profile.Desktop, retro_osk = False\<rparr>,
     app_ids = [''game'']\<rparr>"

definition desktop_run :: "((bool, input_event list, nat) host \<times> broker_event) list" where
  "desktop_run = [(demo_host 0 [], Scan), (demo_host 0 [], FocusChanged (Some ''game'')),
     (demo_host 0 [], Datagram (Some desktop_session)), (demo_host 0 [], Poll),
     (demo_host 0 [KeyEvent BTN_SOUTH 1], Poll)]"

theorem owner_follows_precedence_witness:
  "let b = broker_run desktop_run (Broker_new (demo_host 0 []) []) in
     steps_ok (loop_ok (\<lambda>d. d)) loop_step desktop_run (Broker_new (demo_host 0 []) [])
     \<and> active (b_mapper b) \<and> b_output b = [KEY KEY_ENTER 1]
     \<and> owner (b_state b) = owner.Desktop \<and> b_keyboard b = None \<and> b_capture b = None
     \<and> owner (b_state b) = owner_for (Broker_session_has_focus (fst (last desktop_run)) b) b
     \<and> (\<exists>app. b_focused b = Some app \<and> app \<in> set (app_ids (b_session b)))"
proof -
  have ok: "steps_ok (loop_ok (\<lambda>d. d)) loop_step desktop_run (Broker_new (demo_host 0 []) [])"
    unfolding desktop_run_def steps_ok.simps demo_loop_ok
    by (simp add: broker_eval desktop_session_def Mapper_set_source_def)
  have act: "active (b_mapper (broker_run desktop_run (Broker_new (demo_host 0 []) [])))"
    "b_output (broker_run desktop_run (Broker_new (demo_host 0 []) [])) = [KEY KEY_ENTER 1]"
    by (simp_all add: desktop_run_def broker_eval desktop_session_def Mapper_set_source_def)
  have "desktop_run = butlast desktop_run @ [(fst (last desktop_run), Poll)]"
    by (simp add: desktop_run_def)
  with act owner_follows_precedence[OF ok refl] ok show ?thesis
    unfolding Let_def by (metis decides.simps(1))
qed

section \<open>Clients\<close>

text \<open>
  At any point of any run at most one client holds each role, connection ids are unique,
  every client was admitted with a valid hello, and no client's queue exceeds its bound.
\<close>

theorem one_client_per_role:
  assumes "steps_ok (loop_ok g) loop_step es (Broker_new h0 out)"
    and "b = broker_run es (Broker_new h0 out)"
  shows "distinct (map (\<lambda>c. hello_role (client_hello c)) (b_clients b))
    \<and> distinct (map client_id (b_clients b))
    \<and> (\<forall>c\<in>set (b_clients b). Hello_valid (client_hello c) \<and> length (client_queue c) \<le> QUEUE)"
  using run_good[OF assms] by (simp add: good_def core_def clients_ok_def)

theorem one_client_per_role_witness:
  "let es = overlay_run @ [(demo_host 2 [], Open (demo_overlay\<lparr>client_id := 8\<rparr>))];
       b = broker_run es (Broker_new (demo_host 0 []) []) in
     steps_ok (loop_ok (\<lambda>d. d)) loop_step es (Broker_new (demo_host 0 []) [])
     \<and> map client_id (b_clients b) = [8] \<and> b_capture b = Some 8
     \<and> distinct (map (\<lambda>c. hello_role (client_hello c)) (b_clients b))"
proof -
  define es where "es = overlay_run @ [(demo_host 2 [], Open (demo_overlay\<lparr>client_id := 8\<rparr>))]"
  have ok: "steps_ok (loop_ok (\<lambda>d. d)) loop_step es (Broker_new (demo_host 0 []) [])"
    unfolding es_def overlay_run_def append.simps steps_ok.simps demo_loop_ok
    by (simp add: broker_eval Broker_disconnect_def)
  have "map client_id (b_clients (broker_run es (Broker_new (demo_host 0 []) []))) = [8]"
    "b_capture (broker_run es (Broker_new (demo_host 0 []) [])) = Some 8"
    by (simp_all add: es_def broker_eval Broker_disconnect_def)
  with one_client_per_role[OF ok refl] ok show ?thesis
    unfolding Let_def es_def[symmetric] by blast
qed

section \<open>Grabbing\<close>

text \<open>
  C24: \<^verbatim>\<open>grab_all\<close> on ungrabbed devices returns no error exactly when it holds every device;
  when one refuses and the rollback succeeds, it holds none. No device is lost or added.
\<close>

theorem grab_all_all_or_nothing:
  assumes "\<And>d d'. gr d = (d', None) \<Longrightarrow> g d'" and "\<And>d d' e. gr d = (d', Some e) \<Longrightarrow> g d' = g d"
    and "\<And>d d'. un d = (d', None) \<Longrightarrow> \<not> g d'"
    and "\<forall>d\<in>set ds. \<not> g d" and "grab_all gr un ds = (ds', Inr err)"
  shows "(\<forall>d\<in>set ds'. g d = (err = None)) \<and> length ds' = length ds"
proof -
  have "\<forall>d\<in>set ds'. g d = (err = None)"
    using assms(1-3) _ assms(4)
    by (rule grab_from_all_or_nothing[of gr g un "[]"]) (use assms(5) in \<open>simp_all add: grab_all_def\<close>)
  moreover have "length ds' = length ds"
    using arg_cong[OF grab_from_view[of "\<lambda>_. ()" gr un "[]" ds], of length] assms(5)
    by (simp add: grab_all_def)
  ultimately show ?thesis ..
qed

text \<open>Three devices, named by number; the last refuses.\<close>

definition stubborn_grab :: "nat \<times> bool \<Rightarrow> (nat \<times> bool, io_error) outcome" where
  "stubborn_grab d = (if fst d = 2 then (d, Some TimedOut) else ((fst d, True), None))"

definition plain_ungrab :: "nat \<times> bool \<Rightarrow> (nat \<times> bool, io_error) outcome" where
  "plain_ungrab d = ((fst d, False), None)"

theorem grab_all_all_or_nothing_witness:
  "grab_all stubborn_grab plain_ungrab [(0, False), (1, False), (2, False)]
     = ([(0, False), (1, False), (2, False)], Inr (Some TimedOut))
   \<and> map snd [(0::nat, False), (1, False), (2, False)] = replicate 3 (Some TimedOut = None)"
proof -
  have r: "grab_all stubborn_grab plain_ungrab [(0, False), (1, False), (2, False)]
     = ([(0, False), (1, False), (2, False)], Inr (Some TimedOut))"
    by (simp add: grab_all_def stubborn_grab_def plain_ungrab_def)
  have "(\<forall>d\<in>set [(0::nat, False), (1, False), (2, False)]. snd d = (Some TimedOut = None))
      \<and> length [(0::nat, False), (1, False), (2, False)] = length [(0::nat, False), (1, False), (2, False)]"
    by (rule grab_all_all_or_nothing[OF _ _ _ _ r])
       (auto simp: stubborn_grab_def plain_ungrab_def split: if_splits)
  with r show ?thesis by (simp add: numeral_3_eq_3)
qed

text \<open>
  When the client that holds the capture disconnects (or is dropped) and the handler
  returns without an error, the capture is gone, every controller is released, the client is
  no longer known, and the owner is decided anew without it.
\<close>

theorem disconnect_releases_capture:
  assumes "steps_ok (loop_ok g) loop_step es (Broker_new h0 out)"
    and "b = broker_run es (Broker_new h0 out)" and "device_laws h g" and "orders_ok h"
    and "b_capture b = Some i" and "Broker_disconnect h i b = (b', None)"
  shows "b_capture b' = None \<and> (\<forall>p\<in>set (b_pads b'). \<not> g (pad_device p))
    \<and> b_clients b' = filter (\<lambda>c. client_id c \<noteq> i) (b_clients b) \<and> owner (b_state b') \<noteq> owner.Overlay"
proof -
  have "core g b" using run_good[OF assms(1,2)] by (simp add: good_def)
  from disconnect_good[OF assms(3) host_ok_now[OF assms(4)] this, of i] assms(6)
  have b': "good g {clock h} b'" "dropped (\<lambda>j. j = i) b b'" by simp_all
  then have none: "b_capture b' = None" using assms(5) by (simp add: dropped_def option_filter_def)
  have "owner (b_state b') \<noteq> owner.Overlay"
    using b'(1) none
    by (auto simp: good_def agrees_def owner_for_def split: if_splits option.splits delivery.splits)
  then show ?thesis
    using b' none by (simp add: good_def core_def pads_ok_def dropped_def)
qed

theorem disconnect_releases_capture_witness:
  "let b = broker_run overlay_run (Broker_new (demo_host 0 []) []);
       b' = fst (Broker_disconnect (demo_host 2 []) 7 b) in
     b_capture b = Some 7 \<and> map pad_device (b_pads b) = [True] \<and> b_capture b' = None
     \<and> length (b_pads b') = 1 \<and> (\<forall>p\<in>set (b_pads b'). \<not> pad_device p)"
proof -
  define b where "b = broker_run overlay_run (Broker_new (demo_host 0 []) [])"
  define b' where "b' = fst (Broker_disconnect (demo_host 2 []) 7 b)"
  have r: "Broker_disconnect (demo_host 2 []) 7 b = (b', None)" "length (b_pads b') = 1"
    by (simp_all add: b'_def b_def broker_eval Broker_disconnect_def)
  show ?thesis
    unfolding Let_def b_def[symmetric] b'_def[symmetric]
    using disconnect_releases_capture[OF overlay_run_ok b_def conjunct1[OF demo_laws] conjunct2[OF demo_laws] _ r(1)]
      overlay_run_state[folded b_def] r(2) by blast
qed

section \<open>Routing\<close>

text \<open>What a delivered action does to one client.\<close>

definition routed :: "role \<Rightarrow> event \<Rightarrow> client \<Rightarrow> client list" where
  "routed r e c =
     (if hello_role (client_hello c) \<noteq> r then [c]
      else case try_send e c of None \<Rightarrow> [] | Some c' \<Rightarrow> [c'])"

lemma routed_others: "\<forall>c\<in>set cs. hello_role (client_hello c) \<noteq> r \<Longrightarrow> concat (map (routed r e) cs) = cs"
  by (induction cs) (simp_all add: routed_def)

lemma routed_split:
  assumes "clients_ok (xs @ c # ys)" and "hello_role (client_hello c) = r"
  shows "concat (map (routed r e) (xs @ c # ys)) = xs @ routed r e c @ ys"
    and "filter (\<lambda>d. client_id d \<noteq> client_id c) (xs @ c # ys) = xs @ ys"
proof -
  have ids: "client_id c \<notin> client_id ` set (xs @ ys)"
    and roles: "r \<notin> (\<lambda>c. hello_role (client_hello c)) ` set (xs @ ys)"
    using assms by (auto simp: clients_ok_def)
  have "\<forall>d\<in>set xs. hello_role (client_hello d) \<noteq> r" "\<forall>d\<in>set ys. hello_role (client_hello d) \<noteq> r"
    using roles by auto
  then show "concat (map (routed r e) (xs @ c # ys)) = xs @ routed r e c @ ys"
    by (simp add: routed_others)
  have "\<forall>d\<in>set xs. client_id d \<noteq> client_id c" "\<forall>d\<in>set ys. client_id d \<noteq> client_id c"
    using ids image_eqI[of "client_id c" client_id] by (metis UnCI set_append)+
  then show "filter (\<lambda>d. client_id d \<noteq> client_id c) (xs @ c # ys) = xs @ ys" by simp
qed

lemma position_first:
  assumes "\<forall>x\<in>set xs. \<not> P x" and "P c"
  shows "position P (xs @ c # ys) = Some (length xs)"
  using assms by (induction xs) auto

lemma send_routes:
  assumes laws: "device_laws h g" "orders_ok h" and b: "core g b" "b_clients b = xs @ c # ys"
    and ok: "Broker_send h (client_id c) e b = (b', None)"
  shows "b_clients b' = concat (map (routed (hello_role (client_hello c)) e) (b_clients b))"
proof -
  have cs: "clients_ok (xs @ c # ys)" using b by (simp add: core_def)
  have "client_id c \<notin> client_id ` set xs" using cs by (simp add: clients_ok_def)
  then have "\<forall>x\<in>set xs. client_id x \<noteq> client_id c" by (metis image_eqI)
  then have pos: "position (\<lambda>d. client_id d = client_id c) (b_clients b) = Some (length xs)"
    using b(2) by (simp add: position_first)
  note split = routed_split[OF cs refl]
  show ?thesis
  proof (cases "try_send e c")
    case None
    then have "Broker_send h (client_id c) e b = Broker_disconnect h (client_id c) b"
      using pos b(2) by (simp add: Broker_send_def)
    with disconnect_good[OF laws(1) host_ok_now[OF laws(2)] b(1), of "client_id c"] ok
    have "b_clients b' = filter (\<lambda>d. client_id d \<noteq> client_id c) (b_clients b)" by (simp add: dropped_def)
    then show ?thesis unfolding b(2) split using None by (simp add: routed_def)
  next
    case (Some c')
    then have "b_clients b' = xs @ c' # ys"
      using pos b(2) ok by (auto simp: Broker_send_def)
    then show ?thesis unfolding b(2) split using Some by (simp add: routed_def)
  qed
qed

text \<open>
  An action goes to the overlay client when it is the overlay toggle or the overlay holds
  the capture, and to the frontend client otherwise; that client gets it appended to its queue,
  or is dropped when its queue is full or its task gone, and every other client is untouched.
\<close>

theorem deliver_routes_action:
  assumes "steps_ok (loop_ok g) loop_step es (Broker_new h0 out)"
    and "b = broker_run es (Broker_new h0 out)" and "device_laws h g" and "orders_ok h"
    and "Broker_deliver h (signal.Action a) b = (b', None)"
  shows "b_clients b' = concat (map (routed
      (if a = ToggleOverlay \<or> b_capture b \<noteq> None then role.Overlay else role.Frontend)
      (event.Action a)) (b_clients b))"
proof -
  define r where "r = (if a = ToggleOverlay \<or> b_capture b \<noteq> None then role.Overlay else role.Frontend)"
  let ?P = "\<lambda>c. hello_role (client_hello c) = r"
  have core: "core g b" using run_good[OF assms(1,2)] by (simp add: good_def)
  have eq: "Broker_deliver h (signal.Action a) b = (case find ?P (b_clients b) of None \<Rightarrow> (b, None)
      | Some c \<Rightarrow> Broker_send h (client_id c) (event.Action a) b)"
    by (simp add: Broker_deliver_def r_def Let_def)
  show ?thesis
    unfolding r_def[symmetric]
  proof (cases "find ?P (b_clients b)")
    case None
    then have "b' = b" using assms(5) eq by simp
    moreover have "\<forall>c\<in>set (b_clients b). hello_role (client_hello c) \<noteq> r"
      using None by (simp add: find_None_iff)
    ultimately show "b_clients b' = concat (map (routed r (event.Action a)) (b_clients b))" by (simp add: routed_others)
  next
    case (Some c)
    then have c: "c \<in> set (b_clients b)" "hello_role (client_hello c) = r" by (auto dest: find_Some_set)
    obtain xs ys where cs: "b_clients b = xs @ c # ys" using split_list[OF c(1)] by blast
    from send_routes[OF assms(3,4) core cs, of "event.Action a" b'] c(2) Some assms(5) eq
    show "b_clients b' = concat (map (routed r (event.Action a)) (b_clients b))" by simp
  qed
qed

theorem deliver_routes_action_witness:
  "let b = broker_run overlay_run (Broker_new (demo_host 0 []) []);
       b' = fst (Broker_deliver (demo_host 2 []) (signal.Action MoveUp) b) in
     map client_queue (b_clients b) = [[Ready]]
     \<and> b_clients b' = concat (map (routed role.Overlay (event.Action MoveUp)) (b_clients b))
     \<and> map client_queue (b_clients b') = [[Ready, event.Action MoveUp]]"
proof -
  define b where "b = broker_run overlay_run (Broker_new (demo_host 0 []) [])"
  define b' where "b' = fst (Broker_deliver (demo_host 2 []) (signal.Action MoveUp) b)"
  have r: "Broker_deliver (demo_host 2 []) (signal.Action MoveUp) b = (b', None)"
    "map client_queue (b_clients b) = [[Ready]]"
    "map client_queue (b_clients b') = [[Ready, event.Action MoveUp]]"
    by (simp_all add: b'_def b_def broker_eval)
  from deliver_routes_action[OF overlay_run_ok b_def conjunct1[OF demo_laws] conjunct2[OF demo_laws] r(1)]
    r overlay_run_state(1)[folded b_def]
  show ?thesis unfolding Let_def b_def[symmetric] b'_def[symmetric] by simp
qed

end
