(* ===== verification/Overlay_State.thy ===== *)
theory Overlay_State
  imports Protocol_Input
begin

text \<open>
  The quick menu of the overlay process, \<^verbatim>\<open>hearthdeck-overlay/src/state.rs\<close>: a state machine
  whose update returns the effect the process carries out; and the process around it in
  \<^verbatim>\<open>overlay.rs\<close>, which asks the broker for the controllers and feeds their actions to the
  menu. The cursor always stands on an entry of the menu on screen, toggles and confirmations
  cannot disturb a committed close or log out, and the menu only takes actions while the
  process holds the capture.
\<close>

section \<open>The state machine\<close>

definition MENU_ITEM_COUNT :: nat where "MENU_ITEM_COUNT = 3"

definition RETRY_ITEM_COUNT :: nat where "RETRY_ITEM_COUNT = 2"

datatype status = Menu | Closing | CloseFailed | LoggingOut | LogOutFailed

definition Status_busy :: "status \<Rightarrow> bool" where
  "Status_busy s \<longleftrightarrow> s \<in> {status.Closing, status.LoggingOut}"

fun Status_item_count :: "status \<Rightarrow> nat" where
  "Status_item_count status.Menu = MENU_ITEM_COUNT"
| "Status_item_count status.CloseFailed = RETRY_ITEM_COUNT"
| "Status_item_count status.LogOutFailed = RETRY_ITEM_COUNT"
| "Status_item_count status.Closing = RETRY_ITEM_COUNT"
| "Status_item_count status.LoggingOut = RETRY_ITEM_COUNT"

datatype menu_event =
    Toggle | NavigateUp | NavigateDown | Activate | Resume | Close | CloseSucceeded
  | CloseFailed | HideAfterClose | LogOut | LogOutSucceeded | LogOutFailed

datatype menu_effect = NoEffect | Show | Hide | StopApplication | DelayHide | LogOut

record overlay_state =
  visible :: bool
  status :: status
  selected :: nat

definition OverlayState_default :: overlay_state where
  "OverlayState_default = \<lparr>visible = False, status = status.Menu, selected = 0\<rparr>"

function OverlayState_update :: "menu_event \<Rightarrow> overlay_state \<Rightarrow> overlay_state \<times> menu_effect" where
  "OverlayState_update Toggle s =
     (if Status_busy (status s) then (s, NoEffect)
      else if visible s then (s\<lparr>visible := False\<rparr>, Hide)
      else (s\<lparr>visible := True, status := status.Menu, selected := 0\<rparr>, Show))"
| "OverlayState_update NavigateUp s =
     (if visible s \<and> \<not> Status_busy (status s)
      then let n = Status_item_count (status s) in (s\<lparr>selected := (selected s + n - 1) mod n\<rparr>, NoEffect)
      else (s, NoEffect))"
| "OverlayState_update NavigateDown s =
     (if visible s \<and> \<not> Status_busy (status s)
      then let n = Status_item_count (status s) in (s\<lparr>selected := (selected s + 1) mod n\<rparr>, NoEffect)
      else (s, NoEffect))"
| "OverlayState_update Activate s =
     (if \<not> visible s \<or> Status_busy (status s) then (s, NoEffect)
      else if (status s, selected s) \<in> {(status.Menu, 0), (status.CloseFailed, 1), (status.LogOutFailed, 1)}
      then OverlayState_update Resume s
      else if (status s, selected s) \<in> {(status.Menu, 1), (status.CloseFailed, 0)}
      then OverlayState_update Close s
      else if (status s, selected s) \<in> {(status.Menu, 2), (status.LogOutFailed, 0)}
      then OverlayState_update menu_event.LogOut s
      else (s, NoEffect))"
| "OverlayState_update Resume s = (s\<lparr>visible := False, status := status.Menu\<rparr>, Hide)"
| "OverlayState_update Close s =
     (if Status_busy (status s) then (s, NoEffect) else (s\<lparr>status := status.Closing\<rparr>, StopApplication))"
| "OverlayState_update CloseSucceeded s = (s, DelayHide)"
| "OverlayState_update menu_event.CloseFailed s =
     (s\<lparr>status := status.CloseFailed, selected := 0\<rparr>, NoEffect)"
| "OverlayState_update HideAfterClose s = (s\<lparr>visible := False, status := status.Menu\<rparr>, Hide)"
| "OverlayState_update menu_event.LogOut s =
     (if Status_busy (status s) then (s, NoEffect)
      else (s\<lparr>status := status.LoggingOut\<rparr>, menu_effect.LogOut))"
| "OverlayState_update LogOutSucceeded s = OverlayState_update Resume s"
| "OverlayState_update menu_event.LogOutFailed s =
     (s\<lparr>status := status.LogOutFailed, selected := 0\<rparr>, NoEffect)"
  by pat_completeness auto

termination
  by (relation "measure (\<lambda>(e, _). if e = Activate \<or> e = LogOutSucceeded then 1 else 0)") auto

section \<open>The cursor stays on the menu\<close>

definition cursor_ok :: "overlay_state \<Rightarrow> bool" where
  "cursor_ok s \<longleftrightarrow> selected s < MENU_ITEM_COUNT
     \<and> (\<not> Status_busy (status s) \<longrightarrow> selected s < Status_item_count (status s))"

lemmas menu_simps = MENU_ITEM_COUNT_def RETRY_ITEM_COUNT_def Status_busy_def cursor_ok_def

lemma item_count_bounds: "0 < Status_item_count st" "Status_item_count st \<le> MENU_ITEM_COUNT"
  by (cases st; simp add: menu_simps)+

lemma move_ok:
  assumes "k = j mod Status_item_count (status s)"
  shows "cursor_ok (s\<lparr>selected := k\<rparr>)"
proof -
  have "k < Status_item_count (status s)" using assms item_count_bounds(1) by simp
  with item_count_bounds(2)[of "status s"] show ?thesis by (simp add: cursor_ok_def)
qed

lemma update_cursor_ok: "cursor_ok s \<Longrightarrow> cursor_ok (fst (OverlayState_update e s))"
proof (cases e)
  case NavigateUp
  assume "cursor_ok s"
  then show ?thesis using NavigateUp by (auto simp: Let_def intro: move_ok)
next
  case NavigateDown
  assume "cursor_ok s"
  then show ?thesis using NavigateDown by (auto simp: Let_def intro: move_ok)
qed (auto simp: menu_simps)

interpretation overlay_machine:
  machine OverlayState_default "\<lambda>e s. fst (OverlayState_update e s)" "\<lambda>e s. True" cursor_ok
  by unfold_locales (simp add: OverlayState_default_def menu_simps, rule update_cursor_ok)

lemma always_ok: "steps_ok (\<lambda>e s. True) step es s"
  by (induction es arbitrary: s) simp_all

text \<open>
  After any sequence of events, confirming on the visible menu always does something unless
  a close or log out is already under way: the cursor is on an entry of the menu that is on
  screen, so it resumes, stops the application or logs out.
\<close>

theorem activate_always_acts:
  assumes "s = fold (\<lambda>e s. fst (OverlayState_update e s)) es OverlayState_default"
    and "visible s" and "\<not> Status_busy (status s)"
  shows "selected s < Status_item_count (status s)
    \<and> snd (OverlayState_update Activate s) \<in> {Hide, StopApplication, menu_effect.LogOut}"
proof -
  have ok: "cursor_ok s" unfolding assms(1) by (rule overlay_machine.steps_inv[OF always_ok])
  then have "selected s < Status_item_count (status s)" using assms(3) by (simp add: cursor_ok_def)
  moreover from this have "snd (OverlayState_update Activate s) \<in> {Hide, StopApplication, menu_effect.LogOut}"
    using assms(2,3) by (cases "status s") (auto simp: menu_simps numeral_3_eq_3 less_Suc_eq numeral_2_eq_2)
  ultimately show ?thesis ..
qed

theorem activate_always_acts_witness:
  "let s = fold (\<lambda>e s. fst (OverlayState_update e s))
        [Toggle, NavigateDown, Activate, menu_event.CloseFailed, NavigateUp] OverlayState_default in
     visible s \<and> \<not> Status_busy (status s) \<and> selected s = 1
     \<and> snd (OverlayState_update Activate s) \<in> {Hide, StopApplication, menu_effect.LogOut}"
proof -
  define s where "s = fold (\<lambda>e s. fst (OverlayState_update e s))
        [Toggle, NavigateDown, Activate, menu_event.CloseFailed, NavigateUp] OverlayState_default"
  have "visible s" "\<not> Status_busy (status s)" "selected s = 1"
    by (simp_all add: s_def OverlayState_default_def menu_simps)
  with activate_always_acts[OF s_def] show ?thesis
    unfolding Let_def s_def[symmetric] by blast
qed

section \<open>A committed action is not disturbed\<close>

text \<open>The guarded requests; \<open>Resume\<close> is not guarded, the others are reports of an effect.\<close>

definition guarded_events :: "menu_event set" where
  "guarded_events = {Toggle, NavigateUp, NavigateDown, Activate, Close, menu_event.LogOut}"

text \<open>
  Once a close or log out is committed, toggles, navigation, confirmations and repeated
  close or log out requests, in any number and order, change nothing and cause no effect.
\<close>

theorem busy_ignores_requests:
  assumes "Status_busy (status s)" and "set es \<subseteq> guarded_events"
  shows "run_ops (\<lambda>e s. let (s', eff) = OverlayState_update e s in (s', [eff])) es s
    = (s, replicate (length es) NoEffect)"
proof -
  have "OverlayState_update e s = (s, NoEffect)" if "e \<in> guarded_events" for e
    using that assms(1) by (auto simp: guarded_events_def)
  with assms(2) show ?thesis by (induction es) (simp_all add: Let_def)
qed

theorem busy_ignores_requests_witness:
  "let s = fst (OverlayState_update Activate
        (fst (OverlayState_update NavigateDown (fst (OverlayState_update Toggle OverlayState_default))))) in
     Status_busy (status s)
     \<and> run_ops (\<lambda>e s. let (s', eff) = OverlayState_update e s in (s', [eff])) [Toggle, Close, Activate] s
        = (s, [NoEffect, NoEffect, NoEffect])"
proof -
  define s where "s = fst (OverlayState_update Activate
        (fst (OverlayState_update NavigateDown (fst (OverlayState_update Toggle OverlayState_default)))))"
  have "Status_busy (status s)" by (simp add: s_def OverlayState_default_def menu_simps)
  moreover have "set [Toggle, Close, Activate] \<subseteq> guarded_events" by (simp add: guarded_events_def)
  ultimately show ?thesis
    unfolding Let_def s_def[symmetric]
    using busy_ignores_requests[of s "[Toggle, Close, Activate]", unfolded Let_def] by (simp add: numeral_3_eq_3)
qed

section \<open>The overlay process\<close>

record overlay_proc =
  o_state :: overlay_state
  broker_requested :: bool
  broker_error :: "string option"

definition Overlay_init :: overlay_proc where
  "Overlay_init = \<lparr>o_state = OverlayState_default, broker_requested = False, broker_error = None\<rparr>"

datatype message =
    BrokerInput event | ToggleOverlay | NavigateUp | NavigateDown | Activate | ResumeApp | CloseApp
  | CloseFinished "string + unit" | HideAfterClose | LogOut | LogOutFinished "string + unit"

text \<open>The tasks handed to the runtime.\<close>

datatype task = NoTask | ShowSurface | DestroySurface | StopActiveSession | DelayHideAfterClose | LogOutSession

fun Overlay_apply_effect :: "menu_effect \<Rightarrow> overlay_proc \<Rightarrow> overlay_proc \<times> task" where
  "Overlay_apply_effect NoEffect a = (a, NoTask)"
| "Overlay_apply_effect Show a = (a, ShowSurface)"
| "Overlay_apply_effect Hide a = (a\<lparr>broker_requested := False, broker_error := None\<rparr>, DestroySurface)"
| "Overlay_apply_effect StopApplication a = (a, StopActiveSession)"
| "Overlay_apply_effect DelayHide a = (a, DelayHideAfterClose)"
| "Overlay_apply_effect menu_effect.LogOut a = (a, LogOutSession)"

text \<open>\<^verbatim>\<open>let effect = self.state.update(event); self.apply_effect(effect)\<close>.\<close>

definition menu_update :: "menu_event \<Rightarrow> overlay_proc \<Rightarrow> overlay_proc \<times> task" where
  "menu_update e a =
     (let (s, effect) = OverlayState_update e (o_state a) in Overlay_apply_effect effect (a\<lparr>o_state := s\<rparr>))"

text \<open>\<^verbatim>\<open>Overlay::update\<close> on every message but the broker's, which is below.\<close>

fun Overlay_message :: "message \<Rightarrow> overlay_proc \<Rightarrow> overlay_proc \<times> task" where
  "Overlay_message (BrokerInput _) a = (a, NoTask)"
| "Overlay_message ToggleOverlay a =
     (if \<not> visible (o_state a) then (a\<lparr>broker_requested := \<not> broker_requested a\<rparr>, NoTask)
      else menu_update Toggle a)"
| "Overlay_message NavigateUp a = menu_update menu_event.NavigateUp a"
| "Overlay_message NavigateDown a = menu_update menu_event.NavigateDown a"
| "Overlay_message Activate a = menu_update menu_event.Activate a"
| "Overlay_message ResumeApp a = menu_update Resume a"
| "Overlay_message CloseApp a = menu_update Close a"
| "Overlay_message (CloseFinished (Inr _)) a = menu_update CloseSucceeded a"
| "Overlay_message (CloseFinished (Inl _)) a = menu_update menu_event.CloseFailed a"
| "Overlay_message HideAfterClose a = menu_update menu_event.HideAfterClose a"
| "Overlay_message LogOut a = menu_update menu_event.LogOut a"
| "Overlay_message (LogOutFinished (Inr _)) a = menu_update LogOutSucceeded a"
| "Overlay_message (LogOutFinished (Inl _)) a = menu_update menu_event.LogOutFailed a"

fun Overlay_broker_input :: "event \<Rightarrow> overlay_proc \<Rightarrow> overlay_proc \<times> task" where
  "Overlay_broker_input Ready a =
     (if broker_requested a \<and> \<not> visible (o_state a)
      then menu_update Toggle (a\<lparr>broker_error := None\<rparr>) else (a, NoTask))"
| "Overlay_broker_input (Failed error) a =
     (let was_requested = broker_requested a;
          a = a\<lparr>broker_requested := False, broker_error := Some error\<rparr> in
      if \<not> visible (o_state a) \<and> was_requested then menu_update Toggle a else (a, NoTask))"
| "Overlay_broker_input (Action action) a =
     (if action = action.ToggleOverlay then Overlay_message ToggleOverlay a
      else if broker_requested a \<and> broker_error a = None then
        (case action of
           MoveUp \<Rightarrow> Overlay_message NavigateUp a
         | MoveDown \<Rightarrow> Overlay_message NavigateDown a
         | Confirm \<Rightarrow> Overlay_message Activate a
         | Back \<Rightarrow> Overlay_message ResumeApp a
         | _ \<Rightarrow> (a, NoTask))
      else (a, NoTask))"

fun Overlay_update :: "message \<Rightarrow> overlay_proc \<Rightarrow> overlay_proc \<times> task" where
  "Overlay_update (BrokerInput e) a = Overlay_broker_input e a"
| "Overlay_update m a = Overlay_message m a"

text \<open>
  A visible menu has asked for the controllers exactly when no broker error is shown; its cursor
  is sound; and only a visible menu is busy, unless its application was resumed meanwhile.
\<close>

definition proc_ok :: "overlay_proc \<Rightarrow> bool" where
  "proc_ok a \<longleftrightarrow> cursor_ok (o_state a)
     \<and> (visible (o_state a) \<longrightarrow> broker_requested a = (broker_error a = None))"

text \<open>How the menu's own events move visibility and what hiding resets.\<close>

lemma menu_update_ok:
  assumes "cursor_ok (o_state a)"
    and "visible (o_state a) \<or> e = Toggle \<Longrightarrow> broker_requested a = (broker_error a = None)"
  shows "proc_ok (fst (menu_update e a))"
proof -
  have "cursor_ok (fst (OverlayState_update e (o_state a)))" using assms(1) by (rule update_cursor_ok)
  moreover have "visible (fst (OverlayState_update e (o_state a))) \<longrightarrow> visible (o_state a) \<or> e = Toggle"
    by (cases e) (auto simp: Let_def)
  moreover have "snd (OverlayState_update e (o_state a)) = Hide \<longrightarrow>
      \<not> visible (fst (OverlayState_update e (o_state a)))"
    by (cases e) (auto simp: Let_def)
  ultimately show ?thesis
    using assms(2)
    by (cases "snd (OverlayState_update e (o_state a))")
       (auto simp: menu_update_def Let_def proc_ok_def split_beta)
qed

lemma message_ok:
  assumes "proc_ok a"
  shows "proc_ok (fst (Overlay_message m a))"
proof -
  have upd: "proc_ok (fst (menu_update e a))" if "visible (o_state a) \<or> e \<noteq> Toggle" for e
    using assms that by (intro menu_update_ok) (auto simp: proc_ok_def)
  show ?thesis
    using assms upd by (cases "(m, a)" rule: Overlay_message.cases) (auto simp: proc_ok_def)
qed

lemma overlay_step_ok:
  assumes "proc_ok a"
  shows "proc_ok (fst (Overlay_update m a))"
proof (cases m)
  case (BrokerInput e)
  show ?thesis
  proof (cases e)
    case Ready
    then show ?thesis using assms BrokerInput
      by (auto simp: proc_ok_def intro!: menu_update_ok[unfolded proc_ok_def])
  next
    case (Failed err)
    then show ?thesis using assms BrokerInput
      by (auto simp: Let_def proc_ok_def intro!: menu_update_ok[unfolded proc_ok_def])
  next
    case (Action act)
    then show ?thesis
      using assms BrokerInput message_ok[OF assms]
      by (cases act) (simp_all del: Overlay_message.simps)
  qed
qed (use assms message_ok in \<open>simp_all del: Overlay_message.simps\<close>)

interpretation overlay_proc_machine:
  machine Overlay_init "\<lambda>m a. fst (Overlay_update m a)" "\<lambda>m a. True" proc_ok
  by unfold_locales
     (simp add: Overlay_init_def proc_ok_def OverlayState_default_def menu_simps, rule overlay_step_ok)

text \<open>
  Whatever the broker, the user and the daemon report, a visible menu has the controllers
  requested exactly when it shows no broker error, and then the pad's Confirm on it resumes,
  stops the application or logs out, unless one of these is already under way; with an error
  shown, actions other than the toggle do nothing.
\<close>

theorem visible_menu_has_pad_or_error:
  assumes "a = fold (\<lambda>m a. fst (Overlay_update m a)) ms Overlay_init" and "visible (o_state a)"
  shows "broker_requested a = (broker_error a = None)
    \<and> (broker_error a = None \<and> \<not> Status_busy (status (o_state a)) \<longrightarrow>
        snd (Overlay_update (BrokerInput (Action Confirm)) a)
          \<in> {DestroySurface, StopActiveSession, LogOutSession})
    \<and> (broker_error a \<noteq> None \<longrightarrow> (\<forall>act. act \<noteq> action.ToggleOverlay \<longrightarrow>
        Overlay_update (BrokerInput (Action act)) a = (a, NoTask)))"
proof -
  have ok: "proc_ok a" unfolding assms(1) by (rule overlay_proc_machine.steps_inv[OF always_ok])
  define s where "s = o_state a"
  have "snd (OverlayState_update menu_event.Activate s) \<in> {Hide, StopApplication, menu_effect.LogOut}"
    if "\<not> Status_busy (status s)"
  proof -
    have "selected s < Status_item_count (status s)" using ok that by (simp add: proc_ok_def cursor_ok_def s_def)
    then show ?thesis
      using assms(2) that unfolding s_def[symmetric]
      by (cases "status s") (auto simp: menu_simps numeral_3_eq_3 less_Suc_eq numeral_2_eq_2)
  qed
  then have "snd (menu_update menu_event.Activate a) \<in> {DestroySurface, StopActiveSession, LogOutSession}"
    if "\<not> Status_busy (status s)"
    using that by (auto simp: menu_update_def s_def[symmetric] split_beta Let_def simp del: OverlayState_update.simps)
  with ok assms(2) show ?thesis
    by (auto simp: proc_ok_def s_def simp del: OverlayState_update.simps)
qed

definition demo_messages :: "message list" where
  "demo_messages = [ToggleOverlay, BrokerInput Ready, BrokerInput (Action MoveDown)]"

theorem visible_menu_has_pad_or_error_witness:
  "let a = fold (\<lambda>m a. fst (Overlay_update m a)) demo_messages Overlay_init in
     visible (o_state a) \<and> broker_requested a \<and> broker_error a = None
     \<and> snd (Overlay_update (BrokerInput (Action Confirm)) a) = StopActiveSession
     \<and> snd (Overlay_update (BrokerInput (Action Confirm)) a)
          \<in> {DestroySurface, StopActiveSession, LogOutSession}"
proof -
  define a where "a = fold (\<lambda>m a. fst (Overlay_update m a)) demo_messages Overlay_init"
  have "visible (o_state a)" "broker_error a = None" "\<not> Status_busy (status (o_state a))"
    "snd (Overlay_update (BrokerInput (Action Confirm)) a) = StopActiveSession"
    by (simp_all add: a_def demo_messages_def Overlay_init_def OverlayState_default_def menu_update_def menu_simps)
  with visible_menu_has_pad_or_error[OF a_def] show ?thesis
    unfolding Let_def a_def[symmetric] by blast
qed

text \<open>
  Back is the one request a pending close does not refuse: it hides the menu and forgets the
  close, so that reopening the menu can stop the application a second time before the first
  stop has reported.
\<close>

lemma back_forgets_pending_close:
  "let ms = demo_messages @ [BrokerInput (Action Confirm), BrokerInput (Action Back)] @ demo_messages
        @ [BrokerInput (Action Confirm)] in
     filter (\<lambda>t. t = StopActiveSession)
       (snd (run_ops (\<lambda>m a. let (a', t) = Overlay_update m a in (a', [t])) ms Overlay_init))
     = [StopActiveSession, StopActiveSession]"
  by (simp add: demo_messages_def Overlay_init_def OverlayState_default_def menu_update_def menu_simps)

end
