(* ===== verification/Frontend_State.thy ===== *)
theory Frontend_State
  imports Protocol_Input
begin

text \<open>
  The small state machines of the frontend that decide who has the pad:
  \<^verbatim>\<open>hearthdeck-frontend/src/input_ownership.rs\<close>, \<^verbatim>\<open>launch_state.rs\<close> and
  \<^verbatim>\<open>text_entry.rs\<close>, and the handlers of the application (\<^verbatim>\<open>app/launch.rs\<close> and the launch,
  session and focus messages of \<^verbatim>\<open>app/mod.rs\<close>) that drive the first two together.
\<close>

section \<open>Input ownership\<close>

datatype input_ownership = Checking | Frontend | Launching | ManagedSession | Unfocused

datatype ownership_event =
    SessionObserved bool | SessionCheckFailed | LaunchStarted | LaunchAccepted | LaunchFailed
  | FrontendFocused | FrontendUnfocused

definition InputOwnership_default :: input_ownership where
  "InputOwnership_default = Checking"

fun InputOwnership_update :: "ownership_event \<Rightarrow> input_ownership \<Rightarrow> input_ownership" where
  "InputOwnership_update (SessionObserved True) s =
     (if s \<in> {Checking, input_ownership.Launching, ManagedSession} then ManagedSession else s)"
| "InputOwnership_update (SessionObserved False) s =
     (if s \<in> {Checking, ManagedSession} then input_ownership.Frontend else s)"
| "InputOwnership_update LaunchStarted s =
     (if s = input_ownership.Frontend then input_ownership.Launching else s)"
| "InputOwnership_update LaunchAccepted s = (if s = input_ownership.Launching then ManagedSession else s)"
| "InputOwnership_update LaunchFailed s =
     (if s = input_ownership.Launching then input_ownership.Frontend else s)"
| "InputOwnership_update FrontendFocused s =
     (if s \<in> {ManagedSession, Unfocused} then input_ownership.Frontend else s)"
| "InputOwnership_update FrontendUnfocused s =
     (if s \<in> {input_ownership.Frontend, ManagedSession, Unfocused} then Unfocused else s)"
| "InputOwnership_update SessionCheckFailed s = s"

definition frontend_has_control :: "input_ownership \<Rightarrow> bool" where
  "frontend_has_control s \<longleftrightarrow> s = input_ownership.Frontend"

section \<open>The launch layer\<close>

datatype launch_state = Idle | Launching string | Failed string string

datatype launch_event = Start string | Accepted | Failed string | Dismiss

datatype launch_effect = NoEffect | Launch | DelayDismiss

datatype launch_overlay = Progress string | Failed string string

fun LaunchState_update :: "launch_event \<Rightarrow> launch_state \<Rightarrow> launch_state \<times> launch_effect" where
  "LaunchState_update (Start title) s =
     (if s = Idle then (launch_state.Launching title, Launch) else (s, NoEffect))"
| "LaunchState_update Accepted s =
     (case s of launch_state.Launching _ \<Rightarrow> (s, DelayDismiss) | _ \<Rightarrow> (s, NoEffect))"
| "LaunchState_update (launch_event.Failed error) s =
     (case s of launch_state.Launching title \<Rightarrow> (launch_state.Failed title error, NoEffect)
      | _ \<Rightarrow> (s, NoEffect))"
| "LaunchState_update Dismiss s = (Idle, NoEffect)"

definition LaunchState_is_visible :: "launch_state \<Rightarrow> bool" where
  "LaunchState_is_visible s \<longleftrightarrow> s \<noteq> Idle"

fun LaunchState_error :: "launch_state \<Rightarrow> string option" where
  "LaunchState_error (launch_state.Failed _ error) = Some error"
| "LaunchState_error _ = None"

fun LaunchState_overlay :: "launch_state \<Rightarrow> launch_overlay option" where
  "LaunchState_overlay Idle = None"
| "LaunchState_overlay (launch_state.Launching title) = Some (Progress title)"
| "LaunchState_overlay (launch_state.Failed title error) = Some (launch_overlay.Failed title error)"

section \<open>The text field with the caret\<close>

datatype field = Search | RommUrl | RommUsername | RommPassword

type_synonym text_entry = "field option"

definition TextEntry_focus :: "field \<Rightarrow> text_entry \<Rightarrow> text_entry" where
  "TextEntry_focus f e = Some f"

definition TextEntry_blur :: "field \<Rightarrow> text_entry \<Rightarrow> text_entry" where
  "TextEntry_blur f e = (if e = Some f then None else e)"

definition TextEntry_active :: "text_entry \<Rightarrow> field option" where
  "TextEntry_active e = e"

definition TextEntry_is_active :: "text_entry \<Rightarrow> bool" where
  "TextEntry_is_active e \<longleftrightarrow> TextEntry_active e \<noteq> None"

definition TextEntry_end :: "text_entry \<Rightarrow> text_entry \<times> bool" where
  "TextEntry_end e = (None, e \<noteq> None)"

datatype caret_op = Focus field | Blur field | End

fun caret_step :: "caret_op \<Rightarrow> text_entry \<Rightarrow> text_entry" where
  "caret_step (Focus f) e = TextEntry_focus f e"
| "caret_step (Blur f) e = TextEntry_blur f e"
| "caret_step End e = fst (TextEntry_end e)"

section \<open>The launch handlers of the application\<close>

text \<open>
  The part of the application's state the launch handlers read and write. A launch request
  posted to the daemon is an output; the dismissal timer is one too.
\<close>

record shell =
  sh_launch :: launch_state
  sh_ownership :: input_ownership

definition Shell_init :: shell where
  "Shell_init = \<lparr>sh_launch = Idle, sh_ownership = InputOwnership_default\<rparr>"

datatype shell_message =
    LaunchManaged string string
  | DaemonLaunchResult "string + unit"
  | DismissLaunch
  | ActiveSessionResult "string + bool"
  | WindowFocusChanged bool

datatype shell_task = LaunchItem string | DismissAfterDelay

definition launch_managed :: "string \<Rightarrow> string \<Rightarrow> shell \<Rightarrow> shell \<times> shell_task list" where
  "launch_managed item_id title s =
     (if \<not> frontend_has_control (sh_ownership s) then (s, [])
      else case LaunchState_update (Start title) (sh_launch s) of
             (l, effect) \<Rightarrow>
               let s = s\<lparr>sh_launch := l\<rparr> in
               if effect \<noteq> Launch then (s, [])
               else (s\<lparr>sh_ownership := InputOwnership_update LaunchStarted (sh_ownership s)\<rparr>,
                     [LaunchItem item_id]))"

fun shell_update :: "shell_message \<Rightarrow> shell \<Rightarrow> shell \<times> shell_task list" where
  "shell_update (LaunchManaged item_id title) s = launch_managed item_id title s"
| "shell_update (DaemonLaunchResult result) s =
     (let (ev, l_ev) = (case result of Inr _ \<Rightarrow> (LaunchAccepted, Accepted)
            | Inl error \<Rightarrow> (LaunchFailed, launch_event.Failed error));
          s = s\<lparr>sh_ownership := InputOwnership_update ev (sh_ownership s)\<rparr>;
          (l, effect) = LaunchState_update l_ev (sh_launch s);
          s = s\<lparr>sh_launch := l\<rparr> in
      (s, if effect = DelayDismiss then [DismissAfterDelay] else []))"
| "shell_update DismissLaunch s = (s\<lparr>sh_launch := fst (LaunchState_update Dismiss (sh_launch s))\<rparr>, [])"
| "shell_update (ActiveSessionResult (Inr act)) s =
     (s\<lparr>sh_ownership := InputOwnership_update (SessionObserved act) (sh_ownership s)\<rparr>, [])"
| "shell_update (ActiveSessionResult (Inl _)) s =
     (s\<lparr>sh_ownership := InputOwnership_update SessionCheckFailed (sh_ownership s)\<rparr>, [])"
| "shell_update (WindowFocusChanged focused) s =
     (s\<lparr>sh_ownership := InputOwnership_update (if focused then FrontendFocused else FrontendUnfocused)
        (sh_ownership s)\<rparr>, [])"

text \<open>The delivery the frontend's broker subscription asks for.\<close>

definition requested_delivery :: "text_entry \<Rightarrow> input_ownership \<Rightarrow> bool \<Rightarrow> delivery" where
  "requested_delivery entry ownership signing_in =
     (if TextEntry_is_active entry then delivery.TextEntry
      else if frontend_has_control ownership \<or> signing_in then delivery.Frontend
      else if ownership \<in> {input_ownership.Launching, Checking} then Handoff
      else delivery.Observe)"

section \<open>Launches\<close>

fun launches :: "shell_task list \<Rightarrow> nat" where
  "launches ts = length (filter (\<lambda>t. t \<noteq> DismissAfterDelay) ts)"

fun dismissals :: "shell_message list \<Rightarrow> nat" where
  "dismissals ms = length (filter (\<lambda>m. m = DismissLaunch) ms)"

lemma step_launches:
  "launches (snd (shell_update m s)) + (if sh_launch s = Idle then 0 else 1)
   \<le> (if sh_launch (fst (shell_update m s)) = Idle then 0 else 1) + dismissals [m]"
  by (cases "(m, s)" rule: shell_update.cases)
     (auto simp: launch_managed_def Let_def split: launch_state.splits sum.splits)

text \<open>
  The frontend posts at most one launch to the daemon per dismissal of the launch layer:
  however launch requests, launch results, session polls and focus changes interleave, a second
  launch needs the first one's layer (progress or failure) to be dismissed before.
\<close>

theorem one_launch_per_dismissal:
  "launches (snd (run_ops shell_update ms Shell_init)) \<le> 1 + dismissals ms"
proof -
  have "launches (snd (run_ops shell_update ms s)) + (if sh_launch s = Idle then 0 else 1)
      \<le> (if sh_launch (fst (run_ops shell_update ms s)) = Idle then 0 else 1) + dismissals ms" for s
  proof (induction ms arbitrary: s)
    case (Cons m ms)
    show ?case
      using step_launches[of m s] Cons.IH[of "fst (shell_update m s)"]
      by (simp del: run_ops.simps(2) split: if_splits)
  qed simp
  from this[of Shell_init] show ?thesis by (simp add: Shell_init_def split: if_splits)
qed

text \<open>
  A launch is only posted from a frontend that had the controllers and showed no launch;
  from then until the result is known, the frontend asks the broker for no navigation, unless a
  text field has the caret or the sign-in dialog is open, even if its window is focused again.
\<close>

theorem launch_hands_controllers_off:
  assumes "launch_managed item_id title s = (s1, [LaunchItem item_id])"
    and "list_all (\<lambda>m. case m of WindowFocusChanged _ \<Rightarrow> True | ActiveSessionResult (Inl _) \<Rightarrow> True
      | ActiveSessionResult (Inr act) \<Rightarrow> \<not> act | LaunchManaged _ _ \<Rightarrow> True | _ \<Rightarrow> False) ms"
  shows "sh_ownership s = input_ownership.Frontend \<and> sh_launch s = Idle
    \<and> snd (run_ops shell_update ms s1) = []
    \<and> requested_delivery None (sh_ownership (fst (run_ops shell_update ms s1))) False = Handoff"
proof -
  have s: "sh_ownership s = input_ownership.Frontend" "sh_launch s = Idle"
    and s1: "sh_ownership s1 = input_ownership.Launching"
    using assms(1) by (auto simp: launch_managed_def frontend_has_control_def Let_def split: if_splits)
  have stay: "shell_update m t = (t, [])"
    if "sh_ownership t = input_ownership.Launching"
      "case m of WindowFocusChanged _ \<Rightarrow> True | ActiveSessionResult (Inl _) \<Rightarrow> True
      | ActiveSessionResult (Inr act) \<Rightarrow> \<not> act | LaunchManaged _ _ \<Rightarrow> True | _ \<Rightarrow> False" for m t
    using that by (cases "(m, t)" rule: shell_update.cases)
      (auto simp: launch_managed_def frontend_has_control_def)
  have "run_ops shell_update ms s1 = (s1, [])"
    using assms(2) s1 by (induction ms) (simp_all add: stay Let_def)
  with s s1 show ?thesis
    by (simp add: requested_delivery_def TextEntry_is_active_def TextEntry_active_def frontend_has_control_def)
qed

theorem launch_hands_controllers_off_witness:
  "let s = \<lparr>sh_launch = Idle, sh_ownership = input_ownership.Frontend\<rparr>;
       s1 = fst (launch_managed ''g'' ''Game'' s);
       ms = [WindowFocusChanged False, WindowFocusChanged True, LaunchManaged ''h'' ''Other''] in
     snd (launch_managed ''g'' ''Game'' s) = [LaunchItem ''g''] \<and> snd (run_ops shell_update ms s1) = []
     \<and> requested_delivery None (sh_ownership (fst (run_ops shell_update ms s1))) False = Handoff"
proof -
  define s where "s = \<lparr>sh_launch = Idle, sh_ownership = input_ownership.Frontend\<rparr>"
  define s1 where "s1 = fst (launch_managed ''g'' ''Game'' s)"
  have "launch_managed ''g'' ''Game'' s = (s1, [LaunchItem ''g''])"
    by (simp add: s1_def s_def launch_managed_def frontend_has_control_def)
  with launch_hands_controllers_off[OF this, of "[WindowFocusChanged False, WindowFocusChanged True,
      LaunchManaged ''h'' ''Other'']"] show ?thesis
    unfolding Let_def s_def[symmetric] s1_def[symmetric] by simp
qed

section \<open>The caret\<close>

text \<open>
  A field has the caret exactly when its focus was recorded and since then no other field
  took it, it did not blur itself and the entry was not ended: blurs of other fields that arrive
  late never take the caret away.
\<close>

theorem caret_is_last_focus:
  "TextEntry_active (fold caret_step ops None) = Some f \<longleftrightarrow>
     (\<exists>pre post. ops = pre @ Focus f # post
       \<and> (\<forall>op\<in>set post. op \<noteq> Blur f \<and> op \<noteq> End \<and> (\<forall>f'. op \<noteq> Focus f')))"
proof (induction ops rule: rev_induct)
  case Nil
  then show ?case by (simp add: TextEntry_active_def)
next
  case (snoc op ops)
  let ?clean = "\<lambda>post. \<forall>op\<in>set post. op \<noteq> Blur f \<and> op \<noteq> End \<and> (\<forall>f'. op \<noteq> Focus f')"
  have split: "(\<exists>pre post. ops @ [op] = pre @ Focus f # post \<and> ?clean post)
      \<longleftrightarrow> op = Focus f \<or> ((\<exists>pre post. ops = pre @ Focus f # post \<and> ?clean post)
            \<and> op \<noteq> Blur f \<and> op \<noteq> End \<and> (\<forall>f'. op \<noteq> Focus f'))" (is "?l \<longleftrightarrow> ?r")
  proof
    assume ?l
    then obtain pre post where "ops @ [op] = pre @ Focus f # post" "?clean post" by blast
    then show ?r by (cases post rule: rev_cases) auto
  next
    assume ?r
    then show ?l
    proof
      assume "op = Focus f"
      then have "ops @ [op] = ops @ Focus f # [] \<and> ?clean []" by simp
      then show ?l by blast
    next
      assume r: "(\<exists>pre post. ops = pre @ Focus f # post \<and> ?clean post)
          \<and> op \<noteq> Blur f \<and> op \<noteq> End \<and> (\<forall>f'. op \<noteq> Focus f')"
      then obtain pre post where "ops = pre @ Focus f # post" "?clean post" by blast
      with r have "ops @ [op] = pre @ Focus f # (post @ [op]) \<and> ?clean (post @ [op])" by auto
      then show ?l by blast
    qed
  qed
  show ?case
    unfolding split using snoc.IH
    by (cases op) (auto simp: TextEntry_active_def TextEntry_focus_def TextEntry_blur_def TextEntry_end_def)
qed

theorem caret_is_last_focus_witness:
  "let ops = [Focus RommUsername, Focus RommPassword, Blur RommUsername] in
     TextEntry_active (fold caret_step ops None) = Some RommPassword
     \<and> (\<exists>pre post. ops = pre @ Focus RommPassword # post
          \<and> (\<forall>op\<in>set post. op \<noteq> Blur RommPassword \<and> op \<noteq> End \<and> (\<forall>f'. op \<noteq> Focus f')))"
proof -
  have "TextEntry_active (fold caret_step [Focus RommUsername, Focus RommPassword, Blur RommUsername] None)
      = Some RommPassword"
    by (simp add: TextEntry_active_def TextEntry_focus_def TextEntry_blur_def)
  with caret_is_last_focus[THEN iffD1, OF this] show ?thesis unfolding Let_def by blast
qed

end
