(* ===== verification/Focus_Library.thy ===== *)
theory Focus_Library
  imports Prelude
begin

text \<open>
  The library page's cursor, \<^verbatim>\<open>hearthdeck-frontend/src/screens/library/focus.rs\<close>: stepping
  over the tile grid and the filter drawer, the keyboard's ring over the chrome, and clamping
  when the page changes; with the page's part of \<^verbatim>\<open>App::step_focus\<close>
  (\<^verbatim>\<open>app/navigation.rs\<close>), which applies a step.
\<close>

datatype direction = Up | Down | Left | Right

record layout =
  sections :: nat
  tabs :: nat
  filter_button :: bool
  facets :: nat
  drawer_open :: bool
  tiles :: nat
  columns :: nat

record cursors =
  tile :: nat
  column :: nat
  filter_row :: nat
  ring :: "nat option"

definition Cursors_default :: cursors where
  "Cursors_default = \<lparr>tile = 0, column = 0, filter_row = 0, ring = None\<rparr>"

datatype outcome =
    Tile nat nat | FilterRow nat | FilterValue nat int | Stayed

datatype chrome = Section nat | Search | Tab nat | FilterButton

datatype confirmation = TileAt nat | Filter nat | Chrome chrome | Nothing

definition div_ceil :: "nat \<Rightarrow> nat \<Rightarrow> nat" where
  "div_ceil a b = a div b + (if a mod b > 0 then 1 else 0)"

definition step_tile :: "nat \<Rightarrow> nat \<Rightarrow> direction \<Rightarrow> nat \<Rightarrow> nat \<Rightarrow> (nat \<times> nat) option" where
  "step_tile t col direction n cols =
     (if n = 0 then None
      else
        let cols = max cols 1;
            last = n - 1;
            t = min t last;
            col = min col (cols - 1);
            row = t div cols;
            rows = div_ceil n cols;
            in_column = t mod cols in
        case direction of
          Left \<Rightarrow> if in_column > 0 then Some (t - 1, in_column - 1) else None
        | Right \<Rightarrow> if in_column + 1 < cols \<and> t < last then Some (t + 1, in_column + 1) else None
        | Up \<Rightarrow> if row > 0 then Some (min ((row - 1) * cols + col) (row * cols - 1), col) else None
        | Down \<Rightarrow> if row + 1 < rows then Some (min ((row + 1) * cols + col) last, col) else None)"

definition step :: "cursors \<Rightarrow> direction \<Rightarrow> layout \<Rightarrow> outcome" where
  "step c direction l =
     (if drawer_open l \<and> facets l > 0 then
        let row = min (filter_row c) (facets l - 1) in
        case direction of
          Up \<Rightarrow> FilterRow ((row + facets l - 1) mod facets l)
        | Down \<Rightarrow> FilterRow ((row + 1) mod facets l)
        | Left \<Rightarrow> FilterValue row (- 1)
        | Right \<Rightarrow> FilterValue row 1
      else case step_tile (tile c) (column c) direction (tiles l) (columns l) of
             Some (t, col) \<Rightarrow> Tile t col
           | None \<Rightarrow> Stayed)"

definition ring_len :: "layout \<Rightarrow> nat" where
  "ring_len l = sections l + 1 + tabs l + of_bool (filter_button l)"

definition ring_at :: "nat \<Rightarrow> layout \<Rightarrow> chrome option" where
  "ring_at index l =
     (if index < sections l then Some (Section index)
      else let index = index - sections l in
        if index = 0 then Some Search
        else let index = index - 1 in
          if index < tabs l then Some (Tab index)
          else if index = tabs l \<and> filter_button l then Some FilterButton else None)"

definition ring_chrome :: "cursors \<Rightarrow> layout \<Rightarrow> chrome option" where
  "ring_chrome c l = (case ring c of None \<Rightarrow> None | Some index \<Rightarrow> ring_at index l)"

definition focused_tile :: "cursors \<Rightarrow> layout \<Rightarrow> nat option" where
  "focused_tile c l =
     (if ring_chrome c l \<noteq> None then None else if tile c < tiles l then Some (tile c) else None)"

definition ring_step :: "nat option \<Rightarrow> bool \<Rightarrow> layout \<Rightarrow> nat option" where
  "ring_step r backwards l =
     (let stops = ring_len l in
      if stops = 0 then None
      else case r of
             None \<Rightarrow> Some (if backwards then stops - 1 else 0)
           | Some index \<Rightarrow>
               let index = min index (stops - 1) in
               if backwards then (if index = 0 then None else Some (index - 1))
               else if index + 1 < stops then Some (index + 1) else None)"

definition confirm :: "cursors \<Rightarrow> layout \<Rightarrow> confirmation" where
  "confirm c l =
     (case ring_chrome c l of
        Some ch \<Rightarrow> Chrome ch
      | None \<Rightarrow>
          if drawer_open l \<and> facets l > 0 then Filter (min (filter_row c) (facets l - 1))
          else if tile c < tiles l then TileAt (tile c) else Nothing)"

definition clamp :: "layout \<Rightarrow> cursors \<Rightarrow> cursors" where
  "clamp l c =
     (let rows = max (facets l) 1; stops = ring_len l in
      \<lparr>tile = min (tile c) (tiles l - 1), column = column c, filter_row = min (filter_row c) (rows - 1),
       ring = option_filter (\<lambda>_. stops > 0) (map_option (\<lambda>i. min i (stops - 1)) (ring c))\<rparr>)"

text \<open>The library page's part of \<^verbatim>\<open>step_focus\<close>; a facet's value is the filters' own state.\<close>

definition step_focus :: "direction \<Rightarrow> layout \<Rightarrow> cursors \<Rightarrow> cursors" where
  "step_focus direction l c =
     (let c = c\<lparr>ring := None\<rparr> in
      case step c direction l of
        Tile t col \<Rightarrow> c\<lparr>tile := t, column := col\<rparr>
      | FilterRow row \<Rightarrow> c\<lparr>filter_row := row\<rparr>
      | FilterValue _ _ \<Rightarrow> c
      | Stayed \<Rightarrow> c)"

section \<open>The cursors stay on what exists\<close>

definition cursors_valid :: "layout \<Rightarrow> cursors \<Rightarrow> bool" where
  "cursors_valid l c \<longleftrightarrow> tile c \<le> tiles l - 1 \<and> filter_row c \<le> facets l - 1
     \<and> (\<forall>i. ring c = Some i \<longrightarrow> i < ring_len l)"

lemma ring_len_pos: "0 < ring_len l"
  by (simp add: ring_len_def)

lemma step_tile_eq:
  assumes "n \<noteq> 0" and "K = max k 1" and "T = min t (n - 1)" and "C = min col (K - 1)"
  shows "step_tile t col d n k =
    (case d of
       Left \<Rightarrow> if T mod K > 0 then Some (T - 1, T mod K - 1) else None
     | Right \<Rightarrow> if T mod K + 1 < K \<and> T < n - 1 then Some (T + 1, T mod K + 1) else None
     | Up \<Rightarrow> if T div K > 0 then Some (min ((T div K - 1) * K + C) (T div K * K - 1), C) else None
     | Down \<Rightarrow> if T div K + 1 < div_ceil n K then Some (min ((T div K + 1) * K + C) (n - 1), C) else None)"
  unfolding step_tile_def Let_def assms(2-4) using assms(1) by (simp only: if_False)

lemma step_tile_bound:
  assumes "step_tile t col d n k = Some (t', col')"
  shows "t' \<le> n - 1"
proof -
  define K T where "K = max k 1" and "T = min t (n - 1)"
  have n: "n \<noteq> 0" using assms by (intro notI) (simp add: step_tile_def)
  have le: "T div K * K \<le> T" "T \<le> n - 1"
    by (rule div_times_less_eq_dividend) (simp add: T_def)
  note eq = assms[unfolded step_tile_eq[OF n K_def T_def refl, of col d]]
  show ?thesis
  proof (cases d)
    case Up
    with eq have "t' = min ((T div K - 1) * K + min col (K - 1)) (T div K * K - 1)"
      unfolding Up direction.case by (metis option.inject option.distinct(1) prod.inject)
    then have "t' \<le> T div K * K - 1" by (metis min.cobounded2)
    with le show ?thesis by linarith
  next
    case Down
    with eq have "t' = min ((T div K + 1) * K + min col (K - 1)) (n - 1)"
      unfolding Down direction.case by (metis option.inject option.distinct(1) prod.inject)
    then show ?thesis by (metis min.cobounded2)
  next
    case Left
    with eq have "t' = T - 1"
      unfolding Left direction.case by (metis option.inject option.distinct(1) prod.inject)
    with le show ?thesis by linarith
  next
    case Right
    with eq have "t' = T + 1 \<and> T < n - 1"
      unfolding Right direction.case by (metis option.inject option.distinct(1) prod.inject)
    then show ?thesis by linarith
  qed
qed

lemma step_focus_valid: "cursors_valid l c \<Longrightarrow> cursors_valid l (step_focus d l c)"
proof -
  assume c: "cursors_valid l c"
  have "row mod facets l \<le> facets l - 1" if "facets l > 0" for row
    using mod_less_divisor[OF that, of row] by linarith
  then show ?thesis
    using c
    by (cases d)
       (auto simp: step_focus_def step_def cursors_valid_def Let_def
         split: option.splits dest: step_tile_bound)
qed

interpretation library_cursor: cursor clamp step_focus "\<lambda>l. True" cursors_valid
proof
  fix l c
  show "cursors_valid l (clamp l c)"
    using ring_len_pos[of l]
    by (auto simp: cursors_valid_def clamp_def Let_def min_def)
  show "clamp l c = c" if "cursors_valid l c"
    using that ring_len_pos[of l]
    by (cases c) (auto simp: cursors_valid_def clamp_def Let_def min_def option_filter_def split: option.splits)
qed (rule step_focus_valid)

text \<open>
  After the page changes in any way (tiles loaded, facets gone, another section) and the
  cursors are clamped, any sequence of pad steps leaves the grid cursor on a tile that exists,
  so that confirming acts on a tile whenever the grid has one and no drawer is open over it.
\<close>

theorem confirm_after_steps:
  assumes "tiles l > 0" and "\<not> (drawer_open l \<and> facets l > 0)" and "ds \<noteq> []"
    and "c' = fold (\<lambda>d. step_focus d l) ds (clamp l c)"
  shows "confirm c' l = TileAt (tile c') \<and> tile c' < tiles l \<and> focused_tile c' l = Some (tile c')"
proof -
  have "cursors_valid l c'" unfolding assms(4) by (rule library_cursor.relayout_valid) simp
  then have t: "tile c' < tiles l" using assms(1) by (auto simp: cursors_valid_def)
  have "ring (step_focus d l x) = None" for d x
    by (simp add: step_focus_def Let_def split: outcome.splits)
  then have "ring c' = None" unfolding assms(4) using assms(3) by (cases ds rule: rev_cases) simp_all
  with t assms(2) show ?thesis by (auto simp: confirm_def focused_tile_def ring_chrome_def)
qed

definition demo_layout :: layout where
  "demo_layout = \<lparr>sections = 3, tabs = 2, filter_button = True, facets = 2, drawer_open = False,
     tiles = 8, columns = 3\<rparr>"

theorem confirm_after_steps_witness:
  "let c = \<lparr>tile = 40, column = 1, filter_row = 9, ring = Some 90\<rparr>;
       c' = fold (\<lambda>d. step_focus d demo_layout) [Up, Right, Down] (clamp demo_layout c) in
     confirm c' demo_layout = TileAt (tile c') \<and> tile c' < 8 \<and> tile c' = 7"
proof -
  define c where "c = \<lparr>tile = 40, column = 1, filter_row = 9, ring = Some 90\<rparr>"
  define c' where "c' = fold (\<lambda>d. step_focus d demo_layout) [Up, Right, Down] (clamp demo_layout c)"
  have l: "tiles demo_layout > 0" "\<not> (drawer_open demo_layout \<and> facets demo_layout > 0)"
    by (simp_all add: demo_layout_def)
  have "tile c' = 7"
    by (simp add: c'_def c_def demo_layout_def clamp_def step_focus_def step_def step_tile_def div_ceil_def
        ring_len_def Let_def)
  with confirm_after_steps[OF l _ c'_def] show ?thesis
    unfolding Let_def c_def[symmetric] c'_def[symmetric] by (simp add: demo_layout_def)
qed

section \<open>The grid\<close>

lemma div_ceil_rows:
  assumes "0 < k"
  shows "r < div_ceil n k \<longleftrightarrow> r * k < n"
proof (cases "n mod k = 0")
  case True
  then have n: "n = n div k * k" by (metis add_0_right div_mult_mod_eq)
  have "r < n div k \<longleftrightarrow> r * k < n div k * k" using assms by simp
  then show ?thesis using True n by (simp add: div_ceil_def)
next
  case False
  have "r \<le> n div k \<longleftrightarrow> r * k \<le> n" using assms by (rule less_eq_div_iff_mult_less_eq)
  moreover have "r * k \<noteq> n" using False by auto
  ultimately show ?thesis using False by (auto simp: div_ceil_def)
qed

text \<open>A step down goes to the next row; the step up from there comes back to the tile left.\<close>

lemma step_down:
  assumes "t < n" and "0 < k" and "col < k"
  shows "step_tile t col Down n k =
    (if (t div k + 1) * k < n then Some (min ((t div k + 1) * k + col) (n - 1), col) else None)"
  using assms div_ceil_rows[of k "t div k + 1" n]
  by (simp add: step_tile_def Let_def min_absorb1 max_absorb1 del: mult_Suc)

lemma step_up:
  assumes "t < n" and "0 < k" and "col < k"
  shows "step_tile t col Up n k =
    (if t div k > 0 then Some (min ((t div k - 1) * k + col) (t div k * k - 1), col) else None)"
  using assms by (simp add: step_tile_def Let_def min_absorb1 max_absorb1)

text \<open>
  In the grid, a step down from a tile followed by a step up comes back to that very tile and
  column, also when the row below is shorter than the column the user is in.
\<close>

theorem down_then_up_returns:
  assumes "t < n" and "0 < k" and "step_tile t (t mod k) Down n k = Some (t', col)"
  shows "t < t' \<and> t' < n \<and> t' div k = t div k + 1 \<and> step_tile t' col Up n k = Some (t, t mod k)"
proof -
  define r where "r = t div k"
  have col: "col = t mod k" and t': "t' = min ((r + 1) * k + t mod k) (n - 1)" and below: "(r + 1) * k < n"
    using assms(3) step_down[OF assms(1,2), of "t mod k"] assms(2) by (auto simp: r_def split: if_splits)
  have mod: "t mod k < k" using assms(2) by simp
  have t: "t = r * k + t mod k" by (simp add: r_def)
  have bounds: "(r + 1) * k \<le> t'" "t' < (r + 1) * k + k" "t' < n" using below mod by (auto simp: t')
  then have row: "t' div k = r + 1" using assms(2)
    by (metis add.commute div_nat_eqI mult.commute mult_Suc_right plus_1_eq_Suc)
  have "step_tile t' col Up n k = Some (min (r * k + t mod k) ((r + 1) * k - 1), t mod k)"
    using step_up[OF bounds(3) assms(2) mod] by (simp add: row col)
  moreover have "min (r * k + t mod k) ((r + 1) * k - 1) = t" using mod t by simp
  moreover have "t < t'" using bounds(1) t mod by (metis add_less_cancel_left less_le_trans mult.commute
        mult_Suc_right plus_1_eq_Suc add.commute)
  ultimately show ?thesis using row bounds(3) by (simp add: r_def)
qed

theorem down_then_up_returns_witness:
  "step_tile 5 (5 mod 3) Down 8 3 = Some (7, 2)
   \<and> 7 div 3 = 5 div (3::nat) + 1 \<and> step_tile 7 2 Up 8 3 = Some (5, 5 mod 3)"
proof -
  have d: "step_tile 5 (5 mod 3) Down 8 3 = Some (7, 2)"
    by (simp add: step_tile_def div_ceil_def Let_def)
  from down_then_up_returns[OF _ _ d] d show ?thesis by simp
qed

section \<open>Every tile can be reached\<close>

definition walk :: "nat \<Rightarrow> nat \<Rightarrow> direction list \<Rightarrow> nat \<times> nat \<Rightarrow> nat \<times> nat" where
  "walk n k ds p = fold (\<lambda>d (t, col). case step_tile t col d n k of Some q \<Rightarrow> q | None \<Rightarrow> (t, col)) ds p"

lemma walk_append: "walk n k (ds @ es) p = walk n k es (walk n k ds p)"
  by (simp add: walk_def)

lemma walk_down: "0 < k \<Longrightarrow> r * k < n \<Longrightarrow> walk n k (replicate r Down) (0, 0) = (r * k, 0)"
proof (induction r)
  case 0
  then show ?case by (simp add: walk_def)
next
  case (Suc r)
  then have r: "r * k < n" by (metis add_lessD1 mult_Suc add.commute)
  have "walk n k (replicate (Suc r) Down) (0, 0) = walk n k [Down] (r * k, 0)"
    using Suc r by (simp only: replicate_Suc replicate_append_same[symmetric] walk_append)
  moreover have "step_tile (r * k) 0 Down n k = Some (Suc r * k, 0)"
    using step_down[OF r Suc.prems(1), of 0] Suc.prems by (simp add: add.commute min_absorb1)
  ultimately show ?case by (simp add: walk_def)
qed

lemma walk_right:
  "0 < k \<Longrightarrow> j < k \<Longrightarrow> r * k + j < n \<Longrightarrow> walk n k (replicate j Right) (r * k, 0) = (r * k + j, j)"
proof (induction j)
  case 0
  then show ?case by (simp add: walk_def)
next
  case (Suc j)
  have "walk n k (replicate (Suc j) Right) (r * k, 0) = walk n k [Right] (r * k + j, j)"
    using Suc by (simp only: replicate_Suc replicate_append_same[symmetric] walk_append)
  moreover have "step_tile (r * k + j) j Right n k = Some (r * k + Suc j, Suc j)"
    using Suc.prems by (auto simp: step_tile_def Let_def min_absorb1 max_absorb1)
  ultimately show ?case by (simp add: walk_def)
qed

text \<open>
  Every tile of the grid can be reached from the first one with the D-pad alone: down to its
  row, then right to its column.
\<close>

theorem every_tile_reachable:
  assumes "t < n" and "0 < k"
  shows "fst (walk n k (replicate (t div k) Down @ replicate (t mod k) Right) (0, 0)) = t"
proof -
  have row: "t div k * k < n" using assms(1) by (metis div_times_less_eq_dividend le_less_trans)
  have "walk n k (replicate (t div k) Down @ replicate (t mod k) Right) (0, 0)
      = walk n k (replicate (t mod k) Right) (t div k * k, 0)"
    using walk_down[OF assms(2) row] by (simp add: walk_append)
  also have "\<dots> = (t div k * k + t mod k, t mod k)"
    using assms by (intro walk_right) simp_all
  finally show ?thesis by simp
qed

theorem every_tile_reachable_witness:
  "fst (walk 8 3 (replicate (7 div 3) Down @ replicate (7 mod 3) Right) (0, 0)) = 7"
  by (rule every_tile_reachable) simp_all

section \<open>The ring\<close>

lemma ring_at_some: "ring_at i l \<noteq> None \<longleftrightarrow> i < ring_len l"
  by (auto simp: ring_at_def ring_len_def Let_def)

lemma ring_at_inj: "ring_at i l = Some ch \<Longrightarrow> ring_at j l = Some ch \<Longrightarrow> i = j"
  by (auto simp: ring_at_def Let_def split: if_splits)

text \<open>
  The keyboard's ring walks all of the chrome: walking forwards from the content visits every
  stop once, in order, and then hands the cursor back to the content; and every stop of the
  ring, and nothing past its end, is a control of its own.
\<close>

theorem ring_tour:
  shows "map (\<lambda>k. ((\<lambda>r. ring_step r False l) ^^ k) None) [1..<ring_len l + 1] = map Some [0..<ring_len l]
    \<and> ((\<lambda>r. ring_step r False l) ^^ (ring_len l + 1)) None = None
    \<and> (\<forall>i. ring_at i l \<noteq> None \<longleftrightarrow> i < ring_len l)
    \<and> distinct (map (\<lambda>i. ring_at i l) [0..<ring_len l])"
proof -
  let ?f = "\<lambda>r. ring_step r False l"
  have visit: "(?f ^^ Suc k) None = Some k" if "k < ring_len l" for k
    using that
  proof (induction k)
    case 0
    then show ?case by (simp add: ring_step_def Let_def)
  next
    case (Suc k)
    then have "(?f ^^ Suc (Suc k)) None = ?f (Some k)" by simp
    also have "\<dots> = Some (Suc k)" using Suc.prems by (simp add: ring_step_def Let_def min_absorb1)
    finally show ?case .
  qed
  have "map (\<lambda>k. (?f ^^ k) None) [1..<ring_len l + 1] = map (\<lambda>k. (?f ^^ Suc k) None) [0..<ring_len l]"
    by (simp add: map_Suc_upt[symmetric] del: funpow.simps upt_Suc)
  also have "\<dots> = map Some [0..<ring_len l]" using visit by (intro map_cong) auto
  finally have tour: "map (\<lambda>k. (?f ^^ k) None) [1..<ring_len l + 1] = map Some [0..<ring_len l]" .
  have "(?f ^^ ring_len l) None = Some (ring_len l - 1)"
    using visit[of "ring_len l - 1"] ring_len_pos[of l] by simp
  then have "(?f ^^ (ring_len l + 1)) None = ?f (Some (ring_len l - 1))" by simp
  also have "\<dots> = None" by (simp add: ring_step_def Let_def)
  finally have ends: "(?f ^^ (ring_len l + 1)) None = None" .
  have "inj_on (\<lambda>i. ring_at i l) (set [0..<ring_len l])"
  proof (rule inj_onI)
    fix i j assume "i \<in> set [0..<ring_len l]" and eq: "ring_at i l = ring_at j l"
    then obtain ch where "ring_at i l = Some ch" using ring_at_some[of i l] by auto
    with eq show "i = j" using ring_at_inj by metis
  qed
  then have "distinct (map (\<lambda>i. ring_at i l) [0..<ring_len l])" by (simp add: distinct_map)
  with tour ends ring_at_some show ?thesis by blast
qed

end
