(* ===== verification/Focus_Pages.thy ===== *)
theory Focus_Pages
  imports Focus_Library
begin

text \<open>
  The cursors of the dashboard (\<^verbatim>\<open>hearthdeck-frontend/src/screens/dashboard/focus.rs\<close>) and of
  the details page (\<^verbatim>\<open>screens/details/focus.rs\<close>), on the same contract as the library's: a
  clamped cursor stands on something the page shows, and steps keep it there. The scroll
  follow-ups, which compute on \<^verbatim>\<open>f32\<close> pixels, are not modelled.
\<close>

section \<open>The dashboard\<close>

record rail_cursor =
  rail :: nat
  card :: nat
  remembered :: nat

definition cards_in :: "nat list \<Rightarrow> nat \<Rightarrow> nat" where
  "cards_in rails index = (case get rails index of None \<Rightarrow> 0 | Some n \<Rightarrow> n)"

definition rail_clamp :: "nat list \<Rightarrow> rail_cursor \<Rightarrow> rail_cursor" where
  "rail_clamp rails c =
     (let r = (if cards_in rails (rail c) > 0 then rail c
               else case position (\<lambda>cards. cards > 0) rails of None \<Rightarrow> 0 | Some i \<Rightarrow> i) in
      \<lparr>rail = r, card = min (card c) (cards_in rails r - 1), remembered = remembered c\<rparr>)"

text \<open>
  The loop of \<^verbatim>\<open>shift_rail\<close>: the nearest rail with cards, walking by \<open>1\<close> or \<open>-1\<close>. The
  index is an \<^verbatim>\<open>i32\<close> in the source; a dashboard has a handful of rails.
\<close>

function shift_search :: "nat list \<Rightarrow> bool \<Rightarrow> int \<Rightarrow> nat option" where
  "shift_search rails down r =
     (if 0 \<le> r \<and> nat r < length rails
      then if rails ! nat r > 0 then Some (nat r)
           else shift_search rails down (r + (if down then 1 else - 1))
      else None)"
  by pat_completeness auto

termination
  by (relation "measure (\<lambda>(rails, down, r). if down then nat (int (length rails) - r) else nat (r + 1))")
     auto

declare shift_search.simps [simp del]

definition shift_rail :: "rail_cursor \<Rightarrow> nat list \<Rightarrow> bool \<Rightarrow> rail_cursor" where
  "shift_rail c rails down =
     (case shift_search rails down (int (rail c) + (if down then 1 else - 1)) of
        Some index \<Rightarrow> \<lparr>rail = index, card = min (remembered c) (rails ! index - 1), remembered = remembered c\<rparr>
      | None \<Rightarrow> c)"

definition rail_step :: "direction \<Rightarrow> nat list \<Rightarrow> rail_cursor \<Rightarrow> rail_cursor" where
  "rail_step direction rails c =
     (let c = rail_clamp rails c in
      case direction of
        Left \<Rightarrow> (let k = card c - 1 in c\<lparr>card := k, remembered := k\<rparr>)
      | Right \<Rightarrow> (let last = cards_in rails (rail c) - 1; k = min (card c + 1) last in
                  c\<lparr>card := k, remembered := k\<rparr>)
      | Up \<Rightarrow> shift_rail c rails False
      | Down \<Rightarrow> shift_rail c rails True)"

definition rail_confirm :: "rail_cursor \<Rightarrow> nat list \<Rightarrow> (nat \<times> nat) option" where
  "rail_confirm c rails =
     (let c = rail_clamp rails c in
      if card c < cards_in rails (rail c) then Some (rail c, card c) else None)"

text \<open>A cursor on a card; on an empty dashboard, at its start.\<close>

definition rail_valid :: "nat list \<Rightarrow> rail_cursor \<Rightarrow> bool" where
  "rail_valid rails c \<longleftrightarrow>
     (if list_ex (\<lambda>n. n > 0) rails then card c < cards_in rails (rail c) else rail c = 0 \<and> card c = 0)"

lemma search_some:
  "shift_search rails down r = Some i \<Longrightarrow> i < length rails \<and> rails ! i > 0"
proof (induction rails down r rule: shift_search.induct)
  case (1 rails down r)
  from "1.prems" show ?case
    by (subst (asm) shift_search.simps) (use "1.IH" in \<open>auto split: if_splits\<close>)
qed

lemma cards_in_pos: "0 < cards_in rails i \<longleftrightarrow> i < length rails \<and> rails ! i > 0"
  by (auto simp: cards_in_def get_def)

lemma no_cards: "\<not> list_ex (\<lambda>n. n > 0) rails \<Longrightarrow> cards_in rails i = 0"
  by (auto simp: cards_in_def get_def list_ex_iff)

lemma position_cards:
  assumes "list_ex (\<lambda>n. n > 0) rails"
  shows "\<exists>i. position (\<lambda>n. n > 0) rails = Some i \<and> 0 < cards_in rails i"
proof -
  obtain n where "n \<in> set rails" "n > 0" using assms by (auto simp: list_ex_iff)
  then obtain i where "position (\<lambda>n. n > 0) rails = Some i"
    using position_Some_ex[of n rails "\<lambda>n. n > 0"] by blast
  then show ?thesis by (auto simp: cards_in_pos dest: position_SomeD)
qed

lemma rail_clamp_valid: "rail_valid rails (rail_clamp rails c)"
proof (cases "list_ex (\<lambda>n. n > 0) rails")
  case True
  obtain i where i: "position (\<lambda>n. n > 0) rails = Some i" "0 < cards_in rails i"
    using position_cards[OF True] by blast
  have "min a (n - 1) < n" if "0 < n" for a n :: nat using that by simp
  then show ?thesis using True i by (simp add: rail_valid_def rail_clamp_def Let_def)
next
  case False
  then have "position (\<lambda>n. n > 0) rails = None" by (auto simp: position_None_iff list_ex_iff)
  with False show ?thesis by (simp add: rail_valid_def rail_clamp_def Let_def no_cards)
qed

lemma rail_clamp_id: "rail_valid rails c \<Longrightarrow> rail_clamp rails c = c"
proof (cases "list_ex (\<lambda>n. n > 0) rails")
  case True
  assume "rail_valid rails c"
  with True show ?thesis by (cases c) (auto simp: rail_valid_def rail_clamp_def Let_def)
next
  case False
  assume v: "rail_valid rails c"
  have "position (\<lambda>n. n > 0) rails = None" using False by (auto simp: position_None_iff list_ex_iff)
  with False v show ?thesis by (cases c) (simp add: rail_valid_def rail_clamp_def Let_def no_cards)
qed

lemma rail_step_valid: "rail_valid rails c \<Longrightarrow> rail_valid rails (rail_step d rails c)"
proof -
  assume c: "rail_valid rails c"
  have shift: "rail_valid rails (shift_rail c rails down)" for down
  proof (cases "shift_search rails down (int (rail c) + (if down then 1 else - 1))")
    case None
    then show ?thesis using c by (simp add: shift_rail_def)
  next
    case (Some i)
    then have i: "i < length rails" "rails ! i > 0" by (auto dest: search_some)
    then have "list_ex (\<lambda>n. n > 0) rails" by (auto simp: list_ex_iff)
    with i Some show ?thesis by (auto simp: shift_rail_def rail_valid_def cards_in_def get_def)
  qed
  show ?thesis
    using c shift by (cases d) (auto simp: rail_step_def Let_def rail_clamp_id rail_valid_def no_cards split: if_splits)
qed

interpretation dashboard_cursor: cursor rail_clamp rail_step "\<lambda>rails. True" rail_valid
  by unfold_locales (simp_all add: rail_clamp_valid rail_clamp_id rail_step_valid)

text \<open>
  On a dashboard with any card at all, whatever the rails become and however the pad steps
  afterwards, confirming names a card that exists, the one the cursor is on.
\<close>

theorem dashboard_confirms_a_card:
  assumes "list_ex (\<lambda>n. n > 0) rails"
    and "c' = fold (\<lambda>d. rail_step d rails) ds (rail_clamp rails c)"
  shows "rail_confirm c' rails = Some (rail c', card c') \<and> rail c' < length rails \<and> card c' < rails ! rail c'"
proof -
  have v: "rail_valid rails c'" unfolding assms(2) by (rule dashboard_cursor.relayout_valid) simp
  then have k: "card c' < cards_in rails (rail c')" using assms(1) by (simp add: rail_valid_def)
  then have "rail c' < length rails \<and> card c' < rails ! rail c'"
    by (auto simp: cards_in_def get_def split: if_splits)
  with k v show ?thesis by (simp add: rail_confirm_def rail_clamp_id Let_def)
qed

theorem dashboard_confirms_a_card_witness:
  "let rails = [0, 4, 2]; c = \<lparr>rail = 9, card = 9, remembered = 3\<rparr>;
       c' = fold (\<lambda>d. rail_step d rails) [Left, Down] (rail_clamp rails c) in
     list_ex (\<lambda>n. n > 0) rails \<and> rail_confirm c' rails = Some (rail c', card c') \<and> rail c' = 2 \<and> card c' = 1"
proof -
  define c where "c = \<lparr>rail = 9, card = 9, remembered = 3\<rparr>"
  define c' where "c' = fold (\<lambda>d. rail_step d [0, 4, 2]) [Left, Down] (rail_clamp [0, 4, 2] c)"
  have "list_ex (\<lambda>n. n > 0) [0, 4, 2::nat]" by simp
  moreover have "rail c' = 2" "card c' = 1"
    by (simp_all add: c'_def c_def rail_step_def rail_clamp_def shift_rail_def cards_in_def get_def Let_def
        shift_search.simps numeral_2_eq_2)
  ultimately show ?thesis
    unfolding Let_def c_def[symmetric] c'_def[symmetric]
    using dashboard_confirms_a_card[OF _ c'_def] by simp
qed

text \<open>What the search finds: the nearest rail with cards, everything on the way being empty.\<close>

lemma search_down:
  "shift_search rails True (int r) = Some i \<longleftrightarrow>
     r \<le> i \<and> i < length rails \<and> rails ! i > 0 \<and> (\<forall>j. r \<le> j \<and> j < i \<longrightarrow> rails ! j = 0)"
proof (induction "length rails - r" arbitrary: r)
  case 0
  then show ?case by (subst shift_search.simps) auto
next
  case (Suc n)
  have len: "r < length rails" using Suc(2) by linarith
  show ?case
  proof (cases "rails ! r > 0")
    case True
    have "shift_search rails True (int r) = Some r"
      using True len by (subst shift_search.simps) simp
    moreover have "i = r" if "r \<le> i" "\<forall>j. r \<le> j \<and> j < i \<longrightarrow> rails ! j = 0"
      using that True by (metis le_neq_implies_less less_numeral_extra(3) order_refl)
    ultimately show ?thesis using True len by auto
  next
    case False
    have step: "shift_search rails True (int r) = shift_search rails True (int (Suc r))"
      using False len by (subst shift_search.simps) (simp add: add.commute)
    have "n = length rails - Suc r" using Suc(2) by simp
    from Suc(1)[OF this] have ih: "shift_search rails True (int (Suc r)) = Some i \<longleftrightarrow>
        Suc r \<le> i \<and> i < length rails \<and> rails ! i > 0 \<and> (\<forall>j. Suc r \<le> j \<and> j < i \<longrightarrow> rails ! j = 0)" .
    have "(\<forall>j. r \<le> j \<and> j < i \<longrightarrow> rails ! j = 0) \<longleftrightarrow> (\<forall>j. Suc r \<le> j \<and> j < i \<longrightarrow> rails ! j = 0)"
      using False by (metis Suc_leI le_neq_implies_less neq0_conv Suc_leD)
    moreover have "r \<le> i \<and> rails ! i > 0 \<longleftrightarrow> Suc r \<le> i \<and> rails ! i > 0"
      using False by (metis Suc_leI le_neq_implies_less Suc_leD)
    ultimately show ?thesis unfolding step ih by blast
  qed
qed

lemma search_up:
  assumes "r < length rails" and "rails ! r > 0" and "i \<le> length rails" and "r < i"
    and "\<forall>j. r < j \<and> j < i \<longrightarrow> rails ! j = 0"
  shows "shift_search rails False (int i - 1) = Some r"
  using assms(3-)
proof (induction i)
  case 0
  then show ?case by simp
next
  case (Suc i)
  show ?case
  proof (cases "i = r")
    case True
    then show ?thesis using assms(1,2) by (subst shift_search.simps) simp
  next
    case False
    then have "shift_search rails False (int (Suc i) - 1) = shift_search rails False (int i - 1)"
      using Suc.prems by (subst shift_search.simps) simp
    with Suc False show ?thesis by simp
  qed
qed

text \<open>
  Stepping down from a card and up again comes back to that rail and card, over empty rails
  and through a shorter rail, which does not drag the cursor to its own last card.
\<close>

theorem rail_down_then_up_returns:
  assumes "rail_valid rails c" and "card c = remembered c" and "rail c < rail (rail_step Down rails c)"
  shows "rail_step Up rails (rail_step Down rails c) = c"
proof -
  have down: "rail_step Down rails c = shift_rail c rails True"
    using assms(1) by (simp add: rail_step_def rail_clamp_id Let_def)
  obtain i where i: "shift_search rails True (int (Suc (rail c))) = Some i"
    and c': "shift_rail c rails True =
      \<lparr>rail = i, card = min (remembered c) (rails ! i - 1), remembered = remembered c\<rparr>"
    using assms(3) by (auto simp: down shift_rail_def add.commute split: option.splits)
  have found: "Suc (rail c) \<le> i" "i < length rails" "rails ! i > 0"
    "\<forall>j. Suc (rail c) \<le> j \<and> j < i \<longrightarrow> rails ! j = 0"
    using i search_down by blast+
  then have "list_ex (\<lambda>n. n > 0) rails" by (auto simp: list_ex_iff)
  with assms(1) have "card c < cards_in rails (rail c)" by (simp add: rail_valid_def)
  then have here: "rail c < length rails" "rails ! rail c > 0" "card c < rails ! rail c"
    by (auto simp: cards_in_def get_def split: if_splits)
  have "shift_search rails False (int i - 1) = Some (rail c)"
    by (rule search_up[OF here(1,2)]) (use found in auto)
  then have "shift_rail (shift_rail c rails True) rails False
      = \<lparr>rail = rail c, card = min (remembered c) (rails ! rail c - 1), remembered = remembered c\<rparr>"
    unfolding c' by (simp add: shift_rail_def)
  also have "\<dots> = c" using here(3) assms(2) by (cases c) simp
  finally have "shift_rail (shift_rail c rails True) rails False = c" .
  moreover have "rail_clamp rails (rail_step Down rails c) = rail_step Down rails c"
    by (rule rail_clamp_id[OF rail_step_valid[OF assms(1)]])
  ultimately show ?thesis by (simp add: rail_step_def Let_def rail_clamp_id[OF assms(1)])
qed

theorem rail_down_then_up_returns_witness:
  "let rails = [5, 0, 2]; c = \<lparr>rail = 0, card = 4, remembered = 4\<rparr> in
     rail_valid rails c \<and> rail_step Down rails c = \<lparr>rail = 2, card = 1, remembered = 4\<rparr>
     \<and> rail_step Up rails (rail_step Down rails c) = c"
proof -
  define c where "c = \<lparr>rail = 0, card = 4, remembered = 4\<rparr>"
  have v: "rail_valid [5, 0, 2] c" by (simp add: c_def rail_valid_def cards_in_def get_def)
  have d: "rail_step Down [5, 0, 2] c = \<lparr>rail = 2, card = 1, remembered = 4\<rparr>"
    by (simp add: c_def rail_step_def rail_clamp_def shift_rail_def cards_in_def get_def Let_def
        shift_search.simps numeral_2_eq_2)
  have "rail_step Up [5, 0, 2] (rail_step Down [5, 0, 2] c) = c"
    by (rule rail_down_then_up_returns[OF v]) (simp_all only: d, simp_all add: c_def)
  with v d show ?thesis unfolding Let_def c_def[symmetric] by simp
qed

section \<open>The details page\<close>

datatype details_focus =
    Play | Favorite | Disc | PlayLater | Back | Screenshot nat | DiscChoice nat

record details_layout =
  shots :: nat
  discs :: nat
  picker_open :: bool

definition actions :: "bool \<Rightarrow> details_focus list" where
  "actions has_discs = (if has_discs then [Back, Play, Favorite, Disc, PlayLater]
     else [Back, Play, Favorite, PlayLater])"

definition rows :: "details_layout \<Rightarrow> details_focus list list" where
  "rows l =
     (if picker_open l then map (\<lambda>index. [DiscChoice index]) [0..<discs l]
      else (if shots l > 0 then [map Screenshot [0..<shots l]] else []) @ [actions (discs l > 1)])"

definition details_clamp :: "details_layout \<Rightarrow> details_focus \<Rightarrow> details_focus" where
  "details_clamp l f =
     (if list_ex (\<lambda>row. f \<in> set row) (rows l) then f
      else if list_ex (\<lambda>row. Play \<in> set row) (rows l) then Play
      else case get (rows l) 0 of
             None \<Rightarrow> Play
           | Some row \<Rightarrow> (case get row 0 of None \<Rightarrow> Play | Some g \<Rightarrow> g))"

text \<open>\<^verbatim>\<open>usize::try_from(index + delta)\<close> and the lookup that follows it.\<close>

definition neighbour :: "'a list \<Rightarrow> nat \<Rightarrow> bool \<Rightarrow> 'a option" where
  "neighbour xs i forward = (if forward then get xs (i + 1) else if i = 0 then None else get xs (i - 1))"

definition details_step :: "details_layout \<Rightarrow> details_focus \<Rightarrow> direction \<Rightarrow> details_focus option" where
  "details_step l f direction =
     (case position (\<lambda>row. f \<in> set row) (rows l) of
        None \<Rightarrow> None
      | Some row_index \<Rightarrow>
          (case position (\<lambda>candidate. candidate = f) (rows l ! row_index) of
             None \<Rightarrow> None
           | Some col \<Rightarrow>
               if direction \<in> {Left, Right} then neighbour (rows l ! row_index) col (direction = Right)
               else case neighbour (rows l) row_index (direction = Down) of
                      None \<Rightarrow> None
                    | Some row \<Rightarrow> get row (min col (length row - 1))))"

text \<open>\<^verbatim>\<open>step_details\<close> and \<^verbatim>\<open>move_cursor\<close>: a step that lands somewhere moves the cursor there.\<close>

definition details_move :: "direction \<Rightarrow> details_layout \<Rightarrow> details_focus \<Rightarrow> details_focus" where
  "details_move direction l f =
     (case details_step l (details_clamp l f) direction of
        Some target \<Rightarrow> details_clamp l target
      | None \<Rightarrow> f)"

definition on_screen :: "details_layout \<Rightarrow> details_focus \<Rightarrow> bool" where
  "on_screen l f \<longleftrightarrow> (\<exists>row\<in>set (rows l). f \<in> set row)"

text \<open>A page with a picker open has discs to pick from.\<close>

definition details_layout_ok :: "details_layout \<Rightarrow> bool" where
  "details_layout_ok l \<longleftrightarrow> (picker_open l \<longrightarrow> discs l > 0)"

lemma get_in_set: "get xs i = Some x \<Longrightarrow> x \<in> set xs"
  by (auto simp: get_def split: if_splits)

lemma neighbour_in_set: "neighbour xs i fw = Some x \<Longrightarrow> x \<in> set xs"
  by (auto simp: neighbour_def dest: get_in_set split: if_splits)

lemma details_clamp_id: "on_screen l f \<Longrightarrow> details_clamp l f = f"
  by (auto simp: on_screen_def details_clamp_def list_ex_iff)

lemma details_clamp_on_screen:
  assumes "details_layout_ok l"
  shows "on_screen l (details_clamp l f)"
proof (cases "list_ex (\<lambda>row. f \<in> set row) (rows l) \<or> list_ex (\<lambda>row. Play \<in> set row) (rows l)")
  case True
  then show ?thesis by (auto simp: details_clamp_def on_screen_def list_ex_iff)
next
  case False
  then have "picker_open l"
    by (auto simp: rows_def actions_def list_ex_iff split: if_splits)
  with assms False show ?thesis
    by (auto simp: details_clamp_def rows_def get_def on_screen_def details_layout_ok_def)
qed

lemma details_step_on_screen:
  assumes "details_step l f d = Some g"
  shows "on_screen l g"
proof -
  obtain i j where i: "position (\<lambda>row. f \<in> set row) (rows l) = Some i"
    and j: "position (\<lambda>c. c = f) (rows l ! i) = Some j"
    using assms by (auto simp: details_step_def split: option.splits)
  have row: "rows l ! i \<in> set (rows l)" using i by (auto dest: position_SomeD)
  show ?thesis
  proof (cases "d \<in> {Left, Right}")
    case True
    then have "neighbour (rows l ! i) j (d = Right) = Some g" using assms i j by (auto simp: details_step_def)
    with row show ?thesis by (auto simp: on_screen_def dest: neighbour_in_set)
  next
    case False
    then obtain r where "neighbour (rows l) i (d = Down) = Some r" "get r (min j (length r - 1)) = Some g"
      using assms i j by (auto simp: details_step_def split: option.splits)
    then show ?thesis by (auto simp: on_screen_def dest!: neighbour_in_set get_in_set)
  qed
qed

interpretation details_cursor: cursor details_clamp details_move details_layout_ok on_screen
proof
  fix l f d
  assume ok: "details_layout_ok l"
  show "on_screen l (details_clamp l f)" using ok by (rule details_clamp_on_screen)
  show "on_screen l (details_move d l f)" if "on_screen l f"
    using that details_clamp_on_screen[OF ok]
    by (simp add: details_move_def split: option.splits)
qed (rule details_clamp_id)

text \<open>
  Whenever the details page changes (screenshots arrive, the disc picker opens or closes)
  the corrected cursor, and the cursor after any steps from there, is a control the page shows.
\<close>

theorem details_cursor_on_screen:
  assumes "details_layout_ok l"
  shows "on_screen l (fold (\<lambda>d. details_move d l) ds (details_clamp l f))"
  using assms by (rule details_cursor.relayout_valid)

theorem details_cursor_on_screen_witness:
  "let l = \<lparr>shots = 2, discs = 3, picker_open = True\<rparr> in
     details_layout_ok l \<and> fold (\<lambda>d. details_move d l) [Down, Right] (details_clamp l PlayLater) = DiscChoice 1
     \<and> on_screen l (fold (\<lambda>d. details_move d l) [Down, Right] (details_clamp l PlayLater))"
proof -
  define l where "l = \<lparr>shots = 2, discs = 3, picker_open = True\<rparr>"
  have ok: "details_layout_ok l" by (simp add: l_def details_layout_ok_def)
  have "fold (\<lambda>d. details_move d l) [Down, Right] (details_clamp l PlayLater) = DiscChoice 1"
    by (simp add: l_def details_move_def details_step_def details_clamp_def rows_def neighbour_def get_def
        upt_rec numeral_3_eq_3)
  with ok details_cursor_on_screen[OF ok] show ?thesis unfolding Let_def l_def[symmetric] by blast
qed

end
