(* ===== verification/Sql_Tables.thy ===== *)
theory Sql_Tables
  imports Prelude "HOL-Library.Char_ord" "HOL-Library.List_Lexorder" "HOL-Library.Product_Lexorder"
begin

text \<open>
  The fragment of SQLite the daemon's stores use, on tables as lists of rows: an insert that
  respects a primary key, an upsert, updates and deletes by predicate. The rows of a table keep
  distinct keys; the lemmas say so for every statement and what a lookup finds afterwards.
  Instants are numbers; columns that hold one as text hold it in a sortable form.
\<close>

datatype db_error = UniqueViolation | ForeignKeyViolation | Aborted string

definition lookup :: "('r \<Rightarrow> 'k) \<Rightarrow> 'k \<Rightarrow> 'r list \<Rightarrow> 'r option" where
  "lookup key k t = find (\<lambda>r. key r = k) t"

definition insert_row :: "('r \<Rightarrow> 'k) \<Rightarrow> 'r \<Rightarrow> 'r list \<Rightarrow> db_error + 'r list" where
  "insert_row key r t = (if key r \<in> key ` set t then Inl UniqueViolation else Inr (t @ [r]))"

definition upsert_row :: "('r \<Rightarrow> 'k) \<Rightarrow> ('r \<Rightarrow> 'r \<Rightarrow> 'r) \<Rightarrow> 'r \<Rightarrow> 'r list \<Rightarrow> 'r list" where
  "upsert_row key merge r t =
     (if key r \<in> key ` set t then map (\<lambda>old. if key old = key r then merge old r else old) t
      else t @ [r])"

definition update_rows :: "('r \<Rightarrow> bool) \<Rightarrow> ('r \<Rightarrow> 'r) \<Rightarrow> 'r list \<Rightarrow> 'r list" where
  "update_rows P f t = map (\<lambda>r. if P r then f r else r) t"

abbreviation keyed :: "('r \<Rightarrow> 'k) \<Rightarrow> 'r list \<Rightarrow> bool" where
  "keyed key t \<equiv> distinct (map key t)"

section \<open>Keys stay distinct\<close>

lemma keyed_filter: "keyed key t \<Longrightarrow> keyed key (filter P t)"
  by (simp add: distinct_map_filter)

lemma keyed_insert: "keyed key t \<Longrightarrow> insert_row key r t = Inr t' \<Longrightarrow> keyed key t'"
  by (auto simp: insert_row_def split: if_splits)

lemma map_key_upsert:
  "(\<And>old. key old = key r \<Longrightarrow> key (merge old r) = key old) \<Longrightarrow>
   map key (upsert_row key merge r t) = map key t @ (if key r \<in> key ` set t then [] else [key r])"
  by (auto simp: upsert_row_def)

lemma keyed_upsert:
  "(\<And>old. key old = key r \<Longrightarrow> key (merge old r) = key old) \<Longrightarrow> keyed key t \<Longrightarrow>
   keyed key (upsert_row key merge r t)"
  by (simp add: map_key_upsert)

lemma map_key_update:
  "(\<And>r. P r \<Longrightarrow> key (f r) = key r) \<Longrightarrow> map key (update_rows P f t) = map key t"
  by (auto simp: update_rows_def)

section \<open>Lookups\<close>

lemma lookup_Some: "lookup key k t = Some r \<Longrightarrow> r \<in> set t \<and> key r = k"
  by (auto simp: lookup_def dest: find_Some_set)

lemma lookup_None: "lookup key k t = None \<longleftrightarrow> k \<notin> key ` set t"
  by (auto simp: lookup_def find_None_iff)

lemma lookup_keyed: "keyed key t \<Longrightarrow> r \<in> set t \<Longrightarrow> lookup key (key r) t = Some r"
  by (induction t) (auto simp: lookup_def)

lemma lookup_append: "lookup key k (t @ u) = (case lookup key k t of None \<Rightarrow> lookup key k u | Some r \<Rightarrow> Some r)"
  by (simp add: lookup_def find_append split: option.split)

lemma lookup_single: "lookup key k [r] = (if key r = k then Some r else None)"
  by (simp add: lookup_def)

lemma lookup_update:
  assumes "\<And>r. P r \<Longrightarrow> key (f r) = key r"
  shows "lookup key k (update_rows P f t) = map_option (\<lambda>r. if P r then f r else r) (lookup key k t)"
  using assms by (induction t) (auto simp: lookup_def update_rows_def)

lemma lookup_upsert:
  assumes "\<And>old. key old = key r \<Longrightarrow> key (merge old r) = key old"
  shows "lookup key k (upsert_row key merge r t) =
    (if k = key r then Some (case lookup key k t of None \<Rightarrow> r | Some old \<Rightarrow> merge old r) else lookup key k t)"
proof (cases "key r \<in> key ` set t")
  case True
  have "lookup key k (upsert_row key merge r t)
      = lookup key k (update_rows (\<lambda>old. key old = key r) (\<lambda>old. merge old r) t)"
    using True by (simp add: upsert_row_def update_rows_def)
  also have "\<dots> = map_option (\<lambda>old. if key old = key r then merge old r else old) (lookup key k t)"
    using assms by (rule lookup_update)
  finally show ?thesis
    using True lookup_None[of key k t] lookup_Some[of key k t] by (cases "lookup key k t") auto
next
  case False
  then have "lookup key (key r) t = None" by (simp add: lookup_None)
  with False show ?thesis
    by (auto simp: upsert_row_def lookup_append lookup_single split: option.split)
qed

lemma lookup_filter:
  "keyed key t \<Longrightarrow> lookup key k (filter P t) = option_filter P (lookup key k t)"
proof (induction t)
  case Nil
  then show ?case by (simp add: lookup_def option_filter_def)
next
  case (Cons r t)
  have "key r = k \<Longrightarrow> lookup key k t = None" using Cons.prems by (auto simp: lookup_None)
  moreover have "lookup key k (r # u) = (if key r = k then Some r else lookup key k u)" for u
    by (simp add: lookup_def)
  ultimately show ?case using Cons by (auto simp: option_filter_def)
qed

lemma lookup_insert:
  "insert_row key r t = Inr t' \<Longrightarrow> lookup key k t' = (if k = key r then Some r else lookup key k t)"
  using lookup_None[of key "key r" t]
  by (auto simp: insert_row_def lookup_append lookup_single split: if_splits option.split)

text \<open>An upsert that finds the row as it would leave it changes nothing.\<close>

lemma upsert_same:
  assumes "keyed key t" and "lookup key (key r) t = Some old" and "merge old r = old"
  shows "upsert_row key merge r t = t"
proof -
  have mem: "old \<in> set t" "key old = key r" using lookup_Some[OF assms(2)] by simp_all
  have "(if key x = key r then merge x r else x) = x" if "x \<in> set t" for x
    using that mem assms(1,3) by (metis distinct_map inj_onD)
  moreover have "key r \<in> key ` set t" using mem by (metis image_eqI)
  ultimately show ?thesis by (simp add: upsert_row_def map_idI)
qed

section \<open>Stores of records that replace each other\<close>

text \<open>
  The contract of a table whose upsert overwrites: on a conflict every column of the new row is
  taken. A batch of upserts then overrides the table's map by the batch, the last row of a key
  winning, and keeps the keys distinct.
\<close>

locale overwriting =
  fixes key :: "'r \<Rightarrow> 'k"
    and merge :: "'r \<Rightarrow> 'r \<Rightarrow> 'r"
  assumes merge_new: "key old = key r \<Longrightarrow> merge old r = r"
begin

lemma lookup_one: "lookup key k (upsert_row key merge r t) = (if k = key r then Some r else lookup key k t)"
proof -
  have "lookup key (key r) t = Some old \<Longrightarrow> merge old r = r" for old
    using lookup_Some merge_new by fastforce
  then show ?thesis
    using merge_new by (subst lookup_upsert) (auto split: option.split)
qed

lemma lookup_batch:
  "lookup key k (fold (upsert_row key merge) rs t)
     = ((\<lambda>k. lookup key k t) ++ map_of (rev (map (\<lambda>r. (key r, r)) rs))) k"
  by (induction rs arbitrary: t) (auto simp: lookup_one map_add_def split: option.split)

lemma keyed_batch: "keyed key t \<Longrightarrow> keyed key (fold (upsert_row key merge) rs t)"
  by (induction rs arbitrary: t) (simp_all add: keyed_upsert merge_new)

end

section \<open>Ordering\<close>

lemma insort_last: "f y \<le> f x \<Longrightarrow> insort_key f y (zs @ [x]) = insort_key f y zs @ [x]"
  by (induction zs) auto

lemma sort_key_last:
  "\<forall>y\<in>set ys. f y \<le> f x \<Longrightarrow> sort_key f (ys @ [x]) = sort_key f ys @ [x]"
  by (induction ys) (simp_all add: insort_last)

lemma sort_key_map: "(\<And>x. f (g x) = f x) \<Longrightarrow> sort_key f (map g xs) = map g (sort_key f xs)"
proof -
  assume f: "\<And>x. f (g x) = f x"
  have "insort_key f (g x) (map g ys) = map g (insort_key f x ys)" for x ys
    by (induction ys) (simp_all add: f)
  then show ?thesis by (induction xs) simp_all
qed

end
