(* ===== verification/Rust_Strings.thy ===== *)
theory Rust_Strings
  imports Prelude "HOL-Library.Char_ord" "HOL-Library.List_Lexorder"
begin

text \<open>
  The string and path functions of Rust's standard library that the daemon and the bridge call,
  on strings as lists of bytes: \<^verbatim>\<open>str::len\<close> counts bytes, and the ASCII delimiters the code
  looks for never occur inside a multi-byte character. Whitespace is ASCII whitespace.
\<close>

section \<open>Characters\<close>

definition is_ascii_digit :: "char \<Rightarrow> bool" where
  "is_ascii_digit c \<longleftrightarrow> CHR ''0'' \<le> c \<and> c \<le> CHR ''9''"

definition is_ascii_lowercase :: "char \<Rightarrow> bool" where
  "is_ascii_lowercase c \<longleftrightarrow> CHR ''a'' \<le> c \<and> c \<le> CHR ''z''"

definition is_ascii_alphanumeric :: "char \<Rightarrow> bool" where
  "is_ascii_alphanumeric c \<longleftrightarrow>
     is_ascii_digit c \<or> is_ascii_lowercase c \<or> (CHR ''A'' \<le> c \<and> c \<le> CHR ''Z'')"

definition is_whitespace :: "char \<Rightarrow> bool" where
  "is_whitespace c \<longleftrightarrow> c = CHR '' '' \<or> (CHR 0x09 \<le> c \<and> c \<le> CHR 0x0D)"

definition ascii_lower :: "char \<Rightarrow> char" where
  "ascii_lower c =
     (if CHR ''A'' \<le> c \<and> c \<le> CHR ''Z'' then char_of (of_char c + (32::nat)) else c)"

definition ascii_upper :: "char \<Rightarrow> char" where
  "ascii_upper c =
     (if is_ascii_lowercase c then char_of (of_char c - (32::nat)) else c)"

definition is_ascii_uppercase :: "char \<Rightarrow> bool" where
  "is_ascii_uppercase c \<longleftrightarrow> CHR ''A'' \<le> c \<and> c \<le> CHR ''Z''"

definition is_ascii_alphabetic :: "char \<Rightarrow> bool" where
  "is_ascii_alphabetic c \<longleftrightarrow> is_ascii_lowercase c \<or> is_ascii_uppercase c"

text \<open>ASCII control characters.\<close>

definition is_control :: "char \<Rightarrow> bool" where
  "is_control c \<longleftrightarrow> c \<le> CHR 0x1F \<or> c = CHR 0x7F"

text \<open>\<^verbatim>\<open>chars().count()\<close>: every character has one byte that is no continuation byte.\<close>

definition chars_count :: "string \<Rightarrow> nat" where
  "chars_count s = length (filter (\<lambda>c. \<not> (CHR 0x80 \<le> c \<and> c \<le> CHR 0xBF)) s)"

lemma char_range: "CHR ''a'' \<le> c \<longleftrightarrow> 97 \<le> (of_char c :: nat)" "c \<le> CHR ''z'' \<longleftrightarrow> (of_char c :: nat) \<le> 122"
  "CHR ''A'' \<le> c \<longleftrightarrow> 65 \<le> (of_char c :: nat)" "c \<le> CHR ''Z'' \<longleftrightarrow> (of_char c :: nat) \<le> 90"
  by (simp_all add: less_eq_char_def)

lemma ascii_upper_alphabetic: "is_ascii_alphabetic c \<Longrightarrow> is_ascii_uppercase (ascii_upper c)"
  by (auto simp: is_ascii_alphabetic_def ascii_upper_def is_ascii_lowercase_def is_ascii_uppercase_def
      char_range of_char_of)

lemma ascii_lower_alphabetic: "is_ascii_alphabetic c \<Longrightarrow> is_ascii_lowercase (ascii_lower c)"
  by (auto simp: is_ascii_alphabetic_def ascii_lower_def is_ascii_lowercase_def is_ascii_uppercase_def
      char_range of_char_of)

section \<open>Splitting and stripping\<close>

definition strip_prefix :: "string \<Rightarrow> string \<Rightarrow> string option" where
  "strip_prefix p s = (if take (length p) s = p then Some (drop (length p) s) else None)"

definition starts_with :: "string \<Rightarrow> string \<Rightarrow> bool" where
  "starts_with p s \<longleftrightarrow> strip_prefix p s \<noteq> None"

definition ends_with :: "string \<Rightarrow> string \<Rightarrow> bool" where
  "ends_with x s \<longleftrightarrow> length x \<le> length s \<and> drop (length s - length x) s = x"

definition strip_suffix :: "string \<Rightarrow> string \<Rightarrow> string option" where
  "strip_suffix x s = (if ends_with x s then Some (take (length s - length x) s) else None)"

fun contains :: "string \<Rightarrow> string \<Rightarrow> bool" where
  "contains x [] \<longleftrightarrow> x = []"
| "contains x (c # s) \<longleftrightarrow> take (length x) (c # s) = x \<or> contains x s"

text \<open>\<^verbatim>\<open>str::split\<close> at a character: always at least one piece.\<close>

fun split :: "char \<Rightarrow> string \<Rightarrow> string list" where
  "split d [] = [[]]"
| "split d (c # s) =
     (if c = d then [] # split d s
      else case split d s of [] \<Rightarrow> [[c]] | p # ps \<Rightarrow> (c # p) # ps)"

fun split_once :: "char \<Rightarrow> string \<Rightarrow> (string \<times> string) option" where
  "split_once d [] = None"
| "split_once d (c # s) =
     (if c = d then Some ([], s) else map_option (\<lambda>(a, b). (c # a, b)) (split_once d s))"

definition trim :: "string \<Rightarrow> string" where
  "trim s = rev (dropWhile is_whitespace (rev (dropWhile is_whitespace s)))"

text \<open>\<^verbatim>\<open>str::trim_end_matches\<close> with a character.\<close>

definition trim_end_char :: "char \<Rightarrow> string \<Rightarrow> string" where
  "trim_end_char d s = rev (dropWhile (\<lambda>c. c = d) (rev s))"

text \<open>\<^verbatim>\<open>Display\<close> of an unsigned integer.\<close>

fun show_nat :: "nat \<Rightarrow> string" where
  "show_nat n = (if n < 10 then [char_of (48 + n)] else show_nat (n div 10) @ [char_of (48 + n mod 10)])"

declare show_nat.simps [simp del]

text \<open>\<^verbatim>\<open>str::lines\<close>: a final newline ends the last line instead of opening another.\<close>

definition drop_cr :: "string \<Rightarrow> string" where
  "drop_cr l = (case rev l of [] \<Rightarrow> [] | c # cs \<Rightarrow> if c = CHR 0x0D then rev cs else l)"

definition str_lines :: "string \<Rightarrow> string list" where
  "str_lines s =
     (let ps = split (CHR 0x0A) s in map drop_cr (if last ps = [] then butlast ps else ps))"

lemma split_nonempty [simp]: "split d s \<noteq> []"
  by (cases s) (auto split: list.splits)

fun join :: "char \<Rightarrow> string list \<Rightarrow> string" where
  "join d [] = []"
| "join d [p] = p"
| "join d (p # q # ps) = p @ d # join d (q # ps)"

lemma join_cons: "ps \<noteq> [] \<Longrightarrow> join d (p # ps) = p @ d # join d ps"
  by (cases ps) auto

lemma join_char: "ps \<noteq> [] \<Longrightarrow> join d ((c # hd ps) # tl ps) = c # join d ps"
  by (cases ps; cases "tl ps") auto

lemma join_split [simp]: "join d (split d s) = s"
proof (induction s)
  case (Cons c s)
  obtain p ps where s: "split d s = p # ps" using split_nonempty[of d s] by (cases "split d s") auto
  show ?case using Cons join_char[of "split d s" d c] by (auto simp: s)
qed simp

lemma split_pieces: "p \<in> set (split d s) \<Longrightarrow> d \<notin> set p"
proof (induction s arbitrary: p)
  case (Cons c s)
  obtain q qs where s: "split d s = q # qs" using split_nonempty[of d s] by (cases "split d s") auto
  show ?case using Cons by (auto simp: s split: if_splits)
qed simp

lemma split_clean: "d \<notin> set s \<Longrightarrow> split d s = [s]"
  by (induction s) auto

lemma split_append: "d \<notin> set p \<Longrightarrow> split d (p @ d # s) = p # split d s"
  by (induction p) auto

lemma split_append_gen: "split d (p @ d # s) = split d p @ split d s"
proof (induction p)
  case (Cons c p)
  obtain q qs where p: "split d p = q # qs" using split_nonempty[of d p] by (cases "split d p") auto
  show ?case using Cons by (simp add: p)
qed simp

lemma split_chars: "p \<in> set (split d s) \<Longrightarrow> c \<in> set p \<Longrightarrow> c \<in> set s"
proof (induction s arbitrary: p)
  case (Cons x s)
  obtain q qs where s: "split d s = q # qs" using split_nonempty[of d s] by (cases "split d s") auto
  show ?case using Cons.IH[of q] Cons.IH[of p] Cons.prems by (auto simp: s split: if_splits)
qed simp

lemma strip_prefix_Some [simp]: "strip_prefix p s = Some r \<longleftrightarrow> s = p @ r"
  unfolding strip_prefix_def by (auto, metis append_take_drop_id)

lemma split_once_Some: "split_once d s = Some (a, b) \<longleftrightarrow> s = a @ d # b \<and> d \<notin> set a"
proof (induction s arbitrary: a)
  case (Cons c s)
  show ?case by (cases a) (use Cons.IH in \<open>auto split: option.splits\<close>)
qed simp

lemma split_once_append [simp]: "d \<notin> set a \<Longrightarrow> split_once d (a @ d # b) = Some (a, b)"
  by (simp add: split_once_Some)

section \<open>Paths\<close>

text \<open>
  \<^verbatim>\<open>Path::components\<close> on Unix: repeated separators, a trailing separator and \<^verbatim>\<open>.\<close>
  components after the first are dropped.
\<close>

datatype path_component = RootDir | CurDir | ParentDir | Normal string

definition path_component_of :: "string \<Rightarrow> path_component" where
  "path_component_of s = (if s = ''..'' then ParentDir else Normal s)"

definition path_components :: "string \<Rightarrow> path_component list" where
  "path_components s =
     (let segs = split (CHR ''/'') s in
      (if s \<noteq> [] \<and> hd s = CHR ''/'' then [RootDir] else if hd segs = ''.'' then [CurDir] else [])
      @ map path_component_of (filter (\<lambda>x. x \<noteq> [] \<and> x \<noteq> ''.'') segs))"

definition is_absolute :: "string \<Rightarrow> bool" where
  "is_absolute s \<longleftrightarrow> s \<noteq> [] \<and> hd s = CHR ''/''"

text \<open>\<^verbatim>\<open>Path::starts_with\<close> compares whole components.\<close>

definition path_starts_with :: "string \<Rightarrow> string \<Rightarrow> bool" where
  "path_starts_with base s \<longleftrightarrow>
     take (length (path_components base)) (path_components s) = path_components base"

text \<open>\<^verbatim>\<open>Path::join\<close>: an absolute argument replaces the base.\<close>

definition path_join :: "string \<Rightarrow> string \<Rightarrow> string" where
  "path_join base s =
     (if is_absolute s then s
      else if base = [] \<or> last base = CHR ''/'' then base @ s
      else base @ ''/'' @ s)"

text \<open>\<^verbatim>\<open>Path::file_name\<close>, and the file name split at its last dot.\<close>

definition file_name :: "string \<Rightarrow> string option" where
  "file_name s =
     (case rev (path_components s) of Normal n # _ \<Rightarrow> Some n | _ \<Rightarrow> None)"

definition rsplit_dot :: "string \<Rightarrow> string option \<times> string option" where
  "rsplit_dot n =
     (case split_once (CHR ''.'') (rev n) of
        None \<Rightarrow> (Some n, None)
      | Some (after, before) \<Rightarrow>
          if before = [] then (Some n, None) else (Some (rev before), Some (rev after)))"

definition path_extension :: "string \<Rightarrow> string option" where
  "path_extension s = (case file_name s of None \<Rightarrow> None | Some n \<Rightarrow> snd (rsplit_dot n))"

definition file_stem :: "string \<Rightarrow> string option" where
  "file_stem s = (case file_name s of None \<Rightarrow> None | Some n \<Rightarrow> fst (rsplit_dot n))"

text \<open>
  \<^verbatim>\<open>Path::parent\<close>, with the components written back in their normal form (the same path to
  every comparison and system call).
\<close>

fun component_str :: "path_component \<Rightarrow> string" where
  "component_str RootDir = []"
| "component_str CurDir = ''.''"
| "component_str ParentDir = ''..''"
| "component_str (Normal s) = s"

definition path_parent :: "string \<Rightarrow> string option" where
  "path_parent s =
     (let cs = path_components s in
      if cs = [] \<or> cs = [RootDir] then None
      else if butlast cs = [RootDir] then Some ''/''
      else Some (join (CHR ''/'') (map component_str (butlast cs))))"

text \<open>A plain file name, and what joining one to a directory gives.\<close>

definition plain_name :: "string \<Rightarrow> bool" where
  "plain_name n \<longleftrightarrow> n \<noteq> [] \<and> n \<noteq> ''.'' \<and> n \<noteq> ''..'' \<and> CHR ''/'' \<notin> set n"

lemma plain_name_components: "plain_name n \<Longrightarrow> path_components n = [Normal n]"
  by (cases n) (auto simp: plain_name_def path_components_def split_clean path_component_of_def)

text \<open>Joining a relative path appends its components, a leading \<^verbatim>\<open>.\<close> dropped.\<close>

definition relative_components :: "string \<Rightarrow> path_component list" where
  "relative_components s = map path_component_of (filter (\<lambda>x. x \<noteq> [] \<and> x \<noteq> ''.'') (split (CHR ''/'') s))"

lemma path_components_append:
  "b \<noteq> [] \<Longrightarrow> path_components (b @ CHR ''/'' # s) = path_components b @ relative_components s"
  using split_nonempty[of "CHR ''/''" b]
  by (auto simp: path_components_def relative_components_def split_append_gen Let_def hd_append)

lemma path_components_join:
  assumes "base \<noteq> []" and "\<not> is_absolute s"
  shows "path_components (path_join base s) = path_components base @ relative_components s"
proof (cases "last base = CHR ''/''")
  case False
  then show ?thesis using assms path_components_append[of base s] by (simp add: path_join_def)
next
  case True
  then obtain b where b: "base = b @ [CHR ''/'']" using assms(1) by (metis append_butlast_last_id)
  show ?thesis
  proof (cases "b = []")
    case True
    then show ?thesis
      using assms(2) by (auto simp: b path_join_def path_components_def relative_components_def Let_def)
  next
    case False
    have "path_components base = path_components b"
      using path_components_append[OF False, of "[]"] by (simp add: b relative_components_def)
    then show ?thesis
      using assms(2) path_components_append[OF False, of s] by (simp add: b path_join_def)
  qed
qed

lemma relative_components_normal:
  "(\<forall>x\<in>set (split (CHR ''/'') s). x \<noteq> ''..'') \<Longrightarrow> \<exists>ns. relative_components s = map Normal ns"
  by (intro exI[of _ "filter (\<lambda>x. x \<noteq> [] \<and> x \<noteq> ''.'') (split (CHR ''/'') s)"])
     (auto simp: relative_components_def path_component_of_def)

lemma relative_components_slash [simp]: "relative_components (a @ CHR ''/'' # b) = relative_components a @ relative_components b"
  by (simp add: relative_components_def split_append_gen)

lemma relative_components_Nil [simp]: "relative_components [] = []"
  by (simp add: relative_components_def)

lemma relative_components_join:
  assumes "\<not> is_absolute s"
  shows "relative_components (path_join d s) = relative_components d @ relative_components s"
proof (cases "d \<noteq> [] \<and> last d = CHR ''/''")
  case True
  then obtain b where "d = b @ [CHR ''/'']" by (metis append_butlast_last_id)
  then show ?thesis
    using assms relative_components_slash[of b s] relative_components_slash[of b "[]"] by (simp add: path_join_def)
qed (use assms relative_components_slash[of d s] in \<open>auto simp: path_join_def\<close>)

lemma path_components_relative:
  "\<not> is_absolute s \<Longrightarrow> path_components s
     = (if hd (split (CHR ''/'') s) = ''.'' then [CurDir] else []) @ relative_components s"
  by (auto simp: path_components_def relative_components_def is_absolute_def Let_def)

lemma path_components_absolute: "is_absolute s \<Longrightarrow> path_components s = RootDir # relative_components s"
  by (auto simp: path_components_def relative_components_def is_absolute_def Let_def)

lemma plain_name_relative: "plain_name n \<Longrightarrow> relative_components n = [Normal n] \<and> \<not> is_absolute n"
  by (cases n) (auto simp: plain_name_def relative_components_def split_clean path_component_of_def is_absolute_def)

lemma component_plain: "Normal n \<in> set (path_components s) \<Longrightarrow> plain_name n"
  by (auto simp: path_components_def plain_name_def path_component_of_def Let_def split: if_splits dest: split_pieces)

lemma is_absolute_join: "\<not> is_absolute s \<Longrightarrow> is_absolute (path_join d s) = is_absolute d"
  by (cases d) (auto simp: path_join_def is_absolute_def)

lemma path_extension_cong: "path_components a = path_components b \<Longrightarrow> path_extension a = path_extension b"
  by (simp add: path_extension_def file_name_def)

text \<open>A piece between separators is a part of the whole.\<close>

lemma contains_iff: "contains x s \<longleftrightarrow> (\<exists>a b. s = a @ x @ b)"
proof (induction s)
  case (Cons c s)
  have "take (length x) (c # s) = x \<longleftrightarrow> (\<exists>b. c # s = x @ b)"
    by (metis append_eq_conv_conj append_take_drop_id)
  moreover have "(\<exists>a b. c # s = a @ x @ b) \<longleftrightarrow> (\<exists>b. c # s = x @ b) \<or> (\<exists>a b. s = a @ x @ b)"
    by (auto simp: Cons_eq_append_conv)
  ultimately show ?case using Cons by simp
qed auto

lemma trim_infix: "\<exists>a b. s = a @ trim s @ b"
proof -
  define t where "t = dropWhile is_whitespace s"
  have "s = takeWhile is_whitespace s @ t" by (simp add: t_def)
  moreover have "t = trim s @ rev (takeWhile is_whitespace (rev t))"
    unfolding trim_def t_def[symmetric] by (metis rev_append rev_rev_ident takeWhile_dropWhile_id)
  ultimately show ?thesis by metis
qed

lemma contains_mono: "contains x p \<Longrightarrow> contains x (a @ p @ b)"
  unfolding contains_iff by (metis append.assoc)

lemma contains_piece: "p \<in> set (split d s) \<Longrightarrow> contains x p \<Longrightarrow> contains x s"
proof -
  assume "p \<in> set (split d s)" and x: "contains x p"
  then obtain qs rs where "split d s = qs @ p # rs" by (meson split_list)
  moreover have "\<exists>a b. join d (qs @ p # rs) = a @ p @ b"
  proof (induction qs)
    case Nil
    show ?case by (cases rs) (auto simp: join_cons intro: exI[of _ "[]"])
  next
    case (Cons q qs)
    then obtain a b where "join d (qs @ p # rs) = a @ p @ b" by blast
    then have "join d (q # qs @ p # rs) = (q @ d # a) @ p @ b" by (simp add: join_cons)
    then show ?case by (metis append_Cons)
  qed
  ultimately show ?thesis using x contains_mono join_split by metis
qed

lemma file_name_plain: "plain_name n \<Longrightarrow> file_name n = Some n"
  by (simp add: file_name_def plain_name_components)

lemma file_name_child:
  assumes "plain_name n"
  shows "file_name (dir @ CHR ''/'' # n) = Some n"
proof -
  have "split (CHR ''/'') (dir @ CHR ''/'' # n) = split (CHR ''/'') dir @ [n]"
    using assms by (simp add: split_append_gen split_clean plain_name_def)
  then show ?thesis
    using assms by (simp add: file_name_def path_components_def Let_def plain_name_def path_component_of_def)
qed

lemma file_name_join:
  assumes "plain_name n"
  shows "file_name (path_join dir n) = Some n"
proof -
  have "\<not> is_absolute n" using assms by (cases n) (auto simp: is_absolute_def plain_name_def)
  moreover have "file_name (dir @ n) = Some n" if "dir \<noteq> []" "last dir = CHR ''/''"
    using file_name_child[OF assms, of "butlast dir"] that by (metis append.assoc append_Cons
        append_Nil append_butlast_last_id)
  ultimately show ?thesis
    using file_name_child[OF assms, of dir] file_name_plain[OF assms]
    by (cases "dir = []") (simp_all add: path_join_def)
qed

section \<open>Fallible calls on the host\<close>

text \<open>
  A call that reads or changes the host returns a value or an error message and the host as it
  left it; \<open>io_then\<close> is the \<^verbatim>\<open>?\<close> operator, \<open>io_context\<close> replaces the message.
\<close>

type_synonym ('a, 'w) io = "'w \<Rightarrow> (string + 'a) \<times> 'w"

definition io_ok :: "'a \<Rightarrow> ('a, 'w) io" where
  "io_ok a w = (Inr a, w)"

definition io_fail :: "string \<Rightarrow> ('a, 'w) io" where
  "io_fail e w = (Inl e, w)"

definition io_then :: "('a, 'w) io \<Rightarrow> ('a \<Rightarrow> ('b, 'w) io) \<Rightarrow> ('b, 'w) io" where
  "io_then m f w = (case m w of (Inl e, w') \<Rightarrow> (Inl e, w') | (Inr a, w') \<Rightarrow> f a w')"

definition io_context :: "string \<Rightarrow> ('a, 'w) io \<Rightarrow> ('a, 'w) io" where
  "io_context msg m w = (case m w of (Inl _, w') \<Rightarrow> (Inl msg, w') | r \<Rightarrow> r)"

definition io_ensure :: "bool \<Rightarrow> string \<Rightarrow> (unit, 'w) io" where
  "io_ensure b e = (if b then io_ok () else io_fail e)"

definition io_lift :: "string + 'a \<Rightarrow> ('a, 'w) io" where
  "io_lift r w = (r, w)"

lemmas io_defs = io_ok_def io_fail_def io_then_def io_context_def io_ensure_def io_lift_def

lemma io_then_ok:
  "io_then m f w = (Inr b, w'') \<longleftrightarrow> (\<exists>a w'. m w = (Inr a, w') \<and> f a w' = (Inr b, w''))"
  by (auto simp: io_then_def split: prod.splits sum.splits)

lemma io_ok_iff [simp]: "io_ok a w = (Inr b, w') \<longleftrightarrow> a = b \<and> w = w'"
  by (simp add: io_ok_def)

lemma io_fail_ok [simp]: "io_fail e w \<noteq> (Inr a, w')"
  by (simp add: io_fail_def)

lemma io_ensure_ok [simp]: "io_ensure b e w = (Inr u, w') \<longleftrightarrow> b \<and> w = w'"
  by (simp add: io_ensure_def io_ok_def io_fail_def)

lemma io_lift_ok [simp]: "io_lift r w = (Inr a, w') \<longleftrightarrow> r = Inr a \<and> w = w'"
  by (auto simp: io_lift_def)

lemma io_context_ok [simp]: "io_context msg m w = (Inr a, w') \<longleftrightarrow> m w = (Inr a, w')"
  by (auto simp: io_context_def split: prod.splits sum.splits)

end
