(* ===== verification/Collections.thy ===== *)
theory Collections
  imports Sql_Tables Rust_Strings
begin

text \<open>
  The dashboard's collections, \<^verbatim>\<open>hearthdeck-daemon/src/collections.rs\<close>: the rails the
  dashboard is composed from and their stored items, over the tables \<^verbatim>\<open>collections\<close> and
  \<^verbatim>\<open>collection_items\<close> of \<^verbatim>\<open>database.rs\<close>. The built-in rails are seeded and protected by a
  trigger, a feature may only replace its own rails, and a person only edits curated ones.
\<close>

section \<open>Constants\<close>

definition KIND_MEMBERSHIP :: string where "KIND_MEMBERSHIP = ''membership''"
definition KIND_RULE :: string where "KIND_RULE = ''rule''"
definition RULE_LAST_PLAYED :: string where "RULE_LAST_PLAYED = ''last_played''"
definition OWNER_SYSTEM :: string where "OWNER_SYSTEM = ''system''"
definition OWNER_USER :: string where "OWNER_USER = ''user''"
definition OWNER_STREMIO :: string where "OWNER_STREMIO = ''stremio''"
definition RULE_CONTINUE_WATCHING :: string where "RULE_CONTINUE_WATCHING = ''stremio:continue-watching''"
definition RULE_NEW_ARRIVALS :: string where "RULE_NEW_ARRIVALS = ''stremio:new-arrivals''"
definition OWNER_LAYA :: string where "OWNER_LAYA = ''laya''"

section \<open>Tables\<close>

record collection_row =
  c_slug :: string
  c_kind :: string
  c_rule :: "string option"
  c_role :: string
  c_position :: int
  c_created :: nat
  c_owner :: string
  c_name :: "string option"

record item_row =
  i_slug :: string
  i_item :: string
  i_name :: string
  i_icon :: "string option"
  i_position :: int
  i_created :: nat

record collections_db =
  collections :: "collection_row list"
  collection_items :: "item_row list"
  builtin_collections_are_kept :: bool

definition BUILTINS :: "collection_row list" where
  "BUILTINS =
     [\<lparr>c_slug = ''last-played'', c_kind = KIND_RULE, c_rule = Some RULE_LAST_PLAYED, c_role = ''none'',
       c_position = 0, c_created = 0, c_owner = OWNER_SYSTEM, c_name = None\<rparr>,
      \<lparr>c_slug = ''favorites'', c_kind = KIND_MEMBERSHIP, c_rule = None, c_role = ''favorite'',
       c_position = 1, c_created = 0, c_owner = OWNER_USER, c_name = None\<rparr>,
      \<lparr>c_slug = ''play-later'', c_kind = KIND_MEMBERSHIP, c_rule = None, c_role = ''play_later'',
       c_position = 2, c_created = 0, c_owner = OWNER_USER, c_name = None\<rparr>,
      \<lparr>c_slug = RULE_CONTINUE_WATCHING, c_kind = KIND_RULE, c_rule = Some RULE_CONTINUE_WATCHING,
       c_role = ''none'', c_position = 100, c_created = 0, c_owner = OWNER_STREMIO, c_name = None\<rparr>,
      \<lparr>c_slug = RULE_NEW_ARRIVALS, c_kind = KIND_RULE, c_rule = Some RULE_NEW_ARRIVALS, c_role = ''none'',
       c_position = 99, c_created = 0, c_owner = OWNER_STREMIO, c_name = None\<rparr>]"

text \<open>\<^verbatim>\<open>ON CONFLICT(slug) DO UPDATE\<close>: everything but the creation time is put back.\<close>

definition seed_row :: "nat \<Rightarrow> collection_row \<Rightarrow> collection_row list \<Rightarrow> collection_row list" where
  "seed_row now b t =
     upsert_row c_slug (\<lambda>old new. new\<lparr>c_created := c_created old\<rparr>) (b\<lparr>c_created := now\<rparr>) t"

definition seed_builtin :: "nat \<Rightarrow> collections_db \<Rightarrow> collections_db" where
  "seed_builtin now db =
     db\<lparr>collections := fold (seed_row now) BUILTINS (collections db), builtin_collections_are_kept := True\<rparr>"

definition is_feature_owner :: "string \<Rightarrow> bool" where
  "is_feature_owner ow \<longleftrightarrow> ow \<notin> {OWNER_SYSTEM, OWNER_USER, OWNER_STREMIO}"

definition owned_rule :: "string \<Rightarrow> string \<Rightarrow> string" where
  "owned_rule ow rule_id = ow @ '':'' @ rule_id"

definition owned_rule_id :: "string \<Rightarrow> string \<Rightarrow> string option" where
  "owned_rule_id ow rule =
     (case strip_prefix ow rule of None \<Rightarrow> None | Some rest \<Rightarrow> strip_prefix '':'' rest)"

record owned_collection =
  o_slug :: string
  o_name :: "string option"
  o_rule :: string

datatype curation_error = NotFound | ReadOnly | Storage db_error

datatype store_error = NotReplaceable string | Database db_error

section \<open>Reading\<close>

type_synonym collection = "collection_row \<times> item_row list"

definition list_collections :: "nat \<Rightarrow> collections_db \<Rightarrow> collections_db \<times> collection list" where
  "list_collections now db =
     (let db = seed_builtin now db;
          cs = sort_key (\<lambda>r. (c_position r, c_slug r)) (collections db);
          its = sort_key (\<lambda>i. (i_slug i, i_position i, i_created i)) (collection_items db) in
      (db, map (\<lambda>r. (r, filter (\<lambda>i. i_slug i = c_slug r) its)) cs))"

definition collection :: "nat \<Rightarrow> string \<Rightarrow> collections_db \<Rightarrow> collections_db \<times> collection option" where
  "collection now slug db =
     (case list_collections now db of (db, cs) \<Rightarrow> (db, find (\<lambda>(r, _). c_slug r = slug) cs))"

definition accepts_items :: "string \<Rightarrow> collections_db \<Rightarrow> bool option" where
  "accepts_items slug db =
     map_option (\<lambda>r. c_kind r = KIND_MEMBERSHIP \<and> c_owner r = OWNER_USER)
       (lookup c_slug slug (collections db))"

section \<open>Writing\<close>

text \<open>
  Deleting rows of \<^verbatim>\<open>collections\<close>: the trigger aborts the statement when a built-in row is
  among them, and the items of the deleted rows go with them.
\<close>

definition delete_collections :: "(collection_row \<Rightarrow> bool) \<Rightarrow> collections_db \<Rightarrow> db_error + collections_db \<times> nat" where
  "delete_collections P db =
     (let gone = filter P (collections db) in
      if builtin_collections_are_kept db \<and> list_ex (\<lambda>r. c_slug r \<in> c_slug ` set BUILTINS) gone
      then Inl (Aborted ''built-in collections cannot be deleted'')
      else Inr (db\<lparr>collections := filter (\<lambda>r. \<not> P r) (collections db),
                   collection_items := filter (\<lambda>i. i_slug i \<notin> c_slug ` set gone) (collection_items db)\<rparr>,
                length gone))"

definition FIRST_POSITION :: int where "FIRST_POSITION = 100"

fun insert_owned :: "nat \<Rightarrow> string \<Rightarrow> int \<Rightarrow> owned_collection list \<Rightarrow> collection_row list
    \<Rightarrow> db_error + collection_row list" where
  "insert_owned now ow index [] t = Inr t"
| "insert_owned now ow index (c # cs) t =
     (case insert_row c_slug \<lparr>c_slug = o_slug c, c_kind = KIND_RULE, c_rule = Some (o_rule c),
             c_role = ''none'', c_position = FIRST_POSITION + index, c_created = now, c_owner = ow,
             c_name = o_name c\<rparr> t of
        Inl e \<Rightarrow> Inl e
      | Inr t \<Rightarrow> insert_owned now ow (index + 1) cs t)"

text \<open>One transaction: an error leaves the database as it was.\<close>

definition replace_owned ::
  "nat \<Rightarrow> string \<Rightarrow> owned_collection list \<Rightarrow> collections_db \<Rightarrow> (collections_db, store_error) outcome" where
  "replace_owned now ow replace_with db =
     (if \<not> is_feature_owner ow then (db, Some (NotReplaceable ow))
      else case delete_collections (\<lambda>r. c_owner r = ow) db of
             Inl e \<Rightarrow> (db, Some (Database e))
           | Inr (db', _) \<Rightarrow>
               (case insert_owned now ow 0 replace_with (collections db') of
                  Inl e \<Rightarrow> (db, Some (Database e))
                | Inr t \<Rightarrow> (db'\<lparr>collections := t\<rparr>, None)))"

definition remove_owned :: "string \<Rightarrow> collections_db \<Rightarrow> collections_db \<times> (store_error + nat)" where
  "remove_owned ow db =
     (if \<not> is_feature_owner ow then (db, Inl (NotReplaceable ow))
      else case delete_collections (\<lambda>r. c_owner r = ow) db of
             Inl e \<Rightarrow> (db, Inl (Database e))
           | Inr (db, n) \<Rightarrow> (db, Inr n))"

text \<open>\<^verbatim>\<open>(SELECT COALESCE(MAX(position), -1) + 1 ...)\<close>\<close>

definition next_position :: "string \<Rightarrow> item_row list \<Rightarrow> int" where
  "next_position slug t =
     (case filter (\<lambda>i. i_slug i = slug) t of
        [] \<Rightarrow> - 1
      | i # is \<Rightarrow> fold (\<lambda>i m. max m (i_position i)) is (i_position i)) + 1"

definition item_key :: "item_row \<Rightarrow> string \<times> string" where
  "item_key i = (i_slug i, i_item i)"

definition add_item ::
  "nat \<Rightarrow> string \<Rightarrow> string \<Rightarrow> string \<Rightarrow> string option \<Rightarrow> collections_db \<Rightarrow> (collections_db, db_error) outcome" where
  "add_item now slug item_id name icon db =
     (if slug \<notin> c_slug ` set (collections db) then (db, Some ForeignKeyViolation)
      else (db\<lparr>collection_items :=
        upsert_row item_key (\<lambda>old new. old\<lparr>i_name := i_name new, i_icon := i_icon new\<rparr>)
          \<lparr>i_slug = slug, i_item = item_id, i_name = name, i_icon = icon,
           i_position = next_position slug (collection_items db), i_created = now\<rparr>
          (collection_items db)\<rparr>, None))"

definition remove_item :: "string \<Rightarrow> string \<Rightarrow> collections_db \<Rightarrow> collections_db \<times> bool" where
  "remove_item slug item_id db =
     (let gone = (\<lambda>i. i_slug i = slug \<and> i_item i = item_id) in
      (db\<lparr>collection_items := filter (\<lambda>i. \<not> gone i) (collection_items db)\<rparr>,
       list_ex gone (collection_items db)))"

definition ensure_curated :: "string \<Rightarrow> collections_db \<Rightarrow> curation_error option" where
  "ensure_curated slug db =
     (case accepts_items slug db of
        None \<Rightarrow> Some NotFound
      | Some False \<Rightarrow> Some ReadOnly
      | Some True \<Rightarrow> None)"

definition curated_snapshot ::
  "nat \<Rightarrow> string \<Rightarrow> collections_db \<Rightarrow> collections_db \<times> (curation_error + collection)" where
  "curated_snapshot now slug db =
     (case collection now slug db of
        (db, None) \<Rightarrow> (db, Inl NotFound)
      | (db, Some c) \<Rightarrow> (db, Inr c))"

definition add_curated_item ::
  "nat \<Rightarrow> string \<Rightarrow> string \<Rightarrow> string \<Rightarrow> string option \<Rightarrow> collections_db
     \<Rightarrow> collections_db \<times> (curation_error + collection)" where
  "add_curated_item now slug item_id name icon db =
     (case ensure_curated slug db of
        Some e \<Rightarrow> (db, Inl e)
      | None \<Rightarrow>
          (case add_item now slug item_id name icon db of
             (db, Some e) \<Rightarrow> (db, Inl (Storage e))
           | (db, None) \<Rightarrow> curated_snapshot now slug db))"

definition remove_curated_item ::
  "nat \<Rightarrow> string \<Rightarrow> string \<Rightarrow> collections_db \<Rightarrow> collections_db \<times> (curation_error + collection)" where
  "remove_curated_item now slug item_id db =
     (case ensure_curated slug db of
        Some e \<Rightarrow> (db, Inl e)
      | None \<Rightarrow> curated_snapshot now slug (fst (remove_item slug item_id db)))"

section \<open>The invariant\<close>

definition builtins_intact :: "collection_row list \<Rightarrow> bool" where
  "builtins_intact t \<longleftrightarrow> (\<forall>b\<in>set BUILTINS. \<exists>at. lookup c_slug (c_slug b) t = Some (b\<lparr>c_created := at\<rparr>))"

definition db_ok :: "collections_db \<Rightarrow> bool" where
  "db_ok db \<longleftrightarrow> keyed c_slug (collections db) \<and> keyed item_key (collection_items db)
     \<and> i_slug ` set (collection_items db) \<subseteq> c_slug ` set (collections db)
     \<and> builtin_collections_are_kept db \<and> builtins_intact (collections db)"

lemma builtin_slugs: "keyed c_slug BUILTINS"
  by (simp add: BUILTINS_def RULE_CONTINUE_WATCHING_def RULE_NEW_ARRIVALS_def)

lemma builtin_owners: "b \<in> set BUILTINS \<Longrightarrow> \<not> is_feature_owner (c_owner b)"
  by (auto simp: BUILTINS_def is_feature_owner_def)

lemma seed_row_lookup:
  "lookup c_slug s (seed_row now b t) =
    (if s = c_slug b then Some (b\<lparr>c_created := (case lookup c_slug s t of None \<Rightarrow> now | Some old \<Rightarrow> c_created old)\<rparr>)
     else lookup c_slug s t)"
  unfolding seed_row_def by (subst lookup_upsert) (auto split: option.splits)

lemma seed_rows_lookup:
  "keyed c_slug bs \<Longrightarrow> b \<in> set bs \<Longrightarrow>
     \<exists>at. lookup c_slug (c_slug b) (fold (seed_row now) bs t) = Some (b\<lparr>c_created := at\<rparr>)"
proof (induction bs arbitrary: t)
  case (Cons c bs)
  have others: "c_slug c \<notin> c_slug ` set bs \<Longrightarrow>
      lookup c_slug (c_slug c) (fold (seed_row now) bs u) = lookup c_slug (c_slug c) u" for u
    by (induction bs arbitrary: u) (auto simp: seed_row_lookup)
  from Cons show ?case
    by (cases "b = c") (auto simp: others seed_row_lookup)
qed simp

lemma seed_rows_keyed: "keyed c_slug t \<Longrightarrow> keyed c_slug (fold (seed_row now) bs t)"
proof (induction bs arbitrary: t)
  case (Cons b bs)
  have "keyed c_slug (seed_row now b t)"
    unfolding seed_row_def using _ Cons.prems by (rule keyed_upsert) simp
  then show ?case using Cons.IH by simp
qed simp

lemma seed_rows_slugs: "c_slug ` set t \<subseteq> c_slug ` set (fold (seed_row now) bs t)"
proof (induction bs arbitrary: t)
  case (Cons b bs)
  have "c_slug ` set t \<subseteq> c_slug ` set (seed_row now b t)"
    using arg_cong[OF map_key_upsert[of c_slug "b\<lparr>c_created := now\<rparr>"
          "\<lambda>old new. new\<lparr>c_created := c_created old\<rparr>" t], of set]
    by (auto simp: seed_row_def)
  with Cons[of "seed_row now b t"] show ?case by simp
qed simp

lemma seed_intact:
  assumes "keyed c_slug (collections db)" and "builtins_intact (collections db)"
    and "builtin_collections_are_kept db"
  shows "seed_builtin now db = db"
proof -
  have "seed_row now b (collections db) = collections db" if b: "b \<in> set BUILTINS" for b
  proof -
    obtain at where "lookup c_slug (c_slug b) (collections db) = Some (b\<lparr>c_created := at\<rparr>)"
      using assms(2) b by (auto simp: builtins_intact_def)
    then show ?thesis
      unfolding seed_row_def using upsert_same[OF assms(1), of "b\<lparr>c_created := now\<rparr>"] by simp
  qed
  then have "fold (seed_row now) bs (collections db) = collections db" if "set bs \<subseteq> set BUILTINS" for bs
    using that by (induction bs) auto
  then have "fold (seed_row now) BUILTINS (collections db) = collections db" by blast
  with assms(3) show ?thesis by (cases db) (simp add: seed_builtin_def)
qed

lemma seed_ok:
  assumes "keyed c_slug (collections db)" and "keyed item_key (collection_items db)"
    and "i_slug ` set (collection_items db) \<subseteq> c_slug ` set (collections db)"
  shows "db_ok (seed_builtin now db)"
  using assms seed_rows_slugs[of "collections db" now BUILTINS]
  by (auto simp: db_ok_def seed_builtin_def seed_rows_keyed builtins_intact_def seed_rows_lookup[OF builtin_slugs]
      simp del: fold_simps)

lemma seed_db_ok: "db_ok db \<Longrightarrow> seed_builtin now db = db"
  by (simp add: db_ok_def seed_intact)

lemma list_db_ok: "db_ok db \<Longrightarrow> fst (list_collections now db) = db"
  by (simp add: list_collections_def Let_def seed_db_ok)

lemma collection_db_ok: "db_ok db \<Longrightarrow> fst (collection now slug db) = db"
  using list_db_ok[of db now] by (simp add: collection_def split_beta)

lemma snapshot_db_ok: "db_ok db \<Longrightarrow> fst (curated_snapshot now slug db) = db"
  using collection_db_ok[of db now slug]
  by (auto simp: curated_snapshot_def split: prod.splits option.splits)

lemma lookup_feature:
  assumes "builtins_intact t" and "keyed c_slug t" and "r \<in> set t" and "is_feature_owner (c_owner r)"
  shows "c_slug r \<notin> c_slug ` set BUILTINS"
proof
  assume "c_slug r \<in> c_slug ` set BUILTINS"
  then obtain b where b: "b \<in> set BUILTINS" "c_slug b = c_slug r" by auto
  then obtain at where "lookup c_slug (c_slug r) t = Some (b\<lparr>c_created := at\<rparr>)"
    using assms(1) by (metis builtins_intact_def)
  with lookup_keyed[OF assms(2,3)] have "r = b\<lparr>c_created := at\<rparr>" by simp
  then have "c_owner r = c_owner b" by simp
  with builtin_owners[OF b(1)] assms(4) show False by simp
qed

lemma db_ok_keyD:
  "db_ok db \<Longrightarrow> x \<in> set (collections db) \<Longrightarrow> y \<in> set (collections db) \<Longrightarrow> c_slug x = c_slug y \<Longrightarrow> x = y"
  by (auto simp: db_ok_def distinct_map dest: inj_onD)

text \<open>Deleting a feature's rails is never refused, and leaves a sound database.\<close>

lemma delete_feature:
  assumes ok: "db_ok db" and ow: "is_feature_owner ow"
  shows "\<exists>n. delete_collections (\<lambda>r. c_owner r = ow) db =
      Inr (db\<lparr>collections := filter (\<lambda>r. c_owner r \<noteq> ow) (collections db),
        collection_items := filter (\<lambda>i. i_slug i \<notin> c_slug ` set (filter (\<lambda>r. c_owner r = ow) (collections db)))
          (collection_items db)\<rparr>, n)"
proof -
  have "\<not> list_ex (\<lambda>r. c_slug r \<in> c_slug ` set BUILTINS) (filter (\<lambda>r. c_owner r = ow) (collections db))"
    using ok ow lookup_feature[of "collections db"] by (auto simp: list_ex_iff db_ok_def)
  then show ?thesis by (simp add: delete_collections_def Let_def)
qed

lemma delete_feature_ok:
  assumes ok: "db_ok db" and ow: "is_feature_owner ow"
    and del: "delete_collections (\<lambda>r. c_owner r = ow) db = Inr (db', n)"
  shows "db_ok db'"
proof -
  have db': "collections db' = filter (\<lambda>r. c_owner r \<noteq> ow) (collections db)"
    "collection_items db' = filter (\<lambda>i. i_slug i \<notin> c_slug ` set (filter (\<lambda>r. c_owner r = ow) (collections db)))
          (collection_items db)"
    "builtin_collections_are_kept db'"
    using delete_feature[OF ok ow] del ok by (auto simp: db_ok_def)
  have keys: "keyed c_slug (collections db)" using ok by (simp add: db_ok_def)
  have "builtins_intact (collections db')"
    unfolding builtins_intact_def
  proof
    fix b assume b: "b \<in> set BUILTINS"
    then obtain at where "lookup c_slug (c_slug b) (collections db) = Some (b\<lparr>c_created := at\<rparr>)"
      using ok by (auto simp: db_ok_def builtins_intact_def)
    moreover have "c_owner b \<noteq> ow" using builtin_owners[OF b] ow by auto
    ultimately show "\<exists>at. lookup c_slug (c_slug b) (collections db') = Some (b\<lparr>c_created := at\<rparr>)"
      using lookup_filter[OF keys, of "c_slug b" "\<lambda>r. c_owner r \<noteq> ow"]
      by (auto simp: db' option_filter_def)
  qed
  moreover have "i_slug ` set (collection_items db') \<subseteq> c_slug ` set (collections db')"
  proof
    fix s assume "s \<in> i_slug ` set (collection_items db')"
    then obtain i where i: "s = i_slug i" "i \<in> set (collection_items db)"
      and kept: "s \<notin> c_slug ` set (filter (\<lambda>r. c_owner r = ow) (collections db))" by (auto simp: db'(2))
    have "s \<in> c_slug ` set (collections db)" using ok i by (auto simp: db_ok_def)
    then obtain r where r: "r \<in> set (collections db)" "s = c_slug r" by blast
    have "c_owner r \<noteq> ow" using kept r by force
    with r have "r \<in> set (collections db')" by (simp add: db'(1))
    with r(2) show "s \<in> c_slug ` set (collections db')" by (rule image_eqI)
  qed
  ultimately show ?thesis
    using ok by (simp add: db_ok_def db' keyed_filter)
qed

text \<open>The rows a feature's replacement writes, in its own order.\<close>

fun owned_rows :: "nat \<Rightarrow> string \<Rightarrow> int \<Rightarrow> owned_collection list \<Rightarrow> collection_row list" where
  "owned_rows now ow index [] = []"
| "owned_rows now ow index (c # cs) =
     \<lparr>c_slug = o_slug c, c_kind = KIND_RULE, c_rule = Some (o_rule c), c_role = ''none'',
      c_position = FIRST_POSITION + index, c_created = now, c_owner = ow, c_name = o_name c\<rparr>
     # owned_rows now ow (index + 1) cs"

lemma insert_owned_rows:
  assumes "insert_owned now ow k cs t = Inr t'"
  shows "t' = t @ owned_rows now ow k cs \<and> (keyed c_slug t \<longrightarrow> keyed c_slug t')
    \<and> (\<forall>s\<in>c_slug ` set t. lookup c_slug s t' = lookup c_slug s t)"
  using assms
proof (induction cs arbitrary: k t)
  case Nil
  then show ?case by simp
next
  case (Cons c cs)
  obtain r where r: "owned_rows now ow k (c # cs) = r # owned_rows now ow (k + 1) cs" by simp
  with Cons.prems obtain u where u: "insert_row c_slug r t = Inr u"
    and rest: "insert_owned now ow (k + 1) cs u = Inr t'" by (auto split: sum.splits)
  have eq: "u = t @ [r]" and fresh: "c_slug r \<notin> c_slug ` set t"
    using u by (auto simp: insert_row_def split: if_splits)
  have ih: "t' = u @ owned_rows now ow (k + 1) cs" "keyed c_slug u \<Longrightarrow> keyed c_slug t'"
    "s \<in> c_slug ` set u \<Longrightarrow> lookup c_slug s t' = lookup c_slug s u" for s
    using Cons.IH[OF rest] by blast+
  have "lookup c_slug s t' = lookup c_slug s t" if s: "s \<in> c_slug ` set t" for s
  proof -
    have "s \<noteq> c_slug r" using s fresh by blast
    then have "lookup c_slug s u = lookup c_slug s t" using lookup_insert[OF u, of s] by simp
    moreover have "s \<in> c_slug ` set u" using s by (auto simp: eq)
    ultimately show ?thesis using ih(3) by simp
  qed
  moreover have "keyed c_slug t \<longrightarrow> keyed c_slug t'" using ih(2) keyed_insert[OF _ u] by blast
  moreover have "t' = t @ r # owned_rows now ow (k + 1) cs" using ih(1) eq by simp
  ultimately show ?case unfolding r by blast
qed

lemma replace_owned_ok:
  assumes ok: "db_ok db" and r: "replace_owned now ow cs db = (db', err)"
  shows "db_ok db'"
proof (cases "err = None \<and> is_feature_owner ow")
  case False
  then have "db' = db"
    using r by (auto simp: replace_owned_def split: if_splits sum.splits)
  then show ?thesis using ok by simp
next
  case True
  then obtain db1 n t where del: "delete_collections (\<lambda>r. c_owner r = ow) db = Inr (db1, n)"
    and ins: "insert_owned now ow 0 cs (collections db1) = Inr t" and db': "db' = db1\<lparr>collections := t\<rparr>"
    using r by (auto simp: replace_owned_def split: if_splits sum.splits)
  have ok1: "db_ok db1" using True by (intro delete_feature_ok[OF ok _ del]) simp
  note t = insert_owned_rows[OF ins]
  have "builtins_intact t"
    unfolding builtins_intact_def
  proof
    fix b assume b: "b \<in> set BUILTINS"
    then obtain at where at: "lookup c_slug (c_slug b) (collections db1) = Some (b\<lparr>c_created := at\<rparr>)"
      using ok1 by (auto simp: db_ok_def builtins_intact_def)
    then have "c_slug b \<in> c_slug ` set (collections db1)" using lookup_None[of c_slug "c_slug b"] by force
    then show "\<exists>at. lookup c_slug (c_slug b) t = Some (b\<lparr>c_created := at\<rparr>)" using t at by auto
  qed
  moreover have "keyed c_slug t" using ok1 t unfolding db_ok_def by blast
  moreover have "c_slug ` set (collections db1) \<subseteq> c_slug ` set t" using t by auto
  ultimately show ?thesis
    using ok1 subset_trans[of _ "c_slug ` set (collections db1)" "c_slug ` set t"]
    by (simp add: db_ok_def db')
qed

lemma remove_owned_ok: "db_ok db \<Longrightarrow> db_ok (fst (remove_owned ow db))"
  by (auto simp: remove_owned_def delete_feature_ok split: sum.splits)

lemma add_item_ok:
  assumes ok: "db_ok db"
  shows "db_ok (fst (add_item now slug item_id name icon db))"
proof (cases "slug \<in> c_slug ` set (collections db)")
  case False
  then show ?thesis using ok by (simp add: add_item_def)
next
  case True
  define r where "r = \<lparr>i_slug = slug, i_item = item_id, i_name = name, i_icon = icon,
           i_position = next_position slug (collection_items db), i_created = now\<rparr>"
  define t where "t = upsert_row item_key (\<lambda>old new. old\<lparr>i_name := i_name new, i_icon := i_icon new\<rparr>) r
    (collection_items db)"
  have keys: "map item_key t = map item_key (collection_items db)
      @ (if item_key r \<in> item_key ` set (collection_items db) then [] else [item_key r])"
    unfolding t_def by (rule map_key_upsert) (simp add: item_key_def)
  have "keyed item_key t" using ok unfolding keys by (auto simp: db_ok_def)
  moreover have "i_slug ` set t = fst ` set (map item_key t)" by (auto simp: item_key_def image_image)
  then have "i_slug ` set t \<subseteq> c_slug ` set (collections db)"
    using ok True unfolding keys by (auto simp: db_ok_def item_key_def r_def image_image split: if_splits)
  ultimately show ?thesis
    using ok True by (simp add: add_item_def db_ok_def t_def r_def)
qed

lemma remove_item_ok: "db_ok db \<Longrightarrow> db_ok (fst (remove_item slug item_id db))"
  by (auto simp: remove_item_def Let_def db_ok_def keyed_filter)

section \<open>The store\<close>

datatype store_op =
    Migrate nat | ListAll nat | AddCurated nat string string string "string option"
  | RemoveCurated nat string string | ReplaceOwned nat string "owned_collection list" | RemoveOwned string

fun store_step :: "store_op \<Rightarrow> collections_db \<Rightarrow> collections_db" where
  "store_step (Migrate now) db = seed_builtin now db"
| "store_step (ListAll now) db = fst (list_collections now db)"
| "store_step (AddCurated now slug item_id name icon) db = fst (add_curated_item now slug item_id name icon db)"
| "store_step (RemoveCurated now slug item_id) db = fst (remove_curated_item now slug item_id db)"
| "store_step (ReplaceOwned now ow cs) db = fst (replace_owned now ow cs db)"
| "store_step (RemoveOwned ow) db = fst (remove_owned ow db)"

definition empty_db :: collections_db where
  "empty_db = \<lparr>collections = [], collection_items = [], builtin_collections_are_kept = False\<rparr>"

lemma store_step_ok: "db_ok db \<Longrightarrow> db_ok (store_step e db)"
proof (cases e)
  case (AddCurated now slug item_id name icon)
  assume ok: "db_ok db"
  have "db_ok (fst (add_item now slug item_id name icon db))" using ok by (rule add_item_ok)
  with ok AddCurated show ?thesis
    by (auto simp: add_curated_item_def snapshot_db_ok split: option.splits prod.splits)
next
  case (RemoveCurated now slug item_id)
  assume ok: "db_ok db"
  have "db_ok (fst (remove_item slug item_id db))" using ok by (rule remove_item_ok)
  with ok RemoveCurated show ?thesis
    by (auto simp: remove_curated_item_def snapshot_db_ok split: option.splits)
next
  case (ReplaceOwned now ow cs)
  assume "db_ok db"
  then show ?thesis using ReplaceOwned replace_owned_ok by (metis prod.collapse store_step.simps(5))
qed (simp_all add: seed_db_ok list_db_ok remove_owned_ok)

interpretation collection_store:
  machine "seed_builtin now empty_db" store_step "\<lambda>e db. True" db_ok for now
proof
  show "db_ok (seed_builtin now empty_db)" by (rule seed_ok) (simp_all add: empty_db_def)
qed (rule store_step_ok)

text \<open>No event is refused: every run of the store is possible.\<close>

lemma store_run_ok: "db_ok (fold store_step ops (seed_builtin now empty_db))"
proof -
  have "steps_ok (\<lambda>e db. True) store_step ops db" for db
    by (induction ops arbitrary: db) simp_all
  then show ?thesis by (rule collection_store.steps_inv)
qed

text \<open>
  C26: after the database was migrated, no sequence of listings, curations, feature replacements
  and feature removals loses or alters a built-in rail: each is there exactly as defined (up to
  its creation time), slugs and items stay unique, and no item is left without its collection.
\<close>

theorem builtin_rails_survive:
  assumes "db = fold store_step ops (seed_builtin now empty_db)"
  shows "(\<forall>b\<in>set BUILTINS. \<exists>at. lookup c_slug (c_slug b) (collections db) = Some (b\<lparr>c_created := at\<rparr>))
    \<and> keyed c_slug (collections db) \<and> keyed item_key (collection_items db)
    \<and> i_slug ` set (collection_items db) \<subseteq> c_slug ` set (collections db)"
  using store_run_ok[of ops now] by (simp add: assms db_ok_def builtins_intact_def)

definition demo_rail :: owned_collection where
  "demo_rail = \<lparr>o_slug = ''laya:watch'', o_name = Some ''Watch'', o_rule = ''laya:watch''\<rparr>"

lemmas collections_eval =
  demo_rail_def seed_builtin_def seed_row_def empty_db_def BUILTINS_def upsert_row_def insert_row_def
  RULE_CONTINUE_WATCHING_def RULE_NEW_ARRIVALS_def KIND_MEMBERSHIP_def KIND_RULE_def OWNER_USER_def
  OWNER_SYSTEM_def OWNER_STREMIO_def OWNER_LAYA_def RULE_LAST_PLAYED_def replace_owned_def
  is_feature_owner_def delete_collections_def FIRST_POSITION_def remove_owned_def

theorem builtin_rails_survive_witness:
  "let db = fold store_step [ReplaceOwned 5 OWNER_LAYA [demo_rail], RemoveOwned OWNER_USER]
        (seed_builtin 1 empty_db) in
     map c_slug (collections db) = map c_slug BUILTINS @ [''laya:watch'']
     \<and> (\<forall>b\<in>set BUILTINS. \<exists>at. lookup c_slug (c_slug b) (collections db) = Some (b\<lparr>c_created := at\<rparr>))"
proof -
  define db where "db = fold store_step [ReplaceOwned 5 OWNER_LAYA [demo_rail], RemoveOwned OWNER_USER]
        (seed_builtin 1 empty_db)"
  have "map c_slug (collections db) = map c_slug BUILTINS @ [''laya:watch'']"
    by (simp add: db_def collections_eval)
  with builtin_rails_survive[OF db_def] show ?thesis unfolding Let_def db_def[symmetric] by blast
qed

section \<open>A feature only reaches its own rails\<close>

lemma owned_rows_frame:
  "map (\<lambda>r. (c_slug r, c_rule r, c_name r)) (owned_rows now ow k cs) = map (\<lambda>c. (o_slug c, Some (o_rule c), o_name c)) cs"
  "r \<in> set (owned_rows now ow k cs) \<Longrightarrow> c_owner r = ow"
  by (induction cs arbitrary: k) auto

text \<open>
  Replacing a feature's rails writes exactly the given rails under its name and leaves every
  row of another owner, and every item of such a row, as it was; a replacement that fails
  (a slug another owner has, or an owner that is no feature) changes nothing.
\<close>

theorem replace_owned_is_local:
  assumes ok: "db_ok db" and r: "replace_owned now ow cs db = (db', err)"
  shows "(err = None \<longrightarrow>
        filter (\<lambda>r. c_owner r \<noteq> ow) (collections db') = filter (\<lambda>r. c_owner r \<noteq> ow) (collections db)
      \<and> map (\<lambda>r. (c_slug r, c_rule r, c_name r)) (filter (\<lambda>r. c_owner r = ow) (collections db'))
          = map (\<lambda>c. (o_slug c, Some (o_rule c), o_name c)) cs
      \<and> filter (\<lambda>i. \<exists>r\<in>set (collections db). c_slug r = i_slug i \<and> c_owner r \<noteq> ow) (collection_items db)
          = collection_items db')
    \<and> (err \<noteq> None \<longrightarrow> db' = db)"
proof (cases "err = None")
  case False
  then have "db' = db" using r by (auto simp: replace_owned_def split: if_splits sum.splits)
  with False show ?thesis by blast
next
  case True
  then obtain db1 n t where feature: "is_feature_owner ow"
    and del: "delete_collections (\<lambda>r. c_owner r = ow) db = Inr (db1, n)"
    and ins: "insert_owned now ow 0 cs (collections db1) = Inr t" and db': "db' = db1\<lparr>collections := t\<rparr>"
    using r by (auto simp: replace_owned_def split: if_splits sum.splits)
  let ?gone = "filter (\<lambda>r. c_owner r = ow) (collections db)"
  have db1: "collections db1 = filter (\<lambda>r. c_owner r \<noteq> ow) (collections db)"
    "collection_items db1 = filter (\<lambda>i. i_slug i \<notin> c_slug ` set ?gone) (collection_items db)"
    using delete_feature[OF ok feature] del by auto
  have t: "t = collections db1 @ owned_rows now ow 0 cs" using insert_owned_rows[OF ins] by blast
  have owned: "filter (\<lambda>r. c_owner r \<noteq> ow) (owned_rows now ow 0 cs) = []"
    "filter (\<lambda>r. c_owner r = ow) (owned_rows now ow 0 cs) = owned_rows now ow 0 cs"
    using owned_rows_frame(2)[of _ now ow 0 cs] by (auto simp: filter_empty_conv filter_id_conv)
  have "i_slug i \<notin> c_slug ` set ?gone \<longleftrightarrow> (\<exists>r\<in>set (collections db). c_slug r = i_slug i \<and> c_owner r \<noteq> ow)"
    if i: "i \<in> set (collection_items db)" for i
  proof -
    have "i_slug i \<in> c_slug ` set (collections db)" using ok i by (auto simp: db_ok_def)
    then obtain q where q: "q \<in> set (collections db)" "i_slug i = c_slug q" by blast
    have uniq: "x = q" if "x \<in> set (collections db)" "c_slug x = i_slug i" for x
      using db_ok_keyD[OF ok that(1) q(1)] that(2) q(2) by simp
    have "i_slug i \<in> c_slug ` set ?gone \<longleftrightarrow> c_owner q = ow"
    proof
      assume "i_slug i \<in> c_slug ` set ?gone"
      then obtain x where "x \<in> set ?gone" "i_slug i = c_slug x" by blast
      then show "c_owner q = ow" using uniq[of x] by simp
    next
      assume "c_owner q = ow"
      then have "q \<in> set ?gone" using q(1) by simp
      with q(2) show "i_slug i \<in> c_slug ` set ?gone" by (rule image_eqI)
    qed
    moreover have "(\<exists>r\<in>set (collections db). c_slug r = i_slug i \<and> c_owner r \<noteq> ow) \<longleftrightarrow> c_owner q \<noteq> ow"
      using q uniq by metis
    ultimately show ?thesis by simp
  qed
  then have items: "filter (\<lambda>i. \<exists>r\<in>set (collections db). c_slug r = i_slug i \<and> c_owner r \<noteq> ow) (collection_items db)
      = collection_items db'"
    unfolding db' by (simp add: db1(2) cong: filter_cong)
  have "filter (\<lambda>r. c_owner r \<noteq> ow) (collections db') = filter (\<lambda>r. c_owner r \<noteq> ow) (collections db)"
    "filter (\<lambda>r. c_owner r = ow) (collections db') = owned_rows now ow 0 cs"
    by (simp_all add: db' t db1(1) owned)
  with items True show ?thesis by (simp add: owned_rows_frame(1))
qed

theorem replace_owned_is_local_witness:
  "let db = seed_builtin 1 empty_db; db' = fst (replace_owned 5 OWNER_LAYA [demo_rail] db) in
     db_ok db \<and> replace_owned 5 OWNER_LAYA [demo_rail] db = (db', None)
     \<and> filter (\<lambda>r. c_owner r \<noteq> OWNER_LAYA) (collections db') = filter (\<lambda>r. c_owner r \<noteq> OWNER_LAYA) (collections db)
     \<and> map c_slug (collections db') = map c_slug (collections db) @ [''laya:watch'']"
proof -
  define db where "db = seed_builtin 1 empty_db"
  define db' where "db' = fst (replace_owned 5 OWNER_LAYA [demo_rail] db)"
  have ok: "db_ok db" unfolding db_def using store_run_ok[of "[]" 1] by simp
  have r: "replace_owned 5 OWNER_LAYA [demo_rail] db = (db', None)"
    "map c_slug (collections db') = map c_slug (collections db) @ [''laya:watch'']"
    by (simp_all add: db'_def db_def collections_eval)
  from replace_owned_is_local[OF ok r(1)] ok r show ?thesis
    unfolding Let_def db_def[symmetric] db'_def[symmetric] by blast
qed

section \<open>Curating\<close>

lemma next_position_greater: "i \<in> set t \<Longrightarrow> i_slug i = slug \<Longrightarrow> i_position i < next_position slug t"
proof -
  assume i: "i \<in> set t" "i_slug i = slug"
  have bound: "m \<le> fold (\<lambda>i m. max m (i_position i)) is m
      \<and> (\<forall>j\<in>set is. i_position j \<le> fold (\<lambda>i m. max m (i_position i)) is m)" for m "is"
  proof (induction "is" arbitrary: m)
    case (Cons a "is")
    have "max m (i_position a) \<le> fold (\<lambda>i m. max m (i_position i)) is (max m (i_position a))"
      using Cons by blast
    moreover have "\<forall>j\<in>set is. i_position j \<le> fold (\<lambda>i m. max m (i_position i)) is (max m (i_position a))"
      using Cons by blast
    ultimately show ?case by simp
  qed simp
  obtain a "is" where f: "filter (\<lambda>i. i_slug i = slug) t = a # is"
    using i by (cases "filter (\<lambda>i. i_slug i = slug) t") (auto simp: filter_empty_conv)
  have "i \<in> set (a # is)" using i f[symmetric] by simp
  then have "i_position i \<le> fold (\<lambda>i m. max m (i_position i)) is (i_position a)"
    using bound[of "i_position a" "is"] by auto
  then show ?thesis by (simp add: next_position_def f)
qed

text \<open>The items of one collection, in the order they are listed, and their ids.\<close>

definition listed :: "string \<Rightarrow> collections_db \<Rightarrow> item_row list" where
  "listed slug db = filter (\<lambda>i. i_slug i = slug)
     (sort_key (\<lambda>i. (i_slug i, i_position i, i_created i)) (collection_items db))"

definition listed_ids :: "string \<Rightarrow> collections_db \<Rightarrow> string list" where
  "listed_ids slug db = map i_item (listed slug db)"

lemma listed_ids_alt:
  "listed_ids slug db = map i_item
     (sort_key (\<lambda>i. (i_slug i, i_position i, i_created i)) (filter (\<lambda>i. i_slug i = slug) (collection_items db)))"
  by (simp add: listed_ids_def listed_def filter_sort)

lemma add_item_listing:
  assumes "add_item now slug item_id name icon db = (db', None)"
  shows "listed_ids slug db' = listed_ids slug db @ (if item_id \<in> set (listed_ids slug db) then [] else [item_id])
    \<and> (\<forall>other. other \<noteq> slug \<longrightarrow> listed_ids other db' = listed_ids other db)"
proof -
  define r where "r = \<lparr>i_slug = slug, i_item = item_id, i_name = name, i_icon = icon,
           i_position = next_position slug (collection_items db), i_created = now\<rparr>"
  let ?t = "collection_items db"
  let ?merge = "\<lambda>old new. old\<lparr>i_name := i_name new, i_icon := i_icon new\<rparr>"
  let ?k = "\<lambda>i. (i_slug i, i_position i, i_created i)"
  have db': "collection_items db' = upsert_row item_key ?merge r ?t"
    using assms by (auto simp: add_item_def r_def split: if_splits)
  have there: "item_key r \<in> item_key ` set ?t \<longleftrightarrow> item_id \<in> set (listed_ids slug db)"
    by (auto simp: listed_ids_def listed_def item_key_def r_def image_iff)
  show ?thesis
  proof (cases "item_key r \<in> item_key ` set ?t")
    case True
    define g where "g = (\<lambda>old. if item_key old = item_key r then ?merge old r else old)"
    have t: "collection_items db' = map g ?t" using True db' by (simp add: upsert_row_def g_def)
    have g: "?k (g i) = ?k i" "i_slug (g i) = i_slug i" "i_item (g i) = i_item i" for i
      by (simp_all add: g_def)
    have "filter (\<lambda>i. i_slug i = s) (map g ?t) = map g (filter (\<lambda>i. i_slug i = s) ?t)" for s
      by (simp add: filter_map comp_def g(2))
    then have "listed_ids s db' = listed_ids s db" for s
      using sort_key_map[of ?k g] g(1,3) by (simp add: listed_ids_alt t)
    with True there show ?thesis by simp
  next
    case False
    then have t: "collection_items db' = ?t @ [r]" using db' by (simp add: upsert_row_def)
    have "\<forall>i\<in>set (filter (\<lambda>i. i_slug i = slug) ?t). ?k i \<le> ?k r"
      using next_position_greater[of _ ?t slug] by (auto simp: r_def less_eq_prod_def less_imp_le)
    from sort_key_last[OF this] have "listed_ids slug db' = listed_ids slug db @ [item_id]"
      by (simp add: listed_ids_alt t) (simp add: r_def)
    moreover have "listed_ids other db' = listed_ids other db" if "other \<noteq> slug" for other
      using that by (simp add: listed_ids_alt t) (simp add: r_def)
    ultimately show ?thesis using False there by simp
  qed
qed

lemma add_item_keeps_order_ids:
  "add_item now slug item_id name icon db = (db', None) \<Longrightarrow> item_id \<in> set (listed_ids slug db')"
  by (simp add: add_item_listing)

text \<open>
  Adding an item to a collection puts it at the end of that collection, and adding one that
  is already there keeps every item where it was (it only refreshes the stored name and icon);
  the other collections are not touched.
\<close>

theorem add_item_keeps_order:
  assumes "add_item now slug item_id name icon db = (db', None)"
  shows "listed_ids slug db' = listed_ids slug db @ (if item_id \<in> set (listed_ids slug db) then [] else [item_id])
    \<and> (\<forall>other. other \<noteq> slug \<longrightarrow> listed_ids other db' = listed_ids other db)"
  using assms by (rule add_item_listing)

theorem add_item_keeps_order_witness:
  "let db = seed_builtin 1 empty_db;
       db1 = fst (add_item 2 ''favorites'' ''a'' ''A'' None db);
       db2 = fst (add_item 3 ''favorites'' ''b'' ''B'' None db1);
       db3 = fst (add_item 4 ''favorites'' ''a'' ''A2'' None db2) in
     add_item 4 ''favorites'' ''a'' ''A2'' None db2 = (db3, None)
     \<and> listed_ids ''favorites'' db2 = [''a'', ''b''] \<and> listed_ids ''favorites'' db3 = [''a'', ''b'']"
proof -
  define db where "db = seed_builtin 1 empty_db"
  define db1 where "db1 = fst (add_item 2 ''favorites'' ''a'' ''A'' None db)"
  define db2 where "db2 = fst (add_item 3 ''favorites'' ''b'' ''B'' None db1)"
  define db3 where "db3 = fst (add_item 4 ''favorites'' ''a'' ''A2'' None db2)"
  have r: "add_item 4 ''favorites'' ''a'' ''A2'' None db2 = (db3, None)"
    by (simp add: db3_def db2_def db1_def db_def add_item_def collections_eval)
  have l: "listed_ids ''favorites'' db2 = [''a'', ''b'']"
    by (simp add: db2_def db1_def db_def add_item_def collections_eval listed_ids_def listed_def item_key_def
        next_position_def)
  from add_item_keeps_order[OF r] r l show ?thesis
    unfolding Let_def db_def[symmetric] db1_def[symmetric] db2_def[symmetric] db3_def[symmetric] by simp
qed

lemma find_pair: "find (\<lambda>(x, _). P x) (map (\<lambda>x. (x, f x)) xs) = map_option (\<lambda>x. (x, f x)) (find P xs)"
  by (induction xs) auto

lemma snapshot_finds:
  assumes ok: "db_ok db" and r: "lookup c_slug slug (collections db) = Some r"
  shows "snd (curated_snapshot now slug db) = Inr (r, listed slug db)"
proof -
  let ?cs = "sort_key (\<lambda>r. (c_position r, c_slug r)) (collections db)"
  have mem: "r \<in> set (collections db)" "c_slug r = slug" using lookup_Some[OF r] by simp_all
  obtain y where y: "find (\<lambda>x. c_slug x = slug) ?cs = Some y"
    using mem by (cases "find (\<lambda>x. c_slug x = slug) ?cs") (auto simp: find_None_iff)
  then have "y \<in> set (collections db)" "c_slug y = slug" by (auto dest: find_Some_set)
  then have "y = r" using db_ok_keyD[OF ok] mem by simp
  then have "find (\<lambda>(x, _). c_slug x = slug) (map (\<lambda>r. (r, listed (c_slug r) db)) ?cs) = Some (r, listed slug db)"
    using y mem(2) by (simp add: find_pair)
  then show ?thesis
    by (simp add: curated_snapshot_def collection_def list_collections_def Let_def seed_db_ok[OF ok] listed_def)
qed

text \<open>
  A person can only edit a curated collection of their own: on a collection that is derived
  or owned by anyone else, adding and removing are refused as read-only, on an unknown one as
  not found, and nothing is written; on a curated one the answer is that collection.
\<close>

theorem curation_respects_owner:
  assumes ok: "db_ok db"
  shows "(lookup c_slug slug (collections db) = None \<longrightarrow>
        add_curated_item now slug item_id name icon db = (db, Inl NotFound)
      \<and> remove_curated_item now slug item_id db = (db, Inl NotFound))
    \<and> (\<forall>r. lookup c_slug slug (collections db) = Some r
        \<and> \<not> (c_kind r = KIND_MEMBERSHIP \<and> c_owner r = OWNER_USER) \<longrightarrow>
        add_curated_item now slug item_id name icon db = (db, Inl ReadOnly)
      \<and> remove_curated_item now slug item_id db = (db, Inl ReadOnly))
    \<and> (\<forall>r. lookup c_slug slug (collections db) = Some r
        \<and> c_kind r = KIND_MEMBERSHIP \<and> c_owner r = OWNER_USER \<longrightarrow>
        (\<exists>items. snd (add_curated_item now slug item_id name icon db) = Inr (r, items)
           \<and> item_id \<in> set (map i_item items)))"
proof -
  have found: "\<exists>items. snd (add_curated_item now slug item_id name icon db) = Inr (r, items)
           \<and> item_id \<in> set (map i_item items)"
    if r: "lookup c_slug slug (collections db) = Some r" "c_kind r = KIND_MEMBERSHIP" "c_owner r = OWNER_USER" for r
  proof -
    define db1 where "db1 = fst (add_item now slug item_id name icon db)"
    have slug: "slug \<in> c_slug ` set (collections db)" using lookup_None[of c_slug slug] r(1) by force
    then have add: "add_item now slug item_id name icon db = (db1, None)"
      and cs: "collections db1 = collections db"
      by (simp_all add: db1_def add_item_def)
    have ok1: "db_ok db1" unfolding db1_def using ok by (rule add_item_ok)
    have "snd (curated_snapshot now slug db1) = Inr (r, listed slug db1)"
      using r(1) by (intro snapshot_finds[OF ok1]) (simp add: cs)
    moreover have "item_id \<in> set (map i_item (listed slug db1))"
      using add_item_keeps_order_ids[OF add] by (simp only: listed_ids_def)
    moreover have "add_curated_item now slug item_id name icon db = curated_snapshot now slug db1"
      using r add by (simp add: add_curated_item_def ensure_curated_def accepts_items_def)
    ultimately show ?thesis by simp
  qed
  show ?thesis
    using found by (auto simp: add_curated_item_def remove_curated_item_def ensure_curated_def accepts_items_def)
qed

theorem curation_respects_owner_witness:
  "let db = seed_builtin 1 empty_db in
     db_ok db
     \<and> add_curated_item 2 ''last-played'' ''a'' ''A'' None db = (db, Inl ReadOnly)
     \<and> add_curated_item 2 ''nowhere'' ''a'' ''A'' None db = (db, Inl NotFound)
     \<and> (\<exists>r items. snd (add_curated_item 2 ''favorites'' ''a'' ''A'' None db) = Inr (r, items)
          \<and> ''a'' \<in> set (map i_item items))"
proof -
  define db where "db = seed_builtin 1 empty_db"
  have ok: "db_ok db" unfolding db_def using store_run_ok[of "[]" 1] by simp
  have l: "lookup c_slug ''nowhere'' (collections db) = None"
    "\<exists>r. lookup c_slug ''last-played'' (collections db) = Some r \<and> c_kind r \<noteq> KIND_MEMBERSHIP"
    "\<exists>r. lookup c_slug ''favorites'' (collections db) = Some r \<and> c_kind r = KIND_MEMBERSHIP \<and> c_owner r = OWNER_USER"
    by (simp_all add: db_def collections_eval lookup_def)
  show ?thesis
    unfolding Let_def db_def[symmetric]
    using ok l curation_respects_owner[OF ok, of "''nowhere''" 2 "''a''" "''A''" None]
      curation_respects_owner[OF ok, of "''last-played''" 2 "''a''" "''A''" None]
      curation_respects_owner[OF ok, of "''favorites''" 2 "''a''" "''A''" None]
    by blast
qed

end
