(* ===== verification/Protocol_Bridge.thy ===== *)
theory Protocol_Bridge
  imports Protocol_Input Rust_Strings
begin

text \<open>
  The messages of \<^verbatim>\<open>hearthdeck-protocol/src/lib.rs\<close> and \<^verbatim>\<open>sources.rs\<close> that the daemon and
  the session bridge exchange, and the payloads the daemon keeps of a catalog item. JSON values
  are a datatype; the code modelled here reads their strings, arrays and objects only, so a
  number keeps its literal.
\<close>

section \<open>JSON values\<close>

datatype json =
    JNull | JBool bool | JNumber string | JString string
  | JArray "json list" | JObject "(string \<times> json) list"

fun json_get :: "string \<Rightarrow> json \<Rightarrow> json option" where
  "json_get k (JObject kvs) = map_of kvs k"
| "json_get k _ = None"

fun json_str :: "json \<Rightarrow> string option" where
  "json_str (JString s) = Some s"
| "json_str _ = None"

fun json_array :: "json \<Rightarrow> json list option" where
  "json_array (JArray xs) = Some xs"
| "json_array _ = None"

section \<open>Sources\<close>

definition DESKTOP_APPS :: string where "DESKTOP_APPS = ''desktop-apps''"
definition HEROIC :: string where "HEROIC = ''heroic''"
definition RETROARCH :: string where "RETROARCH = ''retroarch''"
definition STREMIO :: string where "STREMIO = ''stremio''"
definition STREMIO_ARRIVALS :: string where "STREMIO_ARRIVALS = ''stremio-arrivals''"

section \<open>Bridge messages\<close>

datatype stremio_media_type = Movie | Series

fun StremioMediaType_as_str :: "stremio_media_type \<Rightarrow> string" where
  "StremioMediaType_as_str Movie = ''movie''"
| "StremioMediaType_as_str Series = ''series''"

datatype heroic_runner = Legendary | Gog

datatype bridge_request =
    HealthRequest
  | DiscoverApplications string
  | LaunchApplication string string string input_profile
  | LaunchStremioTitle string string stremio_media_type string input_profile
  | LaunchHeroicGame heroic_runner string string input_profile
  | LaunchRetroGame string string string input_profile
  | InstallRetroCores "string list"
  | ActiveApplicationSession
  | StopActiveApplicationSession
  | StopApplicationSession string

datatype application_session_state = Running

record application_session =
  as_id :: string
  as_source_id :: string
  as_application_id :: string
  as_state :: application_session_state

datatype application_source = System | Local | Flatpak | Snap | Nix

record discovered_application =
  da_application_id :: string
  da_name :: string
  da_comment :: "string option"
  da_icon :: "string option"
  da_categories :: "string list"
  da_launch_scheme :: "string option"
  da_source :: application_source

record retro_core_install_failure =
  cf_package :: string
  cf_reason :: string

record retro_core_install_report =
  cr_installed :: "string list"
  cr_failed :: "retro_core_install_failure list"

datatype bridge_error_code = InvalidRequest | NotFound | LaunchFailed | Internal

datatype bridge_response =
    Health string
  | Applications string "discovered_application list"
  | LaunchAccepted application_session
  | ApplicationSession "application_session option"
  | StopAccepted string
  | RetroCoresInstalled retro_core_install_report
  | Error bridge_error_code string

section \<open>Payloads of the catalog and of recorded plays\<close>

datatype library_section = PcGames | ConsoleGames | ApplicationSection

datatype form_factor = Couch | DesktopForm

record catalog_classification =
  cc_section :: library_section
  cc_streaming :: bool
  cc_form_factor :: "form_factor option"

record catalog_item =
  ci_id :: string
  ci_source_id :: string
  ci_title :: string
  ci_kind :: string
  ci_launch_id :: "string option"
  ci_icon :: "string option"
  ci_metadata :: json
  ci_classification :: catalog_classification

record activity_entry =
  ae_id :: string
  ae_title :: string
  ae_icon :: "string option"
  ae_categories :: "string list"
  ae_kind :: "string option"
  ae_source :: string
  ae_metadata :: json

record recent_activity =
  ra_entry :: activity_entry
  ra_last_launched_at :: nat
  ra_launch_count :: nat

text \<open>The event the daemon broadcasts when the running application changes.\<close>

datatype server_event =
    LibraryChanged string nat
  | MetadataChanged string nat
  | ApplicationSessionChanged "application_session option"
  | CategorizationChanged string nat nat

end
