(* ===== verification/Bridge_Systemd.thy ===== *)
theory Bridge_Systemd
  imports Protocol_Bridge
begin

text \<open>
  The unit machinery of the session bridge, \<^verbatim>\<open>hearthdeck-bridge/src/systemd.rs\<close>, and the input
  profile it sets through the input service, \<^verbatim>\<open>input.rs\<close>. The host is a record of the calls
  the code makes on programs and files outside the repository: \<^verbatim>\<open>systemctl\<close>,
  \<^verbatim>\<open>systemd-run\<close>, \<^verbatim>\<open>/proc\<close>, the file system and the input service's socket; each may
  answer differently every time, so the calls that act thread the state of the host. The two
  halves of a stop that the code joins run one after the other here.
\<close>

datatype fs_error = FileNotFound string | OtherFileError string

fun fs_message :: "fs_error \<Rightarrow> string" where
  "fs_message (FileNotFound m) = m"
| "fs_message (OtherFileError m) = m"

record 'w bridge_host =
  systemctl_is_active :: "string \<Rightarrow> (bool, 'w) io"
  systemctl_stop :: "string \<Rightarrow> (bool, 'w) io"
  systemd_run :: "string list \<Rightarrow> (bool, 'w) io"
  unit_main_pid :: "string \<Rightarrow> 'w \<Rightarrow> nat option"
  processes :: "'w \<Rightarrow> (nat \<times> string option) list"
  cgroup_of :: "nat \<Rightarrow> 'w \<Rightarrow> string option"
  environment :: "string \<Rightarrow> string option"
  read_file :: "string \<Rightarrow> 'w \<Rightarrow> fs_error + string"
  write_file :: "string \<Rightarrow> string \<Rightarrow> (unit, 'w) io"
  create_dir_all :: "string \<Rightarrow> (unit, 'w) io"
  canonicalize :: "string \<Rightarrow> 'w \<Rightarrow> string option"
  list_dir :: "string \<Rightarrow> 'w \<Rightarrow> string list"
  is_file :: "string \<Rightarrow> 'w \<Rightarrow> bool"
  is_executable :: "string \<Rightarrow> 'w \<Rightarrow> bool"
  path_exists :: "string \<Rightarrow> 'w \<Rightarrow> bool"
  input_socket_path :: "string option"
  start_input_service :: "(bool, 'w) io"
  sleep_50ms :: "'w \<Rightarrow> 'w"
  send_to_input :: "session_context \<Rightarrow> (unit, 'w) io"
  spawn :: "string list \<Rightarrow> (unit, 'w) io"

section \<open>Escaped units\<close>

definition TRACKED_UNIT_ENVIRONMENT_VARIABLE :: string where
  "TRACKED_UNIT_ENVIRONMENT_VARIABLE = ''HEARTHDECK_UNIT_NAME''"

definition environment_contains_entry :: "string \<Rightarrow> string \<Rightarrow> bool" where
  "environment_contains_entry environ entry \<longleftrightarrow> entry \<in> set (split (CHR 0x00) environ)"

definition escaped_unit_from_cgroup :: "string \<Rightarrow> string \<Rightarrow> string option" where
  "escaped_unit_from_cgroup cgroup unit_name =
     (case strip_prefix ''0::'' (trim cgroup) of
        None \<Rightarrow> None
      | Some path \<Rightarrow>
          let current_unit = last (split (CHR ''/'') path) in
          if current_unit \<noteq> unit_name \<and> ends_with ''.scope'' current_unit
             \<and> contains ''/app.slice/'' path
          then Some current_unit else None)"

definition escaped_unit_for_process :: "'w bridge_host \<Rightarrow> nat \<Rightarrow> string \<Rightarrow> 'w \<Rightarrow> string option" where
  "escaped_unit_for_process h pid unit_name w =
     (case cgroup_of h pid w of
        None \<Rightarrow> None | Some cgroup \<Rightarrow> escaped_unit_from_cgroup cgroup unit_name)"

definition option_list :: "'a option \<Rightarrow> 'a list" where
  "option_list x = (case x of None \<Rightarrow> [] | Some a \<Rightarrow> [a])"

definition find_escaped_units :: "'w bridge_host \<Rightarrow> string \<Rightarrow> 'w \<Rightarrow> string list" where
  "find_escaped_units h unit_name w =
     (let main = (case unit_main_pid h unit_name w of
                    None \<Rightarrow> [] | Some pid \<Rightarrow> option_list (escaped_unit_for_process h pid unit_name w));
          marker = TRACKED_UNIT_ENVIRONMENT_VARIABLE @ ''='' @ unit_name;
          marked = concat (map (\<lambda>(pid, environ). case environ of
              None \<Rightarrow> []
            | Some e \<Rightarrow> if environment_contains_entry e marker
                       then option_list (escaped_unit_for_process h pid unit_name w) else [])
            (processes h w))
      in sorted_list_of_set (set (main @ marked)))"

section \<open>Running and stopping\<close>

fun any_active :: "'w bridge_host \<Rightarrow> string list \<Rightarrow> (bool, 'w) io" where
  "any_active h [] = io_ok False"
| "any_active h (u # us) =
     io_then (systemctl_is_active h u) (\<lambda>act. if act then io_ok True else any_active h us)"

fun application_is_running :: "'w bridge_host \<Rightarrow> string option \<Rightarrow> (bool, 'w) io" where
  "application_is_running h None = io_ok False"
| "application_is_running h (Some u) =
     io_then (systemctl_is_active h u)
       (\<lambda>act. if act then io_ok True else (\<lambda>w. any_active h (find_escaped_units h u w) w))"

definition stop_unit :: "'w bridge_host \<Rightarrow> string \<Rightarrow> (unit, 'w) io" where
  "stop_unit h u =
     io_then (systemctl_stop h u)
       (\<lambda>success. io_ensure success (''systemd user manager rejected stop of '' @ u))"

definition stop_if_active :: "'w bridge_host \<Rightarrow> string \<Rightarrow> (unit, 'w) io" where
  "stop_if_active h u =
     io_then (systemctl_is_active h u) (\<lambda>act. if act then stop_unit h u else io_ok ())"

fun stop_escaped :: "'w bridge_host \<Rightarrow> string list \<Rightarrow> (unit, 'w) io" where
  "stop_escaped h [] = io_ok ()"
| "stop_escaped h (u # us) =
     io_then
       (io_then (systemctl_is_active h u) (\<lambda>act. if act
          then io_context (''could not stop escaped application unit '' @ u) (stop_unit h u)
          else io_ok ()))
       (\<lambda>_. stop_escaped h us)"

fun stop_application :: "'w bridge_host \<Rightarrow> string option \<Rightarrow> (unit, 'w) io" where
  "stop_application h None =
     io_fail ''application session cannot be stopped on this platform''"
| "stop_application h (Some u) = (\<lambda>w0.
     let escaped_units = find_escaped_units h u w0;
         (primary, w1) = stop_if_active h u w0;
         (escaped, w2) = stop_escaped h escaped_units w1
     in io_then (io_lift primary) (\<lambda>_.
        io_then (io_lift escaped) (\<lambda>_.
        io_then (application_is_running h (Some u)) (\<lambda>running.
          io_ensure (\<not> running) ''application processes are still running after stop''))) w2)"

section \<open>Starting\<close>

definition current_desktops :: "'w bridge_host \<Rightarrow> string list" where
  "current_desktops h =
     (case environment h ''XDG_CURRENT_DESKTOP'' of None \<Rightarrow> [] | Some d \<Rightarrow> split (CHR '':'') d)"

definition is_kiosk_session :: "'w bridge_host \<Rightarrow> bool" where
  "is_kiosk_session h \<longleftrightarrow> (\<exists>d\<in>set (current_desktops h). map ascii_lower d = ''hearthdeck'')"

definition forwarded_environment :: "string list" where
  "forwarded_environment =
     [''DISPLAY'', ''WAYLAND_DISPLAY'', ''GAMESCOPE_WAYLAND_DISPLAY'', ''XAUTHORITY'',
      ''GDK_BACKEND'', ''SDL_VIDEODRIVER'', ''XDG_CURRENT_DESKTOP'', ''XDG_SESSION_DESKTOP'',
      ''XDG_SESSION_TYPE'', ''DBUS_SESSION_BUS_ADDRESS'']"

definition setenv_args :: "'w bridge_host \<Rightarrow> string list" where
  "setenv_args h = concat (map (\<lambda>name. case environment h name of
       None \<Rightarrow> [] | Some v \<Rightarrow> [''--setenv'', name @ ''='' @ v]) forwarded_environment)"

definition launch_args ::
  "'w bridge_host \<Rightarrow> string \<Rightarrow> string list \<Rightarrow> string option \<Rightarrow> string list" where
  "launch_args h unit_name command working_directory =
     [''--user'', ''--collect'', ''--quiet'', ''--service-type=exec'', ''--unit'', unit_name,
      ''--working-directory'', (case working_directory of None \<Rightarrow> ''/'' | Some d \<Rightarrow> d)]
     @ (if is_kiosk_session h then [''--slice=hearthdeck-kiosk.slice''] else [])
     @ [''--setenv'', TRACKED_UNIT_ENVIRONMENT_VARIABLE @ ''='' @ unit_name]
     @ setenv_args h @ [''--''] @ command"

definition launch_with_systemd ::
  "'w bridge_host \<Rightarrow> string \<Rightarrow> string list \<Rightarrow> string option \<Rightarrow> (string option, 'w) io" where
  "launch_with_systemd h unit_name command working_directory =
     io_then (io_context ''could not start supervised application launch''
        (systemd_run h (launch_args h unit_name command working_directory)))
       (\<lambda>success. io_then (io_ensure success ''systemd user manager rejected application launch'')
          (\<lambda>_. io_ok (Some unit_name)))"

section \<open>Input profiles\<close>

fun wait_for_socket :: "'w bridge_host \<Rightarrow> string \<Rightarrow> nat \<Rightarrow> 'w \<Rightarrow> 'w" where
  "wait_for_socket h path 0 w = w"
| "wait_for_socket h path (Suc n) w =
     (if path_exists h path w then w else wait_for_socket h path n (sleep_50ms h w))"

definition start_input_if_needed :: "'w bridge_host \<Rightarrow> string \<Rightarrow> bool \<Rightarrow> (unit, 'w) io" where
  "start_input_if_needed h path required w0 =
     (if required \<and> \<not> path_exists h path w0 then
        io_then (io_context ''could not start input compatibility service'' (start_input_service h))
          (\<lambda>success. io_then (io_ensure success ''input compatibility service failed to start'')
             (\<lambda>_ w. (Inr (), wait_for_socket h path 20 w))) w0
      else (Inr (), w0))"

definition session_app_ids :: "bool \<Rightarrow> string option \<Rightarrow> string list" where
  "session_app_ids osk application_id =
     (if osk then [''retroarch'', ''org.libretro.RetroArch'', ''com.libretro.RetroArch'']
      else map (\<lambda>i. case strip_suffix ''.desktop'' i of None \<Rightarrow> i | Some s \<Rightarrow> s)
             (option_list application_id))"

definition send_session_context ::
  "'w bridge_host \<Rightarrow> input_profile \<Rightarrow> bool \<Rightarrow> string option \<Rightarrow> (unit, 'w) io" where
  "send_session_context h prof osk application_id w =
     (case send_to_input h \<lparr>session_mode = \<lparr>profile = prof, retro_osk = osk\<rparr>,
        app_ids = session_app_ids osk application_id\<rparr> w of
        (Inr _, w) \<Rightarrow> (Inr (), w)
      | (Inl e, w) \<Rightarrow>
          if prof = input_profile.Native then (Inr (), w)
          else (Inl ''could not enable input compatibility profile'', w))"

definition set_session_input_profile ::
  "'w bridge_host \<Rightarrow> input_profile \<Rightarrow> bool \<Rightarrow> string option \<Rightarrow> (unit, 'w) io" where
  "set_session_input_profile h prof osk application_id =
     (case input_socket_path h of
        None \<Rightarrow> io_ensure (prof = input_profile.Native \<and> \<not> osk) ''XDG_RUNTIME_DIR is not set''
      | Some path \<Rightarrow>
          let required = (prof = input_profile.Desktop \<or> osk) in
          io_then (start_input_if_needed h path required) (\<lambda>_ w.
            if \<not> path_exists h path w \<and> \<not> required then (Inr (), w)
            else io_then (io_ensure (path_exists h path w) ''input compatibility service is unavailable'')
                   (\<lambda>_. send_session_context h prof osk application_id) w))"

definition set_input_profile :: "'w bridge_host \<Rightarrow> input_profile \<Rightarrow> bool \<Rightarrow> (unit, 'w) io" where
  "set_input_profile h prof osk = set_session_input_profile h prof osk None"

section \<open>What a stop and a profile reset guarantee\<close>

text \<open>A stop that reports success ends with a check that found nothing of the session running.\<close>

lemma stop_application_checked:
  assumes "stop_application h u w = (Inr (), w')"
  shows "\<exists>w1. application_is_running h u w1 = (Inr False, w')"
  using assms
  by (cases u) (auto simp del: application_is_running.simps simp: Let_def split_beta io_then_ok)

lemma stop_needs_unit: "stop_application h u w = (Inr (), w') \<Longrightarrow> u \<noteq> None"
  by (cases u) auto

text \<open>Going back to the native profile never fails: a lost datagram is only logged.\<close>

lemma native_profile_ok: "\<exists>w'. set_input_profile h input_profile.Native False w = (Inr (), w')"
  by (auto simp: set_input_profile_def set_session_input_profile_def start_input_if_needed_def
      send_session_context_def io_defs split: option.split prod.split sum.split)

end
