(* ===== verification/Bridge_Desktop.thy ===== *)
theory Bridge_Desktop
  imports Bridge_Systemd
begin

text \<open>
  Desktop applications of the bridge, \<^verbatim>\<open>hearthdeck-bridge/src/desktop_apps.rs\<close>: reading and
  validating a desktop entry, splitting its \<^verbatim>\<open>Exec\<close> line into an argument vector, expanding
  the field codes, the directories that are searched, discovery and launch. Errors carry the
  messages of the code; a context replaces the message below it.
\<close>

type_synonym entry_values = "string \<rightharpoonup> string"

section \<open>Reading an entry\<close>

fun entry_lines :: "bool \<Rightarrow> string list \<Rightarrow> entry_values \<Rightarrow> entry_values" where
  "entry_lines inside [] values = values"
| "entry_lines inside (l # ls) values =
     (let line = trim l in
      if line \<noteq> [] \<and> hd line = CHR ''['' then
        (if inside then values else entry_lines (line = ''[Desktop Entry]'') ls values)
      else if inside \<and> \<not> (line \<noteq> [] \<and> hd line = CHR ''#'') then
        (case split_once (CHR ''='') line of
           None \<Rightarrow> entry_lines inside ls values
         | Some (key, v) \<Rightarrow> entry_lines inside ls (values(trim key \<mapsto> trim v)))
      else entry_lines inside ls values)"

definition desktop_entry_values :: "string \<Rightarrow> entry_values" where
  "desktop_entry_values content = entry_lines False (str_lines content) Map.empty"

definition desktop_entry_boolean :: "entry_values \<Rightarrow> string \<Rightarrow> bool" where
  "desktop_entry_boolean values key \<longleftrightarrow> values key = Some ''true''"

definition visible_in_desktop :: "string \<Rightarrow> string list \<Rightarrow> bool" where
  "visible_in_desktop desktops current \<longleftrightarrow>
     (\<exists>d\<in>set (filter (\<lambda>d. d \<noteq> []) (split (CHR '';'') desktops)). d \<in> set current)"

definition validate_desktop_entry :: "'w bridge_host \<Rightarrow> entry_values \<Rightarrow> string + unit" where
  "validate_desktop_entry h values =
     (let desktops = current_desktops h in
      if values ''Type'' \<noteq> Some ''Application'' then Inl ''not an application desktop entry''
      else if desktop_entry_boolean values ''NoDisplay'' \<or> desktop_entry_boolean values ''Hidden''
      then Inl ''not a visible application entry''
      else if (\<exists>d\<in>set (option_list (values ''OnlyShowIn'')). \<not> visible_in_desktop d desktops)
      then Inl ''desktop entry is hidden in the current desktop''
      else if (\<exists>d\<in>set (option_list (values ''NotShowIn'')). visible_in_desktop d desktops)
      then Inl ''desktop entry is hidden in the current desktop''
      else Inr ())"

section \<open>The Exec line\<close>

text \<open>
  The tokenizer of \<^verbatim>\<open>parse_exec\<close>: \<open>quote\<close> is the open delimiter, \<open>arg\<close> the argument so far,
  \<open>quoted\<close> whether a quote was seen since the last argument was pushed.
\<close>

fun exec_tokens ::
  "char option \<Rightarrow> string \<Rightarrow> bool \<Rightarrow> (string \<times> bool) list \<Rightarrow> string \<Rightarrow> string + (string \<times> bool) list" where
  "exec_tokens (Some d) arg quoted done [] = Inl ''desktop entry has an invalid Exec command''"
| "exec_tokens None arg quoted done [] =
     Inr (if arg \<noteq> [] then done @ [(arg, quoted)] else done)"
| "exec_tokens (Some d) arg quoted done (c # s) =
     (if c = d then exec_tokens None arg quoted done s
      else if d = CHR 0x22 \<and> c = CHR 0x5C then
        (case s of
           [] \<Rightarrow> Inl ''desktop entry has an invalid quoted Exec command''
         | e # s \<Rightarrow>
             if e \<in> {CHR 0x22, CHR 0x60, CHR ''$'', CHR 0x5C}
             then exec_tokens (Some d) (arg @ [e]) quoted done s
             else Inl ''desktop entry has an invalid quoted Exec escape'')
      else exec_tokens (Some d) (arg @ [c]) quoted done s)"
| "exec_tokens None arg quoted done (c # s) =
     (if c = CHR 0x5C then
        (case s of
           [] \<Rightarrow> Inl ''desktop entry has an invalid Exec command''
         | e # s \<Rightarrow> exec_tokens None (arg @ [e]) quoted done s)
      else if c = CHR 0x22 \<or> c = CHR 0x27 then exec_tokens (Some c) arg True done s
      else if is_whitespace c then
        (if arg \<noteq> [] then exec_tokens None [] False (done @ [(arg, quoted)]) s
         else exec_tokens None arg quoted done s)
      else exec_tokens None (arg @ [c]) quoted done s)"

fun expand_chars ::
  "bool \<Rightarrow> string \<Rightarrow> string option \<Rightarrow> string \<Rightarrow> string \<Rightarrow> string + string" where
  "expand_chars was_quoted desktop_path name expanded [] = Inr expanded"
| "expand_chars was_quoted desktop_path name expanded (c # s) =
     (if c \<noteq> CHR ''%'' then expand_chars was_quoted desktop_path name (expanded @ [c]) s
      else if was_quoted then Inl ''desktop entry has a field code inside quoted text''
      else case s of
        [] \<Rightarrow> Inl ''desktop entry has an incomplete field code''
      | f # s \<Rightarrow>
          if f = CHR ''%'' then expand_chars was_quoted desktop_path name (expanded @ ''%'') s
          else if f = CHR ''c'' then
            expand_chars was_quoted desktop_path name
              (expanded @ (case name of None \<Rightarrow> [] | Some n \<Rightarrow> n)) s
          else if f = CHR ''k'' then
            expand_chars was_quoted desktop_path name (expanded @ desktop_path) s
          else if f \<in> set ''fFuUi'' then Inl ''desktop entry has a field code in an invalid position''
          else Inl ''desktop entry has an unknown field code'')"

definition expand_field_codes ::
  "string list \<Rightarrow> string \<Rightarrow> bool \<Rightarrow> string \<Rightarrow> string option \<Rightarrow> string option \<Rightarrow> string + string list" where
  "expand_field_codes arguments argument was_quoted desktop_path name icon =
     (if argument \<in> {''%f'', ''%F'', ''%u'', ''%U''} then
        (if was_quoted then Inl ''desktop entry has a quoted file field code'' else Inr arguments)
      else if argument = ''%i'' then
        (if was_quoted then Inl ''desktop entry has a quoted icon field code''
         else Inr (case icon of None \<Rightarrow> arguments | Some i \<Rightarrow> arguments @ [''--icon'', i]))
      else case expand_chars was_quoted desktop_path name [] argument of
        Inl e \<Rightarrow> Inl e
      | Inr expanded \<Rightarrow> Inr (if expanded \<noteq> [] then arguments @ [expanded] else arguments))"

fun expand_all ::
  "string list \<Rightarrow> string \<Rightarrow> string option \<Rightarrow> string option \<Rightarrow> (string \<times> bool) list \<Rightarrow> string + string list" where
  "expand_all arguments desktop_path name icon [] = Inr arguments"
| "expand_all arguments desktop_path name icon ((argument, was_quoted) # rest) =
     (case expand_field_codes arguments argument was_quoted desktop_path name icon of
        Inl e \<Rightarrow> Inl e
      | Inr arguments \<Rightarrow> expand_all arguments desktop_path name icon rest)"

definition parse_exec ::
  "string \<Rightarrow> string \<Rightarrow> string option \<Rightarrow> string option \<Rightarrow> string + string list" where
  "parse_exec v desktop_path name icon =
     (case exec_tokens None [] False [] v of
        Inl e \<Rightarrow> Inl e
      | Inr arguments \<Rightarrow> expand_all [] desktop_path name icon arguments)"

definition executable_exists :: "'w bridge_host \<Rightarrow> string \<Rightarrow> 'w \<Rightarrow> bool" where
  "executable_exists h command w =
     (if is_absolute command \<or> CHR ''/'' \<in> set command
      then is_file h command w \<and> is_executable h command w
      else \<exists>dir\<in>set (case environment h ''PATH'' of None \<Rightarrow> [] | Some p \<Rightarrow> split (CHR '':'') p).
             is_file h (path_join dir command) w \<and> is_executable h (path_join dir command) w)"

record desktop_launch =
  dl_command :: "string list"
  dl_working_directory :: "string option"

text \<open>\<^verbatim>\<open>command_for_desktop_entry\<close> after the file was read, and the whole of it.\<close>

definition entry_command ::
  "'w bridge_host \<Rightarrow> string \<Rightarrow> entry_values \<Rightarrow> 'w \<Rightarrow> string + desktop_launch" where
  "entry_command h path values w =
     (case validate_desktop_entry h values of
        Inl e \<Rightarrow> Inl e
      | Inr _ \<Rightarrow>
          if desktop_entry_boolean values ''Terminal''
          then Inl ''terminal desktop entries are not supported in Kiosk mode''
          else if desktop_entry_boolean values ''DBusActivatable''
          then Inl ''D-Bus-activated desktop entries are not supported in a managed session''
          else case values ''Exec'' of
            None \<Rightarrow> Inl ''desktop entry has no Exec''
          | Some exec \<Rightarrow>
              (case parse_exec exec path (values ''Name'') (values ''Icon'') of
                 Inl e \<Rightarrow> Inl e
               | Inr command \<Rightarrow>
                   if command = [] then Inl ''desktop entry has an empty Exec command''
                   else if (\<exists>t\<in>set (option_list (values ''TryExec'')). \<not> executable_exists h t w)
                   then Inl ''desktop entry TryExec is not executable''
                   else Inr \<lparr>dl_command = command,
                     dl_working_directory = option_filter (\<lambda>p. p \<noteq> []) (values ''Path'')\<rparr>))"

definition command_for_desktop_entry :: "'w bridge_host \<Rightarrow> string \<Rightarrow> (desktop_launch, 'w) io" where
  "command_for_desktop_entry h path w =
     (case read_file h path w of
        Inl e \<Rightarrow> (Inl (fs_message e), w)
      | Inr content \<Rightarrow> (entry_command h path (desktop_entry_values content) w, w))"

section \<open>Directories and origins\<close>

definition xdg_data_home_from :: "string option \<Rightarrow> string option \<Rightarrow> string option" where
  "xdg_data_home_from data_home home =
     (case option_filter (\<lambda>p. p \<noteq> []) data_home of
        Some p \<Rightarrow> Some p
      | None \<Rightarrow> map_option (\<lambda>p. path_join p ''.local/share'') home)"

text \<open>Two paths are the same directory when their components are.\<close>

definition push_unique :: "string \<Rightarrow> string list \<Rightarrow> string list" where
  "push_unique path dirs =
     (if path_components path \<in> path_components ` set dirs then dirs else dirs @ [path])"

definition desktop_entry_directories_for ::
  "string option \<Rightarrow> string option \<Rightarrow> string option \<Rightarrow> string list" where
  "desktop_entry_directories_for data_home home data_dirs =
     (let dirs = (case option_filter (\<lambda>v. v \<noteq> []) data_dirs of
                    None \<Rightarrow> ''/usr/local/share:/usr/share'' | Some v \<Rightarrow> v);
          user = (case xdg_data_home_from data_home home of
                    None \<Rightarrow> []
                  | Some d \<Rightarrow> [path_join d ''applications'',
                              path_join d ''flatpak/exports/share/applications'']);
          shared = map (\<lambda>d. path_join d ''applications'') (filter is_absolute (split (CHR '':'') dirs))
      in fold push_unique
           (user @ shared @ [''/var/lib/flatpak/exports/share/applications'']) [])"

definition desktop_entry_directories :: "'w bridge_host \<Rightarrow> string list" where
  "desktop_entry_directories h =
     desktop_entry_directories_for (environment h ''XDG_DATA_HOME'') (environment h ''HOME'')
       (environment h ''XDG_DATA_DIRS'')"

definition origin_of :: "string \<Rightarrow> string option \<Rightarrow> application_source" where
  "origin_of path data_home =
     (if contains ''/flatpak/'' path then Flatpak
      else if starts_with ''/var/lib/snapd'' path then Snap
      else if (\<exists>p\<in>set [''/nix/store'', ''/nix/var'', ''/run/current-system'', ''/run/system-manager'',
                        ''/etc/profiles/per-user'']. starts_with p path) then Nix
      else if (case data_home of None \<Rightarrow> False | Some d \<Rightarrow> path_starts_with d path) then Local
      else System)"

section \<open>Discovery and launch\<close>

definition parse_desktop_entry :: "'w bridge_host \<Rightarrow> string \<Rightarrow> 'w \<Rightarrow> string + discovered_application" where
  "parse_desktop_entry h path w =
     (case read_file h path w of
        Inl e \<Rightarrow> Inl (fs_message e)
      | Inr content \<Rightarrow>
          let values = desktop_entry_values content in
          case validate_desktop_entry h values of
            Inl e \<Rightarrow> Inl e
          | Inr _ \<Rightarrow>
              (case fst (command_for_desktop_entry h path w) of
                 Inl e \<Rightarrow> Inl e
               | Inr _ \<Rightarrow>
                   (case (values ''Name'', file_name path) of
                      (None, _) \<Rightarrow> Inl ''desktop entry has no Name''
                    | (Some n, None) \<Rightarrow> Inl ''desktop entry has no file name''
                    | (Some n, Some application_id) \<Rightarrow> Inr
                        \<lparr>da_application_id = application_id, da_name = n,
                         da_comment = values ''Comment'', da_icon = values ''Icon'',
                         da_categories = (case values ''Categories'' of
                            None \<Rightarrow> [] | Some v \<Rightarrow> filter (\<lambda>c. c \<noteq> []) (split (CHR '';'') v)),
                         da_launch_scheme = (case values ''Exec'' of
                            None \<Rightarrow> None
                          | Some exec \<Rightarrow> if contains ''heroic://'' exec then Some ''heroic'' else None),
                         da_source = origin_of path
                           (xdg_data_home_from (environment h ''XDG_DATA_HOME'') (environment h ''HOME''))\<rparr>)))"

text \<open>
  Discovery collects the entries of every directory in order; the first entry of an id stays.
  The values of the hash map come in an unspecified order (\<open>shuffle\<close>) before the sort by name.
\<close>

definition or_insert ::
  "discovered_application \<Rightarrow> discovered_application list \<Rightarrow> discovered_application list" where
  "or_insert entry entries =
     (if da_application_id entry \<in> da_application_id ` set entries then entries else entries @ [entry])"

definition scan_entry ::
  "'w bridge_host \<Rightarrow> 'w \<Rightarrow> string \<Rightarrow> string \<Rightarrow> discovered_application list \<Rightarrow> discovered_application list" where
  "scan_entry h w dir file entries =
     (let path = path_join dir file in
      if path_extension path = Some ''desktop'' then
        (case parse_desktop_entry h path w of Inl _ \<Rightarrow> entries | Inr entry \<Rightarrow> or_insert entry entries)
      else entries)"

definition scan_directory ::
  "'w bridge_host \<Rightarrow> 'w \<Rightarrow> string \<Rightarrow> discovered_application list \<Rightarrow> discovered_application list" where
  "scan_directory h w dir entries = fold (scan_entry h w dir) (list_dir h dir w) entries"

definition discover_applications ::
  "'w bridge_host \<Rightarrow> (discovered_application list \<Rightarrow> discovered_application list) \<Rightarrow> string
     \<Rightarrow> 'w \<Rightarrow> string + discovered_application list" where
  "discover_applications h shuffle source_id w =
     (if source_id \<noteq> DESKTOP_APPS then Inl ''unsupported application source''
      else Inr (sort_key da_name
        (shuffle (fold (scan_directory h w) (desktop_entry_directories h) []))))"

definition is_bare_file_name :: "string \<Rightarrow> bool" where
  "is_bare_file_name v \<longleftrightarrow> v \<noteq> [] \<and> v \<noteq> ''.'' \<and> v \<noteq> ''..'' \<and> length (path_components v) = 1"

definition desktop_entry_path :: "'w bridge_host \<Rightarrow> string \<Rightarrow> string \<Rightarrow> 'w \<Rightarrow> string + string" where
  "desktop_entry_path h source_id application_id w =
     (if source_id \<noteq> DESKTOP_APPS then Inl ''unsupported application source''
      else if \<not> is_bare_file_name application_id then Inl ''invalid desktop entry id''
      else case find (\<lambda>path. is_file h path w \<and> \<not> isl (parse_desktop_entry h path w))
             (map (\<lambda>dir. path_join dir application_id) (desktop_entry_directories h)) of
        Some path \<Rightarrow> Inr path
      | None \<Rightarrow> Inl ''desktop entry is not registered'')"

definition app_unit :: "string \<Rightarrow> string" where
  "app_unit session_id = ''hearthdeck-app-'' @ session_id @ ''.service''"

definition launch_application ::
  "'w bridge_host \<Rightarrow> string \<Rightarrow> string \<Rightarrow> string \<Rightarrow> (string option, 'w) io" where
  "launch_application h source_id application_id session_id =
     io_then (\<lambda>w. (desktop_entry_path h source_id application_id w, w)) (\<lambda>path.
     io_then (command_for_desktop_entry h path) (\<lambda>launch.
       launch_with_systemd h (app_unit session_id) (dl_command launch) (dl_working_directory launch)))"

section \<open>Discovery and launch agree\<close>

lemma parse_application_id:
  "parse_desktop_entry h path w = Inr a \<Longrightarrow> file_name path = Some (da_application_id a)"
  by (auto simp: parse_desktop_entry_def Let_def split: sum.splits option.splits)

lemma parse_reads: "parse_desktop_entry h path w = Inr a \<Longrightarrow> \<not> isl (read_file h path w)"
  by (auto simp: parse_desktop_entry_def split: sum.splits)

text \<open>What the code relies on of the file system: a listing names every file, readable files are
  files, and the names are plain.\<close>

definition listing_complete :: "'w bridge_host \<Rightarrow> 'w \<Rightarrow> bool" where
  "listing_complete h w \<longleftrightarrow>
     (\<forall>dir n. n \<in> set (list_dir h dir w) \<longrightarrow> plain_name n)
     \<and> (\<forall>dir n. plain_name n \<and> is_file h (path_join dir n) w \<longrightarrow> n \<in> set (list_dir h dir w))
     \<and> (\<forall>path. \<not> isl (read_file h path w) \<longrightarrow> is_file h path w)"

text \<open>The first directory, of those scanned, that has an entry of this id, and the entry.\<close>

definition registered :: "'w bridge_host \<Rightarrow> 'w \<Rightarrow> string list \<Rightarrow> string \<Rightarrow> string option" where
  "registered h w dirs n =
     find (\<lambda>path. is_file h path w \<and> \<not> isl (parse_desktop_entry h path w))
       (map (\<lambda>dir. path_join dir n) dirs)"

definition sound_entries ::
  "'w bridge_host \<Rightarrow> 'w \<Rightarrow> string list \<Rightarrow> discovered_application list \<Rightarrow> bool" where
  "sound_entries h w dirs entries \<longleftrightarrow> distinct (map da_application_id entries) \<and>
     (\<forall>a\<in>set entries. plain_name (da_application_id a)
        \<and> path_extension (da_application_id a) = Some ''desktop'' \<and>
        (\<exists>path. registered h w dirs (da_application_id a) = Some path
              \<and> parse_desktop_entry h path w = Inr a))"

definition complete_entries ::
  "'w bridge_host \<Rightarrow> 'w \<Rightarrow> string list \<Rightarrow> discovered_application list \<Rightarrow> bool" where
  "complete_entries h w dirs entries \<longleftrightarrow>
     (\<forall>n. plain_name n \<and> path_extension n = Some ''desktop'' \<and> registered h w dirs n \<noteq> None
        \<longrightarrow> n \<in> da_application_id ` set entries)"

lemma registered_snoc:
  "registered h w (dirs @ [dir]) n = (case registered h w dirs n of
     Some path \<Rightarrow> Some path
   | None \<Rightarrow> if is_file h (path_join dir n) w \<and> \<not> isl (parse_desktop_entry h (path_join dir n) w)
             then Some (path_join dir n) else None)"
  by (simp add: registered_def find_append split: option.split)

lemma path_extension_join: "plain_name n \<Longrightarrow> path_extension (path_join dir n) = path_extension n"
  by (simp add: path_extension_def file_name_join file_name_plain)

lemma scan_entry_cases:
  assumes "plain_name f"
  obtains "scan_entry h w dir f entries = entries"
      "path_extension f = Some ''desktop'' \<and> \<not> isl (parse_desktop_entry h (path_join dir f) w)
         \<Longrightarrow> f \<in> da_application_id ` set entries"
  | a where "scan_entry h w dir f entries = entries @ [a]"
      "parse_desktop_entry h (path_join dir f) w = Inr a" "path_extension f = Some ''desktop''"
      "da_application_id a = f" "f \<notin> da_application_id ` set entries"
proof (cases "parse_desktop_entry h (path_join dir f) w")
  case (Inl e)
  with that(1) show ?thesis by (simp add: scan_entry_def Let_def)
next
  case (Inr a)
  have "da_application_id a = f" using parse_application_id[OF Inr] file_name_join[OF assms] by simp
  with Inr that show ?thesis
    by (cases "path_extension f = Some ''desktop'' \<and> f \<notin> da_application_id ` set entries")
       (auto simp: scan_entry_def or_insert_def Let_def path_extension_join[OF assms])
qed

lemma scan_covers:
  assumes "\<forall>f\<in>set files. plain_name f"
  shows "da_application_id ` set entries \<subseteq> da_application_id ` set (fold (scan_entry h w dir) files entries)
    \<and> (\<forall>f\<in>set files. path_extension f = Some ''desktop''
         \<and> \<not> isl (parse_desktop_entry h (path_join dir f) w)
         \<longrightarrow> f \<in> da_application_id ` set (fold (scan_entry h w dir) files entries))"
  using assms
proof (induction files arbitrary: entries)
  case (Cons f files)
  have f: "plain_name f" and rest: "\<forall>f\<in>set files. plain_name f" using Cons.prems by simp_all
  note IH = Cons.IH[OF rest, of "scan_entry h w dir f entries"]
  from f show ?case
  proof (cases rule: scan_entry_cases[of f h w dir entries])
    case 1
    with IH show ?thesis by (auto simp: 1(1))
  next
    case (2 a)
    with IH show ?thesis by (auto simp: 2(1))
  qed
qed simp

lemma scan_sound:
  assumes "listing_complete h w" and "set files \<subseteq> set (list_dir h dir w)"
    and "complete_entries h w dirs entries" and "sound_entries h w (dirs @ [dir]) entries"
  shows "sound_entries h w (dirs @ [dir]) (fold (scan_entry h w dir) files entries)"
  using assms(2-)
proof (induction files arbitrary: entries)
  case (Cons f files)
  have f: "plain_name f" using Cons.prems(1) assms(1) by (auto simp: listing_complete_def)
  have files: "set files \<subseteq> set (list_dir h dir w)" using Cons.prems(1) by simp
  from f show ?case
  proof (cases rule: scan_entry_cases[of f h w dir entries])
    case 1
    show ?thesis using Cons.IH[OF files Cons.prems(2,3)] by (simp add: 1(1))
  next
    case (2 a)
    have isf: "is_file h (path_join dir f) w"
      using parse_reads[OF 2(2)] assms(1) by (simp add: listing_complete_def)
    have "registered h w dirs f = None"
      using Cons.prems(2) 2(3,5) f by (auto simp: complete_entries_def)
    then have "registered h w (dirs @ [dir]) f = Some (path_join dir f)"
      using isf 2(2) by (simp add: registered_snoc)
    then have "sound_entries h w (dirs @ [dir]) (entries @ [a])"
      using Cons.prems(3) f 2 by (auto simp: sound_entries_def)
    moreover have "complete_entries h w dirs (entries @ [a])"
      using Cons.prems(2) by (auto simp: complete_entries_def)
    ultimately show ?thesis using Cons.IH[OF files] by (simp add: 2(1))
  qed
qed simp

lemma scan_directory_step:
  assumes "listing_complete h w"
    and "sound_entries h w dirs entries" and "complete_entries h w dirs entries"
  shows "sound_entries h w (dirs @ [dir]) (scan_directory h w dir entries)"
    and "complete_entries h w (dirs @ [dir]) (scan_directory h w dir entries)"
proof -
  have "sound_entries h w (dirs @ [dir]) entries"
    using assms(2) by (fastforce simp: sound_entries_def registered_snoc)
  then show "sound_entries h w (dirs @ [dir]) (scan_directory h w dir entries)"
    unfolding scan_directory_def by (rule scan_sound[OF assms(1) order.refl assms(3)])
  have plain: "\<forall>f\<in>set (list_dir h dir w). plain_name f"
    using assms(1) by (auto simp: listing_complete_def)
  show "complete_entries h w (dirs @ [dir]) (scan_directory h w dir entries)"
    unfolding complete_entries_def scan_directory_def
  proof (intro allI impI, elim conjE)
    fix n
    assume n: "plain_name n" "path_extension n = Some ''desktop''"
      "registered h w (dirs @ [dir]) n \<noteq> None"
    show "n \<in> da_application_id ` set (fold (scan_entry h w dir) (list_dir h dir w) entries)"
    proof (cases "registered h w dirs n")
      case None
      with n(3) have "is_file h (path_join dir n) w"
        "\<not> isl (parse_desktop_entry h (path_join dir n) w)" by (auto simp: registered_snoc split: if_splits)
      with assms(1) n(1,2) scan_covers[OF plain, of entries h w dir] show ?thesis
        by (simp add: listing_complete_def)
    next
      case (Some path)
      then have "n \<in> da_application_id ` set entries"
        using assms(3) n(1,2) by (auto simp: complete_entries_def)
      with scan_covers[OF plain, of entries h w dir] show ?thesis by blast
    qed
  qed
qed

lemma scan_directories:
  assumes "listing_complete h w"
  shows "sound_entries h w dirs (fold (scan_directory h w) dirs [])
    \<and> complete_entries h w dirs (fold (scan_directory h w) dirs [])"
proof (induction dirs rule: rev_induct)
  case Nil
  show ?case by (simp add: sound_entries_def complete_entries_def registered_def)
next
  case (snoc dir dirs)
  with scan_directory_step[OF assms] show ?case by simp
qed

text \<open>
  Discovery and launch agree: every application discovery lists (each id once) is one that a
  launch of its id resolves, to the very entry that was listed, the first directory winning in
  both; and every registered \<^verbatim>\<open>.desktop\<close> id a launch would resolve is listed.
\<close>

theorem discovered_is_what_launches:
  assumes "listing_complete h w" and "\<And>xs. set (shuffle xs) = set xs \<and> length (shuffle xs) = length xs"
    and "discover_applications h shuffle DESKTOP_APPS w = Inr found"
  shows "(\<forall>a\<in>set found. \<exists>path. desktop_entry_path h DESKTOP_APPS (da_application_id a) w = Inr path
            \<and> parse_desktop_entry h path w = Inr a)
    \<and> (\<forall>n path. plain_name n \<and> path_extension n = Some ''desktop''
          \<and> desktop_entry_path h DESKTOP_APPS n w = Inr path \<longrightarrow> n \<in> da_application_id ` set found)
    \<and> length found = card (da_application_id ` set found)"
proof -
  let ?dirs = "desktop_entry_directories h"
  let ?entries = "fold (scan_directory h w) ?dirs []"
  have found: "set found = set ?entries" "length found = length ?entries"
    using assms(2,3) by (auto simp: discover_applications_def)
  have sound: "sound_entries h w ?dirs ?entries" and complete: "complete_entries h w ?dirs ?entries"
    using scan_directories[OF assms(1), of ?dirs] by simp_all
  have path: "desktop_entry_path h DESKTOP_APPS n w = (case registered h w ?dirs n of
      Some path \<Rightarrow> Inr path | None \<Rightarrow> Inl ''desktop entry is not registered'')" if "plain_name n" for n
    using plain_name_components[OF that] that
    by (simp add: desktop_entry_path_def registered_def is_bare_file_name_def plain_name_def)
  have "\<forall>a\<in>set found. \<exists>path. desktop_entry_path h DESKTOP_APPS (da_application_id a) w = Inr path
      \<and> parse_desktop_entry h path w = Inr a"
    using sound found(1) path by (fastforce simp: sound_entries_def)
  moreover have "\<forall>n path. plain_name n \<and> path_extension n = Some ''desktop''
      \<and> desktop_entry_path h DESKTOP_APPS n w = Inr path \<longrightarrow> n \<in> da_application_id ` set found"
    using complete found(1) path by (fastforce simp: complete_entries_def split: option.splits)
  moreover have "length found = card (da_application_id ` set found)"
    using sound found distinct_card[of "map da_application_id ?entries"]
    by (simp add: sound_entries_def)
  ultimately show ?thesis by blast
qed

text \<open>A host with one desktop entry.\<close>

definition demo_entry_path :: string where
  "demo_entry_path = ''/usr/share/applications/a.desktop''"

definition demo_fs :: "unit bridge_host" where
  "demo_fs = \<lparr>systemctl_is_active = \<lambda>_. io_ok False, systemctl_stop = \<lambda>_. io_ok True,
     systemd_run = \<lambda>_. io_ok True, unit_main_pid = \<lambda>_ _. None, processes = \<lambda>_. [],
     cgroup_of = \<lambda>_ _. None, environment = \<lambda>_. None,
     read_file = \<lambda>p _. if p = demo_entry_path
       then Inr (''[Desktop Entry]'' @ [CHR 0x0A] @ ''Type=Application'' @ [CHR 0x0A] @ ''Name=A''
         @ [CHR 0x0A] @ ''Exec=a %u'') else Inl (FileNotFound ''no such file''),
     write_file = \<lambda>_ _. io_ok (), create_dir_all = \<lambda>_. io_ok (), canonicalize = \<lambda>p _. Some p,
     list_dir = \<lambda>d _. if path_join d ''a.desktop'' = demo_entry_path then [''a.desktop''] else [],
     is_file = \<lambda>p _. p = demo_entry_path, is_executable = \<lambda>_ _. True, path_exists = \<lambda>_ _. False,
     input_socket_path = None, start_input_service = io_ok True, sleep_50ms = \<lambda>w. w,
     send_to_input = \<lambda>_. io_ok (), spawn = \<lambda>_. io_ok ()\<rparr>"

lemma demo_listing: "listing_complete demo_fs w"
proof -
  have "n = ''a.desktop''" if "plain_name n" "path_join dir n = demo_entry_path" for dir n
  proof -
    have "file_name demo_entry_path = Some ''a.desktop''" by code_simp
    with file_name_join[OF that(1), of dir] that(2) show ?thesis by simp
  qed
  then show ?thesis by (auto simp: listing_complete_def demo_fs_def plain_name_def split: if_splits)
qed

theorem discovered_is_what_launches_witness:
  "\<exists>found. discover_applications demo_fs rev DESKTOP_APPS () = Inr found
     \<and> map da_application_id found = [''a.desktop'']
     \<and> (\<exists>path. desktop_entry_path demo_fs DESKTOP_APPS ''a.desktop'' () = Inr path
          \<and> parse_desktop_entry demo_fs path () = Inr (hd found))"
proof -
  obtain found where found: "discover_applications demo_fs rev DESKTOP_APPS () = Inr found"
    by (simp add: discover_applications_def)
  have ids: "map_sum (\<lambda>x. x) (map da_application_id)
      (discover_applications demo_fs rev DESKTOP_APPS ()) = Inr [''a.desktop'']"
    by code_simp
  then have found_ids: "map da_application_id found = [''a.desktop'']" using found by simp
  then have "hd found \<in> set found" "da_application_id (hd found) = ''a.desktop''" by (cases found; simp)+
  with discovered_is_what_launches[OF demo_listing _ found] found found_ids show ?thesis by fastforce
qed

section \<open>Quoting\<close>

text \<open>How the desktop entry format writes an argument that is quoted.\<close>

definition escape_char :: "char \<Rightarrow> string" where
  "escape_char c = (if c \<in> {CHR 0x22, CHR 0x60, CHR ''$'', CHR 0x5C} then [CHR 0x5C, c] else [c])"

definition quote_argument :: "string \<Rightarrow> string" where
  "quote_argument a = CHR 0x22 # concat (map escape_char a) @ [CHR 0x22]"

lemma tokens_inside_quotes:
  "exec_tokens (Some (CHR 0x22)) arg q acc (concat (map escape_char a) @ CHR 0x22 # s)
     = exec_tokens None (arg @ a) q acc s"
  by (induction a arbitrary: arg) (auto simp: escape_char_def)

lemma tokens_of_quoted:
  assumes "[] \<notin> set args"
  shows "exec_tokens None [] q acc (join (CHR '' '') (map quote_argument args))
    = Inr (acc @ map (\<lambda>a. (a, True)) args)"
  using assms
proof (induction args arbitrary: q acc)
  case (Cons a args)
  have a: "exec_tokens None [] q acc (quote_argument a @ s) = exec_tokens None a True acc s" for s
    using tokens_inside_quotes[of "[]" True acc a s] by (simp add: quote_argument_def)
  show ?case
  proof (cases args)
    case Nil
    with a[of "[]"] Cons.prems show ?thesis by simp
  next
    case (Cons b bs)
    then have "join (CHR '' '') (map quote_argument (a # args))
        = quote_argument a @ CHR '' '' # join (CHR '' '') (map quote_argument args)"
      by (simp add: join_cons)
    moreover have "a \<noteq> []" using Cons.prems by auto
    ultimately show ?thesis
      using a Cons.prems Cons.IH[of False "acc @ [(a, True)]"] by (simp add: is_whitespace_def)
  qed
qed simp

lemma expand_plain:
  "CHR ''%'' \<notin> set s \<Longrightarrow> expand_chars q p n acc s = Inr (acc @ s)"
  by (induction s arbitrary: acc) auto

lemma expand_quoted_all:
  "[] \<notin> set args \<Longrightarrow> \<forall>a\<in>set args. CHR ''%'' \<notin> set a \<Longrightarrow>
   expand_all acc p n i (map (\<lambda>a. (a, True)) args) = Inr (acc @ args)"
  by (induction args arbitrary: acc) (auto simp: expand_field_codes_def expand_plain)

text \<open>
  C20: an argument vector written in the quoted form of a desktop entry is executed as exactly
  that vector: whatever spaces, quotes, backslashes, dollar signs and backticks the arguments
  hold, none is split, joined, dropped or altered (empty arguments and field codes apart).
\<close>

theorem exec_quoting_roundtrip:
  assumes "[] \<notin> set args" and "\<forall>a\<in>set args. CHR ''%'' \<notin> set a"
  shows "parse_exec (join (CHR '' '') (map quote_argument args)) path name icon = Inr args"
  using tokens_of_quoted[OF assms(1), of False "[]"] expand_quoted_all[OF assms, of "[]"]
  by (simp add: parse_exec_def)

theorem exec_quoting_roundtrip_witness:
  "let args = [''/opt/My Games/run'', ''--title=\"a'' @ [CHR 0x5C] @ ''b\"'', ''$HOME''] in
     parse_exec (join (CHR '' '') (map quote_argument args)) ''/usr/share/applications/x.desktop''
       None None = Inr args"
  unfolding Let_def by (rule exec_quoting_roundtrip) simp_all

text \<open>
  The quoted flag survives an empty quoted argument, which is dropped, and then reaches the next
  argument: a file field code after it is refused as if it were quoted itself.
\<close>

lemma empty_quotes_taint_next_argument:
  "parse_exec ''app \"\" %f'' path name icon = Inl ''desktop entry has a quoted file field code''"
  "parse_exec ''app %f'' path name icon = Inr [''app'']"
  by (simp_all add: parse_exec_def is_whitespace_def expand_field_codes_def)

text \<open>An id with a trailing separator passes for a bare file name.\<close>

lemma bare_file_name_allows_trailing_slash: "is_bare_file_name ''x.desktop/''"
  by code_simp

end
