(* ===== verification/Bridge_Targets.thy ===== *)
theory Bridge_Targets
  imports Bridge_Desktop "HOL-Library.Multiset"
begin

text \<open>
  The other launch targets of the bridge: Stremio titles (\<^verbatim>\<open>stremio.rs\<close>), Heroic games
  (\<^verbatim>\<open>heroic.rs\<close>) and the installation of core packages (\<^verbatim>\<open>core_install.rs\<close>). Each builds what
  it runs from validated parts; the lemmas say that nothing a client sends can change its shape.
\<close>

section \<open>Stremio titles\<close>

definition is_imdb_id :: "string \<Rightarrow> bool" where
  "is_imdb_id v \<longleftrightarrow>
     (case strip_prefix ''tt'' v of
        None \<Rightarrow> False
      | Some digits \<Rightarrow> digits \<noteq> [] \<and> length digits \<le> 10 \<and> list_all is_ascii_digit digits)"

definition is_small_number :: "string \<Rightarrow> bool" where
  "is_small_number v \<longleftrightarrow> v \<noteq> [] \<and> length v \<le> 4 \<and> list_all is_ascii_digit v \<and> v \<noteq> ''0''"

definition stremio_detail_uri :: "string \<Rightarrow> stremio_media_type \<Rightarrow> string + string" where
  "stremio_detail_uri video_id media_type =
     (let parts = split (CHR '':'') video_id; base = hd parts in
      if \<not> is_imdb_id base then Inl ''a video id must be an IMDb id''
      else if length parts > 3 then Inl ''a video id has at most a season and an episode''
      else case tl parts of
        [] \<Rightarrow> Inr (''stremio:///detail/'' @ StremioMediaType_as_str media_type @ ''/'' @ base)
      | [season, episode] \<Rightarrow>
          if \<not> is_small_number season \<or> \<not> is_small_number episode
          then Inl ''a season and an episode must be numbers''
          else Inr (''stremio:///detail/series/'' @ base @ ''/'' @ base @ '':'' @ season @ '':'' @ episode)
      | _ \<Rightarrow> Inl ''a video id needs both a season and an episode'')"

definition launch_stremio_title ::
  "'w bridge_host \<Rightarrow> string \<Rightarrow> string \<Rightarrow> stremio_media_type \<Rightarrow> string \<Rightarrow> (string option, 'w) io" where
  "launch_stremio_title h application_id video_id media_type session_id =
     io_then (io_lift (stremio_detail_uri video_id media_type)) (\<lambda>uri.
     io_then (\<lambda>w. (desktop_entry_path h DESKTOP_APPS application_id w, w)) (\<lambda>path.
     io_then (command_for_desktop_entry h path) (\<lambda>launch.
       launch_with_systemd h (app_unit session_id) (dl_command launch @ [uri]) (dl_working_directory launch))))"

section \<open>Heroic games\<close>

definition HEROIC_UNIT_NAME :: string where "HEROIC_UNIT_NAME = ''hearthdeck-heroic.service''"

definition valid_heroic_application_id :: "string \<Rightarrow> bool" where
  "valid_heroic_application_id v \<longleftrightarrow>
     v \<noteq> [] \<and> length v \<le> 256 \<and> list_all (\<lambda>c. is_ascii_alphanumeric c \<or> c \<in> set ''._-'') v"

fun runner_str :: "heroic_runner \<Rightarrow> string" where
  "runner_str Legendary = ''legendary''"
| "runner_str Gog = ''gog''"

definition heroic_uri :: "heroic_runner \<Rightarrow> string \<Rightarrow> string" where
  "heroic_uri runner application_id =
     ''heroic://launch?appName='' @ application_id @ ''&runner='' @ runner_str runner @ ''&gui=false''"

definition launch_heroic_game ::
  "'w bridge_host \<Rightarrow> heroic_runner \<Rightarrow> string \<Rightarrow> (string option, 'w) io" where
  "launch_heroic_game h runner application_id =
     io_then (io_ensure (valid_heroic_application_id application_id)
       ''Heroic application identifier is invalid'') (\<lambda>_.
     io_then (application_is_running h (Some HEROIC_UNIT_NAME)) (\<lambda>running.
       let command = [''heroic'', ''--no-gui'', heroic_uri runner application_id] in
       if running then
         io_then (io_context ''could not ask the running Heroic instance to launch the game''
           (spawn h command)) (\<lambda>_. io_ok (Some HEROIC_UNIT_NAME))
       else launch_with_systemd h HEROIC_UNIT_NAME command None))"

section \<open>Core packages\<close>

definition installable :: "string \<Rightarrow> bool" where
  "installable package \<longleftrightarrow>
     (let name = (case strip_prefix ''libretro-'' package of None \<Rightarrow> [] | Some n \<Rightarrow> n) in
      name \<noteq> [] \<and> length name \<le> 64
      \<and> list_all (\<lambda>c. is_ascii_lowercase c \<or> is_ascii_digit c \<or> c = CHR ''-'') name)"

definition validate_install_packages :: "string list \<Rightarrow> string + string list" where
  "validate_install_packages packages =
     (if packages = [] then Inl ''no core packages to install''
      else case find (\<lambda>p. \<not> installable p) packages of
        Some p \<Rightarrow> Inl (p @ '' is not an installable core package name'')
      | None \<Rightarrow> Inr packages)"

text \<open>The line of the helper's output that decides a package: installed, or the reason why not.\<close>

definition line_outcome :: "string \<Rightarrow> string \<Rightarrow> (string option) option" where
  "line_outcome package line =
     (case strip_prefix ''ok '' line of
        Some rest \<Rightarrow> if trim rest = package then Some None else None
      | None \<Rightarrow>
          (case strip_prefix ''fail '' line of
             None \<Rightarrow> None
           | Some rest \<Rightarrow>
               (case split_once (CHR '' '') (trim rest) of
                  Some (name, reason) \<Rightarrow> if name = package then Some (Some (trim reason)) else None
                | None \<Rightarrow> None)))"

fun find_map :: "('a \<Rightarrow> 'b option) \<Rightarrow> 'a list \<Rightarrow> 'b option" where
  "find_map f [] = None"
| "find_map f (x # xs) = (case f x of None \<Rightarrow> find_map f xs | Some b \<Rightarrow> Some b)"

fun report_package ::
  "string \<Rightarrow> string \<Rightarrow> retro_core_install_report \<Rightarrow> retro_core_install_report" where
  "report_package output package r =
     (case find_map (line_outcome package) (str_lines output) of
        Some None \<Rightarrow> r\<lparr>cr_installed := cr_installed r @ [package]\<rparr>
      | Some (Some reason) \<Rightarrow>
          r\<lparr>cr_failed := cr_failed r @ [\<lparr>cf_package = package, cf_reason = reason\<rparr>]\<rparr>
      | None \<Rightarrow>
          r\<lparr>cr_failed := cr_failed r @ [\<lparr>cf_package = package,
             cf_reason = ''the helper reported nothing for this package''\<rparr>]\<rparr>)"

definition parse_helper_report :: "string \<Rightarrow> string list \<Rightarrow> retro_core_install_report" where
  "parse_helper_report output requested =
     fold (report_package output) requested \<lparr>cr_installed = [], cr_failed = []\<rparr>"

definition INSTALL_HELPER :: string where
  "INSTALL_HELPER = ''/usr/lib/hearthdeck/hearthdeck-install-cores''"

text \<open>\<open>pkexec\<close> runs the helper with its arguments: an exit status and its output.\<close>

definition install_cores ::
  "(string list \<Rightarrow> (bool \<times> string, 'w) io) \<Rightarrow> string list \<Rightarrow> (retro_core_install_report, 'w) io" where
  "install_cores pkexec packages =
     io_then (io_context ''could not run the core install helper'' (pkexec (INSTALL_HELPER # packages)))
       (\<lambda>(success, stdout).
          io_then (io_ensure (success \<or> trim stdout \<noteq> []) ''the core install helper was refused or did not run'')
            (\<lambda>_. io_ok (parse_helper_report stdout packages)))"

section \<open>What is built cannot be bent\<close>

lemma digit_not: "is_ascii_digit c \<Longrightarrow> c \<noteq> CHR ''/'' \<and> c \<noteq> CHR '':''"
proof -
  have "\<not> is_ascii_digit (CHR ''/'')" "\<not> is_ascii_digit (CHR '':'')" by code_simp+
  then show "is_ascii_digit c \<Longrightarrow> c \<noteq> CHR ''/'' \<and> c \<noteq> CHR '':''" by auto
qed

lemma imdb_no_slash: "is_imdb_id b \<Longrightarrow> CHR ''/'' \<notin> set b"
  using digit_not by (auto simp: is_imdb_id_def list_all_iff split: option.splits)

lemma small_no_slash: "is_small_number b \<Longrightarrow> CHR ''/'' \<notin> set b"
  using digit_not by (auto simp: is_small_number_def list_all_iff)

lemma last_segment: "CHR ''/'' \<notin> set s \<Longrightarrow> last (split (CHR ''/'') (p @ CHR ''/'' # s)) = s"
  by (simp add: split_append_gen split_clean)

text \<open>
  A Stremio launch opens the page of the very title that was asked for: the last segment of
  the \<^verbatim>\<open>stremio://\<close> URI is the video id itself, so two different ids never open the same page,
  and no id can add a segment of its own.
\<close>

theorem stremio_uri_names_the_title:
  assumes "stremio_detail_uri video_id media_type = Inr uri"
  shows "last (split (CHR ''/'') uri) = video_id
    \<and> (\<exists>kind. uri = ''stremio:///detail/'' @ kind @ ''/'' @ video_id
        \<or> uri = ''stremio:///detail/'' @ kind @ ''/'' @ hd (split (CHR '':'') video_id) @ ''/'' @ video_id)"
proof -
  obtain base rest where parts: "split (CHR '':'') video_id = base # rest"
    using split_nonempty[of "CHR '':''" video_id] by (cases "split (CHR '':'') video_id") auto
  have video: "video_id = join (CHR '':'') (base # rest)" using join_split[of "CHR '':''" video_id] parts by simp
  have base: "is_imdb_id base" using assms by (auto simp: stremio_detail_uri_def parts Let_def split: if_splits)
  consider "rest = []" | season episode where "rest = [season, episode]"
    using assms by (auto simp: stremio_detail_uri_def parts Let_def split: if_splits list.splits)
  then show ?thesis
  proof cases
    case 1
    then have v: "video_id = base" using video by simp
    have "uri = (''stremio:///detail/'' @ StremioMediaType_as_str media_type) @ CHR ''/'' # base"
      using 1 assms base by (simp add: stremio_detail_uri_def parts Let_def)
    then have uri: "uri = (''stremio:///detail/'' @ StremioMediaType_as_str media_type) @ CHR ''/'' # video_id"
      unfolding v .
    have "last (split (CHR ''/'') uri) = video_id"
      unfolding uri by (rule last_segment) (simp add: v imdb_no_slash base)
    then show ?thesis using uri by auto
  next
    case (2 season episode)
    then have nums: "is_small_number season" "is_small_number episode"
      and "uri = (''stremio:///detail/series/'' @ base) @ CHR ''/'' # base @ CHR '':'' # season @ CHR '':'' # episode"
      using assms base by (auto simp: stremio_detail_uri_def parts Let_def split: if_splits)
    then have uri: "uri = (''stremio:///detail/series/'' @ base) @ CHR ''/'' # video_id"
      using 2 video by simp
    have "CHR ''/'' \<notin> set video_id"
      using 2 video imdb_no_slash[OF base] small_no_slash nums by auto
    then have "last (split (CHR ''/'') uri) = video_id" unfolding uri by (rule last_segment)
    moreover have "uri = ''stremio:///detail/'' @ ''series'' @ ''/'' @ hd (split (CHR '':'') video_id) @ ''/'' @ video_id"
      using uri parts by simp
    ultimately show ?thesis by blast
  qed
qed

theorem stremio_uri_names_the_title_witness:
  "stremio_detail_uri ''tt0149460:4:7'' Movie = Inr ''stremio:///detail/series/tt0149460/tt0149460:4:7''
   \<and> last (split (CHR ''/'') ''stremio:///detail/series/tt0149460/tt0149460:4:7'') = ''tt0149460:4:7''"
proof -
  have uri: "stremio_detail_uri ''tt0149460:4:7'' Movie = Inr ''stremio:///detail/series/tt0149460/tt0149460:4:7''"
    by code_simp
  from stremio_uri_names_the_title[OF uri] uri show ?thesis by blast
qed

text \<open>The query of a Heroic URI has exactly the three parameters of the bridge.\<close>

lemma heroic_query:
  assumes "valid_heroic_application_id a"
  shows "split (CHR ''&'') (heroic_uri r a)
    = [''heroic://launch?appName='' @ a, ''runner='' @ runner_str r, ''gui=false'']"
proof -
  have "\<not> is_ascii_alphanumeric (CHR ''&'')" by code_simp
  then have a: "CHR ''&'' \<notin> set (''heroic://launch?appName='' @ a)" "CHR ''&'' \<notin> set (''runner='' @ runner_str r)"
    using assms by (cases r; auto simp: valid_heroic_application_id_def list_all_iff)+
  have "heroic_uri r a = (''heroic://launch?appName='' @ a) @ CHR ''&'' # (''runner='' @ runner_str r) @ CHR ''&'' # ''gui=false''"
    by (simp add: heroic_uri_def)
  then show ?thesis using split_append[OF a(1)] split_append[OF a(2)] by simp
qed

text \<open>Every requested package is accounted for, once, in the report, and only those.\<close>

lemma report_accounts:
  "mset (cr_installed (fold (report_package out) ps r) @ map cf_package (cr_failed (fold (report_package out) ps r)))
     = mset (cr_installed r @ map cf_package (cr_failed r)) + mset ps"
  by (induction ps arbitrary: r) (auto split: option.splits)

lemma validated_packages: "validate_install_packages ps = Inr qs \<longleftrightarrow> qs = ps \<and> ps \<noteq> [] \<and> list_all installable ps"
  by (auto simp: validate_install_packages_def list_all_iff find_None_iff split: option.splits dest: find_Some_set)

end
