(* ===== verification/Bridge_Retro.thy ===== *)
theory Bridge_Retro
  imports Bridge_Desktop
begin

text \<open>
  RetroArch launches of the bridge, \<^verbatim>\<open>hearthdeck-bridge/src/retroarch.rs\<close> and
  \<^verbatim>\<open>retroarch/profiles.rs\<close>, with the path derivations of
  \<^verbatim>\<open>hearthdeck-protocol/src/paths.rs\<close>: the validation of the core and ROM paths, the seeding of
  controller profiles, the managed configuration and the per-game save tree. The bundled
  profiles are generated at build time and are an argument.
\<close>

section \<open>Path derivations\<close>

definition DEFAULT_ROMM_DATA_ROOT :: string where
  "DEFAULT_ROMM_DATA_ROOT = ''/mnt/external/romM''"

definition DEFAULT_ROMM_COMPOSE_FILE :: string where
  "DEFAULT_ROMM_COMPOSE_FILE = ''/mnt/external/romM/podman-compose.yaml''"

definition RETRO_SAVE_ROOT_ENV :: string where
  "RETRO_SAVE_ROOT_ENV = ''HEARTHDECK_RETRO_SAVE_ROOT''"

abbreviation nonempty :: "string option \<Rightarrow> string option" where
  "nonempty \<equiv> option_filter (\<lambda>s. s \<noteq> [])"

definition or_else :: "'a option \<Rightarrow> 'a \<Rightarrow> 'a" where
  "or_else x d = (case x of None \<Rightarrow> d | Some a \<Rightarrow> a)"

definition romm_data_root :: "string option \<Rightarrow> string" where
  "romm_data_root compose_file =
     or_else (nonempty (case compose_file of None \<Rightarrow> None | Some f \<Rightarrow> path_parent f)) DEFAULT_ROMM_DATA_ROOT"

definition retro_save_root_from :: "string option \<Rightarrow> string option \<Rightarrow> string option \<Rightarrow> string" where
  "retro_save_root_from configured data_home home =
     (case nonempty configured of
        Some c \<Rightarrow> c
      | None \<Rightarrow> path_join (or_else (xdg_data_home_from data_home home) ''.local/share'')
                 ''hearthdeck/retroarch'')"

definition retro_save_root :: "'w bridge_host \<Rightarrow> string" where
  "retro_save_root h =
     retro_save_root_from (environment h RETRO_SAVE_ROOT_ENV) (environment h ''XDG_DATA_HOME'')
       (environment h ''HOME'')"

definition retro_system_dir :: "string \<Rightarrow> string" where
  "retro_system_dir save_root = path_join save_root ''system''"

definition retro_cores_dir :: "string \<Rightarrow> string" where
  "retro_cores_dir save_root = path_join save_root ''cores''"

definition retro_config_directory :: "'w bridge_host \<Rightarrow> string" where
  "retro_config_directory h =
     path_join
       (or_else (case nonempty (environment h ''XDG_CONFIG_HOME'') of
                   Some c \<Rightarrow> Some c
                 | None \<Rightarrow> map_option (\<lambda>p. path_join p ''.config'') (environment h ''HOME''))
          ''.config'')
       ''hearthdeck/retroarch''"

definition retro_rom_library_root :: "'w bridge_host \<Rightarrow> string" where
  "retro_rom_library_root h =
     (case nonempty (environment h ''HEARTHDECK_ROMM_LIBRARY_ROOT'') of
        Some d \<Rightarrow> d
      | None \<Rightarrow>
          path_join
            (romm_data_root (Some (or_else (nonempty (environment h ''ROMM_COMPOSE_FILE''))
               DEFAULT_ROMM_COMPOSE_FILE)))
            ''library'')"

section \<open>What may be launched\<close>

definition RETRO_CORE_DIRECTORIES :: "string list" where
  "RETRO_CORE_DIRECTORIES = [''/usr/lib/libretro'']"

definition validate_retro_core_path_in ::
  "'w bridge_host \<Rightarrow> string \<Rightarrow> string list \<Rightarrow> 'w \<Rightarrow> string + string" where
  "validate_retro_core_path_in h core_path allowed w =
     (if \<not> is_absolute core_path then Inl ''retro core path must be absolute''
      else case canonicalize h core_path w of
        None \<Rightarrow> Inl ''retro core does not exist''
      | Some canonical \<Rightarrow>
          if path_extension canonical \<noteq> Some ''so'' then Inl ''retro core must be a shared library''
          else if \<not> (\<exists>dir\<in>set allowed. case canonicalize h dir w of
                    None \<Rightarrow> False | Some d \<Rightarrow> path_starts_with d canonical)
          then Inl ''retro core is not in an allowlisted cores directory''
          else Inr canonical)"

definition validate_retro_core_path :: "'w bridge_host \<Rightarrow> string \<Rightarrow> 'w \<Rightarrow> string + string" where
  "validate_retro_core_path h core_path w =
     validate_retro_core_path_in h core_path
       (RETRO_CORE_DIRECTORIES @ [retro_cores_dir (retro_save_root h)]) w"

definition validate_retro_rom_path_in ::
  "'w bridge_host \<Rightarrow> string \<Rightarrow> string \<Rightarrow> 'w \<Rightarrow> string + string" where
  "validate_retro_rom_path_in h rom_path cache_root w =
     (if \<not> is_absolute rom_path then Inl ''rom path must be absolute''
      else case canonicalize h rom_path w of
        None \<Rightarrow> Inl ''cached rom does not exist''
      | Some canonical \<Rightarrow>
          if \<not> path_starts_with cache_root canonical
          then Inl ''rom path is not inside the Hearthdeck rom cache'' else Inr canonical)"

definition validate_retro_rom_path :: "'w bridge_host \<Rightarrow> string \<Rightarrow> 'w \<Rightarrow> string + string" where
  "validate_retro_rom_path h rom_path w =
     (case canonicalize h (retro_rom_library_root h) w of
        None \<Rightarrow> Inl ''RomM library directory does not exist''
      | Some library_root \<Rightarrow> validate_retro_rom_path_in h rom_path library_root w)"

section \<open>Shaders\<close>

definition RETRO_SHADER_DIRECTORY :: string where
  "RETRO_SHADER_DIRECTORY = ''/usr/share/libretro/shaders/shaders_slang''"

definition SHADER_PRESET_BY_CORE :: "(string \<times> string) list" where
  "SHADER_PRESET_BY_CORE =
     map (\<lambda>core. (core @ ''_libretro.so'', ''crt/crt-guest-advanced.slangp''))
       [''fceumm'', ''snes9x'', ''genesis_plus_gx'', ''picodrive'', ''mednafen_psx'',
        ''mupen64plus_next'', ''parallel_n64'', ''mednafen_pce_fast'', ''mednafen_supergrafx'',
        ''kronos'', ''mame'']
     @ map (\<lambda>core. (core @ ''_libretro.so'', ''handheld/lcd-grid-v2.slangp''))
       [''mgba'', ''gambatte'', ''desmume'', ''melonds'', ''ppsspp'']"

definition shader_preset_for_core_in ::
  "'w bridge_host \<Rightarrow> string \<Rightarrow> string \<Rightarrow> 'w \<Rightarrow> string option" where
  "shader_preset_for_core_in h core_path shader_directory w =
     (case file_name core_path of
        None \<Rightarrow> None
      | Some core_filename \<Rightarrow>
          (case map_of SHADER_PRESET_BY_CORE core_filename of
             None \<Rightarrow> None
           | Some preset \<Rightarrow>
               option_filter (\<lambda>p. is_file h p w) (Some (path_join shader_directory preset))))"

definition shader_preset_for_core :: "'w bridge_host \<Rightarrow> string \<Rightarrow> 'w \<Rightarrow> string option" where
  "shader_preset_for_core h core_path w =
     shader_preset_for_core_in h core_path RETRO_SHADER_DIRECTORY w"

section \<open>Controller profiles\<close>

definition LF :: char where "LF = CHR 0x0A"

definition MENU_TOGGLE_KEY :: string where "MENU_TOGGLE_KEY = ''input_menu_toggle_btn''"

definition setting :: "string \<Rightarrow> string \<Rightarrow> string" where
  "setting key v = key @ '' = '' @ [CHR 0x22] @ v @ [CHR 0x22]"

definition unbind_line :: "string \<Rightarrow> string" where
  "unbind_line line =
     (case split_once (CHR ''='') line of
        None \<Rightarrow> line
      | Some (key, _) \<Rightarrow> if trim key = MENU_TOGGLE_KEY then setting MENU_TOGGLE_KEY ''nul'' else line)"

definition without_menu_toggle_binding :: "string \<Rightarrow> string" where
  "without_menu_toggle_binding contents =
     (if \<not> contains MENU_TOGGLE_KEY contents then contents
      else join LF (map unbind_line (split LF contents)))"

text \<open>One bundled profile, and the loop over all of them; the result counts the files written.\<close>

definition seed_profile ::
  "'w bridge_host \<Rightarrow> string \<Rightarrow> string \<times> string \<Rightarrow> nat \<Rightarrow> (nat, 'w) io" where
  "seed_profile h directory entry seeded w =
     (case entry of (name, contents) \<Rightarrow>
      let unbound = without_menu_toggle_binding contents;
          path = path_join directory name in
      case read_file h path w of
        Inl (OtherFileError _) \<Rightarrow> (Inr seeded, w)
      | r \<Rightarrow>
          let existing = (case r of Inl _ \<Rightarrow> None | Inr e \<Rightarrow> Some e);
              hearthdecks = (case existing of None \<Rightarrow> True | Some e \<Rightarrow> e = contents \<or> e = unbound) in
          if \<not> hearthdecks \<or> existing = Some unbound then (Inr seeded, w)
          else io_then (io_context (''could not write bundled RetroArch autoconfig profile '' @ name)
                  (write_file h path unbound))
                (\<lambda>_. io_ok (seeded + 1)) w)"

fun seed_retroarch_profiles ::
  "'w bridge_host \<Rightarrow> (string \<times> string) list \<Rightarrow> string \<Rightarrow> nat \<Rightarrow> (nat, 'w) io" where
  "seed_retroarch_profiles h [] directory seeded = io_ok seeded"
| "seed_retroarch_profiles h (p # ps) directory seeded =
     io_then (seed_profile h directory p seeded) (seed_retroarch_profiles h ps directory)"

section \<open>Saves\<close>

definition sanitize_byte :: "char \<Rightarrow> char" where
  "sanitize_byte c =
     (if c = CHR 0x22 \<or> c = CHR 0x5C then CHR ''_''
      else if c \<le> CHR 0x1F \<or> c = CHR 0x7F then CHR ''_'' else c)"

definition save_folder_name :: "string \<Rightarrow> string" where
  "save_folder_name rom_path = map sanitize_byte (or_else (nonempty (file_stem rom_path)) ''game'')"

record retro_save_directories =
  saves :: string
  states :: string

definition RetroSaveDirectories_for_rom :: "string \<Rightarrow> string \<Rightarrow> retro_save_directories" where
  "RetroSaveDirectories_for_rom save_root rom_path =
     \<lparr>saves = path_join (path_join save_root ''saves'') (save_folder_name rom_path),
      states = path_join (path_join save_root ''states'') (save_folder_name rom_path)\<rparr>"

definition create_save_directories ::
  "'w bridge_host \<Rightarrow> string \<Rightarrow> string \<Rightarrow> (retro_save_directories, 'w) io" where
  "create_save_directories h save_root rom_path =
     (let directories = RetroSaveDirectories_for_rom save_root rom_path in
      io_then (io_context ''could not create this game's RetroArch save directory''
        (create_dir_all h (saves directories))) (\<lambda>_.
      io_then (io_context ''could not create this game's RetroArch save-state directory''
        (create_dir_all h (states directories))) (\<lambda>_. io_ok directories)))"

section \<open>The managed configuration\<close>

definition managed_settings ::
  "string \<Rightarrow> retro_save_directories \<Rightarrow> string \<Rightarrow> string option \<Rightarrow> (string \<times> string) list" where
  "managed_settings autoconfig_directory save_directories system_directory shader_preset =
     [(''video_fullscreen'', ''true''), (''video_windowed_fullscreen'', ''false''),
      (''video_fullscreen_x'', ''0''), (''video_fullscreen_y'', ''0''),
      (''gamemode_enable'', ''true''), (''input_player1_joypad_index'', ''0''),
      (''input_autodetect_enable'', ''true''), (''input_joypad_driver'', ''udev''),
      (''input_menu_toggle_btn'', ''nul''), (''input_menu_toggle_gamepad_combo'', ''4''),
      (''joypad_autoconfig_dir'', autoconfig_directory),
      (''system_directory'', system_directory),
      (''savefile_directory'', saves save_directories),
      (''savestate_directory'', states save_directories),
      (''savefiles_in_content_dir'', ''false''), (''savestates_in_content_dir'', ''false''),
      (''sort_savefiles_enable'', ''false''), (''sort_savefiles_by_content_enable'', ''false''),
      (''sort_savestates_enable'', ''false''), (''sort_savestates_by_content_enable'', ''false'')]
     @ (case shader_preset of
          None \<Rightarrow> []
        | Some preset \<Rightarrow> [(''video_shader_enable'', ''true''), (''video_shader'', preset),
                          (''video_shader_dir'', RETRO_SHADER_DIRECTORY)])"

definition retroarch_managed_config ::
  "string \<Rightarrow> retro_save_directories \<Rightarrow> string \<Rightarrow> string option \<Rightarrow> string" where
  "retroarch_managed_config autoconfig_directory save_directories system_directory shader_preset =
     concat (map (\<lambda>(key, v). setting key v @ [LF])
       (managed_settings autoconfig_directory save_directories system_directory shader_preset))"

definition retroarch_command_args :: "string \<Rightarrow> string \<Rightarrow> string \<Rightarrow> string \<Rightarrow> string list" where
  "retroarch_command_args config_path managed_path core_path rom_path =
     [''retroarch'', ''-c'', config_path, ''--appendconfig'', managed_path, ''-L'', core_path, rom_path]"

definition launch_retro_game ::
  "'w bridge_host \<Rightarrow> (string \<times> string) list \<Rightarrow> string \<Rightarrow> string \<Rightarrow> string \<Rightarrow> (string option, 'w) io" where
  "launch_retro_game h profiles core rom session_id =
     io_then (\<lambda>w. (validate_retro_core_path h core w, w)) (\<lambda>core_path.
     io_then (\<lambda>w. (validate_retro_rom_path h rom w, w)) (\<lambda>rom_path.
     io_then (\<lambda>w. (Inr (shader_preset_for_core h core_path w), w)) (\<lambda>shader_preset.
     let config_directory = retro_config_directory h;
         save_root = retro_save_root h;
         system_directory = retro_system_dir save_root;
         config_path = path_join config_directory ''retroarch.cfg'';
         managed_path = path_join config_directory ''retroarch.launch.cfg'';
         autoconfig_directory = path_join config_directory ''autoconfig'';
         udev = path_join autoconfig_directory ''udev'' in
     io_then (io_context ''could not create Hearthdeck's RetroArch config directory''
       (create_dir_all h config_directory)) (\<lambda>_.
     io_then (create_save_directories h save_root rom_path) (\<lambda>save_directories.
     io_then (io_context ''could not create the RetroArch system directory''
       (create_dir_all h system_directory)) (\<lambda>_.
     io_then (io_context ''could not create Hearthdeck's RetroArch autoconfig directory''
       (create_dir_all h udev)) (\<lambda>_.
     io_then (io_context ''could not seed Hearthdeck's RetroArch autoconfig profiles''
       (seed_retroarch_profiles h profiles udev 0)) (\<lambda>_.
     io_then (io_context ''could not write Hearthdeck's managed RetroArch config''
       (write_file h managed_path (retroarch_managed_config autoconfig_directory save_directories
          system_directory shader_preset))) (\<lambda>_.
       launch_with_systemd h (app_unit session_id)
         (retroarch_command_args config_path managed_path core_path rom_path) None)))))))))"

section \<open>The configuration says what was meant\<close>

definition clean :: "string \<Rightarrow> bool" where
  "clean s \<longleftrightarrow> CHR 0x22 \<notin> set s \<and> LF \<notin> set s"

lemma clean_join: "clean a \<Longrightarrow> clean b \<Longrightarrow> clean (path_join a b)"
  by (auto simp: clean_def path_join_def LF_def)

lemma sanitize_clean: "sanitize_byte c \<noteq> CHR 0x22 \<and> sanitize_byte c \<noteq> LF"
proof -
  have "LF \<le> CHR 0x1F" by code_simp
  then show ?thesis by (auto simp: sanitize_byte_def LF_def)
qed

lemma clean_save_folder: "clean (save_folder_name rom)"
  using sanitize_clean by (auto simp: clean_def save_folder_name_def) (metis sanitize_clean)+

lemma clean_saves:
  assumes "clean root"
  shows "clean (saves (RetroSaveDirectories_for_rom root rom))"
    and "clean (states (RetroSaveDirectories_for_rom root rom))"
  using assms clean_save_folder[of rom]
  by (auto simp: RetroSaveDirectories_for_rom_def intro!: clean_join) (simp_all add: clean_def LF_def)

lemma split_concat_lines:
  "\<forall>l\<in>set ls. LF \<notin> set l \<Longrightarrow> split LF (concat (map (\<lambda>l. l @ [LF]) ls)) = ls @ [[]]"
  by (induction ls) (simp_all add: split_append)

lemma concat_lines: "concat (map (\<lambda>(key, v). setting key v @ [LF]) kvs)
    = concat (map (\<lambda>l. l @ [LF]) (map (\<lambda>(key, v). setting key v) kvs))"
  by (induction kvs) auto

lemma setting_no_LF: "clean v \<Longrightarrow> LF \<notin> set key \<Longrightarrow> LF \<notin> set (setting key v)"
  by (auto simp: setting_def clean_def LF_def)

lemma managed_keys_clean:
  "(key, v) \<in> set (managed_settings a d s p) \<Longrightarrow> LF \<notin> set key"
  by (auto simp: managed_settings_def LF_def split: option.splits)

text \<open>
  C21: whatever name the ROM has, quotes, backslashes and line breaks included, the managed
  configuration holds exactly the intended settings, one per line, with the value between quotes
  free of quotes: no ROM name can end a value early or add a setting of its own.
\<close>

theorem managed_config_not_injectable:
  fixes rom :: string
  assumes "clean autoconfig" and "clean save_root" and "clean system"
    and "case preset of None \<Rightarrow> True | Some p \<Rightarrow> clean p"
  defines "settings \<equiv> managed_settings autoconfig (RetroSaveDirectories_for_rom save_root rom) system preset"
  shows "split LF (retroarch_managed_config autoconfig (RetroSaveDirectories_for_rom save_root rom) system preset)
      = map (\<lambda>(key, v). setting key v) settings @ [[]]
    \<and> list_all (\<lambda>(key, v). clean v) settings"
proof -
  have clean: "clean v" if "(key, v) \<in> set settings" for key v
    using that assms(1-4) clean_saves[OF assms(2), of rom]
    by (auto simp: settings_def managed_settings_def split: option.splits)
       (simp_all add: clean_def LF_def RETRO_SHADER_DIRECTORY_def)
  have "\<forall>l\<in>set (map (\<lambda>(key, v). setting key v) settings). LF \<notin> set l"
    using clean managed_keys_clean setting_no_LF unfolding settings_def by fastforce
  then have "split LF (concat (map (\<lambda>l. l @ [LF]) (map (\<lambda>(key, v). setting key v) settings)))
      = map (\<lambda>(key, v). setting key v) settings @ [[]]"
    by (rule split_concat_lines)
  moreover have "list_all (\<lambda>(key, v). clean v) settings" using clean by (auto simp: list_all_iff)
  ultimately show ?thesis
    unfolding retroarch_managed_config_def concat_lines settings_def[symmetric] by blast
qed

theorem managed_config_not_injectable_witness:
  "let rom = ''/library/roms/x'' @ [CHR 0x22, LF] @ ''video_shader = evil.sfc'';
       dirs = RetroSaveDirectories_for_rom ''/data'' rom in
     saves dirs = ''/data/saves/x__video_shader = evil''
     \<and> length (split LF (retroarch_managed_config ''/cfg/autoconfig'' dirs ''/data/system'' None)) = 21"
proof -
  have "saves (RetroSaveDirectories_for_rom ''/data'' (''/library/roms/x'' @ [CHR 0x22, LF] @ ''video_shader = evil.sfc''))
      = ''/data/saves/x__video_shader = evil''"
    by code_simp
  then show ?thesis
    using managed_config_not_injectable[of "''/cfg/autoconfig''" "''/data''" "''/data/system''" None
        "''/library/roms/x'' @ [CHR 0x22, LF] @ ''video_shader = evil.sfc''"]
    by (simp add: clean_def LF_def Let_def managed_settings_def)
qed

section \<open>The Guide button stays unbound\<close>

definition binds_toggle :: "string \<Rightarrow> bool" where
  "binds_toggle line \<longleftrightarrow>
     (case split_once (CHR ''='') line of None \<Rightarrow> False | Some (key, _) \<Rightarrow> trim key = MENU_TOGGLE_KEY)"

lemma toggle_line_contains: "binds_toggle line \<Longrightarrow> contains MENU_TOGGLE_KEY line"
proof -
  assume "binds_toggle line"
  then obtain key v where "split_once (CHR ''='') line = Some (key, v)" "trim key = MENU_TOGGLE_KEY"
    by (auto simp: binds_toggle_def split: option.splits)
  then have line: "line = key @ CHR ''='' # v" and "\<exists>a b. key = a @ MENU_TOGGLE_KEY @ b"
    using trim_infix[of key] by (simp_all add: split_once_Some)
  then have "contains MENU_TOGGLE_KEY key" by (simp add: contains_iff)
  then show ?thesis using contains_mono[of _ key "[]"] line by simp
qed

lemma unbind_line_clean: "LF \<notin> set l \<Longrightarrow> LF \<notin> set (unbind_line l)"
  by (auto simp: unbind_line_def setting_def MENU_TOGGLE_KEY_def LF_def split: option.splits if_splits)

lemma split_join: "ls \<noteq> [] \<Longrightarrow> \<forall>l\<in>set ls. d \<notin> set l \<Longrightarrow> split d (join d ls) = ls"
proof (induction ls)
  case (Cons l ls)
  then show ?case by (cases ls) (simp_all add: split_clean split_append)
qed simp

lemma unbound_lines:
  "split LF (without_menu_toggle_binding contents) = map unbind_line (split LF contents)"
proof (cases "contains MENU_TOGGLE_KEY contents")
  case True
  have "\<forall>l\<in>set (map unbind_line (split LF contents)). LF \<notin> set l"
    using split_pieces[of _ LF contents] unbind_line_clean by auto
  with True show ?thesis by (simp add: without_menu_toggle_binding_def split_join)
next
  case False
  have "unbind_line l = l" if "l \<in> set (split LF contents)" for l
    using that False toggle_line_contains[of l] contains_piece[OF that]
    by (auto simp: unbind_line_def binds_toggle_def split: option.splits)
  with False show ?thesis by (simp add: without_menu_toggle_binding_def map_idI)
qed

lemma unbind_setting: "unbind_line (setting MENU_TOGGLE_KEY ''nul'') = setting MENU_TOGGLE_KEY ''nul''"
  by code_simp

lemma unbind_line_alt:
  "unbind_line l = (if binds_toggle l then setting MENU_TOGGLE_KEY ''nul'' else l)"
  by (auto simp: unbind_line_def binds_toggle_def split: option.splits)

lemma unbind_idem: "unbind_line (unbind_line l) = unbind_line l"
  using unbind_setting by (simp add: unbind_line_alt)

lemma without_toggle_idem:
  "without_menu_toggle_binding (without_menu_toggle_binding c) = without_menu_toggle_binding c"
proof -
  have "split LF (without_menu_toggle_binding (without_menu_toggle_binding c))
      = split LF (without_menu_toggle_binding c)"
    by (simp add: unbound_lines unbind_idem)
  then show ?thesis by (metis join_split)
qed

section \<open>Seeding spares the user's profiles\<close>

text \<open>A file system that stores what is written: \<open>files\<close> is its content.\<close>

definition stores :: "'w bridge_host \<Rightarrow> ('w \<Rightarrow> string \<rightharpoonup> string) \<Rightarrow> bool" where
  "stores h files \<longleftrightarrow>
     (\<forall>p w. case files w p of None \<Rightarrow> \<exists>m. read_file h p w = Inl (FileNotFound m)
        | Some c \<Rightarrow> read_file h p w = Inr c)
     \<and> (\<forall>p c w. \<exists>w'. write_file h p c w = (Inr (), w') \<and> files w' = (files w)(p \<mapsto> c))"

lemma stores_None:
  assumes "stores h files" and "files w p = None"
  obtains m where "read_file h p w = Inl (FileNotFound m)"
proof -
  have "case files w p of None \<Rightarrow> \<exists>m. read_file h p w = Inl (FileNotFound m)
      | Some c \<Rightarrow> read_file h p w = Inr c"
    using assms(1) unfolding stores_def by blast
  then show ?thesis using that assms(2) by auto
qed

lemma stores_Some:
  assumes "stores h files" and "files w p = Some c"
  shows "read_file h p w = Inr c"
proof -
  have "case files w p of None \<Rightarrow> \<exists>m. read_file h p w = Inl (FileNotFound m)
      | Some c \<Rightarrow> read_file h p w = Inr c"
    using assms(1) unfolding stores_def by blast
  then show ?thesis using assms(2) by simp
qed

lemma stores_write:
  assumes "stores h files"
  obtains w' where "write_file h p c w = (Inr (), w')" "files w' = (files w)(p \<mapsto> c)"
  using assms unfolding stores_def by blast

abbreviation seeds :: "string \<Rightarrow> string option \<Rightarrow> bool" where
  "seeds c existing \<equiv> existing = None \<or> existing = Some c"

lemma seed_profile_step:
  fixes dir n :: string
  assumes "stores h files"
  defines "q \<equiv> path_join dir n"
  shows "\<exists>k' w'. seed_profile h dir (n, c) k w = (Inr k', w')
    \<and> files w' = (if seeds c (files w q) then (files w)(q \<mapsto> without_menu_toggle_binding c) else files w)
    \<and> (\<not> seeds c (files w q) \<or> files w q = Some (without_menu_toggle_binding c) \<longrightarrow> k' = k \<and> w' = w)"
proof (cases "files w q")
  case None
  obtain m where "read_file h q w = Inl (FileNotFound m)" by (rule stores_None[OF assms(1) None])
  moreover obtain w' where "write_file h q (without_menu_toggle_binding c) w = (Inr (), w')"
      "files w' = (files w)(q \<mapsto> without_menu_toggle_binding c)"
    by (rule stores_write[OF assms(1)])
  ultimately show ?thesis
    using None by (simp add: seed_profile_def q_def Let_def io_defs)
next
  case (Some e)
  then have "read_file h q w = Inr e" by (rule stores_Some[OF assms(1)])
  moreover obtain w' where "write_file h q (without_menu_toggle_binding c) w = (Inr (), w')"
      "files w' = (files w)(q \<mapsto> without_menu_toggle_binding c)"
    by (rule stores_write[OF assms(1)])
  ultimately show ?thesis
    using Some by (auto simp: seed_profile_def q_def Let_def io_defs)
qed

lemma path_join_inj: "plain_name a \<Longrightarrow> plain_name b \<Longrightarrow> path_join dir a = path_join dir b \<Longrightarrow> a = b"
  by (metis file_name_join option.inject)

text \<open>What a path holds after seeding.\<close>

definition after_seeding ::
  "string \<Rightarrow> (string \<times> string) list \<Rightarrow> (string \<rightharpoonup> string) \<Rightarrow> (string \<rightharpoonup> string) \<Rightarrow> bool" where
  "after_seeding dir profiles before after \<longleftrightarrow>
     (\<forall>n c. (n, c) \<in> set profiles \<longrightarrow> after (path_join dir n) =
        (if seeds c (before (path_join dir n)) then Some (without_menu_toggle_binding c)
         else before (path_join dir n)))
     \<and> (\<forall>p. p \<notin> (\<lambda>(n, c). path_join dir n) ` set profiles \<longrightarrow> after p = before p)"

lemma seed_all:
  assumes "stores h files" and "distinct (map fst profiles)" and "\<forall>(n, c)\<in>set profiles. plain_name n"
  shows "\<exists>k' w'. seed_retroarch_profiles h profiles dir k w = (Inr k', w')
    \<and> after_seeding dir profiles (files w) (files w')"
  using assms(2,3)
proof (induction profiles arbitrary: k w)
  case Nil
  then show ?case by (simp add: after_seeding_def)
next
  case (Cons pr profiles)
  obtain n c where pr: "pr = (n, c)" by force
  let ?q = "path_join dir n"
  from seed_profile_step[OF assms(1), of dir n c k w] obtain k1 w1 where
    one: "seed_profile h dir (n, c) k w = (Inr k1, w1)" and
    f1: "files w1 = (if seeds c (files w ?q) then (files w)(?q \<mapsto> without_menu_toggle_binding c) else files w)"
    by blast
  obtain k2 w2 where rest: "seed_retroarch_profiles h profiles dir k1 w1 = (Inr k2, w2)"
      "after_seeding dir profiles (files w1) (files w2)"
    using Cons.IH[of k1 w1] Cons.prems by auto
  have fresh: "?q \<notin> (\<lambda>(n, c). path_join dir n) ` set profiles"
  proof
    assume "?q \<in> (\<lambda>(n, c). path_join dir n) ` set profiles"
    then obtain m d where m: "(m, d) \<in> set profiles" "path_join dir n = path_join dir m" by auto
    then have "plain_name n" "plain_name m" using Cons.prems(2) by (auto simp: pr)
    then have "n = m" using m(2) by (rule path_join_inj)
    then show False using Cons.prems(1) m(1) by (force simp: pr)
  qed
  have other: "files w1 p = files w p" if "p \<noteq> ?q" for p using f1 that by simp
  have "after_seeding dir (pr # profiles) (files w) (files w2)"
    unfolding after_seeding_def
  proof (intro conjI allI impI)
    fix m d
    assume "(m, d) \<in> set (pr # profiles)"
    then consider "(m, d) = (n, c)" | "(m, d) \<in> set profiles" by (auto simp: pr)
    then show "files w2 (path_join dir m) = (if seeds d (files w (path_join dir m))
        then Some (without_menu_toggle_binding d) else files w (path_join dir m))"
    proof cases
      case 1
      then have "files w2 ?q = files w1 ?q" using rest(2) fresh by (simp add: after_seeding_def)
      with 1 f1 show ?thesis by simp
    next
      case 2
      then have "path_join dir m \<noteq> ?q" using fresh by (metis (no_types, lifting) case_prod_conv image_eqI)
      with 2 rest(2) other show ?thesis by (simp add: after_seeding_def)
    qed
  next
    fix p
    assume "p \<notin> (\<lambda>(n, c). path_join dir n) ` set (pr # profiles)"
    with rest(2) other show "files w2 p = files w p" by (simp add: pr after_seeding_def)
  qed
  with one rest(1) show ?case by (simp add: pr io_then_def)
qed

lemma seed_nothing:
  assumes "stores h files"
    and "\<forall>(n, c)\<in>set profiles. let e = files w (path_join dir n) in
      \<not> seeds c e \<or> e = Some (without_menu_toggle_binding c)"
  shows "seed_retroarch_profiles h profiles dir k w = (Inr k, w)"
  using assms(2)
proof (induction profiles)
  case (Cons pr profiles)
  obtain n c where pr: "pr = (n, c)" by force
  have "seed_profile h dir (n, c) k w = (Inr k, w)"
    using seed_profile_step[OF assms(1), of dir n c k w] Cons.prems by (auto simp: pr Let_def)
  with Cons show ?case by (simp add: pr io_then_def)
qed simp

text \<open>
  Seeding writes a bundled controller profile, with the Guide binding removed, exactly where
  the file is missing or still the verbatim shipped one; a profile the user changed and every
  other file stay as they are, and seeding again right after writes nothing.
\<close>

theorem seeding_spares_user_profiles:
  assumes "stores h files" and "distinct (map fst profiles)" and "\<forall>(n, c)\<in>set profiles. plain_name n"
  shows "\<exists>k w'. seed_retroarch_profiles h profiles dir 0 w = (Inr k, w')
    \<and> after_seeding dir profiles (files w) (files w')
    \<and> seed_retroarch_profiles h profiles dir 0 w' = (Inr 0, w')"
proof -
  obtain k w' where once: "seed_retroarch_profiles h profiles dir 0 w = (Inr k, w')"
      "after_seeding dir profiles (files w) (files w')"
    using seed_all[OF assms] by blast
  have "\<not> seeds c (files w' (path_join dir n)) \<or> files w' (path_join dir n) = Some (without_menu_toggle_binding c)"
    if "(n, c) \<in> set profiles" for n c
  proof -
    have "files w' (path_join dir n) = (if seeds c (files w (path_join dir n))
        then Some (without_menu_toggle_binding c) else files w (path_join dir n))"
      using once(2) that by (simp add: after_seeding_def)
    then show ?thesis by (cases "seeds c (files w (path_join dir n))") simp_all
  qed
  then have "\<forall>(n, c)\<in>set profiles. let e = files w' (path_join dir n) in
      \<not> seeds c e \<or> e = Some (without_menu_toggle_binding c)"
    by (auto simp: Let_def)
  with once seed_nothing[OF assms(1)] show ?thesis by blast
qed

definition map_fs :: "(string \<rightharpoonup> string) bridge_host" where
  "map_fs = \<lparr>systemctl_is_active = \<lambda>_. io_ok False, systemctl_stop = \<lambda>_. io_ok True,
     systemd_run = \<lambda>_. io_ok True, unit_main_pid = \<lambda>_ _. None, processes = \<lambda>_. [],
     cgroup_of = \<lambda>_ _. None, environment = \<lambda>_. None,
     read_file = \<lambda>p w. case w p of None \<Rightarrow> Inl (FileNotFound ''not found'') | Some c \<Rightarrow> Inr c,
     write_file = \<lambda>p c w. (Inr (), w(p \<mapsto> c)), create_dir_all = \<lambda>_. io_ok (),
     canonicalize = \<lambda>p _. Some p, list_dir = \<lambda>_ _. [],
     is_file = \<lambda>p w. w p \<noteq> None, is_executable = \<lambda>_ _. True, path_exists = \<lambda>_ _. False,
     input_socket_path = None, start_input_service = io_ok True, sleep_50ms = \<lambda>w. w,
     send_to_input = \<lambda>_. io_ok (), spawn = \<lambda>_. io_ok ()\<rparr>"

theorem seeding_spares_user_profiles_witness:
  "let pads = [(''a.cfg'', ''input_menu_toggle_btn = 8''), (''b.cfg'', ''input_a_btn = 0'')];
       w = [''/udev/b.cfg'' \<mapsto> ''mine''] in
     \<exists>k w'. seed_retroarch_profiles map_fs pads ''/udev'' 0 w = (Inr k, w')
       \<and> w' ''/udev/a.cfg'' = Some (setting MENU_TOGGLE_KEY ''nul'') \<and> w' ''/udev/b.cfg'' = Some ''mine''"
proof -
  let ?pads = "[(''a.cfg'', ''input_menu_toggle_btn = 8''), (''b.cfg'', ''input_a_btn = 0'')]"
  let ?w = "[''/udev/b.cfg'' \<mapsto> ''mine'']"
  have fs: "stores map_fs (\<lambda>w. w)"
    by (auto simp: stores_def map_fs_def split: option.splits)
  have paths: "path_join ''/udev'' ''a.cfg'' = ''/udev/a.cfg''" "path_join ''/udev'' ''b.cfg'' = ''/udev/b.cfg''"
    and unbound: "without_menu_toggle_binding ''input_menu_toggle_btn = 8'' = setting MENU_TOGGLE_KEY ''nul''"
    by code_simp+
  obtain k w' where "seed_retroarch_profiles map_fs ?pads ''/udev'' 0 ?w = (Inr k, w')"
      "after_seeding ''/udev'' ?pads ?w w'"
    using seeding_spares_user_profiles[OF fs, of ?pads "''/udev''" ?w] by (auto simp: plain_name_def)
  then show ?thesis
    unfolding Let_def using paths unbound by (auto simp: after_seeding_def)
qed

end
