(* ===== verification/Bridge_Sessions.thy ===== *)
theory Bridge_Sessions
  imports Bridge_Targets Bridge_Retro "HOL-Library.Product_Lexorder"
begin

text \<open>
  The session manager of the bridge, \<^verbatim>\<open>hearthdeck-bridge/src/main.rs\<close>: the requests of the daemon
  (\<^verbatim>\<open>handle_request\<close>), the launches and stops of managed sessions, and the records it keeps of
  them. Launches, stops and active-session queries hold \<^verbatim>\<open>session_transition\<close> for their whole
  handling, so a request is one step of the state: the session map and the host. The environment
  of a step holds the host's calls, the session directory's files, the order the hash map is
  iterated in, the bundled profiles and the package helper.
\<close>

record managed_session =
  ms_session :: application_session
  ms_unit_name :: "string option"
  ms_input_profile :: input_profile

record 'w bridge_env =
  host :: "'w bridge_host"
  session_directory :: string
  write_record :: "string \<Rightarrow> managed_session \<Rightarrow> (unit, 'w) io"
  restrict_permissions :: "string \<Rightarrow> (unit, 'w) io"
  remove_file :: "string \<Rightarrow> 'w \<Rightarrow> (fs_error + unit) \<times> 'w"
  modified_at :: "string \<Rightarrow> 'w \<Rightarrow> string + nat"
  session_order :: "(string \<rightharpoonup> managed_session) \<Rightarrow> string list"
  bundled_profiles :: "(string \<times> string) list"
  pkexec :: "string list \<Rightarrow> (bool \<times> string, 'w) io"
  shuffle :: "discovered_application list \<Rightarrow> discovered_application list"
  crate_version :: string

record 'w bridge_state =
  sessions :: "string \<rightharpoonup> managed_session"
  world :: 'w

definition HEROIC_SESSION_ID :: string where "HEROIC_SESSION_ID = ''heroic''"

section \<open>Session records\<close>

definition valid_session_id :: "string \<Rightarrow> bool" where
  "valid_session_id session_id \<longleftrightarrow>
     session_id \<noteq> [] \<and> length session_id \<le> 128
     \<and> list_all (\<lambda>c. is_ascii_alphanumeric c \<or> c = CHR ''-'') session_id"

definition managed_session_path :: "'w bridge_env \<Rightarrow> string \<Rightarrow> string + string" where
  "managed_session_path e session_id =
     (if \<not> valid_session_id session_id then Inl ''application session has an invalid identifier''
      else Inr (path_join (session_directory e) (session_id @ ''.json'')))"

definition save_managed_session :: "'w bridge_env \<Rightarrow> managed_session \<Rightarrow> (unit, 'w) io" where
  "save_managed_session e managed =
     io_then (io_lift (managed_session_path e (as_id (ms_session managed)))) (\<lambda>path.
     io_then (write_record e path managed) (\<lambda>_. restrict_permissions e path))"

definition remove_managed_session :: "'w bridge_env \<Rightarrow> string \<Rightarrow> (unit, 'w) io" where
  "remove_managed_session e session_id =
     io_then (io_lift (managed_session_path e session_id)) (\<lambda>path w.
       case remove_file e path w of
         (Inr _, w) \<Rightarrow> (Inr (), w)
       | (Inl (FileNotFound _), w) \<Rightarrow> (Inr (), w)
       | (Inl (OtherFileError m), w) \<Rightarrow> (Inl m, w))"

definition managed_session_modified_at :: "'w bridge_env \<Rightarrow> string \<Rightarrow> 'w \<Rightarrow> nat" where
  "managed_session_modified_at e session_id w =
     (case managed_session_path e session_id of
        Inl _ \<Rightarrow> 0
      | Inr path \<Rightarrow> (case modified_at e path w of Inl _ \<Rightarrow> 0 | Inr t \<Rightarrow> t))"

text \<open>The records found in the session directory at start: file names with what they decode to.\<close>

fun load_managed_sessions ::
  "(string \<times> managed_session option) list \<Rightarrow> (string \<rightharpoonup> managed_session) \<Rightarrow> (string \<rightharpoonup> managed_session)" where
  "load_managed_sessions [] loaded = loaded"
| "load_managed_sessions ((name, decoded) # entries) loaded =
     load_managed_sessions entries
       (if path_extension name \<noteq> Some ''json'' then loaded
        else case decoded of
          Some m \<Rightarrow> if valid_session_id (as_id (ms_session m))
                    then loaded(as_id (ms_session m) \<mapsto> m) else loaded
        | None \<Rightarrow> loaded)"

section \<open>The active session\<close>

type_synonym candidate = "string \<times> managed_session \<times> nat"

definition candidate_key :: "candidate \<Rightarrow> nat \<times> string" where
  "candidate_key c = (case c of (session_id, _, t) \<Rightarrow> (t, session_id))"

fun max_by_key :: "candidate \<Rightarrow> candidate list \<Rightarrow> candidate" where
  "max_by_key c [] = c"
| "max_by_key c (d # ds) = max_by_key (if candidate_key d < candidate_key c then c else d) ds"

definition select_active_session :: "candidate list \<Rightarrow> (string \<times> managed_session) option" where
  "select_active_session candidates =
     (case candidates of
        [] \<Rightarrow> None
      | c # cs \<Rightarrow> (case max_by_key c cs of (session_id, managed, _) \<Rightarrow> Some (session_id, managed)))"

definition forget_session :: "'w bridge_env \<Rightarrow> string \<Rightarrow> 'w bridge_state \<Rightarrow> 'w bridge_state" where
  "forget_session e session_id st =
     st\<lparr>sessions := (sessions st)(session_id := None),
        world := snd (remove_managed_session e session_id (world st))\<rparr>"

fun probe_sessions ::
  "'w bridge_env \<Rightarrow> (string \<times> managed_session) list \<Rightarrow> 'w bridge_state \<Rightarrow> candidate list \<times> 'w bridge_state" where
  "probe_sessions e [] st = ([], st)"
| "probe_sessions e ((session_id, managed) # rest) st =
     (case application_is_running (host e) (ms_unit_name managed) (world st) of
        (Inr False, w) \<Rightarrow> probe_sessions e rest (forget_session e session_id (st\<lparr>world := w\<rparr>))
      | (_, w) \<Rightarrow>
          let st = st\<lparr>world := w\<rparr>;
              t = managed_session_modified_at e session_id (world st);
              (found, st) = probe_sessions e rest st
          in ((session_id, managed, t) # found, st))"

definition session_candidates ::
  "'w bridge_env \<Rightarrow> (string \<rightharpoonup> managed_session) \<Rightarrow> (string \<times> managed_session) list" where
  "session_candidates e ss =
     concat (map (\<lambda>i. case ss i of None \<Rightarrow> [] | Some m \<Rightarrow> [(i, m)]) (session_order e ss))"

definition active_managed_session ::
  "'w bridge_env \<Rightarrow> 'w bridge_state \<Rightarrow> (string \<times> managed_session) option \<times> 'w bridge_state" where
  "active_managed_session e st =
     (case probe_sessions e (session_candidates e (sessions st)) st of
        (running, st) \<Rightarrow> (select_active_session running, st))"

section \<open>Input profile of the active session\<close>

definition sync_managed_input :: "'w bridge_env \<Rightarrow> managed_session option \<Rightarrow> (unit, 'w) io" where
  "sync_managed_input e managed =
     set_session_input_profile (host e)
       (case managed of None \<Rightarrow> input_profile.Native | Some m \<Rightarrow> ms_input_profile m)
       (case managed of None \<Rightarrow> False | Some m \<Rightarrow> as_source_id (ms_session m) = RETROARCH)
       (map_option (\<lambda>m. as_application_id (ms_session m)) managed)"

definition sync_input_profile :: "'w bridge_env \<Rightarrow> 'w bridge_state \<Rightarrow> 'w bridge_state" where
  "sync_input_profile e st =
     (case active_managed_session e st of (active, st) \<Rightarrow>
        st\<lparr>world := snd (sync_managed_input e (map_option snd active) (world st))\<rparr>)"

section \<open>Launching and stopping\<close>

definition should_replace_active_session :: "string \<Rightarrow> string \<Rightarrow> bool" where
  "should_replace_active_session new_source_id active_source_id \<longleftrightarrow>
     \<not> (new_source_id = HEROIC \<and> active_source_id = HEROIC)"

text \<open>An IO action on the host inside a handler.\<close>

definition on_world :: "('a, 'w) io \<Rightarrow> ('a, 'w bridge_state) io" where
  "on_world m st = (case m (world st) of (r, w) \<Rightarrow> (r, st\<lparr>world := w\<rparr>))"

definition stop_other_active_sessions :: "'w bridge_env \<Rightarrow> string \<Rightarrow> (unit, 'w bridge_state) io" where
  "stop_other_active_sessions e new_source_id st0 =
     (case active_managed_session e st0 of
        (None, st) \<Rightarrow> (Inr (), st)
      | (Some (session_id, managed), st) \<Rightarrow>
          if \<not> should_replace_active_session new_source_id (as_source_id (ms_session managed))
          then (Inr (), st)
          else
            io_then (io_context
                ''could not stop previous application session before launching a new one''
                (on_world (stop_application (host e) (ms_unit_name managed)))) (\<lambda>_.
            io_then (on_world (set_input_profile (host e) input_profile.Native False)) (\<lambda>_ st.
              (Inr (), forget_session e session_id st))) st)"

definition running_session :: "string \<Rightarrow> string \<Rightarrow> string \<Rightarrow> application_session" where
  "running_session source_id application_id session_id =
     \<lparr>as_id = session_id, as_source_id = source_id, as_application_id = application_id, as_state = Running\<rparr>"

definition launch_session ::
  "'w bridge_env \<Rightarrow> application_session \<Rightarrow> input_profile \<Rightarrow> (string option, 'w) io
     \<Rightarrow> 'w bridge_state \<Rightarrow> bridge_response \<times> 'w bridge_state" where
  "launch_session e session prof launch st0 =
     (if \<not> valid_session_id (as_id session)
      then (Error InvalidRequest ''application session has an invalid identifier'', st0)
      else case io_then (stop_other_active_sessions e (as_source_id session))
             (\<lambda>_. on_world (set_session_input_profile (host e) prof
                (as_source_id session = RETROARCH) (Some (as_application_id session)))) st0 of
        (Inl error, st) \<Rightarrow> (Error LaunchFailed error, st)
      | (Inr _, st) \<Rightarrow>
          (case on_world launch st of
             (Inl error, st) \<Rightarrow> (Error LaunchFailed error, sync_input_profile e st)
           | (Inr unit_name, st) \<Rightarrow>
               let managed = \<lparr>ms_session = session, ms_unit_name = unit_name, ms_input_profile = prof\<rparr> in
               case on_world (save_managed_session e managed) st of
                 (Inl error, st) \<Rightarrow>
                   let st = snd (on_world (stop_application (host e) unit_name) st);
                       st = snd (on_world (set_input_profile (host e) input_profile.Native False) st)
                   in (Error LaunchFailed ''could not persist managed application session'', st)
               | (Inr _, st) \<Rightarrow>
                   (LaunchAccepted session,
                    st\<lparr>sessions := (sessions st)(as_id session \<mapsto> managed)\<rparr>)))"

definition stop_managed_session ::
  "'w bridge_env \<Rightarrow> managed_session \<Rightarrow> 'w bridge_state \<Rightarrow> bridge_response \<times> 'w bridge_state" where
  "stop_managed_session e managed st =
     (case on_world (stop_application (host e) (ms_unit_name managed)) st of
        (Inl error, st) \<Rightarrow> (Error LaunchFailed error, st)
      | (Inr _, st) \<Rightarrow>
          let session_id = as_id (ms_session managed);
              st = forget_session e session_id st;
              st = snd (on_world (set_input_profile (host e) input_profile.Native False) st)
          in (StopAccepted session_id, st))"

section \<open>Requests\<close>

fun handle_request ::
  "'w bridge_env \<Rightarrow> bridge_request \<Rightarrow> 'w bridge_state \<Rightarrow> bridge_response \<times> 'w bridge_state" where
  "handle_request e HealthRequest st = (Health (crate_version e), st)"
| "handle_request e (DiscoverApplications source_id) st =
     (case discover_applications (host e) (shuffle e) source_id (world st) of
        Inr applications \<Rightarrow> (Applications source_id applications, st)
      | Inl error \<Rightarrow> (Error Internal error, st))"
| "handle_request e (LaunchApplication source_id application_id session_id prof) st =
     launch_session e (running_session source_id application_id session_id) prof
       (launch_application (host e) source_id application_id session_id) st"
| "handle_request e (LaunchStremioTitle application_id video_id media_type session_id prof) st =
     launch_session e (running_session DESKTOP_APPS application_id session_id) prof
       (launch_stremio_title (host e) application_id video_id media_type session_id) st"
| "handle_request e (LaunchHeroicGame runner application_id _ prof) st =
     launch_session e (running_session HEROIC application_id HEROIC_SESSION_ID) prof
       (launch_heroic_game (host e) runner application_id) st"
| "handle_request e (LaunchRetroGame core_path rom_path session_id prof) st =
     launch_session e (running_session RETROARCH rom_path session_id) prof
       (launch_retro_game (host e) (bundled_profiles e) core_path rom_path session_id) st"
| "handle_request e (InstallRetroCores packages) st =
     (case validate_install_packages packages of
        Inl error \<Rightarrow> (Error InvalidRequest error, st)
      | Inr packages \<Rightarrow>
          (case on_world (install_cores (pkexec e) packages) st of
             (Inr report, st) \<Rightarrow> (RetroCoresInstalled report, st)
           | (Inl error, st) \<Rightarrow> (Error Internal error, st)))"
| "handle_request e ActiveApplicationSession st0 =
     (case active_managed_session e st0 of (active, st) \<Rightarrow>
        (ApplicationSession (map_option (\<lambda>(_, m). ms_session m) active),
         snd (on_world (sync_managed_input e (map_option snd active)) st)))"
| "handle_request e (StopApplicationSession session_id) st =
     (case sessions st session_id of
        None \<Rightarrow> (Error NotFound ''application session is not running'', st)
      | Some managed \<Rightarrow> stop_managed_session e managed st)"
| "handle_request e StopActiveApplicationSession st0 =
     (case active_managed_session e st0 of
        (None, st) \<Rightarrow> (Error NotFound ''no application session is active'', st)
      | (Some (_, managed), st) \<Rightarrow> stop_managed_session e managed st)"

end
