(* ===== verification/Bridge_Run.thy ===== *)
theory Bridge_Run
  imports Bridge_Sessions
begin

text \<open>
  What the session manager guarantees from whatever records it was started with: no request adds
  a second session, a session is dropped only after its application was seen stopped, an accepted
  launch is tracked (as the only session, if at most one record was found at the start), and a
  rejected one tracks nothing new.
\<close>

section \<open>Observations\<close>

definition seen_stopped :: "'w bridge_host \<Rightarrow> string option \<Rightarrow> bool" where
  "seen_stopped h u \<longleftrightarrow> (\<exists>w w'. application_is_running h u w = (Inr False, w'))"

definition order_ok :: "'w bridge_env \<Rightarrow> bool" where
  "order_ok e \<longleftrightarrow> (\<forall>ss. finite (dom ss) \<longrightarrow> iteration_order (session_order e ss) ss)"

text \<open>A step that only drops sessions, each after its application was seen stopped.\<close>

definition only_drops :: "'w bridge_env \<Rightarrow> 'w bridge_state \<Rightarrow> 'w bridge_state \<Rightarrow> bool" where
  "only_drops e st st' \<longleftrightarrow> sessions st' \<subseteq>\<^sub>m sessions st
     \<and> (\<forall>i m. sessions st i = Some m \<and> sessions st' i = None \<longrightarrow> seen_stopped (host e) (ms_unit_name m))"

lemma only_drops_refl [simp]: "sessions st' = sessions st \<Longrightarrow> only_drops e st st'"
  by (auto simp: only_drops_def)

lemma map_le_Some: "f \<subseteq>\<^sub>m g \<Longrightarrow> f x = Some y \<Longrightarrow> g x = Some y"
  unfolding map_le_def by (metis domI)

lemma only_drops_trans:
  assumes "only_drops e st st1" and "only_drops e st1 st2"
  shows "only_drops e st st2"
proof -
  have "seen_stopped (host e) (ms_unit_name m)"
    if "sessions st i = Some m" "sessions st2 i = None" for i m
  proof (cases "sessions st1 i")
    case None
    with that assms(1) show ?thesis by (auto simp: only_drops_def)
  next
    case (Some m')
    with assms(1) have "sessions st i = Some m'" unfolding only_drops_def by (blast intro: map_le_Some)
    with that(1) have "m' = m" by simp
    with Some that assms(2) show ?thesis by (auto simp: only_drops_def)
  qed
  with assms show ?thesis by (auto simp: only_drops_def intro: map_le_trans)
qed

lemma only_drops_forget:
  assumes "sessions st i = Some m" and "seen_stopped (host e) (ms_unit_name m)"
  shows "only_drops e st (forget_session e i st)"
  using assms by (auto simp: only_drops_def forget_session_def map_le_def)

lemma sessions_on_world [simp]: "sessions (snd (on_world m st)) = sessions st"
  by (simp add: on_world_def split: prod.splits)

lemma on_world_eq: "on_world m st = (r, st') \<Longrightarrow> sessions st' = sessions st"
  using sessions_on_world[of m st] by simp

section \<open>The active session\<close>

lemma max_by_key_in: "max_by_key c cs \<in> set (c # cs)"
proof (induction cs arbitrary: c)
  case (Cons d ds)
  from Cons.IH[of "if candidate_key d < candidate_key c then c else d"] show ?case
    by (auto split: if_splits)
qed simp

lemma select_in: "select_active_session cs = Some (i, m) \<Longrightarrow> \<exists>t. (i, m, t) \<in> set cs"
proof (cases cs)
  case (Cons c ds)
  assume "select_active_session cs = Some (i, m)"
  with Cons max_by_key_in[of c ds] show ?thesis
    by (auto simp: select_active_session_def split: prod.splits)
qed (simp add: select_active_session_def)

lemma select_None: "select_active_session cs = None \<longleftrightarrow> cs = []"
  by (simp add: select_active_session_def split: list.split prod.split)

lemma probe_step:
  assumes "application_is_running (host e) (ms_unit_name m) (world st) = (r, w)" and "r \<noteq> Inr False"
  shows "probe_sessions e ((i, m) # rest) st =
    (let (found, st') = probe_sessions e rest (st\<lparr>world := w\<rparr>)
     in ((i, m, managed_session_modified_at e i w) # found, st'))"
  using assms by (auto simp: Let_def split: sum.splits bool.splits prod.splits)

lemma probe_found:
  assumes "probe_sessions e cs st = (found, st')" and "distinct (map fst cs)"
    and "\<forall>(i, m)\<in>set cs. sessions st i = Some m"
  shows "only_drops e st st' \<and> (\<forall>(i, m, t)\<in>set found. (i, m) \<in> set cs)
    \<and> (\<forall>i. sessions st' i = (if i \<in> fst ` set cs \<and> i \<notin> fst ` set found then None else sessions st i))"
  using assms
proof (induction cs arbitrary: st found st')
  case (Cons c cs)
  obtain i m where c: "c = (i, m)" by force
  obtain r w where run: "application_is_running (host e) (ms_unit_name m) (world st) = (r, w)" by force
  have dist: "distinct (map fst cs)" "i \<notin> fst ` set cs" using Cons.prems(2) by (simp_all add: c)
  show ?case
  proof (cases "r = Inr False")
    case True
    define st1 where "st1 = forget_session e i (st\<lparr>world := w\<rparr>)"
    have rest: "probe_sessions e cs st1 = (found, st')"
      using Cons.prems(1) run True by (simp add: c st1_def)
    have s1: "sessions st1 = (sessions st)(i := None)" by (simp add: st1_def forget_session_def)
    have "\<forall>(j, n)\<in>set cs. sessions st1 j = Some n"
      using Cons.prems(3) dist(2) s1 by (force simp: c)
    note IH = Cons.IH[OF rest dist(1) this]
    have "seen_stopped (host e) (ms_unit_name m)" using run True by (auto simp: seen_stopped_def)
    then have "only_drops e st st1"
      using Cons.prems(3) s1 by (auto simp: c only_drops_def map_le_def)
    moreover have "i \<notin> fst ` set found" using IH dist(2) by force
    ultimately show ?thesis using IH s1 only_drops_trans by (force simp: c)
  next
    case False
    obtain found' where f: "probe_sessions e cs (st\<lparr>world := w\<rparr>) = (found', st')"
        "found = (i, m, managed_session_modified_at e i w) # found'"
      using Cons.prems(1) probe_step[OF run False] by (auto simp: c Let_def split: prod.splits)
    have "\<forall>(j, n)\<in>set cs. sessions (st\<lparr>world := w\<rparr>) j = Some n" using Cons.prems(3) by (auto simp: c)
    note IH = Cons.IH[OF f(1) dist(1) this]
    then have "only_drops e st st'" by (auto simp: only_drops_def)
    with IH f(2) dist(2) show ?thesis by (force simp: c)
  qed
qed simp

lemma candidates_map:
  assumes "order_ok e" and "finite (dom ss)"
  shows "set (session_candidates e ss) = {(i, m). ss i = Some m}" "distinct (map fst (session_candidates e ss))"
proof -
  have order: "iteration_order (session_order e ss) ss" using assms by (simp add: order_ok_def)
  show "set (session_candidates e ss) = {(i, m). ss i = Some m}"
    using order by (force simp: session_candidates_def iteration_order_def split: option.splits)
  have "map fst (concat (map (\<lambda>i. case ss i of None \<Rightarrow> [] | Some m \<Rightarrow> [(i, m)]) is))
      = filter (\<lambda>i. ss i \<noteq> None) is" for "is"
    by (induction "is") (auto split: option.splits)
  then show "distinct (map fst (session_candidates e ss))"
    using order by (simp add: session_candidates_def iteration_order_def)
qed

lemma active_session:
  assumes "order_ok e" and "finite (dom (sessions st))" and "active_managed_session e st = (r, st')"
  shows "only_drops e st st'" and "r = None \<Longrightarrow> sessions st' = Map.empty"
    and "r = Some (i, m) \<Longrightarrow> sessions st' i = Some m"
proof -
  obtain found where p: "probe_sessions e (session_candidates e (sessions st)) st = (found, st')"
      "r = select_active_session found"
    using assms(3) by (auto simp: active_managed_session_def split: prod.splits)
  note cands = candidates_map[OF assms(1,2)]
  have "\<forall>(i, m)\<in>set (session_candidates e (sessions st)). sessions st i = Some m" using cands(1) by simp
  note probe = probe_found[OF p(1) cands(2) this]
  then show "only_drops e st st'" by simp
  have dom: "fst ` set (session_candidates e (sessions st)) = dom (sessions st)"
    using cands(1) by force
  show "sessions st' = Map.empty" if "r = None"
    using that probe p(2) dom by (auto simp: select_None fun_eq_iff)
  show "sessions st' i = Some m" if "r = Some (i, m)"
  proof -
    have "select_active_session found = Some (i, m)" using that p(2) by simp
    then obtain t where t: "(i, m, t) \<in> set found" using select_in by blast
    then have "(i, m) \<in> set (session_candidates e (sessions st))" using probe by blast
    then have "sessions st i = Some m" using cands(1) by simp
    moreover have "i \<in> fst ` set found" using t by (metis fst_conv image_eqI)
    ultimately show ?thesis using probe by simp
  qed
qed

section \<open>The invariant\<close>

definition tracked :: "'w bridge_state \<Rightarrow> bool" where
  "tracked st \<longleftrightarrow> finite (dom (sessions st))
     \<and> (\<forall>i m. sessions st i = Some m \<longrightarrow> as_id (ms_session m) = i \<and> valid_session_id i
          \<and> (as_source_id (ms_session m) = HEROIC \<longrightarrow> i = HEROIC_SESSION_ID))"

lemma tracked_finite: "tracked st \<Longrightarrow> finite (dom (sessions st))"
  by (simp add: tracked_def)

lemma tracked_le: "tracked st \<Longrightarrow> sessions st' \<subseteq>\<^sub>m sessions st \<Longrightarrow> tracked st'"
  unfolding tracked_def by (meson finite_subset map_le_Some map_le_implies_dom_le)

lemma tracked_drops: "tracked st \<Longrightarrow> only_drops e st st' \<Longrightarrow> tracked st'"
  using tracked_le by (auto simp: only_drops_def)

text \<open>How many sessions are tracked.\<close>

abbreviation session_count :: "'w bridge_state \<Rightarrow> nat" where
  "session_count st \<equiv> card (dom (sessions st))"

lemma drops_count: "tracked st \<Longrightarrow> only_drops e st st' \<Longrightarrow> session_count st' \<le> session_count st"
  by (simp add: card_mono map_le_implies_dom_le only_drops_def tracked_finite)

lemma single_session:
  assumes "finite (dom ss)" and "card (dom ss) \<le> 1" and "ss i = Some m"
  shows "ss = [i \<mapsto> m]"
proof -
  have "dom ss = {i}"
    using assms card_le_Suc0_iff_eq[OF assms(1)] by auto
  with assms(3) show ?thesis by (auto simp: dom_eq_singleton_conv)
qed

section \<open>Launching\<close>

lemma stop_other:
  assumes "order_ok e" and "tracked st" and "stop_other_active_sessions e new st = (r, st')"
  shows "only_drops e st st'"
    and "r = Inr () \<Longrightarrow> sessions st' = Map.empty \<or> session_count st' < session_count st
      \<or> new = HEROIC \<and> HEROIC_SESSION_ID \<in> dom (sessions st')"
proof -
  obtain act st1 where active: "active_managed_session e st = (act, st1)" by force
  note a = active_session[OF assms(1) tracked_finite[OF assms(2)] active]
  have st1: "tracked st1" using tracked_drops[OF assms(2) a(1)] .
  have "only_drops e st st' \<and> (r = Inr () \<longrightarrow> sessions st' = Map.empty \<or> session_count st' < session_count st
      \<or> new = HEROIC \<and> HEROIC_SESSION_ID \<in> dom (sessions st'))"
  proof (cases act)
    case None
    with active assms(3) a show ?thesis by (simp add: stop_other_active_sessions_def)
  next
    case (Some act')
    obtain j n where act: "act = Some (j, n)" using Some by (cases act') auto
    have j: "sessions st1 j = Some n" using a(3)[OF act] .
    show ?thesis
    proof (cases "should_replace_active_session new (as_source_id (ms_session n))")
      case False
      then have heroic: "new = HEROIC" "as_source_id (ms_session n) = HEROIC"
        by (auto simp: should_replace_active_session_def)
      then have "j = HEROIC_SESSION_ID" using st1 j by (simp add: tracked_def)
      with False active assms(3) a(1) act j heroic show ?thesis
        by (auto simp: stop_other_active_sessions_def)
    next
      case True
      have run: "io_then (io_context
                ''could not stop previous application session before launching a new one''
                (on_world (stop_application (host e) (ms_unit_name n)))) (\<lambda>_.
            io_then (on_world (set_input_profile (host e) input_profile.Native False)) (\<lambda>_ st.
              (Inr (), forget_session e j st))) st1 = (r, st')"
        using True active assms(3) act by (simp add: stop_other_active_sessions_def)
      show ?thesis
      proof (cases r)
        case (Inl err)
        have "sessions st' = sessions st1"
          using run Inl
          by (auto simp: io_then_def io_context_def split: prod.splits sum.splits dest!: on_world_eq)
        with a(1) Inl show ?thesis using only_drops_trans by fastforce
      next
        case (Inr u)
        then obtain w2 w3 where stop: "on_world (stop_application (host e) (ms_unit_name n)) st1 = (Inr (), w2)"
            and prof: "on_world (set_input_profile (host e) input_profile.Native False) w2 = (Inr (), w3)"
            and st': "st' = forget_session e j w3"
          using run by (auto simp: io_then_ok)
        have w3: "sessions w3 = sessions st1" using on_world_eq[OF stop] on_world_eq[OF prof] by simp
        have "seen_stopped (host e) (ms_unit_name n)"
          using stop stop_application_checked[of "host e" "ms_unit_name n" "world st1"]
          by (auto simp: on_world_def seen_stopped_def split: prod.splits)
        then have "only_drops e w3 st'" using only_drops_forget[of w3 j n e] w3 j st' by simp
        moreover have "only_drops e st1 w3" using w3 by simp
        ultimately have "only_drops e st st'" using a(1) only_drops_trans by blast
        moreover have "session_count st' < session_count st1"
          using j tracked_finite[OF st1] by (auto simp: st' forget_session_def w3 intro: card_Diff1_less)
        then have "session_count st' < session_count st" using drops_count[OF assms(2) a(1)] by simp
        ultimately show ?thesis by simp
      qed
    qed
  qed
  then show "only_drops e st st'"
    and "r = Inr () \<Longrightarrow> sessions st' = Map.empty \<or> session_count st' < session_count st
      \<or> new = HEROIC \<and> HEROIC_SESSION_ID \<in> dom (sessions st')"
    by blast+
qed

text \<open>
  What an accepted launch of \<open>s\<close> leaves: the session is tracked beside those that were not
  stopped, and no more sessions than before, or than this one.
\<close>

definition accepted :: "'w bridge_env \<Rightarrow> application_session \<Rightarrow> managed_session \<Rightarrow>
    'w bridge_state \<Rightarrow> 'w bridge_state \<Rightarrow> bool" where
  "accepted e s m st st' \<longleftrightarrow>
     (\<exists>st1. only_drops e st st1 \<and> sessions st' = (sessions st1)(as_id s \<mapsto> m))
   \<and> ms_session m = s \<and> session_count st' \<le> max 1 (session_count st) \<and> valid_session_id (as_id s)
   \<and> (as_source_id s = HEROIC \<longrightarrow> as_id s = HEROIC_SESSION_ID)"

lemma launch_session_result:
  assumes "order_ok e" and "tracked st"
    and heroic: "\<And>w u w'. launch w = (Inr u, w') \<Longrightarrow> as_source_id s = HEROIC \<Longrightarrow> as_id s = HEROIC_SESSION_ID"
    and "launch_session e s prof launch st = (resp, st')"
  shows "(\<exists>c msg. resp = Error c msg \<and> only_drops e st st')
    \<or> (\<exists>m. resp = LaunchAccepted s \<and> accepted e s m st st')"
proof (cases "valid_session_id (as_id s)")
  case False
  with assms(4) show ?thesis by (auto simp: launch_session_def)
next
  case True
  obtain r1 st1 where prep: "io_then (stop_other_active_sessions e (as_source_id s))
      (\<lambda>_. on_world (set_session_input_profile (host e) prof (as_source_id s = RETROARCH)
        (Some (as_application_id s)))) st = (r1, st1)" by force
  obtain r0 st0 where stop: "stop_other_active_sessions e (as_source_id s) st = (r0, st0)" by force
  note so = stop_other[OF assms(1,2) stop]
  have st1: "only_drops e st st1"
  proof (cases r0)
    case (Inl err)
    with prep stop so(1) show ?thesis by (simp add: io_then_def)
  next
    case (Inr u)
    with prep stop have "sessions st1 = sessions st0" by (auto simp: io_then_def dest: on_world_eq)
    then show ?thesis using so(1) only_drops_trans only_drops_refl by metis
  qed
  show ?thesis
  proof (cases r1)
    case (Inl err)
    with assms(4) True prep st1 show ?thesis by (auto simp: launch_session_def)
  next
    case (Inr u)
    have r0: "r0 = Inr ()" and same: "sessions st1 = sessions st0"
      using prep Inr stop by (auto simp: io_then_def split: sum.splits dest: on_world_eq)
    obtain r2 st2 where l: "on_world launch st1 = (r2, st2)" by force
    have s2: "sessions st2 = sessions st1" using on_world_eq[OF l] .
    have tracked1: "tracked st1" using tracked_drops[OF assms(2) st1] .
    then have tracked2: "tracked st2" using s2 by (simp add: tracked_def)
    show ?thesis
    proof (cases r2)
      case (Inl err)
      obtain a3 st3 where a: "active_managed_session e st2 = (a3, st3)" by force
      note act = active_session(1)[OF assms(1) tracked_finite[OF tracked2] a]
      have "resp = Error LaunchFailed err" "sessions st' = sessions st3"
        using assms(4) True prep Inr l Inl a by (auto simp: launch_session_def sync_input_profile_def)
      moreover have "only_drops e st2 st'" using act calculation(2) by (simp add: only_drops_def)
      ultimately show ?thesis using st1 s2 only_drops_trans only_drops_refl by metis
    next
      case (Inr unit_name)
      define managed where "managed = \<lparr>ms_session = s, ms_unit_name = unit_name, ms_input_profile = prof\<rparr>"
      obtain r3 st3 where save: "on_world (save_managed_session e managed) st2 = (r3, st3)" by force
      have s3: "sessions st3 = sessions st1" using on_world_eq[OF save] s2 by simp
      show ?thesis
      proof (cases r3)
        case (Inl err)
        have "resp = Error LaunchFailed ''could not persist managed application session'' \<and> sessions st' = sessions st3"
          using assms(4) True prep \<open>r1 = Inr u\<close> l Inr save Inl
          by (auto simp: launch_session_def managed_def Let_def)
        moreover from this have "only_drops e st1 st'" using s3 by simp
        then have "only_drops e st st'" by (rule only_drops_trans[OF st1])
        ultimately show ?thesis by blast
      next
        case (Inr v)
        have resp: "resp = LaunchAccepted s" and s': "sessions st' = (sessions st1)(as_id s \<mapsto> managed)"
          using assms(4) True prep \<open>r1 = Inr u\<close> l \<open>r2 = Inr unit_name\<close> save Inr s3
          by (auto simp: launch_session_def managed_def Let_def)
        have id: "as_source_id s = HEROIC \<longrightarrow> as_id s = HEROIC_SESSION_ID"
          using l \<open>r2 = Inr unit_name\<close> heroic by (auto simp: on_world_def split: prod.splits)
        have "session_count st' = card (insert (as_id s) (dom (sessions st1)))" by (simp add: s')
        then have "session_count st' \<le> max 1 (session_count st)"
          using so(2)[OF r0] drops_count[OF assms(2) st1] id tracked_finite[OF tracked1]
          by (auto simp: same insert_absorb card_insert_if domIff)
        with resp st1 s' id True show ?thesis
          unfolding accepted_def by (metis managed_def managed_session.select_convs(1))
      qed
    qed
  qed
qed

section \<open>Every request\<close>

lemma stop_managed_result:
  assumes "sessions st i = Some m" and "as_id (ms_session m) = i" and "stop_managed_session e m st = (resp, st')"
  shows "only_drops e st st'"
    and "(resp = StopAccepted i \<and> sessions st' = (sessions st)(i := None))
      \<or> (\<exists>msg. resp = Error LaunchFailed msg \<and> sessions st' = sessions st)"
proof -
  obtain r st1 where stop: "on_world (stop_application (host e) (ms_unit_name m)) st = (r, st1)" by force
  have s1: "sessions st1 = sessions st" using on_world_eq[OF stop] .
  have "(r = Inr () \<and> resp = StopAccepted i \<and> sessions st' = (sessions st)(i := None))
      \<or> (\<exists>msg. r = Inl msg \<and> resp = Error LaunchFailed msg \<and> sessions st' = sessions st)"
    using assms(2,3) stop s1
    by (auto simp: stop_managed_session_def Let_def forget_session_def split: sum.splits)
  moreover have "seen_stopped (host e) (ms_unit_name m)" if "r = Inr ()"
    using stop that stop_application_checked[of "host e" "ms_unit_name m" "world st"]
    by (auto simp: on_world_def seen_stopped_def split: prod.splits)
  ultimately show "only_drops e st st'"
    and "(resp = StopAccepted i \<and> sessions st' = (sessions st)(i := None))
      \<or> (\<exists>msg. resp = Error LaunchFailed msg \<and> sessions st' = sessions st)"
    using assms(1) by (auto simp: only_drops_def map_le_def split: if_splits)
qed

lemma desktop_refuses_heroic:
  assumes "launch_application h source_id a i w = (Inr u, w')"
  shows "source_id \<noteq> HEROIC"
proof
  assume "source_id = HEROIC"
  moreover have "HEROIC \<noteq> DESKTOP_APPS" by (simp add: HEROIC_def DESKTOP_APPS_def)
  ultimately show False
    using assms by (auto simp: launch_application_def io_then_def desktop_entry_path_def)
qed

definition launched :: "bridge_request \<Rightarrow> application_session option" where
  "launched req =
     (case req of
        LaunchApplication source_id a i _ \<Rightarrow> Some (running_session source_id a i)
      | LaunchStremioTitle a _ _ i _ \<Rightarrow> Some (running_session DESKTOP_APPS a i)
      | LaunchHeroicGame _ a _ _ \<Rightarrow> Some (running_session HEROIC a HEROIC_SESSION_ID)
      | LaunchRetroGame _ rom i _ \<Rightarrow> Some (running_session RETROARCH rom i)
      | _ \<Rightarrow> None)"

lemma request_launches:
  assumes "order_ok e" and "tracked st" and "launched req = Some s" and "handle_request e req st = (resp, st')"
  shows "(\<exists>c msg. resp = Error c msg \<and> only_drops e st st')
    \<or> (\<exists>m. resp = LaunchAccepted s \<and> accepted e s m st st')"
proof -
  have srcs: "HEROIC \<noteq> DESKTOP_APPS" "RETROARCH \<noteq> HEROIC"
    by (simp_all add: HEROIC_def DESKTOP_APPS_def RETROARCH_def)
  obtain prof launch where l: "launch_session e s prof launch st = (resp, st')"
      and heroic: "\<And>w u w'. launch w = (Inr u, w') \<Longrightarrow> as_source_id s = HEROIC \<Longrightarrow> as_id s = HEROIC_SESSION_ID"
  proof (cases req)
    case (LaunchApplication src a i prof)
    with assms(3,4) show ?thesis
      by (intro that[of prof "launch_application (host e) src a i"])
         (auto simp: launched_def running_session_def dest: desktop_refuses_heroic)
  qed (use assms(3,4) srcs in \<open>auto simp: launched_def running_session_def intro!: that\<close>)
  show ?thesis by (rule launch_session_result[OF assms(1,2) _ l]) (rule heroic)
qed

lemma other_request_drops:
  assumes "order_ok e" and "tracked st" and "launched req = None" and "handle_request e req st = (resp, st')"
  shows "only_drops e st st'"
proof (cases req)
  case (StopApplicationSession i)
  with assms(2,4) show ?thesis
    by (auto simp: tracked_def split: option.splits intro: stop_managed_result(1))
next
  case StopActiveApplicationSession
  obtain r st1 where a: "active_managed_session e st = (r, st1)" by force
  note act = active_session[OF assms(1) tracked_finite[OF assms(2)] a]
  show ?thesis
  proof (cases r)
    case None
    with a act(1) assms(4) StopActiveApplicationSession show ?thesis by simp
  next
    case (Some im)
    obtain i m where im: "r = Some (i, m)" using Some by (cases im) auto
    have "sessions st1 i = Some m" using act(3)[OF im] .
    moreover from this have "as_id (ms_session m) = i"
      using tracked_drops[OF assms(2) act(1)] by (simp add: tracked_def)
    moreover have "stop_managed_session e m st1 = (resp, st')"
      using a im assms(4) StopActiveApplicationSession by simp
    ultimately show ?thesis using stop_managed_result(1) act(1) only_drops_trans by blast
  qed
next
  case ActiveApplicationSession
  obtain r st1 where a: "active_managed_session e st = (r, st1)" by force
  have "sessions st' = sessions st1" using a assms(4) ActiveApplicationSession by auto
  with active_session(1)[OF assms(1) tracked_finite[OF assms(2)] a] show ?thesis
    by (simp add: only_drops_def)
next
  case (InstallRetroCores ps)
  with assms(4) show ?thesis
    by (auto split: sum.splits prod.splits dest!: on_world_eq)
qed (use assms(3,4) in \<open>auto simp: launched_def split: sum.splits\<close>)

lemma accepted_tracked:
  assumes "tracked st" and "accepted e s m st st'"
  shows "tracked st'"
proof -
  obtain st1 where st1: "only_drops e st st1" "sessions st' = (sessions st1)(as_id s \<mapsto> m)"
    using assms(2) by (auto simp: accepted_def)
  have "tracked st1" by (rule tracked_drops[OF assms(1) st1(1)])
  with assms(2) st1(2) show ?thesis by (auto simp: tracked_def accepted_def split: if_splits)
qed

lemma accepted_only:
  assumes "tracked st" and "session_count st \<le> 1" and "accepted e s m st st'"
  shows "sessions st' = [as_id s \<mapsto> m]"
  using single_session[OF tracked_finite[OF accepted_tracked[OF assms(1,3)]], of "as_id s" m] assms(2,3)
  by (auto simp: accepted_def)

lemma accepted_keeps:
  assumes "accepted e s m st st'" and "sessions st i = Some n" and "sessions st' i = None"
  shows "seen_stopped (host e) (ms_unit_name n)"
  using assms by (auto simp: accepted_def only_drops_def split: if_splits)

lemma request_tracked:
  fixes req :: bridge_request
  assumes "order_ok e" and "tracked st"
  defines "st' \<equiv> snd (handle_request e req st)"
  shows "tracked st' \<and> session_count st' \<le> max 1 (session_count st)"
proof -
  obtain resp where r: "handle_request e req st = (resp, st')" by (metis st'_def prod.collapse)
  have drops: "?thesis" if "only_drops e st st'"
    using tracked_drops[OF assms(2) that] drops_count[OF assms(2) that] by simp
  show ?thesis
  proof (cases "launched req")
    case None
    then show ?thesis by (rule drops[OF other_request_drops[OF assms(1,2) _ r]])
  next
    case (Some s)
    from request_launches[OF assms(1,2) this r] show ?thesis
    proof (elim disjE exE conjE)
      fix m
      assume "accepted e s m st st'"
      then show ?thesis using accepted_tracked[OF assms(2)] by (auto simp: accepted_def)
    qed (rule drops)
  qed
qed

section \<open>The bridge as a machine\<close>

text \<open>A run handles requests one after the other, each in an environment of its own.\<close>

definition bridge_step ::
  "'w bridge_env \<times> bridge_request \<Rightarrow> 'w bridge_state \<Rightarrow> 'w bridge_state" where
  "bridge_step er st = snd (handle_request (fst er) (snd er) st)"

text \<open>
  \<^verbatim>\<open>main\<close> starts from the records found in the session directory. The records are those a bridge
  wrote: Heroic's session is only ever stored under its stable id (which \<open>tracked\<close> shows of the
  sessions a bridge saves).
\<close>

definition bridge_start :: "(string \<times> managed_session option) list \<Rightarrow> 'w \<Rightarrow> 'w bridge_state" where
  "bridge_start records w = \<lparr>sessions = load_managed_sessions records Map.empty, world = w\<rparr>"

definition written_records :: "(string \<times> managed_session option) list \<Rightarrow> bool" where
  "written_records records \<longleftrightarrow>
     (\<forall>m. Some m \<in> snd ` set records \<and> as_source_id (ms_session m) = HEROIC \<longrightarrow>
        as_id (ms_session m) = HEROIC_SESSION_ID)"

lemma written_records_Nil [simp]: "written_records []"
  by (simp add: written_records_def)

lemma load_tracked:
  assumes "written_records records" and "tracked \<lparr>sessions = ss, world = w\<rparr>"
  shows "tracked \<lparr>sessions = load_managed_sessions records ss, world = w\<rparr>"
  using assms
proof (induction records arbitrary: ss)
  case (Cons r records)
  obtain name decoded where r: "r = (name, decoded)" by force
  have rest: "written_records records" using Cons.prems(1) by (simp add: written_records_def)
  have "as_source_id (ms_session m) = HEROIC \<longrightarrow> as_id (ms_session m) = HEROIC_SESSION_ID"
    if "decoded = Some m" for m
    using Cons.prems(1) that by (auto simp: written_records_def r)
  then have "tracked \<lparr>sessions = (if path_extension name \<noteq> Some ''json'' then ss
        else case decoded of
          Some m \<Rightarrow> if valid_session_id (as_id (ms_session m)) then ss(as_id (ms_session m) \<mapsto> m) else ss
        | None \<Rightarrow> ss), world = w\<rparr>"
    using Cons.prems(2) by (auto simp: tracked_def split: option.splits)
  from Cons.IH[OF rest this] show ?case by (simp add: r)
qed simp

lemma start_tracked: "written_records records \<Longrightarrow> tracked (bridge_start records w)"
  unfolding bridge_start_def by (rule load_tracked) (simp_all add: tracked_def)

interpretation bridge_machine: machine st0 bridge_step "\<lambda>er _. order_ok (fst er)"
    "\<lambda>st. tracked st0 \<longrightarrow> tracked st \<and> session_count st \<le> max 1 (session_count st0)" for st0
proof
  fix st :: "'a bridge_state" and er :: "'a bridge_env \<times> bridge_request"
  assume st: "tracked st0 \<longrightarrow> tracked st \<and> session_count st \<le> max 1 (session_count st0)" and ok: "order_ok (fst er)"
  show "tracked st0 \<longrightarrow> tracked (bridge_step er st)
      \<and> session_count (bridge_step er st) \<le> max 1 (session_count st0)"
    using st request_tracked[OF ok, of st "snd er"] by (auto simp: bridge_step_def)
qed simp

abbreviation bridge_run :: "('w bridge_env \<times> bridge_request) list
    \<Rightarrow> (string \<times> managed_session option) list \<Rightarrow> 'w \<Rightarrow> 'w bridge_state" where
  "bridge_run ers records w \<equiv> fold bridge_step ers (bridge_start records w)"

lemma steps_ok_order: "\<forall>er\<in>set ers. order_ok (fst er) \<Longrightarrow> steps_ok (\<lambda>er _. order_ok (fst er)) bridge_step ers st"
  by (induction ers arbitrary: st) auto

lemma run_keeps:
  assumes "\<forall>er\<in>set ers. order_ok (fst er)" and "tracked st"
  shows "tracked (fold bridge_step ers st)"
    and "session_count (fold bridge_step ers st) \<le> max 1 (session_count st)"
  using bridge_machine.steps_inv[OF steps_ok_order[OF assms(1)], of st] assms(2) by simp_all

lemma run_tracked:
  assumes "\<forall>er\<in>set ers. order_ok (fst er)" and "written_records records"
  shows "tracked (bridge_run ers records w)"
  by (rule run_keeps(1)[OF assms(1) start_tracked[OF assms(2)]])

text \<open>A host whose state is the list of active units, for the witnesses.\<close>

definition unit_host :: "string list bridge_host" where
  "unit_host = \<lparr>systemctl_is_active = \<lambda>u w. (Inr (u \<in> set w), w),
     systemctl_stop = \<lambda>u w. (Inr True, filter (\<lambda>v. v \<noteq> u) w),
     systemd_run = \<lambda>args w. (Inr True, w @ [args ! 5]), unit_main_pid = \<lambda>_ _. None,
     processes = \<lambda>_. [], cgroup_of = \<lambda>_ _. None, environment = \<lambda>_. None,
     read_file = \<lambda>_ _. Inl (FileNotFound ''not found''), write_file = \<lambda>_ _. io_ok (),
     create_dir_all = \<lambda>_. io_ok (), canonicalize = \<lambda>_ _. None, list_dir = \<lambda>_ _. [],
     is_file = \<lambda>_ _. False, is_executable = \<lambda>_ _. False, path_exists = \<lambda>_ _. False,
     input_socket_path = None, start_input_service = io_ok True, sleep_50ms = \<lambda>w. w,
     send_to_input = \<lambda>_. io_ok (), spawn = \<lambda>_. io_ok ()\<rparr>"

definition unit_env :: "string list bridge_env" where
  "unit_env = \<lparr>host = unit_host, session_directory = ''/run/hearthdeck/sessions'',
     write_record = \<lambda>_ _. io_ok (), restrict_permissions = \<lambda>_. io_ok (),
     remove_file = \<lambda>_ w. (Inr (), w), modified_at = \<lambda>_ _. Inr 1,
     session_order = \<lambda>ss. sorted_list_of_set (dom ss), bundled_profiles = [],
     pkexec = \<lambda>_. io_fail ''refused'', shuffle = \<lambda>xs. xs, crate_version = ''1''\<rparr>"

lemma unit_env_order: "order_ok unit_env"
  by (simp add: order_ok_def unit_env_def sorted_order)

definition heroic_request :: bridge_request where
  "heroic_request = LaunchHeroicGame Gog ''game'' ''ignored'' input_profile.Native"

definition heroic_managed :: managed_session where
  "heroic_managed = \<lparr>ms_session = running_session HEROIC ''game'' HEROIC_SESSION_ID,
     ms_unit_name = Some HEROIC_UNIT_NAME, ms_input_profile = input_profile.Native\<rparr>"

lemma heroic_ids: "valid_session_id HEROIC_SESSION_ID" "valid_heroic_application_id ''game''"
  by code_simp+

lemma native_ok: "set_session_input_profile unit_host input_profile.Native False a w = (Inr (), w)"
  by (simp add: set_session_input_profile_def unit_host_def io_defs)

lemma unit_running: "application_is_running unit_host (Some u) w = (Inr (u \<in> set w), w)"
  by (simp add: unit_host_def io_defs find_escaped_units_def Let_def)

lemma unit_stop: "stop_application unit_host (Some u) w = (Inr (), filter (\<lambda>v. v \<noteq> u) w)"
proof -
  have esc: "find_escaped_units unit_host u w = []" by (simp add: find_escaped_units_def unit_host_def)
  have "stop_if_active unit_host u w = (Inr (), filter (\<lambda>v. v \<noteq> u) w)"
    by (auto simp: stop_if_active_def stop_unit_def unit_host_def io_defs intro!: filter_True[symmetric])
  then show ?thesis
    using esc by (simp add: Let_def io_then_def io_lift_def io_ok_def unit_running io_ensure_def
        del: application_is_running.simps)
qed

lemma heroic_started:
  "handle_request unit_env heroic_request (bridge_start [] [])
     = (LaunchAccepted (ms_session heroic_managed),
        \<lparr>sessions = [HEROIC_SESSION_ID \<mapsto> heroic_managed], world = [HEROIC_UNIT_NAME]\<rparr>)"
proof -
  have src: "HEROIC \<noteq> RETROARCH" by (simp add: HEROIC_def RETROARCH_def)
  have h: "host unit_env = unit_host" by (simp add: unit_env_def)
  have other: "stop_other_active_sessions unit_env HEROIC (bridge_start [] []) = (Inr (), bridge_start [] [])"
    by (simp add: stop_other_active_sessions_def active_managed_session_def session_candidates_def
        bridge_start_def select_active_session_def unit_env_def)
  have "launch_heroic_game unit_host Gog ''game'' [] = (Inr (Some HEROIC_UNIT_NAME), [HEROIC_UNIT_NAME])"
    by (simp add: launch_heroic_game_def heroic_ids io_then_def io_ensure_def io_ok_def unit_running
        launch_with_systemd_def io_context_def launch_args_def del: application_is_running.simps)
       (simp add: unit_host_def io_defs)
  moreover have "save_managed_session unit_env heroic_managed w = (Inr (), w)" for w
    using heroic_ids(1)
    by (simp add: save_managed_session_def managed_session_path_def heroic_managed_def running_session_def
        io_then_def io_lift_def unit_env_def io_ok_def)
  ultimately show ?thesis
    using other src
    by (simp add: heroic_request_def launch_session_def running_session_def heroic_ids h io_then_def
        on_world_def native_ok bridge_start_def heroic_managed_def Let_def)
qed

lemma heroic_run:
  "bridge_run [(unit_env, heroic_request)] [] []
     = \<lparr>sessions = [HEROIC_SESSION_ID \<mapsto> heroic_managed], world = [HEROIC_UNIT_NAME]\<rparr>"
  by (simp add: bridge_step_def heroic_started)

lemma heroic_stopped:
  "sessions (snd (handle_request unit_env StopActiveApplicationSession
      \<lparr>sessions = [HEROIC_SESSION_ID \<mapsto> heroic_managed], world = [HEROIC_UNIT_NAME]\<rparr>)) = Map.empty"
proof -
  let ?st = "\<lparr>sessions = [HEROIC_SESSION_ID \<mapsto> heroic_managed], world = [HEROIC_UNIT_NAME]\<rparr>"
  have h: "host unit_env = unit_host" "session_order unit_env [HEROIC_SESSION_ID \<mapsto> heroic_managed] = [HEROIC_SESSION_ID]"
    by (simp_all add: unit_env_def)
  have un: "ms_unit_name heroic_managed = Some HEROIC_UNIT_NAME"
    "as_id (ms_session heroic_managed) = HEROIC_SESSION_ID"
    by (simp_all add: heroic_managed_def running_session_def)
  have "active_managed_session unit_env ?st = (Some (HEROIC_SESSION_ID, heroic_managed), ?st)"
    using probe_step[of unit_env heroic_managed ?st "Inr True" "[HEROIC_UNIT_NAME]" HEROIC_SESSION_ID "[]"]
    by (simp add: active_managed_session_def session_candidates_def h un unit_running
        select_active_session_def Let_def del: application_is_running.simps)
  then show ?thesis
    by (simp add: stop_managed_session_def h on_world_def un unit_stop
        forget_session_def Let_def split: prod.split del: stop_application.simps)
qed

text \<open>The records a bridge finds when it was restarted during a Heroic session.\<close>

definition heroic_records :: "(string \<times> managed_session option) list" where
  "heroic_records = [(''heroic.json'', Some heroic_managed), (''heroic.tmp'', None)]"

lemma heroic_records_start:
  "written_records heroic_records"
  "bridge_start heroic_records [HEROIC_UNIT_NAME]
     = \<lparr>sessions = [HEROIC_SESSION_ID \<mapsto> heroic_managed], world = [HEROIC_UNIT_NAME]\<rparr>"
proof -
  have ext: "path_extension ''heroic.json'' = Some ''json''" "path_extension ''heroic.tmp'' \<noteq> Some ''json''"
    by code_simp+
  show "written_records heroic_records"
    by (simp add: written_records_def heroic_records_def heroic_managed_def running_session_def)
  show "bridge_start heroic_records [HEROIC_UNIT_NAME]
     = \<lparr>sessions = [HEROIC_SESSION_ID \<mapsto> heroic_managed], world = [HEROIC_UNIT_NAME]\<rparr>"
    using ext heroic_ids(1)
    by (simp add: bridge_start_def heroic_records_def heroic_managed_def running_session_def)
qed

text \<open>
  C3: whatever requests the bridge handles and however the host behaves, the number of sessions it
  tracks never rises above what it was at any earlier point, or above one. So a bridge that found
  no record at its start, or one, tracks at most one session at any time (a second record, left
  by a removal that failed before a restart, stays tracked until its application is seen stopped).
  Every tracked session's id is its key and is safe to name a unit and a file, and Heroic only
  ever has its own stable id, provided the records found at the start were written so.
\<close>

theorem bridge_never_adds_a_second_session:
  assumes "\<forall>er\<in>set ers. order_ok (fst er)" and "written_records records"
  shows "finite (dom (sessions (bridge_run ers records w)))
    \<and> (\<forall>before later. ers = before @ later \<longrightarrow>
         card (dom (sessions (bridge_run ers records w)))
           \<le> max 1 (card (dom (sessions (bridge_run before records w)))))
    \<and> (card (dom (load_managed_sessions records Map.empty)) \<le> 1 \<longrightarrow>
         card (dom (sessions (bridge_run ers records w))) \<le> 1)
    \<and> (\<forall>i m. sessions (bridge_run ers records w) i = Some m \<longrightarrow>
         as_id (ms_session m) = i \<and> (\<exists>p. managed_session_path e i = Inr p)
         \<and> (as_source_id (ms_session m) = HEROIC \<longrightarrow> i = HEROIC_SESSION_ID))"
proof -
  have t: "tracked (bridge_run ers records w)" using run_tracked[OF assms] .
  have split: "session_count (bridge_run ers records w) \<le> max 1 (session_count (bridge_run before records w))"
    if "ers = before @ later" for before later
    using run_keeps(2)[of later "bridge_run before records w"] run_tracked[of before records w] assms that
    by simp
  from split[of "[]" ers] have "session_count (bridge_run ers records w) \<le> 1"
    if "card (dom (load_managed_sessions records Map.empty)) \<le> 1"
    using that by (simp add: bridge_start_def)
  with t split show ?thesis by (auto simp: tracked_def managed_session_path_def)
qed

theorem bridge_never_adds_a_second_session_witness:
  "sessions (bridge_run [] heroic_records [HEROIC_UNIT_NAME]) HEROIC_SESSION_ID = Some heroic_managed
   \<and> sessions (bridge_run [(unit_env, StopActiveApplicationSession)] heroic_records [HEROIC_UNIT_NAME]) = Map.empty
   \<and> sessions (bridge_run [(unit_env, heroic_request)] [] []) HEROIC_SESSION_ID = Some heroic_managed
   \<and> card (dom (sessions (bridge_run [(unit_env, heroic_request)] [] []))) \<le> 1
   \<and> (\<exists>p. managed_session_path unit_env HEROIC_SESSION_ID = Inr p)"
proof -
  have tracked: "sessions (bridge_run [(unit_env, heroic_request)] [] []) HEROIC_SESSION_ID = Some heroic_managed"
    by (simp only: heroic_run) simp
  note here = bridge_never_adds_a_second_session[of "[(unit_env, heroic_request)]" "[]" "[]" unit_env]
  have "card (dom (sessions (bridge_run [(unit_env, heroic_request)] [] []))) \<le> 1"
    using here unit_env_order by simp
  moreover have "\<exists>p. managed_session_path unit_env HEROIC_SESSION_ID = Inr p"
    using here unit_env_order tracked by simp
  moreover have "sessions (bridge_run [(unit_env, StopActiveApplicationSession)] heroic_records [HEROIC_UNIT_NAME]) = Map.empty"
    using heroic_stopped by (simp add: heroic_records_start bridge_step_def del: handle_request.simps)
  ultimately show ?thesis using tracked by (simp add: heroic_records_start del: fold_simps(2))
qed

text \<open>
  C4: a tracked application is never lost while it may be running: after any run, from whatever
  records, a request that leaves a session untracked did so after a check of that session's unit
  answered that nothing of it runs; a failing or unanswered check keeps the session tracked, so
  it stays closable.
\<close>

theorem untracked_only_when_seen_stopped:
  assumes "\<forall>er\<in>set ers. order_ok (fst er)" and "written_records records" and "order_ok e"
    and "st = bridge_run ers records w"
    and "sessions st i = Some m" and "handle_request e req st = (resp, st')"
    and "sessions st' i = None"
  shows "\<exists>w1 w2. application_is_running (host e) (ms_unit_name m) w1 = (Inr False, w2)"
proof -
  have t: "tracked st" using run_tracked[OF assms(1,2)] assms(4) by simp
  have drops: "seen_stopped (host e) (ms_unit_name m)" if "only_drops e st st'"
    using that assms(5,7) by (auto simp: only_drops_def)
  have "seen_stopped (host e) (ms_unit_name m)"
  proof (cases "launched req")
    case None
    then show ?thesis by (rule drops[OF other_request_drops[OF assms(3) t _ assms(6)]])
  next
    case (Some s)
    from request_launches[OF assms(3) t this assms(6)] show ?thesis
      using drops accepted_keeps[OF _ assms(5,7)] by blast
  qed
  then show ?thesis by (simp add: seen_stopped_def)
qed

theorem untracked_only_when_seen_stopped_witness:
  "sessions (snd (handle_request unit_env StopActiveApplicationSession
      (bridge_run [(unit_env, heroic_request)] [] []))) HEROIC_SESSION_ID = None
   \<and> (\<exists>w1 w2. application_is_running unit_host (Some HEROIC_UNIT_NAME) w1 = (Inr False, w2))"
proof -
  let ?st = "\<lparr>sessions = [HEROIC_SESSION_ID \<mapsto> heroic_managed], world = [HEROIC_UNIT_NAME]\<rparr>"
  have h: "host unit_env = unit_host" "ms_unit_name heroic_managed = Some HEROIC_UNIT_NAME"
    by (simp_all add: unit_env_def heroic_managed_def)
  obtain resp st' where r: "handle_request unit_env StopActiveApplicationSession ?st = (resp, st')" by force
  have gone: "sessions st' HEROIC_SESSION_ID = None" using heroic_stopped r by (simp del: handle_request.simps)
  have "\<exists>w1 w2. application_is_running (host unit_env) (ms_unit_name heroic_managed) w1 = (Inr False, w2)"
    by (rule untracked_only_when_seen_stopped[where ers = "[(unit_env, heroic_request)]" and w = "[]",
          OF _ written_records_Nil unit_env_order heroic_run[symmetric] _ r])
       (use gone unit_env_order in simp_all)
  with gone r heroic_run h show ?thesis by (simp del: application_is_running.simps handle_request.simps fold_simps)
qed

text \<open>
  An accepted launch is afterwards tracked, under the id it answered with, and is the one tracked
  session of a bridge that found at most one record; a rejected one (a bad id, a previous
  application that would not stop, a failed start, a record that could not be written) tracks
  nothing new.
\<close>

lemma launch_is_the_tracked_result:
  assumes "\<forall>er\<in>set ers. order_ok (fst er)" and "written_records records" and "order_ok e"
    and "launched req = Some s" and "handle_request e req (bridge_run ers records w) = (resp, st')"
  shows "(\<exists>m. resp = LaunchAccepted s \<and> ms_session m = s \<and> sessions st' (as_id s) = Some m
        \<and> (card (dom (load_managed_sessions records Map.empty)) \<le> 1 \<longrightarrow> sessions st' = [as_id s \<mapsto> m]))
    \<or> (\<exists>c msg. resp = Error c msg \<and> sessions st' \<subseteq>\<^sub>m sessions (bridge_run ers records w))"
proof -
  let ?st = "bridge_run ers records w"
  have t: "tracked ?st" by (rule run_tracked[OF assms(1,2)])
  have count: "session_count ?st \<le> 1" if "card (dom (load_managed_sessions records Map.empty)) \<le> 1"
    using run_keeps(2)[OF assms(1) start_tracked[OF assms(2)], of w] that
    by (simp add: bridge_start_def)
  from request_launches[OF assms(3) t assms(4,5)] show ?thesis
  proof (elim disjE exE conjE)
    fix m
    assume "resp = LaunchAccepted s" and m: "accepted e s m ?st st'"
    with accepted_only[OF t count m] show ?thesis by (auto simp: accepted_def)
  qed (simp add: only_drops_def)
qed

end
