(* ===== verification/Daemon_Activity.thy ===== *)
theory Daemon_Activity
  imports Sql_Tables Protocol_Bridge
begin

text \<open>
  The daemon's record of plays, \<^verbatim>\<open>hearthdeck-daemon/src/activity.rs\<close>, over the tables
  \<^verbatim>\<open>launch_activity\<close> and \<^verbatim>\<open>play_sessions\<close> of \<^verbatim>\<open>database.rs\<close>. The snapshot column holds the
  entry itself; instants are numbers, one per SQL statement; the duration SQLite computes from
  two of them is a parameter. A storage fault is an optional error message per statement; a
  transaction that fails leaves the tables as they were.
\<close>

datatype session_outcome = PlayRunning | PlayClosed | PlayUnclosed

record activity_row =
  la_item_id :: string
  la_snapshot :: activity_entry
  la_last_launched_at :: nat
  la_launch_count :: nat

record play_row =
  ps_session_id :: string
  ps_item_id :: string
  ps_source_id :: string
  ps_started_at :: nat
  ps_ended_at :: "nat option"
  ps_outcome :: session_outcome
  ps_duration_seconds :: "int option"

record activity_db =
  launch_activity :: "activity_row list"
  play_sessions :: "play_row list"

section \<open>Statements\<close>

definition relaunch :: "activity_row \<Rightarrow> activity_row \<Rightarrow> activity_row" where
  "relaunch old excluded =
     old\<lparr>la_snapshot := la_snapshot excluded, la_last_launched_at := la_last_launched_at excluded,
         la_launch_count := la_launch_count old + 1\<rparr>"

definition keep_old :: "play_row \<Rightarrow> play_row \<Rightarrow> play_row" where
  "keep_old old excluded = old"

definition session_started ::
  "string option \<Rightarrow> nat \<Rightarrow> nat \<Rightarrow> activity_entry \<Rightarrow> application_session \<Rightarrow> activity_db
     \<Rightarrow> (string + unit) \<times> activity_db" where
  "session_started fault now now' entry session db =
     (case fault of
        Some error \<Rightarrow> (Inl error, db)
      | None \<Rightarrow>
          (Inr (),
           db\<lparr>launch_activity := upsert_row la_item_id relaunch
                \<lparr>la_item_id = ae_id entry, la_snapshot = entry, la_last_launched_at = now,
                 la_launch_count = 1\<rparr> (launch_activity db),
              play_sessions := upsert_row ps_session_id keep_old
                \<lparr>ps_session_id = as_id session, ps_item_id = ae_id entry,
                 ps_source_id = as_source_id session, ps_started_at = now', ps_ended_at = None,
                 ps_outcome = PlayRunning, ps_duration_seconds = None\<rparr> (play_sessions db)\<rparr>))"

definition is_running :: "play_row \<Rightarrow> bool" where
  "is_running r \<longleftrightarrow> ps_outcome r = PlayRunning"

definition close_row :: "(nat \<Rightarrow> nat \<Rightarrow> int) \<Rightarrow> session_outcome \<Rightarrow> nat \<Rightarrow> play_row \<Rightarrow> play_row" where
  "close_row elapsed how now r =
     r\<lparr>ps_ended_at := Some now, ps_outcome := how,
       ps_duration_seconds := Some (elapsed (ps_started_at r) now)\<rparr>"

text \<open>The two statements of a close may each fail; the second runs after the first was kept.\<close>

definition session_ended ::
  "string option \<times> string option \<Rightarrow> (nat \<Rightarrow> nat \<Rightarrow> int) \<Rightarrow> nat \<Rightarrow> string \<Rightarrow> session_outcome \<Rightarrow> activity_db
     \<Rightarrow> (string + string option) \<times> activity_db" where
  "session_ended faults elapsed now session_id how db =
     (case fst faults of
        Some error \<Rightarrow> (Inl error, db)
      | None \<Rightarrow>
          let open_play = (\<lambda>r. ps_session_id r = session_id \<and> is_running r) in
          (case find open_play (play_sessions db) of
             None \<Rightarrow> (Inr None, db)
           | Some closed \<Rightarrow>
               let db = db\<lparr>play_sessions :=
                 update_rows open_play (close_row elapsed how now) (play_sessions db)\<rparr> in
               (case snd faults of
                  Some error \<Rightarrow> (Inl error, db)
                | None \<Rightarrow>
                    (Inr (map_option (\<lambda>a. ae_source (la_snapshot a))
                       (lookup la_item_id (ps_item_id closed) (launch_activity db))), db))))"

definition running_sessions :: "activity_db \<Rightarrow> string list" where
  "running_sessions db =
     map ps_session_id (sort_key ps_started_at (filter is_running (play_sessions db)))"

definition sweep_running_sessions :: "activity_db \<Rightarrow> nat \<times> activity_db" where
  "sweep_running_sessions db =
     (length (filter is_running (play_sessions db)),
      db\<lparr>play_sessions := update_rows is_running (\<lambda>r. r\<lparr>ps_outcome := PlayUnclosed\<rparr>) (play_sessions db)\<rparr>)"

definition GAME :: string where "GAME = ''game''"

definition clamp_limit :: "nat \<Rightarrow> nat" where
  "clamp_limit limit = (if limit < 1 then 1 else if 50 < limit then 50 else limit)"

definition recent_activity_from_row :: "activity_row \<Rightarrow> recent_activity" where
  "recent_activity_from_row r =
     \<lparr>ra_entry = la_snapshot r, ra_last_launched_at = la_last_launched_at r,
      ra_launch_count = la_launch_count r\<rparr>"

definition is_game :: "activity_row \<Rightarrow> bool" where
  "is_game r \<longleftrightarrow> map_option (map ascii_lower) (ae_kind (la_snapshot r)) = Some GAME"

definition recent_games :: "nat \<Rightarrow> activity_db \<Rightarrow> recent_activity list" where
  "recent_games limit db =
     map recent_activity_from_row
       (take (clamp_limit limit)
         (sort_key (\<lambda>r. - int (la_last_launched_at r)) (filter is_game (launch_activity db))))"

section \<open>Invariant\<close>

text \<open>
  Keys are unique, every play is of an item that was launched, and only a closed play has an
  end and a duration.
\<close>

definition play_ok :: "string set \<Rightarrow> play_row \<Rightarrow> bool" where
  "play_ok items r \<longleftrightarrow> ps_item_id r \<in> items \<and> (ps_outcome r = PlayClosed \<longleftrightarrow> ps_ended_at r \<noteq> None)
     \<and> (ps_ended_at r = None \<longleftrightarrow> ps_duration_seconds r = None)"

definition activity_ok :: "activity_db \<Rightarrow> bool" where
  "activity_ok db \<longleftrightarrow> keyed la_item_id (launch_activity db) \<and> keyed ps_session_id (play_sessions db)
     \<and> (\<forall>a\<in>set (launch_activity db). ae_id (la_snapshot a) = la_item_id a \<and> 1 \<le> la_launch_count a)
     \<and> (\<forall>r\<in>set (play_sessions db). play_ok (la_item_id ` set (launch_activity db)) r)"

lemma keyed_unique: "keyed key t \<Longrightarrow> r \<in> set t \<Longrightarrow> r' \<in> set t \<Longrightarrow> key r = key r' \<Longrightarrow> r = r'"
  by (meson distinct_map inj_onD)

lemma set_upsert_keep:
  "set (upsert_row ps_session_id keep_old r t) = (if ps_session_id r \<in> ps_session_id ` set t then set t else insert r (set t))"
  by (auto simp: upsert_row_def keep_old_def)

lemma upsert_keep_present: "ps_session_id r \<in> ps_session_id ` set t \<Longrightarrow> upsert_row ps_session_id keep_old r t = t"
  by (simp add: upsert_row_def keep_old_def map_idI)

lemma upsert_items: "la_item_id ` set (upsert_row la_item_id relaunch a t) = insert (la_item_id a) (la_item_id ` set t)"
  using arg_cong[OF map_key_upsert[of la_item_id a relaunch t], of set] by (auto simp: relaunch_def)

lemma session_started_ok [inv_intros]:
  assumes "activity_ok db" and "session_started fault now now' entry s db = (r, db')"
  shows "activity_ok db'"
proof (cases fault)
  case None
  let ?row = "\<lparr>la_item_id = ae_id entry, la_snapshot = entry, la_last_launched_at = now, la_launch_count = 1\<rparr>"
  have db': "launch_activity db' = upsert_row la_item_id relaunch ?row (launch_activity db)"
    "play_sessions db' = upsert_row ps_session_id keep_old
                \<lparr>ps_session_id = as_id s, ps_item_id = ae_id entry,
                 ps_source_id = as_source_id s, ps_started_at = now', ps_ended_at = None,
                 ps_outcome = PlayRunning, ps_duration_seconds = None\<rparr> (play_sessions db)"
    using assms(2) None by (auto simp: session_started_def)
  have "keyed la_item_id (launch_activity db')"
    unfolding db' using assms(1) by (intro keyed_upsert) (auto simp: relaunch_def activity_ok_def)
  moreover have "keyed ps_session_id (play_sessions db')"
    unfolding db' using assms(1) by (intro keyed_upsert) (auto simp: keep_old_def activity_ok_def)
  moreover have "\<forall>a\<in>set (launch_activity db'). ae_id (la_snapshot a) = la_item_id a \<and> 1 \<le> la_launch_count a"
    unfolding db' using assms(1) by (auto simp: upsert_row_def relaunch_def activity_ok_def split: if_splits)
  moreover have "\<forall>r\<in>set (play_sessions db'). play_ok (la_item_id ` set (launch_activity db')) r"
    using assms(1) unfolding db' upsert_items set_upsert_keep by (auto simp: activity_ok_def play_ok_def)
  ultimately show ?thesis unfolding activity_ok_def by blast
qed (use assms in \<open>simp add: session_started_def\<close>)

lemma update_rows_in: "r \<in> set (update_rows P f t) \<Longrightarrow> \<exists>r0\<in>set t. r = (if P r0 then f r0 else r0)"
  by (auto simp: update_rows_def)

lemma session_ended_db:
  assumes "session_ended faults elapsed now i how db = (r, db')"
  shows "launch_activity db' = launch_activity db
    \<and> (play_sessions db' = play_sessions db \<or> play_sessions db' =
        update_rows (\<lambda>r. ps_session_id r = i \<and> is_running r) (close_row elapsed how now) (play_sessions db))"
  using assms by (auto simp: session_ended_def Let_def split: option.splits)

lemma session_ended_ok [inv_intros]:
  assumes "activity_ok db" and "session_ended faults elapsed now i PlayClosed db = (r, db')"
  shows "activity_ok db'"
proof -
  from session_ended_db[OF assms(2)] show ?thesis
  proof (elim conjE disjE)
    assume l: "launch_activity db' = launch_activity db" and
      p: "play_sessions db' = update_rows (\<lambda>r. ps_session_id r = i \<and> is_running r)
          (close_row elapsed PlayClosed now) (play_sessions db)"
    have keyed: "keyed ps_session_id (play_sessions db')"
      unfolding p using assms(1) by (subst map_key_update) (auto simp: close_row_def activity_ok_def)
    have "\<forall>r\<in>set (play_sessions db'). play_ok (la_item_id ` set (launch_activity db')) r"
      using assms(1) unfolding p l by (auto simp: activity_ok_def close_row_def play_ok_def dest!: update_rows_in)
    with keyed assms(1) l show ?thesis unfolding activity_ok_def by simp
  qed (use assms(1) in \<open>simp add: activity_ok_def\<close>)
qed

lemma sweep_ok [inv_intros]: "activity_ok db \<Longrightarrow> activity_ok (snd (sweep_running_sessions db))"
proof -
  assume ok: "activity_ok db"
  let ?ps = "update_rows is_running (\<lambda>r. r\<lparr>ps_outcome := PlayUnclosed\<rparr>) (play_sessions db)"
  have keyed: "keyed ps_session_id ?ps" using ok by (subst map_key_update) (auto simp: activity_ok_def)
  have rows: "play_ok (la_item_id ` set (launch_activity db)) r" if "r \<in> set ?ps" for r
    using update_rows_in[OF that] ok by (force simp: activity_ok_def play_ok_def is_running_def)
  show ?thesis
    using ok keyed rows by (simp add: sweep_running_sessions_def activity_ok_def)
qed

lemma sweep_none_running: "running_sessions (snd (sweep_running_sessions db)) = []"
proof -
  have "filter is_running (update_rows is_running (\<lambda>r. r\<lparr>ps_outcome := PlayUnclosed\<rparr>) t) = []" for t
    by (induction t) (auto simp: update_rows_def is_running_def)
  then show ?thesis by (simp add: running_sessions_def sweep_running_sessions_def)
qed

end
