(* ===== verification/Daemon_Sessions.thy ===== *)
theory Daemon_Sessions
  imports Daemon_Activity
begin

text \<open>
  The session service of the daemon, \<^verbatim>\<open>hearthdeck-daemon/src/sessions.rs\<close>: launches and stops
  through the bridge, and the watcher that closes plays whose application is gone. The state is
  the play tables, the discovery requests made and the events broadcast, both in order; the
  environment of a call is what the bridge answers, the clock and the storage faults it meets.
\<close>

datatype launch_error =
    LaunchTransport string | LaunchRejected bridge_error_code string | LaunchUnexpected bridge_response

datatype control_error =
    ControlTransport string | ControlRejected bridge_error_code string
  | UnexpectedLookup | UnexpectedStop

datatype stop_target = ActiveTarget | SessionTarget string

record session_env =
  bridge :: "bridge_request \<Rightarrow> string + bridge_response"
  started_at :: nat
  play_started_at :: nat
  ended_at :: "string \<Rightarrow> nat"
  elapsed :: "nat \<Rightarrow> nat \<Rightarrow> int"
  started_fault :: "string option"
  ended_faults :: "string \<Rightarrow> string option \<times> string option"
  listing_fault :: "string option"
  has_discovery :: bool

record daemon =
  d_activity :: activity_db
  d_requests :: "string list"
  d_events :: "server_event list"

section \<open>Operations\<close>

definition SessionService_active :: "session_env \<Rightarrow> control_error + application_session option" where
  "SessionService_active e =
     (case bridge e ActiveApplicationSession of
        Inl error \<Rightarrow> Inl (ControlTransport error)
      | Inr (ApplicationSession session) \<Rightarrow> Inr session
      | Inr _ \<Rightarrow> Inl UnexpectedLookup)"

definition SessionService_finished :: "session_env \<Rightarrow> string \<Rightarrow> daemon \<Rightarrow> daemon" where
  "SessionService_finished e session_id d =
     (case session_ended (ended_faults e session_id) (elapsed e) (ended_at e session_id) session_id
             PlayClosed (d_activity d) of
        (Inr None, db) \<Rightarrow> d\<lparr>d_activity := db\<rparr>
      | (r, db) \<Rightarrow>
          let source = (case r of Inr s \<Rightarrow> s | Inl _ \<Rightarrow> None) in
          d\<lparr>d_activity := db,
            d_requests := d_requests d @ (case source of
               Some s \<Rightarrow> if has_discovery e then [s] else [] | None \<Rightarrow> []),
            d_events := d_events d @ [ApplicationSessionChanged None]\<rparr>)"

definition SessionService_stop :: "session_env \<Rightarrow> stop_target \<Rightarrow> daemon \<Rightarrow> (control_error + unit) \<times> daemon" where
  "SessionService_stop e target d =
     (let request = (case target of
            ActiveTarget \<Rightarrow> StopActiveApplicationSession
          | SessionTarget i \<Rightarrow> StopApplicationSession i) in
      case bridge e request of
        Inl error \<Rightarrow> (Inl (ControlTransport error), d)
      | Inr (StopAccepted session_id) \<Rightarrow>
          (Inr (), SessionService_finished e
             (case target of ActiveTarget \<Rightarrow> session_id | SessionTarget i \<Rightarrow> i) d)
      | Inr (Error code msg) \<Rightarrow> (Inl (ControlRejected code msg), d)
      | Inr _ \<Rightarrow> (Inl UnexpectedStop, d))"

definition SessionService_launch ::
  "session_env \<Rightarrow> bridge_request \<Rightarrow> activity_entry \<Rightarrow> daemon \<Rightarrow> (launch_error + application_session) \<times> daemon" where
  "SessionService_launch e request entry d =
     (case bridge e request of
        Inl error \<Rightarrow> (Inl (LaunchTransport error), d)
      | Inr (LaunchAccepted session) \<Rightarrow>
          (Inr session,
           d\<lparr>d_activity := snd (session_started (started_fault e) (started_at e) (play_started_at e)
               entry session (d_activity d)),
             d_events := d_events d @ [ApplicationSessionChanged (Some session)]\<rparr>)
      | Inr (Error code msg) \<Rightarrow> (Inl (LaunchRejected code msg), d)
      | Inr other \<Rightarrow> (Inl (LaunchUnexpected other), d))"

definition finished_sessions :: "string list \<Rightarrow> string option \<Rightarrow> string list" where
  "finished_sessions running act = filter (\<lambda>i. Some i \<noteq> act) running"

definition SessionService_reconcile :: "session_env \<Rightarrow> daemon \<Rightarrow> daemon" where
  "SessionService_reconcile e d =
     (case listing_fault e of
        Some _ \<Rightarrow> d
      | None \<Rightarrow>
          let running = running_sessions (d_activity d) in
          if running = [] then d
          else case SessionService_active e of
            Inl _ \<Rightarrow> d
          | Inr session \<Rightarrow>
              fold (SessionService_finished e) (finished_sessions running (map_option as_id session)) d)"

section \<open>Plays are closed once\<close>

text \<open>Later versions of a row: the same play, and the same row once it was closed.\<close>

definition continues :: "play_row \<Rightarrow> play_row \<Rightarrow> bool" where
  "continues r r' \<longleftrightarrow> ps_session_id r' = ps_session_id r \<and> ps_item_id r' = ps_item_id r
     \<and> ps_source_id r' = ps_source_id r \<and> ps_started_at r' = ps_started_at r
     \<and> (is_running r \<or> r' = r)"

definition history :: "play_row list \<Rightarrow> play_row list \<Rightarrow> bool" where
  "history t t' \<longleftrightarrow> length t \<le> length t' \<and> (\<forall>k<length t. continues (t ! k) (t' ! k))"

lemma continues_refl [simp]: "continues r r"
  by (simp add: continues_def)

lemma continues_trans: "continues a b \<Longrightarrow> continues b c \<Longrightarrow> continues a c"
  by (auto simp: continues_def)

lemma history_refl [simp]: "history t t"
  by (simp add: history_def)

lemma history_append: "history t (t @ u)"
  by (simp add: history_def nth_append)

lemma history_update:
  "(\<And>r. P r \<Longrightarrow> continues r (f r)) \<Longrightarrow> history t (update_rows P f t)"
  by (simp add: history_def update_rows_def)

lemma history_trans: "history a b \<Longrightarrow> history b c \<Longrightarrow> history a c"
  unfolding history_def by (meson continues_trans order.strict_trans2 order.trans)

lemma started_history: "history (play_sessions db) (play_sessions (snd (session_started f n n' en s db)))"
  by (auto simp: session_started_def upsert_row_def keep_old_def map_idI history_append split: option.split)

lemma close_continues: "is_running r \<Longrightarrow> continues r (close_row el how now r)"
  by (simp add: continues_def close_row_def)

lemma ended_history: "history (play_sessions db) (play_sessions (snd (session_ended f el n i how db)))"
proof -
  obtain r db' where r: "session_ended f el n i how db = (r, db')" by force
  have "history (play_sessions db) (update_rows (\<lambda>r. ps_session_id r = i \<and> is_running r) (close_row el how n) (play_sessions db))"
    by (rule history_update) (simp add: close_continues)
  with session_ended_db[OF r] r show ?thesis by auto
qed

lemma finished_activity:
  "d_activity (SessionService_finished e i d)
     = snd (session_ended (ended_faults e i) (elapsed e) (ended_at e i) i PlayClosed (d_activity d))"
  by (auto simp: SessionService_finished_def Let_def split: prod.splits sum.splits option.splits)

lemma finished_history: "history (play_sessions (d_activity d)) (play_sessions (d_activity (SessionService_finished e i d)))"
  by (simp add: finished_activity ended_history)

lemma finished_ok [inv_intros]:
  "activity_ok (d_activity d) \<Longrightarrow> activity_ok (d_activity (SessionService_finished e i d))"
  unfolding finished_activity by (erule inv_intros) (rule prod.collapse[symmetric])

section \<open>The service as a machine\<close>

datatype service_op =
  Launch bridge_request activity_entry | Stop stop_target | Reconcile | Sweep

fun service_step :: "session_env \<times> service_op \<Rightarrow> daemon \<Rightarrow> daemon" where
  "service_step (e, Launch request entry) d = snd (SessionService_launch e request entry d)"
| "service_step (e, Stop target) d = snd (SessionService_stop e target d)"
| "service_step (e, Reconcile) d = SessionService_reconcile e d"
| "service_step (e, Sweep) d = d\<lparr>d_activity := snd (sweep_running_sessions (d_activity d))\<rparr>"

lemma fold_finished:
  assumes "activity_ok (d_activity d)"
  shows "activity_ok (d_activity (fold (SessionService_finished e) is d))
    \<and> history (play_sessions (d_activity d)) (play_sessions (d_activity (fold (SessionService_finished e) is d)))"
  using assms
proof (induction "is" arbitrary: d)
  case (Cons i "is")
  have "history (play_sessions (d_activity d)) (play_sessions (d_activity (SessionService_finished e i d)))"
    by (rule finished_history)
  with Cons.IH[OF finished_ok[OF Cons.prems], of e i] show ?case by (auto intro: history_trans)
qed simp

lemma service_step_keeps:
  assumes "activity_ok (d_activity d)"
  shows "activity_ok (d_activity (service_step eo d))
    \<and> history (play_sessions (d_activity d)) (play_sessions (d_activity (service_step eo d)))"
proof -
  have started: "activity_ok (snd (session_started f n n' en s (d_activity d)))" for f n n' en s
    using session_started_ok[OF assms] by (metis prod.collapse)
  have sweep: "history (play_sessions (d_activity d))
      (play_sessions (snd (sweep_running_sessions (d_activity d))))"
    unfolding sweep_running_sessions_def by (auto simp: continues_def intro!: history_update)
  show ?thesis
    using assms started started_history finished_ok finished_history fold_finished sweep sweep_ok
    by (cases "(eo, d)" rule: service_step.cases)
       (auto simp: SessionService_launch_def SessionService_stop_def SessionService_reconcile_def Let_def
          split: sum.splits bridge_response.splits option.splits)
qed

definition Daemon_start :: daemon where
  "Daemon_start = \<lparr>d_activity = \<lparr>launch_activity = [], play_sessions = []\<rparr>, d_requests = [], d_events = []\<rparr>"

lemma start_ok: "activity_ok (d_activity Daemon_start)"
  by (simp add: Daemon_start_def activity_ok_def)

interpretation session_service: machine Daemon_start service_step "\<lambda>_ _. True" "\<lambda>d. activity_ok (d_activity d)"
  by unfold_locales (simp_all add: start_ok service_step_keeps)

lemma always_steps: "steps_ok (\<lambda>_ _. True) service_step ops d"
  by (induction ops arbitrary: d) simp_all

lemma run_history:
  "activity_ok (d_activity d) \<Longrightarrow>
   history (play_sessions (d_activity d)) (play_sessions (d_activity (fold service_step ops d)))"
proof (induction ops arbitrary: d)
  case (Cons eo ops)
  from service_step_keeps[OF Cons.prems, of eo] Cons.IH[of "service_step eo d"] show ?case
    by (auto intro: history_trans)
qed simp

lemma run_ok_db: "activity_ok (d_activity (fold service_step ops Daemon_start))"
  by (rule session_service.steps_inv[OF always_steps])

text \<open>
  C7: the play journal is append-only and a play is closed once: after any sequence of launches,
  stops, watcher rounds and restarts, every recorded play is still there with its item, source
  and start, and one that was already closed or given up is there unchanged, so no second close
  can move its end or duration.
\<close>

theorem finished_play_is_final:
  assumes "d = fold service_step before Daemon_start" and "r \<in> set (play_sessions (d_activity d))"
  shows "\<exists>r'\<in>set (play_sessions (d_activity (fold service_step ops d))).
    ps_session_id r' = ps_session_id r \<and> ps_item_id r' = ps_item_id r \<and> ps_source_id r' = ps_source_id r
    \<and> ps_started_at r' = ps_started_at r \<and> (ps_outcome r \<noteq> PlayRunning \<longrightarrow> r' = r)"
proof -
  have "activity_ok (d_activity d)"
    unfolding assms(1) by (rule run_ok_db)
  note h = run_history[OF this, of ops]
  obtain k where "k < length (play_sessions (d_activity d))" "r = play_sessions (d_activity d) ! k"
    using assms(2) by (auto simp: in_set_conv_nth)
  with h have "play_sessions (d_activity (fold service_step ops d)) ! k
      \<in> set (play_sessions (d_activity (fold service_step ops d)))"
    "continues r (play_sessions (d_activity (fold service_step ops d)) ! k)"
    by (auto simp: history_def)
  then show ?thesis by (auto simp: continues_def is_running_def)
qed

text \<open>A bridge that accepts every launch and has nothing running afterwards.\<close>

definition demo_session_env :: "nat \<Rightarrow> session_env" where
  "demo_session_env t = \<lparr>
     bridge = \<lambda>req. (case req of
         LaunchApplication src a i _ \<Rightarrow> Inr (LaunchAccepted
           \<lparr>as_id = i, as_source_id = src, as_application_id = a, as_state = application_session_state.Running\<rparr>)
       | ActiveApplicationSession \<Rightarrow> Inr (ApplicationSession None)
       | _ \<Rightarrow> Inl ''unavailable''),
     started_at = t, play_started_at = t, ended_at = \<lambda>_. t, elapsed = \<lambda>a b. int b - int a,
     started_fault = None, ended_faults = \<lambda>_. (None, None), listing_fault = None, has_discovery = True\<rparr>"

definition demo_launch :: service_op where
  "demo_launch = Launch (LaunchApplication DESKTOP_APPS ''a.desktop'' ''s1'' input_profile.Native)
     \<lparr>ae_id = ''hearthdeck:a'', ae_title = ''A'', ae_icon = None, ae_categories = [], ae_kind = Some ''game'',
      ae_source = ''desktop-apps'', ae_metadata = JNull\<rparr>"

definition demo_running :: daemon where
  "demo_running = fold service_step [(demo_session_env 5, demo_launch)] Daemon_start"

definition demo_finished :: daemon where
  "demo_finished = fold service_step
     [(demo_session_env 5, demo_launch), (demo_session_env 65, Reconcile)] Daemon_start"

lemmas service_eval =
  demo_session_env_def demo_launch_def Daemon_start_def SessionService_launch_def session_started_def
  upsert_row_def SessionService_reconcile_def SessionService_active_def SessionService_finished_def
  session_ended_def running_sessions_def is_running_def finished_sessions_def update_rows_def
  close_row_def lookup_def Let_def keep_old_def

definition closed_demo_row :: play_row where
  "closed_demo_row = \<lparr>ps_session_id = ''s1'', ps_item_id = ''hearthdeck:a'', ps_source_id = ''desktop-apps'',
     ps_started_at = 5, ps_ended_at = Some 65, ps_outcome = PlayClosed, ps_duration_seconds = Some 60\<rparr>"

lemma demo_finished_plays: "play_sessions (d_activity demo_finished) = [closed_demo_row]"
  by (simp add: demo_finished_def service_eval closed_demo_row_def DESKTOP_APPS_def)

theorem finished_play_is_final_witness:
  "play_sessions (d_activity demo_finished) = [closed_demo_row]
   \<and> closed_demo_row \<in> set (play_sessions (d_activity (fold service_step
        [(demo_session_env 70, demo_launch), (demo_session_env 90, Stop (SessionTarget ''s1'')),
         (demo_session_env 95, Reconcile)] demo_finished)))"
proof -
  have "closed_demo_row \<in> set (play_sessions (d_activity demo_finished))" by (simp add: demo_finished_plays)
  note final = finished_play_is_final[OF demo_finished_def this]
  have "ps_outcome closed_demo_row \<noteq> PlayRunning" by (simp add: closed_demo_row_def)
  then have "closed_demo_row \<in> set (play_sessions (d_activity (fold service_step ops demo_finished)))" for ops
    using final[of ops] by auto
  then show ?thesis using demo_finished_plays by blast
qed

section \<open>The watcher\<close>

definition play_source :: "activity_db \<Rightarrow> string \<Rightarrow> string option" where
  "play_source db i =
     (case lookup ps_session_id i (play_sessions db) of
        None \<Rightarrow> None
      | Some r \<Rightarrow> map_option (\<lambda>a. ae_source (la_snapshot a)) (lookup la_item_id (ps_item_id r) (launch_activity db)))"

definition close_play :: "session_env \<Rightarrow> string \<Rightarrow> activity_db \<Rightarrow> activity_db" where
  "close_play e i db = db\<lparr>play_sessions := update_rows (\<lambda>r. ps_session_id r = i \<and> is_running r)
     (close_row (elapsed e) PlayClosed (ended_at e i)) (play_sessions db)\<rparr>"

lemma running_set: "i \<in> set (running_sessions db) \<longleftrightarrow> (\<exists>r\<in>set (play_sessions db). is_running r \<and> ps_session_id r = i)"
  by (auto simp: running_sessions_def)

lemma running_distinct: "activity_ok db \<Longrightarrow> distinct (running_sessions db)"
  by (auto simp: running_sessions_def activity_ok_def distinct_map inj_on_def)

lemma running_close: "running_sessions (close_play e i db) = filter (\<lambda>j. j \<noteq> i) (running_sessions db)"
proof -
  have "filter is_running (update_rows (\<lambda>r. ps_session_id r = i \<and> is_running r)
      (close_row (elapsed e) PlayClosed (ended_at e i)) t)
    = filter (\<lambda>r. ps_session_id r \<noteq> i) (filter is_running t)" for t
    by (induction t) (auto simp: update_rows_def is_running_def close_row_def)
  then show ?thesis
    by (simp add: running_sessions_def close_play_def filter_sort[symmetric] filter_map comp_def)
qed

lemma play_source_close: "play_source (close_play e i db) j = play_source db j"
proof -
  have "lookup ps_session_id j (update_rows (\<lambda>r. ps_session_id r = i \<and> is_running r)
      (close_row (elapsed e) PlayClosed (ended_at e i)) t)
    = map_option (\<lambda>r. if ps_session_id r = i \<and> is_running r
        then close_row (elapsed e) PlayClosed (ended_at e i) r else r) (lookup ps_session_id j t)" for t
    by (rule lookup_update) (simp add: close_row_def)
  then show ?thesis by (simp add: play_source_def close_play_def close_row_def split: option.split)
qed

lemma finished_running:
  assumes "activity_ok (d_activity d)" and "ended_faults e i = (None, None)"
    and "i \<in> set (running_sessions (d_activity d))"
  shows "\<exists>s. play_source (d_activity d) i = Some s \<and> SessionService_finished e i d =
    d\<lparr>d_activity := close_play e i (d_activity d),
      d_requests := d_requests d @ (if has_discovery e then [s] else []),
      d_events := d_events d @ [ApplicationSessionChanged None]\<rparr>"
proof -
  let ?db = "d_activity d"
  obtain r where r: "r \<in> set (play_sessions ?db)" "is_running r" "ps_session_id r = i"
    using assms(3) running_set by blast
  have keyed: "keyed ps_session_id (play_sessions ?db)" and row: "play_ok (la_item_id ` set (launch_activity ?db)) r"
    using assms(1) r(1) by (auto simp: activity_ok_def)
  have found: "find (\<lambda>r. ps_session_id r = i \<and> is_running r) (play_sessions ?db) = Some r"
  proof (cases "find (\<lambda>r. ps_session_id r = i \<and> is_running r) (play_sessions ?db)")
    case None
    with r show ?thesis by (auto simp: find_None_iff)
  next
    case (Some r')
    with find_Some_set[OF Some] keyed_unique[OF keyed] r show ?thesis by auto
  qed
  have look: "lookup ps_session_id i (play_sessions ?db) = Some r"
    using lookup_keyed[OF keyed r(1)] r(3) by simp
  obtain a where a: "lookup la_item_id (ps_item_id r) (launch_activity ?db) = Some a"
    using row lookup_None[of la_item_id "ps_item_id r" "launch_activity ?db"]
    by (cases "lookup la_item_id (ps_item_id r) (launch_activity ?db)") (auto simp: play_ok_def)
  have src: "play_source ?db i = Some (ae_source (la_snapshot a))" by (simp add: play_source_def look a)
  have "session_ended (None, None) (elapsed e) (ended_at e i) i PlayClosed ?db
      = (Inr (Some (ae_source (la_snapshot a))), close_play e i ?db)"
    by (simp add: session_ended_def found a Let_def close_play_def)
  then show ?thesis using src assms(2) by (simp add: SessionService_finished_def Let_def)
qed

lemma finished_fold:
  assumes "activity_ok (d_activity d)" and "ended_faults e = (\<lambda>_. (None, None))"
    and "distinct gone" and "set gone \<subseteq> set (running_sessions (d_activity d))"
  shows "\<exists>sources. map Some sources = map (play_source (d_activity d)) gone \<and>
    running_sessions (d_activity (fold (SessionService_finished e) gone d))
      = filter (\<lambda>j. j \<notin> set gone) (running_sessions (d_activity d)) \<and>
    d_requests (fold (SessionService_finished e) gone d)
      = d_requests d @ (if has_discovery e then sources else []) \<and>
    d_events (fold (SessionService_finished e) gone d)
      = d_events d @ replicate (length gone) (ApplicationSessionChanged None)"
  using assms(1,3,4)
proof (induction gone arbitrary: d)
  case (Cons i gone)
  obtain s where s: "play_source (d_activity d) i = Some s" and
    d1: "SessionService_finished e i d = d\<lparr>d_activity := close_play e i (d_activity d),
      d_requests := d_requests d @ (if has_discovery e then [s] else []),
      d_events := d_events d @ [ApplicationSessionChanged None]\<rparr>"
    using finished_running[OF Cons.prems(1), of e i] Cons.prems(3) assms(2) by auto
  let ?d1 = "SessionService_finished e i d"
  have act: "d_activity ?d1 = close_play e i (d_activity d)" by (simp add: d1)
  have "set gone \<subseteq> set (running_sessions (d_activity ?d1))"
    using Cons.prems(2,3) by (auto simp: act running_close)
  from Cons.IH[OF finished_ok[OF Cons.prems(1)] _ this] Cons.prems(2) obtain sources where IH:
    "map Some sources = map (play_source (d_activity ?d1)) gone"
    "running_sessions (d_activity (fold (SessionService_finished e) gone ?d1))
      = filter (\<lambda>j. j \<notin> set gone) (running_sessions (d_activity ?d1))"
    "d_requests (fold (SessionService_finished e) gone ?d1)
      = d_requests ?d1 @ (if has_discovery e then sources else [])"
    "d_events (fold (SessionService_finished e) gone ?d1)
      = d_events ?d1 @ replicate (length gone) (ApplicationSessionChanged None)"
    by auto
  have "map Some (s # sources) = map (play_source (d_activity d)) (i # gone)"
    using IH(1) s by (simp add: act play_source_close)
  with IH(2-4) show ?case
    by (intro exI[of _ "s # sources"]) (auto simp: d1 running_close act intro!: filter_cong)
qed simp



end
