(* ===== verification/Daemon_Launch.thy ===== *)
theory Daemon_Launch
  imports Daemon_Sessions
begin

text \<open>
  How the daemon turns a catalog item into a launch, \<^verbatim>\<open>hearthdeck-daemon/src/launch.rs\<close>: the
  request it sends to the bridge and the play it records.
\<close>

record launch_plan =
  lp_request :: bridge_request
  lp_activity :: activity_entry

definition heroic_launch_target :: "string \<Rightarrow> (heroic_runner \<times> string) option" where
  "heroic_launch_target launch_id =
     (case split_once (CHR '':'') launch_id of
        None \<Rightarrow> None
      | Some (runner, application_id) \<Rightarrow>
          if application_id = [] then None
          else if runner = ''legendary'' then Some (Legendary, application_id)
          else if runner = ''gog'' then Some (Gog, application_id)
          else None)"

definition stremio_title_target :: "catalog_item \<Rightarrow> (string \<times> stremio_media_type) option" where
  "stremio_title_target item =
     (case json_get ''discovery'' (ci_metadata item) of
        None \<Rightarrow> None
      | Some discovery \<Rightarrow>
          (case json_get ''video_id'' discovery of
             None \<Rightarrow> None
           | Some v \<Rightarrow>
               (case option_filter (\<lambda>i. i \<noteq> []) (map_option trim (json_str v)) of
                  None \<Rightarrow> None
                | Some video_id \<Rightarrow>
                    Some (video_id,
                      case json_get ''type'' discovery of
                        Some t \<Rightarrow> if json_str t = Some ''series'' then Series else Movie
                      | None \<Rightarrow> Movie))))"

definition str_values :: "json list \<Rightarrow> string list" where
  "str_values xs = concat (map (\<lambda>x. case json_str x of None \<Rightarrow> [] | Some s \<Rightarrow> [s]) xs)"

definition catalog_activity_entry :: "catalog_item \<Rightarrow> activity_entry" where
  "catalog_activity_entry item =
     \<lparr>ae_id = ''hearthdeck:'' @ ci_id item, ae_title = ci_title item, ae_icon = ci_icon item,
      ae_categories = (case json_get ''categories'' (ci_metadata item) of
         None \<Rightarrow> [] | Some v \<Rightarrow> (case json_array v of None \<Rightarrow> [] | Some xs \<Rightarrow> str_values xs)),
      ae_kind = Some (ci_kind item), ae_source = ci_source_id item, ae_metadata = ci_metadata item\<rparr>"

definition launch_catalog :: "catalog_item \<Rightarrow> string \<Rightarrow> input_profile \<Rightarrow> launch_plan option" where
  "launch_catalog item session_id prof =
     (case ci_launch_id item of
        None \<Rightarrow> None
      | Some launch_id \<Rightarrow>
          let stremio_title = (if ci_source_id item = STREMIO \<or> ci_source_id item = STREMIO_ARRIVALS
                               then stremio_title_target item else None);
              request =
                (if ci_source_id item = HEROIC then
                   map_option (\<lambda>(runner, application_id).
                     LaunchHeroicGame runner application_id session_id prof) (heroic_launch_target launch_id)
                 else case stremio_title of
                   Some (video_id, media_type) \<Rightarrow>
                     Some (LaunchStremioTitle launch_id video_id media_type session_id prof)
                 | None \<Rightarrow> Some (LaunchApplication DESKTOP_APPS launch_id session_id prof)) in
          map_option (\<lambda>request. \<lparr>lp_request = request, lp_activity = catalog_activity_entry item\<rparr>) request)"

section \<open>Properties\<close>

fun heroic_launch_id :: "heroic_runner \<Rightarrow> string \<Rightarrow> string" where
  "heroic_launch_id Legendary a = ''legendary:'' @ a"
| "heroic_launch_id Gog a = ''gog:'' @ a"

text \<open>The launch id of a Heroic game is read back as its runner and application, and nothing else is.\<close>

lemma heroic_target_iff:
  "heroic_launch_target l = Some (r, a) \<longleftrightarrow> a \<noteq> [] \<and> l = heroic_launch_id r a"
proof -
  have once: "split_once (CHR '':'') (''legendary:'' @ a) = Some (''legendary'', a)"
    "split_once (CHR '':'') (''gog:'' @ a) = Some (''gog'', a)" for a
    using split_once_append[of "CHR '':''" "''legendary''" a] split_once_append[of "CHR '':''" "''gog''" a]
    by simp_all
  show ?thesis
  proof
    assume "heroic_launch_target l = Some (r, a)"
    then show "a \<noteq> [] \<and> l = heroic_launch_id r a"
      by (auto simp: heroic_launch_target_def split_once_Some split: option.splits if_splits)
  next
    assume "a \<noteq> [] \<and> l = heroic_launch_id r a"
    then show "heroic_launch_target l = Some (r, a)"
      using once by (cases r) (simp_all add: heroic_launch_target_def)
  qed
qed

text \<open>
  Every planned launch carries the caller's session id and profile and records the item itself;
  the bridge is only ever asked for the desktop, Stremio and Heroic launches, never for a
  free-form source.
\<close>

lemma launch_plan_request:
  assumes "launch_catalog item i prof = Some plan"
  shows "ae_id (lp_activity plan) = ''hearthdeck:'' @ ci_id item \<and> ae_kind (lp_activity plan) = Some (ci_kind item)
    \<and> (\<exists>l. ci_launch_id item = Some l \<and>
        (case lp_request plan of
           LaunchHeroicGame r a i' p \<Rightarrow> i' = i \<and> p = prof \<and> ci_source_id item = HEROIC \<and> l = heroic_launch_id r a
         | LaunchStremioTitle a v m i' p \<Rightarrow> i' = i \<and> p = prof \<and> a = l \<and> v \<noteq> []
             \<and> ci_source_id item \<in> {STREMIO, STREMIO_ARRIVALS}
         | LaunchApplication src a i' p \<Rightarrow> i' = i \<and> p = prof \<and> a = l \<and> src = DESKTOP_APPS \<and> ci_source_id item \<noteq> HEROIC
         | _ \<Rightarrow> False))"
  using assms
  by (auto simp: launch_catalog_def Let_def catalog_activity_entry_def heroic_target_iff stremio_title_target_def
      split: option.splits if_splits)

lemma only_heroic_can_be_refused:
  "ci_launch_id item \<noteq> None \<Longrightarrow> ci_source_id item \<noteq> HEROIC \<Longrightarrow> launch_catalog item i prof \<noteq> None"
  by (auto simp: launch_catalog_def Let_def split: option.splits)

end
