(* ===== verification/Daemon_Auth.thy ===== *)
theory Daemon_Auth
  imports Sql_Tables
begin

text \<open>
  Pairing and authentication, \<^verbatim>\<open>hearthdeck-daemon/src/auth.rs\<close>, over the tables
  \<^verbatim>\<open>pairing_sessions\<close> and \<^verbatim>\<open>paired_clients\<close>. A redemption reads the code's row and then claims
  it with a conditional update; both phases are definitions of their own, because other
  redemptions may run between them. Instants count nanoseconds; the random client id is an
  argument. A stored expiry is one this module wrote, so it parses.
\<close>

record pairing_row =
  pr_code_hash :: string
  pr_expires_at :: nat
  pr_consumed_at :: "nat option"

record client_row =
  cl_id :: string
  cl_name :: string
  cl_token_hash :: string
  cl_created_at :: nat

record auth_db =
  pairing_sessions :: "pairing_row list"
  paired_clients :: "client_row list"

definition CODE_LIFETIME :: nat where "CODE_LIFETIME = 5 * 60 * 10 ^ 9"

text \<open>The deletion is a statement of its own: it stays when the insertion fails.\<close>

definition create_pairing_code :: "nat \<Rightarrow> string \<Rightarrow> auth_db \<Rightarrow> (db_error + nat) \<times> auth_db" where
  "create_pairing_code now code_hash db =
     (let rest = filter (\<lambda>r. \<not> (pr_consumed_at r \<noteq> None \<or> pr_expires_at r < now)) (pairing_sessions db);
          expires_at = now + CODE_LIFETIME in
      case insert_row pr_code_hash
             \<lparr>pr_code_hash = code_hash, pr_expires_at = expires_at, pr_consumed_at = None\<rparr> rest of
        Inl err \<Rightarrow> (Inl err, db\<lparr>pairing_sessions := rest\<rparr>)
      | Inr t \<Rightarrow> (Inr expires_at, db\<lparr>pairing_sessions := t\<rparr>))"

definition code_is_redeemable :: "nat \<Rightarrow> string \<Rightarrow> auth_db \<Rightarrow> bool" where
  "code_is_redeemable now code_hash db =
     (case lookup pr_code_hash code_hash (pairing_sessions db) of
        None \<Rightarrow> False
      | Some row \<Rightarrow> \<not> (pr_consumed_at row \<noteq> None \<or> pr_expires_at row < now))"

definition claim_code ::
  "nat \<Rightarrow> string \<Rightarrow> string \<Rightarrow> string \<Rightarrow> string \<Rightarrow> auth_db \<Rightarrow> (db_error + string option) \<times> auth_db" where
  "claim_code now code_hash client_id client_name token_hash db =
     (let free = (\<lambda>r. pr_code_hash r = code_hash \<and> pr_consumed_at r = None) in
      if length (filter free (pairing_sessions db)) \<noteq> 1 then (Inr None, db)
      else if client_id \<in> cl_id ` set (paired_clients db)
              \<or> token_hash \<in> cl_token_hash ` set (paired_clients db) then (Inl UniqueViolation, db)
      else (Inr (Some client_id),
        db\<lparr>pairing_sessions := update_rows free (\<lambda>r. r\<lparr>pr_consumed_at := Some now\<rparr>) (pairing_sessions db),
           paired_clients := paired_clients db @
             [\<lparr>cl_id = client_id, cl_name = client_name, cl_token_hash = token_hash, cl_created_at = now\<rparr>]\<rparr>))"

definition consume_pairing_code ::
  "nat \<Rightarrow> nat \<Rightarrow> string \<Rightarrow> string \<Rightarrow> string \<Rightarrow> string \<Rightarrow> auth_db \<Rightarrow> (db_error + string option) \<times> auth_db" where
  "consume_pairing_code read_at now code_hash client_id client_name token_hash db =
     (if \<not> code_is_redeemable read_at code_hash db then (Inr None, db)
      else claim_code now code_hash client_id client_name token_hash db)"

definition authenticate :: "string \<Rightarrow> auth_db \<Rightarrow> bool" where
  "authenticate token_hash db \<longleftrightarrow> (\<exists>c\<in>set (paired_clients db). cl_token_hash c = token_hash)"

section \<open>Interleaved redemptions\<close>

text \<open>
  Requests of the API interleave between the read and the claim of a redemption. \<open>passed\<close> holds
  the redemptions whose read succeeded; \<open>created\<close> and \<open>minted\<close> log the codes issued and the
  codes redeemed with the token each redemption registered.
\<close>

record auth_run =
  a_db :: auth_db
  passed :: "(nat \<times> string) list"
  created :: "string list"
  minted :: "(string \<times> string) list"

datatype auth_op =
    CreateCode nat string
  | ReadCode nat nat string
  | ClaimCode nat nat string string string string

fun auth_step :: "auth_op \<Rightarrow> auth_run \<Rightarrow> auth_run" where
  "auth_step (CreateCode now code) s =
     (case create_pairing_code now code (a_db s) of
        (Inl _, db) \<Rightarrow> s\<lparr>a_db := db\<rparr>
      | (Inr _, db) \<Rightarrow> s\<lparr>a_db := db, created := created s @ [code]\<rparr>)"
| "auth_step (ReadCode k now code) s =
     (if code_is_redeemable now code (a_db s) then s\<lparr>passed := (k, code) # passed s\<rparr> else s)"
| "auth_step (ClaimCode k now code client name token) s =
     (if (k, code) \<notin> set (passed s) then s
      else let s = s\<lparr>passed := filter (\<lambda>p. p \<noteq> (k, code)) (passed s)\<rparr> in
      case claim_code now code client name token (a_db s) of
        (Inr (Some _), db) \<Rightarrow> s\<lparr>a_db := db, minted := minted s @ [(code, token)]\<rparr>
      | (_, db) \<Rightarrow> s\<lparr>a_db := db\<rparr>)"

definition auth_start :: auth_run where
  "auth_start = \<lparr>a_db = \<lparr>pairing_sessions = [], paired_clients = []\<rparr>, passed = [], created = [], minted = []\<rparr>"

primrec unconsumed :: "string \<Rightarrow> pairing_row list \<Rightarrow> nat" where
  "unconsumed c [] = 0"
| "unconsumed c (r # t) = unconsumed c t + (if pr_code_hash r = c \<and> pr_consumed_at r = None then 1 else 0)"

definition auth_inv :: "auth_run \<Rightarrow> bool" where
  "auth_inv s \<longleftrightarrow>
     (\<forall>c. count_list (map fst (minted s)) c + unconsumed c (pairing_sessions (a_db s)) \<le> count_list (created s) c)
     \<and> cl_token_hash ` set (paired_clients (a_db s)) = snd ` set (minted s)"

lemma unconsumed_length:
  "length (filter (\<lambda>r. pr_code_hash r = c \<and> pr_consumed_at r = None) t) = unconsumed c t"
  by (induction t) simp_all

lemma unconsumed_append [simp]: "unconsumed c (t @ u) = unconsumed c t + unconsumed c u"
  by (induction t) simp_all

lemma unconsumed_filter: "unconsumed c (filter P t) \<le> unconsumed c t"
  by (induction t) auto

lemma unconsumed_claimed:
  "unconsumed c (update_rows (\<lambda>r. pr_code_hash r = code \<and> pr_consumed_at r = None)
     (\<lambda>r. r\<lparr>pr_consumed_at := Some now\<rparr>) t) = (if c = code then 0 else unconsumed c t)"
  by (induction t) (auto simp: update_rows_def)

lemma create_rows:
  assumes "create_pairing_code now code db = (r, db')"
  shows "paired_clients db' = paired_clients db
    \<and> unconsumed c (pairing_sessions db')
      \<le> unconsumed c (pairing_sessions db) + (if c = code \<and> \<not> isl r then 1 else 0)"
proof -
  define rest where "rest = filter (\<lambda>r. \<not> (pr_consumed_at r \<noteq> None \<or> pr_expires_at r < now)) (pairing_sessions db)"
  define row where "row = \<lparr>pr_code_hash = code, pr_expires_at = now + CODE_LIFETIME, pr_consumed_at = None\<rparr>"
  have le: "unconsumed c rest \<le> unconsumed c (pairing_sessions db)"
    unfolding rest_def by (rule unconsumed_filter)
  have row: "unconsumed c [row] = (if c = code then 1 else 0)" by (auto simp: row_def)
  have "(r, db') = (case insert_row pr_code_hash row rest of
      Inl err \<Rightarrow> (Inl err, db\<lparr>pairing_sessions := rest\<rparr>)
    | Inr t \<Rightarrow> (Inr (now + CODE_LIFETIME), db\<lparr>pairing_sessions := t\<rparr>))"
    using assms unfolding create_pairing_code_def Let_def rest_def row_def by (rule sym)
  then consider (err) e where "r = Inl e" "db' = db\<lparr>pairing_sessions := rest\<rparr>"
    | (ok) "r = Inr (now + CODE_LIFETIME)" "db' = db\<lparr>pairing_sessions := rest @ [row]\<rparr>"
    by (auto simp: insert_row_def split: if_splits)
  then show ?thesis
  proof cases
    case err
    then show ?thesis using le by simp
  next
    case ok
    then show ?thesis using le row by (auto split: if_splits)
  qed
qed

lemma create_inv:
  assumes "auth_inv s"
  shows "auth_inv (auth_step (CreateCode now code) s)"
proof -
  obtain r db where eq: "create_pairing_code now code (a_db s) = (r, db)" by fastforce
  have inv: "count_list (map fst (minted s)) c + unconsumed c (pairing_sessions (a_db s)) \<le> count_list (created s) c" for c
    using assms by (simp add: auth_inv_def)
  have bound: "count_list (map fst (minted s)) c + unconsumed c (pairing_sessions db)
      \<le> count_list (created s) c + (if c = code \<and> \<not> isl r then 1 else 0)" for c
    using create_rows[OF eq, of c] inv[of c] by linarith
  have counts: "count_list (map fst (minted s)) c + unconsumed c (pairing_sessions db)
      \<le> count_list (created s @ (if isl r then [] else [code])) c" for c
    using bound[of c] by (cases "isl r"; cases "c = code") simp_all
  have "paired_clients db = paired_clients (a_db s)" using create_rows[OF eq] by blast
  then have "auth_inv (s\<lparr>a_db := db, created := created s @ (if isl r then [] else [code])\<rparr>)"
    using assms counts by (simp add: auth_inv_def del: count_list_append)
  then show ?thesis using eq by (cases r) simp_all
qed

lemma claim_inv:
  assumes "auth_inv s"
  shows "auth_inv (auth_step (ClaimCode k now code client name token) s)"
proof -
  let ?t = "pairing_sessions (a_db s)"
  have inv: "count_list (map fst (minted s)) c + unconsumed c ?t \<le> count_list (created s) c" for c
    using assms by (simp add: auth_inv_def)
  show ?thesis
  proof (cases "\<exists>i db. claim_code now code client name token (a_db s) = (Inr (Some i), db)")
    case False
    moreover have "snd (claim_code now code client name token (a_db s)) = a_db s"
      using False by (auto simp: claim_code_def Let_def split: if_splits)
    ultimately have "\<exists>p. auth_step (ClaimCode k now code client name token) s = s\<lparr>passed := p\<rparr>"
      by (auto simp: Let_def split: prod.splits sum.splits option.splits) (metis auth_run.surjective auth_run.update_convs)+
    then obtain p where "auth_step (ClaimCode k now code client name token) s = s\<lparr>passed := p\<rparr>" by blast
    then show ?thesis using assms by (simp add: auth_inv_def del: auth_step.simps)
  next
    case True
    then have one: "unconsumed code ?t = 1"
      and claim: "claim_code now code client name token (a_db s) = (Inr (Some client), (a_db s)
        \<lparr>pairing_sessions := update_rows (\<lambda>r. pr_code_hash r = code \<and> pr_consumed_at r = None)
             (\<lambda>r. r\<lparr>pr_consumed_at := Some now\<rparr>) ?t,
         paired_clients := paired_clients (a_db s) @
             [\<lparr>cl_id = client, cl_name = name, cl_token_hash = token, cl_created_at = now\<rparr>]\<rparr>)"
      by (auto simp: claim_code_def Let_def unconsumed_length split: if_splits)
    have "count_list (map fst (minted s @ [(code, token)])) c + (if c = code then 0 else unconsumed c ?t)
        \<le> count_list (created s) c" for c
      using inv[of c] one by (cases "c = code") simp_all
    then show ?thesis
      using assms claim by (simp add: auth_inv_def Let_def unconsumed_claimed insert_commute)
  qed
qed

interpretation pairing: machine auth_start auth_step "\<lambda>_ _. True" auth_inv
proof unfold_locales
  show "auth_inv auth_start" by (simp add: auth_inv_def auth_start_def)
  fix s e
  assume "auth_inv s"
  then show "auth_inv (auth_step e s)"
    using create_inv claim_inv by (cases e) (auto simp: auth_inv_def)
qed

lemma auth_steps: "steps_ok (\<lambda>_ _. True) auth_step ops s"
  by (induction ops arbitrary: s) simp_all

text \<open>
  C12: however redemptions interleave, a pairing code registers at most one client per time it was
  issued, and a token authenticates exactly when a redemption registered it.
\<close>

theorem pairing_code_redeemed_once:
  "count_list (map fst (minted (fold auth_step ops auth_start))) code
     \<le> count_list (created (fold auth_step ops auth_start)) code
   \<and> (authenticate token (a_db (fold auth_step ops auth_start))
       \<longleftrightarrow> token \<in> snd ` set (minted (fold auth_step ops auth_start)))"
proof -
  have inv: "auth_inv (fold auth_step ops auth_start)" by (rule pairing.steps_inv[OF auth_steps])
  then have "count_list (map fst (minted (fold auth_step ops auth_start))) code
      + unconsumed code (pairing_sessions (a_db (fold auth_step ops auth_start)))
     \<le> count_list (created (fold auth_step ops auth_start)) code"
    unfolding auth_inv_def by blast
  moreover have "authenticate token db \<longleftrightarrow> token \<in> cl_token_hash ` set (paired_clients db)" for db
    by (auto simp: authenticate_def)
  moreover have "cl_token_hash ` set (paired_clients (a_db (fold auth_step ops auth_start)))
      = snd ` set (minted (fold auth_step ops auth_start))"
    using inv unfolding auth_inv_def by blast
  ultimately show ?thesis by simp
qed

text \<open>A redemption succeeds only with a code issued at most five minutes before its read.\<close>

lemma redeemed_in_time:
  assumes "create_pairing_code now code db = (Inr expires, db1)"
    and "consume_pairing_code read_at at code client name token db1 = (Inr (Some i), db2)"
  shows "read_at \<le> now + CODE_LIFETIME \<and> i = client
    \<and> fst (consume_pairing_code r2 a2 code client' name' token' db2) = Inr None"
proof -
  let ?row = "\<lparr>pr_code_hash = code, pr_expires_at = now + CODE_LIFETIME, pr_consumed_at = None\<rparr>"
  obtain rest where ins: "insert_row pr_code_hash ?row rest = Inr (pairing_sessions db1)"
    using assms(1) by (auto simp: create_pairing_code_def Let_def split: sum.splits)
  have look: "lookup pr_code_hash code (pairing_sessions db1) = Some ?row"
    using lookup_insert[OF ins, of code] by simp
  have red: "code_is_redeemable read_at code db1"
    and claim: "claim_code at code client name token db1 = (Inr (Some i), db2)"
    using assms(2) by (auto simp: consume_pairing_code_def split: if_splits)
  then have "read_at \<le> now + CODE_LIFETIME" using look by (simp add: code_is_redeemable_def)
  moreover have i: "i = client" and db2: "pairing_sessions db2 = update_rows
      (\<lambda>r. pr_code_hash r = code \<and> pr_consumed_at r = None) (\<lambda>r. r\<lparr>pr_consumed_at := Some at\<rparr>) (pairing_sessions db1)"
    using claim by (auto simp: claim_code_def Let_def split: if_splits)
  have "lookup pr_code_hash code (pairing_sessions db2) = Some (?row\<lparr>pr_consumed_at := Some at\<rparr>)"
    unfolding db2 by (subst lookup_update) (simp_all add: look)
  then have "\<not> code_is_redeemable r2 code db2" by (simp add: code_is_redeemable_def)
  ultimately show ?thesis using i by (simp add: consume_pairing_code_def)
qed

end
