(* ===== verification/Ai_Rules.thy ===== *)
theory Ai_Rules
  imports Protocol_Bridge
begin

text \<open>
  The identity rules the catalog is classified by, \<^verbatim>\<open>hearthdeck-ai/src/categorization/rules.rs\<close>,
  and the form factors of \<^verbatim>\<open>hearthdeck-protocol/src/classification.rs\<close>. Lower-casing is that of
  ASCII, which the identifiers and commands it is applied to consist of.
\<close>

section \<open>Form factors\<close>

fun FormFactor_category_value :: "form_factor \<Rightarrow> string" where
  "FormFactor_category_value Couch = ''hearthdeck-form:couch''"
| "FormFactor_category_value DesktopForm = ''hearthdeck-form:desktop''"

definition eq_ignore_ascii_case :: "string \<Rightarrow> string \<Rightarrow> bool" where
  "eq_ignore_ascii_case a b \<longleftrightarrow> map ascii_lower a = map ascii_lower b"

definition FormFactor_from_category :: "string \<Rightarrow> form_factor option" where
  "FormFactor_from_category category =
     find (\<lambda>form. eq_ignore_ascii_case category (FormFactor_category_value form)) [Couch, DesktopForm]"

fun FormFactor_other :: "form_factor \<Rightarrow> form_factor" where
  "FormFactor_other Couch = DesktopForm"
| "FormFactor_other DesktopForm = Couch"

definition CatalogClassification_default :: catalog_classification where
  "CatalogClassification_default =
     \<lparr>cc_section = ApplicationSection, cc_streaming = False, cc_form_factor = Some DesktopForm\<rparr>"

section \<open>Identity rules\<close>

definition WATCH_SERVICES :: "string list" where
  "WATCH_SERVICES =
     [''stremio'', ''netflix'', ''primevideo'', ''prime video'', ''prime-video'', ''disneyplus'',
      ''disney+'', ''hulu'', ''hbomax'', ''hbo max'', ''max.com'', ''crunchyroll'',
      ''paramountplus'', ''paramount+'', ''peacock'', ''tubitv'', ''tubi.tv'', ''plutotv'',
      ''pluto.tv'', ''appletv'', ''apple tv'', ''tv.apple'', ''plex'', ''jellyfin'', ''emby'',
      ''kodi'']"

definition EMULATORS :: "string list" where
  "EMULATORS =
     [''retroarch'', ''dolphin'', ''pcsx2'', ''duckstation'', ''rpcs3'', ''citra'', ''yuzu'',
      ''ryujinx'', ''mame'', ''mupen'', ''xemu'', ''melon'', ''ppsspp'', ''snes9x'', ''mgba'',
      ''mednafen'', ''desmume'', ''fsuae'', ''scummvm'', ''cemu'', ''ares'', ''bsnes'', ''limbo'',
      ''flycast'', ''redream'', ''standalone'', ''emulator'']"

definition COUCH_LAUNCHERS :: "string list" where
  "COUCH_LAUNCHERS =
     [''heroic'', ''steam'', ''lutris'', ''retroarch'', ''emulationstation'', ''es-de'',
      ''moonlight'']"

definition emulator :: "string \<Rightarrow> bool" where
  "emulator signal \<longleftrightarrow> (\<exists>name\<in>set EMULATORS. contains name signal)"

definition streaming :: "string \<Rightarrow> bool" where
  "streaming signal \<longleftrightarrow> (\<exists>name\<in>set WATCH_SERVICES. contains name signal)"

definition classify_catalog ::
  "string \<Rightarrow> string option \<Rightarrow> library_section \<Rightarrow> form_factor option \<Rightarrow> catalog_classification" where
  "classify_catalog i exec section modeled_form =
     (let signal = map ascii_lower
            (''hearthdeck:'' @ i @ '' '' @ (case exec of None \<Rightarrow> [] | Some e \<Rightarrow> e));
          streams = (section = ApplicationSection \<and> streaming signal);
          section = (if section = PcGames \<and> emulator signal then ConsoleGames else section);
          form = (if section \<noteq> ApplicationSection then None
                  else Some (if streams \<or> (\<exists>name\<in>set COUCH_LAUNCHERS. contains name signal)
                                \<or> modeled_form = Some Couch then Couch else DesktopForm))
      in \<lparr>cc_section = section, cc_streaming = streams, cc_form_factor = form\<rparr>)"

section \<open>Properties\<close>

text \<open>
  A classification keeps applications apart from games; only applications stream or have a form
  factor, and what streams is on the couch.
\<close>

definition classification_ok :: "catalog_classification \<Rightarrow> bool" where
  "classification_ok c \<longleftrightarrow>
     (cc_form_factor c = None \<longleftrightarrow> cc_section c \<noteq> ApplicationSection)
     \<and> (cc_streaming c \<longrightarrow> cc_section c = ApplicationSection \<and> cc_form_factor c = Some Couch)"

lemma classify_ok: "classification_ok (classify_catalog i exec section form)"
  by (simp add: classification_ok_def classify_catalog_def Let_def)

lemma default_ok: "classification_ok CatalogClassification_default"
  by (simp add: classification_ok_def CatalogClassification_default_def)

lemma classify_section:
  "cc_section (classify_catalog i exec section form) = ApplicationSection \<longleftrightarrow> section = ApplicationSection"
  by (auto simp: classify_catalog_def Let_def)

text \<open>The model's verdict can only move an application to the couch.\<close>

lemma model_only_promotes:
  "cc_section (classify_catalog i exec section form) = cc_section (classify_catalog i exec section None)
   \<and> cc_streaming (classify_catalog i exec section form) = cc_streaming (classify_catalog i exec section None)
   \<and> (cc_form_factor (classify_catalog i exec section form) = cc_form_factor (classify_catalog i exec section None)
      \<or> form = Some Couch \<and> cc_form_factor (classify_catalog i exec section form) = Some Couch)"
  by (auto simp: classify_catalog_def Let_def)

lemma category_roundtrip: "FormFactor_from_category (FormFactor_category_value f) = Some f"
proof (cases f)
  case DesktopForm
  have "\<not> eq_ignore_ascii_case ''hearthdeck-form:desktop'' ''hearthdeck-form:couch''" by code_simp
  with DesktopForm show ?thesis by (simp add: FormFactor_from_category_def eq_ignore_ascii_case_def)
qed (simp add: FormFactor_from_category_def eq_ignore_ascii_case_def)

lemma other_other [simp]: "FormFactor_other (FormFactor_other f) = f"
  by (cases f) simp_all

end
