(* ===== verification/Daemon_Workers.thy ===== *)
theory Daemon_Workers
  imports Protocol_Bridge
begin

text \<open>
  The background refresh workers of the daemon, \<^verbatim>\<open>hearthdeck-daemon/src/provider_worker.rs\<close>, with
  the health records of \<^verbatim>\<open>state.rs\<close>. A worker is a task that receives from a channel of capacity
  one and runs its provider; requests come from API handlers and a timer, at any point between
  two steps of the task. Sections that hold the state lock are one step. \<^verbatim>\<open>enqueue\<close> holds the lock
  while it sends: a send into a full channel waits for the task, which is the value \<open>None\<close>. What
  a provider run returns is an argument; instants are numbers.
\<close>

section \<open>Health\<close>

datatype provider_kind = Discovery | Metadata

datatype provider_status = Starting | Refreshing | Ready | Degraded

record provider_health =
  ph_id :: string
  ph_kind :: provider_kind
  ph_status :: provider_status
  ph_record_count :: "nat option"
  ph_last_attempt_at :: "nat option"
  ph_last_success_at :: "nat option"
  ph_last_error :: "string option"

definition starting_provider_health :: "string \<Rightarrow> provider_kind \<Rightarrow> provider_health" where
  "starting_provider_health i kind =
     \<lparr>ph_id = i, ph_kind = kind, ph_status = Starting, ph_record_count = None,
      ph_last_attempt_at = None, ph_last_success_at = None, ph_last_error = None\<rparr>"

definition record_provider_started :: "nat \<Rightarrow> provider_health \<Rightarrow> provider_health" where
  "record_provider_started now health =
     health\<lparr>ph_status := Refreshing, ph_last_attempt_at := Some now, ph_last_error := None\<rparr>"

definition record_provider_success :: "nat \<Rightarrow> nat \<Rightarrow> provider_health \<Rightarrow> provider_health" where
  "record_provider_success now record_count health =
     health\<lparr>ph_status := Ready, ph_record_count := Some record_count, ph_last_attempt_at := Some now,
            ph_last_success_at := Some now, ph_last_error := None\<rparr>"

definition record_provider_failure :: "nat \<Rightarrow> string \<Rightarrow> provider_health \<Rightarrow> provider_health" where
  "record_provider_failure now error health =
     health\<lparr>ph_status := Degraded, ph_last_attempt_at := Some now, ph_last_error := Some error\<rparr>"

section \<open>Workers\<close>

datatype refresh_request = Queued | AlreadyScheduled | UnknownProvider

text \<open>Where the worker task is: between two awaits of its loop.\<close>

datatype task_phase = Receiving | Received | Marked | Executing | Finished

text \<open>What one run of the provider comes to; a panic carries its message when it has one.\<close>

datatype run_outcome = Completed nat | Failed string | Panicked "string option"

record worker =
  w_channel :: nat
  w_open :: bool
  w_running :: bool
  w_queued :: bool
  w_health :: provider_health
  w_phase :: task_phase

definition CHANNEL_CAPACITY :: nat where "CHANNEL_CAPACITY = 1"

definition spawn_worker :: "string \<Rightarrow> provider_kind \<Rightarrow> worker" where
  "spawn_worker i kind =
     \<lparr>w_channel = 0, w_open = True, w_running = False, w_queued = False,
      w_health = starting_provider_health i kind, w_phase = Receiving\<rparr>"

definition enqueue :: "worker \<Rightarrow> (refresh_request \<times> worker) option" where
  "enqueue w =
     (if w_running w \<or> w_queued w then Some (AlreadyScheduled, w)
      else if \<not> w_open w then Some (UnknownProvider, w\<lparr>w_queued := False\<rparr>)
      else if CHANNEL_CAPACITY \<le> w_channel w then None
      else Some (Queued, w\<lparr>w_queued := True, w_channel := w_channel w + 1\<rparr>))"

definition panic_message :: "string option \<Rightarrow> string" where
  "panic_message payload = (case payload of Some m \<Rightarrow> m | None \<Rightarrow> ''unknown panic payload'')"

fun record_outcome :: "nat \<Rightarrow> run_outcome \<Rightarrow> provider_health \<Rightarrow> provider_health" where
  "record_outcome now (Completed n) health = record_provider_success now n health"
| "record_outcome now (Failed error) health = record_provider_failure now error health"
| "record_outcome now (Panicked payload) health = record_provider_failure now (panic_message payload) health"

definition task_step :: "nat \<Rightarrow> run_outcome \<Rightarrow> worker \<Rightarrow> worker option" where
  "task_step now result w =
     (case w_phase w of
        Receiving \<Rightarrow>
          if w_channel w = 0 then None else Some (w\<lparr>w_channel := w_channel w - 1, w_phase := Received\<rparr>)
      | Received \<Rightarrow> Some (w\<lparr>w_queued := False, w_running := True, w_phase := Marked\<rparr>)
      | Marked \<Rightarrow> Some (w\<lparr>w_health := record_provider_started now (w_health w), w_phase := Executing\<rparr>)
      | Executing \<Rightarrow> Some (w\<lparr>w_health := record_outcome now result (w_health w), w_phase := Finished\<rparr>)
      | Finished \<Rightarrow> Some (w\<lparr>w_running := False, w_phase := Receiving\<rparr>))"

section \<open>Sets of workers\<close>

type_synonym worker_set = "string \<rightharpoonup> worker"

definition WorkerSet_request :: "string \<Rightarrow> worker_set \<Rightarrow> (refresh_request \<times> worker_set) option" where
  "WorkerSet_request i ws =
     (case ws i of
        None \<Rightarrow> Some (UnknownProvider, ws)
      | Some w \<Rightarrow> map_option (\<lambda>(r, w). (r, ws(i \<mapsto> w))) (enqueue w))"

fun request_each :: "string list \<Rightarrow> worker_set \<Rightarrow> worker_set option" where
  "request_each [] ws = Some ws"
| "request_each (i # order) ws =
     (case WorkerSet_request i ws of None \<Rightarrow> None | Some (_, ws) \<Rightarrow> request_each order ws)"

definition WorkerSet_request_all :: "string list \<Rightarrow> worker_set \<Rightarrow> worker_set option" where
  "WorkerSet_request_all order ws = request_each (visited order ws) ws"

definition WorkerSet_provider_health :: "string list \<Rightarrow> worker_set \<Rightarrow> provider_health list" where
  "WorkerSet_provider_health order ws = sort_key ph_id (map (\<lambda>i. w_health (the (ws i))) (visited order ws))"

definition AppState_provider_health ::
  "string list \<Rightarrow> worker_set option \<Rightarrow> string list \<Rightarrow> worker_set option \<Rightarrow> provider_health list" where
  "AppState_provider_health order1 discovery order2 enrichment =
     sort_key ph_id
       ((case discovery of None \<Rightarrow> [] | Some ws \<Rightarrow> WorkerSet_provider_health order1 ws)
        @ (case enrichment of None \<Rightarrow> [] | Some ws \<Rightarrow> WorkerSet_provider_health order2 ws))"

section \<open>Interleaved runs\<close>

text \<open>A run of one worker: the answers given to requests and the steps its task takes, in order.\<close>

datatype worker_event = Requested refresh_request | Stepped task_phase

inductive worker_steps :: "worker \<Rightarrow> worker_event list \<Rightarrow> worker \<Rightarrow> bool" for w where
  here: "worker_steps w [] w"
| request: "worker_steps w es w' \<Longrightarrow> enqueue w' = Some (r, w'') \<Longrightarrow> worker_steps w (es @ [Requested r]) w''"
| task: "worker_steps w es w' \<Longrightarrow> task_step now result w' = Some w'' \<Longrightarrow>
    worker_steps w (es @ [Stepped (w_phase w')]) w''"

text \<open>The same, computed from what the callers and the provider do.\<close>

datatype worker_action = Ask | Step nat run_outcome

fun worker_exec :: "worker_action list \<Rightarrow> worker_event list \<Rightarrow> worker \<Rightarrow> (worker_event list \<times> worker) option" where
  "worker_exec [] es w = Some (es, w)"
| "worker_exec (Ask # acts) es w =
     (case enqueue w of None \<Rightarrow> None | Some (r, w) \<Rightarrow> worker_exec acts (es @ [Requested r]) w)"
| "worker_exec (Step now result # acts) es w =
     (case task_step now result w of
        None \<Rightarrow> None | Some w' \<Rightarrow> worker_exec acts (es @ [Stepped (w_phase w)]) w')"

lemma worker_exec_steps:
  "worker_exec acts es w = Some (es', w') \<Longrightarrow> worker_steps w0 es w \<Longrightarrow> worker_steps w0 es' w'"
proof (induction acts arbitrary: es w)
  case (Cons act acts)
  then show ?case by (cases act) (auto split: option.splits intro: worker_steps.intros)
qed simp

definition accepted :: "worker_event list \<Rightarrow> nat" where
  "accepted es = count_list es (Requested Queued)"

definition runs :: "worker_event list \<Rightarrow> nat" where
  "runs es = count_list es (Stepped Executing)"

fun is_task :: "worker_event \<Rightarrow> bool" where
  "is_task (Stepped _) = True"
| "is_task (Requested _) = False"

definition task_steps :: "worker_event list \<Rightarrow> nat" where
  "task_steps es = length (filter is_task es)"

lemma counts [simp]:
  "accepted [] = 0" "runs [] = 0" "task_steps [] = 0"
  "accepted (es @ [e]) = accepted es + (if e = Requested Queued then 1 else 0)"
  "runs (es @ [e]) = runs es + (if e = Stepped Executing then 1 else 0)"
  "task_steps (es @ [e]) = task_steps es + (if is_task e then 1 else 0)"
  by (simp_all add: accepted_def runs_def task_steps_def)

text \<open>
  The invariant of a worker: a refresh is queued exactly while its message is in the channel or
  in the task's hands, the running flag is set exactly while the task is past it, and the health
  says so.
\<close>

definition worker_ok :: "worker \<Rightarrow> bool" where
  "worker_ok w \<longleftrightarrow> w_open w
     \<and> (w_queued w \<longleftrightarrow> w_channel w = 1 \<or> w_phase w = Received)
     \<and> (w_running w \<longleftrightarrow> w_phase w \<in> {Marked, Executing, Finished})
     \<and> (w_channel w = 0 \<or> (w_channel w = 1 \<and> w_phase w = Receiving))
     \<and> (ph_status (w_health w) = Refreshing \<longleftrightarrow> w_phase w = Executing)"

lemma spawn_ok [inv_intros]: "worker_ok (spawn_worker i kind)"
  by (simp add: worker_ok_def spawn_worker_def starting_provider_health_def)

lemma outcome_not_refreshing: "ph_status (record_outcome now r h) \<noteq> Refreshing"
  by (cases r) (simp_all add: record_provider_success_def record_provider_failure_def)

lemma enqueue_ok:
  assumes "worker_ok w"
  shows "\<exists>r w'. enqueue w = Some (r, w') \<and> worker_ok w' \<and> r \<noteq> UnknownProvider
    \<and> (r = Queued \<longleftrightarrow> w_phase w = Receiving \<and> w_channel w = 0)
    \<and> (r = Queued \<longrightarrow> w_phase w' = Receiving \<and> w_channel w' = 1) \<and> (r \<noteq> Queued \<longrightarrow> w' = w)"
  using assms by (cases "w_phase w") (auto simp: enqueue_def worker_ok_def CHANNEL_CAPACITY_def)

lemma task_ok [inv_intros]: "worker_ok w \<Longrightarrow> task_step now r w = Some w' \<Longrightarrow> worker_ok w'"
  using outcome_not_refreshing[of now r "w_health w"]
  by (auto simp: task_step_def worker_ok_def record_provider_started_def split: task_phase.splits if_splits)

lemma worker_steps_ok: "worker_steps w es w' \<Longrightarrow> worker_ok w \<Longrightarrow> worker_ok w'"
proof (induction rule: worker_steps.induct)
  case (request es w' r w'')
  then show ?case using enqueue_ok[of w'] by auto
qed (auto intro: inv_intros)

text \<open>Refreshes accepted and not yet run.\<close>

definition pending :: "worker \<Rightarrow> nat" where
  "pending w = (if w_channel w = 1 \<or> w_phase w \<in> {Received, Marked, Executing} then 1 else 0)"

lemma task_pending:
  assumes "worker_ok w" and "task_step now r w = Some w'"
  shows "pending w = pending w' + (if w_phase w = Executing then 1 else 0)"
proof (cases "w_phase w")
  case Receiving
  with assms show ?thesis by (simp add: pending_def task_step_def worker_ok_def split: if_splits) auto
qed (use assms in \<open>simp_all add: pending_def task_step_def worker_ok_def\<close>, auto simp: pending_def)

lemma request_pending:
  assumes "worker_ok w" and "enqueue w = Some (r, w')"
  shows "pending w' = pending w + (if r = Queued then 1 else 0)"
  using enqueue_ok[OF assms(1)] assms(2) by (auto simp: pending_def)

lemma accepted_runs:
  "worker_steps w es w' \<Longrightarrow> worker_ok w \<Longrightarrow> accepted es + pending w = runs es + pending w'"
proof (induction rule: worker_steps.induct)
  case (request es w' r w'')
  then have "worker_ok w'" using worker_steps_ok by blast
  with request_pending[OF this request.hyps(2)] request.IH[OF request.prems] show ?case by simp
next
  case (task es w' now result w'')
  then have "worker_ok w'" using worker_steps_ok by blast
  with task_pending[OF this task.hyps(2)] task.IH[OF task.prems] show ?case by simp
qed simp

text \<open>
  No lost and no doubled refresh. However requests and the worker's task interleave and
  whatever its provider returns, a request never waits on a full channel and never finds the
  worker gone; it is accepted exactly when the worker is idle, and every accepted request is run
  exactly once: the runs lag the acceptances by the one refresh that is queued or under way.
\<close>

theorem one_run_per_accepted_request:
  assumes "worker_steps (spawn_worker i kind) es w"
  shows "\<exists>r w'. enqueue w = Some (r, w') \<and> r \<noteq> UnknownProvider
    \<and> (r = Queued \<longleftrightarrow> w_phase w = Receiving \<and> w_channel w = 0)
    \<and> accepted es = runs es + (if w_channel w = 1 \<or> w_phase w \<in> {Received, Marked, Executing} then 1 else 0)"
proof -
  have "worker_ok w" using worker_steps_ok[OF assms spawn_ok] .
  from enqueue_ok[OF this] accepted_runs[OF assms spawn_ok] show ?thesis
    by (auto simp: pending_def spawn_worker_def)
qed

definition demo_worker :: worker where "demo_worker = spawn_worker ''heroic'' Discovery"

definition demo_requests :: "worker_action list" where
  "demo_requests = [Ask, Ask, Step 1 (Completed 3), Ask, Step 2 (Completed 3)]"

lemma demo_requests_run:
  "worker_exec demo_requests [] demo_worker = Some
     ([Requested Queued, Requested AlreadyScheduled, Stepped Receiving, Requested AlreadyScheduled, Stepped Received],
      demo_worker\<lparr>w_running := True, w_phase := Marked\<rparr>)"
  by (simp add: demo_requests_def demo_worker_def spawn_worker_def enqueue_def task_step_def CHANNEL_CAPACITY_def)

theorem one_run_per_accepted_request_witness:
  "\<exists>r w'. enqueue (demo_worker\<lparr>w_running := True, w_phase := Marked\<rparr>) = Some (r, w') \<and> r = AlreadyScheduled
    \<and> accepted [Requested Queued, Requested AlreadyScheduled, Stepped Receiving,
        Requested AlreadyScheduled, Stepped Received] = 1"
proof -
  have "worker_steps (spawn_worker ''heroic'' Discovery)
      [Requested Queued, Requested AlreadyScheduled, Stepped Receiving, Requested AlreadyScheduled, Stepped Received]
      (demo_worker\<lparr>w_running := True, w_phase := Marked\<rparr>)"
    using worker_exec_steps[OF demo_requests_run worker_steps.here] by (simp add: demo_worker_def)
  from one_run_per_accepted_request[OF this] obtain r w' where
    "enqueue (demo_worker\<lparr>w_running := True, w_phase := Marked\<rparr>) = Some (r, w')" "r \<noteq> UnknownProvider" "r \<noteq> Queued"
    "accepted [Requested Queued, Requested AlreadyScheduled, Stepped Receiving,
        Requested AlreadyScheduled, Stepped Received] = 1"
    by (auto simp: runs_def demo_worker_def spawn_worker_def)
  then show ?thesis by (cases r) auto
qed

text \<open>The task's position after a refresh was queued, by the steps it has taken since.\<close>

definition progress :: "nat \<Rightarrow> worker \<Rightarrow> bool" where
  "progress k w \<longleftrightarrow>
     (k = 0 \<longrightarrow> w_phase w = Receiving \<and> w_channel w = 1) \<and> (k = 1 \<longrightarrow> w_phase w = Received)
     \<and> (k = 2 \<longrightarrow> w_phase w = Marked) \<and> (k = 3 \<longrightarrow> w_phase w = Executing)
     \<and> (k = 4 \<longrightarrow> w_phase w = Finished) \<and> (k = 5 \<longrightarrow> w_phase w = Receiving)"

lemma request_progress:
  assumes "worker_ok w" and "progress k w" and "enqueue w = Some (r, w')"
  shows "progress k w'"
  using enqueue_ok[OF assms(1)] assms(2,3) by (auto simp: progress_def)

lemma task_progress:
  assumes "worker_ok w" and "progress k w" and "k < 5" and "task_step now r w = Some w'"
  shows "progress (Suc k) w' \<and> (w_phase w = Executing \<longleftrightarrow> k = 3)"
proof -
  from assms(3) consider "k = 0" | "k = 1" | "k = 2" | "k = 3" | "k = 4" by linarith
  then show ?thesis
  proof cases
    case 1
    with assms(2,4) show ?thesis by (simp add: progress_def task_step_def) auto
  qed (use assms(2,4) in \<open>simp_all add: progress_def task_step_def\<close>, auto)
qed

lemma progress_enabled: "progress k w \<Longrightarrow> k < 5 \<Longrightarrow> task_step now r w \<noteq> None"
  by (auto simp: progress_def task_step_def less_Suc_eq numeral_eq_Suc split: task_phase.splits)

lemma progress_steps:
  "worker_steps w es w' \<Longrightarrow> worker_ok w \<Longrightarrow> progress 0 w \<Longrightarrow>
   task_steps es \<le> 5 \<longrightarrow> progress (task_steps es) w' \<and> runs es = (if task_steps es < 4 then 0 else 1)"
proof (induction rule: worker_steps.induct)
  case (request es w' r w'')
  have "worker_ok w'" using request worker_steps_ok by blast
  with request.IH[OF request.prems] request_progress[OF _ _ request.hyps(2)] show ?case by simp
next
  case (task es w' now result w'')
  have ok: "worker_ok w'" using task worker_steps_ok by blast
  show ?case
  proof (cases "task_steps es < 5")
    case True
    with task.IH[OF task.prems]
    have "progress (task_steps es) w'" "runs es = (if task_steps es < 4 then 0 else 1)" by simp_all
    with task_progress[OF ok this(1) True task.hyps(2)] show ?thesis by auto
  qed simp
qed simp

text \<open>
  C13: a worker cannot get stuck. After a refresh is queued, the task's next five steps are always
  possible, whatever the provider does in them (an error or a panic included) and whatever
  requests come between them; no request is accepted before the fifth. The five steps run the
  provider exactly once and leave the worker ready: the first request after them is queued, and only
  the requests behind that one are told that a refresh is already scheduled.
\<close>

theorem queued_refresh_completes:
  assumes "worker_steps (spawn_worker i kind) es w" and "enqueue w = Some (Queued, w0)"
    and "worker_steps w0 es' w'" and "task_steps es' \<le> 5"
  shows "(task_steps es' < 5 \<longrightarrow> accepted es' = 0 \<and> (\<forall>now r. task_step now r w' \<noteq> None))
    \<and> (task_steps es' = 5 \<longrightarrow> runs es' = 1 \<and> accepted es' \<le> 1 \<and> w_phase w' = Receiving \<and> \<not> w_running w'
        \<and> (\<exists>w''. enqueue w' = Some (if accepted es' = 0 then Queued else AlreadyScheduled, w'')))"
proof -
  have ok: "worker_ok w" using worker_steps_ok[OF assms(1) spawn_ok] .
  from enqueue_ok[OF ok] assms(2) have w0: "worker_ok w0" "progress 0 w0" by (auto simp: progress_def)
  from progress_steps[OF assms(3) w0] assms(4)
  have p: "progress (task_steps es') w'" "runs es' = (if task_steps es' < 4 then 0 else 1)" by auto
  have ok': "worker_ok w'" by (rule worker_steps_ok[OF assms(3) w0(1)])
  have "accepted es' + 1 = runs es' + pending w'"
    using accepted_runs[OF assms(3) w0(1)] w0(2) by (simp add: progress_def pending_def)
  then have n: "task_steps es' < 5 \<Longrightarrow> accepted es' = 0" "task_steps es' = 5 \<Longrightarrow> accepted es' = (if w_channel w' = 1 then 1 else 0)"
    using p ok' by (auto simp: pending_def progress_def worker_ok_def less_Suc_eq numeral_eq_Suc split: if_splits)
  have "\<exists>w''. enqueue w' = Some (if accepted es' = 0 then Queued else AlreadyScheduled, w'')" if "task_steps es' = 5"
    using ok' n(2)[OF that] p(1) that by (auto simp: progress_def worker_ok_def enqueue_def CHANNEL_CAPACITY_def)
  with p n ok' progress_enabled[OF p(1)] show ?thesis by (auto simp: progress_def worker_ok_def)
qed

definition demo_panic :: "worker_action list" where
  "demo_panic = [Step 1 (Completed 0), Ask, Step 2 (Completed 0), Step 3 (Completed 0),
     Step 4 (Panicked None), Step 5 (Completed 0)]"

theorem queued_refresh_completes_witness:
  "\<exists>es w. worker_exec demo_panic [] (demo_worker\<lparr>w_queued := True, w_channel := 1\<rparr>) = Some (es, w)
     \<and> runs es = 1 \<and> w_phase w = Receiving \<and> \<not> w_running w \<and> (\<exists>w''. enqueue w = Some (Queued, w''))
     \<and> ph_last_error (w_health w) = Some ''unknown panic payload''"
proof -
  let ?w0 = "demo_worker\<lparr>w_queued := True, w_channel := 1\<rparr>"
  have q: "enqueue (spawn_worker ''heroic'' Discovery) = Some (Queued, ?w0)"
    by (simp add: enqueue_def demo_worker_def spawn_worker_def CHANNEL_CAPACITY_def)
  let ?es = "[Stepped Receiving, Requested AlreadyScheduled, Stepped Received, Stepped Marked, Stepped Executing, Stepped Finished]"
  obtain w where e: "worker_exec demo_panic [] ?w0 = Some (?es, w)"
    and err: "ph_last_error (w_health w) = Some ''unknown panic payload''"
    by (simp add: demo_panic_def demo_worker_def spawn_worker_def enqueue_def task_step_def
        record_provider_started_def record_provider_failure_def panic_message_def)
  have "task_steps ?es = 5" by (simp add: task_steps_def)
  with queued_refresh_completes[OF worker_steps.here q worker_exec_steps[OF e worker_steps.here]]
  have "runs ?es = 1 \<and> w_phase w = Receiving \<and> \<not> w_running w \<and> (\<exists>w''. enqueue w = Some (Queued, w''))"
    by (simp add: accepted_def)
  with e err show ?thesis by blast
qed

end
