(* ===== verification/Daemon_Catalog.thy ===== *)
theory Daemon_Catalog
  imports Sql_Tables Ai_Rules Daemon_Workers Daemon_Activity "Complex_Main"
begin

text \<open>
  The catalog of the daemon, \<^verbatim>\<open>hearthdeck-daemon/src/catalog.rs\<close>, with the verdicts of
  \<^verbatim>\<open>traits.rs\<close> and the provider runs of \<^verbatim>\<open>discovery.rs\<close> and \<^verbatim>\<open>enrichment.rs\<close>, over the tables
  \<^verbatim>\<open>library_items\<close>, \<^verbatim>\<open>catalog_enrichments\<close> and \<^verbatim>\<open>item_traits\<close>. A JSON column holds the value
  itself. Rows with equal sort keys keep their order in the table. A storage fault is an optional
  error of the call; a transaction that fails leaves the tables as they were. Confidences are the
  rationals that floating-point numbers denote.
\<close>

section \<open>Tables and records\<close>

record library_row =
  li_id :: string
  li_source_id :: string
  li_title :: string
  li_kind :: string
  li_launch_id :: "string option"
  li_icon :: "string option"
  li_metadata :: json
  li_updated_at :: string

record enrichment_row =
  en_provider_id :: string
  en_application_id :: string
  en_priority :: int
  en_payload :: json
  en_updated_at :: string

record trait_row =
  tr_item_id :: string
  tr_trait :: string
  tr_value :: string
  tr_confidence :: rat
  tr_input_hash :: string
  tr_model :: string
  tr_updated_at :: string

record catalog_db =
  library_items :: "library_row list"
  catalog_enrichments :: "enrichment_row list"
  item_traits :: "trait_row list"

record catalog_record =
  cr_id :: string
  cr_title :: string
  cr_kind :: string
  cr_launch_id :: "string option"
  cr_icon :: "string option"
  cr_metadata :: json
  cr_updated_at :: string

record enrichment_record =
  er_application_ids :: "string list"
  er_priority :: int
  er_payload :: json
  er_updated_at :: string

section \<open>Reading JSON\<close>

fun json_object :: "json \<Rightarrow> (string \<times> json) list option" where
  "json_object (JObject kvs) = Some kvs"
| "json_object _ = None"

fun json_bool :: "json \<Rightarrow> bool option" where
  "json_bool (JBool b) = Some b"
| "json_bool _ = None"

definition nat_of_digits :: "string \<Rightarrow> nat" where
  "nat_of_digits s = foldl (\<lambda>n c. 10 * n + (of_char c - of_char (CHR ''0''))) 0 s"

fun json_u64 :: "json \<Rightarrow> json option" where
  "json_u64 (JNumber s) =
     (if s \<noteq> [] \<and> list_all is_ascii_digit s \<and> nat_of_digits s < 2 ^ 64 then Some (JNumber s) else None)"
| "json_u64 _ = None"

fun json_set :: "string \<Rightarrow> json \<Rightarrow> json \<Rightarrow> json" where
  "json_set k v (JObject kvs) = JObject ((k, v) # filter (\<lambda>kv. fst kv \<noteq> k) kvs)"
| "json_set k v j = j"

definition json_opt :: "string option \<Rightarrow> json" where
  "json_opt s = (case s of None \<Rightarrow> JNull | Some s \<Rightarrow> JString s)"

definition option_get :: "json option \<Rightarrow> string \<Rightarrow> json option" where
  "option_get j k = (case j of None \<Rightarrow> None | Some j \<Rightarrow> json_get k j)"

definition or_option :: "'a option \<Rightarrow> 'a option \<Rightarrow> 'a option" where
  "or_option a b = (case a of None \<Rightarrow> b | Some x \<Rightarrow> Some x)"

definition metadata_string :: "json option \<Rightarrow> string \<Rightarrow> string option" where
  "metadata_string metadata k =
     (case option_get metadata k of
        None \<Rightarrow> None
      | Some v \<Rightarrow> option_filter (\<lambda>s. s \<noteq> []) (map_option trim (json_str v)))"

fun push_new :: "string list \<Rightarrow> string list \<Rightarrow> string list" where
  "push_new unique [] = unique"
| "push_new unique (v # vs) = push_new (if v \<in> set unique then unique else unique @ [v]) vs"

definition json_strings :: "json list \<Rightarrow> string list" where
  "json_strings xs = concat (map (\<lambda>x. case json_str x of None \<Rightarrow> [] | Some s \<Rightarrow> [s]) xs)"

definition metadata_string_list :: "json option \<Rightarrow> string \<Rightarrow> string list option" where
  "metadata_string_list metadata k =
     (case option_get metadata k of
        None \<Rightarrow> None
      | Some v \<Rightarrow>
          (case json_array v of
             None \<Rightarrow> None
           | Some values \<Rightarrow> Some (push_new [] (filter (\<lambda>s. s \<noteq> []) (map trim (json_strings values))))))"

definition metadata_object :: "json option \<Rightarrow> string \<Rightarrow> (string \<times> json) list option" where
  "metadata_object metadata k =
     (case option_get metadata k of None \<Rightarrow> None | Some v \<Rightarrow> json_object v)"

section \<open>Serving a record\<close>

definition APPLICATION :: string where "APPLICATION = ''application''"

definition served_kind :: "string \<Rightarrow> string \<Rightarrow> string" where
  "served_kind source_id claimed =
     (if eq_ignore_ascii_case claimed GAME \<and> source_id \<noteq> HEROIC then APPLICATION else claimed)"

definition merged_metadata :: "string \<Rightarrow> json \<Rightarrow> json option \<Rightarrow> string option \<Rightarrow> json" where
  "merged_metadata title discovery enrichment provider =
     (let found = Some discovery;
          summary = (case or_option (metadata_string enrichment ''description'')
                       (or_option (metadata_string enrichment ''summary'')
                       (or_option (metadata_string found ''comment'')
                          (metadata_string found ''description''))) of
                       None \<Rightarrow> title | Some s \<Rightarrow> s);
          categories = (case option_filter (\<lambda>cs. cs \<noteq> [])
                          (or_option (metadata_string_list enrichment ''categories'')
                             (metadata_string_list found ''categories'')) of
                          None \<Rightarrow> [''Other''] | Some cs \<Rightarrow> cs);
          urls = (case metadata_object enrichment ''urls'' of None \<Rightarrow> [] | Some o' \<Rightarrow> o');
          screenshots = (case metadata_string_list enrichment ''screenshots'' of None \<Rightarrow> [] | Some xs \<Rightarrow> xs)
      in JObject
        [(''summary'', JString summary),
         (''description'', json_opt (or_option (metadata_string enrichment ''description'')
            (metadata_string found ''description''))),
         (''categories'', JArray (map JString categories)),
         (''developer'', json_opt (or_option (metadata_string enrichment ''developer'')
            (metadata_string found ''developer''))),
         (''project_license'', json_opt (metadata_string enrichment ''project_license'')),
         (''store'', json_opt (metadata_string found ''store'')),
         (''runner'', json_opt (metadata_string found ''runner'')),
         (''source'', json_opt (metadata_string found ''source'')),
         (''version'', json_opt (metadata_string found ''version'')),
         (''platform'', json_opt (metadata_string found ''platform'')),
         (''cloud_saves'', case json_get ''cloud_saves'' discovery of
            None \<Rightarrow> JNull | Some v \<Rightarrow> (case json_bool v of None \<Rightarrow> JNull | Some b \<Rightarrow> JBool b)),
         (''install_size_bytes'', case json_get ''install_size_bytes'' discovery of
            None \<Rightarrow> JNull | Some v \<Rightarrow> (case json_u64 v of None \<Rightarrow> JNull | Some n \<Rightarrow> n)),
         (''requirements'', case json_get ''requirements'' discovery of None \<Rightarrow> JArray [] | Some v \<Rightarrow> v),
         (''memory_compatibility'', case json_get ''memory_compatibility'' discovery of None \<Rightarrow> JNull | Some v \<Rightarrow> v),
         (''urls'', JObject urls),
         (''screenshots'', JArray (map JString screenshots)),
         (''provenance'', JString (case or_option provider (metadata_string found ''provenance'') of
            None \<Rightarrow> ''desktop-entry'' | Some p \<Rightarrow> p)),
         (''discovery'', discovery),
         (''enrichment'', case enrichment of None \<Rightarrow> JNull | Some e \<Rightarrow> e),
         (''enrichment_provider'', json_opt provider)])"

definition FORM_FACTOR :: string where "FORM_FACTOR = ''form_factor''"

definition preferable :: "enrichment_row \<Rightarrow> enrichment_row \<Rightarrow> bool" where
  "preferable d c \<longleftrightarrow> en_priority c < en_priority d
     \<or> en_priority d = en_priority c \<and> en_updated_at c < en_updated_at d"

fun first_enrichment :: "enrichment_row list \<Rightarrow> enrichment_row option" where
  "first_enrichment [] = None"
| "first_enrichment (c # cs) =
     (case first_enrichment cs of
        None \<Rightarrow> Some c
      | Some d \<Rightarrow> Some (if preferable d c then d else c))"

definition enrichment_of :: "catalog_db \<Rightarrow> library_row \<Rightarrow> enrichment_row option" where
  "enrichment_of db item =
     first_enrichment (filter (\<lambda>e. Some (en_application_id e) = li_launch_id item) (catalog_enrichments db))"

definition form_factor_of :: "catalog_db \<Rightarrow> library_row \<Rightarrow> string option" where
  "form_factor_of db item =
     map_option tr_value (find (\<lambda>t. tr_item_id t = li_id item \<and> tr_trait t = FORM_FACTOR) (item_traits db))"

definition section_of :: "string \<Rightarrow> json \<Rightarrow> library_section" where
  "section_of kind metadata =
     (if \<not> eq_ignore_ascii_case kind ''game'' then ApplicationSection
      else if (case json_get ''categories'' metadata of
                 None \<Rightarrow> False
               | Some v \<Rightarrow>
                   (case json_array v of
                      None \<Rightarrow> False
                    | Some cs \<Rightarrow> list_ex (starts_with ''hearthdeck-console:'') (json_strings cs)))
      then ConsoleGames else PcGames)"

definition modeled_form_of :: "json \<Rightarrow> form_factor option" where
  "modeled_form_of metadata =
     (case option_get (Some metadata) ''form_factor'' of
        None \<Rightarrow> None
      | Some v \<Rightarrow> if json_str v = Some ''couch'' then Some Couch
                 else if json_str v = Some ''desktop'' then Some DesktopForm else None)"

definition catalog_item_from_row :: "catalog_db \<Rightarrow> library_row \<Rightarrow> catalog_item" where
  "catalog_item_from_row db item =
     (let enrichment = map_option en_payload (enrichment_of db item);
          metadata = merged_metadata (li_title item) (li_metadata item) enrichment
            (map_option en_provider_id (enrichment_of db item));
          metadata = (case form_factor_of db item of
            None \<Rightarrow> metadata | Some f \<Rightarrow> json_set ''form_factor'' (JString f) metadata);
          kind = served_kind (li_source_id item) (li_kind item)
      in \<lparr>ci_id = li_id item, ci_source_id = li_source_id item, ci_title = li_title item, ci_kind = kind,
          ci_launch_id = li_launch_id item,
          ci_icon = or_option (li_icon item) (metadata_string enrichment ''icon''),
          ci_metadata = metadata,
          ci_classification = classify_catalog (li_id item) (li_launch_id item)
            (section_of kind metadata) (modeled_form_of metadata)\<rparr>)"

section \<open>The catalog store\<close>

definition CatalogStore_list :: "catalog_db \<Rightarrow> catalog_item list" where
  "CatalogStore_list db = map (catalog_item_from_row db) (sort_key li_title (library_items db))"

text \<open>Descending by the instant of change, ascending by id within it.\<close>

definition newest_first :: "library_row list \<Rightarrow> library_row list" where
  "newest_first rows = rev (sort_key li_updated_at (rev (sort_key li_id rows)))"

definition CatalogStore_list_source :: "string \<Rightarrow> nat \<Rightarrow> catalog_db \<Rightarrow> catalog_item list" where
  "CatalogStore_list_source source_id limit db =
     map (catalog_item_from_row db)
       (take limit (newest_first (filter (\<lambda>r. li_source_id r = source_id) (library_items db))))"

definition CatalogStore_get :: "string \<Rightarrow> catalog_db \<Rightarrow> catalog_item option" where
  "CatalogStore_get item_id db =
     map_option (catalog_item_from_row db) (lookup li_id item_id (library_items db))"

definition library_row_of :: "string \<Rightarrow> catalog_record \<Rightarrow> library_row" where
  "library_row_of source_id r =
     \<lparr>li_id = cr_id r, li_source_id = source_id, li_title = cr_title r, li_kind = cr_kind r,
      li_launch_id = cr_launch_id r, li_icon = cr_icon r, li_metadata = cr_metadata r,
      li_updated_at = cr_updated_at r\<rparr>"

definition overwrite_item :: "library_row \<Rightarrow> library_row \<Rightarrow> library_row" where
  "overwrite_item old excluded =
     old\<lparr>li_source_id := li_source_id excluded, li_title := li_title excluded, li_kind := li_kind excluded,
         li_icon := li_icon excluded, li_launch_id := li_launch_id excluded,
         li_metadata := li_metadata excluded, li_updated_at := li_updated_at excluded\<rparr>"

definition CatalogStore_replace_source ::
  "db_error option \<Rightarrow> string \<Rightarrow> catalog_record list \<Rightarrow> catalog_db \<Rightarrow> (db_error + unit) \<times> catalog_db" where
  "CatalogStore_replace_source fault source_id records db =
     (case fault of
        Some err \<Rightarrow> (Inl err, db)
      | None \<Rightarrow>
          (Inr (), db\<lparr>library_items :=
             fold (\<lambda>r. upsert_row li_id overwrite_item (library_row_of source_id r)) records
               (filter (\<lambda>row. li_source_id row \<noteq> source_id) (library_items db))\<rparr>))"

abbreviation enrichment_key :: "enrichment_row \<Rightarrow> string \<times> string" where
  "enrichment_key e \<equiv> (en_provider_id e, en_application_id e)"

definition overwrite_enrichment :: "enrichment_row \<Rightarrow> enrichment_row \<Rightarrow> enrichment_row" where
  "overwrite_enrichment old excluded =
     old\<lparr>en_priority := en_priority excluded, en_payload := en_payload excluded,
         en_updated_at := en_updated_at excluded\<rparr>"

definition enrichment_rows :: "string \<Rightarrow> enrichment_record \<Rightarrow> enrichment_row list" where
  "enrichment_rows provider_id r =
     map (\<lambda>a. \<lparr>en_provider_id = provider_id, en_application_id = a, en_priority = er_priority r,
               en_payload = er_payload r, en_updated_at = er_updated_at r\<rparr>) (er_application_ids r)"

definition CatalogStore_replace_enrichment_source ::
  "db_error option \<Rightarrow> string \<Rightarrow> enrichment_record list \<Rightarrow> catalog_db \<Rightarrow> (db_error + unit) \<times> catalog_db" where
  "CatalogStore_replace_enrichment_source fault provider_id records db =
     (case fault of
        Some err \<Rightarrow> (Inl err, db)
      | None \<Rightarrow>
          (Inr (), db\<lparr>catalog_enrichments :=
             fold (upsert_row enrichment_key overwrite_enrichment)
               (concat (map (enrichment_rows provider_id) records))
               (filter (\<lambda>row. en_provider_id row \<noteq> provider_id) (catalog_enrichments db))\<rparr>))"

section \<open>Verdicts\<close>

definition COUCH :: string where "COUCH = ''couch''"
definition DESKTOP :: string where "DESKTOP = ''desktop''"

text \<open>The double nearest to 0.7.\<close>

definition COUCH_CONFIDENCE :: rat where "COUCH_CONFIDENCE = 6305039478318694 / 2 ^ 53"

definition form_factor_for :: "rat \<Rightarrow> string" where
  "form_factor_for probability = (if COUCH_CONFIDENCE \<le> probability then COUCH else DESKTOP)"

definition PROMPT_VERSION :: string where "PROMPT_VERSION = ''2''"

definition stamp :: "string \<Rightarrow> string" where
  "stamp categorizer = categorizer @ '':'' @ PROMPT_VERSION"

record form_factor_verdict =
  fv_item_id :: string
  fv_value :: string
  fv_confidence :: rat
  fv_input_hash :: string

abbreviation trait_key :: "trait_row \<Rightarrow> string \<times> string" where
  "trait_key t \<equiv> (tr_item_id t, tr_trait t)"

definition TraitStore_current :: "string \<Rightarrow> catalog_db \<Rightarrow> (string \<rightharpoonup> string)" where
  "TraitStore_current st db =
     map_of (rev (map (\<lambda>t. (tr_item_id t, tr_input_hash t))
       (filter (\<lambda>t. tr_trait t = FORM_FACTOR \<and> tr_model t = st) (item_traits db))))"

definition overwrite_trait :: "trait_row \<Rightarrow> trait_row \<Rightarrow> trait_row" where
  "overwrite_trait old excluded =
     old\<lparr>tr_value := tr_value excluded, tr_confidence := tr_confidence excluded,
         tr_input_hash := tr_input_hash excluded, tr_model := tr_model excluded,
         tr_updated_at := tr_updated_at excluded\<rparr>"

definition verdict_row :: "string \<Rightarrow> string \<Rightarrow> form_factor_verdict \<Rightarrow> trait_row" where
  "verdict_row now st v =
     \<lparr>tr_item_id = fv_item_id v, tr_trait = FORM_FACTOR, tr_value = fv_value v,
      tr_confidence = fv_confidence v, tr_input_hash = fv_input_hash v, tr_model = st, tr_updated_at = now\<rparr>"

definition TraitStore_write_form_factors ::
  "string option \<Rightarrow> string \<Rightarrow> string \<Rightarrow> form_factor_verdict list \<Rightarrow> catalog_db \<Rightarrow> (string + unit) \<times> catalog_db" where
  "TraitStore_write_form_factors fault now st verdicts db =
     (case fault of
        Some err \<Rightarrow> (Inl err, db)
      | None \<Rightarrow>
          (Inr (), db\<lparr>item_traits :=
             fold (\<lambda>v. upsert_row trait_key overwrite_trait (verdict_row now st v)) verdicts (item_traits db)\<rparr>))"

definition TraitStore_prune :: "catalog_db \<Rightarrow> nat \<times> catalog_db" where
  "TraitStore_prune db =
     (let gone = (\<lambda>t. tr_item_id t \<notin> li_id ` set (library_items db)) in
      (length (filter gone (item_traits db)),
       db\<lparr>item_traits := filter (\<lambda>t. \<not> gone t) (item_traits db)\<rparr>))"

definition TraitStore_clear :: "catalog_db \<Rightarrow> nat \<times> catalog_db" where
  "TraitStore_clear db = (length (item_traits db), db\<lparr>item_traits := []\<rparr>)"

section \<open>Provider runs\<close>

text \<open>A run of a provider, with what the provider returns and what the store's transaction meets.\<close>

definition discover_source ::
  "string \<Rightarrow> string + catalog_record list \<Rightarrow> db_error option \<Rightarrow> (db_error \<Rightarrow> string)
     \<Rightarrow> catalog_db \<times> server_event list \<Rightarrow> (string + nat) \<times> catalog_db \<times> server_event list" where
  "discover_source source_id discovered fault describe st =
     (case discovered of
        Inl err \<Rightarrow> (Inl err, st)
      | Inr records \<Rightarrow>
          (case CatalogStore_replace_source fault source_id records (fst st) of
             (Inl err, db) \<Rightarrow> (Inl (describe err), db, snd st)
           | (Inr _, db) \<Rightarrow> (Inr (length records), db, snd st @ [LibraryChanged source_id (length records)])))"

definition enrich_source ::
  "string \<Rightarrow> string + enrichment_record list \<Rightarrow> db_error option \<Rightarrow> (db_error \<Rightarrow> string)
     \<Rightarrow> catalog_db \<times> server_event list \<Rightarrow> (string + nat) \<times> catalog_db \<times> server_event list" where
  "enrich_source provider_id enriched fault describe st =
     (case enriched of
        Inl err \<Rightarrow> (Inl err, st)
      | Inr records \<Rightarrow>
          (case CatalogStore_replace_enrichment_source fault provider_id records (fst st) of
             (Inl err, db) \<Rightarrow> (Inl (describe err), db, snd st)
           | (Inr _, db) \<Rightarrow> (Inr (length records), db, snd st @ [MetadataChanged provider_id (length records)])))"

section \<open>Replacing a source\<close>

text \<open>The catalog as a map from item ids to rows.\<close>

definition items_by_id :: "catalog_db \<Rightarrow> string \<rightharpoonup> library_row" where
  "items_by_id db i = lookup li_id i (library_items db)"

interpretation items: overwriting li_id overwrite_item
  by unfold_locales (simp add: overwrite_item_def)

interpretation enrichments: overwriting enrichment_key overwrite_enrichment
  by unfold_locales (simp add: overwrite_enrichment_def)

interpretation verdicts: overwriting trait_key overwrite_trait
  by unfold_locales (simp add: overwrite_trait_def)

lemma replace_source_items:
  "library_items (snd (CatalogStore_replace_source None s records db))
     = fold (upsert_row li_id overwrite_item) (map (library_row_of s) records)
         (filter (\<lambda>row. li_source_id row \<noteq> s) (library_items db))"
  by (simp add: CatalogStore_replace_source_def fold_map comp_def)

lemma library_row_key: "li_id (library_row_of s r) = cr_id r"
  by (simp add: library_row_of_def)

lemma items_by_id_replace_source:
  assumes "keyed li_id (library_items db)"
  shows "items_by_id (snd (CatalogStore_replace_source None s records db))
      = (\<lambda>i. option_filter (\<lambda>row. li_source_id row \<noteq> s) (items_by_id db i))
        ++ map_of (rev (map (\<lambda>r. (cr_id r, library_row_of s r)) records))"
  by (rule ext) (simp add: items_by_id_def replace_source_items items.lookup_batch lookup_filter[OF assms]
      library_row_key comp_def)

lemma keyed_replace_source:
  assumes "keyed li_id (library_items db)"
  shows "keyed li_id (library_items (snd (CatalogStore_replace_source None s records db)))"
  unfolding replace_source_items by (intro items.keyed_batch keyed_filter assms)

text \<open>The two ways an item of another source can fare in a run: left alone, or taken over.\<close>

lemma published_row:
  assumes "i \<in> cr_id ` set records"
  shows "\<exists>r\<in>set records. cr_id r = i
    \<and> map_of (rev (map (\<lambda>r. (cr_id r, library_row_of s r)) records)) i = Some (library_row_of s r)"
proof -
  let ?m = "map_of (rev (map (\<lambda>r. (cr_id r, library_row_of s r)) records))"
  have "dom ?m = cr_id ` set records" by (simp add: dom_map_of_conv_image_fst image_image)
  then obtain row where row: "?m i = Some row" using assms by blast
  then have "(i, row) \<in> set (map (\<lambda>r. (cr_id r, library_row_of s r)) records)"
    by (auto dest: map_of_SomeD)
  with row show ?thesis by auto
qed

lemma unpublished_row:
  assumes "i \<notin> cr_id ` set records"
  shows "map_of (rev (map (\<lambda>r. (cr_id r, library_row_of s r)) records)) i = None"
  using assms by (force simp: map_of_eq_None_iff)

text \<open>
  C14: what a discovery run of a source leaves. Its source's items are exactly the records the
  provider published (the last one under an id); an item of another source stays as it was unless
  the provider published a record under its id. Item ids are unique over all sources, so such a
  record takes the item over, although the comment on \<^verbatim>\<open>replace_source\<close> (\<^verbatim>\<open>catalog.rs:18-19\<close>) says
  that one provider can never overwrite another source. The enrichments and verdicts are
  untouched, and a run that fails at the provider or in the store changes nothing and announces
  nothing.
\<close>

theorem discovery_replaces_and_takes_over:
  assumes "keyed li_id (library_items db)"
  shows "case discover_source s discovered fault describe (db, events) of (result, db', events') \<Rightarrow>
    catalog_enrichments db' = catalog_enrichments db \<and> item_traits db' = item_traits db \<and>
    (case result of
       Inl _ \<Rightarrow> db' = db \<and> events' = events
     | Inr n \<Rightarrow> \<exists>records. discovered = Inr records \<and> n = length records
         \<and> keyed li_id (library_items db') \<and> events' = events @ [LibraryChanged s n]
         \<and> items_by_id db' = (\<lambda>i. option_filter (\<lambda>row. li_source_id row \<noteq> s) (items_by_id db i))
             ++ map_of (rev (map (\<lambda>r. (cr_id r, library_row_of s r)) records))
         \<and> (\<forall>i row. items_by_id db i = Some row \<and> li_source_id row \<noteq> s \<longrightarrow>
              (if i \<in> cr_id ` set records
               then \<exists>r\<in>set records. cr_id r = i \<and> items_by_id db' i = Some (library_row_of s r)
               else items_by_id db' i = Some row)))"
proof -
  define merged where "merged records = (\<lambda>i. option_filter (\<lambda>row. li_source_id row \<noteq> s) (items_by_id db i))
      ++ map_of (rev (map (\<lambda>r. (cr_id r, library_row_of s r)) records))" for records
  have fare: "if i \<in> cr_id ` set records
      then \<exists>r\<in>set records. cr_id r = i \<and> merged records i = Some (library_row_of s r)
      else merged records i = Some row"
    if "items_by_id db i = Some row" "li_source_id row \<noteq> s" for i row records
  proof (cases "i \<in> cr_id ` set records")
    case True
    from published_row[OF this, of s] True show ?thesis by (auto simp: merged_def map_add_def)
  next
    case False
    with unpublished_row[OF False, of s] that show ?thesis
      by (simp add: merged_def map_add_def option_filter_def)
  qed
  show ?thesis
    using items_by_id_replace_source[OF assms, of s, folded merged_def] keyed_replace_source[OF assms] fare
    unfolding merged_def[symmetric]
    by (auto simp: discover_source_def CatalogStore_replace_source_def split: sum.split option.split)
qed

definition demo_record :: "string \<Rightarrow> string \<Rightarrow> catalog_record" where
  "demo_record i kind = \<lparr>cr_id = i, cr_title = ''T'', cr_kind = kind, cr_launch_id = None, cr_icon = None,
     cr_metadata = JNull, cr_updated_at = ''1''\<rparr>"

definition demo_catalog :: catalog_db where
  "demo_catalog = \<lparr>library_items = [library_row_of ''stremio'' (demo_record ''x'' ''movie''),
       library_row_of ''stremio'' (demo_record ''y'' ''movie''), library_row_of ''heroic'' (demo_record ''z'' ''game'')],
     catalog_enrichments = [], item_traits = []\<rparr>"

lemma demo_catalog_keyed: "keyed li_id (library_items demo_catalog)"
  by (simp add: demo_catalog_def library_row_of_def demo_record_def)

text \<open>
  An item id is unique over all sources, so a record published under an id of another source takes
  that item over: here the run of \<open>heroic\<close> moves the item \<open>x\<close> of \<open>stremio\<close> to itself.
\<close>

theorem discovery_replaces_and_takes_over_witness:
  "case discover_source ''heroic'' (Inr [demo_record ''x'' ''game'']) None (\<lambda>_. []) (demo_catalog, []) of
     (result, db', events') \<Rightarrow> result = Inr 1 \<and> events' = [LibraryChanged ''heroic'' 1]
       \<and> map_option li_source_id (items_by_id db' ''x'') = Some ''heroic''
       \<and> items_by_id db' ''y'' = items_by_id demo_catalog ''y'' \<and> items_by_id db' ''z'' = None"
proof -
  obtain result db' events' where r:
    "discover_source ''heroic'' (Inr [demo_record ''x'' ''game'']) None (\<lambda>_. []) (demo_catalog, []) = (result, db', events')"
    using prod_cases3 by blast
  have res: "result = Inr 1" using r by (auto simp: discover_source_def CatalogStore_replace_source_def)
  have before: "items_by_id demo_catalog ''y'' = Some (library_row_of ''stremio'' (demo_record ''y'' ''movie''))"
    "items_by_id demo_catalog ''z'' = Some (library_row_of ''heroic'' (demo_record ''z'' ''game''))"
    by (simp_all add: items_by_id_def demo_catalog_def lookup_def library_row_of_def demo_record_def)
  from discovery_replaces_and_takes_over[OF demo_catalog_keyed, where s = "''heroic''"
      and discovered = "Inr [demo_record ''x'' ''game'']" and fault = None and describe = "\<lambda>_. []" and events = "[]"]
  have ev: "events' = [LibraryChanged ''heroic'' 1]"
    and items: "items_by_id db' = (\<lambda>i. option_filter (\<lambda>row. li_source_id row \<noteq> ''heroic'') (items_by_id demo_catalog i))
             ++ map_of (rev (map (\<lambda>r. (cr_id r, library_row_of ''heroic'' r)) [demo_record ''x'' ''game'']))"
    unfolding r res by auto
  have "map_option li_source_id (items_by_id db' ''x'') = Some ''heroic''"
    "items_by_id db' ''y'' = items_by_id demo_catalog ''y''" "items_by_id db' ''z'' = None"
    unfolding items by (simp_all add: before map_add_def demo_record_def library_row_of_def option_filter_def)
  with r res ev show ?thesis by simp
qed

section \<open>What is served\<close>

definition served :: "catalog_db \<Rightarrow> catalog_item \<Rightarrow> bool" where
  "served db item \<longleftrightarrow> item \<in> set (CatalogStore_list db) \<or> (\<exists>s n. item \<in> set (CatalogStore_list_source s n db))
     \<or> (\<exists>i. CatalogStore_get i db = Some item)"

lemma served_row: "served db item \<Longrightarrow> \<exists>row\<in>set (library_items db). item = catalog_item_from_row db row"
  by (auto simp: served_def CatalogStore_list_def CatalogStore_list_source_def CatalogStore_get_def newest_first_def
      dest!: in_set_takeD lookup_Some)

lemma served_kind_game: "eq_ignore_ascii_case (served_kind s k) ''game'' \<Longrightarrow> s = HEROIC"
proof (rule ccontr)
  assume g: "eq_ignore_ascii_case (served_kind s k) ''game''" and "s \<noteq> HEROIC"
  moreover have "\<not> eq_ignore_ascii_case APPLICATION ''game''" by code_simp
  ultimately show False by (auto simp: served_kind_def GAME_def split: if_splits)
qed

lemma section_application: "section_of kind m = ApplicationSection \<longleftrightarrow> \<not> eq_ignore_ascii_case kind ''game''"
  by (simp add: section_of_def)

text \<open>
  However an item is served and whatever its provider claims, it is a game only if Heroic
  discovered it, it is filed among the applications exactly when it is not a game, only an
  application streams or has a form factor, and what streams is on the couch.
\<close>

theorem served_games_are_heroics:
  assumes "served db item"
  shows "(eq_ignore_ascii_case (ci_kind item) GAME \<longrightarrow> ci_source_id item = HEROIC)
    \<and> (cc_section (ci_classification item) = ApplicationSection \<longleftrightarrow> \<not> eq_ignore_ascii_case (ci_kind item) GAME)
    \<and> (cc_form_factor (ci_classification item) = None \<longleftrightarrow> eq_ignore_ascii_case (ci_kind item) GAME)
    \<and> (cc_streaming (ci_classification item) \<longrightarrow> cc_form_factor (ci_classification item) = Some Couch)"
proof -
  obtain row where item: "item = catalog_item_from_row db row" using served_row[OF assms] by blast
  obtain metadata where c: "ci_classification item = classify_catalog (li_id row) (li_launch_id row)
      (section_of (ci_kind item) metadata) (modeled_form_of metadata)"
    by (simp add: item catalog_item_from_row_def Let_def)
  have k: "ci_kind item = served_kind (li_source_id row) (li_kind row)" "ci_source_id item = li_source_id row"
    by (simp_all add: item catalog_item_from_row_def Let_def)
  have "classification_ok (ci_classification item)" unfolding c by (rule classify_ok)
  moreover have "cc_section (ci_classification item) = ApplicationSection \<longleftrightarrow> \<not> eq_ignore_ascii_case (ci_kind item) ''game''"
    unfolding c by (simp add: classify_section section_application)
  ultimately show ?thesis
    using served_kind_game[of "li_source_id row" "li_kind row"] by (auto simp: k GAME_def classification_ok_def)
qed

theorem served_games_are_heroics_witness:
  "let db = \<lparr>library_items = [library_row_of DESKTOP_APPS (demo_record ''supertux'' ''Game'')],
             catalog_enrichments = [], item_traits = []\<rparr> in
   case CatalogStore_get ''supertux'' db of
     None \<Rightarrow> False
   | Some item \<Rightarrow> cc_section (ci_classification item) = ApplicationSection
       \<and> cc_form_factor (ci_classification item) \<noteq> None"
proof -
  let ?db = "\<lparr>library_items = [library_row_of DESKTOP_APPS (demo_record ''supertux'' ''Game'')],
             catalog_enrichments = [], item_traits = []\<rparr>"
  obtain item where item: "CatalogStore_get ''supertux'' ?db = Some item" and src: "ci_source_id item = DESKTOP_APPS"
    by (simp add: CatalogStore_get_def lookup_def library_row_of_def demo_record_def catalog_item_from_row_def Let_def)
  then have "served ?db item" by (auto simp: served_def)
  from served_games_are_heroics[OF this] src have "cc_section (ci_classification item) = ApplicationSection"
    "cc_form_factor (ci_classification item) \<noteq> None" by (auto simp: HEROIC_def DESKTOP_APPS_def)
  with item show ?thesis by simp
qed

section \<open>Enrichment and order\<close>

text \<open>The enrichment laid over an item is a candidate no other candidate is preferable to.\<close>

lemma preferable_key: "preferable d c \<longleftrightarrow> (en_priority c, en_updated_at c) < (en_priority d, en_updated_at d)"
  by (auto simp: preferable_def)

lemma first_enrichment_None: "first_enrichment cs = None \<longleftrightarrow> cs = []"
  by (cases cs) (auto split: option.splits)

lemma first_enrichment_best:
  "first_enrichment cs = Some d \<Longrightarrow> d \<in> set cs \<and> (\<forall>c\<in>set cs. \<not> preferable c d)"
proof (induction cs arbitrary: d)
  case (Cons c cs)
  show ?case
  proof (cases "first_enrichment cs")
    case None
    with Cons.prems show ?thesis by (auto simp: first_enrichment_None preferable_key)
  next
    case (Some b)
    note best = Cons.IH[OF Some]
    show ?thesis
    proof (cases "preferable b c")
      case True
      with Some Cons.prems have "d = b" by simp
      with best True show ?thesis by (auto simp: preferable_key)
    next
      case False
      with Some Cons.prems have d: "d = c" by simp
      have "\<not> preferable x c" if "x \<in> set cs" for x
        using best that False unfolding preferable_key by (meson leD leI order.trans)
      with d show ?thesis by (auto simp: preferable_key)
    qed
  qed
qed simp

text \<open>A source's items come newest first, and an item that is left out is no newer than one that is listed.\<close>

lemma newest_first_sorted: "sorted (rev (map li_updated_at (newest_first rows)))"
  by (simp add: newest_first_def rev_map)

lemma set_newest_first: "set (newest_first rows) = set rows"
  by (simp add: newest_first_def)

lemma list_source_newest:
  assumes "row \<in> set (library_items db)" and "li_source_id row = s"
    and "catalog_item_from_row db row \<notin> set (CatalogStore_list_source s n db)"
    and "shown \<in> set (take n (newest_first (filter (\<lambda>r. li_source_id r = s) (library_items db))))"
  shows "li_updated_at row \<le> li_updated_at shown"
proof -
  define rows where "rows = newest_first (filter (\<lambda>r. li_source_id r = s) (library_items db))"
  have "row \<in> set rows" using assms(1,2) by (simp add: rows_def set_newest_first)
  then obtain k where k: "k < length rows" "row = rows ! k" by (auto simp: in_set_conv_nth)
  from assms(4) obtain m where m: "m < n" "m < length rows" "shown = rows ! m"
    unfolding rows_def[symmetric] by (auto simp: in_set_conv_nth)
  have "row \<notin> set (take n rows)"
    using assms(3) by (auto simp: CatalogStore_list_source_def rows_def)
  moreover have "k < n \<Longrightarrow> rows ! k \<in> set (take n rows)"
    using k(1) nth_mem[of k "take n rows"] by simp
  ultimately have "n \<le> k" using k(2) by (meson leI)
  then have "m \<le> k" using m by simp
  with sorted_rev_nth_mono[of "map li_updated_at rows" m k] k m newest_first_sorted show ?thesis
    unfolding rows_def by (metis length_map nth_map)
qed

text \<open>
  An enrichment run replaces the provider's aliases and no other provider's; written verdicts
  replace the earlier ones of their items; turning the model off forgets all of them.
\<close>

lemma enrichment_replaces_provider:
  assumes "keyed enrichment_key (catalog_enrichments db)"
  shows "lookup enrichment_key k (catalog_enrichments (snd (CatalogStore_replace_enrichment_source None p records db)))
    = ((\<lambda>k. option_filter (\<lambda>row. en_provider_id row \<noteq> p) (lookup enrichment_key k (catalog_enrichments db)))
       ++ map_of (rev (map (\<lambda>e. (enrichment_key e, e)) (concat (map (enrichment_rows p) records))))) k"
  using assms by (simp add: CatalogStore_replace_enrichment_source_def enrichments.lookup_batch lookup_filter)

lemma written_verdicts:
  "lookup trait_key k (item_traits (snd (TraitStore_write_form_factors None now st vs db)))
    = ((\<lambda>k. lookup trait_key k (item_traits db))
       ++ map_of (rev (map (\<lambda>v. (trait_key (verdict_row now st v), verdict_row now st v)) vs))) k"
proof -
  have "item_traits (snd (TraitStore_write_form_factors None now st vs db))
      = fold (upsert_row trait_key overwrite_trait) (map (verdict_row now st) vs) (item_traits db)"
    by (simp add: TraitStore_write_form_factors_def fold_map comp_def)
  then show ?thesis by (simp add: verdicts.lookup_batch comp_def)
qed

lemma cleared_verdicts: "TraitStore_current st (snd (TraitStore_clear db)) = Map.empty"
  by (simp add: TraitStore_current_def TraitStore_clear_def)

end
