(* ===== verification/Ai_Scan.thy ===== *)
theory Ai_Scan
  imports Ai_Rules Sql_Tables Complex_Main
begin

text \<open>
  The deterministic part of \<^verbatim>\<open>hearthdeck-ai/src/categorization\<close>: the taxonomy (\<^verbatim>\<open>taxonomy.rs\<close>), the
  profiles and verdicts (\<^verbatim>\<open>model.rs\<close>, \<^verbatim>\<open>hearthdeck-protocol/src/categorization.rs\<close>), the rule-based
  engine (\<^verbatim>\<open>heuristic.rs\<close>) and the scan that folds verdicts into categories (\<^verbatim>\<open>scan.rs\<close>). A
  floating-point number is the rational it denotes and \<open>rnd\<close> rounds a result to the nearest one;
  the engine of a scan is an argument. Sets of strings are lists.
\<close>

section \<open>Taxonomy\<close>

record rail =
  rail_id :: string
  rail_name :: string

record category_def =
  cd_slug :: string
  cd_name :: string
  cd_summary :: string
  cd_section :: library_section
  cd_rail :: "rail option"

definition CategoryDef_new :: "string \<Rightarrow> string \<Rightarrow> string \<Rightarrow> library_section \<Rightarrow> category_def" where
  "CategoryDef_new slug name summary section =
     \<lparr>cd_slug = slug, cd_name = name, cd_summary = summary, cd_section = section, cd_rail = None\<rparr>"

definition CategoryDef_on_rail :: "rail option \<Rightarrow> category_def \<Rightarrow> category_def" where
  "CategoryDef_on_rail r c = c\<lparr>cd_rail := r\<rparr>"

definition CategoryDef_label :: "category_def \<Rightarrow> string" where
  "CategoryDef_label c = cd_name c @ '' - '' @ cd_summary c"

datatype taxonomy_error = EmptyName | EmptySlug | DuplicateName string | DuplicateSlug string

fun check_categories :: "string list \<Rightarrow> string list \<Rightarrow> category_def list \<Rightarrow> taxonomy_error option" where
  "check_categories names slugs [] = None"
| "check_categories names slugs (c # cs) =
     (if trim (cd_name c) = [] then Some EmptyName
      else if trim (cd_slug c) = [] then Some EmptySlug
      else if map ascii_lower (cd_name c) \<in> set names then Some (DuplicateName (cd_name c))
      else if map ascii_lower (cd_slug c) \<in> set slugs then Some (DuplicateSlug (cd_slug c))
      else check_categories (map ascii_lower (cd_name c) # names) (map ascii_lower (cd_slug c) # slugs) cs)"

definition Taxonomy_new :: "category_def list \<Rightarrow> taxonomy_error + category_def list" where
  "Taxonomy_new categories =
     (case check_categories [] [] categories of None \<Rightarrow> Inr categories | Some e \<Rightarrow> Inl e)"

definition watch :: rail where "watch = \<lparr>rail_id = ''watch'', rail_name = ''Watch''\<rparr>"

definition Taxonomy_baseline :: "category_def list" where
  "Taxonomy_baseline =
     [CategoryDef_on_rail (Some watch)
        (CategoryDef_new ''video_streaming'' ''Video & Streaming''
        ''Apps for watching streaming services such as Netflix, Disney+, Prime Video, Max, Crunchyroll or Hulu.''
        ApplicationSection),
      CategoryDef_on_rail (Some watch)
        (CategoryDef_new ''media_center'' ''Media Center''
        ''Local or self-hosted media libraries and players such as Plex, Jellyfin, Emby, Kodi, VLC or mpv.''
        ApplicationSection),
      CategoryDef_new ''music_audio'' ''Music & Audio''
        ''Music players, podcast clients, audio editors, synthesisers and digital audio workstations.''
        ApplicationSection,
      CategoryDef_new ''photo_video'' ''Photo & Video''
        ''Image viewers and editors, drawing and design tools, 3D and CAD, video editors and screen capture.''
        ApplicationSection,
      CategoryDef_new ''development'' ''Development''
        ''Code editors and IDEs, compilers, terminals, version control, container and database tools.''
        ApplicationSection,
      CategoryDef_new ''productivity'' ''Productivity''
        ''Office suites, notes, calendars, PDF and document tools, and task managers.''
        ApplicationSection,
      CategoryDef_new ''internet'' ''Internet''
        ''Web browsers, email, chat and video-call clients, torrents and remote desktop clients.''
        ApplicationSection,
      CategoryDef_new ''system'' ''System''
        ''Desktop settings, file managers, disk and system monitors, package managers and backup tools.''
        ApplicationSection,
      CategoryDef_new ''education'' ''Education & Reference''
        ''Learning apps, dictionaries, e-book readers, calculators, mathematics and science tools.''
        ApplicationSection,
      CategoryDef_new ''desktop'' ''Desktop & Customization''
        ''Themes, wallpapers, fonts, launchers, panels, widgets and other desktop appearance tools.''
        ApplicationSection]"

definition Taxonomy_on_rail :: "string \<Rightarrow> category_def list \<Rightarrow> category_def list" where
  "Taxonomy_on_rail i t =
     filter (\<lambda>c. case cd_rail c of None \<Rightarrow> False | Some r \<Rightarrow> rail_id r = i) t"

fun collect_rails :: "rail list \<Rightarrow> category_def list \<Rightarrow> rail list" where
  "collect_rails rails [] = rails"
| "collect_rails rails (c # cs) =
     (case cd_rail c of
        None \<Rightarrow> collect_rails rails cs
      | Some r \<Rightarrow>
          collect_rails (if list_ex (\<lambda>known. rail_id known = rail_id r) rails then rails else rails @ [r]) cs)"

definition Taxonomy_rails :: "category_def list \<Rightarrow> rail list" where
  "Taxonomy_rails t = collect_rails [] t"

definition Taxonomy_in_section :: "library_section \<Rightarrow> category_def list \<Rightarrow> category_def list" where
  "Taxonomy_in_section section t = filter (\<lambda>c. cd_section c = section) t"

definition Taxonomy_by_slug :: "string \<Rightarrow> category_def list \<Rightarrow> category_def option" where
  "Taxonomy_by_slug slug t = find (\<lambda>c. cd_slug c = slug) t"

definition Taxonomy_by_label :: "string \<Rightarrow> category_def list \<Rightarrow> category_def option" where
  "Taxonomy_by_label label t = find (\<lambda>c. CategoryDef_label c = label) t"

section \<open>Verdicts\<close>

datatype decision_provenance = LayaDecision | HeuristicDecision

record app_traits =
  at_game :: "rat option"
  at_watch_service :: "rat option"
  at_emulator :: "rat option"
  at_couch :: "rat option"

definition or_zero :: "rat option \<Rightarrow> rat" where
  "or_zero p = (case p of None \<Rightarrow> 0 | Some x \<Rightarrow> x)"

definition AppTraits_is_game :: "rat \<Rightarrow> app_traits \<Rightarrow> bool" where
  "AppTraits_is_game threshold t \<longleftrightarrow> threshold \<le> or_zero (at_game t)"

definition AppTraits_is_watch_service :: "rat \<Rightarrow> app_traits \<Rightarrow> bool" where
  "AppTraits_is_watch_service threshold t \<longleftrightarrow> threshold \<le> or_zero (at_watch_service t)"

definition AppTraits_is_emulator :: "rat \<Rightarrow> app_traits \<Rightarrow> bool" where
  "AppTraits_is_emulator threshold t \<longleftrightarrow> threshold \<le> or_zero (at_emulator t)"

definition AppTraits_is_couch_friendly :: "rat \<Rightarrow> app_traits \<Rightarrow> bool" where
  "AppTraits_is_couch_friendly threshold t \<longleftrightarrow> threshold \<le> or_zero (at_couch t)"

definition section_from_traits ::
  "(rat \<Rightarrow> rat) \<Rightarrow> rat option \<Rightarrow> rat option \<Rightarrow> rat \<Rightarrow> library_section \<times> rat" where
  "section_from_traits rnd game emu threshold =
     (let game = or_zero game; emu = or_zero emu in
      if threshold \<le> emu then (ConsoleGames, emu)
      else if threshold \<le> game then (PcGames, game)
      else (ApplicationSection, max 0 (min 1 (rnd (1 - game)))))"

record category_match =
  cm_slug :: string
  cm_name :: string
  cm_confidence :: rat

record app_categorization =
  ac_app_id :: string
  ac_title :: string
  ac_section :: library_section
  ac_section_confidence :: rat
  ac_categories :: "category_match list"
  ac_needs_category :: bool
  ac_traits :: app_traits
  ac_provenance :: decision_provenance
  ac_rationale :: "string option"

record scan_failure =
  sf_app_id :: string
  sf_error :: string

record unclassified_app =
  ua_app_id :: string
  ua_title :: string

record category_proposal =
  cp_slug :: string
  cp_name :: string
  cp_section :: library_section
  cp_app_ids :: "string list"
  cp_mean_confidence :: rat
  cp_recommended :: bool

record scan_report =
  sr_generated_at :: nat
  sr_categorizer :: string
  sr_app_count :: nat
  sr_assignments :: "app_categorization list"
  sr_failures :: "scan_failure list"
  sr_categories :: "category_proposal list"
  sr_unclassified :: "unclassified_app list"

definition ScanReport_recommended_categories :: "scan_report \<Rightarrow> category_proposal list" where
  "ScanReport_recommended_categories r = filter cp_recommended (sr_categories r)"

definition ScanReport_categorizations_for :: "string \<Rightarrow> scan_report \<Rightarrow> app_categorization option" where
  "ScanReport_categorizations_for app_id r = find (\<lambda>a. ac_app_id a = app_id) (sr_assignments r)"

section \<open>Profiles and the rule-based engine\<close>

datatype app_kind = GameKind | ApplicationKind | OtherKind

definition AppKind_parse :: "string \<Rightarrow> app_kind" where
  "AppKind_parse s =
     (if s = ''game'' then GameKind else if s = ''application'' then ApplicationKind else OtherKind)"

record app_profile =
  ap_id :: string
  ap_title :: string
  ap_kind :: "app_kind option"
  ap_summary :: "string option"
  ap_description :: "string option"
  ap_developer :: "string option"
  ap_exec :: "string option"
  ap_store :: "string option"
  ap_platform :: "string option"
  ap_source_id :: "string option"
  ap_categories :: "string list"
  ap_keywords :: "string list"
  ap_urls :: "(string \<times> string) list"

definition AppProfile_new :: "string \<Rightarrow> string \<Rightarrow> app_profile" where
  "AppProfile_new i title =
     \<lparr>ap_id = i, ap_title = title, ap_kind = None, ap_summary = None, ap_description = None,
      ap_developer = None, ap_exec = None, ap_store = None, ap_platform = None, ap_source_id = None,
      ap_categories = [], ap_keywords = [], ap_urls = []\<rparr>"

definition string_at :: "json \<Rightarrow> string \<Rightarrow> string option" where
  "string_at v k =
     (case json_get k v of
        None \<Rightarrow> None
      | Some x \<Rightarrow> option_filter (\<lambda>t. t \<noteq> []) (map_option trim (json_str x)))"

definition string_values :: "json list \<Rightarrow> string list" where
  "string_values xs = concat (map (\<lambda>x. case json_str x of None \<Rightarrow> [] | Some s \<Rightarrow> [s]) xs)"

definition string_list_at :: "json \<Rightarrow> string \<Rightarrow> string list" where
  "string_list_at v k =
     (case json_get k v of
        Some (JArray xs) \<Rightarrow> filter (\<lambda>t. t \<noteq> []) (map trim (string_values xs))
      | _ \<Rightarrow> [])"

definition string_map_at :: "json \<Rightarrow> string \<Rightarrow> (string \<times> string) list" where
  "string_map_at v k =
     (case json_get k v of
        Some (JObject kvs) \<Rightarrow>
          concat (map (\<lambda>(key, x). case json_str x of None \<Rightarrow> [] | Some s \<Rightarrow> [(key, s)]) kvs)
      | _ \<Rightarrow> [])"

definition AppProfile_from_metadata :: "string \<Rightarrow> string \<Rightarrow> app_kind option \<Rightarrow> json \<Rightarrow> app_profile" where
  "AppProfile_from_metadata i title kind metadata =
     \<lparr>ap_id = i, ap_title = title, ap_kind = kind,
      ap_summary = (case string_at metadata ''summary'' of
        None \<Rightarrow> string_at metadata ''comment'' | Some s \<Rightarrow> Some s),
      ap_description = string_at metadata ''description'', ap_developer = string_at metadata ''developer'',
      ap_exec = string_at metadata ''exec'', ap_store = string_at metadata ''store'',
      ap_platform = string_at metadata ''platform'', ap_source_id = string_at metadata ''source_id'',
      ap_categories = string_list_at metadata ''categories'', ap_keywords = string_list_at metadata ''keywords'',
      ap_urls = string_map_at metadata ''urls''\<rparr>"

definition AppProfile_signal_terms :: "app_profile \<Rightarrow> string" where
  "AppProfile_signal_terms a =
     map ascii_lower (ap_id a @ '' '' @ (case ap_exec a of None \<Rightarrow> [] | Some e \<Rightarrow> e))"

definition AppProfile_has_category :: "string \<Rightarrow> app_profile \<Rightarrow> bool" where
  "AppProfile_has_category name a \<longleftrightarrow> list_ex (\<lambda>c. eq_ignore_ascii_case c name) (ap_categories a)"

definition HARD :: rat where "HARD = 1"

text \<open>The double nearest to 0.6.\<close>

definition MAPPED :: rat where "MAPPED = 5404319552844595 / 2 ^ 53"

definition CONSOLE_PREFIX :: string where "CONSOLE_PREFIX = ''hearthdeck-console:''"

definition FREEDESKTOP_TO_SLUG :: "(string \<times> string) list" where
  "FREEDESKTOP_TO_SLUG =
     [(''audio'', ''music_audio''), (''music'', ''music_audio''), (''video'', ''photo_video''),
      (''graphics'', ''photo_video''), (''development'', ''development''), (''education'', ''education''),
      (''science'', ''education''), (''office'', ''productivity''), (''network'', ''internet''),
      (''chat'', ''internet''), (''webbrowser'', ''internet''), (''email'', ''internet''),
      (''settings'', ''system''), (''system'', ''system''), (''utility'', ''system''),
      (''filetools'', ''system''), (''player'', ''media_center''), (''audiovideo'', ''media_center'')]"

definition slug_for :: "string \<Rightarrow> string option" where
  "slug_for category = map_of FREEDESKTOP_TO_SLUG (map ascii_lower category)"

fun find_map_slug :: "string list \<Rightarrow> string option" where
  "find_map_slug [] = None"
| "find_map_slug (c # cs) = (case slug_for c of Some s \<Rightarrow> Some s | None \<Rightarrow> find_map_slug cs)"

fun join_with :: "string \<Rightarrow> string list \<Rightarrow> string" where
  "join_with sep [] = []"
| "join_with sep [s] = s"
| "join_with sep (s # t # ss) = s @ sep @ join_with sep (t # ss)"

definition heuristic_categorize ::
  "(rat \<Rightarrow> rat) \<Rightarrow> app_profile \<Rightarrow> category_def list \<Rightarrow> app_categorization" where
  "heuristic_categorize rnd app taxonomy =
     (let signal = AppProfile_signal_terms app;
          is_game = AppProfile_has_category ''game'' app;
          emu = (list_ex (starts_with CONSOLE_PREFIX) (ap_categories app) \<or> emulator signal);
          watching = (\<not> is_game \<and> streaming signal);
          game_probability = (if is_game then HARD else 0);
          emulator_probability = (if emu then HARD else 0);
          (section, section_confidence) =
            section_from_traits rnd (Some game_probability) (Some emulator_probability) (1 / 2);
          why = (if is_game then [''freedesktop Game category''] else [])
            @ (if emu then [''matched an emulator name or console tag''] else [])
            @ (if watching then [''matched the streaming-service list''] else []);
          candidate = (if watching then Some ''video_streaming'' else find_map_slug (ap_categories app));
          chosen = option_filter (\<lambda>c. cd_section c = section)
            (case candidate of None \<Rightarrow> None | Some slug \<Rightarrow> Taxonomy_by_slug slug taxonomy);
          needs = (chosen = None \<and> section = ApplicationSection);
          why = why @ (case chosen of
              Some c \<Rightarrow> if watching then [] else [''mapped from a freedesktop category to '' @ cd_slug c]
            | None \<Rightarrow> if needs then [''no freedesktop category mapped to a tab''] else [])
      in \<lparr>ac_app_id = ap_id app, ac_title = ap_title app, ac_section = section,
          ac_section_confidence = section_confidence,
          ac_categories = (case chosen of None \<Rightarrow> []
            | Some c \<Rightarrow> [\<lparr>cm_slug = cd_slug c, cm_name = cd_name c, cm_confidence = MAPPED\<rparr>]),
          ac_needs_category = needs,
          ac_traits = \<lparr>at_game = Some game_probability, at_watch_service = Some (if watching then HARD else 0),
            at_emulator = Some emulator_probability, at_couch = None\<rparr>,
          ac_provenance = HeuristicDecision,
          ac_rationale = (if why = [] then None else Some (join_with ''; '' why))\<rparr>)"

section \<open>The scan\<close>

record scan_options =
  min_category_members :: nat
  min_category_confidence :: rat

text \<open>The double nearest to 0.4.\<close>

definition ScanOptions_default :: scan_options where
  "ScanOptions_default = \<lparr>min_category_members = 1, min_category_confidence = 7205759403792794 / 2 ^ 54\<rparr>"

datatype scan_error = NothingDecided nat string

fun decide ::
  "(app_profile \<Rightarrow> string + app_categorization) \<Rightarrow> app_profile list
     \<Rightarrow> app_categorization list \<times> scan_failure list" where
  "decide categorize [] = ([], [])"
| "decide categorize (app # apps) =
     (let (assignments, failures) = decide categorize apps in
      case categorize app of
        Inr a \<Rightarrow> (a # assignments, failures)
      | Inl err \<Rightarrow> (assignments, \<lparr>sf_app_id = ap_id app, sf_error = err\<rparr> # failures))"

text \<open>The map from slugs to members, their summed confidence and count, in key order.\<close>

type_synonym members = "(string \<times> (string list \<times> rat \<times> nat)) list"

fun add_member :: "(rat \<Rightarrow> rat) \<Rightarrow> string \<Rightarrow> category_match \<Rightarrow> members \<Rightarrow> members" where
  "add_member rnd app_id c [] = [(cm_slug c, ([app_id], rnd (0 + cm_confidence c), 1))]"
| "add_member rnd app_id c ((slug, (ids, summed, n)) # ms) =
     (if cm_slug c = slug then (slug, (ids @ [app_id], rnd (summed + cm_confidence c), n + 1)) # ms
      else if cm_slug c < slug
      then (cm_slug c, ([app_id], rnd (0 + cm_confidence c), 1)) # (slug, (ids, summed, n)) # ms
      else (slug, (ids, summed, n)) # add_member rnd app_id c ms)"

definition collect_members :: "(rat \<Rightarrow> rat) \<Rightarrow> app_categorization list \<Rightarrow> members" where
  "collect_members rnd assignments =
     fold (\<lambda>a. fold (add_member rnd (ac_app_id a)) (ac_categories a)) assignments []"

definition proposal_for ::
  "(rat \<Rightarrow> rat) \<Rightarrow> category_def list \<Rightarrow> scan_options \<Rightarrow> string \<times> (string list \<times> rat \<times> nat) \<Rightarrow> category_proposal list" where
  "proposal_for rnd taxonomy options m =
     (case m of (slug, (ids, summed, n)) \<Rightarrow>
        (case Taxonomy_by_slug slug taxonomy of
           None \<Rightarrow> []
         | Some c \<Rightarrow>
             let mean = rnd (summed / of_nat n) in
             [\<lparr>cp_slug = cd_slug c, cp_name = cd_name c, cp_section = cd_section c, cp_app_ids = ids,
               cp_mean_confidence = mean,
               cp_recommended = (min_category_members options \<le> length ids
                 \<and> min_category_confidence options \<le> mean)\<rparr>]))"

definition propose_categories ::
  "(rat \<Rightarrow> rat) \<Rightarrow> app_categorization list \<Rightarrow> category_def list \<Rightarrow> scan_options \<Rightarrow> category_proposal list" where
  "propose_categories rnd assignments taxonomy options =
     sort_key (\<lambda>p. (\<not> cp_recommended p, - int (length (cp_app_ids p)), cp_name p))
       (concat (map (proposal_for rnd taxonomy options) (collect_members rnd assignments)))"

definition scan ::
  "(rat \<Rightarrow> rat) \<Rightarrow> string \<Rightarrow> (app_profile \<Rightarrow> category_def list \<Rightarrow> string + app_categorization)
     \<Rightarrow> category_def list \<Rightarrow> scan_options \<Rightarrow> nat \<Rightarrow> app_profile list \<Rightarrow> scan_error + scan_report" where
  "scan rnd engine categorize taxonomy options now apps =
     (case decide (\<lambda>app. categorize app taxonomy) apps of
        (assignments, failures) \<Rightarrow>
          if apps \<noteq> [] \<and> assignments = []
          then Inl (NothingDecided (length failures)
            (case failures of [] \<Rightarrow> ''no application was decided'' | f # _ \<Rightarrow> sf_error f))
          else Inr \<lparr>sr_generated_at = now, sr_categorizer = engine, sr_app_count = length apps,
            sr_assignments = assignments, sr_failures = failures,
            sr_categories = propose_categories rnd assignments taxonomy options,
            sr_unclassified = map (\<lambda>a. \<lparr>ua_app_id = ac_app_id a, ua_title = ac_title a\<rparr>)
              (filter ac_needs_category assignments)\<rparr>)"

fun push_ids :: "string list \<Rightarrow> string list \<Rightarrow> string list" where
  "push_ids known [] = known"
| "push_ids known (i # is) = push_ids (if i \<in> set known then known else known @ [i]) is"

definition rail_app_ids :: "scan_report \<Rightarrow> category_def list \<Rightarrow> string \<Rightarrow> string list" where
  "rail_app_ids report taxonomy i =
     (let slugs = map cd_slug (Taxonomy_on_rail i taxonomy) in
      foldl (\<lambda>ids c. if \<not> cp_recommended c \<or> cp_slug c \<notin> set slugs then ids else push_ids ids (cp_app_ids c))
        [] (sr_categories report))"

section \<open>Properties of the taxonomy\<close>

text \<open>The shipped categories pass the validation, so building them cannot fail.\<close>

lemma baseline_valid: "Taxonomy_new Taxonomy_baseline = Inr Taxonomy_baseline"
  by code_simp

lemma check_categories_slugs:
  "check_categories names slugs cs = None \<Longrightarrow> keyed (\<lambda>c. map ascii_lower (cd_slug c)) cs
   \<and> (\<forall>c\<in>set cs. map ascii_lower (cd_slug c) \<notin> set slugs)"
  by (induction names slugs cs rule: check_categories.induct) (auto split: if_splits)

lemma valid_slugs: "Taxonomy_new cs = Inr t \<Longrightarrow> keyed cd_slug t"
proof -
  assume "Taxonomy_new cs = Inr t"
  then have "keyed (\<lambda>c. map ascii_lower (cd_slug c)) t"
    using check_categories_slugs[of "[]" "[]" cs] by (auto simp: Taxonomy_new_def split: option.splits)
  then have "distinct (map (map ascii_lower) (map cd_slug t))" by (simp add: comp_def)
  then show "keyed cd_slug t" by (auto simp: distinct_map intro: inj_on_imageI2)
qed

text \<open>In a validated taxonomy a category is found by its slug.\<close>

lemma by_slug_valid: "keyed cd_slug t \<Longrightarrow> Taxonomy_by_slug s t = Some c \<longleftrightarrow> c \<in> set t \<and> cd_slug c = s"
  using lookup_keyed[of cd_slug t c] lookup_Some[of cd_slug s t c]
  by (auto simp: Taxonomy_by_slug_def lookup_def)

section \<open>Properties of the scan\<close>

text \<open>Every application is decided or failed, in the order of the library.\<close>

lemma decide_accounts:
  "decide f apps = (map (\<lambda>app. projr (f app)) (filter (\<lambda>app. \<not> isl (f app)) apps),
     map (\<lambda>app. \<lparr>sf_app_id = ap_id app, sf_error = projl (f app)\<rparr>) (filter (\<lambda>app. isl (f app)) apps))"
  by (induction apps) (auto split: sum.splits)

text \<open>The members of a slug: the applications given it, once per verdict.\<close>

definition assigned :: "app_categorization list \<Rightarrow> string \<Rightarrow> string set" where
  "assigned as s = {ac_app_id a | a. a \<in> set as \<and> (\<exists>m\<in>set (ac_categories a). cm_slug m = s)}"

primrec member_ids :: "members \<Rightarrow> string \<Rightarrow> string set" where
  "member_ids [] s = {}"
| "member_ids (m # ms) s = (if fst m = s then set (fst (snd m)) else {}) \<union> member_ids ms s"

lemma add_member_ids:
  "member_ids (add_member rnd i c ms) s = member_ids ms s \<union> (if s = cm_slug c then {i} else {})"
proof (induction rnd i c ms rule: add_member.induct)
  case (2 rnd i c slug ids summed n ms)
  then show ?case by (cases "cm_slug c = slug"; cases "cm_slug c < slug"; cases "slug = s") auto
qed simp

lemma member_ids_iff: "i \<in> member_ids ms s \<longleftrightarrow> (\<exists>m\<in>set ms. fst m = s \<and> i \<in> set (fst (snd m)))"
  by (induction ms) auto

lemma fold_member_ids:
  "member_ids (fold (add_member rnd i) cs ms) s
     = member_ids ms s \<union> (if \<exists>m\<in>set cs. cm_slug m = s then {i} else {})"
  by (induction cs arbitrary: ms) (auto simp: add_member_ids)

lemma collect_ids_acc:
  "member_ids (fold (\<lambda>a. fold (add_member rnd (ac_app_id a)) (ac_categories a)) as ms) s
     = member_ids ms s \<union> assigned as s"
proof (induction as arbitrary: ms)
  case Nil
  then show ?case by (simp add: assigned_def)
next
  case (Cons a as)
  have "assigned (a # as) s = (if \<exists>m\<in>set (ac_categories a). cm_slug m = s then {ac_app_id a} else {}) \<union> assigned as s"
    by (auto simp: assigned_def)
  with Cons show ?case by (simp add: fold_member_ids Un_assoc)
qed

lemma collect_ids: "member_ids (collect_members rnd as) s = assigned as s"
  by (simp add: collect_members_def collect_ids_acc)

lemma add_member_slugs: "fst ` set (add_member rnd i c ms) = insert (cm_slug c) (fst ` set ms)"
  by (induction rnd i c ms rule: add_member.induct) auto

lemma add_member_sorted: "sorted_wrt (<) (map fst ms) \<Longrightarrow> sorted_wrt (<) (map fst (add_member rnd i c ms))"
proof (induction rnd i c ms rule: add_member.induct)
  case (2 rnd i c slug ids summed n ms)
  then show ?case
    using add_member_slugs[of rnd i c ms] by (auto simp: image_iff)
qed simp

lemma collect_sorted: "sorted_wrt (<) (map fst (collect_members rnd as))"
proof -
  have "sorted_wrt (<) (map fst ms) \<Longrightarrow> sorted_wrt (<) (map fst (fold (add_member rnd i) cs ms))" for i cs ms
    by (induction cs arbitrary: ms) (simp_all add: add_member_sorted)
  then have "sorted_wrt (<) (map fst ms) \<Longrightarrow>
      sorted_wrt (<) (map fst (fold (\<lambda>a. fold (add_member rnd (ac_app_id a)) (ac_categories a)) as ms))" for ms
    by (induction as arbitrary: ms) simp_all
  then show ?thesis by (simp add: collect_members_def)
qed

lemma proposal_members:
  assumes "p \<in> set (propose_categories rnd as t opts)"
  shows "set (cp_app_ids p) = assigned as (cp_slug p)"
proof -
  let ?ms = "collect_members rnd as"
  obtain slug ids summed n where m: "(slug, (ids, summed, n)) \<in> set ?ms" and p: "cp_slug p = slug" "cp_app_ids p = ids"
    using assms by (auto simp: propose_categories_def proposal_for_def Taxonomy_by_slug_def Let_def
        dest!: find_Some_set[OF sym] split: option.splits)
  have "distinct (map fst ?ms)" using collect_sorted[of rnd as] by (simp add: strict_sorted_iff)
  then have "member_ids ?ms slug = set ids"
    using m by (force simp: member_ids_iff set_eq_iff dest: eq_key_imp_eq_value)
  with p show ?thesis by (simp add: collect_ids)
qed

lemma push_ids_set: "set (push_ids ids is) = set ids \<union> set is \<and> (distinct ids \<longrightarrow> distinct (push_ids ids is))"
  by (induction ids "is" rule: push_ids.induct) auto

lemma rail_ids_acc:
  "set (foldl (\<lambda>ids c. if \<not> cp_recommended c \<or> cp_slug c \<notin> S then ids else push_ids ids (cp_app_ids c)) ids cs)
     = set ids \<union> \<Union> {set (cp_app_ids c) | c. c \<in> set cs \<and> cp_recommended c \<and> cp_slug c \<in> S}
   \<and> (distinct ids \<longrightarrow>
      distinct (foldl (\<lambda>ids c. if \<not> cp_recommended c \<or> cp_slug c \<notin> S then ids else push_ids ids (cp_app_ids c)) ids cs))"
proof (induction cs arbitrary: ids)
  case (Cons c cs)
  show ?case
    using Cons[of "if \<not> cp_recommended c \<or> cp_slug c \<notin> S then ids else push_ids ids (cp_app_ids c)"]
      push_ids_set[of ids "cp_app_ids c"] by (auto split: if_splits)
qed simp

lemma rail_ids:
  "distinct (rail_app_ids r t i) \<and> (x \<in> set (rail_app_ids r t i) \<longleftrightarrow>
    (\<exists>p\<in>set (sr_categories r). cp_recommended p \<and> cp_slug p \<in> cd_slug ` set (Taxonomy_on_rail i t)
       \<and> x \<in> set (cp_app_ids p)))"
  using rail_ids_acc[of "cd_slug ` set (Taxonomy_on_rail i t)" "[]" "sr_categories r"]
  by (auto simp: rail_app_ids_def Let_def)

text \<open>
  A rail drawn from a scan's report lists each application once, and lists exactly the
  applications to which the engine gave a category of that rail that was recommended.
\<close>

theorem rail_lists_recommended_members:
  assumes "scan rnd engine categorize t opts now apps = Inr report"
  shows "distinct (rail_app_ids report t i) \<and>
    (x \<in> set (rail_app_ids report t i) \<longleftrightarrow>
      (\<exists>p\<in>set (sr_categories report). cp_recommended p \<and> cp_slug p \<in> cd_slug ` set (Taxonomy_on_rail i t)
         \<and> (\<exists>app a m. app \<in> set apps \<and> categorize app t = Inr a \<and> ac_app_id a = x
              \<and> m \<in> set (ac_categories a) \<and> cm_slug m = cp_slug p)))"
proof -
  define as where "as = map (\<lambda>app. projr (categorize app t)) (filter (\<lambda>app. \<not> isl (categorize app t)) apps)"
  have cats: "sr_categories report = propose_categories rnd as t opts"
    using assms by (auto simp: scan_def decide_accounts as_def split: if_splits)
  have as: "a \<in> set as \<longleftrightarrow> (\<exists>app\<in>set apps. categorize app t = Inr a)" for a
    by (force simp: as_def isl_def)
  have "x \<in> set (cp_app_ids p) \<longleftrightarrow> (\<exists>app a m. app \<in> set apps \<and> categorize app t = Inr a \<and> ac_app_id a = x
      \<and> m \<in> set (ac_categories a) \<and> cm_slug m = cp_slug p)" if "p \<in> set (sr_categories report)" for p
    using proposal_members[of p rnd as t opts] that unfolding cats assigned_def as by auto
  with rail_ids[of report t i x] show ?thesis by auto
qed

definition demo_scan :: "scan_error + scan_report" where
  "demo_scan = scan (\<lambda>x. x) ''heuristic'' (\<lambda>app t. Inr (heuristic_categorize (\<lambda>x. x) app t)) Taxonomy_baseline
     ScanOptions_default 0 [AppProfile_new ''netflix.desktop'' ''Netflix'', AppProfile_new ''gedit.desktop'' ''Editor'']"

definition demo_report :: scan_report where
  "demo_report = (case demo_scan of Inr r \<Rightarrow> r | Inl _ \<Rightarrow> \<lparr>sr_generated_at = 0, sr_categorizer = [], sr_app_count = 0,
     sr_assignments = [], sr_failures = [], sr_categories = [], sr_unclassified = []\<rparr>)"

lemma demo_scan_ok: "\<not> isl demo_scan" by code_simp

lemma demo_report_rail:
  "rail_app_ids demo_report Taxonomy_baseline ''watch'' = [''netflix.desktop'']"
  "map ua_app_id (sr_unclassified demo_report) = [''gedit.desktop'']"
  by code_simp+

theorem rail_lists_recommended_members_witness:
  "''netflix.desktop'' \<in> set (rail_app_ids demo_report Taxonomy_baseline ''watch'') \<and>
   (\<exists>p\<in>set (sr_categories demo_report). cp_recommended p
      \<and> cp_slug p \<in> cd_slug ` set (Taxonomy_on_rail ''watch'' Taxonomy_baseline))"
proof -
  obtain r where r: "demo_scan = Inr r" using demo_scan_ok isl_def sum.exhaust by metis
  have "scan (\<lambda>x. x) ''heuristic'' (\<lambda>app t. Inr (heuristic_categorize (\<lambda>x. x) app t)) Taxonomy_baseline
      ScanOptions_default 0 [AppProfile_new ''netflix.desktop'' ''Netflix'', AppProfile_new ''gedit.desktop'' ''Editor'']
    = Inr demo_report"
    unfolding demo_scan_def[symmetric] demo_report_def r by simp
  from rail_lists_recommended_members[OF this, of "''watch''" "''netflix.desktop''"] demo_report_rail(1)
  show ?thesis by auto
qed

end
