(* ===== verification/Daemon_Rules.thy ===== *)
theory Daemon_Rules
  imports Daemon_Catalog Collections Ai_Scan
begin

text \<open>
  How the daemon composes the dashboard's rails, \<^verbatim>\<open>hearthdeck-daemon/src/collections/rules.rs\<close>: a
  collection with a rule is filled from the activity, the catalog or the last categorization
  report, the others keep their stored items, and items without an icon get the one their record
  has. The environment of a composition holds the stores as they are read, the faults the reads
  meet and the covers a RomM server answers with.
\<close>

record collection_item =
  co_item_id :: string
  co_name :: string
  co_icon :: "string option"
  co_background :: "string option"
  co_logo :: "string option"
  co_description :: "string option"
  co_played :: "recent_activity option"

record rail_collection =
  co_row :: collection_row
  co_items :: "collection_item list"

datatype rule_error = RuleCatalog string | RuleActivity string | RuleCategorization string

record rule_service =
  rs_catalog :: catalog_db
  rs_list_fault :: "string option"
  rs_get_fault :: "string \<Rightarrow> string option"
  rs_activity :: activity_db
  rs_activity_fault :: "string option"
  rs_latest_report :: "(string + scan_report option) option"
  rs_rom_cover :: "int \<Rightarrow> string + string option"

definition ENTRY_ID_PREFIX :: string where "ENTRY_ID_PREFIX = ''hearthdeck:''"

definition ITEM_LIMIT :: nat where "ITEM_LIMIT = 20"

section \<open>Rules\<close>

definition played_collection_item :: "recent_activity \<Rightarrow> collection_item" where
  "played_collection_item play =
     \<lparr>co_item_id = ae_id (ra_entry play), co_name = ae_title (ra_entry play),
      co_icon = ae_icon (ra_entry play), co_background = None, co_logo = None, co_description = None,
      co_played = Some play\<rparr>"

definition catalog_collection_item :: "string \<Rightarrow> string \<Rightarrow> string option \<Rightarrow> collection_item" where
  "catalog_collection_item i name icon =
     \<lparr>co_item_id = ENTRY_ID_PREFIX @ i, co_name = name, co_icon = icon, co_background = None,
      co_logo = None, co_description = None, co_played = None\<rparr>"

definition modeled_items :: "rule_service \<Rightarrow> collection_row \<Rightarrow> rule_error + collection_item list" where
  "modeled_items rs c =
     (case (case c_rule c of None \<Rightarrow> None | Some rule \<Rightarrow> owned_rule_id OWNER_LAYA rule) of
        None \<Rightarrow> Inr []
      | Some rail \<Rightarrow>
          (case rs_latest_report rs of
             None \<Rightarrow> Inr []
           | Some (Inl err) \<Rightarrow> Inl (RuleCategorization err)
           | Some (Inr None) \<Rightarrow> Inr []
           | Some (Inr (Some report)) \<Rightarrow>
               Inr (map (\<lambda>app_id.
                 case rs_get_fault rs app_id of
                   Some _ \<Rightarrow> catalog_collection_item app_id [] None
                 | None \<Rightarrow>
                     (case CatalogStore_get app_id (rs_catalog rs) of
                        Some item \<Rightarrow> catalog_collection_item app_id (ci_title item) (ci_icon item)
                      | None \<Rightarrow> catalog_collection_item app_id [] None))
                 (rail_app_ids report Taxonomy_baseline rail))))"

definition last_played_items :: "rule_service \<Rightarrow> rule_error + collection_item list" where
  "last_played_items rs =
     (case rs_activity_fault rs of
        Some err \<Rightarrow> Inl (RuleActivity err)
      | None \<Rightarrow> Inr (map played_collection_item (recent_games ITEM_LIMIT (rs_activity rs))))"

definition continue_watching_items :: "rule_service \<Rightarrow> rule_error + collection_item list" where
  "continue_watching_items rs =
     (case rs_list_fault rs of
        Some err \<Rightarrow> Inl (RuleCatalog err)
      | None \<Rightarrow>
          Inr (map (\<lambda>r. catalog_collection_item (ci_id r) (ci_title r) (ci_icon r))
            (filter (\<lambda>r. ci_kind r = ''movie'' \<or> ci_kind r = ''series'')
              (CatalogStore_list_source STREMIO ITEM_LIMIT (rs_catalog rs)))))"

definition discovery_art :: "catalog_item \<Rightarrow> string \<Rightarrow> string option" where
  "discovery_art r k =
     (case json_get ''discovery'' (ci_metadata r) of
        None \<Rightarrow> None
      | Some m \<Rightarrow> (case json_get k m of None \<Rightarrow> None | Some v \<Rightarrow> json_str v))"

definition new_arrival_items :: "rule_service \<Rightarrow> rule_error + collection_item list" where
  "new_arrival_items rs =
     (case rs_list_fault rs of
        Some err \<Rightarrow> Inl (RuleCatalog err)
      | None \<Rightarrow>
          Inr (map (\<lambda>r. \<lparr>co_item_id = ENTRY_ID_PREFIX @ ci_id r, co_name = ci_title r, co_icon = ci_icon r,
                 co_background = discovery_art r ''background'', co_logo = discovery_art r ''logo'',
                 co_description = discovery_art r ''description'', co_played = None\<rparr>)
            (CatalogStore_list_source STREMIO_ARRIVALS ITEM_LIMIT (rs_catalog rs))))"

definition resolve :: "rule_service \<Rightarrow> collection_row \<Rightarrow> rule_error + collection_item list option" where
  "resolve rs c =
     (if c_owner c = OWNER_LAYA then map_sum id Some (modeled_items rs c)
      else if c_owner c = OWNER_STREMIO \<and> c_rule c = Some RULE_CONTINUE_WATCHING
      then map_sum id Some (continue_watching_items rs)
      else if c_owner c = OWNER_STREMIO \<and> c_rule c = Some RULE_NEW_ARRIVALS
      then map_sum id Some (new_arrival_items rs)
      else if c_owner c = OWNER_SYSTEM \<and> c_rule c = Some RULE_LAST_PLAYED
      then map_sum id Some (last_played_items rs)
      else Inr None)"

section \<open>Icons\<close>

definition catalog_id_from_item :: "string \<Rightarrow> string option" where
  "catalog_id_from_item item_id = option_filter (\<lambda>i. i \<noteq> []) (strip_prefix ENTRY_ID_PREFIX item_id)"

text \<open>\<^verbatim>\<open>str::parse::<i64>\<close>: an optional sign and digits, in range.\<close>

definition parse_i64 :: "string \<Rightarrow> int option" where
  "parse_i64 s =
     (let neg = (case s of c # _ \<Rightarrow> c = CHR ''-'' | [] \<Rightarrow> False);
          digits = (case s of c # t \<Rightarrow> if c = CHR ''-'' \<or> c = CHR ''+'' then t else s | [] \<Rightarrow> []);
          n = (if neg then - int (nat_of_digits digits) else int (nat_of_digits digits))
      in if digits \<noteq> [] \<and> list_all is_ascii_digit digits \<and> - (2 ^ 63) \<le> n \<and> n < 2 ^ 63 then Some n else None)"

definition rom_id_from_item :: "string \<Rightarrow> int option" where
  "rom_id_from_item item_id =
     (case strip_prefix ''romm:'' item_id of None \<Rightarrow> None | Some s \<Rightarrow> parse_i64 s)"

definition stored_item_icon :: "rule_service \<Rightarrow> string \<Rightarrow> string option" where
  "stored_item_icon rs item_id =
     (case rom_id_from_item item_id of
        Some rom_id \<Rightarrow> (case rs_rom_cover rs rom_id of Inr cover \<Rightarrow> cover | Inl _ \<Rightarrow> None)
      | None \<Rightarrow>
          (case catalog_id_from_item item_id of
             None \<Rightarrow> None
           | Some catalog_id \<Rightarrow>
               (case rs_get_fault rs catalog_id of
                  Some _ \<Rightarrow> None
                | None \<Rightarrow>
                    (case CatalogStore_get catalog_id (rs_catalog rs) of
                       None \<Rightarrow> None | Some item \<Rightarrow> ci_icon item))))"

definition with_item_icons :: "rule_service \<Rightarrow> collection_item list \<Rightarrow> collection_item list" where
  "with_item_icons rs items =
     map (\<lambda>i. if co_icon i = None then i\<lparr>co_icon := stored_item_icon rs (co_item_id i)\<rparr> else i) items"

definition compose_one :: "rule_service \<Rightarrow> rail_collection \<Rightarrow> rail_collection" where
  "compose_one rs c =
     (let items = (case resolve rs (co_row c) of Inr (Some items) \<Rightarrow> items | _ \<Rightarrow> co_items c) in
      c\<lparr>co_items := with_item_icons rs items\<rparr>)"

definition compose :: "rule_service \<Rightarrow> rail_collection list \<Rightarrow> rail_collection list" where
  "compose rs cs = map (compose_one rs) cs"

section \<open>The recently played rail\<close>

lemma with_icons_keep:
  "map co_item_id (with_item_icons rs items) = map co_item_id items
   \<and> map co_name (with_item_icons rs items) = map co_name items
   \<and> map co_played (with_item_icons rs items) = map co_played items"
  by (auto simp: with_item_icons_def)

text \<open>Rails are composed one by one: order, identity and rules of the collections are kept.\<close>

lemma compose_rows: "map co_row (compose rs cs) = map co_row cs"
  by (simp add: compose_def compose_one_def Let_def)

text \<open>A rule that fails leaves the stored items, and so does a collection without a rule.\<close>

lemma compose_unresolved:
  assumes "\<And>items. resolve rs (co_row c) \<noteq> Inr (Some items)"
  shows "map co_item_id (co_items (compose_one rs c)) = map co_item_id (co_items c)"
proof -
  have "(case resolve rs (co_row c) of Inr (Some items) \<Rightarrow> items | _ \<Rightarrow> co_items c) = co_items c"
    using assms by (auto split: sum.splits option.splits)
  then show ?thesis using with_icons_keep by (simp add: compose_one_def)
qed

text \<open>
  A rail of recent plays: the most recent first, and every other play among the candidates is no
  more recent.
\<close>

lemma take_recent:
  fixes f :: "'a \<Rightarrow> int"
  shows "sorted (map f (take n (sort_key f xs)))
    \<and> (\<forall>x\<in>set xs. x \<in> set (take n (sort_key f xs)) \<or> (\<forall>y\<in>set (take n (sort_key f xs)). f y \<le> f x))"
proof (intro conjI ballI)
  let ?s = "sort_key f xs"
  show "sorted (map f (take n ?s))" by (metis sorted_sort_key sorted_wrt_take take_map)
  fix x
  assume "x \<in> set xs"
  then have "x \<in> set (take n ?s @ drop n ?s)" by simp
  then have "x \<in> set (take n ?s) \<or> x \<in> set (drop n ?s)" by (metis Un_iff set_append)
  moreover have "sorted (map f (take n ?s @ drop n ?s))" by simp
  then have "\<forall>y\<in>set (take n ?s). \<forall>z\<in>set (drop n ?s). f y \<le> f z"
    by (simp only: map_append sorted_append) auto
  ultimately show "x \<in> set (take n ?s) \<or> (\<forall>y\<in>set (take n ?s). f y \<le> f x)" by blast
qed

text \<open>
  The dashboard's recently-played rail, composed from the activity as it is, holds at most
  twenty plays and nothing but games, the most recently launched first; a launched game that is
  missing from it is no more recent than any game on it; and a storage fault leaves the rail's
  stored items.
\<close>

theorem recently_played_rail:
  assumes "c_owner (co_row c) = OWNER_SYSTEM" and "c_rule (co_row c) = Some RULE_LAST_PLAYED"
  shows "case rs_activity_fault rs of
      Some _ \<Rightarrow> map co_item_id (co_items (compose_one rs c)) = map co_item_id (co_items c)
    | None \<Rightarrow> \<exists>rows. map co_played (co_items (compose_one rs c)) = map (Some \<circ> recent_activity_from_row) rows
        \<and> map co_item_id (co_items (compose_one rs c)) = map (\<lambda>r. ae_id (la_snapshot r)) rows
        \<and> length rows \<le> 20 \<and> sorted (rev (map la_last_launched_at rows))
        \<and> set rows \<subseteq> {r \<in> set (launch_activity (rs_activity rs)). is_game r}
        \<and> (\<forall>r\<in>set (launch_activity (rs_activity rs)). is_game r \<longrightarrow> r \<in> set rows
             \<or> (\<forall>shown\<in>set rows. la_last_launched_at r \<le> la_last_launched_at shown))"
proof -
  have owners: "OWNER_SYSTEM \<noteq> OWNER_LAYA" "OWNER_SYSTEM \<noteq> OWNER_STREMIO"
    by (simp_all add: OWNER_SYSTEM_def OWNER_LAYA_def OWNER_STREMIO_def)
  then have res: "resolve rs (co_row c) = map_sum id Some (last_played_items rs)"
    using assms by (simp add: resolve_def)
  show ?thesis
  proof (cases "rs_activity_fault rs")
    case (Some err)
    then have "resolve rs (co_row c) \<noteq> Inr (Some items)" for items
      using res by (simp add: last_played_items_def)
    from compose_unresolved[OF this] Some show ?thesis by simp
  next
    case None
    let ?games = "filter is_game (launch_activity (rs_activity rs))"
    let ?f = "\<lambda>r. - int (la_last_launched_at r)"
    define rows where "rows = take 20 (sort_key ?f ?games)"
    have lim: "clamp_limit ITEM_LIMIT = 20" by (simp add: clamp_limit_def ITEM_LIMIT_def)
    have items: "co_items (compose_one rs c) = with_item_icons rs (map (\<lambda>r. played_collection_item (recent_activity_from_row r)) rows)"
      using None res by (simp add: compose_one_def last_played_items_def recent_games_def lim rows_def comp_def)
    have played: "map co_played (co_items (compose_one rs c)) = map (Some \<circ> recent_activity_from_row) rows"
      "map co_item_id (co_items (compose_one rs c)) = map (\<lambda>r. ae_id (la_snapshot r)) rows"
      using with_icons_keep[of rs "map (\<lambda>r. played_collection_item (recent_activity_from_row r)) rows"]
      by (simp_all add: items played_collection_item_def recent_activity_from_row_def comp_def)
    have "set rows \<subseteq> set ?games" unfolding rows_def using set_take_subset[of 20 "sort_key ?f ?games"] by simp
    moreover have "sorted (rev (map la_last_launched_at rows))"
    proof -
      have "sorted_wrt (\<lambda>a b. ?f a \<le> ?f b) rows"
        using take_recent[where f = ?f and n = 20 and xs = ?games] by (simp add: rows_def sorted_map)
      then show ?thesis by (simp add: sorted_wrt_rev sorted_wrt_map)
    qed
    moreover have "\<forall>r\<in>set ?games. r \<in> set rows \<or> (\<forall>shown\<in>set rows. la_last_launched_at r \<le> la_last_launched_at shown)"
      using take_recent[where f = ?f and n = 20 and xs = ?games] by (simp add: rows_def)
    ultimately show ?thesis using None played by (auto simp: rows_def intro!: exI[of _ rows])
  qed
qed

definition demo_activity_row :: "string \<Rightarrow> string \<Rightarrow> nat \<Rightarrow> activity_row" where
  "demo_activity_row i kind t = \<lparr>la_item_id = i, la_snapshot = \<lparr>ae_id = i, ae_title = i, ae_icon = Some ''icon'',
     ae_categories = [], ae_kind = Some kind, ae_source = HEROIC, ae_metadata = JNull\<rparr>,
     la_last_launched_at = t, la_launch_count = 1\<rparr>"

definition demo_rules :: rule_service where
  "demo_rules = \<lparr>rs_catalog = demo_catalog, rs_list_fault = None, rs_get_fault = \<lambda>_. None,
     rs_activity = \<lparr>launch_activity = [demo_activity_row ''a'' ''game'' 1, demo_activity_row ''v'' ''movie'' 2,
       demo_activity_row ''b'' ''game'' 3], play_sessions = []\<rparr>,
     rs_activity_fault = None, rs_latest_report = None, rs_rom_cover = \<lambda>_. Inr None\<rparr>"

definition played_rail :: rail_collection where
  "played_rail = \<lparr>co_row = hd BUILTINS, co_items = []\<rparr>"

lemma played_rail_ids: "map co_item_id (co_items (compose_one demo_rules played_rail)) = [''b'', ''a'']"
  by code_simp

theorem recently_played_rail_witness:
  "\<exists>rows. map (\<lambda>r. ae_id (la_snapshot r)) rows = [''b'', ''a''] \<and> sorted (rev (map la_last_launched_at rows))
     \<and> set rows \<subseteq> set (launch_activity (rs_activity demo_rules))"
proof -
  have row: "c_owner (co_row played_rail) = OWNER_SYSTEM" "c_rule (co_row played_rail) = Some RULE_LAST_PLAYED"
    by (simp_all add: played_rail_def BUILTINS_def)
  have none: "rs_activity_fault demo_rules = None" by (simp add: demo_rules_def)
  obtain rows where "map (\<lambda>r. ae_id (la_snapshot r)) rows = [''b'', ''a'']"
    "sorted (rev (map la_last_launched_at rows))" "set rows \<subseteq> {r \<in> set (launch_activity (rs_activity demo_rules)). is_game r}"
    using recently_played_rail[OF row, of demo_rules] unfolding none option.case played_rail_ids by metis
  then show ?thesis by (intro exI[of _ rows]) auto
qed

end
