(* ===== verification/Daemon_Settings.thy ===== *)
theory Daemon_Settings
  imports Daemon_Catalog
begin

text \<open>
  The settings of the daemon: the user's preferences and the RomM connection of
  \<^verbatim>\<open>hearthdeck-daemon/src/settings.rs\<close> and the TMDB credential of \<^verbatim>\<open>tmdb.rs\<close> and
  \<^verbatim>\<open>tmdb/control.rs\<close>. Each table holds at most one row (\<^verbatim>\<open>CHECK (id = 1)\<close>), so it is an
  optional row; a storage fault is an optional message of the call. The parser of URLs is a
  library's and an argument: it gives the scheme and the host of an absolute URL.
\<close>

section \<open>Tables\<close>

record user_row =
  us_theme_mode :: string
  us_backdrop_mode :: string
  us_categorization_enabled :: bool
  us_revision :: int
  us_updated_at :: string

record romm_row =
  rs_base_url :: string
  rs_token :: string
  rs_updated_at :: string

record stremio_row =
  ss_auth_key :: string
  ss_linked_at :: string
  ss_updated_at :: string

record tmdb_row =
  ts_api_key :: string
  ts_updated_at :: string

record settings_db =
  user_settings_table :: "user_row option"
  romm_settings_table :: "romm_row option"
  stremio_settings_table :: "stremio_row option"
  tmdb_settings_table :: "tmdb_row option"

section \<open>Preferences\<close>

datatype theme_mode = SystemTheme | Aurora | Ember | Indigo | Noir

definition ThemeMode_parse :: "string \<Rightarrow> theme_mode option" where
  "ThemeMode_parse v = map_of [(''system'', SystemTheme), (''aurora'', Aurora), (''ember'', Ember),
     (''indigo'', Indigo), (''noir'', Noir)] v"

datatype backdrop_mode = Solid | EdgeWash | QuietGrid

definition BackdropMode_parse :: "string \<Rightarrow> backdrop_mode option" where
  "BackdropMode_parse v =
     map_of [(''solid'', Solid), (''edge_wash'', EdgeWash), (''quiet_grid'', QuietGrid)] v"

record user_settings =
  theme_mode :: theme_mode
  backdrop_mode :: backdrop_mode
  categorization_enabled :: bool
  revision :: int
  settings_updated_at :: string

definition settings_from_row :: "user_row \<Rightarrow> string + user_settings" where
  "settings_from_row row =
     (case ThemeMode_parse (us_theme_mode row) of
        None \<Rightarrow> Inl (''invalid stored theme mode: '' @ us_theme_mode row)
      | Some theme \<Rightarrow>
          (case BackdropMode_parse (us_backdrop_mode row) of
             None \<Rightarrow> Inl (''invalid stored backdrop mode: '' @ us_backdrop_mode row)
           | Some backdrop \<Rightarrow>
               Inr \<lparr>theme_mode = theme, backdrop_mode = backdrop,
                 categorization_enabled = us_categorization_enabled row,
                 revision = us_revision row, settings_updated_at = us_updated_at row\<rparr>))"

text \<open>The row the migration leaves when there is none.\<close>

definition seed_user_settings :: "string \<Rightarrow> settings_db \<Rightarrow> settings_db" where
  "seed_user_settings now db =
     (case user_settings_table db of
        Some _ \<Rightarrow> db
      | None \<Rightarrow> db\<lparr>user_settings_table := Some \<lparr>us_theme_mode = ''noir'', us_backdrop_mode = ''solid'',
          us_categorization_enabled = False, us_revision = 0, us_updated_at = now\<rparr>\<rparr>)"

definition ROW_NOT_FOUND :: string where
  "ROW_NOT_FOUND = ''no rows returned by a query that expected to return at least one row''"

definition SettingsRepository_get :: "string option \<Rightarrow> settings_db \<Rightarrow> string + user_settings" where
  "SettingsRepository_get fault db =
     (case fault of
        Some err \<Rightarrow> Inl err
      | None \<Rightarrow> (case user_settings_table db of
          None \<Rightarrow> Inl ROW_NOT_FOUND
        | Some row \<Rightarrow> settings_from_row row))"

definition set_categorization_enabled ::
  "string option \<Rightarrow> string option \<Rightarrow> string \<Rightarrow> bool \<Rightarrow> settings_db \<Rightarrow> (string + user_settings) \<times> settings_db" where
  "set_categorization_enabled fault read_fault now enabled db =
     (case fault of
        Some err \<Rightarrow> (Inl err, db)
      | None \<Rightarrow>
          let db = db\<lparr>user_settings_table := map_option (\<lambda>row.
            row\<lparr>us_categorization_enabled := enabled, us_revision := us_revision row + 1,
                us_updated_at := now\<rparr>) (user_settings_table db)\<rparr>
          in (SettingsRepository_get read_fault db, db))"

section \<open>Addresses\<close>

text \<open>\<^verbatim>\<open>Ipv4Addr::from_str\<close>: four decimal octets without leading zeros.\<close>

definition parse_octet :: "string \<Rightarrow> nat option" where
  "parse_octet s =
     (if s \<noteq> [] \<and> length s \<le> 3 \<and> list_all is_ascii_digit s \<and> (length s = 1 \<or> hd s \<noteq> CHR ''0'')
         \<and> nat_of_digits s \<le> 255
      then Some (nat_of_digits s) else None)"

fun all_some :: "'a option list \<Rightarrow> 'a list option" where
  "all_some [] = Some []"
| "all_some (x # xs) = (case x of None \<Rightarrow> None | Some a \<Rightarrow> map_option (Cons a) (all_some xs))"

definition parse_ipv4 :: "string \<Rightarrow> nat list option" where
  "parse_ipv4 s =
     option_filter (\<lambda>os. length os = 4) (all_some (map parse_octet (split (CHR ''.'') s)))"

text \<open>
  \<^verbatim>\<open>Ipv6Addr::from_str\<close>: eight groups of up to four hexadecimal digits, with one \<^verbatim>\<open>::\<close> for a
  run of zeros and an IPv4 address in place of the last two.
\<close>

definition hex_value :: "char \<Rightarrow> nat option" where
  "hex_value c =
     (if is_ascii_digit c then Some (of_char c - 48)
      else if CHR ''a'' \<le> c \<and> c \<le> CHR ''f'' then Some (of_char c - 87)
      else if CHR ''A'' \<le> c \<and> c \<le> CHR ''F'' then Some (of_char c - 55) else None)"

definition parse_group :: "string \<Rightarrow> nat option" where
  "parse_group s =
     (if s \<noteq> [] \<and> length s \<le> 4 then map_option (foldl (\<lambda>n d. 16 * n + d) 0) (all_some (map hex_value s))
      else None)"

fun tail_groups :: "string list \<Rightarrow> nat list option" where
  "tail_groups [] = Some []"
| "tail_groups [s] =
     (case parse_group s of
        Some g \<Rightarrow> Some [g]
      | None \<Rightarrow> (case parse_ipv4 s of
          Some [a, b, c, d] \<Rightarrow> Some [256 * a + b, 256 * c + d]
        | _ \<Rightarrow> None))"
| "tail_groups (s # t # ss) =
     (case parse_group s of None \<Rightarrow> None | Some g \<Rightarrow> map_option (Cons g) (tail_groups (t # ss)))"

definition colon_pieces :: "string \<Rightarrow> string list" where
  "colon_pieces s = (if s = [] then [] else split (CHR '':'') s)"

fun split_double_colon :: "string \<Rightarrow> (string \<times> string) option" where
  "split_double_colon (c # d # s) =
     (if c = CHR '':'' \<and> d = CHR '':'' then Some ([], s)
      else map_option (\<lambda>(a, b). (c # a, b)) (split_double_colon (d # s)))"
| "split_double_colon _ = None"

definition parse_ipv6 :: "string \<Rightarrow> nat list option" where
  "parse_ipv6 s =
     (case split_double_colon s of
        None \<Rightarrow> option_filter (\<lambda>gs. length gs = 8) (tail_groups (colon_pieces s))
      | Some (h, t) \<Rightarrow>
          (case (all_some (map parse_group (colon_pieces h)), tail_groups (colon_pieces t)) of
             (Some gs, Some ts) \<Rightarrow>
               if length gs + length ts \<le> 7
               then Some (gs @ replicate (8 - length gs - length ts) 0 @ ts) else None
           | _ \<Rightarrow> None))"

datatype ip_addr = V4 "nat list" | V6 "nat list"

definition parse_ip :: "string \<Rightarrow> ip_addr option" where
  "parse_ip s =
     (case parse_ipv4 s of Some os \<Rightarrow> Some (V4 os) | None \<Rightarrow> map_option V6 (parse_ipv6 s))"

fun is_loopback :: "ip_addr \<Rightarrow> bool" where
  "is_loopback (V4 os) \<longleftrightarrow> os ! 0 = 127"
| "is_loopback (V6 gs) \<longleftrightarrow> gs = [0, 0, 0, 0, 0, 0, 0, 1]"

fun is_unspecified :: "ip_addr \<Rightarrow> bool" where
  "is_unspecified (V4 os) \<longleftrightarrow> os = [0, 0, 0, 0]"
| "is_unspecified (V6 gs) \<longleftrightarrow> gs = replicate 8 0"

definition loopback_host :: "string \<Rightarrow> bool" where
  "loopback_host host \<longleftrightarrow> host = ''localhost'' \<or> (case parse_ip host of Some ip \<Rightarrow> is_loopback ip | None \<Rightarrow> False)"

section \<open>The RomM connection\<close>

type_synonym url_parser = "string \<Rightarrow> (string \<times> string option) option"

definition normalize_romm_url :: "url_parser \<Rightarrow> string \<Rightarrow> string + string" where
  "normalize_romm_url parse_url value =
     (let base_url = trim_end_char (CHR ''/'') (trim value) in
      if base_url = [] \<or> 2048 < chars_count base_url
      then Inl ''RomM URL must contain 1 to 2048 characters''
      else case parse_url base_url of
        None \<Rightarrow> Inl ''RomM URL must be absolute''
      | Some (scheme, host) \<Rightarrow>
          if scheme \<notin> {''http'', ''https''} \<or> host = None
          then Inl ''RomM URL must be an absolute HTTP(S) URL''
          else if \<not> loopback_host (the host) then Inl ''RomM URL must use a loopback host''
          else Inr base_url)"

record romm_settings =
  rv_base_url :: string
  rv_configured :: bool
  rv_updated_at :: string

record romm_credentials =
  rc_base_url :: string
  rc_token :: string

definition SettingsRepository_romm :: "string option \<Rightarrow> settings_db \<Rightarrow> string + romm_settings option" where
  "SettingsRepository_romm fault db =
     (case fault of
        Some err \<Rightarrow> Inl err
      | None \<Rightarrow> Inr (map_option (\<lambda>row. \<lparr>rv_base_url = rs_base_url row, rv_configured = True,
          rv_updated_at = rs_updated_at row\<rparr>) (romm_settings_table db)))"

definition SettingsRepository_romm_credentials ::
  "string option \<Rightarrow> settings_db \<Rightarrow> string + romm_credentials option" where
  "SettingsRepository_romm_credentials fault db =
     (case fault of
        Some err \<Rightarrow> Inl err
      | None \<Rightarrow> Inr (map_option (\<lambda>row. \<lparr>rc_base_url = rs_base_url row, rc_token = rs_token row\<rparr>)
          (romm_settings_table db)))"

definition save_romm ::
  "url_parser \<Rightarrow> string option \<Rightarrow> string \<Rightarrow> string \<Rightarrow> string \<Rightarrow> settings_db \<Rightarrow> (string + romm_settings) \<times> settings_db" where
  "save_romm parse_url fault now base_url token db =
     (case normalize_romm_url parse_url base_url of
        Inl err \<Rightarrow> (Inl err, db)
      | Inr base_url \<Rightarrow>
          let token = trim token in
          if token = [] \<or> 2048 < chars_count token
          then (Inl ''RomM token must contain 1 to 2048 characters'', db)
          else case fault of
            Some err \<Rightarrow> (Inl err, db)
          | None \<Rightarrow>
              (Inr \<lparr>rv_base_url = base_url, rv_configured = True, rv_updated_at = now\<rparr>,
               db\<lparr>romm_settings_table :=
                 Some \<lparr>rs_base_url = base_url, rs_token = token, rs_updated_at = now\<rparr>\<rparr>))"

definition clear_romm :: "string option \<Rightarrow> settings_db \<Rightarrow> (string + unit) \<times> settings_db" where
  "clear_romm fault db =
     (case fault of Some err \<Rightarrow> (Inl err, db) | None \<Rightarrow> (Inr (), db\<lparr>romm_settings_table := None\<rparr>))"

section \<open>The TMDB credential\<close>

definition DEFAULT_REGION :: string where "DEFAULT_REGION = ''US''"
definition DEFAULT_LANGUAGE :: string where "DEFAULT_LANGUAGE = ''en-US''"

record tmdb_settings =
  tv_configured :: bool
  tv_updated_at :: string

record tmdb_credentials =
  tc_api_key :: string

definition normalize_api_key :: "string \<Rightarrow> string + string" where
  "normalize_api_key api_key =
     (let k = trim api_key in
      if k = [] then Inl ''the TMDB API key must not be empty''
      else if 2048 < chars_count k then Inl ''the TMDB API key must be at most 2048 characters''
      else if list_ex is_whitespace k then Inl ''the TMDB API key must not contain whitespace''
      else if list_ex is_control k then Inl ''the TMDB API key must not contain control characters''
      else if chars_count k < 16 then Inl ''the TMDB API key is too short to be one''
      else Inr k)"

definition TmdbRepository_settings :: "string option \<Rightarrow> settings_db \<Rightarrow> string + tmdb_settings option" where
  "TmdbRepository_settings fault db =
     (case fault of
        Some err \<Rightarrow> Inl err
      | None \<Rightarrow> Inr (map_option (\<lambda>row. \<lparr>tv_configured = True, tv_updated_at = ts_updated_at row\<rparr>)
          (tmdb_settings_table db)))"

definition TmdbRepository_credentials :: "string option \<Rightarrow> settings_db \<Rightarrow> string + tmdb_credentials option" where
  "TmdbRepository_credentials fault db =
     (case fault of
        Some err \<Rightarrow> Inl err
      | None \<Rightarrow> Inr (map_option (\<lambda>row. \<lparr>tc_api_key = ts_api_key row\<rparr>) (tmdb_settings_table db)))"

definition TmdbRepository_save ::
  "string option \<Rightarrow> string \<Rightarrow> string \<Rightarrow> settings_db \<Rightarrow> (string + tmdb_settings) \<times> settings_db" where
  "TmdbRepository_save fault now api_key db =
     (case normalize_api_key api_key of
        Inl err \<Rightarrow> (Inl err, db)
      | Inr api_key \<Rightarrow>
          (case fault of
             Some err \<Rightarrow> (Inl err, db)
           | None \<Rightarrow> (Inr \<lparr>tv_configured = True, tv_updated_at = now\<rparr>,
               db\<lparr>tmdb_settings_table := Some \<lparr>ts_api_key = api_key, ts_updated_at = now\<rparr>\<rparr>)))"

definition TmdbRepository_clear :: "string option \<Rightarrow> settings_db \<Rightarrow> (string + unit) \<times> settings_db" where
  "TmdbRepository_clear fault db =
     (case fault of Some err \<Rightarrow> (Inl err, db) | None \<Rightarrow> (Inr (), db\<lparr>tmdb_settings_table := None\<rparr>))"

datatype tmdb_control_error = InvalidKey string | TmdbStorage string | TmdbCatalog db_error

definition TmdbControl_settings :: "string option \<Rightarrow> settings_db \<Rightarrow> tmdb_control_error + tmdb_settings option" where
  "TmdbControl_settings fault db = map_sum TmdbStorage id (TmdbRepository_settings fault db)"

definition TmdbControl_save ::
  "string option \<Rightarrow> string \<Rightarrow> string \<Rightarrow> settings_db \<Rightarrow> (tmdb_control_error + tmdb_settings) \<times> settings_db" where
  "TmdbControl_save fault now api_key db =
     map_prod (map_sum InvalidKey id) id (TmdbRepository_save fault now api_key db)"

definition TmdbControl_clear ::
  "string option \<Rightarrow> db_error option \<Rightarrow> settings_db \<times> catalog_db
     \<Rightarrow> (tmdb_control_error + unit) \<times> settings_db \<times> catalog_db" where
  "TmdbControl_clear fault catalog_fault dbs =
     (case TmdbRepository_clear fault (fst dbs) of
        (Inl err, sdb) \<Rightarrow> (Inl (TmdbStorage err), sdb, snd dbs)
      | (Inr _, sdb) \<Rightarrow>
          (case CatalogStore_replace_source catalog_fault STREMIO_ARRIVALS [] (snd dbs) of
             (Inl err, cdb) \<Rightarrow> (Inl (TmdbCatalog err), sdb, cdb)
           | (Inr _, cdb) \<Rightarrow> (Inr (), sdb, cdb)))"

section \<open>The market\<close>

text \<open>\<^verbatim>\<open>str::split\<close> at any character of a set.\<close>

definition split_any :: "char list \<Rightarrow> string \<Rightarrow> string list" where
  "split_any ds s = split (hd ds) (map (\<lambda>c. if c \<in> set ds then hd ds else c) s)"

definition locale_parts :: "string \<Rightarrow> (string \<times> string option) option" where
  "locale_parts loc =
     (let bare = trim (hd (split_any [CHR ''.'', CHR ''@''] loc));
          parts = split_any [CHR ''_'', CHR ''-''] bare;
          language = hd parts
      in if length language \<noteq> 2 \<or> \<not> list_all is_ascii_alphabetic language then None
         else Some (map ascii_lower language,
           case tl parts of
             [] \<Rightarrow> None
           | region # _ \<Rightarrow>
               if length region = 2 \<and> list_all is_ascii_alphabetic region
               then Some (map ascii_upper region) else None))"

definition declared_locale :: "(string \<rightharpoonup> string) \<Rightarrow> string option" where
  "declared_locale env =
     find (\<lambda>v. trim v \<noteq> []) (List.map_filter env [''LC_ALL'', ''LC_TIME'', ''LANG''])"

definition region :: "(string \<rightharpoonup> string) \<Rightarrow> string" where
  "region env =
     (case Option.bind (Option.bind (declared_locale env) locale_parts) snd of
        None \<Rightarrow> DEFAULT_REGION | Some r \<Rightarrow> r)"

definition language :: "(string \<rightharpoonup> string) \<Rightarrow> string" where
  "language env =
     (case Option.bind (declared_locale env) locale_parts of
        None \<Rightarrow> DEFAULT_LANGUAGE
      | Some (lang, Some r) \<Rightarrow> lang @ ''-'' @ r
      | Some (lang, None) \<Rightarrow> lang)"

section \<open>What is stored\<close>

text \<open>A URL the daemon may send the RomM token to.\<close>

definition local_url :: "url_parser \<Rightarrow> string \<Rightarrow> bool" where
  "local_url parse_url u \<longleftrightarrow>
     (case parse_url u of
        Some (scheme, Some host) \<Rightarrow> scheme \<in> {''http'', ''https''} \<and> loopback_host host
      | _ \<Rightarrow> False)"

lemma normalize_romm_url_local: "normalize_romm_url parse_url v = Inr u \<Longrightarrow> local_url parse_url u"
  by (auto simp: normalize_romm_url_def local_url_def Let_def split: if_splits option.splits)

text \<open>The whole 127 block and \<^verbatim>\<open>::1\<close> are local; the bracketed host of a URL is not recognised.\<close>

lemma loopback_examples:
  "loopback_host ''127.0.0.1''" "loopback_host ''127.8.9.10''" "loopback_host ''::1''"
  "\<not> loopback_host ''[::1]''" "\<not> loopback_host ''10.0.0.1''" "\<not> loopback_host ''127.0.0.01''"
  by code_simp+

definition settings_ok :: "url_parser \<Rightarrow> settings_db \<Rightarrow> bool" where
  "settings_ok parse_url db \<longleftrightarrow>
     (\<forall>row. romm_settings_table db = Some row \<longrightarrow> local_url parse_url (rs_base_url row) \<and> rs_token row \<noteq> [])
     \<and> (\<forall>row. tmdb_settings_table db = Some row \<longrightarrow>
          16 \<le> chars_count (ts_api_key row) \<and> chars_count (ts_api_key row) \<le> 2048
          \<and> \<not> list_ex is_whitespace (ts_api_key row))
     \<and> (\<forall>row. user_settings_table db = Some row \<longrightarrow> (\<exists>s. settings_from_row row = Inr s))"

lemma settings_ok_save_romm [inv_intros]:
  "settings_ok parse_url db \<Longrightarrow> settings_ok parse_url (snd (save_romm parse_url fault now u t db))"
  by (auto simp: settings_ok_def save_romm_def Let_def normalize_romm_url_local split: sum.splits option.splits)

lemma settings_ok_clear_romm [inv_intros]:
  "settings_ok parse_url db \<Longrightarrow> settings_ok parse_url (snd (clear_romm fault db))"
  by (auto simp: settings_ok_def clear_romm_def split: option.splits)

lemma settings_ok_tmdb_save [inv_intros]:
  "settings_ok parse_url db \<Longrightarrow> settings_ok parse_url (snd (TmdbRepository_save fault now k db))"
  by (auto simp: settings_ok_def TmdbRepository_save_def normalize_api_key_def Let_def
      split: sum.splits option.splits if_splits)

lemma settings_ok_tmdb_clear [inv_intros]:
  "settings_ok parse_url db \<Longrightarrow> settings_ok parse_url (snd (TmdbRepository_clear fault db))"
  by (auto simp: settings_ok_def TmdbRepository_clear_def split: option.splits)

lemma settings_from_row_flag:
  "settings_from_row row = Inr s \<Longrightarrow> \<exists>s. settings_from_row
     (row\<lparr>us_categorization_enabled := b, us_revision := n, us_updated_at := now\<rparr>) = Inr s"
  by (auto simp: settings_from_row_def split: option.splits)

lemma settings_ok_set_categorization [inv_intros]:
  "settings_ok parse_url db \<Longrightarrow>
   settings_ok parse_url (snd (set_categorization_enabled fault read_fault now b db))"
  using settings_from_row_flag
  by (fastforce simp: settings_ok_def set_categorization_enabled_def Let_def split: option.splits)

lemma settings_ok_seed: "settings_ok parse_url db \<Longrightarrow> settings_ok parse_url (seed_user_settings now db)"
  by (auto simp: settings_ok_def seed_user_settings_def settings_from_row_def ThemeMode_parse_def
      BackdropMode_parse_def split: option.splits)

section \<open>The flag of the categorization\<close>

lemma set_categorization_enabled_reads_back:
  assumes "SettingsRepository_get None db = Inr s"
  shows "\<exists>s'. set_categorization_enabled None None now b db = (Inr s', snd (set_categorization_enabled None None now b db))
    \<and> categorization_enabled s' = b \<and> revision s' = revision s + 1
    \<and> theme_mode s' = theme_mode s \<and> backdrop_mode s' = backdrop_mode s
    \<and> SettingsRepository_get None (snd (set_categorization_enabled None None now b db)) = Inr s'"
  using assms by (auto simp: set_categorization_enabled_def SettingsRepository_get_def settings_from_row_def
      split: option.splits)

section \<open>The market is a country code\<close>

lemma locale_parts_shape:
  assumes "locale_parts loc = Some (lang, r)"
  shows "length lang = 2" "list_all is_ascii_lowercase lang"
    "r = Some q \<Longrightarrow> length q = 2 \<and> list_all is_ascii_uppercase q"
  using assms
  by (auto simp: locale_parts_def Let_def list_all_iff ascii_upper_alphabetic ascii_lower_alphabetic
      split: if_splits list.splits)

text \<open>
  C36: whatever locale the host declares, the market the arrivals are asked for is a code of two
  capital letters, and the language tag starts with two small letters.
\<close>

theorem region_is_market_code:
  "length (region env) = 2 \<and> list_all is_ascii_uppercase (region env)
   \<and> 2 \<le> length (language env) \<and> list_all is_ascii_lowercase (take 2 (language env))"
proof (cases "Option.bind (declared_locale env) locale_parts")
  case None
  then show ?thesis
    by (simp add: region_def language_def DEFAULT_REGION_def DEFAULT_LANGUAGE_def is_ascii_uppercase_def
        is_ascii_lowercase_def char_range)
next
  case (Some p)
  then obtain loc lang r where loc: "locale_parts loc = Some (lang, r)" "p = (lang, r)"
    by (cases p) (auto simp: bind_eq_Some_conv)
  note shape = locale_parts_shape[OF loc(1)]
  have "list_all is_ascii_uppercase DEFAULT_REGION" "length DEFAULT_REGION = 2"
    by (simp_all add: DEFAULT_REGION_def is_ascii_uppercase_def char_range)
  with Some loc shape show ?thesis
    by (cases r) (auto simp: region_def language_def)
qed

end
