(* ===== verification/Daemon_Links.thy ===== *)
theory Daemon_Links
  imports Daemon_Settings
begin

text \<open>
  The account links of the daemon: the Stremio session and its link flow
  (\<^verbatim>\<open>hearthdeck-daemon/src/stremio.rs\<close>, \<^verbatim>\<open>stremio/control.rs\<close>) and the RomM device approval and
  password sign-in (\<^verbatim>\<open>romm_link.rs\<close>, \<^verbatim>\<open>romm_link/control.rs\<close>). Instants and durations are
  nanoseconds; the instants read between two awaits of a call are one instant. What the remote
  services answer, URL handling and JSON decoding are arguments. A poll releases its lock across
  the network call, so it is also given as separate steps that other calls interleave with.
\<close>

definition NANOS :: nat where "NANOS = 1000000000"

definition as_secs :: "nat \<Rightarrow> nat" where "as_secs d = d div NANOS"

section \<open>Talking to the Stremio link service\<close>

definition LINK_URL :: string where "LINK_URL = ''https://link.stremio.com/api''"
definition LINK_WINDOW :: nat where "LINK_WINDOW = 300 * NANOS"
definition MAX_AUTH_KEY :: nat where "MAX_AUTH_KEY = 512"

record link_offer =
  lo_code :: string
  lo_link :: string
  lo_qr :: string
  lo_expires_in_seconds :: nat

datatype link_answer = AnswerLinked string | AnswerWaiting

datatype link_poll = PollIdle | PollExpired | PollWaiting link_offer nat | PollLinked string

datatype http_reply = Unreachable | Unreadable | Reply string string

type_synonym http_get = "string \<Rightarrow> (string \<times> string) list \<Rightarrow> http_reply"

definition get_json :: "http_get \<Rightarrow> (string \<Rightarrow> json option) \<Rightarrow> string \<Rightarrow> (string \<times> string) list \<Rightarrow> string + json" where
  "get_json http parse_json url query =
     (case http url query of
        Unreachable \<Rightarrow> Inl (''could not reach '' @ url)
      | Unreadable \<Rightarrow> Inl (''could not read the answer from '' @ url)
      | Reply status body \<Rightarrow>
          (case parse_json body of
             None \<Rightarrow> Inl (url @ '' answered with HTTP '' @ status @ '' and a body that is not JSON'')
           | Some v \<Rightarrow> Inr v))"

definition envelope_error :: "json \<Rightarrow> string option" where
  "envelope_error body =
     (case option_filter (\<lambda>v. v \<noteq> JNull) (json_get ''error'' body) of
        None \<Rightarrow> None
      | Some err \<Rightarrow>
          Some (case Option.bind (json_get ''message'' err) json_str of
                  None \<Rightarrow> ''unknown error'' | Some m \<Rightarrow> m))"

definition string_field :: "json \<Rightarrow> string \<Rightarrow> string option" where
  "string_field v field =
     option_filter (\<lambda>s. s \<noteq> []) (map_option trim (Option.bind (json_get field v) json_str))"

definition request_link :: "http_get \<Rightarrow> (string \<Rightarrow> json option) \<Rightarrow> string + link_offer" where
  "request_link http parse_json =
     (case get_json http parse_json (LINK_URL @ ''/create'') [] of
        Inl err \<Rightarrow> Inl err
      | Inr body \<Rightarrow>
          (case envelope_error body of
             Some err \<Rightarrow> Inl (''the Stremio link service refused the request: '' @ err)
           | None \<Rightarrow>
               let payload = (case option_filter (\<lambda>v. json_object v \<noteq> None) (json_get ''result'' body) of
                                None \<Rightarrow> body | Some v \<Rightarrow> v) in
               (case string_field payload ''code'' of
                  None \<Rightarrow> Inl ''the Stremio link service returned no code''
                | Some code \<Rightarrow>
                    let link = (case string_field payload ''link'' of
                                  None \<Rightarrow> ''https://link.stremio.com/'' @ code | Some l \<Rightarrow> l);
                        qr = (case or_option (string_field payload ''qrcode'') (string_field payload ''qr'') of
                                None \<Rightarrow> ''https://link.stremio.com/qr?data='' @ link | Some q \<Rightarrow> q)
                    in Inr \<lparr>lo_code = code, lo_link = link, lo_qr = qr,
                            lo_expires_in_seconds = as_secs LINK_WINDOW\<rparr>)))"

definition interpret_read :: "json \<Rightarrow> link_answer" where
  "interpret_read body =
     (case option_filter (\<lambda>k. k \<noteq> []) (map_option trim
             (Option.bind (Option.bind (json_get ''result'' body) (json_get ''authKey'')) json_str)) of
        Some k \<Rightarrow> AnswerLinked k
      | None \<Rightarrow> AnswerWaiting)"

definition poll_link :: "http_get \<Rightarrow> (string \<Rightarrow> json option) \<Rightarrow> string \<Rightarrow> string + link_answer" where
  "poll_link http parse_json code =
     map_sum id interpret_read (get_json http parse_json (LINK_URL @ ''/read'') [(''code'', code)])"

section \<open>The stored session\<close>

record stremio_connection =
  sc_linked_at :: string
  sc_updated_at :: string

record stremio_credentials =
  sc_auth_key :: string

definition StremioRepository_connection :: "string option \<Rightarrow> settings_db \<Rightarrow> string + stremio_connection option" where
  "StremioRepository_connection fault db =
     (case fault of
        Some err \<Rightarrow> Inl err
      | None \<Rightarrow> Inr (map_option (\<lambda>row. \<lparr>sc_linked_at = ss_linked_at row, sc_updated_at = ss_updated_at row\<rparr>)
          (stremio_settings_table db)))"

definition StremioRepository_credentials :: "string option \<Rightarrow> settings_db \<Rightarrow> string + stremio_credentials option" where
  "StremioRepository_credentials fault db =
     (case fault of
        Some err \<Rightarrow> Inl err
      | None \<Rightarrow> Inr (map_option (\<lambda>row. \<lparr>sc_auth_key = ss_auth_key row\<rparr>) (stremio_settings_table db)))"

definition upsert_session :: "string \<Rightarrow> string \<Rightarrow> stremio_row option \<Rightarrow> stremio_row" where
  "upsert_session now auth_key old =
     (case old of
        None \<Rightarrow> \<lparr>ss_auth_key = auth_key, ss_linked_at = now, ss_updated_at = now\<rparr>
      | Some row \<Rightarrow> row\<lparr>ss_auth_key := auth_key, ss_updated_at := now\<rparr>)"

definition save_session ::
  "string option \<Rightarrow> string option \<Rightarrow> string \<Rightarrow> string \<Rightarrow> settings_db
     \<Rightarrow> (string + stremio_connection) \<times> settings_db" where
  "save_session fault read_fault now auth_key db =
     (let auth_key = trim auth_key in
      if auth_key = [] then (Inl ''the Stremio link produced an empty session key'', db)
      else if MAX_AUTH_KEY < length auth_key
      then (Inl ''the Stremio link produced a session key longer than 512 characters'', db)
      else case fault of
        Some err \<Rightarrow> (Inl err, db)
      | None \<Rightarrow>
          let db = db\<lparr>stremio_settings_table := Some (upsert_session now auth_key (stremio_settings_table db))\<rparr> in
          (case StremioRepository_connection read_fault db of
             Inl err \<Rightarrow> (Inl err, db)
           | Inr None \<Rightarrow> (Inl ''the Stremio session did not persist'', db)
           | Inr (Some c) \<Rightarrow> (Inr c, db)))"

definition StremioRepository_clear :: "string option \<Rightarrow> settings_db \<Rightarrow> (string + unit) \<times> settings_db" where
  "StremioRepository_clear fault db =
     (case fault of Some err \<Rightarrow> (Inl err, db) | None \<Rightarrow> (Inr (), db\<lparr>stremio_settings_table := None\<rparr>))"

section \<open>The pending link\<close>

record pending_link =
  pl_code :: string
  pl_offer :: link_offer
  pl_started :: nat

type_synonym link_state = "pending_link option"

definition LinkState_cancel :: "link_state \<Rightarrow> link_state" where
  "LinkState_cancel st = None"

definition LinkState_start :: "nat \<Rightarrow> link_offer \<Rightarrow> link_state \<Rightarrow> link_state" where
  "LinkState_start now offer st = Some \<lparr>pl_code = lo_code offer, pl_offer = offer, pl_started = now\<rparr>"

text \<open>
  A poll in the steps between its awaits: it reads the pending link, checks the window, asks the
  service about the code it read, and takes the pending link if the service says linked.
\<close>

datatype poll_task =
    Read string link_offer nat
  | Asked string link_offer nat
  | Answered link_poll
  | PollFailed string
  | Returned

definition poll_read :: "link_state \<Rightarrow> poll_task" where
  "poll_read st =
     (case st of None \<Rightarrow> Answered PollIdle | Some p \<Rightarrow> Read (pl_code p) (pl_offer p) (pl_started p))"

fun poll_check :: "nat \<Rightarrow> poll_task \<Rightarrow> link_state \<Rightarrow> poll_task \<times> link_state" where
  "poll_check now (Read code offer started) st =
     (if LINK_WINDOW \<le> now - started then (Answered PollExpired, None)
      else (Asked code offer started, st))"
| "poll_check now task st = (task, st)"

fun poll_answer :: "nat \<Rightarrow> string + link_answer \<Rightarrow> poll_task \<Rightarrow> link_state \<Rightarrow> poll_task \<times> link_state" where
  "poll_answer now (Inl err) (Asked code offer started) st = (PollFailed err, st)"
| "poll_answer now (Inr (AnswerLinked auth_key)) (Asked code offer started) st =
     (Answered (PollLinked auth_key), None)"
| "poll_answer now (Inr AnswerWaiting) (Asked code offer started) st =
     (Answered (PollWaiting offer (as_secs (LINK_WINDOW - (now - started)))), st)"
| "poll_answer now answer task st = (task, st)"

fun task_result :: "poll_task \<Rightarrow> string + link_poll" where
  "task_result (Answered p) = Inr p"
| "task_result (PollFailed err) = Inl err"
| "task_result (Read _ _ _) = Inl []"
| "task_result (Asked _ _ _) = Inl []"
| "task_result Returned = Inl []"

fun asked_code :: "poll_task \<Rightarrow> string" where
  "asked_code (Asked code _ _) = code"
| "asked_code _ = []"

text \<open>A poll no other call interleaves with.\<close>

definition LinkState_poll ::
  "(string \<Rightarrow> string + link_answer) \<Rightarrow> nat \<Rightarrow> nat \<Rightarrow> link_state \<Rightarrow> (string + link_poll) \<times> link_state" where
  "LinkState_poll service now later st =
     (let (task, st) = poll_check now (poll_read st) st;
          (task, st) = poll_answer later (service (asked_code task)) task st
      in (task_result task, st))"

section \<open>Linking and unlinking an account\<close>

record stremio_service =
  sv_settings :: settings_db
  sv_link :: link_state
  sv_catalog :: catalog_db

datatype stremio_control_error = StremioLink string | StremioStorage string | StremioCatalog db_error

datatype link_status =
    StatusIdle | StatusExpired
  | StatusWaiting string string string nat
  | StatusLinked stremio_connection

definition StremioControl_settings ::
  "string option \<Rightarrow> stremio_service \<Rightarrow> stremio_control_error + stremio_connection option" where
  "StremioControl_settings fault sv = map_sum StremioStorage id (StremioRepository_connection fault (sv_settings sv))"

definition StremioControl_start_link ::
  "http_get \<Rightarrow> (string \<Rightarrow> json option) \<Rightarrow> nat \<Rightarrow> stremio_service
     \<Rightarrow> (stremio_control_error + link_offer) \<times> stremio_service" where
  "StremioControl_start_link http parse_json now sv =
     (case request_link http parse_json of
        Inl err \<Rightarrow> (Inl (StremioLink err), sv)
      | Inr offer \<Rightarrow> (Inr offer, sv\<lparr>sv_link := LinkState_start now offer (sv_link sv)\<rparr>))"

fun complete_poll ::
  "string option \<Rightarrow> string option \<Rightarrow> string \<Rightarrow> link_poll \<Rightarrow> stremio_service
     \<Rightarrow> (stremio_control_error + link_status) \<times> stremio_service" where
  "complete_poll fault read_fault now PollIdle sv = (Inr StatusIdle, sv)"
| "complete_poll fault read_fault now PollExpired sv = (Inr StatusExpired, sv)"
| "complete_poll fault read_fault now (PollWaiting offer seconds_left) sv =
     (Inr (StatusWaiting (lo_code offer) (lo_link offer) (lo_qr offer) seconds_left), sv)"
| "complete_poll fault read_fault now (PollLinked auth_key) sv =
     (case save_session fault read_fault now auth_key (sv_settings sv) of
        (Inl err, db) \<Rightarrow> (Inl (StremioLink err), sv\<lparr>sv_settings := db\<rparr>)
      | (Inr connection, db) \<Rightarrow> (Inr (StatusLinked connection), sv\<lparr>sv_settings := db\<rparr>))"

definition StremioControl_poll_link ::
  "(string \<Rightarrow> string + link_answer) \<Rightarrow> nat \<Rightarrow> nat \<Rightarrow> string option \<Rightarrow> string option \<Rightarrow> string \<Rightarrow> stremio_service
     \<Rightarrow> (stremio_control_error + link_status) \<times> stremio_service" where
  "StremioControl_poll_link service now later fault read_fault stamp_now sv =
     (case LinkState_poll service now later (sv_link sv) of
        (Inl err, st) \<Rightarrow> (Inl (StremioLink err), sv\<lparr>sv_link := st\<rparr>)
      | (Inr poll, st) \<Rightarrow> complete_poll fault read_fault stamp_now poll (sv\<lparr>sv_link := st\<rparr>))"

definition StremioControl_clear ::
  "string option \<Rightarrow> db_error option \<Rightarrow> stremio_service \<Rightarrow> (stremio_control_error + unit) \<times> stremio_service" where
  "StremioControl_clear fault catalog_fault sv =
     (let sv = sv\<lparr>sv_link := LinkState_cancel (sv_link sv)\<rparr> in
      case StremioRepository_clear fault (sv_settings sv) of
        (Inl err, db) \<Rightarrow> (Inl (StremioStorage err), sv\<lparr>sv_settings := db\<rparr>)
      | (Inr _, db) \<Rightarrow>
          (case CatalogStore_replace_source catalog_fault STREMIO [] (sv_catalog sv) of
             (Inl err, cdb) \<Rightarrow> (Inl (StremioCatalog err), sv\<lparr>sv_settings := db, sv_catalog := cdb\<rparr>)
           | (Inr _, cdb) \<Rightarrow> (Inr (), sv\<lparr>sv_settings := db, sv_catalog := cdb\<rparr>)))"

section \<open>Interleaved calls\<close>

text \<open>
  Calls of several clients on one service: a poll is a task that advances between the other
  calls, from its read of the pending link to the moment its result is stored or returned.
\<close>

datatype link_event =
    StartLink nat link_offer
  | BeginPoll
  | CheckPoll nat nat
  | ServiceAnswers nat nat "string + link_answer"
  | CompletePoll nat "string option" string
  | Unlink "string option" "db_error option"

definition advance ::
  "nat \<Rightarrow> (poll_task \<Rightarrow> link_state \<Rightarrow> poll_task \<times> link_state) \<Rightarrow> stremio_service \<times> poll_task list
     \<Rightarrow> stremio_service \<times> poll_task list" where
  "advance i f s =
     (case s of (sv, tasks) \<Rightarrow>
        if i < length tasks
        then (case f (tasks ! i) (sv_link sv) of (task, st) \<Rightarrow> (sv\<lparr>sv_link := st\<rparr>, tasks[i := task]))
        else (sv, tasks))"

fun link_step :: "link_event \<Rightarrow> stremio_service \<times> poll_task list \<Rightarrow> stremio_service \<times> poll_task list" where
  "link_step (StartLink now offer) (sv, tasks) = (sv\<lparr>sv_link := LinkState_start now offer (sv_link sv)\<rparr>, tasks)"
| "link_step BeginPoll (sv, tasks) = (sv, tasks @ [poll_read (sv_link sv)])"
| "link_step (CheckPoll i now) s = advance i (poll_check now) s"
| "link_step (ServiceAnswers i now answer) s = advance i (poll_answer now answer) s"
| "link_step (CompletePoll i fault now) (sv, tasks) =
     (if i < length tasks then
        (case tasks ! i of
           Answered poll \<Rightarrow> (snd (complete_poll fault None now poll sv), tasks[i := Returned])
         | _ \<Rightarrow> (sv, tasks))
      else (sv, tasks))"
| "link_step (Unlink fault catalog_fault) (sv, tasks) =
     (snd (StremioControl_clear fault catalog_fault sv), tasks)"

fun starts_link :: "link_event \<Rightarrow> bool" where
  "starts_link (StartLink _ _) = True"
| "starts_link _ = False"

definition unlinked :: "stremio_service \<times> poll_task list \<Rightarrow> bool" where
  "unlinked s \<longleftrightarrow> sv_link (fst s) = None \<and> stremio_settings_table (sv_settings (fst s)) = None
     \<and> set (snd s) \<subseteq> {Answered PollIdle, Returned}"

lemma unlinked_advance:
  assumes "unlinked s" and "\<And>t. t \<in> {Answered PollIdle, Returned} \<Longrightarrow> f t None = (t, None)"
  shows "unlinked (advance i f s)"
proof -
  obtain sv tasks where s: "s = (sv, tasks)" by (cases s)
  have "i < length tasks \<Longrightarrow> tasks ! i \<in> {Answered PollIdle, Returned}"
    using assms(1) by (auto simp: unlinked_def s dest: nth_mem)
  then show ?thesis
    using assms by (auto simp: unlinked_def advance_def s)
qed

lemma unlinked_step: "unlinked s \<Longrightarrow> \<not> starts_link e \<Longrightarrow> unlinked (link_step e s)"
proof (induction e s rule: link_step.induct)
  case (5 i fault now sv tasks)
  then have "i < length tasks \<Longrightarrow> tasks ! i \<in> {Answered PollIdle, Returned}"
    by (auto simp: unlinked_def dest: nth_mem)
  moreover have "set (tasks[i := Returned]) \<subseteq> {Answered PollIdle, Returned}"
    using 5 set_update_subset_insert[of tasks i] by (auto simp: unlinked_def)
  ultimately show ?case using 5 by (fastforce simp: unlinked_def)
next
  case (6 fault catalog_fault sv tasks)
  then show ?case
    by (auto simp: unlinked_def StremioControl_clear_def LinkState_cancel_def StremioRepository_clear_def
        Let_def split: option.splits sum.splits prod.splits)
next
  case (3 i now s)
  then show ?case by (auto intro!: unlinked_advance)
next
  case (4 i now answer s)
  then show ?case by (auto intro!: unlinked_advance)
qed (auto simp: unlinked_def poll_read_def)

text \<open>
  C30: once an account is unlinked with no poll in flight, it stays unlinked whatever calls follow
  and however they interleave, until a new link is started.
\<close>

theorem unlinked_account_stays_unlinked:
  assumes "StremioControl_clear fault catalog_fault sv = (Inr (), sv')"
    and "\<forall>e\<in>set events. \<not> starts_link e"
    and "(sv'', tasks) = fold link_step events (sv', [])"
  shows "StremioRepository_credentials None (sv_settings sv'') = Inr None \<and> sv_link sv'' = None"
proof -
  have "unlinked (sv', [])"
    using assms(1) by (auto simp: unlinked_def StremioControl_clear_def LinkState_cancel_def
        StremioRepository_clear_def Let_def split: option.splits sum.splits prod.splits)
  then have "unlinked (fold link_step events (sv', []))"
    by (rule fold_invariant[where Q = "\<lambda>e. \<not> starts_link e", rotated 1]) (use assms(2) unlinked_step in auto)
  then show ?thesis
    unfolding assms(3)[symmetric] by (simp add: unlinked_def StremioRepository_credentials_def)
qed

definition demo_settings :: settings_db where
  "demo_settings = \<lparr>user_settings_table = None, romm_settings_table = None,
     stremio_settings_table = None, tmdb_settings_table = None\<rparr>"

definition demo_offer :: link_offer where
  "demo_offer = \<lparr>lo_code = ''ABCD'', lo_link = ''l'', lo_qr = ''q'', lo_expires_in_seconds = 300\<rparr>"

definition demo_service :: stremio_service where
  "demo_service = \<lparr>sv_settings = demo_settings, sv_link = None,
     sv_catalog = \<lparr>library_items = [], catalog_enrichments = [], item_traits = []\<rparr>\<rparr>"

theorem unlinked_account_stays_unlinked_witness:
  "StremioRepository_credentials None (sv_settings (fst (fold link_step
     [BeginPoll, CheckPoll 0 7, ServiceAnswers 0 8 (Inr (AnswerLinked ''k'')), CompletePoll 0 None ''t'']
     (snd (StremioControl_clear None None
        (snd (complete_poll None None ''s'' (PollLinked ''old'') demo_service))), [])))) = Inr None"
proof -
  let ?sv = "snd (StremioControl_clear None None (snd (complete_poll None None ''s'' (PollLinked ''old'') demo_service)))"
  let ?es = "[BeginPoll, CheckPoll 0 7, ServiceAnswers 0 8 (Inr (AnswerLinked ''k'')), CompletePoll 0 None ''t'']"
  have "StremioControl_clear None None (snd (complete_poll None None ''s'' (PollLinked ''old'') demo_service))
      = (Inr (), ?sv)"
    by (simp add: StremioControl_clear_def StremioRepository_clear_def CatalogStore_replace_source_def Let_def
        split: prod.splits sum.splits)
  then show ?thesis
    using unlinked_account_stays_unlinked[of None None _ ?sv ?es "fst (fold link_step ?es (?sv, []))"
        "snd (fold link_step ?es (?sv, []))"] by simp
qed

text \<open>
  An account can come back after it was unlinked: a poll that has asked the link service when
  the account is unlinked stores the session it is answered, although the pending link is gone.
\<close>

theorem poll_in_flight_relinks:
  assumes "checked - started < LINK_WINDOW" and "trim auth_key \<noteq> []" and "length (trim auth_key) \<le> MAX_AUTH_KEY"
  shows "StremioRepository_credentials None (sv_settings (fst (fold link_step
     [StartLink started offer, BeginPoll, CheckPoll 0 checked, Unlink None None,
      ServiceAnswers 0 answered (Inr (AnswerLinked auth_key)), CompletePoll 0 None now] (sv, []))))
     = Inr (Some \<lparr>sc_auth_key = trim auth_key\<rparr>)"
  using assms
  by (simp add: LinkState_start_def poll_read_def advance_def StremioControl_clear_def LinkState_cancel_def
      StremioRepository_clear_def CatalogStore_replace_source_def save_session_def Let_def
      StremioRepository_connection_def StremioRepository_credentials_def upsert_session_def)

theorem poll_in_flight_relinks_witness:
  "StremioRepository_credentials None (sv_settings (fst (fold link_step
     [StartLink 0 demo_offer, BeginPoll, CheckPoll 0 5, Unlink None None,
      ServiceAnswers 0 9 (Inr (AnswerLinked ''key'')), CompletePoll 0 None ''t''] (demo_service, []))))
     = Inr (Some \<lparr>sc_auth_key = ''key''\<rparr>)"
proof -
  have t: "trim ''key'' = ''key''" by code_simp
  have "5 - 0 < LINK_WINDOW" by (simp add: LINK_WINDOW_def NANOS_def)
  then show ?thesis
    using poll_in_flight_relinks[of 5 0 "''key''" demo_offer 9 "''t''" demo_service]
    by (simp only: t) (simp add: MAX_AUTH_KEY_def)
qed

end
