(* ===== verification/Daemon_Romm_Link.thy ===== *)
theory Daemon_Romm_Link
  imports Daemon_Links
begin

text \<open>
  Connecting to RomM, \<^verbatim>\<open>hearthdeck-daemon/src/romm_link.rs\<close> and \<^verbatim>\<open>romm_link/control.rs\<close>: the
  device approval, the password sign-in and the control that stores the token they end in. What a
  RomM server answers to each request is an argument of the call; a response carries its status
  and its decoded body, if it decodes.
\<close>

section \<open>Answers of RomM\<close>

datatype 'a response = SendFailed | Response nat "'a option"

definition is_success :: "nat \<Rightarrow> bool" where
  "is_success status \<longleftrightarrow> 200 \<le> status \<and> status < 300"

definition refusal :: "(nat \<Rightarrow> string) \<Rightarrow> nat \<Rightarrow> string" where
  "refusal status_text status =
     (if status = 401 then ''RomM rejected that username or password''
      else if status = 403
      then ''this RomM account cannot create API tokens; sign in with an editor or admin account''
      else if status = 404 \<or> status = 405
      then ''this RomM server is too old; Hearthdeck needs RomM 4.8 or newer''
      else if status = 429 then ''RomM is rate limiting; wait a minute and retry''
      else ''RomM answered '' @ status_text status)"

definition read_json :: "(nat \<Rightarrow> string) \<Rightarrow> string \<Rightarrow> 'a response \<Rightarrow> string + 'a" where
  "read_json status_text base_url response =
     (case response of
        SendFailed \<Rightarrow> Inl (''could not reach RomM at '' @ base_url)
      | Response status body \<Rightarrow>
          if \<not> is_success status then Inl (refusal status_text status)
          else case body of
            None \<Rightarrow> Inl ''RomM sent an answer Hearthdeck could not read''
          | Some v \<Rightarrow> Inr v)"

record device_init =
  di_device_code :: string
  di_user_code :: string
  di_verification_path_complete :: string
  di_expires_in :: nat
  di_interval :: nat

text \<open>The requests of the module, by the base URL they go to.\<close>

record romm_api =
  api_device_init :: "string \<Rightarrow> device_init response"
  api_device_token :: "string \<Rightarrow> string \<Rightarrow> json response"
  api_session :: "string \<Rightarrow> string \<Rightarrow> string \<Rightarrow> string response"
  api_client_token :: "string \<Rightarrow> string \<Rightarrow> string response"
  api_status_text :: "nat \<Rightarrow> string"

datatype device_answer = Pending | DeniedAnswer | ExpiredAnswer | Approved string

definition interpret_device_token :: "(nat \<Rightarrow> string) \<Rightarrow> nat \<Rightarrow> json \<Rightarrow> string + device_answer" where
  "interpret_device_token status_text status body =
     (if is_success status then
        (case option_filter (\<lambda>t. trim t \<noteq> []) (Option.bind (json_get ''access_token'' body) json_str) of
           Some token \<Rightarrow> Inr (Approved (trim token))
         | None \<Rightarrow> Inl ''RomM approved the device but sent no token'')
      else
        let detail = (if status = 400 then Option.bind (json_get ''detail'' body) json_str else None) in
        if detail \<in> {Some ''authorization_pending'', Some ''slow_down''} then Inr Pending
        else if detail = Some ''access_denied'' then Inr DeniedAnswer
        else if detail = Some ''expired_token'' then Inr ExpiredAnswer
        else if status = 429 then Inr Pending
        else Inl (refusal status_text status))"

definition mint_token :: "romm_api \<Rightarrow> string \<Rightarrow> string \<Rightarrow> string \<Rightarrow> string + string" where
  "mint_token api base_url username password =
     (case read_json (api_status_text api) base_url (api_session api base_url username password) of
        Inl err \<Rightarrow> Inl err
      | Inr access_token \<Rightarrow> read_json (api_status_text api) base_url (api_client_token api base_url access_token))"

section \<open>The approval page\<close>

text \<open>
  The library's URL operations as one argument: \<open>url_text base ip\<close> is the text of the parsed base
  URL with its host replaced by the address, where the host can be replaced.
\<close>

definition phone_link :: "(string \<Rightarrow> ip_addr option \<Rightarrow> string option) \<Rightarrow> string \<Rightarrow> string \<Rightarrow> ip_addr option \<Rightarrow> string" where
  "phone_link url_text base_url path_complete lan =
     (case url_text base_url lan of
        None \<Rightarrow> base_url @ path_complete
      | Some u \<Rightarrow> trim_end_char (CHR ''/'') u @ path_complete)"

definition lan_ip :: "ip_addr option \<Rightarrow> ip_addr option" where
  "lan_ip local_addr = option_filter (\<lambda>ip. \<not> is_unspecified ip \<and> \<not> is_loopback ip) local_addr"

section \<open>The pending approval\<close>

record device_offer =
  do_code :: string
  do_link :: string
  do_expires_in_seconds :: nat

datatype device_poll =
    DeviceIdle | DeviceExpired | DeviceDenied
  | DeviceWaiting device_offer nat
  | DeviceLinked string string

record pending_device =
  pd_base_url :: string
  pd_device_code :: string
  pd_offer :: device_offer
  pd_started :: nat
  pd_window :: nat
  pd_interval :: nat
  pd_last_poll :: "nat option"

type_synonym device_state = "pending_device option"

definition DeviceLinkState_cancel :: "device_state \<Rightarrow> device_state" where
  "DeviceLinkState_cancel st = None"

definition DeviceLinkState_start ::
  "romm_api \<Rightarrow> (string \<Rightarrow> ip_addr option \<Rightarrow> string option) \<Rightarrow> ip_addr option \<Rightarrow> nat \<Rightarrow> string \<Rightarrow> device_state
     \<Rightarrow> (string + device_offer) \<times> device_state" where
  "DeviceLinkState_start api url_text local_addr now base_url st =
     (case read_json (api_status_text api) base_url (api_device_init api base_url) of
        Inl err \<Rightarrow> (Inl err, st)
      | Inr ini \<Rightarrow>
          let offer = \<lparr>do_code = di_user_code ini,
                do_link = phone_link url_text base_url (di_verification_path_complete ini) (lan_ip local_addr),
                do_expires_in_seconds = di_expires_in ini\<rparr>
          in (Inr offer, Some \<lparr>pd_base_url = base_url, pd_device_code = di_device_code ini, pd_offer = offer,
                pd_started = now, pd_window = di_expires_in ini * NANOS,
                pd_interval = max (di_interval ini) 1 * NANOS, pd_last_poll = None\<rparr>))"

text \<open>
  A poll in the steps between its awaits: it reads the pending approval, answers locally when the
  window closed or the interval has not passed, stamps the pending approval otherwise, asks RomM,
  and drops the pending approval when the answer is final.
\<close>

datatype device_task =
    DeviceRead pending_device
  | DeviceAsked pending_device device_poll
  | DeviceAnswered "string + device_poll"

definition device_read :: "device_state \<Rightarrow> device_task" where
  "device_read st = (case st of None \<Rightarrow> DeviceAnswered (Inr DeviceIdle) | Some p \<Rightarrow> DeviceRead p)"

definition polled_recently :: "nat \<Rightarrow> pending_device \<Rightarrow> bool" where
  "polled_recently now p \<longleftrightarrow>
     (case pd_last_poll p of None \<Rightarrow> False | Some t \<Rightarrow> now - t < pd_interval p)"

fun device_check :: "nat \<Rightarrow> device_task \<Rightarrow> device_state \<Rightarrow> device_task \<times> device_state" where
  "device_check now (DeviceRead p) st =
     (let elapsed = now - pd_started p;
          waiting = DeviceWaiting (pd_offer p) (as_secs (pd_window p - elapsed)) in
      if pd_window p \<le> elapsed then (DeviceAnswered (Inr DeviceExpired), DeviceLinkState_cancel st)
      else if polled_recently now p then (DeviceAnswered (Inr waiting), st)
      else (DeviceAsked p waiting, map_option (\<lambda>c. c\<lparr>pd_last_poll := Some now\<rparr>) st))"
| "device_check now task st = (task, st)"

definition body_or_null :: "json option \<Rightarrow> json" where
  "body_or_null b = (case b of None \<Rightarrow> JNull | Some v \<Rightarrow> v)"

fun device_conclude :: "(nat \<Rightarrow> string) \<Rightarrow> json response \<Rightarrow> device_task \<Rightarrow> device_state \<Rightarrow> device_task \<times> device_state" where
  "device_conclude status_text SendFailed (DeviceAsked p waiting) st =
     (DeviceAnswered (Inl (''could not reach RomM at '' @ pd_base_url p)), st)"
| "device_conclude status_text (Response status body) (DeviceAsked p waiting) st =
     (case interpret_device_token status_text status (body_or_null body) of
        Inl err \<Rightarrow> (DeviceAnswered (Inl err), st)
      | Inr Pending \<Rightarrow> (DeviceAnswered (Inr waiting), st)
      | Inr DeniedAnswer \<Rightarrow> (DeviceAnswered (Inr DeviceDenied), DeviceLinkState_cancel st)
      | Inr ExpiredAnswer \<Rightarrow> (DeviceAnswered (Inr DeviceExpired), DeviceLinkState_cancel st)
      | Inr (Approved token) \<Rightarrow>
          (DeviceAnswered (Inr (DeviceLinked (pd_base_url p) token)), DeviceLinkState_cancel st))"
| "device_conclude status_text response task st = (task, st)"

fun device_result :: "device_task \<Rightarrow> string + device_poll" where
  "device_result (DeviceAnswered r) = r"
| "device_result (DeviceRead _) = Inl []"
| "device_result (DeviceAsked _ _) = Inl []"

fun device_response :: "romm_api \<Rightarrow> device_task \<Rightarrow> json response" where
  "device_response api (DeviceAsked p _) = api_device_token api (pd_base_url p) (pd_device_code p)"
| "device_response api _ = SendFailed"

definition DeviceLinkState_poll ::
  "romm_api \<Rightarrow> nat \<Rightarrow> device_state \<Rightarrow> (string + device_poll) \<times> device_state" where
  "DeviceLinkState_poll api now st =
     (let (task, st) = device_check now (device_read st) st;
          (task, st) = device_conclude (api_status_text api) (device_response api task) task st
      in (device_result task, st))"

section \<open>The control\<close>

record romm_service =
  rsv_settings :: settings_db
  rsv_link :: device_state

datatype romm_control_error = InvalidSettings string | RommLink string | RommStorage string

datatype romm_link_status =
    RommIdle | RommExpired | RommDenied
  | RommWaiting string string nat
  | RommLinked romm_settings

definition RommControl_settings :: "string option \<Rightarrow> romm_service \<Rightarrow> romm_control_error + romm_settings option" where
  "RommControl_settings fault sv = map_sum RommStorage id (SettingsRepository_romm fault (rsv_settings sv))"

definition RommControl_save ::
  "url_parser \<Rightarrow> string option \<Rightarrow> string \<Rightarrow> string \<Rightarrow> string \<Rightarrow> romm_service
     \<Rightarrow> (romm_control_error + romm_settings) \<times> romm_service" where
  "RommControl_save parse_url fault now base_url token sv =
     (case save_romm parse_url fault now base_url token (rsv_settings sv) of
        (r, db) \<Rightarrow> (map_sum InvalidSettings id r, sv\<lparr>rsv_settings := db\<rparr>))"

definition RommControl_clear :: "string option \<Rightarrow> romm_service \<Rightarrow> (romm_control_error + unit) \<times> romm_service" where
  "RommControl_clear fault sv =
     (let sv = sv\<lparr>rsv_link := DeviceLinkState_cancel (rsv_link sv)\<rparr> in
      case clear_romm fault (rsv_settings sv) of
        (r, db) \<Rightarrow> (map_sum RommStorage id r, sv\<lparr>rsv_settings := db\<rparr>))"

definition RommControl_login ::
  "romm_api \<Rightarrow> url_parser \<Rightarrow> string option \<Rightarrow> string \<Rightarrow> string \<Rightarrow> string \<Rightarrow> string \<Rightarrow> romm_service
     \<Rightarrow> (romm_control_error + romm_settings) \<times> romm_service" where
  "RommControl_login api parse_url fault now base_url username password sv =
     (case normalize_romm_url parse_url base_url of
        Inl err \<Rightarrow> (Inl (InvalidSettings err), sv)
      | Inr base_url \<Rightarrow>
          (case mint_token api base_url username password of
             Inl err \<Rightarrow> (Inl (RommLink err), sv)
           | Inr token \<Rightarrow>
               let sv = sv\<lparr>rsv_link := DeviceLinkState_cancel (rsv_link sv)\<rparr> in
               (case save_romm parse_url fault now base_url token (rsv_settings sv) of
                  (r, db) \<Rightarrow> (map_sum RommStorage id r, sv\<lparr>rsv_settings := db\<rparr>))))"

definition RommControl_start_link ::
  "romm_api \<Rightarrow> url_parser \<Rightarrow> (string \<Rightarrow> ip_addr option \<Rightarrow> string option) \<Rightarrow> ip_addr option \<Rightarrow> nat \<Rightarrow> string
     \<Rightarrow> romm_service \<Rightarrow> (romm_control_error + device_offer) \<times> romm_service" where
  "RommControl_start_link api parse_url url_text local_addr now base_url sv =
     (case normalize_romm_url parse_url base_url of
        Inl err \<Rightarrow> (Inl (InvalidSettings err), sv)
      | Inr base_url \<Rightarrow>
          (case DeviceLinkState_start api url_text local_addr now base_url (rsv_link sv) of
             (r, st) \<Rightarrow> (map_sum RommLink id r, sv\<lparr>rsv_link := st\<rparr>)))"

fun complete_device_poll ::
  "url_parser \<Rightarrow> string option \<Rightarrow> string \<Rightarrow> device_poll \<Rightarrow> romm_service
     \<Rightarrow> (romm_control_error + romm_link_status) \<times> romm_service" where
  "complete_device_poll parse_url fault now DeviceIdle sv = (Inr RommIdle, sv)"
| "complete_device_poll parse_url fault now DeviceExpired sv = (Inr RommExpired, sv)"
| "complete_device_poll parse_url fault now DeviceDenied sv = (Inr RommDenied, sv)"
| "complete_device_poll parse_url fault now (DeviceWaiting offer seconds_left) sv =
     (Inr (RommWaiting (do_code offer) (do_link offer) seconds_left), sv)"
| "complete_device_poll parse_url fault now (DeviceLinked base_url token) sv =
     (case save_romm parse_url fault now base_url token (rsv_settings sv) of
        (r, db) \<Rightarrow> (map_sum RommStorage RommLinked r, sv\<lparr>rsv_settings := db\<rparr>))"

definition RommControl_poll_link ::
  "romm_api \<Rightarrow> url_parser \<Rightarrow> nat \<Rightarrow> string option \<Rightarrow> string \<Rightarrow> romm_service
     \<Rightarrow> (romm_control_error + romm_link_status) \<times> romm_service" where
  "RommControl_poll_link api parse_url now fault stamp_now sv =
     (case DeviceLinkState_poll api now (rsv_link sv) of
        (Inl err, st) \<Rightarrow> (Inl (RommLink err), sv\<lparr>rsv_link := st\<rparr>)
      | (Inr poll, st) \<Rightarrow> complete_device_poll parse_url fault stamp_now poll (sv\<lparr>rsv_link := st\<rparr>))"

section \<open>Only this host is contacted\<close>

text \<open>Calls of the control in order, each with what RomM servers answer to it.\<close>

datatype romm_op =
    SaveRomm "string option" string string string
  | ClearRomm "string option"
  | LoginRomm "string option" string string string string
  | StartDevice "ip_addr option" nat string
  | PollDevice nat "string option" string

fun romm_step ::
  "url_parser \<Rightarrow> (string \<Rightarrow> ip_addr option \<Rightarrow> string option) \<Rightarrow> romm_api \<Rightarrow> romm_op \<Rightarrow> romm_service \<Rightarrow> romm_service" where
  "romm_step parse_url url_text api (SaveRomm fault now base_url token) sv =
     snd (RommControl_save parse_url fault now base_url token sv)"
| "romm_step parse_url url_text api (ClearRomm fault) sv = snd (RommControl_clear fault sv)"
| "romm_step parse_url url_text api (LoginRomm fault now base_url username password) sv =
     snd (RommControl_login api parse_url fault now base_url username password sv)"
| "romm_step parse_url url_text api (StartDevice ip now base_url) sv =
     snd (RommControl_start_link api parse_url url_text ip now base_url sv)"
| "romm_step parse_url url_text api (PollDevice now fault stamp_now) sv =
     snd (RommControl_poll_link api parse_url now fault stamp_now sv)"

definition romm_ok :: "url_parser \<Rightarrow> romm_service \<Rightarrow> bool" where
  "romm_ok parse_url sv \<longleftrightarrow> settings_ok parse_url (rsv_settings sv)
     \<and> (\<forall>p. rsv_link sv = Some p \<longrightarrow> local_url parse_url (pd_base_url p))"

text \<open>Two worlds whose servers on this host answer alike.\<close>

definition alike_locally :: "url_parser \<Rightarrow> romm_api \<Rightarrow> romm_api \<Rightarrow> bool" where
  "alike_locally parse_url a b \<longleftrightarrow> api_status_text a = api_status_text b
     \<and> (\<forall>u. local_url parse_url u \<longrightarrow> api_device_init a u = api_device_init b u
          \<and> api_device_token a u = api_device_token b u \<and> api_session a u = api_session b u
          \<and> api_client_token a u = api_client_token b u)"

lemma poll_state:
  "snd (DeviceLinkState_poll api now st) \<in> {None, st, map_option (\<lambda>c. c\<lparr>pd_last_poll := Some now\<rparr>) st}"
proof (cases "device_check now (device_read st) st")
  case (Pair task st')
  have after: "st' \<in> {None, st, map_option (\<lambda>c. c\<lparr>pd_last_poll := Some now\<rparr>) st}"
    using Pair by (auto simp: device_read_def DeviceLinkState_cancel_def Let_def split: option.splits if_splits)
  have "snd (device_conclude (api_status_text api) (device_response api task) task st') \<in> {None, st'}"
    by (cases "(api_status_text api, device_response api task, task, st')" rule: device_conclude.cases)
       (auto simp: DeviceLinkState_cancel_def split: sum.splits device_answer.splits)
  moreover have "snd (DeviceLinkState_poll api now st)
      = snd (device_conclude (api_status_text api) (device_response api task) task st')"
    by (simp add: DeviceLinkState_poll_def Pair split_beta)
  ultimately show ?thesis using after by auto
qed

lemma settings_ok_complete:
  "settings_ok parse_url (rsv_settings sv) \<Longrightarrow>
   settings_ok parse_url (rsv_settings (snd (complete_device_poll parse_url fault now p sv)))
   \<and> rsv_link (snd (complete_device_poll parse_url fault now p sv)) = rsv_link sv"
  by (induction parse_url fault now p sv rule: complete_device_poll.induct)
     (auto split: prod.splits, metis settings_ok_save_romm snd_conv)

lemma romm_ok_step: "romm_ok parse_url sv \<Longrightarrow> romm_ok parse_url (romm_step parse_url url_text api oper sv)"
proof (cases oper)
  case (PollDevice now fault stamp_now)
  assume ok: "romm_ok parse_url sv"
  have "\<forall>p. snd (DeviceLinkState_poll api now (rsv_link sv)) = Some p \<longrightarrow> local_url parse_url (pd_base_url p)"
    using ok poll_state[of api now "rsv_link sv"] by (auto simp: romm_ok_def)
  then show ?thesis
    using ok PollDevice settings_ok_complete
    by (auto simp: romm_ok_def RommControl_poll_link_def split: prod.splits sum.splits)
next
  case (SaveRomm fault now base_url token)
  assume "romm_ok parse_url sv"
  then show ?thesis
    using SaveRomm settings_ok_save_romm[of parse_url "rsv_settings sv" fault now base_url token]
    by (auto simp: romm_ok_def RommControl_save_def split: prod.splits)
next
  case (ClearRomm fault)
  assume "romm_ok parse_url sv"
  then show ?thesis
    using ClearRomm settings_ok_clear_romm[of parse_url "rsv_settings sv" fault]
    by (auto simp: romm_ok_def RommControl_clear_def DeviceLinkState_cancel_def Let_def split: prod.splits)
next
  case (LoginRomm fault now base_url username password)
  assume "romm_ok parse_url sv"
  then show ?thesis
    using LoginRomm settings_ok_save_romm[of parse_url "rsv_settings sv" fault now]
    by (auto simp: romm_ok_def RommControl_login_def DeviceLinkState_cancel_def Let_def
        split: prod.splits sum.splits) (metis snd_conv)
next
  case (StartDevice ip now base_url)
  assume "romm_ok parse_url sv"
  then show ?thesis
    using StartDevice normalize_romm_url_local[of parse_url base_url]
    by (auto simp: romm_ok_def RommControl_start_link_def DeviceLinkState_start_def Let_def
        split: prod.splits sum.splits)
qed

lemma romm_step_alike:
  assumes "romm_ok parse_url sv" and "alike_locally parse_url a b"
  shows "romm_step parse_url url_text a oper sv = romm_step parse_url url_text b oper sv"
proof (cases oper)
  case (PollDevice now fault stamp_now)
  have "device_response a task = device_response b task"
    if "device_check now (device_read (rsv_link sv)) (rsv_link sv) = (task, st)" for task st
    using that assms by (cases task)
      (auto simp: device_read_def romm_ok_def alike_locally_def Let_def split: option.splits if_splits)
  then have "DeviceLinkState_poll a now (rsv_link sv) = DeviceLinkState_poll b now (rsv_link sv)"
    using assms(2) by (auto simp: DeviceLinkState_poll_def alike_locally_def split: prod.splits)
  then show ?thesis using PollDevice by (simp add: RommControl_poll_link_def)
next
  case (LoginRomm fault now base_url username password)
  then show ?thesis
    using assms(2) normalize_romm_url_local[of parse_url base_url]
    by (auto simp: RommControl_login_def mint_token_def alike_locally_def split: sum.splits)
next
  case (StartDevice ip now base_url)
  then show ?thesis
    using assms(2) normalize_romm_url_local[of parse_url base_url]
    by (auto simp: RommControl_start_link_def DeviceLinkState_start_def alike_locally_def split: sum.splits)
qed auto

text \<open>
  C31: the RomM connection never leaves this host: whatever is called, in any order, the stored
  address is an HTTP(S) URL with a loopback host, and the outcome is the same in any two worlds
  whose servers on this host answer alike, so no server elsewhere is given a password, a code or
  a token.
\<close>

theorem romm_contacts_only_this_host:
  assumes "romm_ok parse_url sv" and "\<forall>(a, b, oper)\<in>set calls. alike_locally parse_url a b"
  shows "fold (\<lambda>(a, b, oper). romm_step parse_url url_text a oper) calls sv
       = fold (\<lambda>(a, b, oper). romm_step parse_url url_text b oper) calls sv
     \<and> (\<forall>c. SettingsRepository_romm_credentials None
            (rsv_settings (fold (\<lambda>(a, b, oper). romm_step parse_url url_text a oper) calls sv)) = Inr (Some c)
          \<longrightarrow> local_url parse_url (rc_base_url c) \<and> rc_token c \<noteq> [])"
  using assms
proof (induction calls arbitrary: sv)
  case Nil
  then show ?case
    by (auto simp: romm_ok_def settings_ok_def SettingsRepository_romm_credentials_def)
next
  case (Cons call calls)
  obtain a b oper where call: "call = (a, b, oper)" by (cases call)
  have "romm_step parse_url url_text a oper sv = romm_step parse_url url_text b oper sv"
    using Cons.prems call by (auto intro: romm_step_alike)
  then show ?case
    using Cons.IH[of "romm_step parse_url url_text a oper sv"] Cons.prems romm_ok_step call by auto
qed

section \<open>Polls keep the interval\<close>

text \<open>The instants at which a sequence of polls asks RomM.\<close>

fun asks :: "device_task \<Rightarrow> bool" where
  "asks (DeviceAsked _ _) = True"
| "asks _ = False"

fun asked_at :: "(nat \<times> romm_api) list \<Rightarrow> device_state \<Rightarrow> nat list" where
  "asked_at [] st = []"
| "asked_at ((now, api) # polls) st =
     (if asks (fst (device_check now (device_read st) st)) then [now] else [])
     @ asked_at polls (snd (DeviceLinkState_poll api now st))"

lemma asked_at_None: "asked_at polls None = []"
  by (induction polls) (auto simp: device_read_def DeviceLinkState_poll_def)

definition last_polls :: "pending_device \<Rightarrow> nat list" where
  "last_polls p = (case pd_last_poll p of None \<Rightarrow> [] | Some t \<Rightarrow> [t])"

lemma poll_asking:
  assumes "asks (fst (device_check now (device_read (Some p)) (Some p)))"
  shows "\<not> polled_recently now p"
    and "snd (DeviceLinkState_poll api now (Some p)) \<in> {None, Some (p\<lparr>pd_last_poll := Some now\<rparr>)}"
proof -
  show rec: "\<not> polled_recently now p"
    using assms by (auto simp: device_read_def Let_def split: if_splits)
  have c: "device_check now (device_read (Some p)) (Some p) =
      (DeviceAsked p (DeviceWaiting (pd_offer p) (as_secs (pd_window p - (now - pd_started p)))),
       Some (p\<lparr>pd_last_poll := Some now\<rparr>))"
    using assms by (auto simp: device_read_def Let_def split: if_splits)
  show "snd (DeviceLinkState_poll api now (Some p)) \<in> {None, Some (p\<lparr>pd_last_poll := Some now\<rparr>)}"
    by (cases "api_device_token api (pd_base_url p) (pd_device_code p)")
       (auto simp: DeviceLinkState_poll_def c DeviceLinkState_cancel_def split: sum.splits device_answer.splits)
qed

lemma poll_local:
  assumes "\<not> asks (fst (device_check now (device_read (Some p)) (Some p)))"
  shows "snd (DeviceLinkState_poll api now (Some p)) \<in> {None, Some p}"
  using assms by (auto simp: DeviceLinkState_poll_def device_read_def DeviceLinkState_cancel_def Let_def)

lemma asked_at_spaced:
  "0 < pd_interval p \<Longrightarrow> successively (\<lambda>s t. s + pd_interval p \<le> t) (last_polls p @ asked_at polls (Some p))"
proof (induction polls arbitrary: p)
  case Nil
  then show ?case by (simp add: last_polls_def split: option.split)
next
  case (Cons poll polls)
  obtain now api where poll: "poll = (now, api)" by (cases poll)
  show ?case
  proof (cases "asks (fst (device_check now (device_read (Some p)) (Some p)))")
    case True
    let ?q = "p\<lparr>pd_last_poll := Some now\<rparr>"
    have "successively (\<lambda>s t. s + pd_interval p \<le> t)
        (now # asked_at polls (snd (DeviceLinkState_poll api now (Some p))))"
      using poll_asking(2)[OF True, of api] Cons.IH[of ?q] Cons.prems by (auto simp: asked_at_None last_polls_def)
    moreover have "pd_last_poll p = Some t \<Longrightarrow> t + pd_interval p \<le> now" for t
      using poll_asking(1)[OF True] Cons.prems by (auto simp: polled_recently_def)
    ultimately show ?thesis
      using True by (auto simp: poll last_polls_def split: option.split)
  next
    case False
    then show ?thesis
      using poll_local[OF False, of api] Cons.IH[of p] Cons.prems
      by (auto simp: poll asked_at_None last_polls_def split: option.split)
  qed
qed

text \<open>
  C32: polls one after the other ask RomM no more often than the interval RomM gave when the
  approval was started, and never more than once a second; a poll inside the interval is answered
  without asking.
\<close>

theorem polls_keep_the_interval:
  assumes "api_device_init api base_url = Response status (Some ini)"
    and "DeviceLinkState_start api url_text ip started base_url st = (Inr offer, begun)"
  shows "successively (\<lambda>s t. s + max (di_interval ini) 1 * NANOS \<le> t) (asked_at polls begun)"
proof -
  obtain p where p: "begun = Some p" "pd_interval p = max (di_interval ini) 1 * NANOS" "pd_last_poll p = None"
    using assms by (auto simp: DeviceLinkState_start_def read_json_def Let_def split: if_splits)
  then have "0 < pd_interval p" by (simp add: NANOS_def)
  from asked_at_spaced[OF this, of polls] show ?thesis by (simp add: p last_polls_def)
qed

definition demo_api :: romm_api where
  "demo_api = \<lparr>api_device_init = (\<lambda>_. Response 200 (Some \<lparr>di_device_code = ''d'', di_user_code = ''U'',
       di_verification_path_complete = ''/link'', di_expires_in = 600, di_interval = 5\<rparr>)),
     api_device_token = (\<lambda>_ _. Response 400 (Some (JObject [(''detail'', JString ''authorization_pending'')]))),
     api_session = (\<lambda>_ _ _. Response 200 (Some ''session'')), api_client_token = (\<lambda>_ _. Response 200 (Some ''rmm'')),
     api_status_text = (\<lambda>_. [])\<rparr>"

definition demo_polls :: "(nat \<times> romm_api) list" where
  "demo_polls = map (\<lambda>n. (n * NANOS, demo_api)) [1, 2, 7, 8, 12]"

theorem polls_keep_the_interval_witness:
  "successively (\<lambda>s t. s + max 5 1 * NANOS \<le> t)
     (asked_at demo_polls (snd (DeviceLinkState_start demo_api (\<lambda>_ _. None) None 0 ''http://localhost'' None)))
   \<and> asked_at demo_polls (snd (DeviceLinkState_start demo_api (\<lambda>_ _. None) None 0 ''http://localhost'' None))
     = [1 * NANOS, 7 * NANOS, 12 * NANOS]"
proof
  show "successively (\<lambda>s t. s + max 5 1 * NANOS \<le> t)
     (asked_at demo_polls (snd (DeviceLinkState_start demo_api (\<lambda>_ _. None) None 0 ''http://localhost'' None)))"
    using polls_keep_the_interval[of demo_api "''http://localhost''" 200
        "\<lparr>di_device_code = ''d'', di_user_code = ''U'', di_verification_path_complete = ''/link'',
          di_expires_in = 600, di_interval = 5\<rparr>" "\<lambda>_ _. None" None 0 None _ _ demo_polls]
    by (simp add: demo_api_def DeviceLinkState_start_def read_json_def is_success_def Let_def)
  show "asked_at demo_polls (snd (DeviceLinkState_start demo_api (\<lambda>_ _. None) None 0 ''http://localhost'' None))
     = [1 * NANOS, 7 * NANOS, 12 * NANOS]"
    by (simp add: demo_polls_def demo_api_def DeviceLinkState_start_def read_json_def is_success_def Let_def
        DeviceLinkState_poll_def device_read_def polled_recently_def interpret_device_token_def body_or_null_def
        NANOS_def)
qed

definition demo_romm :: romm_service where
  "demo_romm = \<lparr>rsv_settings = demo_settings, rsv_link = None\<rparr>"

definition demo_parse :: url_parser where
  "demo_parse u = (if u = ''http://localhost'' then Some (''http'', Some ''localhost'')
     else if u = ''http://evil.example'' then Some (''http'', Some ''evil.example'') else None)"

text \<open>A world in which a server elsewhere would hand out a token.\<close>

definition evil_api :: romm_api where
  "evil_api = demo_api\<lparr>api_session := (\<lambda>u _ _. if u = ''http://localhost'' then Response 200 (Some ''session'')
     else SendFailed)\<rparr>"

definition demo_calls :: "(romm_api \<times> romm_api \<times> romm_op) list" where
  "demo_calls = [(demo_api, evil_api, LoginRomm None ''t'' ''http://evil.example'' ''me'' ''secret''),
     (demo_api, evil_api, LoginRomm None ''t'' ''http://localhost/'' ''me'' ''secret'')]"

theorem romm_contacts_only_this_host_witness:
  "fold (\<lambda>(a, b, oper). romm_step demo_parse (\<lambda>_ _. None) a oper) demo_calls demo_romm
     = fold (\<lambda>(a, b, oper). romm_step demo_parse (\<lambda>_ _. None) b oper) demo_calls demo_romm
   \<and> SettingsRepository_romm_credentials None (rsv_settings
       (fold (\<lambda>(a, b, oper). romm_step demo_parse (\<lambda>_ _. None) a oper) demo_calls demo_romm))
     = Inr (Some \<lparr>rc_base_url = ''http://localhost'', rc_token = ''rmm''\<rparr>)"
proof
  have "romm_ok demo_parse demo_romm"
    by (simp add: romm_ok_def settings_ok_def demo_romm_def demo_settings_def)
  moreover have "local_url demo_parse u \<Longrightarrow> u = ''http://localhost''" for u
  proof -
    have "\<not> loopback_host ''evil.example''" by code_simp
    then show "local_url demo_parse u \<Longrightarrow> u = ''http://localhost''"
      by (auto simp: local_url_def demo_parse_def split: if_splits)
  qed
  then have "\<forall>(a, b, oper)\<in>set demo_calls. alike_locally demo_parse a b"
    by (fastforce simp: demo_calls_def alike_locally_def evil_api_def demo_api_def)
  ultimately show "fold (\<lambda>(a, b, oper). romm_step demo_parse (\<lambda>_ _. None) a oper) demo_calls demo_romm
     = fold (\<lambda>(a, b, oper). romm_step demo_parse (\<lambda>_ _. None) b oper) demo_calls demo_romm"
    using romm_contacts_only_this_host[of demo_parse demo_romm demo_calls "\<lambda>_ _. None"] by simp
  show "SettingsRepository_romm_credentials None (rsv_settings
       (fold (\<lambda>(a, b, oper). romm_step demo_parse (\<lambda>_ _. None) a oper) demo_calls demo_romm))
     = Inr (Some \<lparr>rc_base_url = ''http://localhost'', rc_token = ''rmm''\<rparr>)"
    by code_simp
qed

end
