(* ===== verification/Daemon_Romm.thy ===== *)
theory Daemon_Romm
  imports Daemon_Romm_Link Bridge_Retro
begin

text \<open>
  The RomM client of the daemon, \<^verbatim>\<open>hearthdeck-daemon/src/romm.rs\<close>, with the host roots of
  \<^verbatim>\<open>config.rs\<close>: queries, favourites, the play-later flag and artwork. A RomM server is an
  argument: its answers to each request and its own state; a reply carries a status and the
  decoded body or the decoder's message. Dates are computed by a library and not modelled beyond
  their unit.
\<close>

section \<open>Records\<close>

record romm_platform =
  rp_id :: int
  rp_name :: string
  rp_display_name :: "string option"
  rp_rom_count :: nat
  rp_slug :: "string option"
  rp_fs_slug :: "string option"
  rp_url_logo :: "string option"
  rp_artwork_paths :: "string list"

record romm_sibling_rom =
  sb_id :: int
  sb_name :: "string option"
  sb_fs_name_no_ext :: string
  sb_fs_name_no_tags :: string
  sb_is_main_sibling :: bool

record romm_game_metadata =
  gm_genres :: "string list"
  gm_player_count :: string
  gm_first_release_date :: "int option"
  gm_companies :: "string list"
  gm_game_modes :: "string list"
  gm_age_ratings :: "string list"
  gm_average_rating :: "rat option"

record romm_rom_user =
  ru_backlogged :: bool

record romm_game =
  rg_id :: int
  rg_platform_id :: int
  rg_name :: "string option"
  rg_fs_name_no_tags :: string
  rg_fs_name :: "string option"
  rg_fs_path :: "string option"
  rg_summary :: "string option"
  rg_path_cover_small :: "string option"
  rg_path_cover_large :: "string option"
  rg_url_cover :: "string option"
  rg_merged_screenshots :: "string list"
  rg_path_manual :: "string option"
  rg_has_manual :: bool
  rg_metadatum :: romm_game_metadata
  rg_regions :: "string list"
  rg_sibling_roms :: "romm_sibling_rom list"
  rg_platform_display_name :: "string option"
  rg_languages :: "string list"
  rg_tags :: "string list"
  rg_fs_size_bytes :: "nat option"
  rg_is_favorite :: "bool option"
  rg_rom_user :: romm_rom_user

record romm_game_page =
  gp_items :: "romm_game list"
  gp_total :: nat
  gp_limit :: nat
  gp_offset :: nat

record romm_game_filters =
  gf_genres :: "string list"
  gf_regions :: "string list"

record romm_filter_values =
  fl_genres :: "string list"
  fl_regions :: "string list"

record romm_collection =
  rk_id :: int
  rk_name :: string
  rk_is_favorite :: bool
  rk_rom_ids :: "int list"

record romm_asset =
  as_content_type :: string
  as_bytes :: string

record romm_paths =
  library_root :: string
  resources_root :: string

definition RommPaths_resolve :: "string option \<Rightarrow> string option \<Rightarrow> string option \<Rightarrow> romm_paths" where
  "RommPaths_resolve compose_file library resources =
     (let data_root = romm_data_root compose_file in
      \<lparr>library_root = (case library of None \<Rightarrow> path_join data_root ''library'' | Some p \<Rightarrow> p),
       resources_root = (case resources of None \<Rightarrow> path_join data_root ''resources'' | Some p \<Rightarrow> p)\<rparr>)"

datatype romm_query_error = NotConfigured | QueryFailed string

section \<open>Release dates\<close>

definition RELEASE_MILLIS_THRESHOLD :: int where "RELEASE_MILLIS_THRESHOLD = 100000000000"

text \<open>\<^verbatim>\<open>i64::abs\<close> leaves the least value as it is.\<close>

definition abs_i64 :: "int \<Rightarrow> int" where
  "abs_i64 x = (if x = - (2 ^ 63) then x else \<bar>x\<bar>)"

definition release_seconds :: "romm_game_metadata \<Rightarrow> int option" where
  "release_seconds m =
     map_option (\<lambda>t. if RELEASE_MILLIS_THRESHOLD < abs_i64 t then t sdiv 1000 else t) (gm_first_release_date m)"

section \<open>The server\<close>

datatype 'a reply = NoReply string | Answer nat "string + 'a"

record 's romm_server =
  srv_platforms :: "romm_credentials \<Rightarrow> 's \<Rightarrow> romm_platform list reply"
  srv_rom :: "romm_credentials \<Rightarrow> int \<Rightarrow> 's \<Rightarrow> romm_game reply"
  srv_roms :: "romm_credentials \<Rightarrow> (string \<times> string) list \<Rightarrow> 's \<Rightarrow> romm_game_page reply"
  srv_filters :: "romm_credentials \<Rightarrow> (string \<times> string) list \<Rightarrow> 's \<Rightarrow> romm_filter_values reply"
  srv_collections :: "romm_credentials \<Rightarrow> 's \<Rightarrow> romm_collection list reply"
  srv_create_favorites :: "romm_credentials \<Rightarrow> string \<Rightarrow> 's \<Rightarrow> romm_collection reply \<times> 's"
  srv_change_roms :: "romm_credentials \<Rightarrow> bool \<Rightarrow> int \<Rightarrow> int list \<Rightarrow> 's \<Rightarrow> unit reply \<times> 's"
  srv_set_backlogged :: "romm_credentials \<Rightarrow> int \<Rightarrow> bool \<Rightarrow> 's \<Rightarrow> unit reply \<times> 's"
  srv_asset :: "romm_credentials \<Rightarrow> string \<Rightarrow> 's \<Rightarrow> (string option \<times> (string + string)) reply"
  srv_status_text :: "nat \<Rightarrow> string"

definition romm_status_error :: "('s, 'x) romm_server_scheme \<Rightarrow> nat \<Rightarrow> romm_query_error" where
  "romm_status_error srv status = QueryFailed (''RomM returned '' @ srv_status_text srv status)"

definition decode :: "('s, 'x) romm_server_scheme \<Rightarrow> 'a reply \<Rightarrow> romm_query_error + 'a" where
  "decode srv r =
     (case r of
        NoReply err \<Rightarrow> Inl (QueryFailed err)
      | Answer status body \<Rightarrow>
          if \<not> is_success status then Inl (romm_status_error srv status)
          else map_sum QueryFailed id body)"

definition romm_credentials_of :: "string option \<Rightarrow> settings_db \<Rightarrow> romm_query_error + romm_credentials" where
  "romm_credentials_of fault db =
     (case SettingsRepository_romm_credentials fault db of
        Inl err \<Rightarrow> Inl (QueryFailed err)
      | Inr None \<Rightarrow> Inl NotConfigured
      | Inr (Some c) \<Rightarrow> Inr c)"

definition with_credentials ::
  "string option \<Rightarrow> settings_db \<Rightarrow> (romm_credentials \<Rightarrow> romm_query_error + 'a) \<Rightarrow> romm_query_error + 'a" where
  "with_credentials fault db f = (case romm_credentials_of fault db of Inl e \<Rightarrow> Inl e | Inr c \<Rightarrow> f c)"

section \<open>Platforms\<close>

definition artwork_candidate :: "string \<Rightarrow> string \<Rightarrow> string" where
  "artwork_candidate slug extension = ''/assets/platforms/'' @ slug @ ''.'' @ extension"

definition normalized_slug :: "string option \<Rightarrow> string option" where
  "normalized_slug v = option_filter (\<lambda>s. s \<noteq> []) (map_option (\<lambda>s. map ascii_lower (trim s)) v)"

definition platform_artwork_paths :: "romm_platform \<Rightarrow> string list" where
  "platform_artwork_paths p =
     (let slug = normalized_slug (rp_slug p); fs_slug = normalized_slug (rp_fs_slug p) in
      (case slug of None \<Rightarrow> [] | Some s \<Rightarrow> [artwork_candidate s ''svg'', artwork_candidate s ''ico''])
      @ (case fs_slug of
           None \<Rightarrow> []
         | Some s \<Rightarrow> if Some s = slug then [] else [artwork_candidate s ''svg'', artwork_candidate s ''ico''])
      @ [artwork_candidate ''default'' ''ico''])"

definition Connection_platforms ::
  "('s, 'x) romm_server_scheme \<Rightarrow> 's \<Rightarrow> romm_credentials \<Rightarrow> romm_query_error + romm_platform list" where
  "Connection_platforms srv st c =
     map_sum id (map (\<lambda>p. p\<lparr>rp_artwork_paths := platform_artwork_paths p\<rparr>)) (decode srv (srv_platforms srv c st))"

definition platforms ::
  "('s, 'x) romm_server_scheme \<Rightarrow> 's \<Rightarrow> string option \<Rightarrow> settings_db \<Rightarrow> romm_query_error + romm_platform list" where
  "platforms srv st fault db = with_credentials fault db (Connection_platforms srv st)"

section \<open>Roms\<close>

definition Connection_rom ::
  "('s, 'x) romm_server_scheme \<Rightarrow> 's \<Rightarrow> int \<Rightarrow> romm_credentials \<Rightarrow> romm_query_error + romm_game" where
  "Connection_rom srv st rom_id c =
     (case srv_rom srv c rom_id st of
        Answer status body \<Rightarrow>
          if status = 404 then Inl (QueryFailed ''rom not found'') else decode srv (Answer status body)
      | r \<Rightarrow> decode srv r)"

definition rom ::
  "('s, 'x) romm_server_scheme \<Rightarrow> 's \<Rightarrow> string option \<Rightarrow> settings_db \<Rightarrow> int \<Rightarrow> romm_query_error + romm_game" where
  "rom srv st fault db rom_id = with_credentials fault db (Connection_rom srv st rom_id)"

definition show_int :: "int \<Rightarrow> string" where
  "show_int i = (if i < 0 then ''-'' @ show_nat (nat (- i)) else show_nat (nat i))"

definition game_params ::
  "int option \<Rightarrow> string option \<Rightarrow> romm_game_filters \<Rightarrow> nat \<Rightarrow> nat \<Rightarrow> (string \<times> string) list" where
  "game_params platform_id search_term filters limit offset =
     [(''limit'', show_nat limit), (''offset'', show_nat offset), (''with_char_index'', ''false''),
      (''with_filter_values'', ''false''), (''with_rom_id_index'', ''false''), (''group_by_meta_id'', ''true''),
      (''order_by'', ''name''), (''order_dir'', ''asc'')]
     @ (case platform_id of None \<Rightarrow> [] | Some i \<Rightarrow> [(''platform_ids'', show_int i)])
     @ (case search_term of None \<Rightarrow> [] | Some t \<Rightarrow> [(''search_term'', t)])
     @ map (\<lambda>g. (''genres'', g)) (gf_genres filters)
     @ (if gf_genres filters = [] then [] else [(''genres_logic'', ''any'')])
     @ map (\<lambda>r. (''regions'', r)) (gf_regions filters)
     @ (if gf_regions filters = [] then [] else [(''regions_logic'', ''any'')])"

definition games ::
  "('s, 'x) romm_server_scheme \<Rightarrow> 's \<Rightarrow> string option \<Rightarrow> settings_db \<Rightarrow> int option \<Rightarrow> string option
     \<Rightarrow> romm_game_filters \<Rightarrow> nat \<Rightarrow> nat \<Rightarrow> romm_query_error + romm_game_page" where
  "games srv st fault db platform_id search_term filters limit offset =
     with_credentials fault db (\<lambda>c. decode srv
       (srv_roms srv c (game_params platform_id search_term filters limit offset) st))"

definition filter_values ::
  "('s, 'x) romm_server_scheme \<Rightarrow> 's \<Rightarrow> string option \<Rightarrow> settings_db \<Rightarrow> int option \<Rightarrow> romm_query_error + romm_filter_values" where
  "filter_values srv st fault db platform_id =
     with_credentials fault db (\<lambda>c. decode srv
       (srv_filters srv c (case platform_id of None \<Rightarrow> [] | Some i \<Rightarrow> [(''platform_ids'', show_int i)]) st))"

section \<open>Favourites\<close>

definition FAVORITE_COLLECTION_NAME :: string where "FAVORITE_COLLECTION_NAME = ''Favorites''"

definition fetch_collections ::
  "('s, 'x) romm_server_scheme \<Rightarrow> 's \<Rightarrow> romm_credentials \<Rightarrow> romm_query_error + romm_collection list" where
  "fetch_collections srv st c = decode srv (srv_collections srv c st)"

definition romm_favorite_collection ::
  "('s, 'x) romm_server_scheme \<Rightarrow> 's \<Rightarrow> romm_credentials \<Rightarrow> romm_query_error + romm_collection option" where
  "romm_favorite_collection srv st c = map_sum id (find rk_is_favorite) (fetch_collections srv st c)"

definition favorite ::
  "('s, 'x) romm_server_scheme \<Rightarrow> 's \<Rightarrow> romm_credentials \<Rightarrow> romm_game \<Rightarrow> romm_query_error + bool" where
  "favorite srv st c game =
     (case rg_is_favorite game of
        Some b \<Rightarrow> Inr b
      | None \<Rightarrow>
          (case romm_favorite_collection srv st c of
             Inl e \<Rightarrow> Inl e
           | Inr None \<Rightarrow> Inr False
           | Inr (Some collection) \<Rightarrow> Inr (rg_id game \<in> set (rk_rom_ids collection))))"

definition details ::
  "('s, 'x) romm_server_scheme \<Rightarrow> 's \<Rightarrow> string option \<Rightarrow> settings_db \<Rightarrow> int \<Rightarrow> romm_query_error + romm_game" where
  "details srv st fault db rom_id =
     with_credentials fault db (\<lambda>c.
       case Connection_rom srv st rom_id c of
         Inl e \<Rightarrow> Inl e
       | Inr game \<Rightarrow>
           (case favorite srv st c game of
              Inr b \<Rightarrow> Inr (game\<lparr>rg_is_favorite := Some b\<rparr>)
            | Inl _ \<Rightarrow> Inr game))"

definition romm_create_favorite_collection ::
  "('s, 'x) romm_server_scheme \<Rightarrow> romm_credentials \<Rightarrow> 's \<Rightarrow> (romm_query_error + romm_collection) \<times> 's" where
  "romm_create_favorite_collection srv c st =
     (case srv_create_favorites srv c FAVORITE_COLLECTION_NAME st of (r, st) \<Rightarrow> (decode srv r, st))"

text \<open>The favourite collection, created when a favourite is first set.\<close>

definition favorite_target ::
  "('s, 'x) romm_server_scheme \<Rightarrow> romm_credentials \<Rightarrow> bool \<Rightarrow> 's \<Rightarrow> (romm_query_error + romm_collection option) \<times> 's" where
  "favorite_target srv c wanted st =
     (case romm_favorite_collection srv st c of
        Inl e \<Rightarrow> (Inl e, st)
      | Inr (Some collection) \<Rightarrow> (Inr (Some collection), st)
      | Inr None \<Rightarrow>
          if wanted
          then (case romm_create_favorite_collection srv c st of (r, st) \<Rightarrow> (map_sum id Some r, st))
          else (Inr None, st))"

definition status_only :: "('s, 'x) romm_server_scheme \<Rightarrow> unit reply \<Rightarrow> 'a \<Rightarrow> romm_query_error + 'a" where
  "status_only srv r v =
     (case r of
        NoReply err \<Rightarrow> Inl (QueryFailed err)
      | Answer status _ \<Rightarrow> if is_success status then Inr v else Inl (romm_status_error srv status))"

definition set_favorite ::
  "('s, 'x) romm_server_scheme \<Rightarrow> string option \<Rightarrow> settings_db \<Rightarrow> int \<Rightarrow> bool \<Rightarrow> 's \<Rightarrow> (romm_query_error + bool) \<times> 's" where
  "set_favorite srv fault db rom_id wanted st =
     (case romm_credentials_of fault db of
        Inl e \<Rightarrow> (Inl e, st)
      | Inr c \<Rightarrow>
          (case favorite_target srv c wanted st of
             (Inl e, st) \<Rightarrow> (Inl e, st)
           | (Inr None, st) \<Rightarrow> (Inr False, st)
           | (Inr (Some collection), st) \<Rightarrow>
               (case srv_change_roms srv c wanted (rk_id collection) [rom_id] st of (r, st) \<Rightarrow>
                  (status_only srv r wanted, st))))"

definition set_backlogged ::
  "('s, 'x) romm_server_scheme \<Rightarrow> string option \<Rightarrow> settings_db \<Rightarrow> int \<Rightarrow> bool \<Rightarrow> 's \<Rightarrow> (romm_query_error + bool) \<times> 's" where
  "set_backlogged srv fault db rom_id wanted st =
     (case romm_credentials_of fault db of
        Inl e \<Rightarrow> (Inl e, st)
      | Inr c \<Rightarrow>
          (case srv_set_backlogged srv c rom_id wanted st of (r, st) \<Rightarrow> (status_only srv r wanted, st)))"

section \<open>Artwork\<close>

definition ROMM_RESOURCES_URL_PREFIX :: string where "ROMM_RESOURCES_URL_PREFIX = ''/assets/romm/resources/''"
definition ROMM_PLATFORM_ART_URL_PREFIX :: string where "ROMM_PLATFORM_ART_URL_PREFIX = ''/assets/platforms/''"

definition normalized_romm_asset_path :: "string \<Rightarrow> string + string" where
  "normalized_romm_asset_path value =
     (let path = trim value;
          path = (if starts_with ''/'' path then path else ''/'' @ path) in
      if \<not> (starts_with ROMM_RESOURCES_URL_PREFIX path \<or> starts_with ROMM_PLATFORM_ART_URL_PREFIX path)
         \<or> contains ''..'' path \<or> contains ''#'' path \<or> contains ''//'' path
      then Inl ''invalid RomM artwork path'' else Inr path)"

definition resources_relative_path :: "string \<Rightarrow> string option" where
  "resources_relative_path path =
     map_option (\<lambda>relative. hd (split (CHR ''?'') relative)) (strip_prefix ROMM_RESOURCES_URL_PREFIX path)"

definition artwork_content_type :: "string \<Rightarrow> string option" where
  "artwork_content_type file =
     (case path_extension file of
        None \<Rightarrow> None
      | Some ext \<Rightarrow> map_of [(''png'', ''image/png''), (''jpg'', ''image/jpeg''), (''jpeg'', ''image/jpeg''),
          (''webp'', ''image/webp''), (''gif'', ''image/gif''), (''svg'', ''image/svg+xml''), (''ico'', ''image/x-icon''),
          (''bmp'', ''image/bmp''), (''avif'', ''image/avif'')] (map ascii_lower ext))"

definition read_resources_asset ::
  "(string \<Rightarrow> string + string) \<Rightarrow> romm_paths \<Rightarrow> string \<Rightarrow> romm_query_error + romm_asset" where
  "read_resources_asset read_disk paths relative =
     (let file = path_join (resources_root paths) relative in
      case artwork_content_type file of
        None \<Rightarrow> Inl (QueryFailed (''RomM artwork '' @ file @ '' is not an image''))
      | Some content_type \<Rightarrow>
          (case read_disk file of
             Inl err \<Rightarrow> Inl (QueryFailed (''could not read RomM artwork '' @ file @ '': '' @ err))
           | Inr bytes \<Rightarrow> Inr \<lparr>as_content_type = content_type, as_bytes = bytes\<rparr>))"

definition asset ::
  "('s, 'x) romm_server_scheme \<Rightarrow> 's \<Rightarrow> (string \<Rightarrow> string + string) \<Rightarrow> string option \<Rightarrow> settings_db \<Rightarrow> romm_paths \<Rightarrow> string
     \<Rightarrow> romm_query_error + romm_asset" where
  "asset srv st read_disk fault db paths value =
     (case normalized_romm_asset_path value of
        Inl err \<Rightarrow> Inl (QueryFailed err)
      | Inr path \<Rightarrow>
          (case resources_relative_path path of
             Some relative \<Rightarrow> read_resources_asset read_disk paths relative
           | None \<Rightarrow>
               with_credentials fault db (\<lambda>c.
                 case srv_asset srv c path st of
                   NoReply err \<Rightarrow> Inl (QueryFailed err)
                 | Answer status body \<Rightarrow>
                     if \<not> is_success status
                     then Inl (QueryFailed (''RomM artwork request returned '' @ srv_status_text srv status))
                     else (case body of
                       Inl err \<Rightarrow> Inl (QueryFailed err)
                     | Inr (header, bytes) \<Rightarrow>
                         let content_type = (case header of None \<Rightarrow> [] | Some t \<Rightarrow> t) in
                         if \<not> starts_with ''image/'' content_type
                         then Inl (QueryFailed ''RomM artwork response was not an image'')
                         else map_sum QueryFailed (\<lambda>b. \<lparr>as_content_type = content_type, as_bytes = b\<rparr>) bytes))))"

section \<open>Artwork is read below the resources root\<close>

definition below :: "string \<Rightarrow> string \<Rightarrow> bool" where
  "below dir file \<longleftrightarrow> (\<exists>ns. path_components file = path_components dir @ map Normal ns)"

lemma asset_file_below:
  assumes "normalized_romm_asset_path v = Inr path" and "resources_relative_path path = Some relative"
    and "dir \<noteq> []"
  shows "below dir (path_join dir relative)"
proof -
  have path: "\<not> contains ''..'' path" "\<not> contains ''//'' path"
    using assms(1) by (auto simp: normalized_romm_asset_path_def Let_def split: if_splits)
  obtain r where r: "path = ROMM_RESOURCES_URL_PREFIX @ r" "relative = hd (split (CHR ''?'') r)"
    using assms(2) by (auto simp: resources_relative_path_def)
  obtain q where q: "r = relative @ q"
  proof -
    have "r = join (CHR ''?'') (split (CHR ''?'') r)" by simp
    then show thesis
      using that r(2) split_nonempty[of "CHR ''?''" r]
      by (cases "split (CHR ''?'') r"; cases "tl (split (CHR ''?'') r)") auto
  qed
  have "\<not> is_absolute relative"
  proof
    assume "is_absolute relative"
    then obtain t where "relative = CHR ''/'' # t" by (cases relative) (auto simp: is_absolute_def)
    then have "path = ''/assets/romm/resources'' @ ''//'' @ t @ q"
      by (simp add: r(1) q ROMM_RESOURCES_URL_PREFIX_def)
    then show False using path(2) unfolding contains_iff by blast
  qed
  moreover have "\<forall>x\<in>set (split (CHR ''/'') relative). x \<noteq> ''..''"
  proof (rule ballI, rule notI)
    fix x assume "x \<in> set (split (CHR ''/'') relative)" "x = ''..''"
    moreover have "contains ''..'' ''..''" by (simp add: contains_iff) (metis append_Nil)
    ultimately have "contains ''..'' relative" using contains_piece[of "''..''" "CHR ''/''" relative "''..''"] by blast
    then have "contains ''..'' path"
      using contains_mono[of "''..''" relative ROMM_RESOURCES_URL_PREFIX q] by (simp add: r(1) q)
    then show False using path(1) by simp
  qed
  ultimately show ?thesis
    using relative_components_normal[of relative] path_components_join[OF assms(3)] by (auto simp: below_def)
qed

text \<open>
  C33: whatever artwork path a client sends, the daemon reads no file outside RomM's resources: two
  disks that agree below the resources root give the same answer, and a file is only served under
  an image content type.
\<close>

theorem artwork_stays_below_resources:
  assumes "resources_root paths \<noteq> []"
    and "\<forall>file. below (resources_root paths) file \<longrightarrow> disk file = disk' file"
  shows "asset srv st disk fault db paths v = asset srv st disk' fault db paths v
    \<and> (case asset srv st disk fault db paths v of Inr a \<Rightarrow> starts_with ''image/'' (as_content_type a) | Inl _ \<Rightarrow> True)"
proof -
  have same: "asset srv st disk fault db paths v = asset srv st disk' fault db paths v"
    using asset_file_below[OF _ _ assms(1), of v] assms(2)
    by (auto simp: asset_def read_resources_asset_def Let_def split: sum.splits option.splits)
  have image: "artwork_content_type f = Some t \<Longrightarrow> starts_with ''image/'' t" for f t
    by (auto simp: artwork_content_type_def starts_with_def strip_prefix_def split: option.splits if_splits)
  have disk: "read_resources_asset disk paths r = Inr a \<Longrightarrow> starts_with ''image/'' (as_content_type a)" for r a
    using image by (auto simp: read_resources_asset_def Let_def split: option.splits sum.splits)
  have "asset srv st disk fault db paths v = Inr a \<Longrightarrow> starts_with ''image/'' (as_content_type a)" for a
    using disk by (auto simp: asset_def with_credentials_def Let_def map_sum_def
        split: sum.splits option.splits reply.splits if_splits)
  with same show ?thesis by (simp split: sum.split)
qed

definition demo_server :: "romm_collection list romm_server" where
  "demo_server = \<lparr>srv_platforms = (\<lambda>_ _. NoReply []), srv_rom = (\<lambda>_ _ _. NoReply []), srv_roms = (\<lambda>_ _ _. NoReply []),
     srv_filters = (\<lambda>_ _ _. NoReply []), srv_collections = (\<lambda>_ st. Answer 200 (Inr st)),
     srv_create_favorites = (\<lambda>_ name st.
       let c = \<lparr>rk_id = int (length st), rk_name = name, rk_is_favorite = True, rk_rom_ids = []\<rparr>
       in (Answer 201 (Inr c), st @ [c])),
     srv_change_roms = (\<lambda>_ add k ids st. (Answer 200 (Inr ()), map (\<lambda>c. if rk_id c = k
       then c\<lparr>rk_rom_ids := if add then rk_rom_ids c @ ids else filter (\<lambda>i. i \<notin> set ids) (rk_rom_ids c)\<rparr> else c) st)),
     srv_set_backlogged = (\<lambda>_ _ _ st. (Answer 200 (Inr ()), st)), srv_asset = (\<lambda>_ _ _. NoReply []),
     srv_status_text = show_nat\<rparr>"

definition demo_paths :: romm_paths where
  "demo_paths = RommPaths_resolve (Some ''/srv/romm/compose.yaml'') None None"

theorem artwork_stays_below_resources_witness:
  "asset demo_server [] (\<lambda>f. if below (resources_root demo_paths) f then Inr ''x'' else Inl ''e'') None demo_settings
       demo_paths ''assets/romm/resources/covers/1.png?ts=9''
     = asset demo_server [] (\<lambda>f. if below (resources_root demo_paths) f then Inr ''x'' else Inr ''secret'') None
       demo_settings demo_paths ''assets/romm/resources/covers/1.png?ts=9''"
proof -
  have "resources_root demo_paths \<noteq> []" by code_simp
  then show ?thesis
    by (intro conjunct1[OF artwork_stays_below_resources]) simp_all
qed

section \<open>A favourite reads back\<close>

text \<open>
  What the client relies on of a RomM server, of which \<open>view\<close> gives the collections: a listing that
  is answered lists them, adding or removing roms changes the named collection and no other,
  creating the favourites appends a collection with the flag, and a rom is answered under the id
  it was asked for; a version that inlines the flag on the rom says there whether the rom is in the
  favourite collection. Every request may also fail.
\<close>

definition rom_ids_changed :: "bool \<Rightarrow> int \<Rightarrow> int list \<Rightarrow> romm_collection \<Rightarrow> romm_collection" where
  "rom_ids_changed add k ids c =
     (if rk_id c = k
      then c\<lparr>rk_rom_ids := if add then rk_rom_ids c @ ids else filter (\<lambda>i. i \<notin> set ids) (rk_rom_ids c)\<rparr> else c)"

definition in_favorites :: "romm_collection list \<Rightarrow> int \<Rightarrow> bool" where
  "in_favorites cs rom_id \<longleftrightarrow>
     (case find rk_is_favorite cs of None \<Rightarrow> False | Some col \<Rightarrow> rom_id \<in> set (rk_rom_ids col))"

definition keeps_collections ::
  "('s, 'x) romm_server_scheme \<Rightarrow> romm_credentials \<Rightarrow> ('s \<Rightarrow> romm_collection list) \<Rightarrow> bool" where
  "keeps_collections srv c view \<longleftrightarrow>
     (\<forall>st status cs. srv_collections srv c st = Answer status (Inr cs) \<longrightarrow> is_success status \<longrightarrow> cs = view st)
     \<and> (\<forall>st add k ids status body st'. srv_change_roms srv c add k ids st = (Answer status body, st')
          \<longrightarrow> is_success status \<longrightarrow> view st' = map (rom_ids_changed add k ids) (view st))
     \<and> (\<forall>st name status col st'. srv_create_favorites srv c name st = (Answer status (Inr col), st')
          \<longrightarrow> is_success status \<longrightarrow> view st' = view st @ [col] \<and> rk_is_favorite col)
     \<and> (\<forall>st i status game. srv_rom srv c i st = Answer status (Inr game) \<longrightarrow> is_success status
          \<longrightarrow> rg_id game = i \<and> rg_is_favorite game \<in> {None, Some (in_favorites (view st) i)})"

lemma decode_ok: "decode srv r = Inr v \<longleftrightarrow> (\<exists>status. r = Answer status (Inr v) \<and> is_success status)"
  by (cases r) (auto simp: decode_def map_sum_def split: sum.splits)

lemma find_map_changed:
  "find rk_is_favorite (map (rom_ids_changed add k ids) cs)
     = map_option (rom_ids_changed add k ids) (find rk_is_favorite cs)"
  by (induction cs) (auto simp: rom_ids_changed_def)

lemma fetched_view:
  assumes "keeps_collections srv c view" and "fetch_collections srv st c = Inr cs"
  shows "cs = view st"
  using assms by (auto simp: keeps_collections_def fetch_collections_def decode_ok)

lemma favorite_collection_view:
  assumes "keeps_collections srv c view" and "romm_favorite_collection srv st c = Inr found"
  shows "found = find rk_is_favorite (view st)"
  using assms fetched_view[OF assms(1)]
  by (cases "fetch_collections srv st c") (auto simp: romm_favorite_collection_def)

lemma favorite_target_view:
  assumes "keeps_collections srv c view" and "favorite_target srv c wanted st = (Inr target, st')"
  shows "find rk_is_favorite (view st') = target \<and> (target = None \<longrightarrow> \<not> wanted)"
proof -
  obtain found where found: "romm_favorite_collection srv st c = Inr found"
    using assms(2) by (auto simp: favorite_target_def split: sum.splits)
  note seen = favorite_collection_view[OF assms(1) found]
  show ?thesis
  proof (cases "found \<noteq> None \<or> \<not> wanted")
    case True
    then show ?thesis using assms(2) found seen by (auto simp: favorite_target_def split: option.splits if_splits)
  next
    case False
    obtain r where created: "srv_create_favorites srv c FAVORITE_COLLECTION_NAME st = (r, st')"
      and dec: "map_sum id Some (decode srv r) = Inr target"
      using assms(2) found False
      by (auto simp: favorite_target_def romm_create_favorite_collection_def split: prod.splits)
    obtain status col where r: "r = Answer status (Inr col)" "is_success status" "target = Some col"
      using dec by (cases "decode srv r") (auto simp: decode_ok)
    then have "view st' = view st @ [col]" "rk_is_favorite col"
      using assms(1) created by (auto simp: keeps_collections_def)
    then show ?thesis using False seen r(3) by (simp add: find_append)
  qed
qed

lemma set_favorite_view:
  assumes "keeps_collections srv c view" and "romm_credentials_of fault db = Inr c"
    and "set_favorite srv fault db rom_id wanted st = (Inr answer, st')"
  shows "answer = wanted \<and> in_favorites (view st') rom_id = wanted"
proof -
  obtain target st1 where t: "favorite_target srv c wanted st = (Inr target, st1)"
    using assms(2,3) by (auto simp: set_favorite_def split: prod.splits sum.splits)
  note seen = favorite_target_view[OF assms(1) t]
  show ?thesis
  proof (cases target)
    case None
    then show ?thesis using assms(2,3) t seen by (auto simp: set_favorite_def in_favorites_def)
  next
    case (Some col)
    obtain status body where change: "srv_change_roms srv c wanted (rk_id col) [rom_id] st1 = (Answer status body, st')"
      "is_success status" "answer = wanted"
      using assms(2,3) t Some
      by (auto simp: set_favorite_def status_only_def split: prod.splits reply.splits if_splits)
    then have "view st' = map (rom_ids_changed wanted (rk_id col) [rom_id]) (view st1)"
      using assms(1) unfolding keeps_collections_def by blast
    then have "find rk_is_favorite (view st') = Some (rom_ids_changed wanted (rk_id col) [rom_id] col)"
      using seen Some by (simp add: find_map_changed)
    then show ?thesis using change(3) by (simp add: in_favorites_def rom_ids_changed_def)
  qed
qed

lemma details_view:
  assumes "keeps_collections srv c view" and "romm_credentials_of fault db = Inr c"
    and "details srv st fault db rom_id = Inr game"
  shows "rg_is_favorite game \<in> {None, Some (in_favorites (view st) rom_id)}"
    and "fetch_collections srv st c = Inr cs \<Longrightarrow> rg_is_favorite game = Some (in_favorites (view st) rom_id)"
proof -
  obtain g where rom: "Connection_rom srv st rom_id c = Inr g"
    and game: "game = (case favorite srv st c g of Inr b \<Rightarrow> g\<lparr>rg_is_favorite := Some b\<rparr> | Inl _ \<Rightarrow> g)"
    using assms(2,3) by (auto simp: details_def with_credentials_def split: sum.splits)
  obtain status where "srv_rom srv c rom_id st = Answer status (Inr g)" "is_success status"
    using rom by (cases "srv_rom srv c rom_id st") (auto simp: Connection_rom_def decode_ok split: if_splits)
  then have g: "rg_id g = rom_id" "rg_is_favorite g \<in> {None, Some (in_favorites (view st) rom_id)}"
    using assms(1) unfolding keeps_collections_def by blast+
  have read: "favorite srv st c g = Inr (in_favorites (view st) rom_id)" if "favorite srv st c g = Inr b" for b
    using that g favorite_collection_view[OF assms(1), of st]
    by (auto simp: favorite_def in_favorites_def split: option.splits sum.splits)
  then show "rg_is_favorite game \<in> {None, Some (in_favorites (view st) rom_id)}"
    using g(2) by (cases "favorite srv st c g") (auto simp: game)
  assume "fetch_collections srv st c = Inr cs"
  then have "\<exists>b. favorite srv st c g = Inr b"
    by (auto simp: favorite_def romm_favorite_collection_def split: option.split)
  with read show "rg_is_favorite game = Some (in_favorites (view st) rom_id)" by (auto simp: game)
qed

text \<open>
  C34: setting or clearing a favourite that RomM accepts reads back: the answer is the state asked
  for, RomM's favourite collection (created on first use) then contains the game exactly if that
  was asked for, and the details of the game read afterwards say so, whether RomM inlines the flag
  on the rom or not; only if RomM does not inline it and its collections cannot be read the details
  leave the flag out. A removal while there is no favourite collection is answered with no request
  that could change anything.
\<close>

theorem favorite_reads_back:
  assumes "keeps_collections srv c view" and "romm_credentials_of fault db = Inr c"
    and "set_favorite srv fault db rom_id wanted st = (Inr answer, st')"
  shows "answer = wanted \<and> in_favorites (view st') rom_id = wanted
    \<and> (\<forall>game. details srv st' fault db rom_id = Inr game \<longrightarrow>
         rg_is_favorite game \<in> {None, Some wanted}
       \<and> (\<forall>cs. fetch_collections srv st' c = Inr cs \<longrightarrow> rg_is_favorite game = Some wanted))
    \<and> (\<not> wanted \<and> find rk_is_favorite (view st) = None \<longrightarrow>
         (\<forall>post create. set_favorite (srv\<lparr>srv_change_roms := post, srv_create_favorites := create\<rparr>) fault db rom_id wanted st
            = (Inr False, st)))"
proof (intro conjI allI impI)
  note accepted = set_favorite_view[OF assms]
  show "answer = wanted" "in_favorites (view st') rom_id = wanted" using accepted by simp_all
  show "rg_is_favorite game \<in> {None, Some wanted}" if "details srv st' fault db rom_id = Inr game" for game
    using details_view(1)[OF assms(1,2) that] accepted by simp
  show "rg_is_favorite game = Some wanted"
    if "details srv st' fault db rom_id = Inr game" "fetch_collections srv st' c = Inr cs" for game cs
    using details_view(2)[OF assms(1,2) that] accepted by simp
  fix "post" create
  assume none: "\<not> wanted \<and> find rk_is_favorite (view st) = None"
  obtain found where "romm_favorite_collection srv st c = Inr found"
    using assms(2,3) by (auto simp: set_favorite_def favorite_target_def split: sum.splits)
  moreover from this have "found = None" using favorite_collection_view[OF assms(1)] none by simp
  ultimately have "romm_favorite_collection (srv\<lparr>srv_change_roms := post, srv_create_favorites := create\<rparr>) st c = Inr None"
    by (cases "srv_collections srv c st")
      (auto simp: romm_favorite_collection_def fetch_collections_def decode_def split: if_splits)
  then show "set_favorite (srv\<lparr>srv_change_roms := post, srv_create_favorites := create\<rparr>) fault db rom_id wanted st = (Inr False, st)"
    using assms(2) none by (simp add: set_favorite_def favorite_target_def)
qed

definition demo_game :: romm_game where
  "demo_game = \<lparr>rg_id = 7, rg_platform_id = 1, rg_name = None, rg_fs_name_no_tags = [], rg_fs_name = Some ''a.sfc'',
     rg_fs_path = Some ''roms/snes'', rg_summary = None, rg_path_cover_small = None, rg_path_cover_large = None,
     rg_url_cover = None, rg_merged_screenshots = [], rg_path_manual = None, rg_has_manual = False,
     rg_metadatum = \<lparr>gm_genres = [], gm_player_count = [], gm_first_release_date = None, gm_companies = [],
       gm_game_modes = [], gm_age_ratings = [], gm_average_rating = None\<rparr>,
     rg_regions = [], rg_sibling_roms = [], rg_platform_display_name = None, rg_languages = [], rg_tags = [],
     rg_fs_size_bytes = None, rg_is_favorite = None, rg_rom_user = \<lparr>ru_backlogged = False\<rparr>\<rparr>"

definition demo_linked :: settings_db where
  "demo_linked = demo_settings\<lparr>romm_settings_table :=
     Some \<lparr>rs_base_url = ''http://localhost'', rs_token = ''t'', rs_updated_at = []\<rparr>\<rparr>"

text \<open>A RomM with one game, whose version inlines the flag.\<close>

definition favorite_server :: "romm_collection list romm_server" where
  "favorite_server = demo_server\<lparr>srv_rom := (\<lambda>_ i st.
     Answer 200 (Inr (demo_game\<lparr>rg_id := i, rg_is_favorite := Some (in_favorites st i)\<rparr>)))\<rparr>"

lemma favorite_server_keeps: "keeps_collections favorite_server c (\<lambda>st. st)"
  by (auto simp: keeps_collections_def favorite_server_def demo_server_def Let_def rom_ids_changed_def)

theorem favorite_reads_back_witness:
  "set_favorite favorite_server None demo_linked 7 False [] = (Inr False, [])
   \<and> (let st' = snd (set_favorite favorite_server None demo_linked 7 True []) in
       in_favorites st' 7 \<and> map_sum id rg_is_favorite (details favorite_server st' None demo_linked 7) = Inr (Some True))"
proof -
  have creds: "romm_credentials_of None demo_linked = Inr \<lparr>rc_base_url = ''http://localhost'', rc_token = ''t''\<rparr>"
    by (simp add: romm_credentials_of_def SettingsRepository_romm_credentials_def demo_linked_def)
  have off: "set_favorite favorite_server None demo_linked 7 False [] = (Inr False, [])" by code_simp
  have "fst (set_favorite favorite_server None demo_linked 7 True []) = Inr True" by code_simp
  then obtain st' where set: "set_favorite favorite_server None demo_linked 7 True [] = (Inr True, st')" by (metis prod.collapse)
  note reads = favorite_reads_back[OF favorite_server_keeps creds set]
  obtain game where game: "details favorite_server st' None demo_linked 7 = Inr game"
    by (auto simp: details_def with_credentials_def creds Connection_rom_def favorite_server_def decode_def is_success_def favorite_def)
  have listed: "fetch_collections favorite_server st' \<lparr>rc_base_url = ''http://localhost'', rc_token = ''t''\<rparr> = Inr st'"
    by (simp add: fetch_collections_def favorite_server_def demo_server_def decode_def is_success_def)
  have "in_favorites st' 7" "rg_is_favorite game = Some True" using reads game listed by blast+
  then show ?thesis using off set game by simp
qed

end
