(* ===== verification/Categorizer_Settings.thy ===== *)
theory Categorizer_Settings
  imports Ai_Scan Collections Daemon_Catalog
begin

text \<open>
  How the daemon runs the categorizer, the first half of
  \<^verbatim>\<open>hearthdeck-daemon/src/categorizer.rs\<close>: the settings read from the environment, the command
  line of the child, the run itself, and what is known of the checkpoint on disk. The file system,
  the child process and JSON coding are arguments. File sizes are natural numbers: a cache whose
  files add up to two to the sixty-four bytes does not exist.
\<close>

section \<open>Settings\<close>

datatype scan_engine = HeuristicEngine | LayaEngine

fun ScanEngine_as_str :: "scan_engine \<Rightarrow> string" where
  "ScanEngine_as_str HeuristicEngine = ''heuristic''"
| "ScanEngine_as_str LayaEngine = ''laya''"

definition ScanEngine_parse :: "string \<Rightarrow> scan_engine option" where
  "ScanEngine_parse v = map_of [(''heuristic'', HeuristicEngine), (''laya'', LayaEngine)] v"

datatype scan_model = English | Multilingual

fun ScanModel_as_str :: "scan_model \<Rightarrow> string" where
  "ScanModel_as_str English = ''english''"
| "ScanModel_as_str Multilingual = ''multilingual''"

record categorizer_settings =
  cs_binary :: string
  cs_work_dir :: string
  cs_cache_dir :: string
  cs_engine :: scan_engine
  cs_model :: scan_model
  cs_model_path :: "string option"
  cs_dtype :: string
  cs_timeout :: nat
  cs_memory_max :: string

definition default_scan_timeout :: nat where "default_scan_timeout = 60 * 60"

text \<open>\<^verbatim>\<open>str::parse::<u64>\<close>: an optional plus sign and digits, in range.\<close>

definition parse_u64 :: "string \<Rightarrow> nat option" where
  "parse_u64 s =
     (let digits = (case s of c # t \<Rightarrow> if c = CHR ''+'' then t else s | [] \<Rightarrow> []) in
      if digits \<noteq> [] \<and> list_all is_ascii_digit digits \<and> nat_of_digits digits < 2 ^ 64
      then Some (nat_of_digits digits) else None)"

abbreviation nonempty :: "string option \<Rightarrow> string option" where
  "nonempty \<equiv> option_filter (\<lambda>v. v \<noteq> [])"

definition unwrap_or :: "'a \<Rightarrow> 'a option \<Rightarrow> 'a" where
  "unwrap_or d x = (case x of None \<Rightarrow> d | Some v \<Rightarrow> v)"

definition CategorizerSettings_from_lookup ::
  "string \<Rightarrow> (string \<rightharpoonup> string) \<Rightarrow> string \<Rightarrow> categorizer_settings" where
  "CategorizerSettings_from_lookup database_path get_env fallback_binary =
     (let data_dir = unwrap_or ''.'' (nonempty (path_parent database_path)) in
      \<lparr>cs_binary = unwrap_or fallback_binary (nonempty (get_env ''HEARTHDECK_AI_BIN'')),
       cs_work_dir = unwrap_or (path_join data_dir ''categorization'')
         (nonempty (get_env ''HEARTHDECK_CATEGORIZATION_DIR'')),
       cs_cache_dir = unwrap_or (path_join (path_join data_dir ''models'') ''hub'')
         (nonempty (get_env ''HEARTHDECK_AI_CACHE_DIR'')),
       cs_engine = unwrap_or LayaEngine (Option.bind (get_env ''HEARTHDECK_AI_ENGINE'') ScanEngine_parse),
       cs_model = (if get_env ''HEARTHDECK_AI_MODEL'' = Some ''multilingual'' then Multilingual else English),
       cs_model_path = nonempty (get_env ''HEARTHDECK_AI_MODEL_PATH''),
       cs_dtype = unwrap_or ''float16'' (nonempty (get_env ''HEARTHDECK_AI_DTYPE'')),
       cs_timeout = unwrap_or default_scan_timeout
         (option_filter (\<lambda>n. 0 < n) (Option.bind (get_env ''HEARTHDECK_AI_TIMEOUT_SECS'') parse_u64)),
       cs_memory_max = unwrap_or ''50%'' (nonempty (get_env ''HEARTHDECK_AI_MEMORY_MAX''))\<rparr>)"

definition AI_BINARY :: string where "AI_BINARY = ''hearthdeck-ai''"

definition sibling_of :: "(string \<Rightarrow> bool) \<Rightarrow> string \<Rightarrow> string" where
  "sibling_of is_file daemon =
     (case path_parent daemon of
        None \<Rightarrow> AI_BINARY
      | Some directory \<Rightarrow>
          let candidate = path_join directory AI_BINARY in if is_file candidate then candidate else AI_BINARY)"

definition default_binary :: "(string \<Rightarrow> bool) \<Rightarrow> string option \<Rightarrow> string" where
  "default_binary is_file current_exe = unwrap_or AI_BINARY (map_option (sibling_of is_file) current_exe)"

definition CategorizerSettings_load ::
  "(string \<Rightarrow> bool) \<Rightarrow> string option \<Rightarrow> (string \<rightharpoonup> string) \<Rightarrow> string \<Rightarrow> categorizer_settings" where
  "CategorizerSettings_load is_file current_exe get_env database_path =
     CategorizerSettings_from_lookup database_path get_env (default_binary is_file current_exe)"

definition phase_file :: "categorizer_settings \<Rightarrow> string" where
  "phase_file s = path_join (cs_work_dir s) ''phase.json''"

definition library_file :: "categorizer_settings \<Rightarrow> string" where
  "library_file s = path_join (cs_work_dir s) ''library.json''"

definition report_file :: "categorizer_settings \<Rightarrow> string" where
  "report_file s = path_join (cs_work_dir s) ''report.json''"

section \<open>The child\<close>

definition runner_arguments :: "categorizer_settings \<Rightarrow> string list" where
  "runner_arguments s =
     [''scan'', ''--library'', library_file s, ''--output'', report_file s, ''--phase-file'', phase_file s,
      ''--engine'', ScanEngine_as_str (cs_engine s), ''--model'', ScanModel_as_str (cs_model s),
      ''--dtype'', cs_dtype s]
     @ (case cs_model_path s of None \<Rightarrow> [] | Some path \<Rightarrow> [''--model-path'', path])"

definition scope_arguments :: "categorizer_settings \<Rightarrow> string list" where
  "scope_arguments s =
     [''--user'', ''--scope'', ''--quiet'', ''--collect'', ''--property=CPUWeight=1'', ''--property=IOWeight=1'',
      ''--property=MemoryMax='' @ cs_memory_max s, ''--'', cs_binary s] @ runner_arguments s"

datatype removal = Removed | NotThere | RemovalFailed

datatype exit = Exited bool string | WaitFailed | TimedOut

text \<open>The host: the directory and file calls, the child, and the decoding of its report.\<close>

record 'w scan_host =
  h_create_dir_all :: "string \<Rightarrow> (unit, 'w) io"
  h_to_json :: "app_profile list \<Rightarrow> string option"
  h_write :: "string \<Rightarrow> string \<Rightarrow> (unit, 'w) io"
  h_remove_file :: "string \<Rightarrow> 'w \<Rightarrow> removal \<times> 'w"
  h_spawn :: "string \<Rightarrow> string list \<Rightarrow> (string \<times> string) list \<Rightarrow> (unit, 'w) io"
  h_wait :: "nat \<Rightarrow> 'w \<Rightarrow> exit \<times> 'w"
  h_kill :: "'w \<Rightarrow> 'w"
  h_read :: "string \<Rightarrow> (string, 'w) io"
  h_of_json :: "string \<Rightarrow> scan_report option"

definition remove_stale :: "('w, 'x) scan_host_scheme \<Rightarrow> string \<Rightarrow> (unit, 'w) io" where
  "remove_stale h stale w =
     (case h_remove_file h stale w of
        (RemovalFailed, w) \<Rightarrow> (Inl (''could not clear the previous '' @ stale), w)
      | (_, w) \<Rightarrow> (Inr (), w))"

definition await_child :: "('w, 'x) scan_host_scheme \<Rightarrow> categorizer_settings \<Rightarrow> (bool \<times> string, 'w) io" where
  "await_child h s w =
     (case h_wait h (cs_timeout s) w of
        (Exited ok status, w) \<Rightarrow> (Inr (ok, status), w)
      | (WaitFailed, w) \<Rightarrow> (Inl ''could not wait for the categorizer'', w)
      | (TimedOut, w) \<Rightarrow>
          (Inl (''the categorizer did not finish within '' @ show_nat (cs_timeout s) @ '' seconds''), h_kill h w))"

definition ProcessScanRunner_run ::
  "('w, 'x) scan_host_scheme \<Rightarrow> categorizer_settings \<Rightarrow> app_profile list \<Rightarrow> (scan_report, 'w) io" where
  "ProcessScanRunner_run h s apps =
     io_then (io_context (''could not create the categorization directory '' @ cs_work_dir s)
       (h_create_dir_all h (cs_work_dir s))) (\<lambda>_.
     io_then (io_context (''could not create the checkpoint cache '' @ cs_cache_dir s)
       (h_create_dir_all h (cs_cache_dir s))) (\<lambda>_.
     io_then (io_lift (case h_to_json h apps of
         None \<Rightarrow> Inl ''could not serialize the library for a scan'' | Some j \<Rightarrow> Inr j)) (\<lambda>library.
     io_then (io_context (''could not write the scan library '' @ library_file s)
       (h_write h (library_file s) library)) (\<lambda>_.
     io_then (remove_stale h (report_file s)) (\<lambda>_.
     io_then (remove_stale h (phase_file s)) (\<lambda>_.
     io_then (io_context (''could not run the categorizer binary '' @ cs_binary s)
       (h_spawn h ''systemd-run'' (scope_arguments s) [(''HF_HUB_CACHE'', cs_cache_dir s)])) (\<lambda>_.
     io_then (await_child h s) (\<lambda>(ok, status).
     io_then (io_ensure ok (''the categorizer exited with '' @ status)) (\<lambda>_.
     io_then (io_context (''the categorizer wrote no report to '' @ report_file s)
       (h_read h (report_file s))) (\<lambda>report.
     io_lift (case h_of_json h report of
       None \<Rightarrow> Inl ''the categorizer wrote an unreadable report'' | Some r \<Rightarrow> Inr r)))))))))))"

section \<open>The checkpoint on disk\<close>

datatype model_status = Absent | Downloaded nat string | External string

datatype file_kind = DirectoryKind | RegularKind | OtherFile

text \<open>
  An entry that could be read: its path, its kind where the kind could be read, and the length of
  its metadata where that could be read.
\<close>

record dir_entry =
  de_path :: string
  de_kind :: "file_kind option"
  de_len :: "nat option"

type_synonym read_dir = "string \<Rightarrow> dir_entry list option"

definition CHECKPOINT_WEIGHTS :: string where "CHECKPOINT_WEIGHTS = ''model.safetensors''"
definition CACHE_SCAN_DEPTH :: nat where "CACHE_SCAN_DEPTH = 6"

type_synonym cache_scan = "nat \<times> string option"

definition scan_file :: "dir_entry \<Rightarrow> cache_scan \<Rightarrow> cache_scan" where
  "scan_file e s =
     (case s of (bytes, checkpoint) \<Rightarrow>
        ((if de_kind e = Some RegularKind then bytes + unwrap_or 0 (de_len e) else bytes),
         (if file_name (de_path e) = Some CHECKPOINT_WEIGHTS \<and> checkpoint = None
          then Some (unwrap_or (de_path e) (path_parent (de_path e))) else checkpoint)))"

text \<open>
  The loop over the entries of a directory is only entered within the depth, so its own test of
  the depth never fires.
\<close>

function (sequential) scan_cache :: "read_dir \<Rightarrow> string \<Rightarrow> nat \<Rightarrow> cache_scan \<Rightarrow> cache_scan"
  and scan_entries :: "read_dir \<Rightarrow> dir_entry list \<Rightarrow> nat \<Rightarrow> cache_scan \<Rightarrow> cache_scan" where
  "scan_cache read_dir dir depth s =
     (if CACHE_SCAN_DEPTH < depth then s
      else case read_dir dir of None \<Rightarrow> s | Some entries \<Rightarrow> scan_entries read_dir entries depth s)"
| "scan_entries read_dir [] depth s = s"
| "scan_entries read_dir (e # es) depth s =
     (if CACHE_SCAN_DEPTH < depth then s
      else case de_kind e of
        None \<Rightarrow> scan_entries read_dir es depth s
      | Some DirectoryKind \<Rightarrow> scan_entries read_dir es depth (scan_cache read_dir (de_path e) (depth + 1) s)
      | Some _ \<Rightarrow> scan_entries read_dir es depth (scan_file e s))"
  by pat_completeness auto
termination
  by (relation "inv_image (less_than <*lex*> (less_than <*lex*> less_than))
        (\<lambda>x. case x of Inl (_, _, depth, _) \<Rightarrow> (Suc CACHE_SCAN_DEPTH - depth, 1, 0)
               | Inr (_, es, depth, _) \<Rightarrow> (Suc CACHE_SCAN_DEPTH - depth, 0, length es))")
     (auto simp: CACHE_SCAN_DEPTH_def)

definition compute_model_status :: "(string \<Rightarrow> bool) \<Rightarrow> read_dir \<Rightarrow> categorizer_settings \<Rightarrow> model_status" where
  "compute_model_status is_dir read_dir s =
     (case cs_model_path s of
        Some path \<Rightarrow> if is_dir path then External path else Absent
      | None \<Rightarrow>
          (case scan_cache read_dir (cs_cache_dir s) 0 (0, None) of
             (bytes, Some path) \<Rightarrow> Downloaded bytes path
           | (_, None) \<Rightarrow> Absent))"

section \<open>The rails of a report\<close>

definition rail_collections :: "scan_report \<Rightarrow> owned_collection list" where
  "rail_collections report =
     map (\<lambda>rail. let rule = owned_rule OWNER_LAYA (rail_id rail) in
            \<lparr>o_slug = rule, o_name = Some (rail_name rail), o_rule = rule\<rparr>)
       (filter (\<lambda>rail. rail_app_ids report Taxonomy_baseline (rail_id rail) \<noteq> [])
          (Taxonomy_rails Taxonomy_baseline))"

section \<open>The scan of the cache against a listing\<close>

text \<open>
  The reference: the files of the tree in the order a walk meets them, down to a depth; the size
  is the sum over the regular ones and the checkpoint is next to the first weights file.
\<close>

primrec cache_files :: "nat \<Rightarrow> read_dir \<Rightarrow> string \<Rightarrow> dir_entry list" where
  "cache_files 0 read_dir dir = []"
| "cache_files (Suc levels) read_dir dir =
     concat (map (\<lambda>e. case de_kind e of
         None \<Rightarrow> [] | Some DirectoryKind \<Rightarrow> cache_files levels read_dir (de_path e) | Some _ \<Rightarrow> [e])
       (unwrap_or [] (read_dir dir)))"

lemma scan_cache_folds:
  "scan_cache read_dir dir depth s = fold scan_file (cache_files (7 - depth) read_dir dir) s"
  "depth \<le> 6 \<Longrightarrow> scan_entries read_dir es depth s =
     fold scan_file (concat (map (\<lambda>e. case de_kind e of
         None \<Rightarrow> [] | Some DirectoryKind \<Rightarrow> cache_files (6 - depth) read_dir (de_path e) | Some _ \<Rightarrow> [e]) es)) s"
proof (induction read_dir dir depth s and read_dir es depth s rule: scan_cache_scan_entries.induct)
  case (1 read_dir dir depth s)
  show ?case
  proof (cases "6 < depth")
    case True
    then show ?thesis by (simp add: CACHE_SCAN_DEPTH_def)
  next
    case False
    then have "7 - depth = Suc (6 - depth)" by simp
    with False 1 show ?thesis
      by (cases "read_dir dir") (simp_all add: CACHE_SCAN_DEPTH_def unwrap_or_def)
  qed
next
  case (3 read_dir e es depth s)
  have "7 - Suc depth = 6 - depth" by simp
  with 3 show ?case
    by (auto simp: CACHE_SCAN_DEPTH_def split: option.splits file_kind.splits)
qed simp

lemma fold_scan_file:
  "fold scan_file es (bytes, checkpoint) =
     (bytes + sum_list (map (\<lambda>e. unwrap_or 0 (de_len e)) (filter (\<lambda>e. de_kind e = Some RegularKind) es)),
      (case checkpoint of Some p \<Rightarrow> Some p
       | None \<Rightarrow> map_option (\<lambda>e. unwrap_or (de_path e) (path_parent (de_path e)))
           (find (\<lambda>e. file_name (de_path e) = Some CHECKPOINT_WEIGHTS) es)))"
  by (induction es arbitrary: bytes checkpoint) (auto simp: scan_file_def split: option.splits)

text \<open>
  C35: the walk of the checkpoint cache ends on every file system, links in a circle included, and
  answers what the listing of its first seven levels says: the checkpoint is the directory of the
  first weights file met and its size is that of all regular files, and without one the model is
  absent.
\<close>

theorem model_status_of_listing:
  assumes "cs_model_path s = None"
  shows "compute_model_status is_dir read_dir s =
    (let files = cache_files 7 read_dir (cs_cache_dir s) in
     case find (\<lambda>e. file_name (de_path e) = Some CHECKPOINT_WEIGHTS) files of
       None \<Rightarrow> Absent
     | Some e \<Rightarrow> Downloaded
         (\<Sum>f\<leftarrow>filter (\<lambda>f. de_kind f = Some RegularKind) files. unwrap_or 0 (de_len f))
         (unwrap_or (de_path e) (path_parent (de_path e))))"
proof -
  have "scan_cache read_dir (cs_cache_dir s) 0 (0, None)
      = fold scan_file (cache_files 7 read_dir (cs_cache_dir s)) (0, None)"
    by (simp only: scan_cache_folds(1) diff_zero)
  then show ?thesis
    using assms by (simp add: compute_model_status_def fold_scan_file Let_def del: scan_cache.simps
        split: option.splits)
qed

definition demo_cat_settings :: categorizer_settings where
  "demo_cat_settings = CategorizerSettings_from_lookup ''/var/lib/h.db'' (\<lambda>_. None) ''ai''"

text \<open>A cache whose directory contains itself.\<close>

definition demo_dir :: read_dir where
  "demo_dir d = (if d = ''/var/lib/models/hub'' then
       Some [\<lparr>de_path = ''/var/lib/models/hub'', de_kind = Some DirectoryKind, de_len = None\<rparr>,
             \<lparr>de_path = ''/var/lib/models/hub/model.safetensors'', de_kind = Some RegularKind, de_len = Some 3\<rparr>]
     else None)"

theorem model_status_of_listing_witness:
  "compute_model_status (\<lambda>_. False) demo_dir demo_cat_settings = Downloaded 21 ''/var/lib/models/hub''"
proof -
  have m: "cs_model_path demo_cat_settings = None" by code_simp
  have "(let files = cache_files 7 demo_dir (cs_cache_dir demo_cat_settings) in
     case find (\<lambda>e. file_name (de_path e) = Some CHECKPOINT_WEIGHTS) files of
       None \<Rightarrow> Absent
     | Some e \<Rightarrow> Downloaded
         (\<Sum>f\<leftarrow>filter (\<lambda>f. de_kind f = Some RegularKind) files. unwrap_or 0 (de_len f))
         (unwrap_or (de_path e) (path_parent (de_path e)))) = Downloaded 21 ''/var/lib/models/hub''"
    by code_simp
  then show ?thesis using model_status_of_listing[OF m, of "\<lambda>_. False" demo_dir] by simp
qed

end
