(* ===== verification/Daemon_Categorizer.thy ===== *)
theory Daemon_Categorizer
  imports Categorizer_Settings Daemon_Settings
begin

text \<open>
  The categorization service, the second half of \<^verbatim>\<open>hearthdeck-daemon/src/categorizer.rs\<close>, and
  its control, \<^verbatim>\<open>categorizer/control.rs\<close>: one slot for a scan, a download or a detection, the
  stored report, the rails and verdicts a finished job writes, and the user's switch. What a run
  of the model answers, the hash of a profile and storage faults are arguments of each call.
  Jobs are tasks; they are given both as the whole functions of the code and in the steps between
  their awaits, which other calls interleave with.
\<close>

section \<open>The slot\<close>

record scan_state =
  st_running :: bool
  st_downloading :: bool
  st_discard :: bool
  st_last_error :: "string option"
  st_last_completed_at :: "string option"

definition ScanState_default :: scan_state where
  "ScanState_default = \<lparr>st_running = False, st_downloading = False, st_discard = False,
     st_last_error = None, st_last_completed_at = None\<rparr>"

definition claim :: "bool \<Rightarrow> scan_state \<Rightarrow> bool \<times> scan_state" where
  "claim downloading st =
     (if st_running st then (False, st)
      else (True, st\<lparr>st_running := True, st_downloading := downloading, st_discard := False,
                     st_last_error := None\<rparr>))"

definition release :: "string \<Rightarrow> string option \<Rightarrow> bool \<Rightarrow> scan_state \<Rightarrow> bool \<times> scan_state" where
  "release now err completes_a_run st =
     (let st = st\<lparr>st_running := False\<rparr>;
          st = (case err of
                  Some e \<Rightarrow> st\<lparr>st_last_error := Some e\<rparr>
                | None \<Rightarrow> if completes_a_run then st\<lparr>st_last_completed_at := Some now\<rparr> else st)
      in (st_discard st, st))"

definition discard_running :: "scan_state \<Rightarrow> scan_state" where
  "discard_running st = (if st_running st then st\<lparr>st_discard := True\<rparr> else st)"

section \<open>The service\<close>

record report_row =
  rr_generated_at :: nat
  rr_categorizer :: string
  rr_payload :: scan_report
  rr_updated_at :: string

record cat_service =
  cz_state :: scan_state
  cz_catalog :: catalog_db
  cz_report :: "report_row option"
  cz_collections :: collections_db
  cz_settings :: settings_db
  cz_events :: "server_event list"

text \<open>
  What a step of a job meets: the clock, the rounding of floating-point numbers, the answer of the
  model's run, the hash of a profile and the faults of the stores.
\<close>

record job_env =
  je_now :: nat
  je_stamp :: string
  je_rnd :: "rat \<Rightarrow> rat"
  je_outcome :: "string + scan_report"
  je_hash :: "app_profile \<Rightarrow> string"
  je_list_fault :: "string option"
  je_current_fault :: "string option"
  je_save_fault :: "string option"
  je_rails_fault :: "string option"
  je_traits_fault :: "string option"
  je_prune_fault :: "string option"

definition CategorizationStore_save :: "job_env \<Rightarrow> scan_report \<Rightarrow> cat_service \<Rightarrow> (string + unit) \<times> cat_service" where
  "CategorizationStore_save env report sv =
     (case je_save_fault env of
        Some err \<Rightarrow> (Inl err, sv)
      | None \<Rightarrow> (Inr (), sv\<lparr>cz_report := Some \<lparr>rr_generated_at = sr_generated_at report,
          rr_categorizer = sr_categorizer report, rr_payload = report, rr_updated_at = je_stamp env\<rparr>\<rparr>))"

definition CategorizationStore_latest :: "string option \<Rightarrow> cat_service \<Rightarrow> string + scan_report option" where
  "CategorizationStore_latest fault sv =
     (case fault of Some err \<Rightarrow> Inl err | None \<Rightarrow> Inr (map_option rr_payload (cz_report sv)))"

definition announce :: "categorizer_settings \<Rightarrow> nat \<Rightarrow> nat \<Rightarrow> cat_service \<Rightarrow> cat_service" where
  "announce s app_count categories sv =
     sv\<lparr>cz_events := cz_events sv @ [CategorizationChanged (ScanEngine_as_str (cs_engine s)) app_count categories]\<rparr>"

definition release_slot :: "job_env \<Rightarrow> string option \<Rightarrow> bool \<Rightarrow> cat_service \<Rightarrow> bool \<times> cat_service" where
  "release_slot env err completes_a_run sv =
     (case release (je_stamp env) err completes_a_run (cz_state sv) of
        (discarded, st) \<Rightarrow> (discarded, sv\<lparr>cz_state := st\<rparr>))"

definition profile_from_item :: "catalog_item \<Rightarrow> app_profile" where
  "profile_from_item item =
     (let profile = AppProfile_from_metadata (ci_id item) (ci_title item) (Some (AppKind_parse (ci_kind item)))
            (ci_metadata item)
      in case ci_launch_id item of None \<Rightarrow> profile | Some launch_id \<Rightarrow> profile\<lparr>ap_exec := Some launch_id\<rparr>)"

definition application_hashes :: "job_env \<Rightarrow> catalog_item list \<Rightarrow> (string \<rightharpoonup> string)" where
  "application_hashes env items =
     map_of (rev (map (\<lambda>item. (ci_id item, je_hash env (profile_from_item item)))
       (filter (\<lambda>item. ci_kind item = APPLICATION) items)))"

definition catalog_list :: "job_env \<Rightarrow> cat_service \<Rightarrow> string + catalog_item list" where
  "catalog_list env sv =
     (case je_list_fault env of Some err \<Rightarrow> Inl err | None \<Rightarrow> Inr (CatalogStore_list (cz_catalog sv)))"

text \<open>The scan itself runs the rules in process over the shipped taxonomy.\<close>

definition scan_error_text :: "scan_error \<Rightarrow> string" where
  "scan_error_text e = (case e of NothingDecided failed first \<Rightarrow>
     ''none of the '' @ show_nat failed @ '' applications could be decided; the first error was: '' @ first)"

definition scan_items :: "job_env \<Rightarrow> catalog_item list \<Rightarrow> string + scan_report" where
  "scan_items env items =
     map_sum scan_error_text id
       (scan (je_rnd env) ''heuristic'' (\<lambda>app t. Inr (heuristic_categorize (je_rnd env) app t)) Taxonomy_baseline
          ScanOptions_default (je_now env) (map profile_from_item items))"

definition save_scan :: "job_env \<Rightarrow> catalog_item list \<Rightarrow> cat_service \<Rightarrow> (string + scan_report) \<times> cat_service" where
  "save_scan env items sv =
     (case scan_items env items of
        Inl err \<Rightarrow> (Inl err, sv)
      | Inr report \<Rightarrow>
          (case CategorizationStore_save env report sv of
             (Inl err, sv) \<Rightarrow> (Inl err, sv)
           | (Inr _, sv) \<Rightarrow> (Inr report, sv)))"

definition run_scan :: "job_env \<Rightarrow> cat_service \<Rightarrow> (string + scan_report) \<times> cat_service" where
  "run_scan env sv =
     (case catalog_list env sv of
        Inl err \<Rightarrow> (Inl err, sv)
      | Inr items \<Rightarrow> save_scan env items sv)"

definition write_rail_collections :: "job_env \<Rightarrow> scan_report \<Rightarrow> cat_service \<Rightarrow> cat_service" where
  "write_rail_collections env report sv =
     (case je_rails_fault env of
        Some _ \<Rightarrow> sv
      | None \<Rightarrow> sv\<lparr>cz_collections :=
          fst (replace_owned (je_now env) OWNER_LAYA (rail_collections report) (cz_collections sv))\<rparr>)"

definition publish_report :: "categorizer_settings \<Rightarrow> job_env \<Rightarrow> scan_report \<Rightarrow> cat_service \<Rightarrow> cat_service" where
  "publish_report s env report sv =
     announce s (sr_app_count report) (length (ScanReport_recommended_categories report))
       (write_rail_collections env report sv)"

definition outcome_error :: "string + 'a \<Rightarrow> string option" where
  "outcome_error r = (case r of Inl e \<Rightarrow> Some e | Inr _ \<Rightarrow> None)"

definition run_and_record :: "categorizer_settings \<Rightarrow> job_env \<Rightarrow> cat_service \<Rightarrow> cat_service" where
  "run_and_record s env sv =
     (case run_scan env sv of (outcome, sv) \<Rightarrow>
      case release_slot env (outcome_error outcome) True sv of (discarded, sv) \<Rightarrow>
      case outcome of
        Inl _ \<Rightarrow> announce s 0 0 sv
      | Inr report \<Rightarrow> if discarded then announce s 0 0 sv else publish_report s env report sv)"

definition download :: "categorizer_settings \<Rightarrow> job_env \<Rightarrow> cat_service \<Rightarrow> cat_service" where
  "download s env sv =
     announce s 0 0 (snd (release_slot env (outcome_error (je_outcome env)) False sv))"

definition TRAITS_SOURCE :: string where "TRAITS_SOURCE = ''categorization''"

definition verdicts_of :: "scan_report \<Rightarrow> (string \<rightharpoonup> string) \<Rightarrow> form_factor_verdict list" where
  "verdicts_of report hashes =
     List.map_filter (\<lambda>a. case (at_couch (ac_traits a), hashes (ac_app_id a)) of
         (Some probability, Some h) \<Rightarrow> Some \<lparr>fv_item_id = ac_app_id a, fv_value = form_factor_for probability,
            fv_confidence = probability, fv_input_hash = h\<rparr>
       | _ \<Rightarrow> None) (sr_assignments report)"

definition record_form_factors ::
  "job_env \<Rightarrow> scan_report \<Rightarrow> (string \<rightharpoonup> string) \<Rightarrow> cat_service \<Rightarrow> (string + unit) \<times> cat_service" where
  "record_form_factors env report hashes sv =
     (let verdicts = verdicts_of report hashes in
      if verdicts = [] then (Inr (), sv)
      else case TraitStore_write_form_factors (je_traits_fault env) (je_stamp env)
             (stamp (sr_categorizer report)) verdicts (cz_catalog sv) of
        (Inl err, db) \<Rightarrow> (Inl err, sv\<lparr>cz_catalog := db\<rparr>)
      | (Inr _, db) \<Rightarrow>
          (case je_prune_fault env of
             Some err \<Rightarrow> (Inl err, sv\<lparr>cz_catalog := db\<rparr>)
           | None \<Rightarrow> (Inr (), sv\<lparr>cz_catalog := snd (TraitStore_prune db),
               cz_events := cz_events sv @ [LibraryChanged TRAITS_SOURCE (length verdicts)]\<rparr>)))"

datatype trait_run = Classified nat | UpToDate | Busy

text \<open>Whether a detection has anything to do, and the applications it would ask about.\<close>

definition classify_start ::
  "categorizer_settings \<Rightarrow> model_status \<Rightarrow> job_env \<Rightarrow> cat_service
     \<Rightarrow> (string + trait_run) + app_profile list \<times> (string \<rightharpoonup> string)" where
  "classify_start s model env sv =
     (if cs_engine s \<noteq> LayaEngine \<or> model = Absent then Inl (Inr UpToDate)
      else case catalog_list env sv of
        Inl err \<Rightarrow> Inl (Inl err)
      | Inr items \<Rightarrow>
          (case je_current_fault env of
             Some err \<Rightarrow> Inl (Inl err)
           | None \<Rightarrow>
               let current = TraitStore_current (stamp (ScanEngine_as_str (cs_engine s))) (cz_catalog sv);
                   hashes = application_hashes env items;
                   apps = map profile_from_item (filter (\<lambda>item. case hashes (ci_id item) of
                       None \<Rightarrow> False | Some h \<Rightarrow> current (ci_id item) \<noteq> Some h) items)
               in if apps = [] then Inl (Inr UpToDate) else Inr (apps, hashes)))"

definition classify_pending ::
  "categorizer_settings \<Rightarrow> model_status \<Rightarrow> job_env \<Rightarrow> cat_service \<Rightarrow> (string + trait_run) \<times> cat_service" where
  "classify_pending s model env sv =
     (case classify_start s model env sv of
        Inl r \<Rightarrow> (r, sv)
      | Inr (apps, hashes) \<Rightarrow>
          (case claim False (cz_state sv) of
             (False, _) \<Rightarrow> (Inr Busy, sv)
           | (True, st) \<Rightarrow>
               (case release_slot env (outcome_error (je_outcome env)) False (sv\<lparr>cz_state := st\<rparr>) of
                  (discarded, sv) \<Rightarrow>
                    let sv = announce s (length apps) 0 sv in
                    (case je_outcome env of
                       Inl err \<Rightarrow> (Inl err, sv)
                     | Inr report \<Rightarrow>
                         if discarded then (Inr (Classified 0), sv)
                         else case record_form_factors env report hashes sv of
                           (Inl err, sv) \<Rightarrow> (Inl err, sv)
                         | (Inr _, sv) \<Rightarrow> (Inr (Classified (length apps)), sv)))))"

definition clear_traits :: "string option \<Rightarrow> cat_service \<Rightarrow> (string + nat) \<times> cat_service" where
  "clear_traits fault sv =
     (case fault of
        Some err \<Rightarrow> (Inl err, sv)
      | None \<Rightarrow>
          (case TraitStore_clear (cz_catalog sv) of (removed, db) \<Rightarrow>
             (Inr removed, sv\<lparr>cz_catalog := db,
                cz_events := (if 0 < removed then cz_events sv @ [LibraryChanged TRAITS_SOURCE 0]
                              else cz_events sv)\<rparr>)))"

section \<open>Requests and status\<close>

datatype scan_request = Started | AlreadyRunning

datatype categorization_phase = IdlePhase | DownloadingPhase | LoadingPhase | ScanningPhase

record phase_report =
  pf_phase :: string
  pf_completed :: "nat option"
  pf_total :: "nat option"

record categorization_status =
  cst_running :: bool
  cst_phase :: categorization_phase
  cst_completed :: nat
  cst_total :: nat
  cst_model :: model_status
  cst_last_error :: "string option"
  cst_last_completed_at :: "string option"

definition read_phase_file :: "(string \<rightharpoonup> string) \<Rightarrow> (string \<Rightarrow> phase_report option) \<Rightarrow> string \<Rightarrow> phase_report option" where
  "read_phase_file read_file of_json path = Option.bind (read_file path) of_json"

definition phase_of :: "phase_report option \<Rightarrow> bool \<Rightarrow> categorization_phase \<times> nat \<times> nat" where
  "phase_of phase downloading =
     (case phase of
        Some p \<Rightarrow>
          if pf_phase p = ''scanning''
          then (ScanningPhase, unwrap_or 0 (pf_completed p), unwrap_or 0 (pf_total p))
          else if downloading then (DownloadingPhase, 0, 0) else (LoadingPhase, 0, 0)
      | None \<Rightarrow> if downloading then (DownloadingPhase, 0, 0) else (LoadingPhase, 0, 0))"

definition service_status :: "model_status \<Rightarrow> phase_report option \<Rightarrow> cat_service \<Rightarrow> categorization_status" where
  "service_status model phase sv =
     (let st = cz_state sv;
          (ph, completed, total) = (if st_running st then phase_of phase (st_downloading st) else (IdlePhase, 0, 0))
      in \<lparr>cst_running = st_running st, cst_phase = ph, cst_completed = completed, cst_total = total,
          cst_model = model, cst_last_error = st_last_error st, cst_last_completed_at = st_last_completed_at st\<rparr>)"

section \<open>The control\<close>

datatype control_error = Unavailable | Disabled | BusyError | ModelAbsent | ControlStorage string

record categorization_snapshot =
  sn_enabled :: bool
  sn_status :: categorization_status
  sn_report :: "scan_report option"

text \<open>
  The service is absent on a host that has none (\<open>available\<close>); the settings and the collections
  are there either way.
\<close>

definition Control_snapshot ::
  "bool \<Rightarrow> model_status \<Rightarrow> phase_report option \<Rightarrow> string option \<Rightarrow> string option \<Rightarrow> cat_service
     \<Rightarrow> control_error + categorization_snapshot" where
  "Control_snapshot available model phase settings_fault report_fault sv =
     (if \<not> available then Inl Unavailable
      else case SettingsRepository_get settings_fault (cz_settings sv) of
        Inl err \<Rightarrow> Inl (ControlStorage err)
      | Inr u \<Rightarrow>
          (case CategorizationStore_latest report_fault sv of
             Inl err \<Rightarrow> Inl (ControlStorage err)
           | Inr report \<Rightarrow> Inr \<lparr>sn_enabled = categorization_enabled u,
               sn_status = service_status model phase sv, sn_report = report\<rparr>))"

definition enabled_service :: "bool \<Rightarrow> string option \<Rightarrow> cat_service \<Rightarrow> control_error option" where
  "enabled_service available fault sv =
     (if \<not> available then Some Unavailable
      else case SettingsRepository_get fault (cz_settings sv) of
        Inl err \<Rightarrow> Some (ControlStorage err)
      | Inr u \<Rightarrow> if categorization_enabled u then None else Some Disabled)"

definition Control_remove_collections :: "bool \<Rightarrow> string option \<Rightarrow> cat_service \<Rightarrow> cat_service" where
  "Control_remove_collections available rails_fault sv =
     (let sv = (if available then sv\<lparr>cz_state := discard_running (cz_state sv)\<rparr> else sv) in
      case rails_fault of
        Some _ \<Rightarrow> sv
      | None \<Rightarrow> sv\<lparr>cz_collections := fst (remove_owned OWNER_LAYA (cz_collections sv))\<rparr>)"

record control_faults =
  cf_set :: "string option"
  cf_get :: "string option"
  cf_rails :: "string option"
  cf_traits :: "string option"

definition Control_disable ::
  "bool \<Rightarrow> control_faults \<Rightarrow> string \<Rightarrow> cat_service \<Rightarrow> (control_error + unit) \<times> cat_service" where
  "Control_disable available faults now sv =
     (case set_categorization_enabled (cf_set faults) (cf_get faults) now False (cz_settings sv) of
        (Inl err, db) \<Rightarrow> (Inl (ControlStorage err), sv\<lparr>cz_settings := db\<rparr>)
      | (Inr _, db) \<Rightarrow>
          let sv = Control_remove_collections available (cf_rails faults) (sv\<lparr>cz_settings := db\<rparr>);
              sv = (if available then snd (clear_traits (cf_traits faults) sv) else sv)
          in (Inr (), sv))"

section \<open>Jobs in steps\<close>

text \<open>
  A job between two of its awaits. \<open>PublishChecked\<close> and \<open>DetectChecked\<close> are requests that have
  read the user's switch and not taken the slot yet; a job from \<open>Downloading\<close> to \<open>Classifying\<close>
  holds the slot; \<open>ScanReleased\<close> and \<open>ClassifyReleased\<close> have freed it and write next.
\<close>

datatype cat_job =
    PublishChecked
  | DetectChecked
  | Downloading
  | ScanRunning
  | ScanListed "string + catalog_item list"
  | ScanSaved "string + scan_report"
  | ScanReleased scan_report
  | Classifying nat "string \<rightharpoonup> string"
  | ClassifyReleased scan_report "string \<rightharpoonup> string"
  | JobDone

definition start_job :: "bool \<Rightarrow> cat_job \<Rightarrow> cat_service \<Rightarrow> scan_request \<times> cat_job \<times> cat_service" where
  "start_job downloading job sv =
     (case claim downloading (cz_state sv) of
        (False, _) \<Rightarrow> (AlreadyRunning, JobDone, sv)
      | (True, st) \<Rightarrow> (Started, job, sv\<lparr>cz_state := st\<rparr>))"

definition request_scan :: "cat_service \<Rightarrow> scan_request \<times> cat_job \<times> cat_service" where
  "request_scan sv = start_job False ScanRunning sv"

definition request_download :: "model_status \<Rightarrow> cat_service \<Rightarrow> scan_request \<times> cat_job \<times> cat_service" where
  "request_download model sv =
     (if model \<noteq> Absent then (Started, JobDone, sv) else start_job True Downloading sv)"

definition Control_enable ::
  "bool \<Rightarrow> model_status \<Rightarrow> control_faults \<Rightarrow> string \<Rightarrow> cat_service
     \<Rightarrow> (control_error + scan_request) \<times> cat_job \<times> cat_service" where
  "Control_enable available model faults now sv =
     (if \<not> available then (Inl Unavailable, JobDone, sv)
      else case set_categorization_enabled (cf_set faults) (cf_get faults) now True (cz_settings sv) of
        (Inl err, db) \<Rightarrow> (Inl (ControlStorage err), JobDone, sv\<lparr>cz_settings := db\<rparr>)
      | (Inr _, db) \<Rightarrow>
          (case request_download model (sv\<lparr>cz_settings := db\<rparr>) of (r, job, sv) \<Rightarrow> (Inr r, job, sv)))"

definition Control_detect_form_factors ::
  "bool \<Rightarrow> model_status \<Rightarrow> string option \<Rightarrow> cat_service \<Rightarrow> (control_error + unit) \<times> cat_job" where
  "Control_detect_form_factors available model fault sv =
     (case enabled_service available fault sv of
        Some err \<Rightarrow> (Inl err, JobDone)
      | None \<Rightarrow>
          if st_running (cz_state sv) then (Inl BusyError, JobDone)
          else if model = Absent then (Inl ModelAbsent, JobDone)
          else (Inr (), DetectChecked))"

definition Control_publish_collections ::
  "bool \<Rightarrow> string option \<Rightarrow> cat_service \<Rightarrow> (control_error + unit) \<times> cat_job" where
  "Control_publish_collections available fault sv =
     (case enabled_service available fault sv of
        Some err \<Rightarrow> (Inl err, JobDone)
      | None \<Rightarrow> (Inr (), PublishChecked))"

fun job_step ::
  "categorizer_settings \<Rightarrow> model_status \<Rightarrow> job_env \<Rightarrow> cat_job \<Rightarrow> cat_service \<Rightarrow> cat_job \<times> cat_service" where
  "job_step s model env PublishChecked sv = snd (request_scan sv)"
| "job_step s model env DetectChecked sv =
     (case classify_start s model env sv of
        Inl _ \<Rightarrow> (JobDone, sv)
      | Inr (apps, hashes) \<Rightarrow> snd (start_job False (Classifying (length apps) hashes) sv))"
| "job_step s model env Downloading sv = (JobDone, download s env sv)"
| "job_step s model env ScanRunning sv = (ScanListed (catalog_list env sv), sv)"
| "job_step s model env (ScanListed found) sv =
     (case found of
        Inl err \<Rightarrow> (ScanSaved (Inl err), sv)
      | Inr items \<Rightarrow> (case save_scan env items sv of (outcome, sv) \<Rightarrow> (ScanSaved outcome, sv)))"
| "job_step s model env (ScanSaved outcome) sv =
     (case release_slot env (outcome_error outcome) True sv of (discarded, sv) \<Rightarrow>
      case outcome of
        Inl _ \<Rightarrow> (JobDone, announce s 0 0 sv)
      | Inr report \<Rightarrow> if discarded then (JobDone, announce s 0 0 sv) else (ScanReleased report, sv))"
| "job_step s model env (ScanReleased report) sv = (JobDone, publish_report s env report sv)"
| "job_step s model env (Classifying count hashes) sv =
     (case release_slot env (outcome_error (je_outcome env)) False sv of (discarded, sv) \<Rightarrow>
      let sv = announce s count 0 sv in
      case je_outcome env of
        Inl _ \<Rightarrow> (JobDone, sv)
      | Inr report \<Rightarrow> if discarded then (JobDone, sv) else (ClassifyReleased report hashes, sv))"
| "job_step s model env (ClassifyReleased report hashes) sv =
     (JobDone, snd (record_form_factors env report hashes sv))"
| "job_step s model env JobDone sv = (JobDone, sv)"

text \<open>A job whose steps nothing interleaves with is the function of the code.\<close>

fun run_job ::
  "nat \<Rightarrow> categorizer_settings \<Rightarrow> model_status \<Rightarrow> job_env \<Rightarrow> cat_job \<Rightarrow> cat_service \<Rightarrow> cat_job \<times> cat_service" where
  "run_job 0 s model env job sv = (job, sv)"
| "run_job (Suc n) s model env job sv = (case job_step s model env job sv of (job, sv) \<Rightarrow> run_job n s model env job sv)"

lemma run_and_record_in_steps:
  "run_job 4 s model env ScanRunning sv = (JobDone, run_and_record s env sv)"
  by (auto simp: eval_nat_numeral run_and_record_def run_scan_def save_scan_def release_slot_def
      split: sum.splits prod.splits)

lemma classify_pending_in_steps:
  assumes "classify_start s model env sv = Inr (apps, hashes)"
  shows "run_job 3 s model env DetectChecked sv = (JobDone, snd (classify_pending s model env sv))"
proof -
  obtain b st where claim: "claim False (cz_state sv) = (b, st)" by fastforce
  obtain d sv' where rel: "release_slot env (outcome_error (je_outcome env)) False (sv\<lparr>cz_state := st\<rparr>) = (d, sv')"
    by fastforce
  show ?thesis
    using assms by (cases b)
      (simp_all add: eval_nat_numeral classify_pending_def start_job_def claim rel Let_def split: sum.splits prod.splits)
qed

end
