(* ===== verification/Categorizer_Jobs.thy ===== *)
theory Categorizer_Jobs
  imports Daemon_Categorizer
begin

text \<open>
  The jobs of the categorization service interleaved with the calls of its control: at most one
  job holds the slot, every job gives it back, and what a job decides is thrown away when the
  feature is turned off while it runs. Turning the feature off is one step: the calls it makes
  follow each other without waiting on a job.
\<close>

section \<open>Interleaved runs\<close>

datatype cat_event =
    Publish "string option"
  | Detect model_status "string option"
  | Enable model_status control_faults string
  | Disable control_faults string
  | RemoveRails "string option"
  | StepJob nat model_status job_env

fun cat_step ::
  "categorizer_settings \<Rightarrow> cat_event \<Rightarrow> cat_service \<times> cat_job list \<Rightarrow> cat_service \<times> cat_job list" where
  "cat_step s (Publish fault) (sv, jobs) = (sv, jobs @ [snd (Control_publish_collections True fault sv)])"
| "cat_step s (Detect model fault) (sv, jobs) =
     (sv, jobs @ [snd (Control_detect_form_factors True model fault sv)])"
| "cat_step s (Enable model faults now) (sv, jobs) =
     (case Control_enable True model faults now sv of (_, job, sv) \<Rightarrow> (sv, jobs @ [job]))"
| "cat_step s (Disable faults now) (sv, jobs) = (snd (Control_disable True faults now sv), jobs)"
| "cat_step s (RemoveRails fault) (sv, jobs) = (Control_remove_collections True fault sv, jobs)"
| "cat_step s (StepJob i model env) (sv, jobs) =
     (if i < length jobs
      then case job_step s model env (jobs ! i) sv of (job, sv) \<Rightarrow> (sv, jobs[i := job])
      else (sv, jobs))"

fun holds_slot :: "cat_job \<Rightarrow> bool" where
  "holds_slot Downloading = True"
| "holds_slot ScanRunning = True"
| "holds_slot (ScanListed _) = True"
| "holds_slot (ScanSaved _) = True"
| "holds_slot (Classifying _ _) = True"
| "holds_slot _ = False"

abbreviation busy :: "cat_service \<Rightarrow> bool" where "busy sv \<equiv> st_running (cz_state sv)"

abbreviation discards :: "cat_service \<Rightarrow> bool" where "discards sv \<equiv> st_discard (cz_state sv)"

definition holders :: "cat_job list \<Rightarrow> nat" where
  "holders jobs = length (filter holds_slot jobs)"

definition slot_ok :: "cat_service \<times> cat_job list \<Rightarrow> bool" where
  "slot_ok s \<longleftrightarrow> holders (snd s) = of_bool (busy (fst s))"

section \<open>What the pieces do to the slot\<close>

lemma announce_fields [simp]:
  "cz_state (announce s n m sv) = cz_state sv" "cz_catalog (announce s n m sv) = cz_catalog sv"
  "cz_collections (announce s n m sv) = cz_collections sv" "cz_settings (announce s n m sv) = cz_settings sv"
  by (simp_all add: announce_def)

lemma release_slot_state [simp]:
  "busy (snd (release_slot env err b sv)) = False" "discards (snd (release_slot env err b sv)) = discards sv"
  "fst (release_slot env err b sv) = discards sv"
  by (simp_all add: release_slot_def release_def Let_def split: prod.split option.split)

lemma release_slot_fields [simp]:
  "cz_catalog (snd (release_slot env err b sv)) = cz_catalog sv"
  "cz_collections (snd (release_slot env err b sv)) = cz_collections sv"
  "cz_settings (snd (release_slot env err b sv)) = cz_settings sv"
  by (simp_all add: release_slot_def split: prod.split)

lemma release_slotD:
  assumes "release_slot env err b sv = (d, sv')"
  shows "d = discards sv" "\<not> busy sv'" "discards sv' = discards sv" "cz_catalog sv' = cz_catalog sv"
    "cz_collections sv' = cz_collections sv" "cz_settings sv' = cz_settings sv"
  using assms release_slot_state[of env err b sv] release_slot_fields[of env err b sv] by simp_all

lemma save_scan_fields:
  assumes "save_scan env items sv = (r, sv')"
  shows "cz_state sv' = cz_state sv" "cz_catalog sv' = cz_catalog sv" "cz_collections sv' = cz_collections sv"
    "cz_settings sv' = cz_settings sv"
  using assms by (auto simp: save_scan_def CategorizationStore_save_def split: sum.splits option.splits)

lemma publish_report_fields [simp]:
  "cz_state (publish_report s env r sv) = cz_state sv" "cz_settings (publish_report s env r sv) = cz_settings sv"
  by (simp_all add: publish_report_def write_rail_collections_def split: option.split)

lemma record_form_factors_fields [simp]:
  "cz_state (snd (record_form_factors env r h sv)) = cz_state sv"
  "cz_settings (snd (record_form_factors env r h sv)) = cz_settings sv"
  by (auto simp: record_form_factors_def Let_def split: prod.split sum.split option.split)

lemma start_job_cases:
  obtains "busy sv" "start_job d job sv = (AlreadyRunning, JobDone, sv)"
  | st where "\<not> busy sv" "st_running st" "\<not> st_discard st" "start_job d job sv = (Started, job, sv\<lparr>cz_state := st\<rparr>)"
proof (cases "busy sv")
  case True
  then show thesis using that(1) by (simp add: start_job_def claim_def)
next
  case False
  then show thesis
    by (intro that(2)[of "snd (claim d (cz_state sv))"]) (simp_all add: start_job_def claim_def)
qed

lemma job_step_slot:
  assumes "job_step s model env job sv = (job', sv')" and "holds_slot job \<Longrightarrow> busy sv"
  shows "of_bool (busy sv') + of_bool (holds_slot job) = of_bool (busy sv) + (of_bool (holds_slot job') :: nat)"
  using assms
proof (induction s model env job sv rule: job_step.induct)
  case (1 s model env sv)
  then show ?case
    by (cases rule: start_job_cases[of sv False ScanRunning]) (auto simp: request_scan_def)
next
  case (2 s model env sv)
  show ?case
  proof (cases "classify_start s model env sv")
    case (Inl r)
    then show ?thesis using 2 by auto
  next
    case (Inr p)
    then show ?thesis
      using 2 by (cases rule: start_job_cases[of sv False "Classifying (length (fst p)) (snd p)"])
        (auto split: prod.splits)
  qed
next
  case (3 s model env sv)
  then show ?case by (auto simp: download_def)
next
  case (5 s model env found sv)
  then show ?case by (auto split: sum.splits prod.splits dest: save_scan_fields)
next
  case (6 s model env outcome sv)
  then show ?case by (auto split: sum.splits prod.splits if_splits dest!: release_slotD(2))
next
  case (8 s model env count hashes sv)
  then show ?case by (auto simp: Let_def split: sum.splits prod.splits if_splits dest!: release_slotD(2))
qed auto

lemma holders_update:
  assumes "i < length jobs"
  shows "holders (jobs[i := job]) + of_bool (holds_slot (jobs ! i)) = holders jobs + of_bool (holds_slot job)"
proof -
  have "holders jobs = holders (take i jobs @ jobs ! i # drop (Suc i) jobs)"
    using assms by (simp add: id_take_nth_drop[symmetric])
  then show ?thesis using assms by (simp add: holders_def upd_conv_take_nth_drop)
qed

lemma holders_zero: "holders jobs = 0 \<longleftrightarrow> (\<forall>job\<in>set jobs. \<not> holds_slot job)"
  by (auto simp: holders_def filter_empty_conv)

lemma held_means_busy: "slot_ok (sv, jobs) \<Longrightarrow> job \<in> set jobs \<Longrightarrow> holds_slot job \<Longrightarrow> busy sv"
  using holders_zero[of jobs] by (auto simp: slot_ok_def)

lemma remove_collections_state [simp]:
  "busy (Control_remove_collections True fault sv) = busy sv"
  "cz_settings (Control_remove_collections True fault sv) = cz_settings sv"
  "cz_catalog (Control_remove_collections True fault sv) = cz_catalog sv"
  by (simp_all add: Control_remove_collections_def discard_running_def Let_def split: option.split)

lemma clear_traits_fields [simp]:
  "cz_state (snd (clear_traits fault sv)) = cz_state sv" "cz_settings (snd (clear_traits fault sv)) = cz_settings sv"
  "cz_collections (snd (clear_traits fault sv)) = cz_collections sv"
  by (simp_all add: clear_traits_def split: option.split prod.split)

lemma disable_busy [simp]: "busy (snd (Control_disable True faults now sv)) = busy sv"
  by (simp add: Control_disable_def Let_def split: prod.split sum.split)

lemma request_job_unheld:
  "\<not> holds_slot (snd (Control_publish_collections b fault sv))"
  "\<not> holds_slot (snd (Control_detect_form_factors b model fault sv))"
  by (simp_all add: Control_publish_collections_def Control_detect_form_factors_def split: option.split)

lemma slot_ok_step: "slot_ok x \<Longrightarrow> slot_ok (cat_step s e x)"
proof (induction s e x rule: cat_step.induct)
  case (3 s model faults now sv jobs)
  obtain r db where set: "set_categorization_enabled (cf_set faults) (cf_get faults) now True (cz_settings sv) = (r, db)"
    by fastforce
  show ?case
  proof (cases "isl r \<or> model \<noteq> Absent")
    case True
    then show ?thesis
      using 3 set by (auto simp: slot_ok_def holders_def Control_enable_def request_download_def isl_def split: sum.split)
  next
    case False
    then show ?thesis
      using 3 set by (cases rule: start_job_cases[of "sv\<lparr>cz_settings := db\<rparr>" True Downloading])
        (auto simp: slot_ok_def holders_def Control_enable_def request_download_def isl_def split: sum.split)
  qed
next
  case (6 s i model env sv jobs)
  show ?case
  proof (cases "i < length jobs")
    case True
    obtain job sv' where step: "job_step s model env (jobs ! i) sv = (job, sv')" by fastforce
    have "holds_slot (jobs ! i) \<Longrightarrow> busy sv"
      using held_means_busy[OF 6 nth_mem[OF True]] .
    from job_step_slot[OF step this] holders_update[OF True, of job] 6 True show ?thesis
      by (simp add: slot_ok_def step)
  qed (use 6 in simp)
qed (auto simp: slot_ok_def holders_def request_job_unheld)

interpretation cat_jobs: machine "(sv\<lparr>cz_state := ScanState_default\<rparr>, [])" "cat_step s" "\<lambda>_ _. True" slot_ok
  for sv s
  by unfold_locales (simp add: slot_ok_def holders_def ScanState_default_def, rule slot_ok_step)

lemma always_cat_steps: "steps_ok (\<lambda>_ _. True) (cat_step s) events x"
  by (induction events arbitrary: x) simp_all

text \<open>
  C27: however publishing, detection and downloads are requested, however the jobs' steps
  interleave and whatever fails, at most one job works at a time, and the service reports that a
  job is running exactly while one holds the slot.
\<close>

theorem one_job_at_a_time:
  "case fold (cat_step s) events (sv\<lparr>cz_state := ScanState_default\<rparr>, []) of (sv', jobs) \<Rightarrow>
     length (filter holds_slot jobs) = of_bool (cst_running (service_status model phase sv'))"
  using cat_jobs.steps_inv[OF always_cat_steps, of s events sv]
  by (auto simp: slot_ok_def holders_def service_status_def Let_def split: prod.splits)

section \<open>Every job gives the slot back\<close>

fun job_rank :: "cat_job \<Rightarrow> nat" where
  "job_rank PublishChecked = 5"
| "job_rank DetectChecked = 3"
| "job_rank Downloading = 1"
| "job_rank ScanRunning = 4"
| "job_rank (ScanListed _) = 3"
| "job_rank (ScanSaved _) = 2"
| "job_rank (ScanReleased _) = 1"
| "job_rank (Classifying _ _) = 2"
| "job_rank (ClassifyReleased _ _) = 1"
| "job_rank JobDone = 0"

lemma job_step_rank: "job_rank (fst (job_step s model env job sv)) \<le> job_rank job - 1"
proof (induction s model env job sv rule: job_step.induct)
  case (1 s model env sv)
  then show ?case by (cases rule: start_job_cases[of sv False ScanRunning]) (auto simp: request_scan_def)
next
  case (2 s model env sv)
  show ?case
  proof (cases "classify_start s model env sv")
    case (Inr p)
    then show ?thesis
      by (cases rule: start_job_cases[of sv False "Classifying (length (fst p)) (snd p)"])
        (auto split: prod.splits)
  qed simp
qed (auto simp: Let_def split: sum.split prod.split)

fun steps_of :: "nat \<Rightarrow> cat_event \<Rightarrow> bool" where
  "steps_of i (StepJob j _ _) = (i = j)"
| "steps_of i _ = False"

lemma cat_step_other:
  "i < length (snd x) \<Longrightarrow> \<not> steps_of i e \<Longrightarrow> i < length (snd (cat_step s e x)) \<and> snd (cat_step s e x) ! i = snd x ! i"
  by (induction s e x rule: cat_step.induct) (auto simp: nth_append split: prod.splits)

lemma cat_step_own:
  "i < length (snd x) \<Longrightarrow> steps_of i e \<Longrightarrow>
   i < length (snd (cat_step s e x)) \<and> job_rank (snd (cat_step s e x) ! i) \<le> job_rank (snd x ! i) - 1"
  by (induction s e x rule: cat_step.induct) (auto simp: split_beta job_step_rank[unfolded One_nat_def])

lemma rank_runs_down:
  "i < length (snd x) \<Longrightarrow>
   i < length (snd (fold (cat_step s) events x)) \<and>
   job_rank (snd (fold (cat_step s) events x) ! i) \<le> job_rank (snd x ! i) - length (filter (steps_of i) events)"
proof (induction events arbitrary: x)
  case (Cons e events)
  show ?case
  proof (cases "steps_of i e")
    case True
    then show ?thesis
      using cat_step_own[OF Cons.prems True, of s] Cons.IH[of "cat_step s e x"] by auto
  next
    case False
    then show ?thesis
      using cat_step_other[OF Cons.prems False, of s] Cons.IH[of "cat_step s e x"] by auto
  qed
qed simp

lemma job_rank_le: "job_rank job \<le> 5"
  by (cases job) simp_all

lemma job_ends:
  assumes "i < length (snd x)" and "5 \<le> length (filter (steps_of i) events)"
  shows "snd (fold (cat_step s) events x) ! i = JobDone"
proof -
  have "job_rank (snd (fold (cat_step s) events x) ! i) = 0"
    using rank_runs_down[OF assms(1), of s events] job_rank_le[of "snd x ! i"] assms(2) by simp
  then show ?thesis by (cases "snd (fold (cat_step s) events x) ! i") simp_all
qed

lemma idle_or_held:
  assumes "slot_ok (sv, jobs)"
  shows "\<not> busy sv \<and> fst (request_scan sv) = Started \<or> (\<exists>i<length jobs. holds_slot (jobs ! i))"
proof (cases "busy sv")
  case True
  then have "holders jobs \<noteq> 0" using assms by (simp add: slot_ok_def)
  then show ?thesis using holders_zero[of jobs] by (auto simp: in_set_conv_nth)
next
  case False
  then show ?thesis by (cases rule: start_job_cases[of sv False ScanRunning]) (simp_all add: request_scan_def)
qed

text \<open>
  C28: every job ends and gives the slot back. At any point of any run, whatever fails in a job and
  whatever other calls and jobs do in between, after five of its own steps it is done; and the
  service then reports no running job and starts the next scan it is asked for, unless some job
  that has not had its five steps yet is the one holding the slot. So no failure leaves the service
  refusing every later request.
\<close>

theorem every_job_gives_the_slot_back:
  assumes "fold (cat_step s) earlier (sv\<lparr>cz_state := ScanState_default\<rparr>, []) = (sv1, jobs)"
    and "fold (cat_step s) later (sv1, jobs) = (sv', jobs')"
  shows "(\<forall>i<length jobs. 5 \<le> length (filter (steps_of i) later) \<longrightarrow> jobs' ! i = JobDone)
    \<and> (\<not> cst_running (service_status model phase sv') \<and> fst (request_scan sv') = Started
       \<or> (\<exists>i<length jobs'. holds_slot (jobs' ! i)
            \<and> (length jobs \<le> i \<or> length (filter (steps_of i) later) < 5)))"
proof -
  have ended: "jobs' ! i = JobDone" if "i < length jobs" "5 \<le> length (filter (steps_of i) later)" for i
    using job_ends[of i "(sv1, jobs)" later s] that assms(2) by simp
  have "slot_ok (fold (cat_step s) (earlier @ later) (sv\<lparr>cz_state := ScanState_default\<rparr>, []))"
    by (rule cat_jobs.steps_inv[OF always_cat_steps])
  then have "slot_ok (sv', jobs')" using assms by simp
  from idle_or_held[OF this] show ?thesis
  proof (elim disjE exE conjE)
    fix i assume i: "i < length jobs'" "holds_slot (jobs' ! i)"
    then have "jobs' ! i \<noteq> JobDone" by auto
    with ended[of i] have "length jobs \<le> i \<or> length (filter (steps_of i) later) < 5" by linarith
    with i ended show ?thesis by blast
  qed (use ended in \<open>simp add: service_status_def Let_def\<close>)
qed

definition demo_faults :: control_faults where
  "demo_faults = \<lparr>cf_set = None, cf_get = None, cf_rails = None, cf_traits = None\<rparr>"

definition demo_env :: job_env where
  "demo_env = \<lparr>je_now = 1, je_stamp = ''t'', je_rnd = (\<lambda>x. x), je_outcome = Inl ''killed'', je_hash = ap_id,
     je_list_fault = None, je_current_fault = None, je_save_fault = None, je_rails_fault = None,
     je_traits_fault = None, je_prune_fault = None\<rparr>"

definition demo_cat :: cat_service where
  "demo_cat = \<lparr>cz_state = ScanState_default,
     cz_catalog = \<lparr>library_items = [\<lparr>li_id = ''netflix.desktop'', li_source_id = DESKTOP_APPS, li_title = ''Netflix'',
         li_kind = ''application'', li_launch_id = Some ''netflix.desktop'', li_icon = None,
         li_metadata = JObject [], li_updated_at = []\<rparr>],
       catalog_enrichments = [], item_traits = []\<rparr>,
     cz_report = None, cz_collections = seed_builtin 0 empty_db,
     cz_settings = seed_user_settings ''s'' \<lparr>user_settings_table = None, romm_settings_table = None,
       stremio_settings_table = None, tmdb_settings_table = None\<rparr>,
     cz_events = []\<rparr>"

lemma demo_cat_fresh: "demo_cat\<lparr>cz_state := ScanState_default\<rparr> = demo_cat"
  by (simp add: demo_cat_def)

text \<open>A download that fails, and another call while it runs.\<close>

theorem every_job_gives_the_slot_back_witness:
  "case fold (cat_step demo_cat_settings) [Enable Absent demo_faults ''e''] (demo_cat, []) of (sv1, jobs) \<Rightarrow>
     jobs = [Downloading] \<and> busy sv1
   \<and> (case fold (cat_step demo_cat_settings) (RemoveRails None # replicate 5 (StepJob 0 Absent demo_env)) (sv1, jobs) of
       (sv', jobs') \<Rightarrow> jobs' = [JobDone] \<and> fst (request_scan sv') = Started)"
proof -
  obtain sv1 jobs where one: "fold (cat_step demo_cat_settings) [Enable Absent demo_faults ''e''] (demo_cat, []) = (sv1, jobs)"
    by fastforce
  have jobs: "jobs = [Downloading]" "busy sv1"
    using one
    by (auto simp: Control_enable_def request_download_def set_categorization_enabled_def SettingsRepository_get_def
        settings_from_row_def demo_cat_def seed_user_settings_def ThemeMode_parse_def BackdropMode_parse_def
        demo_faults_def start_job_def claim_def ScanState_default_def Let_def)
  define later where "later = RemoveRails None # replicate 5 (StepJob 0 Absent demo_env)"
  obtain sv' jobs' where two: "fold (cat_step demo_cat_settings) later (sv1, jobs) = (sv', jobs')" by fastforce
  have len: "length (snd (fold (cat_step demo_cat_settings) (replicate n (StepJob 0 Absent demo_env)) (sv, [job]))) = 1" for n sv job
    by (induction n arbitrary: sv job) (simp_all split: prod.split)
  have len': "length jobs' = 1"
    using two len[of 5 "Control_remove_collections True None sv1" Downloading] by (simp add: later_def jobs(1))
  note given = every_job_gives_the_slot_back[of demo_cat_settings _ demo_cat, unfolded demo_cat_fresh, OF one two]
  have steps: "length (filter (steps_of 0) later) = 5" by (simp add: later_def)
  have "jobs' ! 0 = JobDone" using given steps by (simp add: jobs)
  then have ended: "jobs' = [JobDone]" using len' by (cases jobs') auto
  with given have "fst (request_scan sv') = Started" by simp
  with one two jobs ended show ?thesis unfolding later_def by simp
qed

section \<open>Turning the feature off\<close>

definition switched_off :: "cat_service \<Rightarrow> bool" where
  "switched_off sv \<longleftrightarrow>
     (\<exists>row. user_settings_table (cz_settings sv) = Some row \<and> \<not> us_categorization_enabled row)"

definition no_rails :: "cat_service \<Rightarrow> bool" where
  "no_rails sv \<longleftrightarrow> (\<forall>r\<in>set (collections (cz_collections sv)). c_owner r \<noteq> OWNER_LAYA)"

definition no_verdicts :: "cat_service \<Rightarrow> bool" where
  "no_verdicts sv \<longleftrightarrow> item_traits (cz_catalog sv) = []"

text \<open>A job that is not about to take the slot or to write.\<close>

fun quiet_job :: "cat_job \<Rightarrow> bool" where
  "quiet_job PublishChecked = False"
| "quiet_job DetectChecked = False"
| "quiet_job (ScanReleased _) = False"
| "quiet_job (ClassifyReleased _ _) = False"
| "quiet_job _ = True"

definition off_and_clean :: "cat_service \<times> cat_job list \<Rightarrow> bool" where
  "off_and_clean x \<longleftrightarrow> switched_off (fst x) \<and> no_rails (fst x) \<and> no_verdicts (fst x)
     \<and> (busy (fst x) \<longrightarrow> discards (fst x)) \<and> slot_ok x \<and> (\<forall>job\<in>set (snd x). quiet_job job)"

lemma off_refuses: "switched_off sv \<Longrightarrow> enabled_service True fault sv \<noteq> None"
  by (auto simp: switched_off_def enabled_service_def SettingsRepository_get_def settings_from_row_def
      split: option.splits sum.splits)

lemma off_requests:
  assumes "switched_off sv"
  shows "snd (Control_publish_collections True fault sv) = JobDone"
    "snd (Control_detect_form_factors True model fault sv) = JobDone"
  using off_refuses[OF assms, of fault]
  by (auto simp: Control_publish_collections_def Control_detect_form_factors_def split: option.splits)

lemma set_off_row:
  "set_categorization_enabled f g now False db = (r, db') \<Longrightarrow> user_settings_table db = Some row \<Longrightarrow>
   \<exists>row'. user_settings_table db' = Some row' \<and> (\<not> us_categorization_enabled row \<longrightarrow> \<not> us_categorization_enabled row')"
  by (auto simp: set_categorization_enabled_def Let_def split: option.splits)

lemma no_rails_remove: "no_rails sv \<Longrightarrow> no_rails (Control_remove_collections True fault sv)"
  by (auto simp: no_rails_def Control_remove_collections_def remove_owned_def delete_collections_def Let_def
      split: option.split sum.split)

lemma remove_discards:
  "busy sv \<Longrightarrow> discards (Control_remove_collections True fault sv)"
  by (simp add: Control_remove_collections_def discard_running_def Let_def split: option.split)

lemma quiet_job_step:
  assumes "off_and_clean (sv, jobs)" and "job \<in> set jobs" and "job_step s model env job sv = (job', sv')"
  shows "switched_off sv' \<and> no_rails sv' \<and> no_verdicts sv' \<and> (busy sv' \<longrightarrow> discards sv')
    \<and> quiet_job job'"
proof -
  have sv: "switched_off sv" "no_rails sv" "no_verdicts sv" "quiet_job job" "holds_slot job \<Longrightarrow> busy sv \<and> discards sv"
    using assms(1,2) held_means_busy[of sv jobs job] by (auto simp: off_and_clean_def)
  note fields = switched_off_def no_rails_def no_verdicts_def
  show ?thesis
  proof (cases job)
    case Downloading
    then show ?thesis using assms(3) sv by (auto simp: download_def fields)
  next
    case ScanRunning
    then show ?thesis using assms(3) sv by auto
  next
    case (ScanListed found)
    then show ?thesis
      using assms(3) sv by (auto simp: fields save_scan_fields split: sum.splits prod.splits)
  next
    case (ScanSaved outcome)
    then show ?thesis
      using assms(3) sv by (auto simp: fields split_beta split: sum.splits if_splits)
  next
    case (Classifying count hashes)
    then show ?thesis
      using assms(3) sv by (auto simp: fields Let_def split_beta split: sum.splits if_splits)
  next
    case JobDone
    then show ?thesis using assms(3) sv assms(1) by (auto simp: off_and_clean_def)
  qed (use sv in simp_all)
qed

fun enables :: "cat_event \<Rightarrow> bool" where
  "enables (Enable _ _ _) = True"
| "enables _ = False"

lemma no_verdicts_clear: "no_verdicts sv \<Longrightarrow> no_verdicts (snd (clear_traits fault sv))"
  by (auto simp: no_verdicts_def clear_traits_def TraitStore_clear_def split: option.split)

lemma slot_ok_state: "busy sv' = busy sv \<Longrightarrow> slot_ok (sv', jobs) = slot_ok (sv, jobs)"
  by (simp add: slot_ok_def)

lemma slot_ok_done: "slot_ok (sv, jobs @ [JobDone]) = slot_ok (sv, jobs)"
  by (simp add: slot_ok_def holders_def)

lemma disable_keeps_clean:
  assumes "off_and_clean (sv, jobs)"
  shows "off_and_clean (snd (Control_disable True faults now sv), jobs)"
proof -
  obtain r db where set: "set_categorization_enabled (cf_set faults) (cf_get faults) now False (cz_settings sv) = (r, db)"
    by fastforce
  obtain row where "user_settings_table (cz_settings sv) = Some row" "\<not> us_categorization_enabled row"
    using assms by (auto simp: off_and_clean_def switched_off_def)
  with set_off_row[OF set] have "\<exists>row. user_settings_table db = Some row \<and> \<not> us_categorization_enabled row"
    by blast
  moreover have "no_rails (sv\<lparr>cz_settings := db\<rparr>)" "no_verdicts (sv\<lparr>cz_settings := db\<rparr>)"
    using assms by (simp_all add: off_and_clean_def no_rails_def no_verdicts_def)
  ultimately show ?thesis
    using assms no_rails_remove[of "sv\<lparr>cz_settings := db\<rparr>" "cf_rails faults"]
      remove_discards[of "sv\<lparr>cz_settings := db\<rparr>" "cf_rails faults"]
      no_verdicts_clear[of "Control_remove_collections True (cf_rails faults) (sv\<lparr>cz_settings := db\<rparr>)" "cf_traits faults"]
    by (cases r) (auto simp: off_and_clean_def Control_disable_def set Let_def switched_off_def no_rails_def
        no_verdicts_def slot_ok_def)
qed

lemma off_and_clean_step:
  assumes "off_and_clean x" and "\<not> enables e"
  shows "off_and_clean (cat_step s e x)"
  using assms
proof (induction s e x rule: cat_step.induct)
  case (1 s fault sv jobs)
  then show ?case using off_requests(1)[of sv fault] by (auto simp: off_and_clean_def slot_ok_done)
next
  case (2 s model fault sv jobs)
  then show ?case using off_requests(2)[of sv model fault] by (auto simp: off_and_clean_def slot_ok_done)
next
  case (4 s faults now sv jobs)
  then show ?case by (simp add: disable_keeps_clean)
next
  case (5 s fault sv jobs)
  then show ?case
    using no_rails_remove[of sv fault] remove_discards[of sv fault]
    by (auto simp: off_and_clean_def switched_off_def no_verdicts_def slot_ok_def)
next
  case (6 s i model env sv jobs)
  show ?case
  proof (cases "i < length jobs")
    case True
    obtain job sv' where step: "job_step s model env (jobs ! i) sv = (job, sv')" by fastforce
    note after = quiet_job_step[OF 6(1) nth_mem[OF True] step]
    have "slot_ok (cat_step s (StepJob i model env) (sv, jobs))"
      using 6(1) by (intro slot_ok_step) (simp add: off_and_clean_def)
    moreover have "set (jobs[i := job]) \<subseteq> insert job (set jobs)" by (rule set_update_subset_insert)
    ultimately show ?thesis
      using after 6(1) True by (auto simp: off_and_clean_def step)
  qed (use 6 in simp)
qed auto

lemma disable_cleans:
  assumes "slot_ok (sv, jobs)" and "\<forall>job\<in>set jobs. quiet_job job" and "db_ok (cz_collections sv)"
    and "Control_disable True faults now sv = (Inr (), sv')" and "cf_rails faults = None" and "cf_traits faults = None"
  shows "off_and_clean (sv', jobs)"
proof -
  obtain u db where set: "set_categorization_enabled (cf_set faults) (cf_get faults) now False (cz_settings sv) = (Inr u, db)"
    using assms(4) by (auto simp: Control_disable_def Let_def split: prod.splits sum.splits)
  then have off: "\<exists>row. user_settings_table db = Some row \<and> \<not> us_categorization_enabled row"
    by (auto simp: set_categorization_enabled_def SettingsRepository_get_def Let_def split: option.splits)
  have "is_feature_owner OWNER_LAYA"
    by (simp add: is_feature_owner_def OWNER_LAYA_def OWNER_SYSTEM_def OWNER_USER_def OWNER_STREMIO_def)
  from delete_feature[OF assms(3) this] have
    rails: "\<forall>r\<in>set (collections (fst (remove_owned OWNER_LAYA (cz_collections sv)))). c_owner r \<noteq> OWNER_LAYA"
    using \<open>is_feature_owner OWNER_LAYA\<close> by (auto simp: remove_owned_def)
  have sv': "sv' = snd (clear_traits None (Control_remove_collections True None (sv\<lparr>cz_settings := db\<rparr>)))"
    using assms(4-6) by (simp add: Control_disable_def set Let_def)
  have "no_verdicts sv'" by (simp add: sv' no_verdicts_def clear_traits_def TraitStore_clear_def)
  moreover have "switched_off sv'" using off by (simp add: sv' switched_off_def)
  moreover have "no_rails sv'"
    using rails by (simp add: sv' no_rails_def Control_remove_collections_def Let_def)
  moreover have "busy sv' = busy sv" by (simp add: sv')
  moreover have "busy sv' \<longrightarrow> discards sv'"
    using remove_discards[of "sv\<lparr>cz_settings := db\<rparr>" None] by (simp add: sv')
  ultimately show ?thesis
    using assms(1,2) by (simp add: off_and_clean_def slot_ok_def)
qed

text \<open>
  C29: turning the feature off takes effect on the job that is running: with no request between its
  check and its claim and no job between its release and its write, after a disable that succeeds
  no rail of the feature and no verdict of the model ever appears again, whatever the running job
  decides and whatever is requested, until the feature is turned on again.
\<close>

theorem disable_discards_running_job:
  assumes "slot_ok (sv, jobs)" and "\<forall>job\<in>set jobs. quiet_job job" and "db_ok (cz_collections sv)"
    and "Control_disable True faults now sv = (Inr (), sv')" and "cf_rails faults = None" and "cf_traits faults = None"
    and "\<forall>e\<in>set events. \<not> enables e"
  shows "no_rails (fst (fold (cat_step s) events (sv', jobs)))
    \<and> no_verdicts (fst (fold (cat_step s) events (sv', jobs)))"
proof -
  have "off_and_clean (fold (cat_step s) events (sv', jobs))"
    using disable_cleans[OF assms(1-6)]
    by (rule fold_invariant[where Q = "\<lambda>e. \<not> enables e", rotated 1]) (use assms(7) off_and_clean_step in auto)
  then show ?thesis by (simp add: off_and_clean_def)
qed

text \<open>A scan that has listed the library when the feature is turned off.\<close>

definition demo_scanning :: "cat_service \<times> cat_job list" where
  "demo_scanning = fold (cat_step demo_cat_settings)
     [Enable (Downloaded 3 ''p'') demo_faults ''e'', Publish None, StepJob 1 Absent demo_env, StepJob 1 Absent demo_env]
     (demo_cat, [])"

lemma demo_scanning_state:
  "snd demo_scanning = [JobDone, ScanListed (Inr (CatalogStore_list (cz_catalog demo_cat)))]"
  "cz_collections (fst demo_scanning) = seed_builtin 0 empty_db"
  "fst (Control_disable True demo_faults ''d'' (fst demo_scanning)) = Inr ()"
  by (simp_all add: demo_scanning_def Control_enable_def request_download_def Control_publish_collections_def
      enabled_service_def set_categorization_enabled_def SettingsRepository_get_def settings_from_row_def
      demo_cat_def seed_user_settings_def ThemeMode_parse_def BackdropMode_parse_def demo_faults_def request_scan_def
      start_job_def claim_def ScanState_default_def catalog_list_def demo_env_def Control_disable_def Let_def)

lemma demo_db_ok: "db_ok (seed_builtin 0 empty_db)"
  by (rule collection_store.start_inv)

theorem disable_discards_running_job_witness:
  "no_rails (fst (fold (cat_step demo_cat_settings) (Publish None # replicate 2 (StepJob 1 Absent demo_env))
     (snd (Control_disable True demo_faults ''d'' (fst demo_scanning)), snd demo_scanning)))"
proof -
  have slot: "slot_ok (fst demo_scanning, snd demo_scanning)"
    unfolding demo_scanning_def prod.collapse
    by (rule cat_jobs.steps_inv[OF always_cat_steps, of demo_cat_settings _ demo_cat, unfolded demo_cat_fresh])
  have "Control_disable True demo_faults ''d'' (fst demo_scanning)
      = (Inr (), snd (Control_disable True demo_faults ''d'' (fst demo_scanning)))"
    using demo_scanning_state(3) by (metis prod.collapse)
  from disable_discards_running_job[OF slot _ _ this, of "Publish None # replicate 2 (StepJob 1 Absent demo_env)"
      demo_cat_settings]
  show ?thesis by (simp add: demo_scanning_state(1,2) demo_db_ok demo_faults_def)
qed

section \<open>The windows around the slot\<close>

lemma baseline_rails: "Taxonomy_rails Taxonomy_baseline = [watch]"
  by code_simp

text \<open>
  Turning the feature off misses a scan that has freed the slot and not written its rails yet:
  the rails it decided are published after the feature was turned off and its rails were removed.
\<close>

theorem disable_misses_released_scan:
  assumes "Control_disable True faults now sv = (Inr (), sv')" and "cf_rails faults = None"
    and "db_ok (cz_collections sv)" and "je_rails_fault env = None"
    and "rail_app_ids report Taxonomy_baseline ''watch'' \<noteq> []"
    and "\<forall>r\<in>set (collections (cz_collections sv)). c_slug r = ''laya:watch'' \<longrightarrow> c_owner r = OWNER_LAYA"
  shows "case cat_step s (StepJob 0 model env) (sv', [ScanReleased report]) of (sv'', jobs) \<Rightarrow>
    enabled_service True None sv'' = Some Disabled
    \<and> (\<exists>r\<in>set (collections (cz_collections sv'')). c_owner r = OWNER_LAYA \<and> c_rule r = Some ''laya:watch'')"
proof -
  obtain u db where set: "set_categorization_enabled (cf_set faults) (cf_get faults) now False (cz_settings sv) = (Inr u, db)"
    using assms(1) by (auto simp: Control_disable_def Let_def split: prod.splits sum.splits)
  have sv': "sv' = snd (clear_traits (cf_traits faults) (Control_remove_collections True None (sv\<lparr>cz_settings := db\<rparr>)))"
    using assms(1,2) by (simp add: Control_disable_def set Let_def)
  have feature: "is_feature_owner OWNER_LAYA"
    by (simp add: is_feature_owner_def OWNER_LAYA_def OWNER_SYSTEM_def OWNER_USER_def OWNER_STREMIO_def)
  obtain n where del: "remove_owned OWNER_LAYA (cz_collections sv) =
      ((cz_collections sv)\<lparr>collections := filter (\<lambda>r. c_owner r \<noteq> OWNER_LAYA) (collections (cz_collections sv)),
        collection_items := filter (\<lambda>i. i_slug i \<notin> c_slug ` set (filter (\<lambda>r. c_owner r = OWNER_LAYA)
          (collections (cz_collections sv)))) (collection_items (cz_collections sv))\<rparr>, Inr n)"
    using delete_feature[OF assms(3) feature] by (auto simp: remove_owned_def feature)
  have rails: "rail_collections report = [\<lparr>o_slug = ''laya:watch'', o_name = Some ''Watch'', o_rule = ''laya:watch''\<rparr>]"
    using assms(5) by (simp add: rail_collections_def baseline_rails watch_def owned_rule_def OWNER_LAYA_def Let_def)
  let ?rest = "cz_collections sv'"
  have rest: "?rest = fst (remove_owned OWNER_LAYA (cz_collections sv))"
    by (simp add: sv' Control_remove_collections_def Let_def)
  have ok: "db_ok ?rest" unfolding rest by (rule remove_owned_ok[OF assms(3)])
  obtain m where again: "delete_collections (\<lambda>r. c_owner r = OWNER_LAYA) ?rest = Inr (?rest\<lparr>collections := collections ?rest,
      collection_items := filter (\<lambda>i. i_slug i \<notin> c_slug ` set (filter (\<lambda>r. c_owner r = OWNER_LAYA) (collections ?rest)))
        (collection_items ?rest)\<rparr>, m)"
    using delete_feature[OF ok feature] by (auto simp: rest del)
  have "''laya:watch'' \<notin> c_slug ` set (collections ?rest)"
    using assms(6) by (auto simp: rest del)
  then have "\<exists>r\<in>set (collections (fst (replace_owned (je_now env) OWNER_LAYA (rail_collections report) ?rest))).
      c_owner r = OWNER_LAYA \<and> c_rule r = Some ''laya:watch''"
    by (simp add: replace_owned_def feature again rails insert_row_def)
  moreover have "enabled_service True None sv' = Some Disabled"
    using set by (auto simp: sv' enabled_service_def set_categorization_enabled_def SettingsRepository_get_def Let_def
        settings_from_row_def split: option.splits)
  ultimately show ?thesis
    using assms(4) by (simp add: publish_report_def write_rail_collections_def enabled_service_def)
qed

text \<open>The window is reached from a fresh service: three steps after its claim a scan is in it.\<close>

definition demo_released :: "cat_service \<times> cat_job list" where
  "demo_released = fold (cat_step demo_cat_settings) (replicate 4 (StepJob 0 Absent demo_env)) (demo_cat, [PublishChecked])"

lemma demo_items_rail:
  "case scan_items demo_env (CatalogStore_list (cz_catalog demo_cat)) of
     Inl _ \<Rightarrow> False | Inr r \<Rightarrow> rail_app_ids r Taxonomy_baseline ''watch'' = [''netflix.desktop'']"
  by code_simp

lemma demo_released_state:
  "\<exists>r. snd demo_released = [ScanReleased r] \<and> rail_app_ids r Taxonomy_baseline ''watch'' \<noteq> []"
  "cz_collections (fst demo_released) = seed_builtin 0 empty_db"
  "cz_settings (fst demo_released) = cz_settings demo_cat"
proof -
  obtain r where r: "scan_items demo_env (CatalogStore_list (cz_catalog demo_cat)) = Inr r"
    "rail_app_ids r Taxonomy_baseline ''watch'' \<noteq> []"
    using demo_items_rail by (auto split: sum.splits)
  have fault: "je_list_fault demo_env = None" "je_save_fault demo_env = None" by (simp_all add: demo_env_def)
  have fresh: "cz_state demo_cat = ScanState_default" "cz_collections demo_cat = seed_builtin 0 empty_db"
    by (simp_all add: demo_cat_def)
  note run = demo_released_def eval_nat_numeral request_scan_def start_job_def claim_def ScanState_default_def
    catalog_list_def save_scan_def CategorizationStore_save_def release_slot_def release_def outcome_error_def Let_def
  show "\<exists>r. snd demo_released = [ScanReleased r] \<and> rail_app_ids r Taxonomy_baseline ''watch'' \<noteq> []"
    "cz_collections (fst demo_released) = seed_builtin 0 empty_db"
    "cz_settings (fst demo_released) = cz_settings demo_cat"
    using r(2) by (simp_all add: run fault fresh r(1))
qed

theorem disable_misses_released_scan_witness:
  "\<exists>r\<in>set (collections (cz_collections (fst (cat_step demo_cat_settings (StepJob 0 Absent demo_env)
     (snd (Control_disable True demo_faults ''d'' (fst demo_released)), snd demo_released))))). c_owner r = OWNER_LAYA"
proof -
  obtain r where r: "snd demo_released = [ScanReleased r]" "rail_app_ids r Taxonomy_baseline ''watch'' \<noteq> []"
    using demo_released_state(1) by blast
  have ok: "fst (Control_disable True demo_faults ''d'' (fst demo_released)) = Inr ()"
    by (simp add: Control_disable_def demo_released_state(3) demo_cat_def seed_user_settings_def demo_faults_def
        set_categorization_enabled_def SettingsRepository_get_def settings_from_row_def ThemeMode_parse_def
        BackdropMode_parse_def Let_def)
  have slugs: "\<forall>x\<in>set (collections (seed_builtin 0 empty_db)). c_slug x \<noteq> ''laya:watch''" by code_simp
  have "Control_disable True demo_faults ''d'' (fst demo_released)
      = (Inr (), snd (Control_disable True demo_faults ''d'' (fst demo_released)))"
    using ok by (metis prod.collapse)
  from disable_misses_released_scan[OF this _ _ _ r(2), of demo_env demo_cat_settings Absent]
  show ?thesis
    using slugs unfolding r(1) by (auto simp: demo_released_state(2) demo_db_ok demo_faults_def demo_env_def split: prod.splits)
qed

end
