(* ===== verification/Daemon_Retro.thy ===== *)
theory Daemon_Retro
  imports Daemon_Romm Bridge_Targets
begin

text \<open>
  The daemon's resolution of a RomM rom into a RetroArch launch (\<^verbatim>\<open>retro.rs\<close>): the tables from
  platforms and content to cores, the search for the core, the rom's place in the library, and the
  plan. The plan is joined to the bridge's own checks of it (\<open>Bridge_Retro\<close>), which derive the
  allowed directories independently.
\<close>

section \<open>Cores\<close>

definition CORE_DIRECTORY :: string where "CORE_DIRECTORY = ''/usr/lib/libretro''"

definition CORE_BY_PLATFORM_SLUG :: "(string \<times> string) list" where
  "CORE_BY_PLATFORM_SLUG =
     [(''nes'', ''fceumm_libretro.so''), (''famicom'', ''fceumm_libretro.so''), (''fds'', ''fceumm_libretro.so''),
      (''nintendo-entertainment-system'', ''fceumm_libretro.so''), (''snes'', ''snes9x_libretro.so''), (''sfc'', ''snes9x_libretro.so''),
      (''sfam'', ''snes9x_libretro.so''), (''super-famicom'', ''snes9x_libretro.so''), (''super-nintendo'', ''snes9x_libretro.so''),
      (''super-nintendo-entertainment-system'', ''snes9x_libretro.so''), (''genesis'', ''genesis_plus_gx_libretro.so''), (''genesis-slash-megadrive'', ''genesis_plus_gx_libretro.so''),
      (''megadrive'', ''genesis_plus_gx_libretro.so''), (''mega-drive'', ''genesis_plus_gx_libretro.so''), (''sega-mega-drive'', ''genesis_plus_gx_libretro.so''),
      (''sega-genesis'', ''genesis_plus_gx_libretro.so''), (''sms'', ''genesis_plus_gx_libretro.so''), (''mastersystem'', ''genesis_plus_gx_libretro.so''),
      (''master-system'', ''genesis_plus_gx_libretro.so''), (''sega-master-system'', ''genesis_plus_gx_libretro.so''), (''gg'', ''genesis_plus_gx_libretro.so''),
      (''gamegear'', ''genesis_plus_gx_libretro.so''), (''game-gear'', ''genesis_plus_gx_libretro.so''), (''sega-game-gear'', ''genesis_plus_gx_libretro.so''),
      (''segacd'', ''genesis_plus_gx_libretro.so''), (''sega-cd'', ''genesis_plus_gx_libretro.so''), (''mega-cd'', ''genesis_plus_gx_libretro.so''),
      (''mega-cd-slash-sega-cd'', ''genesis_plus_gx_libretro.so''), (''sega32x'', ''picodrive_libretro.so''), (''32x'', ''picodrive_libretro.so''),
      (''sega-32x'', ''picodrive_libretro.so''), (''gb'', ''mgba_libretro.so''), (''gameboy'', ''mgba_libretro.so''),
      (''game-boy'', ''mgba_libretro.so''), (''gbc'', ''mgba_libretro.so''), (''gameboy-color'', ''mgba_libretro.so''),
      (''game-boy-color'', ''mgba_libretro.so''), (''gba'', ''mgba_libretro.so''), (''gameboy-advance'', ''mgba_libretro.so''),
      (''game-boy-advance'', ''mgba_libretro.so''), (''n64'', ''mupen64plus_next_libretro.so''), (''nintendo-64'', ''mupen64plus_next_libretro.so''),
      (''nintendo64'', ''mupen64plus_next_libretro.so''), (''ngc'', ''dolphin_libretro.so''), (''gc'', ''dolphin_libretro.so''),
      (''gamecube'', ''dolphin_libretro.so''), (''game-cube'', ''dolphin_libretro.so''), (''nintendo-gamecube'', ''dolphin_libretro.so''),
      (''nintendo-game-cube'', ''dolphin_libretro.so''), (''wii'', ''dolphin_libretro.so''), (''nintendo-wii'', ''dolphin_libretro.so''),
      (''ps'', ''mednafen_psx_libretro.so''), (''psx'', ''mednafen_psx_libretro.so''), (''ps1'', ''mednafen_psx_libretro.so''),
      (''playstation'', ''mednafen_psx_libretro.so''), (''sony-playstation'', ''mednafen_psx_libretro.so''), (''ps2'', ''pcsx2_libretro.so''),
      (''playstation-2'', ''pcsx2_libretro.so''), (''sony-playstation-2'', ''pcsx2_libretro.so''), (''psp'', ''ppsspp_libretro.so''),
      (''playstation-portable'', ''ppsspp_libretro.so''), (''sony-playstation-portable'', ''ppsspp_libretro.so''), (''nds'', ''desmume_libretro.so''),
      (''nintendo-ds'', ''desmume_libretro.so''), (''ds'', ''desmume_libretro.so''), (''dc'', ''flycast_libretro.so''),
      (''dreamcast'', ''flycast_libretro.so''), (''sega-dreamcast'', ''flycast_libretro.so''), (''saturn'', ''kronos_libretro.so''),
      (''sega-saturn'', ''kronos_libretro.so''), (''pce'', ''mednafen_pce_fast_libretro.so''), (''pcengine'', ''mednafen_pce_fast_libretro.so''),
      (''pc-engine'', ''mednafen_pce_fast_libretro.so''), (''turbografx16'', ''mednafen_pce_fast_libretro.so''), (''turbografx-16'', ''mednafen_pce_fast_libretro.so''),
      (''nec-pc-engine'', ''mednafen_pce_fast_libretro.so''), (''supergrafx'', ''mednafen_supergrafx_libretro.so''), (''super-grafx'', ''mednafen_supergrafx_libretro.so''),
      (''arcade'', ''mame_libretro.so''), (''mame'', ''mame_libretro.so''), (''neogeo'', ''mame_libretro.so''),
      (''neo-geo'', ''mame_libretro.so''), (''snk-neo-geo'', ''mame_libretro.so''), (''scummvm'', ''scummvm_libretro.so'')]"

definition CORE_BY_CONTENT_EXTENSION :: "(string \<times> string) list" where
  "CORE_BY_CONTENT_EXTENSION = [(''32x'', ''picodrive_libretro.so'')]"

definition core_filename_for :: "string \<Rightarrow> string \<Rightarrow> string option" where
  "core_filename_for fs_slug content_name =
     (case Option.bind (path_extension content_name)
         (\<lambda>extension. find (\<lambda>(ext, _). eq_ignore_ascii_case ext extension) CORE_BY_CONTENT_EXTENSION) of
        Some (_, core) \<Rightarrow> Some core
      | None \<Rightarrow> map_option snd (find (\<lambda>(slug, _). slug = fs_slug) CORE_BY_PLATFORM_SLUG))"

definition SOURCE_ONLY_CORES :: "string list" where "SOURCE_ONLY_CORES = [''pcsx2_libretro.so'']"

definition core_package_for :: "string \<Rightarrow> string option" where
  "core_package_for core_filename = map_of
     [(''fceumm_libretro.so'', ''libretro-fceumm''), (''snes9x_libretro.so'', ''libretro-snes9x''),
      (''genesis_plus_gx_libretro.so'', ''libretro-genesis-plus-gx''), (''picodrive_libretro.so'', ''libretro-picodrive''),
      (''mgba_libretro.so'', ''libretro-mgba''), (''mupen64plus_next_libretro.so'', ''libretro-mupen64plus-next''),
      (''mednafen_psx_libretro.so'', ''libretro-beetle-psx''), (''ppsspp_libretro.so'', ''libretro-ppsspp''),
      (''desmume_libretro.so'', ''libretro-desmume''), (''dolphin_libretro.so'', ''libretro-dolphin''),
      (''flycast_libretro.so'', ''libretro-flycast''), (''kronos_libretro.so'', ''libretro-kronos''),
      (''mednafen_pce_fast_libretro.so'', ''libretro-beetle-pce-fast''), (''mednafen_supergrafx_libretro.so'', ''libretro-beetle-supergrafx''),
      (''mame_libretro.so'', ''libretro-mame''), (''scummvm_libretro.so'', ''libretro-scummvm'')] core_filename"

primrec find_core :: "(string \<Rightarrow> bool) \<Rightarrow> string \<Rightarrow> string list \<Rightarrow> string option" where
  "find_core on_disk core_filename [] = None"
| "find_core on_disk core_filename (directory # directories) =
     (let core_path = path_join directory core_filename in
      if on_disk core_path then Some core_path else find_core on_disk core_filename directories)"

section \<open>Plans\<close>

datatype retro_launch_error =
    RommError romm_query_error
  | PlatformNotFound
  | UnsupportedPlatform string
  | CoreNotInstalled string
  | RomHasNoContentFile
  | InvalidContentFileName
  | RomNotOnDisk string

fun RetroLaunchError_fmt :: "retro_launch_error \<Rightarrow> string" where
  "RetroLaunchError_fmt (RommError NotConfigured) = ''RomM is not configured''"
| "RetroLaunchError_fmt (RommError (QueryFailed err)) = err"
| "RetroLaunchError_fmt PlatformNotFound = ''RomM platform was not found''"
| "RetroLaunchError_fmt (UnsupportedPlatform fs_slug) =
     ''no RetroArch core is configured for platform '' @ [CHR 0x22] @ fs_slug @ [CHR 0x22]"
| "RetroLaunchError_fmt (CoreNotInstalled core_path) = ''RetroArch core is not installed at '' @ core_path"
| "RetroLaunchError_fmt RomHasNoContentFile = ''rom has no content file to launch''"
| "RetroLaunchError_fmt InvalidContentFileName = ''rom content filename is invalid''"
| "RetroLaunchError_fmt (RomNotOnDisk path) = ''rom is not on disk at '' @ path"

record retro_launch_plan =
  rl_core_path :: string
  rl_rom_path :: string
  rl_game :: romm_game

text \<open>The environment of the daemon process is a map; \<open>on_disk\<close> is its view of the disk.\<close>

definition daemon_save_root :: "(string \<rightharpoonup> string) \<Rightarrow> string" where
  "daemon_save_root env = retro_save_root_from (env RETRO_SAVE_ROOT_ENV) (env ''XDG_DATA_HOME'') (env ''HOME'')"

definition core_path_for :: "(string \<Rightarrow> bool) \<Rightarrow> (string \<rightharpoonup> string) \<Rightarrow> string \<Rightarrow> retro_launch_error + string" where
  "core_path_for on_disk env core_filename =
     (case find_core on_disk core_filename [CORE_DIRECTORY, retro_cores_dir (daemon_save_root env)] of
        Some p \<Rightarrow> Inr p
      | None \<Rightarrow> Inl (CoreNotInstalled (path_join CORE_DIRECTORY core_filename)))"

definition validate_content_filename :: "string \<Rightarrow> retro_launch_error + unit" where
  "validate_content_filename fs_name =
     (case path_components fs_name of [Normal _] \<Rightarrow> Inr () | _ \<Rightarrow> Inl InvalidContentFileName)"

definition trim_matches :: "char \<Rightarrow> string \<Rightarrow> string" where
  "trim_matches c s = trim_end_char c (dropWhile (\<lambda>x. x = c) s)"

fun push_parts :: "path_component list \<Rightarrow> string \<Rightarrow> string option" where
  "push_parts [] directory = Some directory"
| "push_parts (Normal part # cs) directory = push_parts cs (path_join directory part)"
| "push_parts (CurDir # cs) directory = push_parts cs directory"
| "push_parts (ParentDir # cs) directory = None"
| "push_parts (RootDir # cs) directory = None"

definition library_rom_path :: "(string \<Rightarrow> bool) \<Rightarrow> romm_paths \<Rightarrow> romm_game \<Rightarrow> retro_launch_error + string" where
  "library_rom_path on_disk paths game =
     (case option_filter (\<lambda>name. name \<noteq> []) (map_option trim (rg_fs_name game)) of
        None \<Rightarrow> Inl RomHasNoContentFile
      | Some fs_name \<Rightarrow>
          (case validate_content_filename fs_name of
             Inl err \<Rightarrow> Inl err
           | Inr _ \<Rightarrow>
               (case push_parts (path_components (trim_matches (CHR ''/'') (or_else (rg_fs_path game) []))) [] of
                  None \<Rightarrow> Inl InvalidContentFileName
                | Some directory \<Rightarrow>
                    let rom_path = path_join (path_join (library_root paths) directory) fs_name in
                    if on_disk rom_path then Inr rom_path else Inl (RomNotOnDisk rom_path))))"

definition prepare_launch ::
  "('s, 'x) romm_server_scheme \<Rightarrow> 's \<Rightarrow> (string \<Rightarrow> bool) \<Rightarrow> (string \<rightharpoonup> string) \<Rightarrow> string option
     \<Rightarrow> settings_db \<Rightarrow> romm_paths \<Rightarrow> int \<Rightarrow> retro_launch_error + retro_launch_plan" where
  "prepare_launch srv st on_disk env fault db paths rom_id =
     (case romm_credentials_of fault db of
        Inl err \<Rightarrow> Inl (RommError err)
      | Inr c \<Rightarrow>
     (case Connection_rom srv st rom_id c of
        Inl err \<Rightarrow> Inl (RommError err)
      | Inr game \<Rightarrow>
     (case library_rom_path on_disk paths game of
        Inl err \<Rightarrow> Inl err
      | Inr rom_path \<Rightarrow>
     (case Connection_platforms srv st c of
        Inl err \<Rightarrow> Inl (RommError err)
      | Inr found \<Rightarrow>
     (case find (\<lambda>p. rp_id p = rg_platform_id game) found of
        None \<Rightarrow> Inl PlatformNotFound
      | Some platform \<Rightarrow>
     (case (case rp_fs_slug platform of Some s \<Rightarrow> Some s | None \<Rightarrow> rp_slug platform) of
        None \<Rightarrow> Inl (UnsupportedPlatform (rp_name platform))
      | Some fs_slug \<Rightarrow>
     (case core_filename_for fs_slug (or_else (rg_fs_name game) []) of
        None \<Rightarrow> Inl (UnsupportedPlatform fs_slug)
      | Some core_filename \<Rightarrow>
     (case core_path_for on_disk env core_filename of
        Inl err \<Rightarrow> Inl err
      | Inr core_path \<Rightarrow> Inr \<lparr>rl_core_path = core_path, rl_rom_path = rom_path, rl_game = game\<rparr>))))))))"

section \<open>Where a plan's files are\<close>

lemma push_parts_relative:
  assumes "push_parts cs d = Some d'" and "\<forall>n. Normal n \<in> set cs \<longrightarrow> plain_name n" and "\<not> is_absolute d"
  shows "\<not> is_absolute d' \<and> (\<exists>ns. relative_components d' = relative_components d @ map Normal ns)"
  using assms
proof (induction cs d arbitrary: d' rule: push_parts.induct)
  case (2 n cs d)
  then have n: "plain_name n" by simp
  then have join: "relative_components (path_join d n) = relative_components d @ [Normal n]"
    using relative_components_join plain_name_relative by auto
  have "\<not> is_absolute (path_join d n)"
    using 2 plain_name_relative[OF n] is_absolute_join by simp
  with 2 have *: "\<not> is_absolute d' \<and> (\<exists>ns. relative_components d' = relative_components (path_join d n) @ map Normal ns)"
    by simp
  then show ?case unfolding join by (metis append.assoc append_Cons append_Nil list.simps(9))
qed (auto intro: exI[of _ "[]"])

lemma content_filename: "validate_content_filename n = Inr u \<Longrightarrow> \<not> is_absolute n \<and> (\<exists>x. relative_components n = [Normal x])"
proof -
  assume "validate_content_filename n = Inr u"
  then obtain x where x: "path_components n = [Normal x]"
    by (auto simp: validate_content_filename_def split: list.splits path_component.splits)
  then have a: "\<not> is_absolute n" using path_components_absolute[of n] by auto
  then show ?thesis using x path_components_relative[OF a] by (auto split: if_splits)
qed

lemma library_rom_path_below:
  assumes "library_rom_path on_disk paths game = Inr p" and "library_root paths \<noteq> []"
  shows "on_disk p" and "below (library_root paths) p" and "is_absolute p = is_absolute (library_root paths)"
proof -
  obtain name dir where name: "validate_content_filename name = Inr ()"
    and dir: "push_parts (path_components (trim_matches (CHR ''/'') (or_else (rg_fs_path game) []))) [] = Some dir"
    and p: "p = path_join (path_join (library_root paths) dir) name" "on_disk p"
    using assms(1) by (auto simp: library_rom_path_def Let_def split: option.splits sum.splits if_splits)
  show "on_disk p" by (fact p(2))
  obtain ns where rel: "\<not> is_absolute dir" "relative_components dir = map Normal ns"
    using push_parts_relative[OF dir] component_plain by (auto simp: is_absolute_def)
  obtain x where x: "\<not> is_absolute name" "relative_components name = [Normal x]"
    using content_filename[OF name] by auto
  have nonempty: "path_join (library_root paths) dir \<noteq> []" using assms(2) rel(1) by (auto simp: path_join_def)
  have "path_components p = path_components (library_root paths) @ map Normal (ns @ [x])"
    using path_components_join[OF nonempty x(1)] path_components_join[OF assms(2) rel(1)] rel(2) x(2) by (simp add: p(1))
  then show "below (library_root paths) p" unfolding below_def by blast
  show "is_absolute p = is_absolute (library_root paths)"
    using is_absolute_join[OF x(1)] is_absolute_join[OF rel(1)] by (simp add: p(1))
qed

lemma find_core_Some:
  "find_core on_disk name ds = Some p \<Longrightarrow> on_disk p \<and> (\<exists>d\<in>set ds. p = path_join d name)"
  by (induction ds) (auto simp: Let_def split: if_splits)

lemma core_tables:
  "\<forall>core\<in>set (map snd CORE_BY_CONTENT_EXTENSION @ map snd CORE_BY_PLATFORM_SLUG).
     CHR ''/'' \<notin> set core \<and> (\<exists>stem. stem \<noteq> [] \<and> core = stem @ ''.so'')"
proof -
  have so: "CHR ''/'' \<notin> set core \<and> (\<exists>stem. stem \<noteq> [] \<and> core = stem @ ''.so'')"
    if "CHR ''/'' \<notin> set core \<and> 3 < length core \<and> drop (length core - 3) core = ''.so''" for core
    using that append_take_drop_id[of "length core - 3" core]
    by (intro conjI exI[of _ "take (length core - 3) core"]) auto
  show ?thesis
    by (rule ballI, rule so) (auto simp: CORE_BY_CONTENT_EXTENSION_def CORE_BY_PLATFORM_SLUG_def)
qed

end
