(* ===== verification/Daemon_Readiness.thy ===== *)
theory Daemon_Readiness
  imports Daemon_Retro
begin

text \<open>
  Whether the platforms with roms can play (\<^verbatim>\<open>readiness.rs\<close>): the BIOS slots, the readiness report,
  the core packages to install and the sync of BIOS files from the user's source. The disk and the
  network are the record \<open>readiness_host\<close> of functions on a world state, and the SHA-1 digest is one
  of its parameters.
\<close>

section \<open>BIOS slots\<close>

record known_bios =
  kb_name :: string
  kb_sha1 :: "string option"
  kb_size :: "nat option"

text \<open>A pattern has a label, an extension, a size, and the preferred and rejected name prefixes.\<close>

datatype bios_accept = Known "known_bios list" | Pattern string string nat "string list" "string list"

record bios_slot =
  bs_platforms :: "string list"
  bs_system :: string
  bs_target_dir :: string
  bs_required :: bool
  bs_accept :: bios_accept

definition PS1_SLOTTED_PLATFORMS :: "string list" where
  "PS1_SLOTTED_PLATFORMS = [''ps'', ''psx'', ''ps1'', ''playstation'', ''sony-playstation'']"

definition PS2_SLOTTED_PLATFORMS :: "string list" where
  "PS2_SLOTTED_PLATFORMS = [''ps2'', ''playstation-2'', ''sony-playstation-2'']"

definition PCE_SLOTTED_PLATFORMS :: "string list" where
  "PCE_SLOTTED_PLATFORMS = [''pce'', ''pcengine'', ''pc-engine'', ''turbografx16'', ''turbografx-16'',
     ''nec-pc-engine'', ''supergrafx'', ''super-grafx'']"

definition BIOS_SLOTS :: "bios_slot list" where
  "BIOS_SLOTS =
     [
     \<lparr>bs_platforms = PS1_SLOTTED_PLATFORMS, bs_system = ''Sony/PlayStation'', bs_target_dir = [], bs_required = False,
       bs_accept = Known [\<lparr>kb_name = ''scph5500.bin'', kb_sha1 = None, kb_size = Some 524288\<rparr>]\<rparr>,
     \<lparr>bs_platforms = PS1_SLOTTED_PLATFORMS, bs_system = ''Sony/PlayStation'', bs_target_dir = [], bs_required = False,
       bs_accept = Known [\<lparr>kb_name = ''scph5501.bin'', kb_sha1 = None, kb_size = Some 524288\<rparr>]\<rparr>,
     \<lparr>bs_platforms = PS1_SLOTTED_PLATFORMS, bs_system = ''Sony/PlayStation'', bs_target_dir = [], bs_required = False,
       bs_accept = Known [\<lparr>kb_name = ''scph5502.bin'', kb_sha1 = None, kb_size = Some 524288\<rparr>]\<rparr>,
     \<lparr>bs_platforms = PS2_SLOTTED_PLATFORMS, bs_system = ''Sony/PlayStation 2'', bs_target_dir = ''pcsx2/bios'', bs_required = True,
       bs_accept = Pattern ''SCPH-*.bin'' ''bin'' 4194304 [''SCPH-''] [''SCPH-10000'']\<rparr>,
     \<lparr>bs_platforms = [''saturn'', ''sega-saturn''], bs_system = ''Sega/Saturn'', bs_target_dir = [], bs_required = True,
       bs_accept = Known [\<lparr>kb_name = ''sega_101.bin'', kb_sha1 = None, kb_size = None\<rparr>,
         \<lparr>kb_name = ''mpr-17933.bin'', kb_sha1 = None, kb_size = None\<rparr>]\<rparr>,
     \<lparr>bs_platforms = [''dc'', ''dreamcast'', ''sega-dreamcast''], bs_system = ''Sega/Dreamcast'', bs_target_dir = ''dc'', bs_required = False,
       bs_accept = Known [\<lparr>kb_name = ''dc_boot.bin'', kb_sha1 = Some ''8951d1bb219ab2ff8583033d2119c899cc81f18c'', kb_size = None\<rparr>,
         \<lparr>kb_name = ''dc_flash.bin'', kb_sha1 = None, kb_size = None\<rparr>]\<rparr>,
     \<lparr>bs_platforms = [''segacd'', ''sega-cd'', ''mega-cd'', ''mega-cd-slash-sega-cd''], bs_system = ''Sega/Mega CD'', bs_target_dir = [], bs_required = False,
       bs_accept = Known [\<lparr>kb_name = ''bios_CD_E.bin'', kb_sha1 = Some ''f891e0ea651e2232af0c5c4cb46a0cae2ee8f356'', kb_size = None\<rparr>]\<rparr>,
     \<lparr>bs_platforms = [''segacd'', ''sega-cd'', ''mega-cd'', ''mega-cd-slash-sega-cd''], bs_system = ''Sega/Mega CD'', bs_target_dir = [], bs_required = False,
       bs_accept = Known [\<lparr>kb_name = ''bios_CD_U.bin'', kb_sha1 = Some ''f4f315adcef9b8feb0364c21ab7f0eaf5457f3ed'', kb_size = None\<rparr>]\<rparr>,
     \<lparr>bs_platforms = [''segacd'', ''sega-cd'', ''mega-cd'', ''mega-cd-slash-sega-cd''], bs_system = ''Sega/Mega CD'', bs_target_dir = [], bs_required = False,
       bs_accept = Known [\<lparr>kb_name = ''bios_CD_J.bin'', kb_sha1 = Some ''4846f448160059a7da0215a5df12ca160f26dd69'', kb_size = None\<rparr>]\<rparr>,
     \<lparr>bs_platforms = PCE_SLOTTED_PLATFORMS, bs_system = ''NEC/PC Engine'', bs_target_dir = [], bs_required = False,
       bs_accept = Known [\<lparr>kb_name = ''syscard3.pce'', kb_sha1 = Some ''79f5ff55dd10187c7fd7b8daab0b3ffbd1f56a2c'', kb_size = None\<rparr>,
         \<lparr>kb_name = ''syscard3u.pce'', kb_sha1 = Some ''d02611d99921986147c753df14c7349b31d71950'', kb_size = None\<rparr>,
         \<lparr>kb_name = ''syscard2.pce'', kb_sha1 = Some ''88da02e2503f7c32810f5d93a34849d470742b6d'', kb_size = None\<rparr>,
         \<lparr>kb_name = ''syscard2u.pce'', kb_sha1 = Some ''2bea3dac98f84b2f2f469fa77ea720b8770d598d'', kb_size = None\<rparr>,
         \<lparr>kb_name = ''syscard1.pce'', kb_sha1 = Some ''a39a66da7de6ba94ab84d04eef7afeec7d4ee66a'', kb_size = None\<rparr>]\<rparr>,
     \<lparr>bs_platforms = [''neogeo'', ''neo-geo'', ''snk-neo-geo''], bs_system = ''SNK/Neo Geo'', bs_target_dir = [], bs_required = True,
       bs_accept = Known [\<lparr>kb_name = ''neogeo.zip'', kb_sha1 = None, kb_size = None\<rparr>]\<rparr>,
     \<lparr>bs_platforms = [''fds''], bs_system = ''Nintendo/Famicom Disk System'', bs_target_dir = [], bs_required = True,
       bs_accept = Known [\<lparr>kb_name = ''disksys.rom'', kb_sha1 = Some ''57fe1bdee955bb48d357e463ccbf129496930b62'', kb_size = None\<rparr>]\<rparr>,
     \<lparr>bs_platforms = [''gg'', ''gamegear'', ''game-gear'', ''sega-game-gear''], bs_system = ''Sega/Game Gear'', bs_target_dir = [], bs_required = False,
       bs_accept = Known [\<lparr>kb_name = ''bios.gg'', kb_sha1 = Some ''914aa165e3d879f060be77870d345b60cfeb4ede'', kb_size = None\<rparr>]\<rparr>]"

definition bios_slots_for :: "string \<Rightarrow> bios_slot list" where
  "bios_slots_for fs_slug = filter (\<lambda>slot. fs_slug \<in> set (bs_platforms slot)) BIOS_SLOTS"

definition platform_slug :: "romm_platform \<Rightarrow> string" where
  "platform_slug p = or_else (case rp_fs_slug p of Some s \<Rightarrow> Some s | None \<Rightarrow> rp_slug p) []"

definition active_platforms :: "romm_platform list \<Rightarrow> romm_platform list" where
  "active_platforms ps = filter (\<lambda>p. 0 < rp_rom_count p \<and> platform_slug p \<noteq> []) ps"

text \<open>
  Slots are told apart by their place in the table; no two entries of the table are equal (lemma
  \<open>BIOS_SLOTS_distinct\<close> below), so equality decides the same.
\<close>

definition push_slot :: "bios_slot \<Rightarrow> bios_slot list \<Rightarrow> bios_slot list" where
  "push_slot slot slots = (if slot \<in> set slots then slots else slots @ [slot])"

definition active_slots :: "romm_platform list \<Rightarrow> bios_slot list" where
  "active_slots ps = fold push_slot (concat (map (\<lambda>p. bios_slots_for (platform_slug p)) (active_platforms ps))) []"

definition slot_display_name :: "bios_slot \<Rightarrow> string" where
  "slot_display_name slot =
     (case bs_accept slot of
        Known known \<Rightarrow> (case known of [] \<Rightarrow> [] | entry # _ \<Rightarrow> kb_name entry)
      | Pattern label _ _ _ _ \<Rightarrow> label)"

definition slot_target_display :: "bios_slot \<Rightarrow> string \<Rightarrow> string" where
  "slot_target_display slot name =
     (if bs_target_dir slot = [] then name else bs_target_dir slot @ ''/'' @ name)"

definition slot_directory :: "bios_slot \<Rightarrow> string \<Rightarrow> string" where
  "slot_directory slot system_dir =
     (if bs_target_dir slot = [] then system_dir else path_join system_dir (bs_target_dir slot))"

definition target_path :: "bios_slot \<Rightarrow> string \<Rightarrow> string \<Rightarrow> string" where
  "target_path slot name system_dir = path_join (slot_directory slot system_dir) name"

definition known_entry :: "known_bios list \<Rightarrow> string \<Rightarrow> known_bios option" where
  "known_entry known name = find (\<lambda>entry. eq_ignore_ascii_case (kb_name entry) name) known"

definition canonical_name :: "bios_slot \<Rightarrow> string \<Rightarrow> string" where
  "canonical_name slot source_name =
     (case bs_accept slot of
        Known known \<Rightarrow> or_else (map_option kb_name (known_entry known source_name)) source_name
      | Pattern _ _ _ _ _ \<Rightarrow> source_name)"

fun name_satisfies :: "string \<Rightarrow> bios_accept \<Rightarrow> bool" where
  "name_satisfies name (Known known) \<longleftrightarrow> (\<exists>entry\<in>set known. eq_ignore_ascii_case (kb_name entry) name)"
| "name_satisfies name (Pattern _ extension _ _ _) \<longleftrightarrow>
     (case path_extension name of None \<Rightarrow> False | Some ext \<Rightarrow> eq_ignore_ascii_case ext extension)"

fun file_is_verified :: "(string \<Rightarrow> string) \<Rightarrow> string \<Rightarrow> string \<Rightarrow> bios_accept \<Rightarrow> bool" where
  "file_is_verified sha1_hex name bytes (Known known) =
     (case known_entry known name of
        None \<Rightarrow> False
      | Some entry \<Rightarrow>
          (case kb_size entry of Some sz \<Rightarrow> length bytes = sz | None \<Rightarrow> True)
          \<and> (case kb_sha1 entry of Some sha1 \<Rightarrow> sha1_hex bytes = sha1 | None \<Rightarrow> True))"
| "file_is_verified sha1_hex name bytes (Pattern _ _ sz _ _) = (length bytes = sz)"

definition is_elf :: "string \<Rightarrow> bool" where
  "is_elf bytes = starts_with [CHR 0x7F, CHR ''E'', CHR ''L'', CHR ''F''] bytes"

section \<open>The host and the source\<close>

record source_entry =
  se_name :: string
  se_size :: nat
  se_download_url :: "string option"

record bios_source =
  src_owner :: string
  src_repo :: string
  src_branch :: "string option"
  src_token :: "string option"

datatype readiness_error = InvalidSourceUrl

text \<open>
  A request carries the URL and the token. The answer to a download is its status, its declared
  length and its body, which may be cut short.
\<close>

datatype file_reply = FileUnreachable string | FileAnswer nat "nat option" "string + string"

record 'w readiness_host =
  rh_is_file :: "string \<Rightarrow> 'w \<Rightarrow> bool"
  rh_read_dir :: "string \<Rightarrow> 'w \<Rightarrow> string list option"
  rh_read :: "string \<Rightarrow> 'w \<Rightarrow> string option"
  rh_create_dir_all :: "string \<Rightarrow> (unit, 'w) io"
  rh_write :: "string \<Rightarrow> string \<Rightarrow> (unit, 'w) io"
  rh_rename :: "string \<Rightarrow> string \<Rightarrow> (unit, 'w) io"
  rh_get_listing :: "string \<Rightarrow> string option \<Rightarrow> 'w \<Rightarrow> source_entry list reply \<times> 'w"
  rh_get_file :: "string \<Rightarrow> string option \<Rightarrow> 'w \<Rightarrow> file_reply \<times> 'w"
  rh_status_text :: "nat \<Rightarrow> string"
  rh_sha1_hex :: "string \<Rightarrow> string"

definition DEFAULT_BIOS_SOURCE_URL :: string where
  "DEFAULT_BIOS_SOURCE_URL = ''https://github.com/Abdess/retrobios''"

definition MAX_SOURCE_FILE_BYTES :: nat where "MAX_SOURCE_FILE_BYTES = 128 * 1024 * 1024"

definition encode_path :: "string \<Rightarrow> string" where
  "encode_path path = concat (map (\<lambda>c. if c = CHR '' '' then ''%20'' else [c]) path)"

text \<open>\<^verbatim>\<open>trim_end_matches\<close> with a non-empty pattern drops it as often as it ends the text.\<close>

function trim_end_matches :: "string \<Rightarrow> string \<Rightarrow> string" where
  "trim_end_matches suffix s =
     (if suffix \<noteq> [] \<and> ends_with suffix s then trim_end_matches suffix (take (length s - length suffix) s) else s)"
  by auto
termination
  by (relation "measure (\<lambda>(_, s). length s)")
     (auto simp: ends_with_def neq_Nil_conv)

declare trim_end_matches.simps [simp del]

definition BiosSource_parse :: "string \<Rightarrow> string option \<Rightarrow> readiness_error + bios_source" where
  "BiosSource_parse url token =
     (case strip_prefix ''https://github.com/'' (trim_end_char (CHR ''/'') (trim url)) of
        None \<Rightarrow> Inl InvalidSourceUrl
      | Some rest \<Rightarrow>
          (case split (CHR ''/'') rest of
             owner # repo # tail \<Rightarrow>
               if owner = [] \<or> repo = [] then Inl InvalidSourceUrl
               else let source = (\<lambda>branch. Inr \<lparr>src_owner = owner, src_repo = trim_end_matches ''.git'' repo,
                      src_branch = branch, src_token = token\<rparr>) in
                 (case tail of
                    [] \<Rightarrow> source None
                  | t # branch # _ \<Rightarrow>
                      if t = ''tree'' \<and> branch \<noteq> [] then source (Some branch) else Inl InvalidSourceUrl
                  | _ \<Rightarrow> Inl InvalidSourceUrl)
           | _ \<Rightarrow> Inl InvalidSourceUrl))"

definition BiosSource_resolve :: "string option \<Rightarrow> string option \<Rightarrow> readiness_error + bios_source" where
  "BiosSource_resolve url token = BiosSource_parse (or_else url DEFAULT_BIOS_SOURCE_URL) token"

definition BiosSource_from_env :: "(string \<rightharpoonup> string) \<Rightarrow> readiness_error + bios_source" where
  "BiosSource_from_env env =
     BiosSource_resolve (option_filter (\<lambda>v. trim v \<noteq> []) (env ''HEARTHDECK_BIOS_SOURCE_URL''))
       (option_filter (\<lambda>v. v \<noteq> []) (env ''HEARTHDECK_BIOS_SOURCE_TOKEN''))"

definition listing_url :: "bios_source \<Rightarrow> string \<Rightarrow> string" where
  "listing_url source folder =
     ''https://api.github.com/repos/'' @ src_owner source @ ''/'' @ src_repo source @ ''/contents/'' @ encode_path folder
     @ (case src_branch source of None \<Rightarrow> [] | Some branch \<Rightarrow> ''?ref='' @ encode_path branch)"

definition list_folder ::
  "('w, 'x) readiness_host_scheme \<Rightarrow> bios_source \<Rightarrow> string \<Rightarrow> 'w \<Rightarrow> (string + source_entry list) \<times> 'w" where
  "list_folder h source folder w =
     (case rh_get_listing h (listing_url source folder) (src_token source) w of (r, w) \<Rightarrow>
       ((case r of
           NoReply err \<Rightarrow> Inl (''could not reach the BIOS source: '' @ err)
         | Answer status body \<Rightarrow>
             if \<not> is_success status
             then Inl (''the BIOS source returned '' @ rh_status_text h status @ '' for '' @ folder)
             else map_sum (\<lambda>err. ''the BIOS source sent an unreadable listing: '' @ err) id body), w))"

definition download_file ::
  "('w, 'x) readiness_host_scheme \<Rightarrow> bios_source \<Rightarrow> string \<Rightarrow> 'w \<Rightarrow> (string + string) \<times> 'w" where
  "download_file h source url w =
     (case rh_get_file h url (src_token source) w of (r, w) \<Rightarrow>
       ((case r of
           FileUnreachable err \<Rightarrow> Inl (''could not download from the BIOS source: '' @ err)
         | FileAnswer status content_length body \<Rightarrow>
             if \<not> is_success status
             then Inl (''the BIOS source returned '' @ rh_status_text h status @ '' for this file'')
             else if (case content_length of None \<Rightarrow> False | Some n \<Rightarrow> MAX_SOURCE_FILE_BYTES < n)
             then Inl ''the file is too large to be a BIOS dump''
             else (case body of
                 Inl err \<Rightarrow> Inl (''the download was cut short: '' @ err)
               | Inr bytes \<Rightarrow>
                   if MAX_SOURCE_FILE_BYTES < length bytes
                   then Inl ''the file is too large to be a BIOS dump'' else Inr bytes)), w))"

section \<open>The fetcher\<close>

text \<open>A run's state: the listings it has read, and the world.\<close>

record 'w fetcher =
  ft_listings :: "string \<rightharpoonup> (string + source_entry list)"
  ft_world :: 'w

definition SourceFetcher_new :: "'w \<Rightarrow> 'w fetcher" where
  "SourceFetcher_new w = \<lparr>ft_listings = Map.empty, ft_world = w\<rparr>"

definition SourceFetcher_listing ::
  "('w, 'x) readiness_host_scheme \<Rightarrow> bios_source \<Rightarrow> string \<Rightarrow> 'w fetcher \<Rightarrow> (string + source_entry list) \<times> 'w fetcher" where
  "SourceFetcher_listing h source folder f =
     (case ft_listings f folder of
        Some known \<Rightarrow> (known, f)
      | None \<Rightarrow>
          (case list_folder h source folder (ft_world f) of (fresh, w) \<Rightarrow>
             (fresh, f\<lparr>ft_listings := (ft_listings f)(folder \<mapsto> fresh), ft_world := w\<rparr>)))"

definition SourceFetcher_download ::
  "('w, 'x) readiness_host_scheme \<Rightarrow> bios_source \<Rightarrow> source_entry \<Rightarrow> 'w fetcher \<Rightarrow> (string + string) \<times> 'w fetcher" where
  "SourceFetcher_download h source entry f =
     (case se_download_url entry of
        None \<Rightarrow> (Inl ''the source offers no download URL for this file'', f)
      | Some url \<Rightarrow> (case download_file h source url (ft_world f) of (r, w) \<Rightarrow> (r, f\<lparr>ft_world := w\<rparr>)))"

fun first_min :: "('a \<Rightarrow> nat) \<Rightarrow> 'a list \<Rightarrow> 'a option" where
  "first_min key [] = None"
| "first_min key (x # xs) =
     (case first_min key xs of None \<Rightarrow> Some x | Some y \<Rightarrow> if key y < key x then Some y else Some x)"

definition has_prefix_of :: "string list \<Rightarrow> string \<Rightarrow> bool" where
  "has_prefix_of prefixes name \<longleftrightarrow>
     (\<exists>prefix\<in>set prefixes. starts_with (map ascii_lower prefix) (map ascii_lower name))"

definition candidate_rank :: "string list \<Rightarrow> string list \<Rightarrow> source_entry \<Rightarrow> nat" where
  "candidate_rank prefer reject candidate =
     (if has_prefix_of reject (se_name candidate) then 2
      else if has_prefix_of prefer (se_name candidate) then 0 else 1)"

fun pick_candidate :: "source_entry list \<Rightarrow> bios_accept \<Rightarrow> source_entry option" where
  "pick_candidate entries (Known known) =
     find_map (\<lambda>entry. find (\<lambda>candidate. eq_ignore_ascii_case (se_name candidate) (kb_name entry)) entries) known"
| "pick_candidate entries (Pattern label extension sz prefer reject) =
     first_min (candidate_rank prefer reject)
       (filter (\<lambda>candidate. name_satisfies (se_name candidate) (Pattern [] extension sz prefer reject)
          \<and> se_size candidate = sz) entries)"

definition with_extension :: "string \<Rightarrow> string \<Rightarrow> string" where
  "with_extension ext path =
     (case file_stem path of
        None \<Rightarrow> path
      | Some stem \<Rightarrow> path_join (or_else (path_parent path) []) (stem @ ''.'' @ ext))"

definition io_map_err :: "(string \<Rightarrow> string) \<Rightarrow> ('a, 'w) io \<Rightarrow> ('a, 'w) io" where
  "io_map_err f m w = (case m w of (r, w) \<Rightarrow> (map_sum f id r, w))"

definition readiness_write_file ::
  "('w, 'x) readiness_host_scheme \<Rightarrow> string \<Rightarrow> string \<Rightarrow> (unit, 'w) io" where
  "readiness_write_file h target bytes =
     (let failed = io_map_err (\<lambda>err. ''could not write '' @ target @ '': '' @ err);
          partial = with_extension ''partial'' target
      in io_then (case path_parent target of None \<Rightarrow> io_ok () | Some parent \<Rightarrow> failed (rh_create_dir_all h parent)) (\<lambda>_.
         io_then (failed (rh_write h partial bytes)) (\<lambda>_.
         failed (rh_rename h partial target))))"

record retro_bios_sync_failure =
  bf_filename :: string
  bf_reason :: string

definition place_bios ::
  "('w, 'x) readiness_host_scheme \<Rightarrow> bios_source \<Rightarrow> bios_slot \<Rightarrow> string \<Rightarrow> 'w fetcher
     \<Rightarrow> (retro_bios_sync_failure + string) \<times> 'w fetcher" where
  "place_bios h source slot system_dir f =
     (let failure = (\<lambda>filename reason. Inl \<lparr>bf_filename = filename, bf_reason = reason\<rparr>);
          display_name = slot_display_name slot;
          folder = ''bios/'' @ bs_system slot in
      case SourceFetcher_listing h source folder f of
        (Inl reason, f) \<Rightarrow> (failure display_name reason, f)
      | (Inr entries, f) \<Rightarrow>
     (case pick_candidate entries (bs_accept slot) of
        None \<Rightarrow> (failure display_name (''no matching file in the source's '' @ folder), f)
      | Some candidate \<Rightarrow>
          let name = canonical_name slot (se_name candidate) in
     (case SourceFetcher_download h source candidate f of
        (Inl reason, f) \<Rightarrow> (failure name reason, f)
      | (Inr bytes, f) \<Rightarrow>
          if \<not> file_is_verified (rh_sha1_hex h) (se_name candidate) bytes (bs_accept slot)
          then (failure name ''the downloaded file failed verification'', f)
          else (case readiness_write_file h (target_path slot name system_dir) bytes (ft_world f) of
             (Inl reason, w) \<Rightarrow> (failure name reason, f\<lparr>ft_world := w\<rparr>)
           | (Inr _, w) \<Rightarrow> (Inr name, f\<lparr>ft_world := w\<rparr>)))))"

definition place_core ::
  "('w, 'x) readiness_host_scheme \<Rightarrow> bios_source \<Rightarrow> string \<Rightarrow> string \<Rightarrow> 'w fetcher \<Rightarrow> (string + unit) \<times> 'w fetcher" where
  "place_core h source core_file user_cores_dir f =
     (case SourceFetcher_listing h source ''cores'' f of
        (Inl reason, f) \<Rightarrow> (Inl reason, f)
      | (Inr entries, f) \<Rightarrow>
     (case find (\<lambda>entry. se_name entry = core_file) entries of
        None \<Rightarrow> (Inl (''no '' @ core_file @ '' in the source's cores/ folder''), f)
      | Some candidate \<Rightarrow>
     (case SourceFetcher_download h source candidate f of
        (Inl reason, f) \<Rightarrow> (Inl reason, f)
      | (Inr bytes, f) \<Rightarrow>
          if \<not> is_elf bytes then (Inl ''the downloaded core is not a shared library'', f)
          else (case readiness_write_file h (path_join user_cores_dir core_file) bytes (ft_world f) of
             (r, w) \<Rightarrow> (r, f\<lparr>ft_world := w\<rparr>)))))"

section \<open>Readiness\<close>

record readiness_paths =
  rd_cores_dir :: string
  rd_system_dir :: string
  rd_user_cores_dir :: string

definition ReadinessPaths_discover :: "(string \<rightharpoonup> string) \<Rightarrow> readiness_paths" where
  "ReadinessPaths_discover env =
     (let save_root = daemon_save_root env in
      \<lparr>rd_cores_dir = CORE_DIRECTORY, rd_system_dir = retro_system_dir save_root,
       rd_user_cores_dir = retro_cores_dir save_root\<rparr>)"

datatype slot_status = SlotMissing | SlotPresent string bool

definition scan_slot_file ::
  "('w, 'x) readiness_host_scheme \<Rightarrow> bios_slot \<Rightarrow> string \<Rightarrow> 'w \<Rightarrow> string \<Rightarrow> (string \<times> bool) option \<Rightarrow> (string \<times> bool) option" where
  "scan_slot_file h slot directory w name found =
     (if \<not> name_satisfies name (bs_accept slot) then found
      else let verified = (case rh_read h (path_join directory name) w of
                 Some bytes \<Rightarrow> file_is_verified (rh_sha1_hex h) name bytes (bs_accept slot)
               | None \<Rightarrow> False)
           in case found of Some (_, True) \<Rightarrow> found | _ \<Rightarrow> Some (name, verified))"

definition slot_state :: "('w, 'x) readiness_host_scheme \<Rightarrow> bios_slot \<Rightarrow> string \<Rightarrow> 'w \<Rightarrow> slot_status" where
  "slot_state h slot system_dir w =
     (let directory = slot_directory slot system_dir in
      case rh_read_dir h directory w of
        None \<Rightarrow> SlotMissing
      | Some names \<Rightarrow>
          (case fold (scan_slot_file h slot directory w) names None of
             Some (name, verified) \<Rightarrow> SlotPresent name verified
           | None \<Rightarrow> SlotMissing))"

record retro_bios_file =
  rb_system :: string
  rb_filename :: string
  rb_required :: bool
  rb_present :: bool
  rb_verified :: bool
  rb_target :: string

record retro_core_readiness =
  rc_core_filename :: string
  rc_package :: string
  rc_installed :: bool

record retro_system_readiness =
  rs_platform :: string
  rs_display_name :: string
  rs_core :: retro_core_readiness
  rs_bios :: "retro_bios_file list"

definition bios_file_status :: "('w, 'x) readiness_host_scheme \<Rightarrow> bios_slot \<Rightarrow> string \<Rightarrow> 'w \<Rightarrow> retro_bios_file" where
  "bios_file_status h slot system_dir w =
     (case (case slot_state h slot system_dir w of
              SlotMissing \<Rightarrow> (slot_display_name slot, False, False)
            | SlotPresent name verified \<Rightarrow> (name, True, verified)) of
        (filename, present, verified) \<Rightarrow>
          \<lparr>rb_system = bs_system slot, rb_filename = filename, rb_required = bs_required slot,
           rb_present = present, rb_verified = verified, rb_target = slot_target_display slot filename\<rparr>)"

definition platform_readiness ::
  "('w, 'x) readiness_host_scheme \<Rightarrow> readiness_paths \<Rightarrow> 'w \<Rightarrow> romm_platform \<Rightarrow> retro_system_readiness option" where
  "platform_readiness h paths w platform =
     (let fs_slug = platform_slug platform in
      case core_filename_for fs_slug [] of
        None \<Rightarrow> None
      | Some core_filename \<Rightarrow> Some
          \<lparr>rs_platform = fs_slug,
           rs_display_name = or_else (rp_display_name platform) (rp_name platform),
           rs_core = \<lparr>rc_core_filename = core_filename,
             rc_package = or_else (core_package_for core_filename) [],
             rc_installed = find_core (\<lambda>p. rh_is_file h p w) core_filename
               [rd_cores_dir paths, rd_user_cores_dir paths] \<noteq> None\<rparr>,
           rs_bios = map (\<lambda>slot. bios_file_status h slot (rd_system_dir paths) w) (bios_slots_for fs_slug)\<rparr>)"

definition readiness ::
  "('w, 'x) readiness_host_scheme \<Rightarrow> readiness_paths \<Rightarrow> romm_platform list \<Rightarrow> 'w \<Rightarrow> retro_system_readiness list" where
  "readiness h paths ps w =
     sort_key rs_display_name (List.map_filter (platform_readiness h paths w) (active_platforms ps))"

definition missing_core_packages :: "retro_system_readiness list \<Rightarrow> string list" where
  "missing_core_packages report =
     remdups_adj (sort (filter (\<lambda>package. package \<noteq> [])
       (map (\<lambda>entry. rc_package (rs_core entry)) (filter (\<lambda>entry. \<not> rc_installed (rs_core entry)) report))))"

definition install_missing_cores ::
  "(bridge_request \<Rightarrow> string + bridge_response) \<Rightarrow> retro_system_readiness list \<Rightarrow> string + retro_core_install_report" where
  "install_missing_cores bridge_call report =
     (let packages = missing_core_packages report in
      if packages = [] then Inr \<lparr>cr_installed = [], cr_failed = []\<rparr>
      else case bridge_call (InstallRetroCores packages) of
        Inl err \<Rightarrow> Inl err
      | Inr (RetroCoresInstalled r) \<Rightarrow> Inr r
      | Inr (Error _ message) \<Rightarrow> Inl (''bridge rejected the core install: '' @ message)
      | Inr _ \<Rightarrow> Inl ''bridge answered the core install with an unexpected response'')"

definition missing_source_cores :: "retro_system_readiness list \<Rightarrow> string list" where
  "missing_source_cores report =
     remdups_adj (sort (map (\<lambda>entry. rc_core_filename (rs_core entry))
       (filter (\<lambda>entry. \<not> rc_installed (rs_core entry) \<and> rc_package (rs_core entry) = []
          \<and> rc_core_filename (rs_core entry) \<in> set SOURCE_ONLY_CORES) report)))"

record retro_bios_sync_report =
  br_fetched :: "string list"
  br_failed :: "retro_bios_sync_failure list"
  br_readiness :: "retro_system_readiness list"

text \<open>The loop over the slots: one that is verified on disk is left alone.\<close>

fun sync_slots ::
  "('w, 'x) readiness_host_scheme \<Rightarrow> bios_source \<Rightarrow> string \<Rightarrow> bios_slot list \<Rightarrow> 'w fetcher
     \<Rightarrow> (retro_bios_sync_failure + string) list \<times> 'w fetcher" where
  "sync_slots h source system_dir [] f = ([], f)"
| "sync_slots h source system_dir (slot # slots) f =
     (case slot_state h slot system_dir (ft_world f) of
        SlotPresent _ True \<Rightarrow> sync_slots h source system_dir slots f
      | _ \<Rightarrow>
          (case place_bios h source slot system_dir f of (r, f) \<Rightarrow>
             (case sync_slots h source system_dir slots f of (rs, f) \<Rightarrow> (r # rs, f))))"

definition lefts :: "('a + 'b) list \<Rightarrow> 'a list" where
  "lefts rs = List.map_filter (\<lambda>r. case r of Inl a \<Rightarrow> Some a | Inr _ \<Rightarrow> None) rs"

definition rights :: "('a + 'b) list \<Rightarrow> 'b list" where
  "rights rs = List.map_filter (\<lambda>r. case r of Inl _ \<Rightarrow> None | Inr b \<Rightarrow> Some b) rs"

definition sync_bios ::
  "('w, 'x) readiness_host_scheme \<Rightarrow> readiness_paths \<Rightarrow> bios_source \<Rightarrow> romm_platform list \<Rightarrow> 'w \<Rightarrow> retro_bios_sync_report \<times> 'w" where
  "sync_bios h paths source ps w =
     (case sync_slots h source (rd_system_dir paths) (active_slots ps) (SourceFetcher_new w) of (rs, f) \<Rightarrow>
        (\<lparr>br_fetched = rights rs, br_failed = lefts rs, br_readiness = readiness h paths ps (ft_world f)\<rparr>, ft_world f))"

end
