(* ===== verification/Readiness_Props.thy ===== *)
theory Readiness_Props
  imports Daemon_Readiness
begin

text \<open>
  What the readiness report and the BIOS sync promise: the sync puts only verified dumps in place,
  the report agrees with what a launch resolves, and the packages it asks for pass the bridge's
  check of their names.
\<close>

section \<open>The sync writes verified files only\<close>

lemma BIOS_SLOTS_distinct: "distinct BIOS_SLOTS"
  by (simp add: BIOS_SLOTS_def PS1_SLOTTED_PLATFORMS_def PS2_SLOTTED_PLATFORMS_def PCE_SLOTTED_PLATFORMS_def)

text \<open>
  The files of a world, by the components of their paths. Creating directories and asking the
  network leave them alone, a write touches the file it names, and a rename either replaces its
  target or changes nothing.
\<close>

definition keeps_files :: "('w, 'x) readiness_host_scheme \<Rightarrow> ('w \<Rightarrow> path_component list \<rightharpoonup> string) \<Rightarrow> bool" where
  "keeps_files h files \<longleftrightarrow>
     (\<forall>p w. files (snd (rh_create_dir_all h p w)) = files w)
     \<and> (\<forall>u t w. files (snd (rh_get_listing h u t w)) = files w)
     \<and> (\<forall>u t w. files (snd (rh_get_file h u t w)) = files w)
     \<and> (\<forall>p b w c. c \<noteq> path_components p \<longrightarrow> files (snd (rh_write h p b w)) c = files w c)
     \<and> (\<forall>p b w u w'. rh_write h p b w = (Inr u, w') \<longrightarrow> files w' (path_components p) = Some b)
     \<and> (\<forall>a b w e w'. rh_rename h a b w = (Inl e, w') \<longrightarrow> files w' = files w)
     \<and> (\<forall>a b w u w'. rh_rename h a b w = (Inr u, w') \<longrightarrow>
          files w' = (files w)(path_components a := None, path_components b := files w (path_components a)))"

lemma keeps_filesD:
  assumes "keeps_files h files"
  shows "files (snd (rh_create_dir_all h p w)) = files w"
    and "files (snd (rh_get_listing h u t w)) = files w"
    and "files (snd (rh_get_file h u t w)) = files w"
    and "c \<noteq> path_components p \<Longrightarrow> files (snd (rh_write h p b w)) c = files w c"
    and "rh_write h p b w = (Inr v, w') \<Longrightarrow> files w' (path_components p) = Some b"
    and "rh_rename h a q w = (Inl e, w') \<Longrightarrow> files w' = files w"
    and "rh_rename h a q w = (Inr v, w') \<Longrightarrow>
      files w' = (files w)(path_components a := None, path_components q := files w (path_components a))"
  using assms unfolding keeps_files_def by - (simp, simp, simp, simp, metis, metis, metis)

lemma stem_partial:
  assumes "file_stem t = Some stem"
  shows "path_extension (with_extension ''partial'' t) = Some ''partial''"
proof -
  obtain n where n: "file_name t = Some n" and stem: "fst (rsplit_dot n) = Some stem"
    using assms by (auto simp: file_stem_def split: option.splits)
  have "Normal n \<in> set (path_components t)"
    using n set_rev[of "path_components t"] by (auto simp: file_name_def split: list.splits path_component.splits)
  then have "plain_name n" by (rule component_plain)
  moreover have "set stem \<subseteq> set n" "stem \<noteq> []"
    using stem \<open>plain_name n\<close>
    by (auto simp: rsplit_dot_def split_once_Some plain_name_def split: option.splits prod.splits if_splits)
       (metis in_set_conv_decomp set_rev append_Cons set_append Un_iff)
  ultimately have plain: "plain_name (stem @ ''.partial'')" by (auto simp: plain_name_def)
  have "rsplit_dot (stem @ ''.partial'') = (Some stem, Some ''partial'')"
    using \<open>stem \<noteq> []\<close> by (simp add: rsplit_dot_def)
  then have "path_extension (stem @ ''.partial'') = Some ''partial''"
    by (simp add: path_extension_def file_name_plain[OF plain])
  then show ?thesis using assms by (simp add: with_extension_def path_extension_join[OF plain])
qed

lemma file_name_join_any:
  assumes "file_name n = Some x"
  shows "file_name (path_join d n) = Some x"
proof (cases "is_absolute n \<or> d = []")
  case True
  then show ?thesis using assms by (auto simp: path_join_def)
next
  case False
  then have a: "\<not> is_absolute n" "d \<noteq> []" by auto
  obtain cs where "rev (path_components n) = Normal x # cs"
    using assms by (auto simp: file_name_def split: list.splits path_component.splits)
  then have n: "path_components n = rev cs @ [Normal x]" by (metis rev.simps(2) rev_rev_ident)
  have "relative_components n \<noteq> []"
    using n path_components_relative[OF a(1)] by (auto split: if_splits)
  moreover from this have "last (relative_components n) = Normal x"
    using n path_components_relative[OF a(1)] by (metis last_appendR last_snoc)
  ultimately have ends: "relative_components n = butlast (relative_components n) @ [Normal x]"
    by (metis append_butlast_last_id)
  have "rev (path_components (path_join d n)) = Normal x # rev (butlast (relative_components n)) @ rev (path_components d)"
    unfolding path_components_join[OF a(2,1)] by (subst ends) simp
  then show ?thesis by (simp add: file_name_def)
qed

lemma io_then_cases:
  assumes "io_then m f w = (r, w')"
  obtains (failed) e where "m w = (Inl e, w')" | (ok) a w1 where "m w = (Inr a, w1)" "f a w1 = (r, w')"
  using assms by (auto simp: io_then_def split: prod.splits sum.splits)

lemma io_map_err_Inr: "io_map_err f m w = (Inr a, w') \<longleftrightarrow> m w = (Inr a, w')"
  by (cases "m w"; cases "fst (m w)") (auto simp: io_map_err_def)

lemma io_map_err_snd: "io_map_err f m w = (r, w') \<Longrightarrow> w' = snd (m w)"
  by (auto simp: io_map_err_def split: prod.splits)

lemma io_map_err_Inl: "io_map_err f m w = (Inl e, w') \<Longrightarrow> \<exists>e'. m w = (Inl e', w')"
  by (cases "m w"; cases "fst (m w)") (auto simp: io_map_err_def)

lemma write_file_files:
  assumes "keeps_files h files" and "file_stem target \<noteq> None" and "path_extension p \<noteq> Some ''partial''"
    and "readiness_write_file h target bytes w = (r, w')"
  shows "files w' (path_components p) = files w (path_components p)
    \<or> (path_components p = path_components target \<and> files w' (path_components p) = Some bytes)"
proof -
  let ?partial = "with_extension ''partial'' target"
  let ?failed = "io_map_err (\<lambda>err. ''could not write '' @ target @ '': '' @ err)"
  have other: "path_components p \<noteq> path_components ?partial"
    using assms(2,3) stem_partial path_extension_cong[of p ?partial] by fastforce
  have parent: "files w1 = files w"
    if "(case path_parent target of None \<Rightarrow> io_ok () | Some parent \<Rightarrow> ?failed (rh_create_dir_all h parent)) w = (x, w1)" for x w1
    using that keeps_filesD(1)[OF assms(1)] by (auto simp: io_ok_def dest: io_map_err_snd split: option.splits)
  have written: "files w2 (path_components p) = files w1 (path_components p)"
    if "?failed (rh_write h ?partial bytes) w1 = (x, w2)" for x w1 w2
    using io_map_err_snd[OF that] keeps_filesD(4)[OF assms(1) other] by simp
  from assms(4)[unfolded readiness_write_file_def Let_def] show ?thesis
  proof (cases rule: io_then_cases)
    case (failed e)
    then show ?thesis using parent by simp
  next
    case (ok u w1)
    from ok(2) show ?thesis
    proof (cases rule: io_then_cases)
      case (failed e)
      then show ?thesis using parent[OF ok(1)] written by simp
    next
      case (ok v w2)
      note w2 = written[OF ok(1)] parent[OF \<open>_ w = (Inr u, w1)\<close>]
        keeps_filesD(5)[OF assms(1), OF ok(1)[unfolded io_map_err_Inr]]
      show ?thesis
      proof (cases r)
        case (Inl e)
        then show ?thesis using io_map_err_Inl[of _ _ _ e w'] ok(2) keeps_filesD(6)[OF assms(1)] w2 by fastforce
      next
        case (Inr x)
        then show ?thesis using ok(2) keeps_filesD(7)[OF assms(1)] w2 other by (auto simp: io_map_err_Inr)
      qed
    qed
  qed
qed

lemma known_entry_member: "known_entry known name = Some e \<Longrightarrow> e \<in> set known \<and> eq_ignore_ascii_case (kb_name e) name"
  unfolding known_entry_def by (metis (mono_tags, lifting) find_Some_iff nth_mem)

lemma known_entry_canonical:
  "known_entry known name = Some e \<Longrightarrow> known_entry known (kb_name e) = Some e"
  using known_entry_member[of known name e] by (simp add: known_entry_def eq_ignore_ascii_case_def)

lemma canonical_verified:
  assumes "name_satisfies source_name (bs_accept slot)"
    and "file_is_verified sha1 source_name bytes (bs_accept slot)"
  shows "name_satisfies (canonical_name slot source_name) (bs_accept slot)
    \<and> file_is_verified sha1 (canonical_name slot source_name) bytes (bs_accept slot)"
proof (cases "bs_accept slot")
  case (Known known)
  then obtain e where e: "known_entry known source_name = Some e"
    using assms(2) by (auto split: option.splits)
  then show ?thesis
    using assms(2) known_entry_canonical[OF e] known_entry_member[OF e]
    by (auto simp: Known canonical_name_def or_else_def eq_ignore_ascii_case_def)
qed (use assms in \<open>simp add: canonical_name_def\<close>)

lemma first_min_in: "first_min key xs = Some x \<Longrightarrow> x \<in> set xs"
  by (induction xs) (auto split: option.splits if_splits)

lemma find_map_SomeD: "find_map f xs = Some b \<Longrightarrow> \<exists>x\<in>set xs. f x = Some b"
  by (induction xs) (auto split: option.splits)

lemma pick_satisfies:
  assumes "pick_candidate entries acc = Some c"
  shows "name_satisfies (se_name c) acc"
proof (cases acc)
  case (Known known)
  then obtain e where "e \<in> set known" "find (\<lambda>c. eq_ignore_ascii_case (se_name c) (kb_name e)) entries = Some c"
    using assms by (auto dest: find_map_SomeD)
  then show ?thesis by (auto simp: Known find_Some_iff eq_ignore_ascii_case_def intro!: bexI[of _ e])
qed (use assms in \<open>auto dest!: first_min_in\<close>)

lemma target_stem:
  assumes "\<forall>e known. acc = Known known \<longrightarrow> e \<in> set known \<longrightarrow> plain_name (kb_name e)"
    and "bs_accept slot = acc" and "name_satisfies name acc"
  shows "file_stem (target_path slot (canonical_name slot name) dir) \<noteq> None"
proof -
  let ?n = "canonical_name slot name"
  have "\<exists>x. file_name ?n = Some x"
  proof (cases acc)
    case (Known known)
    then obtain e where "known_entry known name = Some e"
      using assms(3) by (cases "known_entry known name") (auto simp: known_entry_def find_None_iff)
    then show ?thesis
      using assms(1,2) Known known_entry_member file_name_plain by (fastforce simp: canonical_name_def or_else_def)
  qed (use assms in \<open>auto simp: canonical_name_def path_extension_def split: option.splits\<close>)
  then obtain x where x: "file_name ?n = Some x" by auto
  then show ?thesis using file_name_join_any[OF x] by (simp add: target_path_def file_stem_def rsplit_dot_def split: option.splits)
qed

lemma BIOS_SLOTS_plain:
  "slot \<in> set BIOS_SLOTS \<Longrightarrow> bs_accept slot = Known known \<Longrightarrow> e \<in> set known \<Longrightarrow> plain_name (kb_name e)"
  by (auto simp: BIOS_SLOTS_def plain_name_def)

definition verified_for :: "('w, 'x) readiness_host_scheme \<Rightarrow> string \<Rightarrow> bios_slot list \<Rightarrow> path_component list \<Rightarrow> string \<Rightarrow> bool" where
  "verified_for h system_dir slots c bytes \<longleftrightarrow>
     (\<exists>slot\<in>set slots. \<exists>name. c = path_components (target_path slot name system_dir)
        \<and> name_satisfies name (bs_accept slot) \<and> file_is_verified (rh_sha1_hex h) name bytes (bs_accept slot))"

lemma listing_files: "keeps_files h files \<Longrightarrow> SourceFetcher_listing h source folder f = (r, f') \<Longrightarrow> files (ft_world f') = files (ft_world f)"
  using keeps_filesD(2)[of h files]
  by (auto simp: SourceFetcher_listing_def list_folder_def split: option.splits prod.splits) (metis snd_conv)

lemma download_files: "keeps_files h files \<Longrightarrow> SourceFetcher_download h source entry f = (r, f') \<Longrightarrow> files (ft_world f') = files (ft_world f)"
  using keeps_filesD(3)[of h files]
  by (auto simp: SourceFetcher_download_def download_file_def split: option.splits prod.splits) (metis snd_conv)

lemma place_bios_files:
  assumes "keeps_files h files" and "slot \<in> set BIOS_SLOTS" and "path_extension p \<noteq> Some ''partial''"
    and "place_bios h source slot system_dir f = (r, f')"
  shows "files (ft_world f') (path_components p) = files (ft_world f) (path_components p)
    \<or> (\<exists>bytes. files (ft_world f') (path_components p) = Some bytes
         \<and> verified_for h system_dir [slot] (path_components p) bytes)"
proof -
  obtain rl f1 where l: "SourceFetcher_listing h source (''bios/'' @ bs_system slot) f = (rl, f1)" by fastforce
  note fl = listing_files[OF assms(1) l]
  show ?thesis
  proof (cases "\<exists>entries c rd f2 bytes. rl = Inr entries \<and> pick_candidate entries (bs_accept slot) = Some c
      \<and> SourceFetcher_download h source c f1 = (rd, f2) \<and> rd = Inr bytes
      \<and> file_is_verified (rh_sha1_hex h) (se_name c) bytes (bs_accept slot)")
    case False
    then have "files (ft_world f') = files (ft_world f)"
      using assms(4) l fl
      by (auto simp: place_bios_def Let_def dest!: download_files[OF assms(1)] split: sum.splits option.splits prod.splits if_splits)
    then show ?thesis by simp
  next
    case True
    then obtain entries c f2 bytes where c: "rl = Inr entries" "pick_candidate entries (bs_accept slot) = Some c"
        "SourceFetcher_download h source c f1 = (Inr bytes, f2)"
        "file_is_verified (rh_sha1_hex h) (se_name c) bytes (bs_accept slot)" by blast
    let ?t = "target_path slot (canonical_name slot (se_name c)) system_dir"
    obtain rw w where w: "readiness_write_file h ?t bytes (ft_world f2) = (rw, w)" by fastforce
    have f': "ft_world f' = w"
      using assms(4) l c w by (auto simp: place_bios_def Let_def split: sum.splits)
    note sat = pick_satisfies[OF c(2)]
    have stem: "file_stem ?t \<noteq> None"
      using target_stem[OF _ refl sat] BIOS_SLOTS_plain[OF assms(2)] by blast
    from write_file_files[OF assms(1) stem assms(3) w] show ?thesis
      using canonical_verified[OF sat c(4)] download_files[OF assms(1) c(3)] fl f' by (auto simp: verified_for_def)
  qed
qed

lemma sync_slots_files:
  assumes "keeps_files h files" and "set slots \<subseteq> set BIOS_SLOTS" and "path_extension p \<noteq> Some ''partial''"
    and "sync_slots h source system_dir slots f = (rs, f')"
  shows "files (ft_world f') (path_components p) = files (ft_world f) (path_components p)
    \<or> (\<exists>bytes. files (ft_world f') (path_components p) = Some bytes
         \<and> verified_for h system_dir slots (path_components p) bytes)"
  using assms(2,4)
proof (induction slots arbitrary: f rs)
  case (Cons slot slots)
  have weaken: "verified_for h system_dir slots c b \<Longrightarrow> verified_for h system_dir (slot # slots) c b"
      "verified_for h system_dir [slot] c b \<Longrightarrow> verified_for h system_dir (slot # slots) c b" for c b
    by (auto simp: verified_for_def)
  show ?case
  proof (cases "\<exists>n. slot_state h slot system_dir (ft_world f) = SlotPresent n True")
    case True
    then show ?thesis using Cons weaken by fastforce
  next
    case False
    obtain r f1 where place: "place_bios h source slot system_dir f = (r, f1)" by fastforce
    obtain rs' where rest: "sync_slots h source system_dir slots f1 = (rs', f')"
      using Cons.prems(2) False place by (auto split: slot_status.splits bool.splits prod.splits)
    from place_bios_files[OF assms(1) _ assms(3) place] Cons.IH[OF _ rest] Cons.prems(1) show ?thesis
      using weaken by fastforce
  qed
qed simp

lemma push_slots_set: "set (fold push_slot xs acc) = set xs \<union> set acc"
  by (induction xs arbitrary: acc) (auto simp: push_slot_def)

lemma active_slots_table: "set (active_slots ps) \<subseteq> set BIOS_SLOTS"
  by (auto simp: active_slots_def push_slots_set bios_slots_for_def)

text \<open>
  C37: whatever the source sends and whichever write fails, a BIOS sync changes no file but temporary
  ones (every path with the extension \<^verbatim>\<open>partial\<close>, which is what its temporary files end in) and the
  targets of the slots that the platforms with roms need, and a target it changes holds, complete, a
  dump the slot accepts under that name. Files are told apart by the components of their paths
  (\<open>keeps_files\<close>): links and other writers are outside the claim, and the target of a pattern slot
  carries the source's own file name.
\<close>

theorem bios_sync_places_only_verified_files:
  assumes "keeps_files h files" and "sync_bios h paths source ps w = (report, w')"
    and "path_extension p \<noteq> Some ''partial''"
    and "files w' (path_components p) \<noteq> files w (path_components p)"
  shows "\<exists>slot\<in>set (active_slots ps). \<exists>name bytes.
      path_components p = path_components (target_path slot name (rd_system_dir paths))
      \<and> files w' (path_components p) = Some bytes \<and> name_satisfies name (bs_accept slot)
      \<and> file_is_verified (rh_sha1_hex h) name bytes (bs_accept slot)"
proof -
  obtain rs f where "sync_slots h source (rd_system_dir paths) (active_slots ps) (SourceFetcher_new w) = (rs, f)" "w' = ft_world f"
    using assms(2) by (auto simp: sync_bios_def split: prod.splits)
  from sync_slots_files[OF assms(1) active_slots_table assms(3) this(1)] this(2) assms(4)
  show ?thesis by (auto simp: SourceFetcher_new_def verified_for_def)
qed

text \<open>A library with one Neo Geo game, a source that has the file, and a disk of files.\<close>

definition demo_platform :: romm_platform where
  "demo_platform = \<lparr>rp_id = 1, rp_name = ''Neo Geo'', rp_display_name = None, rp_rom_count = 1, rp_slug = Some ''neogeo'',
     rp_fs_slug = None, rp_url_logo = None, rp_artwork_paths = []\<rparr>"

definition demo_source :: bios_source where
  "demo_source = \<lparr>src_owner = ''o'', src_repo = ''r'', src_branch = None, src_token = None\<rparr>"

definition demo_host :: "(path_component list \<rightharpoonup> string) readiness_host" where
  "demo_host = \<lparr>rh_is_file = (\<lambda>p w. w (path_components p) \<noteq> None), rh_read_dir = (\<lambda>_ _. None),
     rh_read = (\<lambda>p w. w (path_components p)), rh_create_dir_all = (\<lambda>_ w. (Inr (), w)),
     rh_write = (\<lambda>p b w. (Inr (), w(path_components p \<mapsto> b))),
     rh_rename = (\<lambda>a b w. (Inr (), w(path_components a := None, path_components b := w (path_components a)))),
     rh_get_listing = (\<lambda>_ _ w. (Answer 200 (Inr [\<lparr>se_name = ''NEOGEO.zip'', se_size = 3, se_download_url = Some ''u''\<rparr>]), w)),
     rh_get_file = (\<lambda>_ _ w. (FileAnswer 200 (Some 3) (Inr ''bin''), w)),
     rh_status_text = (\<lambda>_. []), rh_sha1_hex = (\<lambda>_. [])\<rparr>"

definition demo_ready_paths :: readiness_paths where
  "demo_ready_paths = \<lparr>rd_cores_dir = CORE_DIRECTORY, rd_system_dir = ''/s'', rd_user_cores_dir = ''/c''\<rparr>"

lemma demo_host_files: "keeps_files demo_host (\<lambda>w. w)"
  by (simp add: keeps_files_def demo_host_def)

lemma demo_slots: "active_slots [demo_platform] = bios_slots_for ''neogeo''"
    "bios_slots_for ''neogeo'' = [\<lparr>bs_platforms = [''neogeo'', ''neo-geo'', ''snk-neo-geo''], bs_system = ''SNK/Neo Geo'',
       bs_target_dir = [], bs_required = True, bs_accept = Known [\<lparr>kb_name = ''neogeo.zip'', kb_sha1 = None, kb_size = None\<rparr>]\<rparr>]"
proof -
  show slots: "bios_slots_for ''neogeo'' = [\<lparr>bs_platforms = [''neogeo'', ''neo-geo'', ''snk-neo-geo''], bs_system = ''SNK/Neo Geo'',
       bs_target_dir = [], bs_required = True, bs_accept = Known [\<lparr>kb_name = ''neogeo.zip'', kb_sha1 = None, kb_size = None\<rparr>]\<rparr>]"
    by (simp add: bios_slots_for_def BIOS_SLOTS_def PS1_SLOTTED_PLATFORMS_def PS2_SLOTTED_PLATFORMS_def PCE_SLOTTED_PLATFORMS_def)
  show "active_slots [demo_platform] = bios_slots_for ''neogeo''"
    by (simp add: active_slots_def active_platforms_def demo_platform_def platform_slug_def or_else_def push_slot_def slots)
qed

lemma demo_paths_eval:
  "path_parent ''/s/neogeo.zip'' = Some ''/s''" "with_extension ''partial'' ''/s/neogeo.zip'' = ''/s/neogeo.partial''"
  "path_components ''/s/neogeo.zip'' = [RootDir, Normal ''s'', Normal ''neogeo.zip'']"
  "path_components ''/s/neogeo.partial'' = [RootDir, Normal ''s'', Normal ''neogeo.partial'']"
  by (simp_all add: path_parent_def with_extension_def file_stem_def file_name_def rsplit_dot_def path_components_def
      path_component_of_def path_join_def is_absolute_def or_else_def Let_def)

lemma demo_write:
  "readiness_write_file demo_host ''/s/neogeo.zip'' b Map.empty = (Inr (), [path_components ''/s/neogeo.zip'' \<mapsto> b])"
  by (auto simp: readiness_write_file_def demo_paths_eval demo_host_def io_then_def io_map_err_def Let_def)

lemma demo_place:
  assumes "bios_slots_for ''neogeo'' = [slot]"
  shows "place_bios demo_host demo_source slot ''/s'' (SourceFetcher_new Map.empty)
    = (Inr ''neogeo.zip'', \<lparr>ft_listings = [''bios/SNK/Neo Geo'' \<mapsto> Inr [\<lparr>se_name = ''NEOGEO.zip'', se_size = 3, se_download_url = Some ''u''\<rparr>]],
        ft_world = [path_components ''/s/neogeo.zip'' \<mapsto> ''bin'']\<rparr>)"
proof -
  have slot: "slot = \<lparr>bs_platforms = [''neogeo'', ''neo-geo'', ''snk-neo-geo''], bs_system = ''SNK/Neo Geo'',
       bs_target_dir = [], bs_required = True, bs_accept = Known [\<lparr>kb_name = ''neogeo.zip'', kb_sha1 = None, kb_size = None\<rparr>]\<rparr>"
    using assms demo_slots(2) by simp
  have case_: "eq_ignore_ascii_case ''NEOGEO.zip'' ''neogeo.zip''" "eq_ignore_ascii_case ''neogeo.zip'' ''NEOGEO.zip''"
    by code_simp+
  have listing: "SourceFetcher_listing demo_host demo_source ''bios/SNK/Neo Geo'' (SourceFetcher_new Map.empty)
      = (Inr [\<lparr>se_name = ''NEOGEO.zip'', se_size = 3, se_download_url = Some ''u''\<rparr>],
         \<lparr>ft_listings = [''bios/SNK/Neo Geo'' \<mapsto> Inr [\<lparr>se_name = ''NEOGEO.zip'', se_size = 3, se_download_url = Some ''u''\<rparr>]],
          ft_world = Map.empty\<rparr>)"
    by (simp add: SourceFetcher_listing_def SourceFetcher_new_def list_folder_def demo_host_def is_success_def)
  have target: "target_path slot ''neogeo.zip'' ''/s'' = ''/s/neogeo.zip''"
    by (simp add: slot target_path_def slot_directory_def path_join_def is_absolute_def)
  have name: "canonical_name slot ''NEOGEO.zip'' = ''neogeo.zip''"
    by (simp add: slot canonical_name_def known_entry_def case_ or_else_def)
  show ?thesis
    using listing target demo_write[of "''bin''"] name
    by (simp add: place_bios_def Let_def slot SourceFetcher_download_def download_file_def case_ known_entry_def
        MAX_SOURCE_FILE_BYTES_def is_success_def demo_host_def[THEN arg_cong[of _ _ rh_get_file]])
qed

lemma demo_sync:
  "snd (sync_bios demo_host demo_ready_paths demo_source [demo_platform] Map.empty)
     (path_components ''/s/neogeo.zip'') = Some ''bin''"
proof -
  obtain slot where slot: "bios_slots_for ''neogeo'' = [slot]" using demo_slots(2) by simp
  have "slot_state demo_host slot ''/s'' (ft_world (SourceFetcher_new Map.empty)) = SlotMissing"
    by (simp add: slot_state_def demo_host_def)
  then have "sync_slots demo_host demo_source ''/s'' [slot] (SourceFetcher_new Map.empty)
      = ([Inr ''neogeo.zip''], snd (place_bios demo_host demo_source slot ''/s'' (SourceFetcher_new Map.empty)))"
    by (simp add: demo_place[OF slot])
  then show ?thesis by (simp add: sync_bios_def demo_ready_paths_def demo_slots(1) slot demo_place[OF slot])
qed

theorem bios_sync_places_only_verified_files_witness:
  "\<exists>slot\<in>set (active_slots [demo_platform]). \<exists>name bytes.
      path_components ''/s/neogeo.zip'' = path_components (target_path slot name ''/s'')
      \<and> snd (sync_bios demo_host demo_ready_paths demo_source [demo_platform] Map.empty) (path_components ''/s/neogeo.zip'') = Some bytes
      \<and> name_satisfies name (bs_accept slot) \<and> file_is_verified (rh_sha1_hex demo_host) name bytes (bs_accept slot)"
proof -
  have "path_extension ''/s/neogeo.zip'' \<noteq> Some ''partial''"
    by (simp add: path_extension_def file_name_def demo_paths_eval rsplit_dot_def)
  from bios_sync_places_only_verified_files[OF demo_host_files _ this, of demo_ready_paths demo_source "[demo_platform]" Map.empty]
  show ?thesis using demo_sync by (simp add: demo_ready_paths_def prod_eq_iff)
qed

section \<open>A report and the launch\<close>

lemma readiness_row:
  "e \<in> set (readiness h paths ps w) \<longleftrightarrow> (\<exists>p\<in>set (active_platforms ps). platform_readiness h paths w p = Some e)"
  by (force simp: readiness_def List.map_filter_def)

text \<open>
  The core of a platform with roms, as the launch resolves it for content that does not name a
  core of its own.
\<close>

lemma content_core:
  assumes "\<forall>ext. path_extension content = Some ext \<longrightarrow> \<not> eq_ignore_ascii_case ''32x'' ext"
  shows "core_filename_for slug content = core_filename_for slug []"
proof -
  have "path_extension [] = None" by (simp add: path_extension_def file_name_def path_components_def)
  then show ?thesis
    using assms by (cases "path_extension content") (simp_all add: core_filename_for_def CORE_BY_CONTENT_EXTENSION_def)
qed

text \<open>
  The report and the launch agree on cores. For a game whose rom is on disk, whose platform has
  a row in the report and whose content is not a 32X cartridge, the launch resolves exactly when the
  row says the core is installed, and then to a file of that core's name.
\<close>

theorem report_agrees_with_launch:
  assumes "romm_credentials_of fault db = Inr c" and "Connection_rom srv st rom_id c = Inr game"
    and "library_rom_path (\<lambda>p. rh_is_file h p w) paths game = Inr rom_path"
    and "Connection_platforms srv st c = Inr ps" and "find (\<lambda>p. rp_id p = rg_platform_id game) ps = Some platform"
    and "e \<in> set (readiness h (ReadinessPaths_discover env) ps w)" and "rs_platform e = platform_slug platform"
    and "\<forall>ext. path_extension (or_else (rg_fs_name game) []) = Some ext \<longrightarrow> \<not> eq_ignore_ascii_case ''32x'' ext"
  shows "if rc_installed (rs_core e)
    then \<exists>d\<in>{CORE_DIRECTORY, retro_cores_dir (daemon_save_root env)}.
      prepare_launch srv st (\<lambda>p. rh_is_file h p w) env fault db paths rom_id
        = Inr \<lparr>rl_core_path = path_join d (rc_core_filename (rs_core e)), rl_rom_path = rom_path, rl_game = game\<rparr>
    else prepare_launch srv st (\<lambda>p. rh_is_file h p w) env fault db paths rom_id
        = Inl (CoreNotInstalled (path_join CORE_DIRECTORY (rc_core_filename (rs_core e))))"
proof -
  let ?find = "find_core (\<lambda>p. rh_is_file h p w) (rc_core_filename (rs_core e))
     [CORE_DIRECTORY, retro_cores_dir (daemon_save_root env)]"
  obtain q where q: "q \<in> set (active_platforms ps)" "platform_readiness h (ReadinessPaths_discover env) w q = Some e"
    using assms(6) by (auto simp: readiness_row)
  then have core: "core_filename_for (platform_slug platform) [] = Some (rc_core_filename (rs_core e))"
      and installed: "rc_installed (rs_core e) \<longleftrightarrow> ?find \<noteq> None"
      and slug: "platform_slug platform \<noteq> []"
    using assms(7) by (auto simp: platform_readiness_def ReadinessPaths_discover_def active_platforms_def Let_def split: option.splits)
  obtain s where s: "(case rp_fs_slug platform of Some s \<Rightarrow> Some s | None \<Rightarrow> rp_slug platform) = Some s" "s = platform_slug platform"
    using slug by (cases "case rp_fs_slug platform of Some s \<Rightarrow> Some s | None \<Rightarrow> rp_slug platform")
      (auto simp: platform_slug_def or_else_def)
  have plan: "prepare_launch srv st (\<lambda>p. rh_is_file h p w) env fault db paths rom_id =
      (case core_path_for (\<lambda>p. rh_is_file h p w) env (rc_core_filename (rs_core e)) of
         Inl err \<Rightarrow> Inl err | Inr core_path \<Rightarrow> Inr \<lparr>rl_core_path = core_path, rl_rom_path = rom_path, rl_game = game\<rparr>)"
    unfolding prepare_launch_def
    by (simp add: assms(1-5) s(1) content_core[OF assms(8)] core[folded s(2)])
  show ?thesis
  proof (cases ?find)
    case None
    then show ?thesis using installed by (simp add: plan core_path_for_def)
  next
    case (Some p)
    then show ?thesis using installed find_core_Some[OF Some] by (auto simp: plan core_path_for_def)
  qed
qed

text \<open>A Super Nintendo game whose core the distribution has installed.\<close>

definition snes_platform :: romm_platform where
  "snes_platform = demo_platform\<lparr>rp_fs_slug := Some ''snes''\<rparr>"

definition snes_server :: "romm_collection list romm_server" where
  "snes_server = demo_server\<lparr>srv_platforms := (\<lambda>_ _. Answer 200 (Inr [snes_platform])),
     srv_rom := (\<lambda>_ _ _. Answer 200 (Inr demo_game))\<rparr>"

definition snes_host :: "(path_component list \<rightharpoonup> string) readiness_host" where
  "snes_host = demo_host\<lparr>rh_is_file := (\<lambda>p _. p \<in> {''/usr/lib/libretro/snes9x_libretro.so'', ''/srv/romm/library/roms/snes/a.sfc''})\<rparr>"

theorem report_agrees_with_launch_witness:
  "\<exists>d\<in>{CORE_DIRECTORY, retro_cores_dir (daemon_save_root Map.empty)}. prepare_launch snes_server [] (\<lambda>p. rh_is_file snes_host p Map.empty) Map.empty None demo_linked demo_paths 7
     = Inr \<lparr>rl_core_path = path_join d ''snes9x_libretro.so'', rl_rom_path = ''/srv/romm/library/roms/snes/a.sfc'', rl_game = demo_game\<rparr>"
proof -
  let ?c = "\<lparr>rc_base_url = ''http://localhost'', rc_token = ''t''\<rparr>"
  let ?p = "snes_platform\<lparr>rp_artwork_paths := platform_artwork_paths snes_platform\<rparr>"
  let ?on = "\<lambda>p. rh_is_file snes_host p Map.empty"
  have slug: "platform_slug ?p = ''snes''"
    by (simp add: platform_slug_def snes_platform_def or_else_def)
  have core: "core_filename_for ''snes'' [] = Some ''snes9x_libretro.so''" by code_simp
  have found: "find_core ?on ''snes9x_libretro.so'' [CORE_DIRECTORY, d] = Some ''/usr/lib/libretro/snes9x_libretro.so''" for d
    by (simp add: snes_host_def CORE_DIRECTORY_def path_join_def is_absolute_def)
  obtain e where e: "platform_readiness snes_host (ReadinessPaths_discover Map.empty) Map.empty ?p = Some e"
      "rs_platform e = ''snes''" "rc_core_filename (rs_core e) = ''snes9x_libretro.so''" "rc_installed (rs_core e)"
    using core found by (auto simp: platform_readiness_def ReadinessPaths_discover_def slug Let_def)
  have cred: "romm_credentials_of None demo_linked = Inr ?c"
    by (simp add: romm_credentials_of_def SettingsRepository_romm_credentials_def demo_linked_def)
  have rom: "Connection_rom snes_server [] 7 ?c = Inr demo_game"
    by (simp add: Connection_rom_def snes_server_def decode_def is_success_def)
  have platforms: "Connection_platforms snes_server [] ?c = Inr [?p]"
    by (simp add: Connection_platforms_def snes_server_def decode_def is_success_def)
  have disk: "library_rom_path ?on demo_paths demo_game = Inr ''/srv/romm/library/roms/snes/a.sfc''"
    by code_simp
  have row: "e \<in> set (readiness snes_host (ReadinessPaths_discover Map.empty) [?p] Map.empty)"
    using e(1) slug by (simp add: readiness_row active_platforms_def snes_platform_def demo_platform_def)
  have content: "\<forall>ext. path_extension (or_else (rg_fs_name demo_game) []) = Some ext \<longrightarrow> \<not> eq_ignore_ascii_case ''32x'' ext"
  proof -
    have "path_extension (or_else (rg_fs_name demo_game) []) = Some ''sfc''" "\<not> eq_ignore_ascii_case ''32x'' ''sfc''"
      by code_simp+
    then show ?thesis by simp
  qed
  have find: "find (\<lambda>p. rp_id p = rg_platform_id demo_game) [?p] = Some ?p"
    by (simp add: demo_game_def snes_platform_def demo_platform_def)
  have "rs_platform e = platform_slug ?p" using e(2) slug by simp
  from report_agrees_with_launch[OF cred rom disk platforms find row this content] e(3,4)
  show ?thesis by simp
qed

text \<open>Content decides over the platform: a green Mega Drive row says nothing of a 32X cartridge filed under it.\<close>

lemma green_row_misses_content_override:
  "core_filename_for ''genesis'' [] = Some ''genesis_plus_gx_libretro.so''
   \<and> core_filename_for ''genesis'' ''Doom.32X'' = Some ''picodrive_libretro.so''"
  by code_simp

text \<open>Without a configured source the sync reads the default one.\<close>

lemma unset_source_is_defaulted:
  assumes "env ''HEARTHDECK_BIOS_SOURCE_URL'' = None" and "env ''HEARTHDECK_BIOS_SOURCE_TOKEN'' = None"
  shows "BiosSource_from_env env = Inr \<lparr>src_owner = ''Abdess'', src_repo = ''retrobios'', src_branch = None, src_token = None\<rparr>"
proof -
  have "trim_end_char (CHR ''/'') (trim DEFAULT_BIOS_SOURCE_URL) = ''https://github.com/Abdess/retrobios''"
    by code_simp
  moreover have "strip_prefix ''https://github.com/'' ''https://github.com/Abdess/retrobios'' = Some ''Abdess/retrobios''"
    by (simp only: strip_prefix_Some) simp
  moreover have "trim_end_matches ''.git'' ''retrobios'' = ''retrobios''"
    by (subst trim_end_matches.simps) (simp add: ends_with_def)
  ultimately show ?thesis
    using assms unfolding BiosSource_from_env_def BiosSource_resolve_def BiosSource_parse_def
    by (simp add: or_else_def option_filter_def Let_def del: strip_prefix_Some)
qed

section \<open>Packages the bridge accepts\<close>

lemma package_installable:
  assumes "core_package_for core = Some package"
  shows "installable package"
proof -
  have "package \<in> set [''libretro-fceumm'', ''libretro-snes9x'', ''libretro-genesis-plus-gx'', ''libretro-picodrive'', ''libretro-mgba'', ''libretro-mupen64plus-next'', ''libretro-beetle-psx'', ''libretro-ppsspp'', ''libretro-desmume'', ''libretro-dolphin'', ''libretro-flycast'', ''libretro-kronos'', ''libretro-beetle-pce-fast'', ''libretro-beetle-supergrafx'', ''libretro-mame'', ''libretro-scummvm'']"
    using map_of_SomeD[OF assms[unfolded core_package_for_def]] by auto
  moreover have "list_all installable [''libretro-fceumm'', ''libretro-snes9x'', ''libretro-genesis-plus-gx'', ''libretro-picodrive'', ''libretro-mgba'', ''libretro-mupen64plus-next'', ''libretro-beetle-psx'', ''libretro-ppsspp'', ''libretro-desmume'', ''libretro-dolphin'', ''libretro-flycast'', ''libretro-kronos'', ''libretro-beetle-pce-fast'', ''libretro-beetle-supergrafx'', ''libretro-mame'', ''libretro-scummvm'']"
    by code_simp
  ultimately show ?thesis unfolding list_all_iff by blast
qed

lemma package_nonempty: "core_package_for core = Some package \<Longrightarrow> package \<noteq> []"
  using package_installable[of core package] by (auto simp: installable_def strip_prefix_def)

lemma package_named: "or_else (core_package_for core) [] = package \<and> package \<noteq> [] \<longleftrightarrow> core_package_for core = Some package"
  using package_nonempty[of core] by (auto simp: or_else_def split: option.splits)

lemma sorted_distinct_remdups_adj: "sorted (xs :: 'a :: linorder list) \<Longrightarrow> distinct (remdups_adj xs)"
  by (induction xs rule: remdups_adj.induct) (auto simp: remdups_adj_Cons' dest: antisym)

lemma row_core:
  "(\<exists>e. platform_readiness h paths w p = Some e \<and> \<not> rc_installed (rs_core e) \<and> rc_package (rs_core e) = package)
   \<longleftrightarrow> (\<exists>core. core_filename_for (platform_slug p) [] = Some core \<and> or_else (core_package_for core) [] = package
        \<and> find_core (\<lambda>f. rh_is_file h f w) core [rd_cores_dir paths, rd_user_cores_dir paths] = None)"
  by (cases "core_filename_for (platform_slug p) []") (auto simp: platform_readiness_def Let_def)

text \<open>
  The packages the daemon asks the bridge to install are the ones whose cores the platforms with
  roms are missing, each once and in order, and the bridge's own check of package names lets every
  such request through.
\<close>

theorem missing_packages_pass_the_bridge:
  assumes "missing_core_packages (readiness h paths ps w) = qs" and "qs \<noteq> []"
  shows "validate_install_packages qs = Inr qs \<and> sorted qs \<and> distinct qs
    \<and> set qs = {package. \<exists>p\<in>set (active_platforms ps). \<exists>core. core_filename_for (platform_slug p) [] = Some core
        \<and> core_package_for core = Some package
        \<and> find_core (\<lambda>f. rh_is_file h f w) core [rd_cores_dir paths, rd_user_cores_dir paths] = None}"
proof -
  have mem: "package \<in> set qs \<longleftrightarrow> (\<exists>p\<in>set (active_platforms ps). \<exists>core. core_filename_for (platform_slug p) [] = Some core
        \<and> core_package_for core = Some package
        \<and> find_core (\<lambda>f. rh_is_file h f w) core [rd_cores_dir paths, rd_user_cores_dir paths] = None)" for package
  proof -
    have "package \<in> set qs \<longleftrightarrow> package \<noteq> [] \<and> (\<exists>e\<in>set (readiness h paths ps w). \<not> rc_installed (rs_core e) \<and> rc_package (rs_core e) = package)"
      unfolding assms(1)[symmetric] missing_core_packages_def by auto
    also have "\<dots> \<longleftrightarrow> package \<noteq> [] \<and> (\<exists>p\<in>set (active_platforms ps). \<exists>e. platform_readiness h paths w p = Some e
        \<and> \<not> rc_installed (rs_core e) \<and> rc_package (rs_core e) = package)"
      unfolding Bex_def readiness_row by blast
    finally show ?thesis
      using package_named[of _ package] unfolding row_core by blast
  qed
  have "list_all installable qs" using mem package_installable by (auto simp: list_all_iff)
  moreover have "sorted qs" "distinct qs"
    unfolding assms(1)[symmetric] missing_core_packages_def by (simp_all add: sorted_remdups_adj sorted_distinct_remdups_adj)
  ultimately show ?thesis using mem assms(2) by (auto simp: validated_packages)
qed

theorem missing_packages_pass_the_bridge_witness:
  "validate_install_packages [''libretro-snes9x''] = Inr [''libretro-snes9x'']
   \<and> missing_core_packages (readiness demo_host demo_ready_paths [snes_platform] Map.empty) = [''libretro-snes9x'']"
proof -
  have "core_filename_for ''snes'' [] = Some ''snes9x_libretro.so''" "core_package_for ''snes9x_libretro.so'' = Some ''libretro-snes9x''"
    by code_simp+
  then obtain e where e: "platform_readiness demo_host demo_ready_paths Map.empty snes_platform = Some e"
      "rs_core e = \<lparr>rc_core_filename = ''snes9x_libretro.so'', rc_package = ''libretro-snes9x'', rc_installed = False\<rparr>"
    by (auto simp: platform_readiness_def platform_slug_def snes_platform_def or_else_def demo_host_def Let_def)
  have "active_platforms [snes_platform] = [snes_platform]"
    by (simp add: active_platforms_def snes_platform_def demo_platform_def platform_slug_def or_else_def)
  then have "readiness demo_host demo_ready_paths [snes_platform] Map.empty = [e]"
    by (simp add: readiness_def List.map_filter_def e(1))
  then have missing: "missing_core_packages (readiness demo_host demo_ready_paths [snes_platform] Map.empty) = [''libretro-snes9x'']"
    by (simp add: missing_core_packages_def e(2))
  then show ?thesis using conjunct1[OF missing_packages_pass_the_bridge[OF missing]] by simp
qed

end
