(* ===== verification/Daemon_Config.thy ===== *)
theory Daemon_Config
  imports Readiness_Props
begin

text \<open>
  The daemon's configuration (\<^verbatim>\<open>config.rs\<close>), the host paths it shares with the bridge
  (\<^verbatim>\<open>hearthdeck-protocol/src/paths.rs\<close>) and the listeners \<^verbatim>\<open>main.rs\<close> opens from it. The environment is a
  map and the data directory the \<^verbatim>\<open>directories\<close> crate reports is a parameter.
\<close>

section \<open>Socket addresses\<close>

text \<open>
  \<^verbatim>\<open>SocketAddr::from_str\<close>: an IPv4 address and a port, or a bracketed IPv6 address (with an optional
  numeric scope) and a port.
\<close>

record socket_addr =
  sa_ip :: ip_addr
  sa_port :: nat

definition parse_bounded :: "nat \<Rightarrow> string \<Rightarrow> nat option" where
  "parse_bounded bound s =
     (if s \<noteq> [] \<and> list_all is_ascii_digit s \<and> nat_of_digits s < bound then Some (nat_of_digits s) else None)"

definition scope_ok :: "string option \<Rightarrow> bool" where
  "scope_ok scope = (case scope of None \<Rightarrow> True | Some s \<Rightarrow> parse_bounded (2 ^ 32) s \<noteq> None)"

definition split_scope :: "string \<Rightarrow> string \<times> string option" where
  "split_scope s = (case split_once (CHR ''%'') s of None \<Rightarrow> (s, None) | Some (a, scope) \<Rightarrow> (a, Some scope))"

definition parse_socket_addr :: "string \<Rightarrow> socket_addr option" where
  "parse_socket_addr s =
     (case s of
        c # rest \<Rightarrow>
          if c = CHR ''['' then
            (case split_once (CHR '']'') rest of
               Some (inner, p # port) \<Rightarrow>
                 (case (split_scope inner, parse_bounded 65536 port) of
                    ((a, scope), Some n) \<Rightarrow>
                      (case parse_ipv6 a of
                         Some gs \<Rightarrow> if p = CHR '':'' \<and> scope_ok scope then Some \<lparr>sa_ip = V6 gs, sa_port = n\<rparr> else None
                       | None \<Rightarrow> None)
                  | _ \<Rightarrow> None)
             | _ \<Rightarrow> None)
          else
            (case split_once (CHR '':'') s of
               Some (a, port) \<Rightarrow>
                 (case (parse_ipv4 a, parse_bounded 65536 port) of
                    (Some os, Some n) \<Rightarrow> Some \<lparr>sa_ip = V4 os, sa_port = n\<rparr>
                  | _ \<Rightarrow> None)
             | None \<Rightarrow> None)
      | [] \<Rightarrow> None)"

section \<open>Loading\<close>

record tls_config =
  certificate_path :: string
  private_key_path :: string

record config =
  cf_bind_address :: socket_addr
  cf_local_admin_address :: socket_addr
  cf_database_path :: string
  cf_bridge_socket_path :: string
  cf_lan_enabled :: bool
  cf_tls :: "tls_config option"
  cf_romm :: romm_paths
  cf_bios_source :: "readiness_error + bios_source"

definition BRIDGE_SOCKET_ENV :: string where "BRIDGE_SOCKET_ENV = ''HEARTHDECK_BRIDGE_SOCKET''"

definition runtime_dir :: "(string \<rightharpoonup> string) \<Rightarrow> string option \<Rightarrow> string" where
  "runtime_dir env data_dir =
     (case option_filter (\<lambda>d. d \<noteq> []) (env ''XDG_RUNTIME_DIR'') of
        Some d \<Rightarrow> d
      | None \<Rightarrow> or_else (map_option (\<lambda>d. path_join d ''runtime'') data_dir) ''/tmp'')"

definition bridge_socket_path :: "(string \<rightharpoonup> string) \<Rightarrow> string option \<Rightarrow> string" where
  "bridge_socket_path env data_dir =
     (case option_filter (\<lambda>p. p \<noteq> []) (env BRIDGE_SOCKET_ENV) of
        Some p \<Rightarrow> p
      | None \<Rightarrow> path_join (path_join (runtime_dir env data_dir) ''hearthdeck'') ''bridge.sock'')"

definition lan_requested :: "(string \<rightharpoonup> string) \<Rightarrow> bool" where
  "lan_requested env =
     (case env ''HEARTHDECK_LAN_ENABLED'' of
        None \<Rightarrow> False | Some v \<Rightarrow> v = ''1'' \<or> eq_ignore_ascii_case v ''true'')"

definition load_tls :: "(string \<rightharpoonup> string) \<Rightarrow> bool \<Rightarrow> string + tls_config option" where
  "load_tls env lan_enabled =
     (if \<not> lan_enabled then Inr None
      else case env ''HEARTHDECK_TLS_CERT_PATH'' of
        None \<Rightarrow> Inl ''HEARTHDECK_TLS_CERT_PATH is required when LAN access is enabled''
      | Some certificate \<Rightarrow>
          (case env ''HEARTHDECK_TLS_KEY_PATH'' of
             None \<Rightarrow> Inl ''HEARTHDECK_TLS_KEY_PATH is required when LAN access is enabled''
           | Some key \<Rightarrow> Inr (Some \<lparr>certificate_path = certificate, private_key_path = key\<rparr>)))"

definition load_romm :: "(string \<rightharpoonup> string) \<Rightarrow> romm_paths" where
  "load_romm env =
     RommPaths_resolve (env ''ROMM_COMPOSE_FILE'')
       (option_filter (\<lambda>p. p \<noteq> []) (env ''HEARTHDECK_ROMM_LIBRARY_ROOT''))
       (option_filter (\<lambda>p. p \<noteq> []) (env ''HEARTHDECK_ROMM_RESOURCES_ROOT''))"

definition Config_load :: "(string \<rightharpoonup> string) \<Rightarrow> string option \<Rightarrow> string + config" where
  "Config_load env data_local_dir =
     (case data_local_dir of
        None \<Rightarrow> Inl ''could not determine Hearthdeck data directories''
      | Some data_dir \<Rightarrow>
      let lan_enabled = lan_requested env;
          default_bind = (if lan_enabled then ''0.0.0.0:38400'' else ''127.0.0.1:38400'') in
     (case parse_socket_addr (or_else (env ''HEARTHDECK_BIND_ADDRESS'') default_bind) of
        None \<Rightarrow> Inl ''HEARTHDECK_BIND_ADDRESS must be a valid socket address''
      | Some bind_address \<Rightarrow>
      if \<not> lan_enabled \<and> \<not> is_loopback (sa_ip bind_address)
      then Inl ''non-loopback bind requires HEARTHDECK_LAN_ENABLED=true''
      else (case parse_socket_addr (or_else (env ''HEARTHDECK_LOCAL_ADMIN_ADDRESS'') ''127.0.0.1:38401'') of
        None \<Rightarrow> Inl ''HEARTHDECK_LOCAL_ADMIN_ADDRESS must be a valid socket address''
      | Some local_admin_address \<Rightarrow>
      if \<not> is_loopback (sa_ip local_admin_address)
      then Inl ''HEARTHDECK_LOCAL_ADMIN_ADDRESS must bind to loopback''
      else (case load_tls env lan_enabled of
        Inl err \<Rightarrow> Inl err
      | Inr tls \<Rightarrow> Inr
         \<lparr>cf_bind_address = bind_address, cf_local_admin_address = local_admin_address,
          cf_database_path = or_else (env ''HEARTHDECK_DATABASE_PATH'') (path_join data_dir ''hearthdeck.db''),
          cf_bridge_socket_path = bridge_socket_path env data_local_dir, cf_lan_enabled = lan_enabled,
          cf_tls = tls, cf_romm = load_romm env, cf_bios_source = BiosSource_from_env env\<rparr>))))"

section \<open>Listeners\<close>

datatype api_router = AdminRouter | ApiRouter
datatype transport = PlainHttp | Https tls_config

definition daemon_listeners :: "config \<Rightarrow> (socket_addr \<times> api_router \<times> transport) list" where
  "daemon_listeners c =
     [(cf_local_admin_address c, AdminRouter, PlainHttp),
      (cf_bind_address c, ApiRouter, case cf_tls c of Some tls \<Rightarrow> Https tls | None \<Rightarrow> PlainHttp)]"

text \<open>
  C39: a daemon that starts listens beyond this machine only where the user asked for it, and then
  only with TLS and only with the API that checks tokens: a listener in the clear, or of the
  administration routes, is bound to a loopback address, and without the LAN flag there is no other.
\<close>

theorem remote_listeners_are_tls:
  assumes "Config_load env data_dir = Inr c" and "(addr, router, channel) \<in> set (daemon_listeners c)"
    and "\<not> is_loopback (sa_ip addr)"
  shows "lan_requested env \<and> router = ApiRouter
    \<and> (\<exists>certificate key. env ''HEARTHDECK_TLS_CERT_PATH'' = Some certificate \<and> env ''HEARTHDECK_TLS_KEY_PATH'' = Some key
         \<and> channel = Https \<lparr>certificate_path = certificate, private_key_path = key\<rparr>)"
proof -
  have c: "is_loopback (sa_ip (cf_local_admin_address c))"
    "lan_requested env \<or> is_loopback (sa_ip (cf_bind_address c))" "load_tls env (lan_requested env) = Inr (cf_tls c)"
    using assms(1) by (auto simp: Config_load_def Let_def split: option.splits sum.splits if_splits)
  then have "addr = cf_bind_address c" "router = ApiRouter" "lan_requested env"
    using assms(2,3) by (auto simp: daemon_listeners_def)
  then show ?thesis
    using c(3) assms(2,3) c(1) by (auto simp: load_tls_def daemon_listeners_def split: option.splits)
qed

definition lan_env :: "string \<rightharpoonup> string" where
  "lan_env = [''HEARTHDECK_LAN_ENABLED'' \<mapsto> ''True'', ''HEARTHDECK_TLS_CERT_PATH'' \<mapsto> ''/c.pem'',
     ''HEARTHDECK_TLS_KEY_PATH'' \<mapsto> ''/k.pem'']"

lemma lan_config:
  "\<exists>c. Config_load lan_env (Some ''/d'') = Inr c \<and> cf_bind_address c = \<lparr>sa_ip = V4 [0, 0, 0, 0], sa_port = 38400\<rparr>"
proof -
  have bind: "parse_socket_addr ''0.0.0.0:38400'' = Some \<lparr>sa_ip = V4 [0, 0, 0, 0], sa_port = 38400\<rparr>"
    by (simp add: parse_socket_addr_def parse_ipv4_def parse_octet_def parse_bounded_def is_ascii_digit_def nat_of_digits_def
        option_filter_def)
  have admin: "parse_socket_addr ''127.0.0.1:38401'' = Some \<lparr>sa_ip = V4 [127, 0, 0, 1], sa_port = 38401\<rparr>"
    by (simp add: parse_socket_addr_def parse_ipv4_def parse_octet_def parse_bounded_def is_ascii_digit_def nat_of_digits_def
        option_filter_def)
  have lan: "lan_requested lan_env" by code_simp
  have env: "lan_env ''HEARTHDECK_BIND_ADDRESS'' = None" "lan_env ''HEARTHDECK_LOCAL_ADMIN_ADDRESS'' = None"
    by (simp_all add: lan_env_def)
  have tls: "load_tls lan_env True = Inr (Some \<lparr>certificate_path = ''/c.pem'', private_key_path = ''/k.pem''\<rparr>)"
    by (simp add: load_tls_def lan_env_def)
  show ?thesis by (simp add: Config_load_def lan env bind admin tls or_else_def)
qed

theorem remote_listeners_are_tls_witness:
  "\<exists>c. Config_load lan_env (Some ''/d'') = Inr c \<and> \<not> is_loopback (sa_ip (cf_bind_address c))
     \<and> daemon_listeners c ! 1 = (\<lparr>sa_ip = V4 [0, 0, 0, 0], sa_port = 38400\<rparr>, ApiRouter,
         Https \<lparr>certificate_path = ''/c.pem'', private_key_path = ''/k.pem''\<rparr>)"
proof -
  obtain c where c: "Config_load lan_env (Some ''/d'') = Inr c"
      "cf_bind_address c = \<lparr>sa_ip = V4 [0, 0, 0, 0], sa_port = 38400\<rparr>"
    using lan_config by blast
  have "(cf_bind_address c, ApiRouter, case cf_tls c of Some tls \<Rightarrow> Https tls | None \<Rightarrow> PlainHttp) \<in> set (daemon_listeners c)"
    by (simp add: daemon_listeners_def)
  from remote_listeners_are_tls[OF c(1) this] show ?thesis
    using c by (simp add: daemon_listeners_def lan_env_def)
qed

section \<open>The same roots in both processes\<close>

lemma root_of_library:
  "library_root (load_romm (environment h)) = retro_rom_library_root h"
proof -
  have default: "romm_data_root (Some DEFAULT_ROMM_COMPOSE_FILE) = DEFAULT_ROMM_DATA_ROOT" by code_simp
  have unset: "romm_data_root None = DEFAULT_ROMM_DATA_ROOT" "romm_data_root (Some []) = DEFAULT_ROMM_DATA_ROOT"
    by code_simp+
  show ?thesis
    by (cases "environment h ''ROMM_COMPOSE_FILE''"; cases "environment h ''HEARTHDECK_ROMM_LIBRARY_ROOT''")
       (auto simp: load_romm_def RommPaths_resolve_def retro_rom_library_root_def option_filter_def or_else_def Let_def default unset)
qed

text \<open>
  A daemon and a bridge started in the same environment take the same directory for RomM's
  library, although each derives it itself: empty variables, a compose file without a directory and
  the defaults included.
\<close>

theorem library_roots_agree:
  assumes "Config_load (environment h) data_dir = Inr c"
  shows "library_root (cf_romm c) = retro_rom_library_root h"
proof -
  have "cf_romm c = load_romm (environment h)"
    using assms by (auto simp: Config_load_def Let_def split: option.splits sum.splits if_splits)
  then show ?thesis by (simp add: root_of_library)
qed

theorem library_roots_agree_witness:
  "\<exists>c. Config_load lan_env (Some ''/d'') = Inr c
     \<and> library_root (cf_romm c) = retro_rom_library_root (map_fs\<lparr>environment := lan_env\<rparr>)"
  using lan_config library_roots_agree[of "map_fs\<lparr>environment := lan_env\<rparr>" "Some ''/d''"] by auto

section \<open>From the plan to the bridge's checks\<close>

text \<open>
  A tree without symbolic links: a path of it, or of a directory above one of its files, is its own
  canonical path.
\<close>

definition plain_tree :: "('w, 'x) bridge_host_scheme \<Rightarrow> 'w \<Rightarrow> bool" where
  "plain_tree h w \<longleftrightarrow>
     (\<forall>p q. is_absolute p \<and> is_file h p w \<and> is_absolute q \<and> path_starts_with q p \<and> ParentDir \<notin> set (path_components q)
        \<longrightarrow> (\<exists>c. canonicalize h q w = Some c \<and> path_components c = path_components q))"

lemma plain_treeD:
  assumes "plain_tree h w" and "is_absolute p" and "is_file h p w" and "below q p" and "is_absolute q"
    and "ParentDir \<notin> set (path_components q)"
  obtains c d where "canonicalize h q w = Some c" "canonicalize h p w = Some d"
    "path_components d = path_components p" "path_starts_with c d"
proof -
  obtain ns where ns: "path_components p = path_components q @ map Normal ns" using assms(4) by (auto simp: below_def)
  then have "path_starts_with q p" "path_starts_with p p" "ParentDir \<notin> set (path_components p)"
    using assms(6) by (auto simp: path_starts_with_def)
  then obtain c d where "canonicalize h q w = Some c" "path_components c = path_components q"
      "canonicalize h p w = Some d" "path_components d = path_components p"
    using assms unfolding plain_tree_def by meson
  then show thesis using that ns by (simp add: path_starts_with_def)
qed

lemma planned_core:
  assumes "core_path_for on_disk env core = Inr p" and "core_filename_for slug content = Some core"
  shows "on_disk p" and "path_extension p = Some ''so''"
    and "\<exists>d\<in>{CORE_DIRECTORY, retro_cores_dir (daemon_save_root env)}. p = path_join d core \<and> plain_name core"
proof -
  obtain d where d: "d \<in> {CORE_DIRECTORY, retro_cores_dir (daemon_save_root env)}" "p = path_join d core" "on_disk p"
  proof -
    have "find_core on_disk core [CORE_DIRECTORY, retro_cores_dir (daemon_save_root env)] = Some p"
      using assms(1) unfolding core_path_for_def by (simp split: option.splits del: find_core.simps)
    from find_core_Some[OF this] that show thesis by auto
  qed
  have "core \<in> set (map snd CORE_BY_CONTENT_EXTENSION @ map snd CORE_BY_PLATFORM_SLUG)"
    using assms(2) by (auto simp: core_filename_for_def split: option.splits bind_splits dest!: find_Some_set) force+
  then obtain stem where stem: "stem \<noteq> []" "core = stem @ ''.so''" "CHR ''/'' \<notin> set core"
    using core_tables by blast
  then have plain: "plain_name core" by (auto simp: plain_name_def)
  then show "\<exists>d\<in>{CORE_DIRECTORY, retro_cores_dir (daemon_save_root env)}. p = path_join d core \<and> plain_name core"
    using d by blast
  have "rsplit_dot core = (Some stem, Some ''so'')" using stem by (simp add: rsplit_dot_def)
  then show "path_extension p = Some ''so''"
    using path_extension_join[OF plain] file_name_plain[OF plain] by (simp add: d(2) path_extension_def)
  show "on_disk p" by (fact d(3))
qed

lemma prepare_launchD:
  assumes "prepare_launch srv st on_disk env fault db paths rom_id = Inr plan"
  obtains slug content core where "library_rom_path on_disk paths (rl_game plan) = Inr (rl_rom_path plan)"
    "core_filename_for slug content = Some core" "core_path_for on_disk env core = Inr (rl_core_path plan)"
  using assms by (auto simp: prepare_launch_def split: sum.splits option.splits)

lemma daemon_save_root_host: "daemon_save_root (environment h) = retro_save_root h"
  by (simp add: daemon_save_root_def retro_save_root_def)


definition snes_bridge :: "(string \<rightharpoonup> string) bridge_host" where
  "snes_bridge = map_fs\<lparr>environment := [''HOME'' \<mapsto> ''/home/u''], canonicalize := (\<lambda>p _. Some p),
     is_file := (\<lambda>p _. p \<in> {''/usr/lib/libretro/snes9x_libretro.so'', ''/mnt/external/romM/library/roms/snes/a.sfc''})\<rparr>"


end
