(* ===== verification/Daemon_Diagnostics.thy ===== *)
theory Daemon_Diagnostics
  imports Daemon_Rules Daemon_Config
begin

text \<open>
  The diagnostics screen's snapshot (\<^verbatim>\<open>hearthdeck-daemon/src/diagnostics.rs\<close>): the states of the user
  units, a live check of RomM and the tail of the journal. Paths and tokens are redacted from the
  daemon's and the bridge's own lines before they are served, and RomM's checks are kept in a short
  buffer. \<^verbatim>\<open>systemctl\<close>, \<^verbatim>\<open>journalctl\<close>, JSON coding and calendar formatting are parameters.
\<close>

definition LOG_LINE_LIMIT :: nat where "LOG_LINE_LIMIT = 200"
definition LOG_MESSAGE_LIMIT :: nat where "LOG_MESSAGE_LIMIT = 600"
definition ROMM_LOG_LIMIT :: nat where "ROMM_LOG_LIMIT = 40"

text \<open>In nanoseconds.\<close>

definition SNAPSHOT_CACHE_TTL :: nat where "SNAPSHOT_CACHE_TTL = 5 * 10 ^ 9"

record service_status =
  se_id :: string
  se_unit :: string
  se_state :: string
  se_detail :: string

record romm_diagnostic =
  dr_configured :: bool
  dr_status :: string
  dr_base_url :: "string option"
  dr_console_count :: "nat option"
  dr_checked_at :: string
  dr_error :: "string option"

record log_entry =
  le_timestamp :: "string option"
  le_source :: string
  le_level :: string
  le_message :: string

record log_tail =
  lt_available :: bool
  lt_error :: "string option"
  lt_entries :: "log_entry list"

record diagnostics_snapshot =
  dg_generated_at :: string
  dg_services :: "service_status list"
  dg_romm :: romm_diagnostic
  dg_logs :: log_tail

record subprocess_cache =
  sc_at :: nat
  sc_services :: "service_status list"
  sc_logs :: log_tail

record diagnostics_state =
  ds_cache :: "subprocess_cache option"
  ds_romm_log :: "log_entry list"

text \<open>A command that could not be started, or whether it succeeded and what it printed.\<close>

type_synonym command_output = "(bool \<times> string) option"

record diagnostics_env =
  dv_systemctl :: "string \<Rightarrow> command_output"
  dv_journalctl :: command_output
  dv_now :: nat
  dv_done :: nat
  dv_stamp :: string
  dv_parse_json :: "string \<Rightarrow> json option"
  dv_json_text :: "json \<Rightarrow> string"
  dv_micros_text :: "int \<Rightarrow> string option"

section \<open>Redaction\<close>

text \<open>\<^verbatim>\<open>split_inclusive(char::is_whitespace)\<close>: every piece but the last ends with its whitespace.\<close>

fun split_words :: "string \<Rightarrow> string list" where
  "split_words [] = []"
| "split_words (c # s) =
     (if is_whitespace c then [c] # split_words s
      else case split_words s of [] \<Rightarrow> [[c]] | w # ws \<Rightarrow> (c # w) # ws)"

text \<open>\<^verbatim>\<open>chars().take(n).collect()\<close>.\<close>

fun chars_take :: "nat \<Rightarrow> string \<Rightarrow> string" where
  "chars_take n [] = []"
| "chars_take n (c # s) =
     (if CHR 0x80 \<le> c \<and> c \<le> CHR 0xBF then c # chars_take n s
      else (case n of 0 \<Rightarrow> [] | Suc m \<Rightarrow> c # chars_take m s))"

definition truncate_chars :: "string \<Rightarrow> string" where
  "truncate_chars s =
     (if LOG_MESSAGE_LIMIT < chars_count s then chars_take LOG_MESSAGE_LIMIT s @ ''...'' else s)"

definition token_word :: "bool \<Rightarrow> string \<Rightarrow> bool" where
  "token_word redact_next trimmed \<longleftrightarrow>
     starts_with ''rmm_'' trimmed \<or> starts_with ''hearthdeck_'' trimmed \<or> redact_next"

fun redact_words :: "bool \<Rightarrow> string list \<Rightarrow> string" where
  "redact_words redact_next [] = []"
| "redact_words redact_next (word # ws) =
     (let trimmed = trim word; is_path = CHR ''/'' \<in> set trimmed in
      (if token_word redact_next trimmed \<or> is_path
       then (if is_path then ''[path]'' else ''[redacted]'')
            @ (if word \<noteq> [] \<and> is_whitespace (last word) then '' '' else [])
       else word)
      @ redact_words (eq_ignore_ascii_case trimmed ''bearer'') ws)"

definition truncate_and_redact :: "string \<Rightarrow> string" where
  "truncate_and_redact value = truncate_chars (redact_words False (split_words value))"

definition truncate_plain :: "string \<Rightarrow> string" where
  "truncate_plain value = truncate_chars (trim value)"

section \<open>Journal lines\<close>

definition value_to_text :: "(json \<Rightarrow> string) \<Rightarrow> json \<Rightarrow> string" where
  "value_to_text json_text v = (case json_str v of Some s \<Rightarrow> s | None \<Rightarrow> json_text v)"

fun comma_joined :: "string list \<Rightarrow> string" where
  "comma_joined [] = []"
| "comma_joined [x] = x"
| "comma_joined (x # xs) = x @ '', '' @ comma_joined xs"

definition DETAIL_KEYS :: "string list" where
  "DETAIL_KEYS = [''source_id'', ''provider_id'', ''record_count'', ''console_count'', ''installed_game_count'',
     ''status_code'', ''item_id'', ''base_url'', ''error'']"

definition event_details :: "(json \<Rightarrow> string) \<Rightarrow> json \<Rightarrow> string list" where
  "event_details json_text event =
     List.map_filter (\<lambda>key. map_option (\<lambda>v. key @ ''='' @ value_to_text json_text v) (json_get key event)) DETAIL_KEYS"

definition display_message :: "diagnostics_env \<Rightarrow> string \<Rightarrow> string" where
  "display_message e raw =
     (case dv_parse_json e raw of
        Some (JObject kvs) \<Rightarrow>
          (let event = JObject kvs;
               message = or_else (Option.bind (json_get ''message'' event) json_str) ''structured service event'';
               details = event_details (dv_json_text e) event
           in truncate_and_redact
                (if details = [] then message else message @ '' ('' @ comma_joined details @ '')''))
      | _ \<Rightarrow> truncate_and_redact raw)"

definition structured_message :: "(string \<Rightarrow> json option) \<Rightarrow> string \<Rightarrow> string option" where
  "structured_message parse_json raw =
     (case parse_json raw of
        Some (JObject kvs) \<Rightarrow> Option.bind (json_get ''message'' (JObject kvs)) json_str
      | _ \<Rightarrow> None)"

definition log_source :: "(string \<Rightarrow> json option) \<Rightarrow> string \<Rightarrow> string \<Rightarrow> string" where
  "log_source parse_json unit_name raw_message =
     (if unit_name = ''hearthdeck-bridge.service'' then ''bridge''
      else if unit_name = ''romm.service'' then ''romm''
      else if structured_message parse_json raw_message = Some ''request completed'' then ''api''
      else ''daemon'')"

definition priority_label :: "string \<Rightarrow> string" where
  "priority_label priority =
     (if priority \<in> {''0'', ''1'', ''2'', ''3''} then ''error''
      else if priority = ''4'' then ''warning''
      else if priority \<in> {''5'', ''6''} then ''info''
      else ''debug'')"

definition parse_journal_entry :: "diagnostics_env \<Rightarrow> string \<Rightarrow> log_entry option" where
  "parse_journal_entry e line =
     (case dv_parse_json e line of
        None \<Rightarrow> None
      | Some entry \<Rightarrow>
     (case Option.bind (json_get ''MESSAGE'' entry) json_str of
        None \<Rightarrow> None
      | Some raw_message \<Rightarrow>
          (let unit_name = or_else (Option.bind (json_get ''_SYSTEMD_UNIT'' entry) json_str) [];
               source = log_source (dv_parse_json e) unit_name raw_message
           in Some \<lparr>le_timestamp = Option.bind (Option.bind (Option.bind (json_get ''__REALTIME_TIMESTAMP'' entry) json_str)
                  parse_i64) (dv_micros_text e),
                le_source = source,
                le_level = (case Option.bind (json_get ''PRIORITY'' entry) json_str of
                   Some p \<Rightarrow> priority_label p | None \<Rightarrow> ''info''),
                le_message = (if source = ''romm'' then truncate_plain raw_message else display_message e raw_message)\<rparr>)))"

section \<open>The log tail\<close>

definition push_romm_log :: "string \<Rightarrow> string \<Rightarrow> string \<Rightarrow> log_entry list \<Rightarrow> log_entry list" where
  "push_romm_log now level message buffer =
     (if buffer \<noteq> [] \<and> le_message (last buffer) = message then buffer
      else (if ROMM_LOG_LIMIT \<le> length buffer then tl buffer else buffer)
           @ [\<lparr>le_timestamp = Some now, le_source = ''romm'', le_level = level, le_message = message\<rparr>])"

definition recent_romm_logs :: "log_entry list \<Rightarrow> log_entry list" where
  "recent_romm_logs buffer = rev buffer"

definition recent_logs :: "diagnostics_env \<Rightarrow> log_entry list \<Rightarrow> log_tail" where
  "recent_logs e buffer =
     (let romm_logs = recent_romm_logs buffer in
      case dv_journalctl e of
        None \<Rightarrow> \<lparr>lt_available = False, lt_error = Some ''Could not start journalctl for Hearthdeck services.'',
          lt_entries = romm_logs\<rparr>
      | Some (False, _) \<Rightarrow> \<lparr>lt_available = False,
          lt_error = Some ''The user journal is unavailable for Hearthdeck services.'', lt_entries = romm_logs\<rparr>
      | Some (True, output) \<Rightarrow> \<lparr>lt_available = True, lt_error = None,
          lt_entries = take LOG_LINE_LIMIT (List.map_filter (parse_journal_entry e) (str_lines output)) @ romm_logs\<rparr>)"

section \<open>Services and RomM\<close>

definition service_status_of :: "(string \<Rightarrow> command_output) \<Rightarrow> string \<Rightarrow> string \<Rightarrow> bool \<Rightarrow> service_status" where
  "service_status_of systemctl i unit_name on_demand =
     (case systemctl unit_name of
        None \<Rightarrow> \<lparr>se_id = i, se_unit = unit_name, se_state = ''unavailable'',
          se_detail = ''Could not query the user service manager.''\<rparr>
      | Some (False, _) \<Rightarrow> \<lparr>se_id = i, se_unit = unit_name, se_state = ''unavailable'',
          se_detail = ''The user service manager did not return this unit.''\<rparr>
      | Some (True, output) \<Rightarrow>
          (let states = filter (\<lambda>line. line \<noteq> []) (str_lines output);
               active_state = (if states \<noteq> [] then hd states else ''unknown'');
               sub_state = (if 1 < length states then states ! 1 else ''unknown'')
           in \<lparr>se_id = i, se_unit = unit_name, se_state = active_state,
               se_detail = (if on_demand \<and> active_state = ''inactive''
                  then ''On demand; starts when the daemon needs a host request.''
                  else active_state @ '' ('' @ sub_state @ '')'')\<rparr>))"

definition service_statuses :: "(string \<Rightarrow> command_output) \<Rightarrow> service_status list" where
  "service_statuses systemctl =
     [service_status_of systemctl ''session'' ''hearthdeck.target'' False,
      service_status_of systemctl ''daemon'' ''hearthdeck-daemon.service'' False,
      service_status_of systemctl ''bridge_socket'' ''hearthdeck-bridge.socket'' False,
      service_status_of systemctl ''bridge'' ''hearthdeck-bridge.service'' True,
      service_status_of systemctl ''romm_container'' ''romm.service'' False]"

definition romm_diagnostic_of ::
  "('s, 'x) romm_server_scheme \<Rightarrow> 's \<Rightarrow> string option \<Rightarrow> string option \<Rightarrow> string \<Rightarrow> settings_db \<Rightarrow> log_entry list
     \<Rightarrow> romm_diagnostic \<times> log_entry list" where
  "romm_diagnostic_of srv st fault query_fault now db buffer =
     (case SettingsRepository_romm fault db of
        Inl err \<Rightarrow>
          (let message = ''Could not read RomM settings: '' @ err in
           (\<lparr>dr_configured = False, dr_status = ''degraded'', dr_base_url = None, dr_console_count = None,
             dr_checked_at = now, dr_error = Some message\<rparr>, push_romm_log now ''error'' message buffer))
      | Inr None \<Rightarrow>
          (\<lparr>dr_configured = False, dr_status = ''not_configured'', dr_base_url = None, dr_console_count = None,
            dr_checked_at = now, dr_error = None\<rparr>, push_romm_log now ''info'' ''RomM is not configured.'' buffer)
      | Inr (Some configured) \<Rightarrow>
          (let base_url = rv_base_url configured in
           case platforms srv st query_fault db of
             Inr ps \<Rightarrow>
               (\<lparr>dr_configured = True, dr_status = ''ready'', dr_base_url = Some base_url,
                 dr_console_count = Some (length ps), dr_checked_at = now, dr_error = None\<rparr>,
                push_romm_log now ''info''
                  (''Connected to '' @ base_url @ '' ('' @ show_nat (length ps) @ '' consoles available)'') buffer)
           | Inl err \<Rightarrow>
               (let message = (case err of NotConfigured \<Rightarrow> ''RomM is not configured'' | QueryFailed err \<Rightarrow> err) in
                (\<lparr>dr_configured = True, dr_status = ''degraded'', dr_base_url = Some base_url,
                  dr_console_count = None, dr_checked_at = now, dr_error = Some message\<rparr>,
                 push_romm_log now ''error'' (''Could not reach '' @ base_url @ '': '' @ message) buffer))))"

section \<open>The snapshot\<close>

definition subprocess_snapshot ::
  "diagnostics_env \<Rightarrow> diagnostics_state \<Rightarrow> (service_status list \<times> log_tail) \<times> diagnostics_state" where
  "subprocess_snapshot e ds =
     (case ds_cache ds of
        Some entry \<Rightarrow>
          if dv_now e - sc_at entry < SNAPSHOT_CACHE_TTL then ((sc_services entry, sc_logs entry), ds)
          else (let services = service_statuses (dv_systemctl e); logs = recent_logs e (ds_romm_log ds) in
            ((services, logs), ds\<lparr>ds_cache := Some \<lparr>sc_at = dv_done e, sc_services = services, sc_logs = logs\<rparr>\<rparr>))
      | None \<Rightarrow>
          (let services = service_statuses (dv_systemctl e); logs = recent_logs e (ds_romm_log ds) in
            ((services, logs), ds\<lparr>ds_cache := Some \<lparr>sc_at = dv_done e, sc_services = services, sc_logs = logs\<rparr>\<rparr>)))"

text \<open>
  The two halves are joined; the log tail copies RomM's buffer when it is first polled, before the
  check of RomM adds to it.
\<close>

definition diagnostics_snapshot_of ::
  "diagnostics_env \<Rightarrow> ('s, 'x) romm_server_scheme \<Rightarrow> 's \<Rightarrow> string option \<Rightarrow> string option \<Rightarrow> settings_db \<Rightarrow> diagnostics_state
     \<Rightarrow> diagnostics_snapshot \<times> diagnostics_state" where
  "diagnostics_snapshot_of e srv st fault query_fault db ds =
     (case subprocess_snapshot e ds of ((services, logs), ds) \<Rightarrow>
      (case romm_diagnostic_of srv st fault query_fault (dv_stamp e) db (ds_romm_log ds) of (romm, buffer) \<Rightarrow>
        (\<lparr>dg_generated_at = dv_stamp e, dg_services = services, dg_romm = romm, dg_logs = logs\<rparr>,
         ds\<lparr>ds_romm_log := buffer\<rparr>)))"

section \<open>What a shown line can hold\<close>

definition at_word_start :: "string \<Rightarrow> string \<Rightarrow> bool" where
  "at_word_start p s \<longleftrightarrow> (\<exists>a b. s = a @ p @ b \<and> (a = [] \<or> is_whitespace (last a)))"

text \<open>Words as \<open>split_words\<close> gives them: whitespace at the end, on all but the last.\<close>

fun words_ok :: "string list \<Rightarrow> bool" where
  "words_ok [] \<longleftrightarrow> True"
| "words_ok (w # ws) \<longleftrightarrow> w \<noteq> [] \<and> (\<forall>c\<in>set (butlast w). \<not> is_whitespace c)
     \<and> (ws \<noteq> [] \<longrightarrow> is_whitespace (last w)) \<and> words_ok ws"

lemma split_words_ok: "words_ok (split_words s)"
  by (induction s) (auto split: list.splits)

lemma trim_word:
  assumes "w \<noteq> []" and "\<forall>c\<in>set (butlast w). \<not> is_whitespace c"
  shows "trim w = (if is_whitespace (last w) then butlast w else w)"
proof -
  obtain v c where w: "w = v @ [c]" using assms(1) by (metis append_butlast_last_id)
  have v: "\<forall>c\<in>set v. \<not> is_whitespace c" using assms(2) by (simp add: w)
  then have "dropWhile is_whitespace v = v" "dropWhile is_whitespace (rev v) = rev v"
    by (auto simp: dropWhile_eq_self_iff hd_rev)
  then show ?thesis using v by (cases v) (auto simp: w trim_def dropWhile_append)
qed

lemma word_start_step:
  assumes "at_word_start p (q @ r)" and "\<forall>c\<in>set p. \<not> is_whitespace c"
    and "q \<noteq> []" and "\<forall>c\<in>set (butlast q). \<not> is_whitespace c" and "is_whitespace (last q)"
  shows "(\<exists>b. q = p @ b) \<or> at_word_start p r"
proof -
  obtain a b where ab: "q @ r = a @ p @ b" "a = [] \<or> is_whitespace (last a)"
    using assms(1) by (auto simp: at_word_start_def)
  consider u where "q = a @ u" "u \<noteq> []" | u where "a = q @ u"
    using ab(1) by (metis append_eq_append_conv2 append_Nil2)
  then show ?thesis
  proof cases
    case 1
    have "a = []"
    proof (rule ccontr)
      assume "a \<noteq> []"
      moreover have "set a \<subseteq> set (butlast q)" using 1 by (simp add: butlast_append)
      ultimately show False using ab(2) assms(4) by (meson last_in_set subsetD)
    qed
    then have "q @ r = p @ b" using ab(1) by simp
    then consider b' where "q = p @ b'" | u' where "p = q @ u'" by (metis append_eq_append_conv2)
    then show ?thesis
    proof cases
      case (2 u')
      then have "last q \<in> set p" using assms(3) by simp
      then show ?thesis using assms(2,5) by blast
    qed blast
  next
    case (2 u)
    then have "r = u @ p @ b" using ab(1) by simp
    moreover have "u = [] \<or> is_whitespace (last u)" using ab(2) 2 assms(3) by (cases u) auto
    ultimately show ?thesis by (auto simp: at_word_start_def)
  qed
qed

lemma word_start_last:
  assumes "at_word_start p q" and "p \<noteq> []" and "\<forall>c\<in>set p. \<not> is_whitespace c"
    and "\<forall>c\<in>set (butlast q). \<not> is_whitespace c"
  shows "\<exists>b. q = p @ b"
proof -
  obtain a b where ab: "q = a @ p @ b" "a = [] \<or> is_whitespace (last a)"
    using assms(1) by (auto simp: at_word_start_def)
  have "a = []"
  proof (rule ccontr)
    assume "a \<noteq> []"
    moreover have "set a \<subseteq> set (butlast q)" using ab(1) assms(2) by (simp add: butlast_append)
    ultimately show False using ab(2) assms(4) by (meson last_in_set subsetD)
  qed
  then show ?thesis using ab(1) by blast
qed

text \<open>What one word becomes, and that it shows neither a path nor a token.\<close>

definition shown_word :: "bool \<Rightarrow> string \<Rightarrow> string" where
  "shown_word redact_next word =
     (let trimmed = trim word; is_path = CHR ''/'' \<in> set trimmed in
      if token_word redact_next trimmed \<or> is_path
      then (if is_path then ''[path]'' else ''[redacted]'')
           @ (if word \<noteq> [] \<and> is_whitespace (last word) then '' '' else [])
      else word)"

lemma redact_words_Cons:
  "redact_words redact_next (word # ws)
     = shown_word redact_next word @ redact_words (eq_ignore_ascii_case (trim word) ''bearer'') ws"
  by (simp add: shown_word_def Let_def)

definition TOKEN_PREFIXES :: "string set" where "TOKEN_PREFIXES = {''rmm_'', ''hearthdeck_''}"

lemma token_prefix_chars:
  "p \<in> TOKEN_PREFIXES \<Longrightarrow> p \<noteq> [] \<and> (\<forall>c\<in>set p. \<not> is_whitespace c) \<and> CHR ''.'' \<notin> set p"
  by (auto simp: TOKEN_PREFIXES_def is_whitespace_def less_eq_char_def)

lemma shown_word_safe:
  assumes "w \<noteq> []" and "\<forall>c\<in>set (butlast w). \<not> is_whitespace c"
  shows "shown_word r w \<noteq> []" "\<forall>c\<in>set (butlast (shown_word r w)). \<not> is_whitespace c"
    "is_whitespace (last (shown_word r w)) = is_whitespace (last w)"
    "CHR ''/'' \<notin> set (shown_word r w)"
    "p \<in> TOKEN_PREFIXES \<Longrightarrow> shown_word r w \<noteq> p @ b"
proof -
  have ends: "is_whitespace c \<Longrightarrow> c \<noteq> CHR ''/''" for c by (auto simp: is_whitespace_def less_eq_char_def)
  have lits: "\<not> is_whitespace (CHR ''['')" "\<not> is_whitespace (CHR '']'')" "is_whitespace (CHR '' '')"
    "\<forall>c\<in>set ''[path]''. \<not> is_whitespace c" "\<forall>c\<in>set ''[redacted]''. \<not> is_whitespace c"
    by (auto simp: is_whitespace_def less_eq_char_def)
  show "shown_word r w \<noteq> []" using assms(1) by (auto simp: shown_word_def Let_def)
  show "\<forall>c\<in>set (butlast (shown_word r w)). \<not> is_whitespace c"
    using assms lits by (auto simp: shown_word_def Let_def butlast_append split: if_splits)
  show "is_whitespace (last (shown_word r w)) = is_whitespace (last w)"
    using assms(1) lits by (auto simp: shown_word_def Let_def)
  show "CHR ''/'' \<notin> set (shown_word r w)"
  proof (cases "CHR ''/'' \<in> set (trim w)")
    case False
    have "set w \<subseteq> set (trim w) \<union> {c. is_whitespace c}"
    proof (cases "is_whitespace (last w)")
      case True
      then have "set w = set (butlast w) \<union> {last w}"
        by (metis assms(1) append_butlast_last_id list.set(1) list.set(2) set_append)
      then show ?thesis using True by (auto simp: trim_word[OF assms])
    qed (simp add: trim_word[OF assms])
    then show ?thesis using False ends by (auto simp: shown_word_def Let_def)
  qed (simp add: shown_word_def Let_def)
  show "p \<in> TOKEN_PREFIXES \<Longrightarrow> shown_word r w \<noteq> p @ b"
  proof
    assume p: "p \<in> TOKEN_PREFIXES" and eq: "shown_word r w = p @ b"
    have hidden: "\<not> (token_word r (trim w) \<or> CHR ''/'' \<in> set (trim w))"
      using p eq by (auto simp: shown_word_def Let_def TOKEN_PREFIXES_def split: if_splits)
    then have w: "w = p @ b" using eq by (simp add: shown_word_def Let_def)
    have "\<exists>b'. trim w = p @ b'"
    proof (cases b rule: rev_cases)
      case Nil
      then have "\<not> is_whitespace (last w)" using w token_prefix_chars[OF p] by (auto dest: last_in_set)
      then show ?thesis using trim_word[OF assms] w by auto
    next
      case (snoc b' c)
      then show ?thesis using trim_word[OF assms] w by (auto simp: butlast_append)
    qed
    then show False using hidden p by (auto simp: token_word_def starts_with_def strip_prefix_def TOKEN_PREFIXES_def)
  qed
qed

lemma redact_words_safe:
  assumes "words_ok ws"
  shows "CHR ''/'' \<notin> set (redact_words r ws)"
    "p \<in> TOKEN_PREFIXES \<Longrightarrow> \<not> at_word_start p (redact_words r ws)"
proof -
  show "CHR ''/'' \<notin> set (redact_words r ws)"
    using assms by (induction ws arbitrary: r) (auto simp: redact_words_Cons shown_word_safe simp del: redact_words.simps(2))
  show "\<not> at_word_start p (redact_words r ws)" if p: "p \<in> TOKEN_PREFIXES"
    using assms
  proof (induction ws arbitrary: r)
    case Nil
    then show ?case using token_prefix_chars[OF p] by (simp add: at_word_start_def)
  next
    case (Cons w ws)
    then have w: "w \<noteq> []" "\<forall>c\<in>set (butlast w). \<not> is_whitespace c" "ws \<noteq> [] \<Longrightarrow> is_whitespace (last w)" "words_ok ws"
      by auto
    note safe = shown_word_safe[OF w(1,2)]
    have chars: "p \<noteq> []" "\<forall>c\<in>set p. \<not> is_whitespace c" using token_prefix_chars[OF p] by auto
    show ?case
    proof (cases "ws = []")
      case True
      then show ?thesis
        using word_start_last[OF _ chars safe(2)] safe(5)[OF p] by (auto simp: redact_words_Cons simp del: redact_words.simps(2))
    next
      case False
      then show ?thesis
        using word_start_step[OF _ chars(2) safe(1,2)] safe(3,5) w(3) Cons.IH[OF w(4)] p
        unfolding redact_words_Cons by blast
    qed
  qed
qed

lemma chars_take_prefix: "\<exists>r. s = chars_take n s @ r"
  by (induction s arbitrary: n) (auto split: nat.splits)

lemma chars_take_count: "chars_count (chars_take n s) \<le> n"
proof (induction s arbitrary: n)
  case (Cons c s)
  then show ?case by (cases n) (auto simp: chars_count_def)
qed (simp add: chars_count_def)

lemma truncate_chars_count: "chars_count (truncate_chars s) \<le> LOG_MESSAGE_LIMIT + 3"
proof -
  have "chars_count (a @ ''...'') = chars_count a + 3" for a by (simp add: chars_count_def less_eq_char_def)
  then show ?thesis using chars_take_count[of LOG_MESSAGE_LIMIT s] by (auto simp: truncate_chars_def)
qed

lemma word_start_dots:
  assumes "at_word_start p (t @ ''...'')" and "p \<noteq> []" and "CHR ''.'' \<notin> set p"
  shows "at_word_start p t"
proof -
  obtain a b where ab: "t @ ''...'' = a @ p @ b" "a = [] \<or> is_whitespace (last a)"
    using assms(1) by (auto simp: at_word_start_def)
  show ?thesis
  proof (cases "length (a @ p) \<le> length t")
    case True
    then have "take (length (a @ p)) t = a @ p"
      using arg_cong[OF ab(1), of "take (length (a @ p))"] by simp
    then have "t = a @ p @ drop (length (a @ p)) t" by (metis append.assoc append_take_drop_id)
    then show ?thesis using ab(2) by (auto simp: at_word_start_def)
  next
    case False
    then have "last p = (t @ ''...'') ! (length (a @ p) - 1)"
      using ab(1) assms(2) by (cases p) (simp_all add: last_conv_nth nth_append)
    moreover have "length (a @ p) \<le> length t + 3" using arg_cong[OF ab(1), of length] by simp
    moreover have "(t @ ''...'') ! i = CHR ''.''" if "length t \<le> i" "i < length t + 3" for i
    proof -
      have "i - length t \<in> {0, 1, 2}" using that by auto
      then show ?thesis using that by (auto simp: nth_append)
    qed
    ultimately have "last p = CHR ''.''" using False by simp
    then show ?thesis using assms(2,3) last_in_set by metis
  qed
qed

lemma word_start_prefix: "at_word_start p t \<Longrightarrow> at_word_start p (t @ r)"
  unfolding at_word_start_def by (metis append.assoc)

definition line_is_safe :: "string \<Rightarrow> bool" where
  "line_is_safe m \<longleftrightarrow> CHR ''/'' \<notin> set m \<and> \<not> at_word_start ''rmm_'' m \<and> \<not> at_word_start ''hearthdeck_'' m
     \<and> chars_count m \<le> LOG_MESSAGE_LIMIT + 3"

lemma truncate_and_redact_safe: "line_is_safe (truncate_and_redact v)"
proof -
  let ?s = "redact_words False (split_words v)"
  note safe = redact_words_safe[OF split_words_ok, where r = False]
  obtain r where r: "?s = chars_take LOG_MESSAGE_LIMIT ?s @ r" using chars_take_prefix by blast
  have "\<not> at_word_start p (truncate_chars ?s)" if p: "p \<in> TOKEN_PREFIXES" for p
    using safe(2)[OF p] word_start_dots token_prefix_chars[OF p] word_start_prefix[of p _ r] r
    by (metis truncate_chars_def)
  moreover have "CHR ''/'' \<notin> set (truncate_chars ?s)"
  proof -
    have "set (chars_take LOG_MESSAGE_LIMIT ?s) \<subseteq> set ?s" by (metis r Un_upper1 set_append)
    then show ?thesis using safe(1) by (auto simp: truncate_chars_def)
  qed
  ultimately show ?thesis
    using truncate_chars_count[of ?s] by (simp add: line_is_safe_def truncate_and_redact_def TOKEN_PREFIXES_def)
qed

section \<open>Tokens do not influence what is shown\<close>

text \<open>Whether the word after these is redacted.\<close>

fun carry :: "bool \<Rightarrow> string list \<Rightarrow> bool" where
  "carry r [] = r"
| "carry r (w # ws) = carry (eq_ignore_ascii_case (trim w) ''bearer'') ws"

lemma redact_words_append: "redact_words r (ws @ vs) = redact_words r ws @ redact_words (carry r ws) vs"
  by (induction ws arbitrary: r) (simp_all add: redact_words_Cons del: redact_words.simps(2))

lemma split_words_ws: "is_whitespace (last a) \<Longrightarrow> a \<noteq> [] \<Longrightarrow> split_words (a @ s) = split_words a @ split_words s"
proof (induction a)
  case (Cons c a)
  show ?case
  proof (cases "a = []")
    case False
    then have "split_words a \<noteq> []" by (cases a) (auto split: list.splits)
    then show ?thesis using Cons False by (auto split: list.splits)
  qed (use Cons.prems in simp)
qed simp

lemma split_words_word:
  assumes "\<forall>c\<in>set t. \<not> is_whitespace c" and "t \<noteq> []"
  shows "split_words t = [t]" "is_whitespace c \<Longrightarrow> split_words (t @ c # s) = (t @ [c]) # split_words s"
  using assms
proof (induction t)
  case (Cons a t)
  { case 1 then show ?case using Cons.IH(1) by (cases "t = []") auto }
  { case 2 then show ?case using Cons.IH(2) by (cases "t = []") auto }
qed auto

lemma trim_clean: "\<forall>c\<in>set t. \<not> is_whitespace c \<Longrightarrow> is_whitespace c \<Longrightarrow> trim (t @ [c]) = t \<and> trim t = t"
  using trim_word[of "t @ [c]"] trim_word[of t] by (cases t) (auto simp: trim_def dest: in_set_butlastD)

definition secret_word :: "bool \<Rightarrow> string \<Rightarrow> bool" where
  "secret_word after_bearer t \<longleftrightarrow> t \<noteq> [] \<and> list_all (\<lambda>c. \<not> is_whitespace c \<and> c \<noteq> CHR ''/'') t
     \<and> \<not> eq_ignore_ascii_case t ''bearer'' \<and> token_word after_bearer t"

lemma shown_secret:
  assumes "secret_word r t"
  shows "shown_word r t = ''[redacted]''" "is_whitespace c \<Longrightarrow> shown_word r (t @ [c]) = ''[redacted] ''"
proof -
  have t: "\<forall>c\<in>set t. \<not> is_whitespace c" "CHR ''/'' \<notin> set t" "token_word r t" "t \<noteq> []"
    using assms by (auto simp: secret_word_def list_all_iff)
  have sp: "is_whitespace (CHR '' '')" by (simp add: is_whitespace_def)
  have "\<not> is_whitespace (last t)" using t(1,4) by simp
  then show "shown_word r t = ''[redacted]''" using t trim_clean[OF t(1) sp] by (auto simp: shown_word_def)
  show "shown_word r (t @ [c]) = ''[redacted] ''" if "is_whitespace c"
    using t trim_clean[OF t(1) that] that by (auto simp: shown_word_def)
qed

text \<open>
  Redaction hides the token, not only its text. Of two log lines that differ in one word, where
  that word is a token of RomM or of Hearthdeck, or stands behind the word bearer, the screen shows
  the same line: nothing about the token, not even its length, reaches the client.
\<close>

theorem redaction_is_independent_of_the_token:
  assumes "a = [] \<or> is_whitespace (last a)" and "b = [] \<or> is_whitespace (hd b)"
    and "secret_word (carry False (split_words a)) t" and "secret_word (carry False (split_words a)) t'"
  shows "truncate_and_redact (a @ t @ b) = truncate_and_redact (a @ t' @ b)"
proof -
  let ?r = "carry False (split_words a)"
  have split_a: "split_words (a @ s) = split_words a @ split_words s" for s
    using assms(1) split_words_ws by (cases "a = []") auto
  have "redact_words ?r (split_words (u @ b)) = (if b = [] then ''[redacted]'' else ''[redacted] '' @ redact_words False (split_words (tl b)))"
    if u: "secret_word ?r u" for u
  proof -
    have clean: "\<forall>c\<in>set u. \<not> is_whitespace c" "u \<noteq> []" and not_bearer: "\<not> eq_ignore_ascii_case u ''bearer''"
      using u by (auto simp: secret_word_def list_all_iff)
    show ?thesis
    proof (cases b)
      case Nil
      then show ?thesis using split_words_word(1)[OF clean] shown_secret(1)[OF u]
        by (simp add: redact_words_Cons del: redact_words.simps(2))
    next
      case (Cons c b')
      then have c: "is_whitespace c" using assms(2) by simp
      show ?thesis
        using split_words_word(2)[OF clean c] shown_secret(2)[OF u c] trim_clean[OF clean(1) c] not_bearer Cons
        by (simp add: redact_words_Cons del: redact_words.simps(2))
    qed
  qed
  then show ?thesis using assms(3,4) by (simp add: truncate_and_redact_def split_a redact_words_append)
qed

theorem redaction_is_independent_of_the_token_witness:
  "truncate_and_redact (''Authorization: Bearer '' @ ''abc'' @ '' refused'')
     = truncate_and_redact (''Authorization: Bearer '' @ ''0123456789'' @ '' refused'')"
proof -
  have "is_whitespace (last ''Authorization: Bearer '')" "is_whitespace (hd '' refused'')" by code_simp+
  moreover have "secret_word (carry False (split_words ''Authorization: Bearer '')) ''abc''"
    "secret_word (carry False (split_words ''Authorization: Bearer '')) ''0123456789''"
    by code_simp+
  ultimately show ?thesis by (intro redaction_is_independent_of_the_token) simp_all
qed

text \<open>
  A token is recognised at the start of a word only: behind the key of a rendered field, or behind
  a bearer and two spaces, it is shown.
\<close>

lemma token_behind_a_key_is_shown:
  "dv_parse_json e raw = Some (JObject [(''message'', JString ''refused''), (''error'', JString ''rmm_secret'')])
     \<Longrightarrow> display_message e raw = ''refused (error=rmm_secret)''"
  "truncate_and_redact ''Bearer  secret'' = ''Bearer [redacted] secret''"
proof -
  have "event_details f (JObject [(''message'', JString ''refused''), (''error'', JString ''rmm_secret'')])
      = [''error=rmm_secret'']" for f
    by (simp add: event_details_def DETAIL_KEYS_def value_to_text_def List.map_filter_def)
  moreover have "truncate_and_redact ''refused (error=rmm_secret)'' = ''refused (error=rmm_secret)''" by code_simp
  ultimately show "dv_parse_json e raw = Some (JObject [(''message'', JString ''refused''), (''error'', JString ''rmm_secret'')])
     \<Longrightarrow> display_message e raw = ''refused (error=rmm_secret)''"
    by (simp add: display_message_def or_else_def)
  show "truncate_and_redact ''Bearer  secret'' = ''Bearer [redacted] secret''" by code_simp
qed

section \<open>Every snapshot served\<close>

definition buffer_ok :: "log_entry list \<Rightarrow> bool" where
  "buffer_ok buffer \<longleftrightarrow> length buffer \<le> ROMM_LOG_LIMIT \<and> list_all (\<lambda>b. le_source b = ''romm'') buffer
     \<and> distinct_adj (map le_message buffer)"

text \<open>A tail is lines of the journal followed by the daemon's own notes on RomM.\<close>

definition journal_ok :: "log_entry list \<Rightarrow> bool" where
  "journal_ok journal \<longleftrightarrow> length journal \<le> LOG_LINE_LIMIT
     \<and> (\<forall>entry\<in>set journal. chars_count (le_message entry) \<le> 603
          \<and> (le_source entry \<noteq> ''romm'' \<longrightarrow> line_is_safe (le_message entry)))"

definition tail_ok :: "log_tail \<Rightarrow> bool" where
  "tail_ok logs \<longleftrightarrow> (\<exists>journal noted. lt_entries logs = journal @ noted \<and> journal_ok journal \<and> buffer_ok (rev noted))"

definition diagnostics_ok :: "diagnostics_state \<Rightarrow> bool" where
  "diagnostics_ok ds \<longleftrightarrow> buffer_ok (ds_romm_log ds) \<and> (\<forall>entry. ds_cache ds = Some entry \<longrightarrow> tail_ok (sc_logs entry))"

lemma push_romm_log_ok: "buffer_ok buffer \<Longrightarrow> buffer_ok (push_romm_log now level message buffer)"
proof -
  assume ok: "buffer_ok buffer"
  have adj: "distinct_adj (map le_message (tl buffer))" using ok by (cases buffer) (auto simp: buffer_ok_def distinct_adj_ConsD)
  have "buffer_ok (bs @ [\<lparr>le_timestamp = Some now, le_source = ''romm'', le_level = level, le_message = message\<rparr>])"
    if "length bs < ROMM_LOG_LIMIT" "list_all (\<lambda>b. le_source b = ''romm'') bs" "distinct_adj (map le_message bs)"
      "bs \<noteq> [] \<Longrightarrow> le_message (last bs) \<noteq> message" for bs
    using that by (auto simp: buffer_ok_def distinct_adj_append_iff last_map)
  note grown = this
  show ?thesis
  proof (cases "ROMM_LOG_LIMIT \<le> length buffer")
    case True
    then show ?thesis
      using grown[of "tl buffer"] ok adj
      by (cases buffer) (auto simp: push_romm_log_def buffer_ok_def ROMM_LOG_LIMIT_def)
  next
    case False
    then show ?thesis using grown[of buffer] ok by (auto simp: push_romm_log_def buffer_ok_def)
  qed
qed

lemma journal_lines_ok: "journal_ok (take LOG_LINE_LIMIT (List.map_filter (parse_journal_entry e) lines))"
proof -
  have redacted: "\<exists>v. display_message e raw = truncate_and_redact v" for raw
    unfolding display_message_def Let_def by (auto split: option.split json.split)
  have "chars_count (le_message entry) \<le> 603 \<and> (le_source entry \<noteq> ''romm'' \<longrightarrow> line_is_safe (le_message entry))"
    if parsed: "parse_journal_entry e l = Some entry" for l entry
  proof -
    obtain found raw where "dv_parse_json e l = Some found" "Option.bind (json_get ''MESSAGE'' found) json_str = Some raw"
      using parsed by (auto simp: parse_journal_entry_def split: option.splits)
    with parsed have "le_message entry = (if le_source entry = ''romm'' then truncate_plain raw else display_message e raw)"
      by (auto simp: parse_journal_entry_def Let_def)
    moreover obtain v where "display_message e raw = truncate_and_redact v" using redacted by blast
    ultimately show ?thesis
      using truncate_chars_count[of "trim raw"] truncate_and_redact_safe[of v]
      by (auto simp: truncate_plain_def LOG_MESSAGE_LIMIT_def line_is_safe_def)
  qed
  then show ?thesis by (auto simp: journal_ok_def List.map_filter_def dest!: in_set_takeD)
qed

lemma recent_logs_ok:
  assumes "buffer_ok buffer"
  shows "tail_ok (recent_logs e buffer)"
proof -
  have none: "journal_ok []" by (simp add: journal_ok_def)
  have "tail_ok \<lparr>lt_available = a, lt_error = err, lt_entries = journal @ rev buffer\<rparr>" if "journal_ok journal" for a err journal
    using that assms unfolding tail_ok_def by (intro exI[of _ journal] exI[of _ "rev buffer"]) simp
  from this this[OF none] show ?thesis
    by (auto simp: recent_logs_def recent_romm_logs_def Let_def journal_lines_ok split: option.split bool.split)
qed

lemma romm_diagnostic_ok: "buffer_ok buffer \<Longrightarrow> buffer_ok (snd (romm_diagnostic_of srv st f g now db buffer))"
  by (auto simp: romm_diagnostic_of_def Let_def push_romm_log_ok split: sum.splits option.splits)

lemma snapshot_ok:
  assumes "diagnostics_ok ds" and "diagnostics_snapshot_of e srv st f g db ds = (snap, ds')"
  shows "diagnostics_ok ds'" "tail_ok (dg_logs snap)"
proof -
  obtain services logs ds1 where sub: "subprocess_snapshot e ds = ((services, logs), ds1)" by (metis surj_pair)
  have one: "diagnostics_ok ds1" "tail_ok logs"
    using assms(1) sub by (auto simp: subprocess_snapshot_def diagnostics_ok_def Let_def recent_logs_ok split: option.splits if_splits)
  obtain romm buffer where romm: "romm_diagnostic_of srv st f g (dv_stamp e) db (ds_romm_log ds1) = (romm, buffer)" by fastforce
  have "buffer_ok buffer"
    using romm_diagnostic_ok[of "ds_romm_log ds1" srv st f g "dv_stamp e" db] one(1) romm by (auto simp: diagnostics_ok_def)
  then show "diagnostics_ok ds'" "tail_ok (dg_logs snap)"
    using assms(2) sub romm one by (auto simp: diagnostics_snapshot_of_def diagnostics_ok_def)
qed

record 's diagnostics_request =
  dq_env :: diagnostics_env
  dq_server :: "'s romm_server"
  dq_state :: 's
  dq_fault :: "string option"
  dq_query_fault :: "string option"
  dq_settings :: settings_db

definition diagnostics_serve :: "'s diagnostics_request \<Rightarrow> diagnostics_state \<Rightarrow> diagnostics_snapshot \<times> diagnostics_state" where
  "diagnostics_serve q ds = diagnostics_snapshot_of (dq_env q) (dq_server q) (dq_state q) (dq_fault q) (dq_query_fault q) (dq_settings q) ds"

definition diagnostics_start :: diagnostics_state where
  "diagnostics_start = \<lparr>ds_cache = None, ds_romm_log = []\<rparr>"

interpretation diagnostics_machine: machine diagnostics_start "\<lambda>q ds. snd (diagnostics_serve q ds)" "\<lambda>_ _. True" diagnostics_ok
proof
  show "diagnostics_ok diagnostics_start" by (simp add: diagnostics_ok_def diagnostics_start_def buffer_ok_def)
  show "diagnostics_ok (snd (diagnostics_serve q ds))" if "diagnostics_ok ds" for q ds
    using snapshot_ok(1)[OF that] by (metis diagnostics_serve_def prod.collapse)
qed

text \<open>
  C40: whatever was written to the journal, and however often the diagnostics are asked for, a served
  tail, cached or fresh, is at most 200 lines of the journal followed by at most 40 notes of the
  daemon on RomM, no two neighbours the same. No line of the journal has more than 603 characters,
  and one of the daemon or the bridge holds no path and no word that begins with a token's prefix
  (RomM's own lines are shown as they are).
\<close>

theorem served_log_lines_are_redacted:
  "\<exists>journal noted. lt_entries (dg_logs (fst (diagnostics_serve q
      (fold (\<lambda>q ds. snd (diagnostics_serve q ds)) qs diagnostics_start)))) = journal @ noted
    \<and> length journal \<le> 200 \<and> length noted \<le> 40
    \<and> (\<forall>entry\<in>set noted. le_source entry = ''romm'') \<and> distinct_adj (map le_message noted)
    \<and> (\<forall>entry\<in>set journal. chars_count (le_message entry) \<le> 603
         \<and> (le_source entry \<noteq> ''romm'' \<longrightarrow> line_is_safe (le_message entry)))"
proof -
  have "steps_ok (\<lambda>_ _. True) step es s" for step :: "'s diagnostics_request \<Rightarrow> diagnostics_state \<Rightarrow> diagnostics_state" and es s
    by (induction es arbitrary: s) auto
  then have "diagnostics_ok (fold (\<lambda>q ds. snd (diagnostics_serve q ds)) qs diagnostics_start)"
    by (rule diagnostics_machine.steps_inv)
  then have "tail_ok (dg_logs (fst (diagnostics_serve q (fold (\<lambda>q ds. snd (diagnostics_serve q ds)) qs diagnostics_start))))"
    using snapshot_ok(2) by (metis diagnostics_serve_def prod.collapse)
  then show ?thesis
    unfolding tail_ok_def journal_ok_def buffer_ok_def LOG_LINE_LIMIT_def ROMM_LOG_LIMIT_def
    by (auto simp: list_all_iff rev_map[symmetric])
qed

definition demo_diagnostics :: diagnostics_env where
  "demo_diagnostics = \<lparr>dv_systemctl = (\<lambda>_. None), dv_journalctl = Some (True, ''x''), dv_now = 0, dv_done = 0, dv_stamp = ''t'',
     dv_parse_json = (\<lambda>s. if s = ''x'' then Some (JObject [(''MESSAGE'', JString ''cannot read /home/u/rom with rmm_1'')]) else None),
     dv_json_text = (\<lambda>_. []), dv_micros_text = (\<lambda>_. None)\<rparr>"

definition silent_server :: "unit romm_server" where
  "silent_server = \<lparr>srv_platforms = (\<lambda>_ _. NoReply ''down''), srv_rom = (\<lambda>_ _ _. NoReply ''down''), srv_roms = (\<lambda>_ _ _. NoReply ''down''),
     srv_filters = (\<lambda>_ _ _. NoReply ''down''), srv_collections = (\<lambda>_ _. NoReply ''down''),
     srv_create_favorites = (\<lambda>_ _ s. (NoReply ''down'', s)), srv_change_roms = (\<lambda>_ _ _ _ s. (NoReply ''down'', s)),
     srv_set_backlogged = (\<lambda>_ _ _ s. (NoReply ''down'', s)), srv_asset = (\<lambda>_ _ _. NoReply ''down''), srv_status_text = show_nat\<rparr>"

definition demo_request :: "unit diagnostics_request" where
  "demo_request = \<lparr>dq_env = demo_diagnostics, dq_server = silent_server, dq_state = (), dq_fault = None, dq_query_fault = None,
     dq_settings = \<lparr>user_settings_table = None, romm_settings_table = None, stremio_settings_table = None, tmdb_settings_table = None\<rparr>\<rparr>"

theorem served_log_lines_are_redacted_witness:
  "\<exists>entry. lt_entries (dg_logs (fst (diagnostics_serve demo_request diagnostics_start))) = [entry]
     \<and> le_message entry = ''cannot read [path] with [redacted]'' \<and> line_is_safe (le_message entry)"
proof -
  let ?entry = "\<lparr>le_timestamp = None, le_source = ''daemon'', le_level = ''info'', le_message = ''cannot read [path] with [redacted]''\<rparr>"
  have red: "truncate_and_redact ''cannot read /home/u/rom with rmm_1'' = ''cannot read [path] with [redacted]''"
    by code_simp
  have parsed: "parse_journal_entry demo_diagnostics ''x'' = Some ?entry"
    by (simp add: parse_journal_entry_def demo_diagnostics_def or_else_def log_source_def structured_message_def
        display_message_def red)
  have lines: "str_lines ''x'' = [''x'']" by code_simp
  have "lt_entries (recent_logs demo_diagnostics []) = [?entry]"
    using parsed by (simp add: recent_logs_def demo_diagnostics_def lines List.map_filter_def recent_romm_logs_def LOG_LINE_LIMIT_def)
  then have served: "lt_entries (dg_logs (fst (diagnostics_serve demo_request
      (fold (\<lambda>q ds. snd (diagnostics_serve q ds)) [] diagnostics_start)))) = [?entry]"
    by (simp add: diagnostics_serve_def demo_request_def diagnostics_snapshot_of_def subprocess_snapshot_def diagnostics_start_def
        Let_def split: prod.split)
  obtain journal noted where tail: "[?entry] = journal @ noted" "\<forall>entry\<in>set noted. le_source entry = ''romm''"
      "\<forall>entry\<in>set journal. chars_count (le_message entry) \<le> 603
         \<and> (le_source entry \<noteq> ''romm'' \<longrightarrow> line_is_safe (le_message entry))"
    using served_log_lines_are_redacted[of demo_request "[]"] unfolding served by blast
  have "?entry \<in> set journal" using tail(1,2) by (cases journal) auto
  then have "line_is_safe (le_message ?entry)" using tail(3) by auto
  with served show ?thesis by auto
qed

end
