(* ===== verification/Api_Payloads.thy ===== *)
theory Api_Payloads
  imports Daemon_Launch Daemon_Auth Daemon_Links Categorizer_Jobs Daemon_Diagnostics
begin

text \<open>
  What the daemon's HTTP interface says (\<^verbatim>\<open>hearthdeck-daemon/src/api.rs\<close>): the error answers and the
  mapping of every service error to one, the payloads a RomM game is turned into, the facets, the
  ids a launch names and the entry a retro play is recorded under. Calendar formatting (chrono) and
  URL parsing are parameters.
\<close>

section \<open>Errors\<close>

record api_error =
  er_status :: nat
  er_message :: string

definition api_unauthorized :: api_error where
  "api_unauthorized = \<lparr>er_status = 401, er_message = ''authentication required''\<rparr>"

definition api_derived_collection :: api_error where
  "api_derived_collection = \<lparr>er_status = 400, er_message = ''collection contents are derived and cannot be edited''\<rparr>"

definition api_not_found :: api_error where
  "api_not_found = \<lparr>er_status = 404, er_message = ''resource not found''\<rparr>"

definition api_invalid_pairing_request :: api_error where
  "api_invalid_pairing_request = \<lparr>er_status = 400, er_message = ''client_name must contain 1 to 128 characters''\<rparr>"

definition api_service_unavailable :: api_error where
  "api_service_unavailable = \<lparr>er_status = 503, er_message = ''this deployment does not provide that service''\<rparr>"

definition api_romm_unavailable :: api_error where
  "api_romm_unavailable = \<lparr>er_status = 503, er_message = ''RomM is not configured''\<rparr>"

definition api_bad_gateway :: "string \<Rightarrow> api_error" where
  "api_bad_gateway message = \<lparr>er_status = 502, er_message = message\<rparr>"

definition api_stremio_link :: "string \<Rightarrow> api_error" where
  "api_stremio_link message = \<lparr>er_status = 502, er_message = message\<rparr>"

definition api_romm_link :: "string \<Rightarrow> api_error" where
  "api_romm_link message = \<lparr>er_status = 502, er_message = message\<rparr>"

definition api_invalid_romm_settings :: "string \<Rightarrow> api_error" where
  "api_invalid_romm_settings message = \<lparr>er_status = 400, er_message = message\<rparr>"

definition api_conflict :: "string \<Rightarrow> api_error" where
  "api_conflict message = \<lparr>er_status = 409, er_message = message\<rparr>"

text \<open>The detail of an internal error goes to the journal and nowhere else.\<close>

definition api_internal :: "'e \<Rightarrow> api_error" where
  "api_internal error = \<lparr>er_status = 500, er_message = ''internal error''\<rparr>"

definition api_bridge :: "bridge_error_code \<Rightarrow> string \<Rightarrow> api_error" where
  "api_bridge code message =
     \<lparr>er_status = (case code of
         bridge_error_code.NotFound \<Rightarrow> 404 | InvalidRequest \<Rightarrow> 502 | LaunchFailed \<Rightarrow> 502 | Internal \<Rightarrow> 502),
      er_message = message\<rparr>"

definition api_romm_query :: "romm_query_error \<Rightarrow> api_error" where
  "api_romm_query error = (case error of NotConfigured \<Rightarrow> api_romm_unavailable | QueryFailed err \<Rightarrow> api_bad_gateway err)"

definition api_retro_launch :: "retro_launch_error \<Rightarrow> api_error" where
  "api_retro_launch error =
     (let message = RetroLaunchError_fmt error in
      case error of
        RommError err \<Rightarrow> api_romm_query err
      | PlatformNotFound \<Rightarrow> api_not_found
      | UnsupportedPlatform _ \<Rightarrow> \<lparr>er_status = 501, er_message = message\<rparr>
      | CoreNotInstalled _ \<Rightarrow> \<lparr>er_status = 503, er_message = message\<rparr>
      | RomHasNoContentFile \<Rightarrow> \<lparr>er_status = 502, er_message = message\<rparr>
      | InvalidContentFileName \<Rightarrow> \<lparr>er_status = 502, er_message = message\<rparr>
      | RomNotOnDisk _ \<Rightarrow> api_not_found)"

definition api_of_curation :: "curation_error \<Rightarrow> api_error" where
  "api_of_curation error =
     (case error of
        curation_error.NotFound \<Rightarrow> api_not_found
      | ReadOnly \<Rightarrow> api_derived_collection
      | Storage err \<Rightarrow> api_internal err)"

definition api_of_control :: "Daemon_Categorizer.control_error \<Rightarrow> api_error" where
  "api_of_control error =
     (case error of
        Unavailable \<Rightarrow> api_service_unavailable
      | Disabled \<Rightarrow> api_conflict ''categorization is not enabled''
      | BusyError \<Rightarrow> api_conflict ''another categorization job is running''
      | ModelAbsent \<Rightarrow> api_conflict ''the model is not downloaded yet''
      | ControlStorage err \<Rightarrow> api_internal err)"

definition api_of_romm_control :: "romm_control_error \<Rightarrow> api_error" where
  "api_of_romm_control error =
     (case error of
        InvalidSettings err \<Rightarrow> api_invalid_romm_settings err
      | RommLink err \<Rightarrow> api_romm_link err
      | RommStorage err \<Rightarrow> api_internal err)"

definition api_of_tmdb_control :: "tmdb_control_error \<Rightarrow> api_error" where
  "api_of_tmdb_control error =
     (case error of
        InvalidKey err \<Rightarrow> api_invalid_romm_settings err
      | TmdbStorage err \<Rightarrow> api_internal err
      | TmdbCatalog err \<Rightarrow> api_internal err)"

definition api_of_stremio_control :: "stremio_control_error \<Rightarrow> api_error" where
  "api_of_stremio_control error =
     (case error of
        StremioLink err \<Rightarrow> api_stremio_link err
      | StremioStorage err \<Rightarrow> api_internal err
      | StremioCatalog err \<Rightarrow> api_internal err)"

definition api_of_session_control :: "Daemon_Sessions.control_error \<Rightarrow> api_error" where
  "api_of_session_control error =
     (case error of
        ControlRejected code message \<Rightarrow> api_bridge code message
      | ControlTransport err \<Rightarrow> api_bad_gateway err
      | UnexpectedLookup \<Rightarrow> api_bad_gateway ''bridge rejected application-session lookup''
      | UnexpectedStop \<Rightarrow> api_bad_gateway ''bridge rejected application-session stop'')"

section \<open>Games\<close>

record retro_rom_version =
  rv_id :: int
  rv_title :: string
  rv_is_main_sibling :: bool

record retro_game =
  re_id :: int
  re_platform_id :: int
  re_title :: string
  re_summary :: "string option"
  re_cover_path :: "string option"
  re_cover_url :: "string option"
  re_screenshot_paths :: "string list"
  re_has_manual :: bool
  re_genres :: "string list"
  re_player_count :: "string option"
  re_release_year :: "int option"
  re_regions :: "string list"
  re_sibling_roms :: "retro_rom_version list"
  re_version_label :: "string option"

text \<open>Chrono's reading of a timestamp, and the scheme and text of a parsed URL.\<close>

record payload_env =
  pe_year :: "int \<Rightarrow> int option"
  pe_date :: "int \<Rightarrow> string option"
  pe_url :: "string \<Rightarrow> (string \<times> string) option"

definition release_year :: "payload_env \<Rightarrow> romm_game_metadata \<Rightarrow> int option" where
  "release_year e m = Option.bind (release_seconds m) (pe_year e)"

definition release_date :: "payload_env \<Rightarrow> romm_game_metadata \<Rightarrow> string option" where
  "release_date e m = Option.bind (release_seconds m) (pe_date e)"

text \<open>\<^verbatim>\<open>rsplit_once('.')\<close>.\<close>

definition rsplit_once_dot :: "string \<Rightarrow> (string \<times> string) option" where
  "rsplit_once_dot s = map_option (\<lambda>(a, b). (rev b, rev a)) (split_once (CHR ''.'') (rev s))"

definition strip_extension :: "string \<Rightarrow> string" where
  "strip_extension name =
     (case rsplit_once_dot name of
        Some (stem, _) \<Rightarrow> if stem \<noteq> [] then stem else name
      | None \<Rightarrow> name)"

definition non_empty_romm_path :: "string option \<Rightarrow> string option" where
  "non_empty_romm_path value = option_filter (\<lambda>p. p \<noteq> []) (map_option trim value)"

definition http_url :: "(string \<Rightarrow> (string \<times> string) option) \<Rightarrow> string option \<Rightarrow> string option" where
  "http_url parse value =
     (case value of
        None \<Rightarrow> None
      | Some v \<Rightarrow>
          (case parse (trim v) of
             None \<Rightarrow> None
           | Some (scheme, url_text) \<Rightarrow> if scheme = ''http'' \<or> scheme = ''https'' then Some url_text else None))"

definition sibling_label :: "romm_sibling_rom \<Rightarrow> string" where
  "sibling_label s =
     (case find (\<lambda>candidate. candidate \<noteq> [])
             [trim (sb_fs_name_no_ext s), trim (or_else (sb_name s) []), trim (sb_fs_name_no_tags s)] of
        Some label \<Rightarrow> label
      | None \<Rightarrow> ''Untitled version'')"

definition sibling_version :: "romm_sibling_rom \<Rightarrow> retro_rom_version" where
  "sibling_version s = \<lparr>rv_id = sb_id s, rv_title = sibling_label s, rv_is_main_sibling = sb_is_main_sibling s\<rparr>"

text \<open>The loop that appends the id to a title already seen; the new title is not added to those seen.\<close>

fun distinguish :: "string set \<Rightarrow> retro_rom_version list \<Rightarrow> retro_rom_version list" where
  "distinguish seen [] = []"
| "distinguish seen (v # vs) =
     (if rv_title v \<in> seen then v\<lparr>rv_title := rv_title v @ '' (#'' @ show_int (rv_id v) @ '')''\<rparr> # distinguish seen vs
      else v # distinguish (insert (rv_title v) seen) vs)"

definition game_title :: "romm_game \<Rightarrow> string" where
  "game_title game = or_else (option_filter (\<lambda>name. trim name \<noteq> []) (rg_name game)) (rg_fs_name_no_tags game)"

definition version_label_of :: "romm_game \<Rightarrow> string \<Rightarrow> string" where
  "version_label_of game title =
     or_else (option_filter (\<lambda>label. label \<noteq> []) (map_option (\<lambda>name. trim (strip_extension name)) (rg_fs_name game))) title"

definition RetroGame_from :: "payload_env \<Rightarrow> romm_game \<Rightarrow> retro_game" where
  "RetroGame_from e game =
     (let title = game_title game;
          metadatum = rg_metadatum game;
          sibling_roms = distinguish {} (map sibling_version (rg_sibling_roms game)) in
      \<lparr>re_id = rg_id game, re_platform_id = rg_platform_id game, re_title = title, re_summary = rg_summary game,
       re_cover_path = (case non_empty_romm_path (rg_path_cover_small game) of
          Some p \<Rightarrow> Some p | None \<Rightarrow> non_empty_romm_path (rg_path_cover_large game)),
       re_cover_url = http_url (pe_url e) (rg_url_cover game),
       re_screenshot_paths = List.map_filter (\<lambda>p. non_empty_romm_path (Some p)) (rg_merged_screenshots game),
       re_has_manual = (rg_has_manual game \<or> (case rg_path_manual game of None \<Rightarrow> False | Some p \<Rightarrow> trim p \<noteq> [])),
       re_genres = gm_genres metadatum,
       re_player_count = (if trim (gm_player_count metadatum) \<noteq> [] then Some (gm_player_count metadatum) else None),
       re_release_year = release_year e metadatum,
       re_regions = rg_regions game, re_sibling_roms = sibling_roms,
       re_version_label = (if sibling_roms \<noteq> [] then Some (version_label_of game title) else None)\<rparr>)"

record retro_game_details =
  rd_id :: int
  rd_platform_id :: int
  rd_title :: string
  rd_platform_name :: "string option"
  rd_summary :: "string option"
  rd_cover_path :: "string option"
  rd_cover_large_path :: "string option"
  rd_screenshot_paths :: "string list"
  rd_genres :: "string list"
  rd_player_count :: "string option"
  rd_release_year :: "int option"
  rd_release_date :: "string option"
  rd_regions :: "string list"
  rd_languages :: "string list"
  rd_tags :: "string list"
  rd_companies :: "string list"
  rd_game_modes :: "string list"
  rd_age_ratings :: "string list"
  rd_average_rating :: "rat option"
  rd_file_size_bytes :: "nat option"
  rd_sibling_roms :: "retro_rom_version list"
  rd_version_label :: "string option"
  rd_favorite :: bool
  rd_backlogged :: bool

definition RetroGameDetails_from :: "payload_env \<Rightarrow> romm_game \<Rightarrow> retro_game_details" where
  "RetroGameDetails_from e game =
     (let base = RetroGame_from e game; metadatum = rg_metadatum game in
      \<lparr>rd_id = re_id base, rd_platform_id = re_platform_id base, rd_title = re_title base,
       rd_platform_name = option_filter (\<lambda>name. name \<noteq> []) (map_option trim (rg_platform_display_name game)),
       rd_summary = re_summary base, rd_cover_path = re_cover_path base,
       rd_cover_large_path = non_empty_romm_path (rg_path_cover_large game),
       rd_screenshot_paths = re_screenshot_paths base, rd_genres = re_genres base,
       rd_player_count = re_player_count base, rd_release_year = re_release_year base,
       rd_release_date = release_date e metadatum, rd_regions = re_regions base,
       rd_languages = rg_languages game, rd_tags = rg_tags game, rd_companies = gm_companies metadatum,
       rd_game_modes = gm_game_modes metadatum, rd_age_ratings = gm_age_ratings metadatum,
       rd_average_rating = gm_average_rating metadatum, rd_file_size_bytes = rg_fs_size_bytes game,
       rd_sibling_roms = re_sibling_roms base, rd_version_label = re_version_label base,
       rd_favorite = or_else (rg_is_favorite game) False, rd_backlogged = ru_backlogged (rg_rom_user game)\<rparr>)"

section \<open>Facets\<close>

record retro_facet_option =
  fo_value :: string
  fo_label :: string

record retro_facet =
  ft_id :: string
  ft_label :: string
  ft_options :: "retro_facet_option list"

definition retro_facets :: "romm_filter_values \<Rightarrow> retro_facet list" where
  "retro_facets values =
     map (\<lambda>(i, label, options). \<lparr>ft_id = i, ft_label = label, ft_options = map (\<lambda>v. \<lparr>fo_value = v, fo_label = v\<rparr>) options\<rparr>)
       (filter (\<lambda>(_, _, options). options \<noteq> [])
          [(''genre'', ''Genre'', fl_genres values), (''region'', ''Region'', fl_regions values)])"

section \<open>Launch ids and plays\<close>

datatype item_launch = RetroItem int | CatalogItemId string

definition item_launch :: "string \<Rightarrow> item_launch" where
  "item_launch item_id =
     (case rom_id_from_item item_id of
        Some rom_id \<Rightarrow> RetroItem rom_id
      | None \<Rightarrow> CatalogItemId (or_else (catalog_id_from_item item_id) item_id))"

definition json_option :: "('a \<Rightarrow> json) \<Rightarrow> 'a option \<Rightarrow> json" where
  "json_option f v = (case v of None \<Rightarrow> JNull | Some x \<Rightarrow> f x)"

definition retro_activity_entry :: "payload_env \<Rightarrow> romm_game \<Rightarrow> activity_entry" where
  "retro_activity_entry e game =
     (let game = RetroGame_from e game in
      \<lparr>ae_id = ''romm:'' @ show_int (re_id game), ae_title = re_title game, ae_icon = re_cover_path game,
       ae_categories = [''Game'', ''hearthdeck-console:'' @ show_int (re_platform_id game)],
       ae_kind = Some ''game'', ae_source = ''romm'',
       ae_metadata = JObject
         [(''summary'', json_option JString (re_summary game)),
          (''genres'', JArray (map JString (re_genres game))),
          (''release_year'', json_option (\<lambda>y. JNumber (show_int y)) (re_release_year game)),
          (''screenshot_paths'', JArray (map JString (re_screenshot_paths game)))]\<rparr>)"

section \<open>Health\<close>

record host_capabilities =
  hc_launch :: bool
  hc_application_sessions :: bool
  hc_retro_launch :: bool
  hc_categorization :: bool

definition host_capabilities_of :: host_capabilities where
  "host_capabilities_of = \<lparr>hc_launch = True, hc_application_sessions = True, hc_retro_launch = True, hc_categorization = False\<rparr>"

record health_response =
  hr_version :: string
  hr_lan_enabled :: bool
  hr_transport :: string
  hr_providers :: "provider_health list"
  hr_capabilities :: host_capabilities

definition redact_provider_error :: "provider_health \<Rightarrow> provider_health" where
  "redact_provider_error provider =
     (if ph_last_error provider \<noteq> None then provider\<lparr>ph_last_error := Some ''provider error''\<rparr> else provider)"

end
