(* ===== verification/Daemon_Api.thy ===== *)
theory Daemon_Api
  imports Api_Payloads
begin

text \<open>
  The daemon's HTTP interface (\<^verbatim>\<open>hearthdeck-daemon/src/api.rs\<close>, with \<^verbatim>\<open>AppState\<close> of \<^verbatim>\<open>state.rs\<close>): one
  handler per route over the joint state of the services, the routers of the two listeners and the
  check of the bearer token. A handler runs a service on its part of the state and puts the part
  back. Matching of paths and decoding of bodies are the web framework's: a call is a decoded route.
  A handler that sends into a full refresh queue waits, which is the reply \<open>Waiting\<close>.
\<close>

section \<open>State\<close>

record ('s, 'w) app_state =
  ap_auth :: auth_db
  ap_daemon :: daemon
  ap_catalog :: catalog_db
  ap_collections :: collections_db
  ap_settings :: settings_db
  ap_stremio_link :: link_state
  ap_romm_link :: device_state
  ap_discovery :: "worker_set option"
  ap_enrichment :: "worker_set option"
  ap_scan :: scan_state
  ap_report :: "report_row option"
  ap_jobs :: "cat_job list"
  ap_diagnostics :: diagnostics_state
  ap_romm :: 's
  ap_host :: 'w

text \<open>The statements that can fail, by store.\<close>

record api_faults =
  fa_auth :: "string option"
  fa_catalog :: "string option"
  fa_get :: "string \<Rightarrow> string option"
  fa_catalog_write :: "db_error option"
  fa_collections :: "string option"
  fa_activity :: "string option"
  fa_settings :: "string option"
  fa_settings_read :: "string option"
  fa_report :: "string option"
  fa_control :: control_faults

text \<open>
  What a request meets: the configuration, the clock, fresh random values, the faults, the servers
  and the host, and the libraries.
\<close>

record ('s, 'w) api_env =
  av_config :: config
  av_version :: string
  av_categorization :: bool
  av_orders :: "string list \<times> string list"
  av_hash :: "string \<Rightarrow> string"
  av_random :: string
  av_uuid :: string
  av_now :: nat
  av_later :: nat
  av_stamp :: string
  av_faults :: api_faults
  av_session :: session_env
  av_server :: "'s romm_server"
  av_login :: romm_api
  av_parse_url :: url_parser
  av_url_text :: "string \<Rightarrow> ip_addr option \<Rightarrow> string option"
  av_local_addr :: "ip_addr option"
  av_http :: http_get
  av_parse_json :: "string \<Rightarrow> json option"
  av_host :: "'w readiness_host"
  av_read_disk :: "string \<Rightarrow> string + string"
  av_environment :: "string \<rightharpoonup> string"
  av_model :: model_status
  av_phase :: "phase_report option"
  av_payload :: payload_env
  av_diagnostics :: diagnostics_env
  av_debug :: "bridge_response \<Rightarrow> string"
  av_header_text :: "string \<Rightarrow> string option"
  av_header_ok :: "string \<Rightarrow> bool"

section \<open>Services on their part of the state\<close>

definition stremio_part :: "('s, 'w) app_state \<Rightarrow> stremio_service" where
  "stremio_part st = \<lparr>sv_settings = ap_settings st, sv_link = ap_stremio_link st, sv_catalog = ap_catalog st\<rparr>"

definition put_stremio :: "stremio_service \<Rightarrow> ('s, 'w) app_state \<Rightarrow> ('s, 'w) app_state" where
  "put_stremio sv st = st\<lparr>ap_settings := sv_settings sv, ap_stremio_link := sv_link sv, ap_catalog := sv_catalog sv\<rparr>"

definition romm_part :: "('s, 'w) app_state \<Rightarrow> romm_service" where
  "romm_part st = \<lparr>rsv_settings = ap_settings st, rsv_link = ap_romm_link st\<rparr>"

definition put_romm :: "romm_service \<Rightarrow> ('s, 'w) app_state \<Rightarrow> ('s, 'w) app_state" where
  "put_romm sv st = st\<lparr>ap_settings := rsv_settings sv, ap_romm_link := rsv_link sv\<rparr>"

definition cat_part :: "('s, 'w) app_state \<Rightarrow> cat_service" where
  "cat_part st = \<lparr>cz_state = ap_scan st, cz_catalog = ap_catalog st, cz_report = ap_report st,
     cz_collections = ap_collections st, cz_settings = ap_settings st, cz_events = d_events (ap_daemon st)\<rparr>"

definition put_cat :: "cat_service \<Rightarrow> ('s, 'w) app_state \<Rightarrow> ('s, 'w) app_state" where
  "put_cat sv st = st\<lparr>ap_scan := cz_state sv, ap_catalog := cz_catalog sv, ap_report := cz_report sv,
     ap_collections := cz_collections sv, ap_settings := cz_settings sv,
     ap_daemon := (ap_daemon st)\<lparr>d_events := cz_events sv\<rparr>\<rparr>"

definition put_job :: "cat_job \<Rightarrow> ('s, 'w) app_state \<Rightarrow> ('s, 'w) app_state" where
  "put_job job st = (if job = JobDone then st else st\<lparr>ap_jobs := ap_jobs st @ [job]\<rparr>)"

definition rules_part :: "('s, 'w) api_env \<Rightarrow> ('s, 'w) app_state \<Rightarrow> rule_service" where
  "rules_part e st =
     \<lparr>rs_catalog = ap_catalog st, rs_list_fault = fa_catalog (av_faults e), rs_get_fault = fa_get (av_faults e),
      rs_activity = d_activity (ap_daemon st), rs_activity_fault = fa_activity (av_faults e),
      rs_latest_report = (if av_categorization e
         then Some (CategorizationStore_latest (fa_report (av_faults e)) (cat_part st)) else None),
      rs_rom_cover = (\<lambda>rom_id. case rom (av_server e) (ap_romm st) (fa_settings_read (av_faults e)) (ap_settings st) rom_id of
         Inl _ \<Rightarrow> Inl [] | Inr game \<Rightarrow> Inr (re_cover_path (RetroGame_from (av_payload e) game)))\<rparr>"

text \<open>
  The session service asks the discovery service for a refresh, when there is one; a full queue
  makes it wait (\<open>None\<close>).
\<close>

definition session_call ::
  "(session_env \<Rightarrow> daemon \<Rightarrow> 'a \<times> daemon) \<Rightarrow> ('s, 'w) api_env \<Rightarrow> ('s, 'w) app_state \<Rightarrow> 'a option \<times> ('s, 'w) app_state" where
  "session_call f e st =
     (case f ((av_session e)\<lparr>has_discovery := ap_discovery st \<noteq> None\<rparr>) ((ap_daemon st)\<lparr>d_requests := []\<rparr>) of (r, d) \<Rightarrow>
      let st = st\<lparr>ap_daemon := d\<lparr>d_requests := []\<rparr>\<rparr> in
      case ap_discovery st of
        None \<Rightarrow> (Some r, st)
      | Some ws \<Rightarrow>
          (case request_each (d_requests d) ws of
             None \<Rightarrow> (None, st)
           | Some ws \<Rightarrow> (Some r, st\<lparr>ap_discovery := Some ws\<rparr>)))"

section \<open>Calls and replies\<close>

record romm_games_query =
  gq_platform_id :: "int option"
  gq_q :: "string option"
  gq_genre :: "string option"
  gq_region :: "string option"
  gq_limit :: "nat option"
  gq_offset :: "nat option"

record romm_games_response =
  gr_items :: "retro_game list"
  gr_total :: nat
  gr_limit :: nat
  gr_offset :: nat

datatype api_call =
    CallHealth
  | CallCompletePairing string string
  | CallDiagnostics
  | CallListLibrary
  | CallListCollections
  | CallAddCollectionItem string string string "string option"
  | CallRemoveCollectionItem string string
  | CallListRetroConsoles
  | CallRetroReadiness
  | CallSyncRetroReadiness
  | CallInstallRetroCores
  | CallListRetroRoms romm_games_query
  | CallListRetroFacets "int option"
  | CallRetroRomDetails int
  | CallSetRetroFavorite int bool
  | CallSetRetroBacklogged int bool
  | CallRetroAsset string
  | CallGetRommSettings
  | CallUpdateRommSettings string string
  | CallClearRommSettings
  | CallRommLogin string string string
  | CallStartRommLink string
  | CallPollRommLink
  | CallStartStremioLink
  | CallPollStremioLink
  | CallGetStremioSettings
  | CallUnlinkStremio
  | CallCategorization
  | CallEnableCategorization
  | CallDisableCategorization
  | CallStartCategorization
  | CallRemoveCategorizationCollections
  | CallDetectFormFactors
  | CallRefreshSource string
  | CallRefreshMetadata string
  | CallLaunchItem string input_profile
  | CallActiveSession
  | CallStopActiveSession
  | CallStopSession string
  | CallEvents
  | CallCreatePairing
  | CallGetTmdbSettings
  | CallUpdateTmdbSettings string
  | CallClearTmdbSettings

datatype api_body =
    NoBody
  | HealthBody health_response
  | PairingBody string nat
  | PairingCompleteBody string string
  | DiagnosticsBody diagnostics_snapshot
  | LibraryBody "catalog_item list"
  | CollectionsBody "rail_collection list"
  | CollectionBody rail_collection
  | ConsolesBody "romm_platform list"
  | ReadinessBody "retro_system_readiness list"
  | BiosSyncBody retro_bios_sync_report
  | CoreInstallBody retro_core_install_report
  | GamesBody romm_games_response
  | FacetsBody "retro_facet list"
  | DetailsBody retro_game_details
  | FavoriteBody bool
  | BacklogBody bool
  | AssetBody string string
  | RommSettingsBody "romm_settings option"
  | DeviceOfferBody device_offer
  | RommLinkBody romm_link_status
  | LinkOfferBody link_offer
  | StremioLinkBody link_status
  | StremioSettingsBody "stremio_connection option"
  | CategorizationBody categorization_snapshot
  | SessionBody "application_session option"
  | TmdbSettingsBody "tmdb_settings option"
  | EventStream

datatype api_reply = Refused api_error | Replied nat api_body | Waiting | NotRouted

definition json_reply :: "('a \<Rightarrow> api_body) \<Rightarrow> api_error + 'a \<Rightarrow> api_reply" where
  "json_reply body r = (case r of Inl err \<Rightarrow> Refused err | Inr x \<Rightarrow> Replied 200 (body x))"

definition status_reply :: "nat \<Rightarrow> api_error + 'a \<Rightarrow> api_reply" where
  "status_reply status r = (case r of Inl err \<Rightarrow> Refused err | Inr _ \<Rightarrow> Replied status NoBody)"

section \<open>Health and pairing\<close>

definition health_handler :: "('s, 'w) api_env \<Rightarrow> ('s, 'w) app_state \<Rightarrow> api_reply" where
  "health_handler e st =
     Replied 200 (HealthBody
       \<lparr>hr_version = av_version e, hr_lan_enabled = cf_lan_enabled (av_config e),
        hr_transport = (if cf_lan_enabled (av_config e) then ''https'' else ''http''),
        hr_providers = map redact_provider_error
          (AppState_provider_health (fst (av_orders e)) (ap_discovery st) (snd (av_orders e)) (ap_enrichment st)),
        hr_capabilities = host_capabilities_of\<lparr>hc_categorization := av_categorization e\<rparr>\<rparr>)"

definition create_pairing_handler :: "('s, 'w) api_env \<Rightarrow> ('s, 'w) app_state \<Rightarrow> api_reply \<times> ('s, 'w) app_state" where
  "create_pairing_handler e st =
     (let code = map ascii_upper (av_random e) in
      case fa_auth (av_faults e) of
        Some err \<Rightarrow> (Refused (api_internal err), st)
      | None \<Rightarrow>
          (case create_pairing_code (av_now e) (av_hash e code) (ap_auth st) of
             (Inl err, db) \<Rightarrow> (Refused (api_internal err), st\<lparr>ap_auth := db\<rparr>)
           | (Inr expires_at, db) \<Rightarrow> (Replied 200 (PairingBody code expires_at), st\<lparr>ap_auth := db\<rparr>)))"

definition complete_pairing_handler ::
  "string \<Rightarrow> string \<Rightarrow> ('s, 'w) api_env \<Rightarrow> ('s, 'w) app_state \<Rightarrow> api_reply \<times> ('s, 'w) app_state" where
  "complete_pairing_handler code client_name e st =
     (if trim client_name = [] \<or> 128 < chars_count client_name then (Refused api_invalid_pairing_request, st)
      else let token = ''hearthdeck_'' @ av_random e in
      case fa_auth (av_faults e) of
        Some err \<Rightarrow> (Refused (api_internal err), st)
      | None \<Rightarrow>
          (case consume_pairing_code (av_now e) (av_later e) (av_hash e code) (av_uuid e) client_name (av_hash e token) (ap_auth st) of
             (Inl err, db) \<Rightarrow> (Refused (api_internal err), st\<lparr>ap_auth := db\<rparr>)
           | (Inr None, db) \<Rightarrow> (Refused api_unauthorized, st\<lparr>ap_auth := db\<rparr>)
           | (Inr (Some client_id), db) \<Rightarrow> (Replied 200 (PairingCompleteBody client_id token), st\<lparr>ap_auth := db\<rparr>)))"

section \<open>Library and collections\<close>

definition list_library_handler :: "('s, 'w) api_env \<Rightarrow> ('s, 'w) app_state \<Rightarrow> api_reply" where
  "list_library_handler e st =
     (case fa_catalog (av_faults e) of
        Some err \<Rightarrow> Refused (api_internal err)
      | None \<Rightarrow> Replied 200 (LibraryBody (CatalogStore_list (ap_catalog st))))"

definition rail_of :: "collection \<Rightarrow> rail_collection" where
  "rail_of c = \<lparr>co_row = fst c, co_items = map (\<lambda>i. \<lparr>co_item_id = i_item i, co_name = i_name i, co_icon = i_icon i,
     co_background = None, co_logo = None, co_description = None, co_played = None\<rparr>) (snd c)\<rparr>"

definition list_collections_handler :: "('s, 'w) api_env \<Rightarrow> ('s, 'w) app_state \<Rightarrow> api_reply \<times> ('s, 'w) app_state" where
  "list_collections_handler e st =
     (case fa_collections (av_faults e) of
        Some err \<Rightarrow> (Refused (api_internal err), st)
      | None \<Rightarrow>
          (case list_collections (av_now e) (ap_collections st) of (db, cs) \<Rightarrow>
             let st = st\<lparr>ap_collections := db\<rparr> in
             (Replied 200 (CollectionsBody (compose (rules_part e st) (map rail_of cs))), st)))"

definition add_collection_item_handler ::
  "string \<Rightarrow> string \<Rightarrow> string \<Rightarrow> string option \<Rightarrow> ('s, 'w) api_env \<Rightarrow> ('s, 'w) app_state \<Rightarrow> api_reply \<times> ('s, 'w) app_state" where
  "add_collection_item_handler slug item_id name icon e st =
     (case fa_collections (av_faults e) of
        Some err \<Rightarrow> (Refused (api_internal err), st)
      | None \<Rightarrow>
          (case add_curated_item (av_now e) slug item_id name icon (ap_collections st) of (db, r) \<Rightarrow>
             (json_reply (\<lambda>c. CollectionBody (rail_of c)) (map_sum api_of_curation id r), st\<lparr>ap_collections := db\<rparr>)))"

definition remove_collection_item_handler ::
  "string \<Rightarrow> string \<Rightarrow> ('s, 'w) api_env \<Rightarrow> ('s, 'w) app_state \<Rightarrow> api_reply \<times> ('s, 'w) app_state" where
  "remove_collection_item_handler slug item_id e st =
     (case fa_collections (av_faults e) of
        Some err \<Rightarrow> (Refused (api_internal err), st)
      | None \<Rightarrow>
          (case remove_curated_item (av_now e) slug item_id (ap_collections st) of (db, r) \<Rightarrow>
             (json_reply (\<lambda>c. CollectionBody (rail_of c)) (map_sum api_of_curation id r), st\<lparr>ap_collections := db\<rparr>)))"

section \<open>RomM\<close>

definition api_romm_platforms :: "('s, 'w) api_env \<Rightarrow> ('s, 'w) app_state \<Rightarrow> api_error + romm_platform list" where
  "api_romm_platforms e st =
     map_sum api_romm_query id (platforms (av_server e) (ap_romm st) (fa_settings_read (av_faults e)) (ap_settings st))"

definition list_retro_consoles_handler :: "('s, 'w) api_env \<Rightarrow> ('s, 'w) app_state \<Rightarrow> api_reply" where
  "list_retro_consoles_handler e st =
     json_reply (\<lambda>ps. ConsolesBody (sort_key (\<lambda>p. or_else (rp_display_name p) (rp_name p)) ps)) (api_romm_platforms e st)"

definition retro_readiness_handler :: "('s, 'w) api_env \<Rightarrow> ('s, 'w) app_state \<Rightarrow> api_reply" where
  "retro_readiness_handler e st =
     json_reply (\<lambda>ps. ReadinessBody (readiness (av_host e) (ReadinessPaths_discover (av_environment e)) ps (ap_host st)))
       (api_romm_platforms e st)"

definition sync_retro_readiness_handler :: "('s, 'w) api_env \<Rightarrow> ('s, 'w) app_state \<Rightarrow> api_reply \<times> ('s, 'w) app_state" where
  "sync_retro_readiness_handler e st =
     (case api_romm_platforms e st of
        Inl err \<Rightarrow> (Refused err, st)
      | Inr ps \<Rightarrow>
     (case cf_bios_source (av_config e) of
        Inl InvalidSourceUrl \<Rightarrow>
          (Refused \<lparr>er_status = 503, er_message = ''HEARTHDECK_BIOS_SOURCE_URL is not a GitHub project link''\<rparr>, st)
      | Inr source \<Rightarrow>
          (case sync_bios (av_host e) (ReadinessPaths_discover (av_environment e)) source ps (ap_host st) of (report, w) \<Rightarrow>
             (Replied 200 (BiosSyncBody report), st\<lparr>ap_host := w\<rparr>))))"

definition install_retro_cores_handler :: "('s, 'w) api_env \<Rightarrow> ('s, 'w) app_state \<Rightarrow> api_reply" where
  "install_retro_cores_handler e st =
     (case api_romm_platforms e st of
        Inl err \<Rightarrow> Refused err
      | Inr ps \<Rightarrow>
          json_reply CoreInstallBody (map_sum api_bad_gateway id
            (install_missing_cores (bridge (av_session e))
               (readiness (av_host e) (ReadinessPaths_discover (av_environment e)) ps (ap_host st)))))"

definition clamp_page :: "nat option \<Rightarrow> nat" where
  "clamp_page limit = max 1 (min 100 (or_else limit 48))"

definition list_retro_roms_handler :: "romm_games_query \<Rightarrow> ('s, 'w) api_env \<Rightarrow> ('s, 'w) app_state \<Rightarrow> api_reply" where
  "list_retro_roms_handler q e st =
     json_reply (\<lambda>page. GamesBody \<lparr>gr_items = map (RetroGame_from (av_payload e)) (gp_items page), gr_total = gp_total page,
         gr_limit = gp_limit page, gr_offset = gp_offset page\<rparr>)
       (map_sum api_romm_query id
         (games (av_server e) (ap_romm st) (fa_settings_read (av_faults e)) (ap_settings st) (gq_platform_id q)
            (option_filter (\<lambda>t. t \<noteq> []) (map_option trim (gq_q q)))
            \<lparr>gf_genres = (case gq_genre q of None \<Rightarrow> [] | Some g \<Rightarrow> [g]),
             gf_regions = (case gq_region q of None \<Rightarrow> [] | Some r \<Rightarrow> [r])\<rparr>
            (clamp_page (gq_limit q)) (or_else (gq_offset q) 0)))"

definition list_retro_facets_handler :: "int option \<Rightarrow> ('s, 'w) api_env \<Rightarrow> ('s, 'w) app_state \<Rightarrow> api_reply" where
  "list_retro_facets_handler platform_id e st =
     json_reply (\<lambda>values. FacetsBody (retro_facets values))
       (map_sum api_romm_query id
         (filter_values (av_server e) (ap_romm st) (fa_settings_read (av_faults e)) (ap_settings st) platform_id))"

definition retro_rom_details_handler :: "int \<Rightarrow> ('s, 'w) api_env \<Rightarrow> ('s, 'w) app_state \<Rightarrow> api_reply" where
  "retro_rom_details_handler rom_id e st =
     json_reply (\<lambda>game. DetailsBody (RetroGameDetails_from (av_payload e) game))
       (map_sum api_romm_query id
         (details (av_server e) (ap_romm st) (fa_settings_read (av_faults e)) (ap_settings st) rom_id))"

definition set_retro_favorite_handler ::
  "int \<Rightarrow> bool \<Rightarrow> ('s, 'w) api_env \<Rightarrow> ('s, 'w) app_state \<Rightarrow> api_reply \<times> ('s, 'w) app_state" where
  "set_retro_favorite_handler rom_id wanted e st =
     (case set_favorite (av_server e) (fa_settings_read (av_faults e)) (ap_settings st) rom_id wanted (ap_romm st) of (r, romm) \<Rightarrow>
        (json_reply FavoriteBody (map_sum api_romm_query id r), st\<lparr>ap_romm := romm\<rparr>))"

definition set_retro_backlogged_handler ::
  "int \<Rightarrow> bool \<Rightarrow> ('s, 'w) api_env \<Rightarrow> ('s, 'w) app_state \<Rightarrow> api_reply \<times> ('s, 'w) app_state" where
  "set_retro_backlogged_handler rom_id wanted e st =
     (case set_backlogged (av_server e) (fa_settings_read (av_faults e)) (ap_settings st) rom_id wanted (ap_romm st) of (r, romm) \<Rightarrow>
        (json_reply BacklogBody (map_sum api_romm_query id r), st\<lparr>ap_romm := romm\<rparr>))"

definition retro_asset_handler :: "string \<Rightarrow> ('s, 'w) api_env \<Rightarrow> ('s, 'w) app_state \<Rightarrow> api_reply" where
  "retro_asset_handler path e st =
     (case asset (av_server e) (ap_romm st) (av_read_disk e) (fa_settings_read (av_faults e)) (ap_settings st)
             (cf_romm (av_config e)) path of
        Inl err \<Rightarrow> Refused (api_romm_query err)
      | Inr a \<Rightarrow>
          if \<not> av_header_ok e (as_content_type a) then Refused (api_bad_gateway ''RomM returned an invalid image type'')
          else Replied 200 (AssetBody (as_content_type a) (as_bytes a)))"

definition diagnostics_handler :: "('s, 'w) api_env \<Rightarrow> ('s, 'w) app_state \<Rightarrow> api_reply \<times> ('s, 'w) app_state" where
  "diagnostics_handler e st =
     (case diagnostics_snapshot_of (av_diagnostics e) (av_server e) (ap_romm st) (fa_settings (av_faults e))
             (fa_settings_read (av_faults e)) (ap_settings st) (ap_diagnostics st) of (snap, ds) \<Rightarrow>
        (Replied 200 (DiagnosticsBody snap), st\<lparr>ap_diagnostics := ds\<rparr>))"

section \<open>Accounts\<close>

definition get_romm_settings_handler :: "('s, 'w) api_env \<Rightarrow> ('s, 'w) app_state \<Rightarrow> api_reply" where
  "get_romm_settings_handler e st =
     json_reply RommSettingsBody (map_sum api_of_romm_control id
       (RommControl_settings (fa_settings_read (av_faults e)) (romm_part st)))"

definition romm_call ::
  "('a \<Rightarrow> api_body) \<Rightarrow> (romm_service \<Rightarrow> (romm_control_error + 'a) \<times> romm_service)
     \<Rightarrow> ('s, 'w) app_state \<Rightarrow> api_reply \<times> ('s, 'w) app_state" where
  "romm_call body f st =
     (case f (romm_part st) of (r, sv) \<Rightarrow> (json_reply body (map_sum api_of_romm_control id r), put_romm sv st))"

definition update_romm_settings_handler ::
  "string \<Rightarrow> string \<Rightarrow> ('s, 'w) api_env \<Rightarrow> ('s, 'w) app_state \<Rightarrow> api_reply \<times> ('s, 'w) app_state" where
  "update_romm_settings_handler base_url token e =
     romm_call (\<lambda>s. RommSettingsBody (Some s))
       (RommControl_save (av_parse_url e) (fa_settings (av_faults e)) (av_stamp e) base_url token)"

definition clear_romm_settings_handler :: "('s, 'w) api_env \<Rightarrow> ('s, 'w) app_state \<Rightarrow> api_reply \<times> ('s, 'w) app_state" where
  "clear_romm_settings_handler e st =
     (case RommControl_clear (fa_settings (av_faults e)) (romm_part st) of (r, sv) \<Rightarrow>
        (status_reply 204 (map_sum api_of_romm_control id r), put_romm sv st))"

definition romm_login_handler ::
  "string \<Rightarrow> string \<Rightarrow> string \<Rightarrow> ('s, 'w) api_env \<Rightarrow> ('s, 'w) app_state \<Rightarrow> api_reply \<times> ('s, 'w) app_state" where
  "romm_login_handler base_url username password e =
     romm_call (\<lambda>s. RommSettingsBody (Some s))
       (RommControl_login (av_login e) (av_parse_url e) (fa_settings (av_faults e)) (av_stamp e) base_url username password)"

definition start_romm_link_handler ::
  "string \<Rightarrow> ('s, 'w) api_env \<Rightarrow> ('s, 'w) app_state \<Rightarrow> api_reply \<times> ('s, 'w) app_state" where
  "start_romm_link_handler base_url e =
     romm_call DeviceOfferBody
       (RommControl_start_link (av_login e) (av_parse_url e) (av_url_text e) (av_local_addr e) (av_now e) base_url)"

definition poll_romm_link_handler :: "('s, 'w) api_env \<Rightarrow> ('s, 'w) app_state \<Rightarrow> api_reply \<times> ('s, 'w) app_state" where
  "poll_romm_link_handler e =
     romm_call RommLinkBody
       (RommControl_poll_link (av_login e) (av_parse_url e) (av_now e) (fa_settings (av_faults e)) (av_stamp e))"

definition stremio_call ::
  "('a \<Rightarrow> api_body) \<Rightarrow> (stremio_service \<Rightarrow> (stremio_control_error + 'a) \<times> stremio_service)
     \<Rightarrow> ('s, 'w) app_state \<Rightarrow> api_reply \<times> ('s, 'w) app_state" where
  "stremio_call body f st =
     (case f (stremio_part st) of (r, sv) \<Rightarrow> (json_reply body (map_sum api_of_stremio_control id r), put_stremio sv st))"

definition start_stremio_link_handler :: "('s, 'w) api_env \<Rightarrow> ('s, 'w) app_state \<Rightarrow> api_reply \<times> ('s, 'w) app_state" where
  "start_stremio_link_handler e =
     stremio_call LinkOfferBody (StremioControl_start_link (av_http e) (av_parse_json e) (av_now e))"

definition poll_stremio_link_handler :: "('s, 'w) api_env \<Rightarrow> ('s, 'w) app_state \<Rightarrow> api_reply \<times> ('s, 'w) app_state" where
  "poll_stremio_link_handler e =
     stremio_call StremioLinkBody (StremioControl_poll_link (poll_link (av_http e) (av_parse_json e)) (av_now e) (av_later e)
       (fa_settings (av_faults e)) (fa_settings_read (av_faults e)) (av_stamp e))"

definition get_stremio_settings_handler :: "('s, 'w) api_env \<Rightarrow> ('s, 'w) app_state \<Rightarrow> api_reply" where
  "get_stremio_settings_handler e st =
     json_reply StremioSettingsBody (map_sum api_of_stremio_control id
       (StremioControl_settings (fa_settings_read (av_faults e)) (stremio_part st)))"

definition unlink_stremio_handler :: "('s, 'w) api_env \<Rightarrow> ('s, 'w) app_state \<Rightarrow> api_reply \<times> ('s, 'w) app_state" where
  "unlink_stremio_handler e st =
     (case StremioControl_clear (fa_settings (av_faults e)) (fa_catalog_write (av_faults e)) (stremio_part st) of (r, sv) \<Rightarrow>
        (status_reply 204 (map_sum api_of_stremio_control id r), put_stremio sv st))"

definition get_tmdb_settings_handler :: "('s, 'w) api_env \<Rightarrow> ('s, 'w) app_state \<Rightarrow> api_reply" where
  "get_tmdb_settings_handler e st =
     json_reply TmdbSettingsBody (map_sum api_of_tmdb_control id
       (TmdbControl_settings (fa_settings_read (av_faults e)) (ap_settings st)))"

text \<open>A daemon without a discovery service has stored the credential all the same.\<close>

definition refresh_arrivals :: "('s, 'w) app_state \<Rightarrow> ('s, 'w) app_state option" where
  "refresh_arrivals st =
     (case ap_discovery st of
        None \<Rightarrow> Some st
      | Some ws \<Rightarrow> map_option (\<lambda>(_, ws). st\<lparr>ap_discovery := Some ws\<rparr>) (WorkerSet_request STREMIO_ARRIVALS ws))"

definition update_tmdb_settings_handler ::
  "string \<Rightarrow> ('s, 'w) api_env \<Rightarrow> ('s, 'w) app_state \<Rightarrow> api_reply \<times> ('s, 'w) app_state" where
  "update_tmdb_settings_handler api_key e st =
     (case TmdbControl_save (fa_settings (av_faults e)) (av_stamp e) api_key (ap_settings st) of
        (Inl err, db) \<Rightarrow> (Refused (api_of_tmdb_control err), st\<lparr>ap_settings := db\<rparr>)
      | (Inr saved, db) \<Rightarrow>
          (case refresh_arrivals (st\<lparr>ap_settings := db\<rparr>) of
             None \<Rightarrow> (Waiting, st\<lparr>ap_settings := db\<rparr>)
           | Some st \<Rightarrow> (Replied 200 (TmdbSettingsBody (Some saved)), st)))"

definition clear_tmdb_settings_handler :: "('s, 'w) api_env \<Rightarrow> ('s, 'w) app_state \<Rightarrow> api_reply \<times> ('s, 'w) app_state" where
  "clear_tmdb_settings_handler e st =
     (case TmdbControl_clear (fa_settings (av_faults e)) (fa_catalog_write (av_faults e)) (ap_settings st, ap_catalog st) of
        (r, sdb, cdb) \<Rightarrow>
          (status_reply 204 (map_sum api_of_tmdb_control id r), st\<lparr>ap_settings := sdb, ap_catalog := cdb\<rparr>))"

section \<open>Categorization and refreshes\<close>

definition categorization_handler :: "('s, 'w) api_env \<Rightarrow> ('s, 'w) app_state \<Rightarrow> api_reply" where
  "categorization_handler e st =
     json_reply CategorizationBody (map_sum api_of_control id
       (Control_snapshot (av_categorization e) (av_model e) (av_phase e) (fa_settings_read (av_faults e))
          (fa_report (av_faults e)) (cat_part st)))"

definition enable_categorization_handler :: "('s, 'w) api_env \<Rightarrow> ('s, 'w) app_state \<Rightarrow> api_reply \<times> ('s, 'w) app_state" where
  "enable_categorization_handler e st =
     (case Control_enable (av_categorization e) (av_model e) (fa_control (av_faults e)) (av_stamp e) (cat_part st) of
        (r, job, sv) \<Rightarrow> (status_reply 202 (map_sum api_of_control id r), put_job job (put_cat sv st)))"

definition disable_categorization_handler :: "('s, 'w) api_env \<Rightarrow> ('s, 'w) app_state \<Rightarrow> api_reply \<times> ('s, 'w) app_state" where
  "disable_categorization_handler e st =
     (case Control_disable (av_categorization e) (fa_control (av_faults e)) (av_stamp e) (cat_part st) of
        (r, sv) \<Rightarrow> (status_reply 204 (map_sum api_of_control id r), put_cat sv st))"

definition remove_categorization_collections_handler ::
  "('s, 'w) api_env \<Rightarrow> ('s, 'w) app_state \<Rightarrow> api_reply \<times> ('s, 'w) app_state" where
  "remove_categorization_collections_handler e st =
     (Replied 204 NoBody, put_cat (Control_remove_collections (av_categorization e) (cf_rails (fa_control (av_faults e))) (cat_part st)) st)"

definition detect_form_factors_handler :: "('s, 'w) api_env \<Rightarrow> ('s, 'w) app_state \<Rightarrow> api_reply \<times> ('s, 'w) app_state" where
  "detect_form_factors_handler e st =
     (case Control_detect_form_factors (av_categorization e) (av_model e) (fa_settings_read (av_faults e)) (cat_part st) of
        (r, job) \<Rightarrow> (status_reply 202 (map_sum api_of_control id r), put_job job st))"

definition start_categorization_handler :: "('s, 'w) api_env \<Rightarrow> ('s, 'w) app_state \<Rightarrow> api_reply \<times> ('s, 'w) app_state" where
  "start_categorization_handler e st =
     (case Control_publish_collections (av_categorization e) (fa_settings_read (av_faults e)) (cat_part st) of
        (r, job) \<Rightarrow> (status_reply 202 (map_sum api_of_control id r), put_job job st))"

definition refresh_reply :: "(refresh_request \<times> worker_set) option \<Rightarrow> api_reply" where
  "refresh_reply r =
     (case r of
        None \<Rightarrow> Waiting
      | Some (UnknownProvider, _) \<Rightarrow> Refused api_not_found
      | Some (Queued, _) \<Rightarrow> Replied 202 NoBody
      | Some (AlreadyScheduled, _) \<Rightarrow> Replied 202 NoBody)"

definition refresh_source_handler :: "string \<Rightarrow> ('s, 'w) app_state \<Rightarrow> api_reply \<times> ('s, 'w) app_state" where
  "refresh_source_handler source_id st =
     (case ap_discovery st of
        None \<Rightarrow> (Refused api_service_unavailable, st)
      | Some ws \<Rightarrow>
          (let r = WorkerSet_request source_id ws in
           (refresh_reply r, case r of None \<Rightarrow> st | Some (_, ws) \<Rightarrow> st\<lparr>ap_discovery := Some ws\<rparr>)))"

definition refresh_metadata_handler :: "string \<Rightarrow> ('s, 'w) app_state \<Rightarrow> api_reply \<times> ('s, 'w) app_state" where
  "refresh_metadata_handler provider_id st =
     (case ap_enrichment st of
        None \<Rightarrow> (Refused api_service_unavailable, st)
      | Some ws \<Rightarrow>
          (let r = WorkerSet_request provider_id ws in
           (refresh_reply r, case r of None \<Rightarrow> st | Some (_, ws) \<Rightarrow> st\<lparr>ap_enrichment := Some ws\<rparr>)))"

section \<open>Launches and sessions\<close>

definition session_reply :: "(launch_error \<Rightarrow> api_error) \<Rightarrow> (launch_error + application_session) option \<Rightarrow> api_reply" where
  "session_reply err r =
     (case r of
        None \<Rightarrow> Waiting
      | Some r \<Rightarrow> json_reply (\<lambda>s. SessionBody (Some s)) (map_sum err id r))"

fun retro_session_error :: "launch_error \<Rightarrow> api_error" where
  "retro_session_error (LaunchUnexpected _) = api_bad_gateway ''bridge rejected retro game launch''"
| "retro_session_error (LaunchRejected code message) = api_bridge code message"
| "retro_session_error (LaunchTransport err) = api_bad_gateway err"

fun catalog_session_error :: "(bridge_response \<Rightarrow> string) \<Rightarrow> launch_error \<Rightarrow> api_error" where
  "catalog_session_error debug (LaunchUnexpected other) = api_bad_gateway (''bridge rejected application launch: '' @ debug other)"
| "catalog_session_error debug (LaunchRejected code message) = api_bridge code message"
| "catalog_session_error debug (LaunchTransport err) = api_bad_gateway err"

definition launch_retro :: "int \<Rightarrow> input_profile \<Rightarrow> ('s, 'w) api_env \<Rightarrow> ('s, 'w) app_state \<Rightarrow> api_reply \<times> ('s, 'w) app_state" where
  "launch_retro rom_id prof e st =
     (case prepare_launch (av_server e) (ap_romm st) (\<lambda>p. rh_is_file (av_host e) p (ap_host st)) (av_environment e)
             (fa_settings_read (av_faults e)) (ap_settings st) (cf_romm (av_config e)) rom_id of
        Inl err \<Rightarrow> (Refused (api_retro_launch err), st)
      | Inr plan \<Rightarrow>
          (case session_call (\<lambda>env. SessionService_launch env
                  (LaunchRetroGame (rl_core_path plan) (rl_rom_path plan) (av_uuid e) prof)
                  (retro_activity_entry (av_payload e) (rl_game plan))) e st of
             (r, st) \<Rightarrow> (session_reply retro_session_error r, st)))"

definition launch_catalog_item ::
  "string \<Rightarrow> input_profile \<Rightarrow> ('s, 'w) api_env \<Rightarrow> ('s, 'w) app_state \<Rightarrow> api_reply \<times> ('s, 'w) app_state" where
  "launch_catalog_item i prof e st =
     (case fa_get (av_faults e) i of
        Some err \<Rightarrow> (Refused (api_internal err), st)
      | None \<Rightarrow>
     (case CatalogStore_get i (ap_catalog st) of
        None \<Rightarrow> (Refused api_not_found, st)
      | Some item \<Rightarrow>
     (case launch_catalog item (av_uuid e) prof of
        None \<Rightarrow> (Refused api_not_found, st)
      | Some plan \<Rightarrow>
          (case session_call (\<lambda>env. SessionService_launch env (lp_request plan) (lp_activity plan)) e st of
             (r, st) \<Rightarrow> (session_reply (catalog_session_error (av_debug e)) r, st)))))"

definition launch_item_handler ::
  "string \<Rightarrow> input_profile \<Rightarrow> ('s, 'w) api_env \<Rightarrow> ('s, 'w) app_state \<Rightarrow> api_reply \<times> ('s, 'w) app_state" where
  "launch_item_handler item_id prof e st =
     (case item_launch item_id of
        RetroItem rom_id \<Rightarrow> launch_retro rom_id prof e st
      | CatalogItemId i \<Rightarrow> launch_catalog_item i prof e st)"

definition active_session_handler :: "('s, 'w) api_env \<Rightarrow> ('s, 'w) app_state \<Rightarrow> api_reply" where
  "active_session_handler e st =
     json_reply SessionBody (map_sum api_of_session_control id (SessionService_active (av_session e)))"

definition stop_session_handler :: "stop_target \<Rightarrow> ('s, 'w) api_env \<Rightarrow> ('s, 'w) app_state \<Rightarrow> api_reply \<times> ('s, 'w) app_state" where
  "stop_session_handler target e st =
     (case session_call (\<lambda>env. SessionService_stop env target) e st of
        (None, st) \<Rightarrow> (Waiting, st)
      | (Some r, st) \<Rightarrow> (status_reply 202 (map_sum api_of_session_control id r), st))"

text \<open>
  The event stream: what the subscription delivers in order. An event that cannot be encoded is
  skipped, a client that lagged goes on with the next event, and the stream ends when a send fails
  or the channel closes.
\<close>

datatype received = ReceivedEvent server_event | Lagged nat | ChannelClosed

fun event_socket :: "(server_event \<Rightarrow> string option) \<Rightarrow> (string \<Rightarrow> bool) \<Rightarrow> received list \<Rightarrow> string list" where
  "event_socket to_json send_ok [] = []"
| "event_socket to_json send_ok (ReceivedEvent event # rs) =
     (case to_json event of
        None \<Rightarrow> event_socket to_json send_ok rs
      | Some payload \<Rightarrow> if send_ok payload then payload # event_socket to_json send_ok rs else [])"
| "event_socket to_json send_ok (Lagged skipped # rs) = event_socket to_json send_ok rs"
| "event_socket to_json send_ok (ChannelClosed # rs) = []"

section \<open>Routers\<close>

text \<open>The method and the pattern a call is routed by.\<close>

fun route_of :: "api_call \<Rightarrow> string \<times> string" where
  "route_of CallHealth = (''GET'', ''/v1/health'')"
| "route_of (CallCompletePairing _ _) = (''POST'', ''/v1/pairing/complete'')"
| "route_of CallDiagnostics = (''GET'', ''/v1/diagnostics'')"
| "route_of CallListLibrary = (''GET'', ''/v1/library'')"
| "route_of CallListCollections = (''GET'', ''/v1/collections'')"
| "route_of (CallAddCollectionItem _ _ _ _) = (''POST'', ''/v1/collections/{slug}/items'')"
| "route_of (CallRemoveCollectionItem _ _) = (''DELETE'', ''/v1/collections/{slug}/items'')"
| "route_of CallListRetroConsoles = (''GET'', ''/v1/retro/consoles'')"
| "route_of CallRetroReadiness = (''GET'', ''/v1/retro/readiness'')"
| "route_of CallSyncRetroReadiness = (''POST'', ''/v1/retro/readiness/sync'')"
| "route_of CallInstallRetroCores = (''POST'', ''/v1/retro/cores/install'')"
| "route_of (CallListRetroRoms _) = (''GET'', ''/v1/retro/roms'')"
| "route_of (CallListRetroFacets _) = (''GET'', ''/v1/retro/facets'')"
| "route_of (CallRetroRomDetails _) = (''GET'', ''/v1/retro/roms/{id}'')"
| "route_of (CallSetRetroFavorite _ _) = (''POST'', ''/v1/retro/roms/{id}/favorite'')"
| "route_of (CallSetRetroBacklogged _ _) = (''POST'', ''/v1/retro/roms/{id}/backlog'')"
| "route_of (CallRetroAsset _) = (''GET'', ''/v1/retro/assets'')"
| "route_of CallGetRommSettings = (''GET'', ''/v1/retro/settings'')"
| "route_of (CallUpdateRommSettings _ _) = (''PUT'', ''/v1/retro/settings'')"
| "route_of CallClearRommSettings = (''DELETE'', ''/v1/retro/settings'')"
| "route_of (CallRommLogin _ _ _) = (''POST'', ''/v1/retro/login'')"
| "route_of (CallStartRommLink _) = (''POST'', ''/v1/retro/link'')"
| "route_of CallPollRommLink = (''GET'', ''/v1/retro/link'')"
| "route_of CallStartStremioLink = (''POST'', ''/v1/stremio/link'')"
| "route_of CallPollStremioLink = (''GET'', ''/v1/stremio/link'')"
| "route_of CallGetStremioSettings = (''GET'', ''/v1/stremio/settings'')"
| "route_of CallUnlinkStremio = (''DELETE'', ''/v1/stremio/settings'')"
| "route_of CallCategorization = (''GET'', ''/v1/categorization'')"
| "route_of CallEnableCategorization = (''POST'', ''/v1/categorization/enable'')"
| "route_of CallDisableCategorization = (''POST'', ''/v1/categorization/disable'')"
| "route_of CallStartCategorization = (''POST'', ''/v1/categorization/scan'')"
| "route_of CallRemoveCategorizationCollections = (''DELETE'', ''/v1/categorization/collections'')"
| "route_of CallDetectFormFactors = (''POST'', ''/v1/categorization/form-factors'')"
| "route_of (CallRefreshSource _) = (''POST'', ''/v1/discovery/{source_id}/refresh'')"
| "route_of (CallRefreshMetadata _) = (''POST'', ''/v1/metadata/{provider_id}/refresh'')"
| "route_of (CallLaunchItem _ _) = (''POST'', ''/v1/launch/{item_id}'')"
| "route_of CallActiveSession = (''GET'', ''/v1/sessions/active'')"
| "route_of CallStopActiveSession = (''POST'', ''/v1/sessions/active/stop'')"
| "route_of (CallStopSession _) = (''POST'', ''/v1/sessions/{id}/stop'')"
| "route_of CallEvents = (''GET'', ''/v1/events'')"
| "route_of CallCreatePairing = (''POST'', ''/v1/pairing'')"
| "route_of CallGetTmdbSettings = (''GET'', ''/v1/tmdb/settings'')"
| "route_of (CallUpdateTmdbSettings _) = (''PUT'', ''/v1/tmdb/settings'')"
| "route_of CallClearTmdbSettings = (''DELETE'', ''/v1/tmdb/settings'')"

definition public_routes :: "(string \<times> string) list" where
  "public_routes = [(''GET'', ''/v1/health''), (''POST'', ''/v1/pairing/complete'')]"

definition protected_routes :: "(string \<times> string) list" where
  "protected_routes =
     [(''GET'', ''/v1/diagnostics''), (''GET'', ''/v1/library''), (''GET'', ''/v1/collections''),
      (''POST'', ''/v1/collections/{slug}/items''), (''DELETE'', ''/v1/collections/{slug}/items''),
      (''GET'', ''/v1/retro/consoles''), (''GET'', ''/v1/retro/readiness''), (''POST'', ''/v1/retro/readiness/sync''),
      (''POST'', ''/v1/retro/cores/install''), (''GET'', ''/v1/retro/roms''), (''GET'', ''/v1/retro/facets''),
      (''GET'', ''/v1/retro/roms/{id}''), (''POST'', ''/v1/retro/roms/{id}/favorite''),
      (''POST'', ''/v1/retro/roms/{id}/backlog''), (''GET'', ''/v1/retro/assets''),
      (''GET'', ''/v1/retro/settings''), (''PUT'', ''/v1/retro/settings''), (''DELETE'', ''/v1/retro/settings''),
      (''POST'', ''/v1/retro/login''), (''POST'', ''/v1/retro/link''), (''GET'', ''/v1/retro/link''),
      (''POST'', ''/v1/stremio/link''), (''GET'', ''/v1/stremio/link''), (''GET'', ''/v1/stremio/settings''),
      (''DELETE'', ''/v1/stremio/settings''), (''GET'', ''/v1/categorization''), (''POST'', ''/v1/categorization/enable''),
      (''POST'', ''/v1/categorization/disable''), (''POST'', ''/v1/categorization/scan''),
      (''DELETE'', ''/v1/categorization/collections''), (''POST'', ''/v1/categorization/form-factors''),
      (''POST'', ''/v1/discovery/{source_id}/refresh''), (''POST'', ''/v1/metadata/{provider_id}/refresh''),
      (''POST'', ''/v1/launch/{item_id}''), (''GET'', ''/v1/sessions/active''), (''POST'', ''/v1/sessions/active/stop''),
      (''POST'', ''/v1/sessions/{id}/stop''), (''GET'', ''/v1/events'')]"

definition local_routes :: "(string \<times> string) list" where
  "local_routes = [(''POST'', ''/v1/pairing''), (''GET'', ''/v1/tmdb/settings''), (''PUT'', ''/v1/tmdb/settings''),
     (''DELETE'', ''/v1/tmdb/settings'')]"

fun handle :: "api_call \<Rightarrow> ('s, 'w) api_env \<Rightarrow> ('s, 'w) app_state \<Rightarrow> api_reply \<times> ('s, 'w) app_state" where
  "handle CallHealth e st = (health_handler e st, st)"
| "handle (CallCompletePairing code name) e st = complete_pairing_handler code name e st"
| "handle CallDiagnostics e st = diagnostics_handler e st"
| "handle CallListLibrary e st = (list_library_handler e st, st)"
| "handle CallListCollections e st = list_collections_handler e st"
| "handle (CallAddCollectionItem slug i name icon) e st = add_collection_item_handler slug i name icon e st"
| "handle (CallRemoveCollectionItem slug i) e st = remove_collection_item_handler slug i e st"
| "handle CallListRetroConsoles e st = (list_retro_consoles_handler e st, st)"
| "handle CallRetroReadiness e st = (retro_readiness_handler e st, st)"
| "handle CallSyncRetroReadiness e st = sync_retro_readiness_handler e st"
| "handle CallInstallRetroCores e st = (install_retro_cores_handler e st, st)"
| "handle (CallListRetroRoms q) e st = (list_retro_roms_handler q e st, st)"
| "handle (CallListRetroFacets p) e st = (list_retro_facets_handler p e st, st)"
| "handle (CallRetroRomDetails i) e st = (retro_rom_details_handler i e st, st)"
| "handle (CallSetRetroFavorite i b) e st = set_retro_favorite_handler i b e st"
| "handle (CallSetRetroBacklogged i b) e st = set_retro_backlogged_handler i b e st"
| "handle (CallRetroAsset p) e st = (retro_asset_handler p e st, st)"
| "handle CallGetRommSettings e st = (get_romm_settings_handler e st, st)"
| "handle (CallUpdateRommSettings url token) e st = update_romm_settings_handler url token e st"
| "handle CallClearRommSettings e st = clear_romm_settings_handler e st"
| "handle (CallRommLogin url user password) e st = romm_login_handler url user password e st"
| "handle (CallStartRommLink url) e st = start_romm_link_handler url e st"
| "handle CallPollRommLink e st = poll_romm_link_handler e st"
| "handle CallStartStremioLink e st = start_stremio_link_handler e st"
| "handle CallPollStremioLink e st = poll_stremio_link_handler e st"
| "handle CallGetStremioSettings e st = (get_stremio_settings_handler e st, st)"
| "handle CallUnlinkStremio e st = unlink_stremio_handler e st"
| "handle CallCategorization e st = (categorization_handler e st, st)"
| "handle CallEnableCategorization e st = enable_categorization_handler e st"
| "handle CallDisableCategorization e st = disable_categorization_handler e st"
| "handle CallStartCategorization e st = start_categorization_handler e st"
| "handle CallRemoveCategorizationCollections e st = remove_categorization_collections_handler e st"
| "handle CallDetectFormFactors e st = detect_form_factors_handler e st"
| "handle (CallRefreshSource i) e st = refresh_source_handler i st"
| "handle (CallRefreshMetadata i) e st = refresh_metadata_handler i st"
| "handle (CallLaunchItem i prof) e st = launch_item_handler i prof e st"
| "handle CallActiveSession e st = (active_session_handler e st, st)"
| "handle CallStopActiveSession e st = stop_session_handler ActiveTarget e st"
| "handle (CallStopSession i) e st = stop_session_handler (SessionTarget i) e st"
| "handle CallEvents e st = (Replied 101 EventStream, st)"
| "handle CallCreatePairing e st = create_pairing_handler e st"
| "handle CallGetTmdbSettings e st = (get_tmdb_settings_handler e st, st)"
| "handle (CallUpdateTmdbSettings key) e st = update_tmdb_settings_handler key e st"
| "handle CallClearTmdbSettings e st = clear_tmdb_settings_handler e st"

definition authenticate_request :: "('s, 'w) api_env \<Rightarrow> string option \<Rightarrow> auth_db \<Rightarrow> api_error + unit" where
  "authenticate_request e authorization db =
     (case Option.bind (Option.bind authorization (av_header_text e)) (strip_prefix ''Bearer '') of
        None \<Rightarrow> Inl api_unauthorized
      | Some token \<Rightarrow>
          (case fa_auth (av_faults e) of
             Some err \<Rightarrow> Inl (api_internal err)
           | None \<Rightarrow> if authenticate (av_hash e token) db then Inr () else Inl api_unauthorized))"

definition require_authentication ::
  "string option \<Rightarrow> api_call \<Rightarrow> ('s, 'w) api_env \<Rightarrow> ('s, 'w) app_state \<Rightarrow> api_reply \<times> ('s, 'w) app_state" where
  "require_authentication authorization call e st =
     (case authenticate_request e authorization (ap_auth st) of
        Inl err \<Rightarrow> (Refused err, st)
      | Inr _ \<Rightarrow> handle call e st)"

definition serve_api ::
  "string option \<Rightarrow> api_call \<Rightarrow> ('s, 'w) api_env \<Rightarrow> ('s, 'w) app_state \<Rightarrow> api_reply \<times> ('s, 'w) app_state" where
  "serve_api authorization call e st =
     (if route_of call \<in> set public_routes then handle call e st
      else if route_of call \<in> set protected_routes then require_authentication authorization call e st
      else (NotRouted, st))"

definition serve_local :: "api_call \<Rightarrow> ('s, 'w) api_env \<Rightarrow> ('s, 'w) app_state \<Rightarrow> api_reply \<times> ('s, 'w) app_state" where
  "serve_local call e st = (if route_of call \<in> set local_routes then handle call e st else (NotRouted, st))"

end
