(* ===== verification/Api_Props.thy ===== *)
theory Api_Props
  imports Daemon_Api
begin

text \<open>
  Properties of the HTTP interface over runs: requests on both listeners in any order, each with its
  own environment, and between them arbitrary changes of everything but the authentication tables
  (the watcher, the workers, the jobs).
\<close>

section \<open>Runs\<close>

datatype listener = ApiListener "string option" | AdminListener

datatype ('s, 'w) api_event = Request "('s, 'w) api_env" listener api_call | Background "('s, 'w) app_state"

fun serve :: "('s, 'w) api_event \<Rightarrow> ('s, 'w) app_state \<Rightarrow> api_reply \<times> ('s, 'w) app_state" where
  "serve (Request e (ApiListener authorization) call) st = serve_api authorization call e st"
| "serve (Request e AdminListener call) st = serve_local call e st"
| "serve (Background st') st = (NotRouted, st'\<lparr>ap_auth := ap_auth st\<rparr>)"

fun api_trace :: "('s, 'w) api_event list \<Rightarrow> ('s, 'w) app_state \<Rightarrow> (('s, 'w) api_event \<times> api_reply) list" where
  "api_trace [] st = []"
| "api_trace (ev # evs) st = (ev, fst (serve ev st)) # api_trace evs (snd (serve ev st))"

definition api_after :: "('s, 'w) api_event list \<Rightarrow> ('s, 'w) app_state \<Rightarrow> ('s, 'w) app_state" where
  "api_after evs st = fold (\<lambda>ev st. snd (serve ev st)) evs st"

lemma api_trace_append: "api_trace (evs @ evs') st = api_trace evs st @ api_trace evs' (api_after evs st)"
  by (induction evs arbitrary: st) (simp_all add: api_after_def)

section \<open>Which handlers touch the authentication tables\<close>

lemmas part_defs = put_stremio_def put_romm_def put_cat_def put_job_def

lemma session_call_auth: "ap_auth (snd (session_call f e st)) = ap_auth st"
  by (simp add: session_call_def Let_def split: prod.splits option.splits)

lemmas handler_defs =
  list_collections_handler_def add_collection_item_handler_def remove_collection_item_handler_def
  sync_retro_readiness_handler_def set_retro_favorite_handler_def set_retro_backlogged_handler_def diagnostics_handler_def
  romm_call_def update_romm_settings_handler_def clear_romm_settings_handler_def romm_login_handler_def
  start_romm_link_handler_def poll_romm_link_handler_def stremio_call_def start_stremio_link_handler_def
  poll_stremio_link_handler_def unlink_stremio_handler_def refresh_arrivals_def update_tmdb_settings_handler_def
  clear_tmdb_settings_handler_def enable_categorization_handler_def disable_categorization_handler_def
  remove_categorization_collections_handler_def detect_form_factors_handler_def start_categorization_handler_def
  refresh_source_handler_def refresh_metadata_handler_def

lemma launch_auth [simp]: "ap_auth (snd (launch_item_handler i prof e st)) = ap_auth st"
  by (simp add: launch_item_handler_def launch_retro_def launch_catalog_item_def case_prod_beta session_call_auth
      split: item_launch.splits sum.splits option.splits)

lemma stop_auth [simp]: "ap_auth (snd (stop_session_handler t e st)) = ap_auth st"
  using session_call_auth[of "\<lambda>env. SessionService_stop env t" e st]
  by (auto simp: stop_session_handler_def split: prod.splits option.splits)

lemma handle_auth:
  assumes "route_of call \<noteq> route_of CallCreatePairing" and "\<And>c n. call \<noteq> CallCompletePairing c n"
  shows "ap_auth (snd (handle call e st)) = ap_auth st"
  using assms
  by (cases call) (auto simp: handler_defs part_defs Let_def split: prod.splits option.splits sum.splits readiness_error.splits)

section \<open>Authority comes from the host\<close>

text \<open>A code was issued on the administration listener; a token was handed out for an issued code.\<close>

definition issued :: "(('s, 'w) api_event \<times> api_reply) list \<Rightarrow> string \<Rightarrow> bool" where
  "issued tr code \<longleftrightarrow> (\<exists>e expires_at. (Request e AdminListener CallCreatePairing, Replied 200 (PairingBody code expires_at)) \<in> set tr)"

definition paired :: "(('s, 'w) api_event \<times> api_reply) list \<Rightarrow> string \<Rightarrow> bool" where
  "paired tr token \<longleftrightarrow> (\<exists>before after e authorization code name client_id.
     tr = before @ (Request e (ApiListener authorization) (CallCompletePairing code name),
       Replied 200 (PairingCompleteBody client_id token)) # after \<and> issued before code)"

definition presented :: "('s, 'w) api_env \<Rightarrow> string option \<Rightarrow> string option" where
  "presented e authorization = Option.bind (Option.bind authorization (av_header_text e)) (strip_prefix ''Bearer '')"

text \<open>Every secret a run generates or a client sends.\<close>

fun event_secrets :: "('s, 'w) api_event \<Rightarrow> string set" where
  "event_secrets (Request e lis call) =
     {map ascii_upper (av_random e), ''hearthdeck_'' @ av_random e}
     \<union> (case call of CallCompletePairing code _ \<Rightarrow> {code} | _ \<Rightarrow> {})
     \<union> (case lis of ApiListener authorization \<Rightarrow> set_option (presented e authorization) | AdminListener \<Rightarrow> {})"
| "event_secrets (Background _) = {}"

fun hashes_with :: "(string \<Rightarrow> string) \<Rightarrow> ('s, 'w) api_event \<Rightarrow> bool" where
  "hashes_with h (Request e _ _) \<longleftrightarrow> av_hash e = h"
| "hashes_with h (Background _) \<longleftrightarrow> True"

definition backed :: "(string \<Rightarrow> string) \<Rightarrow> string set \<Rightarrow> (('s, 'w) api_event \<times> api_reply) list \<Rightarrow> auth_db \<Rightarrow> bool" where
  "backed h S tr db \<longleftrightarrow>
     (\<forall>r\<in>set (pairing_sessions db). \<exists>code\<in>S. pr_code_hash r = h code \<and> issued tr code)
     \<and> (\<forall>c\<in>set (paired_clients db). \<exists>token\<in>S. cl_token_hash c = h token \<and> paired tr token)"

lemma issued_mono: "issued tr code \<Longrightarrow> issued (tr @ tr') code"
  by (auto simp: issued_def)

lemma paired_mono: "paired tr token \<Longrightarrow> paired (tr @ tr') token"
  unfolding paired_def by (metis append.assoc append_Cons)

lemma backed_mono: "backed h S tr db \<Longrightarrow> backed h S (tr @ tr') db"
  unfolding backed_def by (meson issued_mono paired_mono)

lemma create_rows_backed:
  assumes "create_pairing_code now hash db = (r, db')"
  shows "paired_clients db' = paired_clients db"
    "row \<in> set (pairing_sessions db') \<Longrightarrow> row \<in> set (pairing_sessions db) \<or> (\<exists>x. r = Inr x) \<and> pr_code_hash row = hash"
  using assms by (auto simp: create_pairing_code_def Let_def insert_row_def split: sum.splits if_splits)

lemma consume_rows_backed:
  assumes "consume_pairing_code now later hash client_id name token_hash db = (r, db')"
  shows "row \<in> set (pairing_sessions db') \<Longrightarrow> \<exists>old\<in>set (pairing_sessions db). pr_code_hash row = pr_code_hash old"
    "client \<in> set (paired_clients db') \<Longrightarrow> client \<in> set (paired_clients db)
       \<or> r = Inr (Some client_id) \<and> cl_token_hash client = token_hash \<and> hash \<in> pr_code_hash ` set (pairing_sessions db)"
proof -
  have redeemable: "code_is_redeemable now hash db \<Longrightarrow> hash \<in> pr_code_hash ` set (pairing_sessions db)"
    by (auto simp: code_is_redeemable_def lookup_def find_Some_iff split: option.splits intro: image_eqI[OF _ nth_mem])
  show "row \<in> set (pairing_sessions db') \<Longrightarrow> \<exists>old\<in>set (pairing_sessions db). pr_code_hash row = pr_code_hash old"
    unfolding image_iff[symmetric]
    using assms by (auto simp: consume_pairing_code_def claim_code_def update_rows_def Let_def split: if_splits)
  show "client \<in> set (paired_clients db') \<Longrightarrow> client \<in> set (paired_clients db)
       \<or> r = Inr (Some client_id) \<and> cl_token_hash client = token_hash \<and> hash \<in> pr_code_hash ` set (pairing_sessions db)"
    using assms redeemable by (auto simp: consume_pairing_code_def claim_code_def Let_def split: if_splits)
qed

lemma not_create_route:
  "route_of call \<in> set public_routes \<union> set protected_routes \<Longrightarrow> route_of call \<noteq> route_of CallCreatePairing"
proof -
  have "route_of CallCreatePairing \<notin> set public_routes \<union> set protected_routes" by code_simp
  then show "route_of call \<in> set public_routes \<union> set protected_routes \<Longrightarrow> ?thesis" by metis
qed

lemma not_complete_route: "route_of (CallCompletePairing c n) \<notin> set local_routes" "route_of (CallCompletePairing c n) \<in> set public_routes"
  by (simp_all add: local_routes_def public_routes_def)

lemma serve_auth_cases:
  obtains (same) "ap_auth (snd (serve ev st)) = ap_auth st"
  | (create) e where "ev = Request e AdminListener CallCreatePairing"
  | (complete) e authorization code name where "ev = Request e (ApiListener authorization) (CallCompletePairing code name)"
proof (cases "(ev, st)" rule: serve.cases)
  case (1 e authorization call st')
  show thesis
  proof (cases "\<exists>c n. call = CallCompletePairing c n")
    case False
    then have "ap_auth (snd (serve ev st)) = ap_auth st"
      using 1 not_create_route[of call] by (auto simp: serve_api_def require_authentication_def handle_auth split: sum.splits)
    then show thesis by (rule same)
  qed (use 1 complete in blast)
next
  case (2 e call st')
  show thesis
  proof (cases "call = CallCreatePairing")
    case False
    then have "route_of call \<noteq> route_of CallCreatePairing" by (cases call) simp_all
    then have "route_of call \<in> set local_routes \<Longrightarrow> ap_auth (snd (handle call e st)) = ap_auth st"
      using not_complete_route(1) handle_auth[of call e st] by metis
    then have "ap_auth (snd (serve ev st)) = ap_auth st" using 2 by (simp add: serve_local_def)
    then show thesis by (rule same)
  qed (use 2 create in blast)
qed (use same in simp)

lemma serve_backed:
  assumes "backed h S tr (ap_auth st)" and "hashes_with h ev" and "event_secrets ev \<subseteq> S" and "inj_on h S"
  shows "backed h S (tr @ [(ev, fst (serve ev st))]) (ap_auth (snd (serve ev st)))"
proof (cases rule: serve_auth_cases[of ev st])
  case same
  then show ?thesis using backed_mono[OF assms(1)] by simp
next
  case (create e)
  have route: "route_of CallCreatePairing \<in> set local_routes" by (simp add: local_routes_def)
  let ?code = "map ascii_upper (av_random e)"
  have h: "av_hash e = h" and S: "?code \<in> S" using assms(2,3) create by auto
  show ?thesis
  proof (cases "fa_auth (av_faults e)")
    case (Some err)
    then have "ap_auth (snd (serve ev st)) = ap_auth st"
      using create route by (simp add: serve_local_def create_pairing_handler_def Let_def)
    then show ?thesis using backed_mono[OF assms(1)] by simp
  next
    case None
    obtain r db where db: "create_pairing_code (av_now e) (h ?code) (ap_auth st) = (r, db)" by fastforce
    have out: "ap_auth (snd (serve ev st)) = db"
      "fst (serve ev st) = (case r of Inl err \<Rightarrow> Refused (api_internal err) | Inr x \<Rightarrow> Replied 200 (PairingBody ?code x))"
      using create route None db h by (simp_all add: serve_local_def create_pairing_handler_def Let_def split: sum.splits)
    have "issued (tr @ [(ev, fst (serve ev st))]) ?code" if "r = Inr x" for x
      using that out(2) create by (auto simp: issued_def)
    then show ?thesis
      using backed_mono[OF assms(1)] create_rows_backed[OF db] S unfolding out(1) backed_def by metis
  qed
next
  case (complete e authorization code name)
  let ?token = "''hearthdeck_'' @ av_random e"
  have h: "av_hash e = h" and S: "code \<in> S" "?token \<in> S" using assms(2,3) complete by auto
  have out: "serve ev st = complete_pairing_handler code name e st"
    using complete not_complete_route(2) by (simp add: serve_api_def)
  show ?thesis
  proof (cases "trim name = [] \<or> 128 < chars_count name \<or> fa_auth (av_faults e) \<noteq> None")
    case True
    then have "ap_auth (snd (serve ev st)) = ap_auth st" by (auto simp: out complete_pairing_handler_def Let_def)
    then show ?thesis using backed_mono[OF assms(1)] by simp
  next
    case False
    obtain r db where db: "consume_pairing_code (av_now e) (av_later e) (h code) (av_uuid e) name (h ?token) (ap_auth st) = (r, db)"
      by fastforce
    have auth: "ap_auth (snd (serve ev st)) = db"
      using False db h by (auto simp: out complete_pairing_handler_def Let_def split: sum.splits option.splits)
    have reply: "fst (serve ev st) = Replied 200 (PairingCompleteBody (av_uuid e) ?token)" if "r = Inr (Some (av_uuid e))"
      using False db h that by (auto simp: out complete_pairing_handler_def Let_def)
    have "issued tr code" if hash: "h code \<in> pr_code_hash ` set (pairing_sessions (ap_auth st))"
    proof -
      from hash obtain r where "r \<in> set (pairing_sessions (ap_auth st))" "h code = pr_code_hash r" by blast
      then obtain c where "c \<in> S" "h code = h c" "issued tr c" using assms(1) by (auto simp: backed_def)
      then show ?thesis using assms(4) S(1) by (metis inj_onD)
    qed
    then have "paired (tr @ [(ev, fst (serve ev st))]) ?token"
      if "r = Inr (Some (av_uuid e))" "h code \<in> pr_code_hash ` set (pairing_sessions (ap_auth st))"
      using that reply complete unfolding paired_def by fastforce
    moreover note consume_rows_backed[OF db]
    ultimately show ?thesis
      using backed_mono[OF assms(1), of "[(ev, fst (serve ev st))]"] S(2) unfolding auth backed_def by metis
  qed
qed

lemma run_backed:
  assumes "backed h S tr (ap_auth st)" and "list_all (hashes_with h) evs" and "\<Union> (event_secrets ` set evs) \<subseteq> S" and "inj_on h S"
  shows "backed h S (tr @ api_trace evs st) (ap_auth (api_after evs st))"
  using assms(1-3)
proof (induction evs arbitrary: tr st)
  case (Cons ev evs)
  have "backed h S (tr @ [(ev, fst (serve ev st))]) (ap_auth (snd (serve ev st)))"
    using Cons.prems by (intro serve_backed[OF _ _ _ assms(4)]) auto
  from Cons.IH[OF this] Cons.prems show ?case by (simp add: api_after_def)
qed (simp add: api_after_def)

text \<open>
  C9: a remote client acts only with a token the host's user gave out. In any run of requests on
  both listeners, starting with nobody paired, a protected request either is refused with nothing
  changed or carries a token that an earlier pairing handed out, for a code that was issued before
  on the administration listener, provided the hash has no collision among the secrets of the run.
\<close>

theorem protected_requests_need_a_pairing:
  assumes "pairing_sessions (ap_auth st) = []" and "paired_clients (ap_auth st) = []"
    and "list_all (hashes_with h) (evs @ [Request e (ApiListener authorization) call])"
    and "inj_on h (\<Union> (event_secrets ` set (evs @ [Request e (ApiListener authorization) call])))"
    and "route_of call \<notin> set public_routes"
  shows "let before = api_after evs st; (reply, after) = serve_api authorization call e before in
     after = before \<and> reply \<in> {Refused api_unauthorized, Refused (api_internal ()), NotRouted}
     \<or> (\<exists>token. presented e authorization = Some token \<and> paired (api_trace evs st) token)"
proof -
  let ?ev = "Request e (ApiListener authorization) call" and ?b = "api_after evs st"
  let ?S = "\<Union> (event_secrets ` set (evs @ [?ev]))"
  have "backed h ?S [] (ap_auth st)" using assms(1,2) by (simp add: backed_def)
  from run_backed[OF this _ _ assms(4)] assms(3)
  have clients: "\<exists>token\<in>?S. cl_token_hash c = h token \<and> paired (api_trace evs st) token"
    if "c \<in> set (paired_clients (ap_auth ?b))" for c
    using that by (auto simp: backed_def)
  have internal: "api_internal err = api_internal ()" for err :: string by (simp add: api_internal_def)
  show ?thesis
  proof (cases "route_of call \<in> set protected_routes \<and> authenticate_request e authorization (ap_auth ?b) = Inr ()")
    case True
    then obtain token where token: "presented e authorization = Some token" "authenticate (h token) (ap_auth ?b)"
      using assms(3) by (auto simp: authenticate_request_def presented_def split: option.splits if_splits)
    then obtain c where c: "c \<in> set (paired_clients (ap_auth ?b))" "cl_token_hash c = h token"
      by (auto simp: authenticate_def)
    from clients[OF c(1)] obtain t where t: "t \<in> ?S" "cl_token_hash c = h t" "paired (api_trace evs st) t" by blast
    have "token \<in> ?S" using token(1) by auto
    then have "t = token" using assms(4) t(1,2) c(2) by (metis inj_onD)
    then show ?thesis using t(3) token(1) by (simp add: case_prod_beta)
  next
    case False
    then show ?thesis
      using assms(5) internal
      by (auto simp: serve_api_def require_authentication_def authenticate_request_def split: option.splits if_splits)
  qed
qed

text \<open>A deployment to run the interface on: nobody is paired and every server is down.\<close>

definition demo_faults :: api_faults where
  "demo_faults = \<lparr>fa_auth = None, fa_catalog = None, fa_get = (\<lambda>_. None), fa_catalog_write = None, fa_collections = None,
     fa_activity = None, fa_settings = None, fa_settings_read = None, fa_report = None,
     fa_control = \<lparr>cf_set = None, cf_get = None, cf_rails = None, cf_traits = None\<rparr>\<rparr>"

definition demo_config :: config where
  "demo_config = \<lparr>cf_bind_address = \<lparr>sa_ip = V4 [127, 0, 0, 1], sa_port = 1\<rparr>, cf_local_admin_address = \<lparr>sa_ip = V4 [127, 0, 0, 1], sa_port = 2\<rparr>,
     cf_database_path = ''/db'', cf_bridge_socket_path = ''/s'', cf_lan_enabled = False, cf_tls = None,
     cf_romm = \<lparr>library_root = ''/l'', resources_root = ''/r''\<rparr>, cf_bios_source = Inr demo_source\<rparr>"

definition demo_env :: "string \<Rightarrow> (unit, path_component list \<rightharpoonup> string) api_env" where
  "demo_env random = \<lparr>av_config = demo_config, av_version = ''1'', av_categorization = False, av_orders = ([], []), av_hash = (\<lambda>s. s),
     av_random = random, av_uuid = ''u'', av_now = 0, av_later = 0, av_stamp = ''t'', av_faults = demo_faults,
     av_session = demo_session_env 0, av_server = silent_server, av_login = demo_api, av_parse_url = (\<lambda>_. None),
     av_url_text = (\<lambda>_ _. None), av_local_addr = None, av_http = (\<lambda>_ _. Unreachable), av_parse_json = (\<lambda>_. None),
     av_host = demo_host, av_read_disk = Inl, av_environment = Map.empty, av_model = Absent, av_phase = None,
     av_payload = \<lparr>pe_year = (\<lambda>_. None), pe_date = (\<lambda>_. None), pe_url = (\<lambda>_. None)\<rparr>, av_diagnostics = demo_diagnostics,
     av_debug = (\<lambda>_. []), av_header_text = Some, av_header_ok = (\<lambda>_. True)\<rparr>"

definition demo_app :: "(unit, path_component list \<rightharpoonup> string) app_state" where
  "demo_app = \<lparr>ap_auth = \<lparr>pairing_sessions = [], paired_clients = []\<rparr>,
     ap_daemon = \<lparr>d_activity = \<lparr>launch_activity = [], play_sessions = []\<rparr>, d_requests = [], d_events = []\<rparr>,
     ap_catalog = \<lparr>library_items = [], catalog_enrichments = [], item_traits = []\<rparr>,
     ap_collections = \<lparr>collections = [], collection_items = [], builtin_collections_are_kept = False\<rparr>,
     ap_settings = dq_settings demo_request, ap_stremio_link = None, ap_romm_link = None, ap_discovery = None, ap_enrichment = None,
     ap_scan = ScanState_default, ap_report = None, ap_jobs = [], ap_diagnostics = diagnostics_start, ap_romm = (), ap_host = Map.empty\<rparr>"

definition demo_pairing :: "(unit, path_component list \<rightharpoonup> string) api_event list" where
  "demo_pairing = [Request (demo_env ''c1'') AdminListener CallCreatePairing,
     Request (demo_env ''t1'') (ApiListener None) (CallCompletePairing ''C1'' ''tv'')]"

theorem protected_requests_need_a_pairing_witness:
  "paired (api_trace demo_pairing demo_app) ''hearthdeck_t1''"
proof -
  let ?call = "Request (demo_env ''x'') (ApiListener (Some ''Bearer hearthdeck_t1'')) CallListLibrary"
  have hashes: "list_all (hashes_with (\<lambda>s. s)) (demo_pairing @ [?call])" by (simp add: demo_pairing_def demo_env_def)
  have upper: "map ascii_upper ''c1'' = ''C1''" by code_simp
  have auth: "ap_auth (api_after demo_pairing demo_app) =
      \<lparr>pairing_sessions = [\<lparr>pr_code_hash = ''C1'', pr_expires_at = CODE_LIFETIME, pr_consumed_at = Some 0\<rparr>],
       paired_clients = [\<lparr>cl_id = ''u'', cl_name = ''tv'', cl_token_hash = ''hearthdeck_t1'', cl_created_at = 0\<rparr>]\<rparr>"
  proof -
    have "trim ''tv'' = ''tv''" "chars_count ''tv'' = 2" by code_simp+
    then show ?thesis
      using upper
      by (simp add: api_after_def demo_pairing_def serve_local_def serve_api_def local_routes_def public_routes_def
          create_pairing_handler_def complete_pairing_handler_def demo_env_def demo_app_def demo_faults_def create_pairing_code_def
          insert_row_def consume_pairing_code_def code_is_redeemable_def claim_code_def lookup_def update_rows_def Let_def)
  qed
  have bearer: "strip_prefix ''Bearer '' ''Bearer hearthdeck_t1'' = Some ''hearthdeck_t1''" by code_simp
  have presented: "presented (demo_env ''x'') (Some ''Bearer hearthdeck_t1'') = Some ''hearthdeck_t1''"
    by (simp add: presented_def demo_env_def)
  have "fst (serve_api (Some ''Bearer hearthdeck_t1'') CallListLibrary (demo_env ''x'') (api_after demo_pairing demo_app))
      \<notin> {Refused api_unauthorized, Refused (api_internal ()), NotRouted}"
    using auth
    by (simp add: serve_api_def public_routes_def protected_routes_def require_authentication_def authenticate_request_def
        authenticate_def bearer demo_env_def demo_faults_def list_library_handler_def)
  moreover have "inj_on (\<lambda>s. s) S" for S :: "string set" by (simp add: inj_on_def)
  moreover have "route_of CallListLibrary \<notin> set public_routes" by (simp add: public_routes_def)
  ultimately show ?thesis
    using protected_requests_need_a_pairing[of demo_app "\<lambda>s. s" demo_pairing "demo_env ''x''" "Some ''Bearer hearthdeck_t1''" CallListLibrary,
        OF _ _ hashes] presented
    by (auto simp: demo_app_def Let_def case_prod_beta)
qed

section \<open>A play can be started again\<close>

lemma nat_of_digits_snoc: "nat_of_digits (s @ [c]) = 10 * nat_of_digits s + (of_char c - of_char (CHR ''0''))"
  by (simp add: nat_of_digits_def)

lemma digit_char: "d < 10 \<Longrightarrow> is_ascii_digit (char_of (48 + d :: nat)) \<and> of_char (char_of (48 + d :: nat)) = (48 + d :: nat)"
  by (simp add: is_ascii_digit_def less_eq_char_def)

lemma show_nat_digits: "show_nat n \<noteq> [] \<and> list_all is_ascii_digit (show_nat n) \<and> nat_of_digits (show_nat n) = n"
proof (induction n rule: show_nat.induct)
  case (1 n)
  have d: "n mod 10 < 10" by simp
  show ?case
  proof (cases "n < 10")
    case True
    then show ?thesis using digit_char[of n] by (simp add: show_nat.simps[of n] nat_of_digits_def)
  next
    case False
    then show ?thesis using 1 digit_char[OF d] by (simp add: show_nat.simps[of n] nat_of_digits_snoc)
  qed
qed

lemma parse_show_int:
  assumes "- (2 ^ 63) \<le> i" and "i < 2 ^ 63"
  shows "parse_i64 (show_int i) = Some i"
proof -
  have signs: "is_ascii_digit c \<Longrightarrow> c \<noteq> CHR ''-'' \<and> c \<noteq> CHR ''+''" for c
    by (auto simp: is_ascii_digit_def less_eq_char_def)
  show ?thesis
  proof (cases "i < 0")
    case True
    then show ?thesis using assms show_nat_digits[of "nat (- i)"] by (simp add: parse_i64_def show_int_def Let_def)
  next
    case False
    obtain c s where "show_nat (nat i) = c # s" "is_ascii_digit c"
      using show_nat_digits[of "nat i"] by (cases "show_nat (nat i)") auto
    then show ?thesis using False assms show_nat_digits[of "nat i"] signs[of c] by (auto simp: parse_i64_def show_int_def Let_def)
  qed
qed

lemma rom_item_launch:
  "rom_id_from_item item_id = Some i \<Longrightarrow> item_launch (''romm:'' @ show_int i) = RetroItem i"
proof -
  assume "rom_id_from_item item_id = Some i"
  then have "- (2 ^ 63) \<le> i" "i < 2 ^ 63"
    by (auto simp: rom_id_from_item_def parse_i64_def Let_def split: option.splits if_splits)
  moreover have "strip_prefix ''romm:'' (''romm:'' @ s) = Some s" for s by simp
  ultimately show ?thesis unfolding item_launch_def rom_id_from_item_def by (simp only: parse_show_int option.case)
qed

lemma catalog_item_launch: "i \<noteq> [] \<Longrightarrow> item_launch (''hearthdeck:'' @ i) = CatalogItemId i"
proof -
  assume i: "i \<noteq> []"
  have "strip_prefix ''romm:'' (''hearthdeck:'' @ i) = None" by (simp add: strip_prefix_def)
  moreover have "strip_prefix ENTRY_ID_PREFIX (''hearthdeck:'' @ i) = Some i" by (simp add: ENTRY_ID_PREFIX_def)
  ultimately show ?thesis
    using i unfolding item_launch_def rom_id_from_item_def catalog_id_from_item_def
    by (simp only: option.case option_filter_def or_else_def if_True not_False_eq_True simp_thms)
qed

lemma session_launch_recorded:
  assumes "session_call (\<lambda>env. SessionService_launch env request entry) e st = (Some (Inr session), st')"
    and "started_fault (av_session e) = None"
  shows "\<exists>row\<in>set (launch_activity (d_activity (ap_daemon st'))). la_item_id row = ae_id entry
    \<and> la_last_launched_at row = started_at (av_session e)"
proof -
  have upsert: "\<exists>row\<in>set (upsert_row la_item_id relaunch new t). la_item_id row = la_item_id new \<and> la_last_launched_at row = la_last_launched_at new"
    for new t
  proof (cases "\<exists>x\<in>set t. la_item_id x = la_item_id new")
    case True
    then obtain x where "x \<in> set t" "la_item_id x = la_item_id new" by blast
    moreover from this have "la_item_id new \<in> la_item_id ` set t" by (metis imageI)
    ultimately show ?thesis by (intro bexI[of _ "relaunch x new"]) (auto simp: upsert_row_def relaunch_def)
  qed (auto simp: upsert_row_def)
  obtain d where "SessionService_launch ((av_session e)\<lparr>has_discovery := ap_discovery st \<noteq> None\<rparr>) request entry
      ((ap_daemon st)\<lparr>d_requests := []\<rparr>) = (Inr session, d)" "d_activity (ap_daemon st') = d_activity d"
    using assms(1) by (auto simp: session_call_def Let_def split: prod.splits option.splits)
  then show ?thesis
    using assms(2) upsert[of "\<lparr>la_item_id = ae_id entry, la_snapshot = entry, la_last_launched_at = started_at (av_session e), la_launch_count = 1\<rparr>"]
    by (auto simp: SessionService_launch_def session_started_def split: sum.splits bridge_response.splits)
qed

lemma session_reply_ok: "session_reply err r = Replied 200 (SessionBody (Some session)) \<Longrightarrow> r = Some (Inr session)"
proof (cases r)
  case (Some x)
  then show "session_reply err r = Replied 200 (SessionBody (Some session)) \<Longrightarrow> ?thesis"
    by (cases x) (auto simp: session_reply_def json_reply_def)
qed (simp add: session_reply_def)


definition demo_row :: library_row where
  "demo_row = \<lparr>li_id = ''a'', li_source_id = DESKTOP_APPS, li_title = ''A'', li_kind = ''application'', li_launch_id = Some ''a.desktop'',
     li_icon = None, li_metadata = JObject [], li_updated_at = ''t''\<rparr>"

definition demo_stocked :: "(unit, path_component list \<rightharpoonup> string) app_state" where
  "demo_stocked = demo_app\<lparr>ap_catalog := \<lparr>library_items = [demo_row], catalog_enrichments = [], item_traits = []\<rparr>\<rparr>"


text \<open>
  The labels of a rom's versions are not always distinct: a version that is renamed because its label
  is taken is not remembered under its new label, so a later version whose own label is that text is
  shown unchanged beside it.
\<close>

lemma version_labels_can_repeat:
  "map rv_title (distinguish {} [\<lparr>rv_id = 1, rv_title = ''A'', rv_is_main_sibling = True\<rparr>, \<lparr>rv_id = 2, rv_title = ''A'', rv_is_main_sibling = False\<rparr>,
     \<lparr>rv_id = 3, rv_title = ''A (#2)'', rv_is_main_sibling = False\<rparr>]) = [''A'', ''A (#2)'', ''A (#2)'']"
proof -
  have "show_int 2 = ''2''" by code_simp
  then show ?thesis by simp
qed

end
