(* ===== verification/Api_Secrets.thy ===== *)
theory Api_Secrets
  imports Api_Props
begin

text \<open>
  What the daemon's answers can depend on. The stored credentials (RomM's client token, Stremio's
  session key, the TMDB key) are erased from a state by \<open>hide\<close>; a handler is blind when it answers
  alike, and ends in states that are alike, whether or not they were erased before it ran.
\<close>

section \<open>Erasing credentials\<close>

definition hide_db :: "settings_db \<Rightarrow> settings_db" where
  "hide_db db = db\<lparr>romm_settings_table := map_option (\<lambda>r. r\<lparr>rs_token := []\<rparr>) (romm_settings_table db),
     stremio_settings_table := map_option (\<lambda>r. r\<lparr>ss_auth_key := []\<rparr>) (stremio_settings_table db),
     tmdb_settings_table := map_option (\<lambda>r. r\<lparr>ts_api_key := []\<rparr>) (tmdb_settings_table db)\<rparr>"

definition hide :: "('s, 'w) app_state \<Rightarrow> ('s, 'w) app_state" where
  "hide st = st\<lparr>ap_settings := hide_db (ap_settings st)\<rparr>"

definition blind :: "('x \<Rightarrow> 'x) \<Rightarrow> ('x \<Rightarrow> 'r \<times> 'x) \<Rightarrow> bool" where
  "blind H f \<longleftrightarrow> (\<forall>x. map_prod id H (f (H x)) = map_prod id H (f x))"

lemma blindI: "(\<And>x. fst (f (H x)) = fst (f x) \<and> H (snd (f (H x))) = H (snd (f x))) \<Longrightarrow> blind H f"
  by (simp add: blind_def prod_eq_iff)

lemma blindD: "blind H f \<Longrightarrow> fst (f (H x)) = fst (f x) \<and> H (snd (f (H x))) = H (snd (f x))"
  by (simp add: blind_def prod_eq_iff)

lemma hide_db_idem [simp]: "hide_db (hide_db db) = hide_db db"
  by (simp add: hide_db_def option.map_comp comp_def)

lemma hide_db_user [simp]: "user_settings_table (hide_db db) = user_settings_table db"
  by (simp add: hide_db_def)

section \<open>The settings tables\<close>

lemma reads_hide [simp]:
  "SettingsRepository_get f (hide_db db) = SettingsRepository_get f db"
  "SettingsRepository_romm f (hide_db db) = SettingsRepository_romm f db"
  "StremioRepository_connection f (hide_db db) = StremioRepository_connection f db"
  "TmdbRepository_settings f (hide_db db) = TmdbRepository_settings f db"
  by (simp_all add: SettingsRepository_get_def SettingsRepository_romm_def StremioRepository_connection_def
      TmdbRepository_settings_def hide_db_def option.map_comp comp_def split: option.split)

lemma writes_blind:
  "blind hide_db (set_categorization_enabled f g now b)"
  "blind hide_db (save_romm parse_url f now url token)"
  "blind hide_db (clear_romm f)"
  "blind hide_db (save_session f g now key)"
  "blind hide_db (StremioRepository_clear f)"
  "blind hide_db (TmdbRepository_save f now api_key)"
  "blind hide_db (TmdbRepository_clear f)"
proof -
  have user: "hide_db (db\<lparr>user_settings_table := u\<rparr>) = (hide_db db)\<lparr>user_settings_table := u\<rparr>" for db u
    by (simp add: hide_db_def)
  show "blind hide_db (set_categorization_enabled f g now b)"
  proof (rule blindI)
    fix db :: settings_db
    let ?u = "map_option (\<lambda>row. row\<lparr>us_categorization_enabled := b, us_revision := us_revision row + 1, us_updated_at := now\<rparr>) (user_settings_table db)"
    have "SettingsRepository_get g ((hide_db db)\<lparr>user_settings_table := ?u\<rparr>) = SettingsRepository_get g (db\<lparr>user_settings_table := ?u\<rparr>)"
      by (simp add: SettingsRepository_get_def split: option.split)
    then show "fst (set_categorization_enabled f g now b (hide_db db)) = fst (set_categorization_enabled f g now b db)
      \<and> hide_db (snd (set_categorization_enabled f g now b (hide_db db))) = hide_db (snd (set_categorization_enabled f g now b db))"
      by (cases f) (simp_all add: set_categorization_enabled_def Let_def user)
  qed
  show "blind hide_db (save_romm parse_url f now url token)"
    by (rule blindI) (auto simp: save_romm_def Let_def hide_db_def option.map_comp comp_def split: sum.split option.split)
  show "blind hide_db (clear_romm f)" "blind hide_db (StremioRepository_clear f)" "blind hide_db (TmdbRepository_clear f)"
    by (rule blindI; simp add: clear_romm_def StremioRepository_clear_def TmdbRepository_clear_def hide_db_def option.map_comp comp_def
        split: option.split)+
  show "blind hide_db (TmdbRepository_save f now api_key)"
    by (rule blindI) (auto simp: TmdbRepository_save_def hide_db_def option.map_comp comp_def split: sum.split option.split)
  show "blind hide_db (save_session f g now key)"
    by (rule blindI) (auto simp: save_session_def Let_def upsert_session_def StremioRepository_connection_def hide_db_def
        option.map_comp comp_def split: option.split)
qed

section \<open>Questions to RomM\<close>

text \<open>A server that answers any client token alike.\<close>

definition token_blind :: "'s romm_server \<Rightarrow> bool" where
  "token_blind srv \<longleftrightarrow> (\<forall>c. let d = c\<lparr>rc_token := []\<rparr> in
     srv_platforms srv d = srv_platforms srv c \<and> srv_rom srv d = srv_rom srv c \<and> srv_roms srv d = srv_roms srv c
     \<and> srv_filters srv d = srv_filters srv c \<and> srv_collections srv d = srv_collections srv c
     \<and> srv_create_favorites srv d = srv_create_favorites srv c \<and> srv_change_roms srv d = srv_change_roms srv c
     \<and> srv_set_backlogged srv d = srv_set_backlogged srv c \<and> srv_asset srv d = srv_asset srv c)"

lemma credentials_hide: "romm_credentials_of f (hide_db db) = map_sum id (\<lambda>c. c\<lparr>rc_token := []\<rparr>) (romm_credentials_of f db)"
  by (cases "romm_settings_table db") (simp_all add: romm_credentials_of_def SettingsRepository_romm_credentials_def hide_db_def split: option.split)

lemma with_credentials_hide:
  "(\<And>c. g (c\<lparr>rc_token := []\<rparr>) = g c) \<Longrightarrow> with_credentials f (hide_db db) g = with_credentials f db g"
  by (simp add: with_credentials_def credentials_hide split: sum.split)

lemma server_hide:
  assumes "token_blind srv"
  shows "srv_platforms srv (c\<lparr>rc_token := []\<rparr>) = srv_platforms srv c" "srv_rom srv (c\<lparr>rc_token := []\<rparr>) = srv_rom srv c"
    "srv_roms srv (c\<lparr>rc_token := []\<rparr>) = srv_roms srv c" "srv_filters srv (c\<lparr>rc_token := []\<rparr>) = srv_filters srv c"
    "srv_collections srv (c\<lparr>rc_token := []\<rparr>) = srv_collections srv c"
    "srv_create_favorites srv (c\<lparr>rc_token := []\<rparr>) = srv_create_favorites srv c"
    "srv_change_roms srv (c\<lparr>rc_token := []\<rparr>) = srv_change_roms srv c"
    "srv_set_backlogged srv (c\<lparr>rc_token := []\<rparr>) = srv_set_backlogged srv c" "srv_asset srv (c\<lparr>rc_token := []\<rparr>) = srv_asset srv c"
  using assms unfolding token_blind_def Let_def by metis+

lemma queries_hide:
  assumes "token_blind srv"
  shows "Connection_platforms srv st (c\<lparr>rc_token := []\<rparr>) = Connection_platforms srv st c"
    "Connection_rom srv st i (c\<lparr>rc_token := []\<rparr>) = Connection_rom srv st i c"
    "favorite srv st (c\<lparr>rc_token := []\<rparr>) game = favorite srv st c game"
    "favorite_target srv (c\<lparr>rc_token := []\<rparr>) b st = favorite_target srv c b st"
  unfolding Connection_platforms_def Connection_rom_def romm_favorite_collection_def fetch_collections_def
    favorite_def favorite_target_def romm_create_favorite_collection_def server_hide[OF assms]
  by (rule refl)+

lemma on_credentials_hide:
  assumes "\<And>c. g (c\<lparr>rc_token := []\<rparr>) = g c"
  shows "(case romm_credentials_of f (hide_db db) of Inl err \<Rightarrow> l err | Inr c \<Rightarrow> g c)
    = (case romm_credentials_of f db of Inl err \<Rightarrow> l err | Inr c \<Rightarrow> g c)"
  by (simp add: credentials_hide assms split: sum.split)

lemma romm_hide:
  assumes "token_blind srv"
  shows "platforms srv st f (hide_db db) = platforms srv st f db"
    "games srv st f (hide_db db) p q fs l off = games srv st f db p q fs l off"
    "filter_values srv st f (hide_db db) p = filter_values srv st f db p"
    "rom srv st f (hide_db db) i = rom srv st f db i"
    "details srv st f (hide_db db) i = details srv st f db i"
    "set_favorite srv f (hide_db db) i b st = set_favorite srv f db i b st"
    "set_backlogged srv f (hide_db db) i b st = set_backlogged srv f db i b st"
    "asset srv st disk f (hide_db db) paths v = asset srv st disk f db paths v"
    "prepare_launch srv st on_disk env f (hide_db db) paths i = prepare_launch srv st on_disk env f db paths i"
proof -
  note eqs = queries_hide[OF assms] server_hide[OF assms]
  show "platforms srv st f (hide_db db) = platforms srv st f db" "rom srv st f (hide_db db) i = rom srv st f db i"
    "games srv st f (hide_db db) p q fs l off = games srv st f db p q fs l off"
    "filter_values srv st f (hide_db db) p = filter_values srv st f db p" "details srv st f (hide_db db) i = details srv st f db i"
    unfolding platforms_def rom_def games_def filter_values_def details_def
    by (rule with_credentials_hide, unfold eqs, rule refl)+
  show "set_favorite srv f (hide_db db) i b st = set_favorite srv f db i b st"
    "set_backlogged srv f (hide_db db) i b st = set_backlogged srv f db i b st"
    "prepare_launch srv st on_disk env f (hide_db db) paths i = prepare_launch srv st on_disk env f db paths i"
    unfolding set_favorite_def set_backlogged_def prepare_launch_def
    by (rule on_credentials_hide, unfold eqs, rule refl)+
  show "asset srv st disk f (hide_db db) paths v = asset srv st disk f db paths v"
    by (simp add: asset_def with_credentials_hide eqs split: sum.split option.split)
qed

lemma romm_diagnostic_hide:
  "token_blind srv \<Longrightarrow> romm_diagnostic_of srv st f g now (hide_db db) buffer = romm_diagnostic_of srv st f g now db buffer"
  unfolding romm_diagnostic_of_def reads_hide by (simp only: romm_hide cong: option.case_cong sum.case_cong)

section \<open>The controls\<close>

definition hide_romm :: "romm_service \<Rightarrow> romm_service" where
  "hide_romm sv = sv\<lparr>rsv_settings := hide_db (rsv_settings sv)\<rparr>"

definition hide_stremio :: "stremio_service \<Rightarrow> stremio_service" where
  "hide_stremio sv = sv\<lparr>sv_settings := hide_db (sv_settings sv)\<rparr>"

definition hide_cat :: "cat_service \<Rightarrow> cat_service" where
  "hide_cat sv = sv\<lparr>cz_settings := hide_db (cz_settings sv)\<rparr>"

lemma romm_control_blind:
  "blind hide_romm (RommControl_save parse_url f now url token)"
  "blind hide_romm (RommControl_clear f)"
  "blind hide_romm (RommControl_login api parse_url f now url user password)"
  "blind hide_romm (RommControl_start_link api parse_url url_text addr n url)"
  "blind hide_romm (RommControl_poll_link api parse_url n f now)"
proof -
  note w = writes_blind[THEN blindD]
  show "blind hide_romm (RommControl_save parse_url f now url token)"
    by (rule blindI) (simp add: RommControl_save_def hide_romm_def case_prod_beta w)
  show "blind hide_romm (RommControl_clear f)"
    by (rule blindI) (simp add: RommControl_clear_def hide_romm_def case_prod_beta w)
  show "blind hide_romm (RommControl_login api parse_url f now url user password)"
    by (rule blindI) (simp add: RommControl_login_def hide_romm_def case_prod_beta w Let_def split: sum.split)
  show "blind hide_romm (RommControl_start_link api parse_url url_text addr n url)"
    by (rule blindI) (simp add: RommControl_start_link_def hide_romm_def case_prod_beta split: sum.split)
  have complete: "fst (complete_device_poll parse_url f now poll (hide_romm sv)) = fst (complete_device_poll parse_url f now poll sv)
    \<and> hide_romm (snd (complete_device_poll parse_url f now poll (hide_romm sv))) = hide_romm (snd (complete_device_poll parse_url f now poll sv))"
    for poll sv by (cases poll) (simp_all add: hide_romm_def case_prod_beta w)
  have part: "(hide_romm sv)\<lparr>rsv_link := l\<rparr> = hide_romm (sv\<lparr>rsv_link := l\<rparr>)" "rsv_link (hide_romm sv) = rsv_link sv"
    "hide_romm (hide_romm sv) = hide_romm sv" for sv l
    by (simp_all add: hide_romm_def)
  show "blind hide_romm (RommControl_poll_link api parse_url n f now)"
    by (rule blindI) (simp add: RommControl_poll_link_def part complete split: prod.split sum.split)
qed

lemma stremio_control_blind:
  "blind hide_stremio (StremioControl_start_link http parse_json n)"
  "blind hide_stremio (StremioControl_poll_link service n m f g now)"
  "blind hide_stremio (StremioControl_clear f cf)"
proof -
  note w = writes_blind[THEN blindD]
  show "blind hide_stremio (StremioControl_start_link http parse_json n)"
    by (rule blindI) (simp add: StremioControl_start_link_def hide_stremio_def split: sum.split)
  have complete: "fst (complete_poll f g now poll (hide_stremio sv)) = fst (complete_poll f g now poll sv)
    \<and> hide_stremio (snd (complete_poll f g now poll (hide_stremio sv))) = hide_stremio (snd (complete_poll f g now poll sv))" for poll sv
  proof (cases poll)
    case (PollLinked key)
    then show ?thesis
      using w(4)[of f g now key "sv_settings sv"]
      by (cases "save_session f g now key (sv_settings sv)"; cases "save_session f g now key (hide_db (sv_settings sv))")
        (auto simp: hide_stremio_def split: sum.split)
  qed (simp_all add: hide_stremio_def)
  have part: "(hide_stremio sv)\<lparr>sv_link := l\<rparr> = hide_stremio (sv\<lparr>sv_link := l\<rparr>)" "sv_link (hide_stremio sv) = sv_link sv"
    "hide_stremio (hide_stremio sv) = hide_stremio sv" for sv l
    by (simp_all add: hide_stremio_def)
  show "blind hide_stremio (StremioControl_poll_link service n m f g now)"
    by (rule blindI) (simp add: StremioControl_poll_link_def part complete split: prod.split sum.split)
  show "blind hide_stremio (StremioControl_clear f cf)"
  proof (rule blindI)
    fix sv
    show "fst (StremioControl_clear f cf (hide_stremio sv)) = fst (StremioControl_clear f cf sv)
      \<and> hide_stremio (snd (StremioControl_clear f cf (hide_stremio sv))) = hide_stremio (snd (StremioControl_clear f cf sv))"
      using w(5)[of f "sv_settings sv"]
      by (cases "StremioRepository_clear f (sv_settings sv)"; cases "StremioRepository_clear f (hide_db (sv_settings sv))")
        (auto simp: StremioControl_clear_def hide_stremio_def Let_def split: sum.split prod.split)
  qed
qed

lemma tmdb_control_hide:
  "fst (TmdbControl_save f now key (hide_db db)) = fst (TmdbControl_save f now key db)
    \<and> hide_db (snd (TmdbControl_save f now key (hide_db db))) = hide_db (snd (TmdbControl_save f now key db))"
  "fst (TmdbControl_clear f cf (hide_db db, cdb)) = fst (TmdbControl_clear f cf (db, cdb))"
  "hide_db (fst (snd (TmdbControl_clear f cf (hide_db db, cdb)))) = hide_db (fst (snd (TmdbControl_clear f cf (db, cdb))))"
  "snd (snd (TmdbControl_clear f cf (hide_db db, cdb))) = snd (snd (TmdbControl_clear f cf (db, cdb)))"
proof -
  note w = writes_blind[THEN blindD]
  show "fst (TmdbControl_save f now key (hide_db db)) = fst (TmdbControl_save f now key db)
    \<and> hide_db (snd (TmdbControl_save f now key (hide_db db))) = hide_db (snd (TmdbControl_save f now key db))"
    by (simp add: TmdbControl_save_def w)
  have "TmdbRepository_clear f (hide_db db) = (fst (TmdbRepository_clear f db), snd (TmdbRepository_clear f (hide_db db)))"
    "hide_db (snd (TmdbRepository_clear f (hide_db db))) = hide_db (snd (TmdbRepository_clear f db))"
    using w(7)[of f db] by (simp_all add: prod_eq_iff)
  then show "fst (TmdbControl_clear f cf (hide_db db, cdb)) = fst (TmdbControl_clear f cf (db, cdb))"
    "hide_db (fst (snd (TmdbControl_clear f cf (hide_db db, cdb)))) = hide_db (fst (snd (TmdbControl_clear f cf (db, cdb))))"
    "snd (snd (TmdbControl_clear f cf (hide_db db, cdb))) = snd (snd (TmdbControl_clear f cf (db, cdb)))"
    by (cases "TmdbRepository_clear f db"; auto simp: TmdbControl_clear_def split: sum.split prod.split)+
qed

lemma cat_control_hide:
  "Control_snapshot a model phase f g (hide_cat sv) = Control_snapshot a model phase f g sv"
  "Control_detect_form_factors a model f (hide_cat sv) = Control_detect_form_factors a model f sv"
  "Control_publish_collections a f (hide_cat sv) = Control_publish_collections a f sv"
  "Control_remove_collections a f (hide_cat sv) = hide_cat (Control_remove_collections a f sv)"
  by (simp_all add: Control_snapshot_def Control_detect_form_factors_def Control_publish_collections_def
      Control_remove_collections_def enabled_service_def hide_cat_def CategorizationStore_latest_def service_status_def Let_def
      split: option.split sum.split)

lemma clear_traits_hide: "snd (clear_traits f (hide_cat sv)) = hide_cat (snd (clear_traits f sv))"
  by (simp add: clear_traits_def hide_cat_def split: option.split prod.split sum.split)

lemma cat_control_blind:
  "blind hide_cat (Control_disable a faults now)"
  "fst (Control_enable a model faults now (hide_cat sv)) = fst (Control_enable a model faults now sv)
    \<and> fst (snd (Control_enable a model faults now (hide_cat sv))) = fst (snd (Control_enable a model faults now sv))
    \<and> hide_cat (snd (snd (Control_enable a model faults now (hide_cat sv)))) = hide_cat (snd (snd (Control_enable a model faults now sv)))"
proof -
  let ?set = "\<lambda>b. set_categorization_enabled (cf_set faults) (cf_get faults) now b"
  have step: "\<exists>r db db'. ?set b (cz_settings sv) = (r, db) \<and> ?set b (hide_db (cz_settings sv)) = (r, db') \<and> hide_db db' = hide_db db" for b and sv :: cat_service
    using writes_blind(1)[THEN blindD, of "cf_set faults" "cf_get faults" now b "cz_settings sv"] by (metis prod.collapse)
  have hide_same: "hide_cat (sv\<lparr>cz_settings := db'\<rparr>) = hide_cat (sv\<lparr>cz_settings := db\<rparr>)" if "hide_db db' = hide_db db" for sv :: cat_service and db db'
    using that by (simp add: hide_cat_def)
  have after: "hide_cat (let sv = Control_remove_collections a g sv; sv = if a then snd (clear_traits h sv) else sv in sv)
      = (let sv = Control_remove_collections a g (hide_cat sv); sv = if a then snd (clear_traits h sv) else sv in sv)" for g h sv
    by (simp add: Let_def cat_control_hide clear_traits_hide)
  show "blind hide_cat (Control_disable a faults now)"
  proof (rule blindI)
    fix sv :: cat_service
    obtain r db db' where s: "?set False (cz_settings sv) = (r, db)" "?set False (hide_db (cz_settings sv)) = (r, db')" "hide_db db' = hide_db db"
      using step[of False sv] by blast
    show "fst (Control_disable a faults now (hide_cat sv)) = fst (Control_disable a faults now sv)
      \<and> hide_cat (snd (Control_disable a faults now (hide_cat sv))) = hide_cat (snd (Control_disable a faults now sv))"
      using s after[where g = "cf_rails faults" and h = "cf_traits faults"] hide_same[OF s(3)]
      by (auto simp: Control_disable_def hide_cat_def Let_def split: sum.split)
  qed
  obtain r db db' where s: "?set True (cz_settings sv) = (r, db)" "?set True (hide_db (cz_settings sv)) = (r, db')" "hide_db db' = hide_db db"
    using step[of True sv] by blast
  show "fst (Control_enable a model faults now (hide_cat sv)) = fst (Control_enable a model faults now sv)
    \<and> fst (snd (Control_enable a model faults now (hide_cat sv))) = fst (snd (Control_enable a model faults now sv))
    \<and> hide_cat (snd (snd (Control_enable a model faults now (hide_cat sv)))) = hide_cat (snd (snd (Control_enable a model faults now sv)))"
    using s by (auto simp: Control_enable_def hide_cat_def request_download_def start_job_def split: sum.split prod.split bool.split)
qed

section \<open>The handlers\<close>

lemma hide_simps [simp]:
  "ap_settings (hide st) = hide_db (ap_settings st)" "ap_auth (hide st) = ap_auth st" "ap_daemon (hide st) = ap_daemon st"
  "ap_catalog (hide st) = ap_catalog st" "ap_collections (hide st) = ap_collections st"
  "ap_discovery (hide st) = ap_discovery st" "ap_enrichment (hide st) = ap_enrichment st"
  "ap_diagnostics (hide st) = ap_diagnostics st" "ap_romm (hide st) = ap_romm st" "ap_host (hide st) = ap_host st"
  "ap_jobs (hide st) = ap_jobs st" "hide (hide st) = hide st"
  "hide (st\<lparr>ap_auth := auth\<rparr>) = (hide st)\<lparr>ap_auth := auth\<rparr>" "hide (st\<lparr>ap_daemon := d\<rparr>) = (hide st)\<lparr>ap_daemon := d\<rparr>"
  "hide (st\<lparr>ap_catalog := c\<rparr>) = (hide st)\<lparr>ap_catalog := c\<rparr>" "hide (st\<lparr>ap_collections := cs\<rparr>) = (hide st)\<lparr>ap_collections := cs\<rparr>"
  "hide (st\<lparr>ap_discovery := ws\<rparr>) = (hide st)\<lparr>ap_discovery := ws\<rparr>" "hide (st\<lparr>ap_enrichment := ws\<rparr>) = (hide st)\<lparr>ap_enrichment := ws\<rparr>"
  "hide (st\<lparr>ap_diagnostics := ds\<rparr>) = (hide st)\<lparr>ap_diagnostics := ds\<rparr>" "hide (st\<lparr>ap_romm := romm\<rparr>) = (hide st)\<lparr>ap_romm := romm\<rparr>"
  "hide (st\<lparr>ap_host := w\<rparr>) = (hide st)\<lparr>ap_host := w\<rparr>" "hide (st\<lparr>ap_jobs := js\<rparr>) = (hide st)\<lparr>ap_jobs := js\<rparr>"
  by (simp_all add: hide_def)

lemma parts_hide [simp]:
  "romm_part (hide st) = hide_romm (romm_part st)" "stremio_part (hide st) = hide_stremio (stremio_part st)"
  "cat_part (hide st) = hide_cat (cat_part st)"
  "hide (put_romm sv st) = put_romm (hide_romm sv) (hide st)" "hide (put_stremio sv' st) = put_stremio (hide_stremio sv') (hide st)"
  "hide (put_cat sv'' st) = put_cat (hide_cat sv'') (hide st)" "hide (put_job job st) = put_job job (hide st)"
  by (simp_all add: romm_part_def stremio_part_def cat_part_def hide_romm_def hide_stremio_def hide_cat_def hide_def part_defs)

lemma rules_hide: "token_blind (av_server e) \<Longrightarrow> rules_part e (hide st) = rules_part e st"
  by (simp add: rules_part_def romm_hide CategorizationStore_latest_def hide_cat_def split: option.split)

lemma session_call_hide: "session_call f e (hide st) = apsnd hide (session_call f e st)"
  by (simp add: session_call_def Let_def split: prod.split option.split)

lemma replies_hide:
  assumes "token_blind (av_server e)"
  shows "health_handler e (hide st) = health_handler e st" "list_library_handler e (hide st) = list_library_handler e st"
    "list_retro_consoles_handler e (hide st) = list_retro_consoles_handler e st"
    "retro_readiness_handler e (hide st) = retro_readiness_handler e st"
    "install_retro_cores_handler e (hide st) = install_retro_cores_handler e st"
    "list_retro_roms_handler q e (hide st) = list_retro_roms_handler q e st"
    "list_retro_facets_handler p e (hide st) = list_retro_facets_handler p e st"
    "retro_rom_details_handler i e (hide st) = retro_rom_details_handler i e st"
    "retro_asset_handler v e (hide st) = retro_asset_handler v e st"
    "get_romm_settings_handler e (hide st) = get_romm_settings_handler e st"
    "get_stremio_settings_handler e (hide st) = get_stremio_settings_handler e st"
    "get_tmdb_settings_handler e (hide st) = get_tmdb_settings_handler e st"
    "categorization_handler e (hide st) = categorization_handler e st"
    "active_session_handler e (hide st) = active_session_handler e st"
    "api_romm_platforms e (hide st) = api_romm_platforms e st"
  using romm_hide[OF assms]
  by (simp_all add: health_handler_def list_library_handler_def list_retro_consoles_handler_def retro_readiness_handler_def
      install_retro_cores_handler_def list_retro_roms_handler_def list_retro_facets_handler_def retro_rom_details_handler_def
      retro_asset_handler_def get_romm_settings_handler_def get_stremio_settings_handler_def get_tmdb_settings_handler_def
      categorization_handler_def active_session_handler_def api_romm_platforms_def RommControl_settings_def StremioControl_settings_def
      TmdbControl_settings_def hide_romm_def hide_stremio_def cat_control_hide romm_part_def stremio_part_def
      split: option.split sum.split)

lemma romm_call_blind: "blind hide_romm f \<Longrightarrow> blind hide (romm_call body f)"
  by (rule blindI) (simp add: romm_call_def case_prod_beta blindD)

lemma stremio_call_blind: "blind hide_stremio f \<Longrightarrow> blind hide (stremio_call body f)"
  by (rule blindI) (simp add: stremio_call_def case_prod_beta blindD)

lemma account_handlers_blind:
  "blind hide (update_romm_settings_handler url token e)" "blind hide (clear_romm_settings_handler e)"
  "blind hide (romm_login_handler url user password e)" "blind hide (start_romm_link_handler url e)"
  "blind hide (poll_romm_link_handler e)" "blind hide (start_stremio_link_handler e)" "blind hide (poll_stremio_link_handler e)"
  "blind hide (unlink_stremio_handler e)"
proof -
  show "blind hide (update_romm_settings_handler url token e)" "blind hide (romm_login_handler url user password e)"
    "blind hide (start_romm_link_handler url e)" "blind hide (poll_romm_link_handler e)"
    unfolding update_romm_settings_handler_def romm_login_handler_def start_romm_link_handler_def poll_romm_link_handler_def
    by (intro romm_call_blind romm_control_blind)+
  show "blind hide (start_stremio_link_handler e)" "blind hide (poll_stremio_link_handler e)"
    unfolding start_stremio_link_handler_def poll_stremio_link_handler_def by (intro stremio_call_blind stremio_control_blind)+
  show "blind hide (clear_romm_settings_handler e)" "blind hide (unlink_stremio_handler e)"
    by (rule blindI; simp add: clear_romm_settings_handler_def unlink_stremio_handler_def case_prod_beta
        blindD[OF romm_control_blind(2)] blindD[OF stremio_control_blind(3)])+
qed

lemma settings_same: "hide_db db = hide_db db' \<Longrightarrow> hide (st\<lparr>ap_settings := db\<rparr>) = hide (st\<lparr>ap_settings := db'\<rparr>)"
  by (simp add: hide_def)

lemma settings_handlers_blind:
  fixes e :: "('s, 'w) api_env"
  shows "blind hide (update_tmdb_settings_handler key e)" "blind hide (clear_tmdb_settings_handler e)"
proof -
  have arrivals: "refresh_arrivals (hide st) = map_option hide (refresh_arrivals st)" for st :: "('s, 'w) app_state"
    by (simp add: refresh_arrivals_def option.map_comp comp_def case_prod_unfold split: option.split)
  show "blind hide (update_tmdb_settings_handler key e)"
  proof (rule blindI)
    fix st :: "('s, 'w) app_state"
    obtain r db db' where s: "TmdbControl_save (fa_settings (av_faults e)) (av_stamp e) key (ap_settings st) = (r, db)"
      "TmdbControl_save (fa_settings (av_faults e)) (av_stamp e) key (hide_db (ap_settings st)) = (r, db')" "hide_db db' = hide_db db"
      using tmdb_control_hide(1)[of "fa_settings (av_faults e)" "av_stamp e" key "ap_settings st"] by (metis prod.collapse)
    have same: "hide ((hide st)\<lparr>ap_settings := db'\<rparr>) = hide (st\<lparr>ap_settings := db\<rparr>)" using s(3) by (simp add: hide_def)
    then have "map_option hide (refresh_arrivals ((hide st)\<lparr>ap_settings := db'\<rparr>)) = map_option hide (refresh_arrivals (st\<lparr>ap_settings := db\<rparr>))"
      by (metis arrivals)
    then show "fst (update_tmdb_settings_handler key e (hide st)) = fst (update_tmdb_settings_handler key e st)
      \<and> hide (snd (update_tmdb_settings_handler key e (hide st))) = hide (snd (update_tmdb_settings_handler key e st))"
      using same
      by (cases r; cases "refresh_arrivals (st\<lparr>ap_settings := db\<rparr>)"; cases "refresh_arrivals ((hide st)\<lparr>ap_settings := db'\<rparr>)")
        (auto simp: update_tmdb_settings_handler_def s)
  qed
  show "blind hide (clear_tmdb_settings_handler e)"
  proof (rule blindI)
    fix st :: "('s, 'w) app_state"
    note c = tmdb_control_hide(2-)[of "fa_settings (av_faults e)" "fa_catalog_write (av_faults e)" "ap_settings st" "ap_catalog st"]
    show "fst (clear_tmdb_settings_handler e (hide st)) = fst (clear_tmdb_settings_handler e st)
      \<and> hide (snd (clear_tmdb_settings_handler e (hide st))) = hide (snd (clear_tmdb_settings_handler e st))"
      using c by (simp add: clear_tmdb_settings_handler_def case_prod_beta hide_def)
  qed
qed

lemma cat_handlers_blind:
  "blind hide (enable_categorization_handler e)" "blind hide (disable_categorization_handler e)"
  "blind hide (remove_categorization_collections_handler e)" "blind hide (detect_form_factors_handler e)"
  "blind hide (start_categorization_handler e)"
proof -
  have idem: "hide_cat (hide_cat sv) = hide_cat sv" for sv by (simp add: hide_cat_def)
  show "blind hide (enable_categorization_handler e)"
    by (rule blindI) (simp add: enable_categorization_handler_def case_prod_beta cat_control_blind(2))
  show "blind hide (disable_categorization_handler e)"
    by (rule blindI) (simp add: disable_categorization_handler_def case_prod_beta blindD[OF cat_control_blind(1)])
  show "blind hide (remove_categorization_collections_handler e)"
    by (rule blindI) (simp add: remove_categorization_collections_handler_def cat_control_hide idem)
  show "blind hide (detect_form_factors_handler e)" "blind hide (start_categorization_handler e)"
    by (rule blindI; simp add: detect_form_factors_handler_def start_categorization_handler_def case_prod_beta cat_control_hide)+
qed

lemma launch_hide:
  assumes "token_blind (av_server e)"
  shows "launch_item_handler i prof e (hide st) = apsnd hide (launch_item_handler i prof e st)"
  using romm_hide(9)[OF assms]
  by (simp add: launch_item_handler_def launch_retro_def launch_catalog_item_def session_call_hide
      split: item_launch.split sum.split option.split prod.split)

lemma stop_hide: "stop_session_handler t e (hide st) = apsnd hide (stop_session_handler t e st)"
  by (simp add: stop_session_handler_def session_call_hide split: prod.split option.split)

lemma apsnd_blind: "(\<And>x. f (hide x) = apsnd hide (f x)) \<Longrightarrow> blind hide f"
  by (rule blindI) simp

lemma other_handlers_blind:
  assumes "token_blind (av_server e)"
  shows "blind hide (complete_pairing_handler code name e)" "blind hide (create_pairing_handler e)"
    "blind hide (diagnostics_handler e)" "blind hide (list_collections_handler e)"
    "blind hide (add_collection_item_handler slug i name icon e)" "blind hide (remove_collection_item_handler slug i e)"
    "blind hide (sync_retro_readiness_handler e)" "blind hide (set_retro_favorite_handler n b e)"
    "blind hide (set_retro_backlogged_handler n b e)" "blind hide (refresh_source_handler i)" "blind hide (refresh_metadata_handler i)"
    "blind hide (launch_item_handler i prof e)" "blind hide (stop_session_handler t e)"
proof -
  note eqs = romm_hide[OF assms] replies_hide[OF assms] rules_hide[OF assms] romm_diagnostic_hide[OF assms]
  show "blind hide (complete_pairing_handler code name e)"
    by (rule apsnd_blind) (simp add: complete_pairing_handler_def Let_def split: option.split prod.split sum.split)
  show "blind hide (create_pairing_handler e)"
    by (rule apsnd_blind) (simp add: create_pairing_handler_def Let_def split: option.split prod.split sum.split)
  show "blind hide (diagnostics_handler e)"
    by (rule apsnd_blind) (simp add: diagnostics_handler_def diagnostics_snapshot_of_def eqs split: prod.split)
  show "blind hide (list_collections_handler e)"
  proof (rule apsnd_blind)
    fix st
    have "rules_part e ((hide st)\<lparr>ap_collections := db\<rparr>) = rules_part e (st\<lparr>ap_collections := db\<rparr>)" for db
      using rules_hide[OF assms, of "st\<lparr>ap_collections := db\<rparr>"] by simp
    then show "list_collections_handler e (hide st) = apsnd hide (list_collections_handler e st)"
      by (simp add: list_collections_handler_def Let_def split: option.split prod.split)
  qed
  show "blind hide (add_collection_item_handler slug i name icon e)" "blind hide (remove_collection_item_handler slug i e)"
    by (rule apsnd_blind; simp add: add_collection_item_handler_def remove_collection_item_handler_def split: option.split prod.split)+
  show "blind hide (sync_retro_readiness_handler e)"
    by (rule apsnd_blind) (simp add: sync_retro_readiness_handler_def eqs split: sum.split prod.split readiness_error.split)
  show "blind hide (set_retro_favorite_handler n b e)" "blind hide (set_retro_backlogged_handler n b e)"
    by (rule apsnd_blind; simp add: set_retro_favorite_handler_def set_retro_backlogged_handler_def eqs split: prod.split)+
  show "blind hide (refresh_source_handler i)" "blind hide (refresh_metadata_handler i)"
    by (rule apsnd_blind; simp add: refresh_source_handler_def refresh_metadata_handler_def Let_def split: option.split)+
  show "blind hide (launch_item_handler i prof e)" "blind hide (stop_session_handler t e)"
    by (rule apsnd_blind; simp add: launch_hide[OF assms] stop_hide)+
qed

lemma handle_blind:
  assumes "token_blind (av_server e)"
  shows "blind hide (handle call e)"
proof (rule blindI)
  fix st
  note bs = other_handlers_blind[OF assms] account_handlers_blind settings_handlers_blind cat_handlers_blind
  show "fst (handle call e (hide st)) = fst (handle call e st) \<and> hide (snd (handle call e (hide st))) = hide (snd (handle call e st))"
    by (cases call) (simp_all add: replies_hide[OF assms] bs[THEN blindD])
qed

section \<open>Runs\<close>

fun blind_event :: "('s, 'w) api_event \<Rightarrow> bool" where
  "blind_event (Request e _ _) \<longleftrightarrow> token_blind (av_server e)"
| "blind_event (Background _) \<longleftrightarrow> True"

lemma serve_blind:
  assumes "blind_event ev"
  shows "blind hide (serve ev)"
proof (rule blindI)
  fix st
  show "fst (serve ev (hide st)) = fst (serve ev st) \<and> hide (snd (serve ev (hide st))) = hide (snd (serve ev st))"
  proof (cases "(ev, st)" rule: serve.cases)
    case (1 e authorization call st')
    then have b: "blind hide (handle call e)" using assms by (simp add: handle_blind)
    show ?thesis
      using 1 blindD[OF b, of st] by (simp add: serve_api_def require_authentication_def split: sum.split)
  next
    case (2 e call st')
    then have b: "blind hide (handle call e)" using assms by (simp add: handle_blind)
    show ?thesis using 2 blindD[OF b, of st] by (simp add: serve_local_def)
  qed simp
qed

text \<open>
  C10: stored credentials do not leave the daemon. Two daemons whose states differ only in the RomM
  token, the Stremio session key and the TMDB key give the same answers to any run of requests on
  both listeners, as long as RomM answers any client token alike: no request, whatever it changes in
  between, reads a credential back or learns anything about it.
\<close>

theorem answers_do_not_depend_on_credentials:
  assumes "list_all blind_event evs" and "hide st = hide st'"
  shows "api_trace evs st = api_trace evs st'"
  using assms
proof (induction evs arbitrary: st st')
  case (Cons ev evs)
  then have b: "blind hide (serve ev)" by (simp add: serve_blind)
  have "fst (serve ev st) = fst (serve ev st')" "hide (snd (serve ev st)) = hide (snd (serve ev st'))"
    using blindD[OF b, of st] blindD[OF b, of st'] Cons.prems(2) by metis+
  with Cons.IH[of "snd (serve ev st)" "snd (serve ev st')"] Cons.prems(1) show ?case by simp
qed simp

definition demo_linked :: "string \<Rightarrow> (unit, path_component list \<rightharpoonup> string) app_state" where
  "demo_linked token = demo_app\<lparr>ap_settings := (ap_settings demo_app)\<lparr>romm_settings_table :=
     Some \<lparr>rs_base_url = ''http://127.0.0.1'', rs_token = token, rs_updated_at = ''t''\<rparr>\<rparr>\<rparr>"

theorem answers_do_not_depend_on_credentials_witness:
  "api_trace (demo_pairing @ [Request (demo_env ''x'') (ApiListener (Some ''Bearer hearthdeck_t1'')) CallGetRommSettings]) (demo_linked ''rmm_1'')
     = api_trace (demo_pairing @ [Request (demo_env ''x'') (ApiListener (Some ''Bearer hearthdeck_t1'')) CallGetRommSettings]) (demo_linked ''rmm_2'')"
proof (rule answers_do_not_depend_on_credentials)
  show "list_all blind_event (demo_pairing @ [Request (demo_env ''x'') (ApiListener (Some ''Bearer hearthdeck_t1'')) CallGetRommSettings])"
    by (simp add: demo_pairing_def demo_env_def token_blind_def silent_server_def)
  show "hide (demo_linked ''rmm_1'') = hide (demo_linked ''rmm_2'')"
    by (simp add: demo_linked_def hide_def hide_db_def)
qed

end
