(* ===== verification/Discovery_Heroic.thy ===== *)
theory Discovery_Heroic
  imports Daemon_Launch Bridge_Targets Categorizer_Settings
begin

text \<open>
  The discovery providers of installed programs: Heroic's games
  (\<^verbatim>\<open>hearthdeck-daemon/src/discovery/providers/heroic.rs\<close>) and desktop entries
  (\<^verbatim>\<open>discovery/providers/desktop_apps.rs\<close>). Files, the JSON parser, floating-point numbers, the
  environment and \<^verbatim>\<open>/proc/meminfo\<close> are the record \<open>heroic_env\<close>; a JSON object is the list of its
  members in the order the parser's map iterates them. Discovered games are followed through the
  catalog and the launch plan to the bridge's check.
\<close>

section \<open>The surroundings of a scan\<close>

datatype file_read = FileText string | FileMissing | FileError string

record 'f heroic_env =
  he_read :: "string \<Rightarrow> file_read"
  he_parse :: "string \<Rightarrow> string + json"
  he_parse_f64 :: "string \<Rightarrow> 'f option"
  he_scale :: "'f \<Rightarrow> nat \<Rightarrow> nat"
  he_var :: "string \<rightharpoonup> string"
  he_meminfo :: "string option"
  he_order :: "string list"
  he_now :: string

section \<open>Reading values\<close>

fun json_at :: "string list \<Rightarrow> json \<Rightarrow> json option" where
  "json_at [] v = Some v"
| "json_at (k # ks) v = (case json_get k v of None \<Rightarrow> None | Some v \<Rightarrow> json_at ks v)"

definition string_at :: "json \<Rightarrow> string list \<Rightarrow> string option" where
  "string_at v path =
     option_filter (\<lambda>s. s \<noteq> []) (map_option trim (Option.bind (json_at path v) json_str))"

definition array_at :: "json \<Rightarrow> string list \<Rightarrow> json list" where
  "array_at v path = unwrap_or [] (Option.bind (json_at path v) json_array)"

definition string_list_at :: "json \<Rightarrow> string list \<Rightarrow> string list" where
  "string_list_at v path = filter (\<lambda>s. s \<noteq> []) (map trim (json_strings (array_at v path)))"

definition read_json_if_exists :: "('f, 'x) heroic_env_scheme \<Rightarrow> string \<Rightarrow> string + json option" where
  "read_json_if_exists e path =
     (case he_read e path of
        FileText contents \<Rightarrow>
          (case he_parse e contents of
             Inl err \<Rightarrow> Inl (''could not parse Heroic configuration data: '' @ err)
           | Inr v \<Rightarrow> Inr (Some v))
      | FileMissing \<Rightarrow> Inr None
      | FileError err \<Rightarrow> Inl err)"

definition valid_application_id :: "string \<Rightarrow> bool" where
  "valid_application_id v \<longleftrightarrow>
     v \<noteq> [] \<and> length v \<le> 256 \<and> list_all (\<lambda>c. is_ascii_alphanumeric c \<or> c \<in> set ''._-'') v"

section \<open>Publisher requirements\<close>

record publisher_requirement =
  pq_title :: string
  pq_minimum :: "string option"
  pq_recommended :: "string option"

record memory_compat =
  mc_status :: string
  mc_system_memory_bytes :: nat
  mc_minimum_bytes :: "nat option"
  mc_recommended_bytes :: "nat option"

definition publisher_requirement_of :: "json \<Rightarrow> publisher_requirement option" where
  "publisher_requirement_of requirement =
     (case string_at requirement [''title''] of
        None \<Rightarrow> None
      | Some title \<Rightarrow>
          let minimum = string_at requirement [''minimum'']; recommended = string_at requirement [''recommended''] in
          if minimum \<noteq> None \<or> recommended \<noteq> None
          then Some \<lparr>pq_title = title, pq_minimum = minimum, pq_recommended = recommended\<rparr> else None)"

definition publisher_requirements :: "json \<Rightarrow> publisher_requirement list" where
  "publisher_requirements v = List.map_filter publisher_requirement_of (array_at v [''reqs''])"

text \<open>\<^verbatim>\<open>u8::is_ascii_whitespace\<close>: without the vertical tab.\<close>

definition is_ascii_whitespace :: "char \<Rightarrow> bool" where
  "is_ascii_whitespace c \<longleftrightarrow> c \<in> {CHR '' '', CHR 0x09, CHR 0x0A, CHR 0x0C, CHR 0x0D}"

definition numeric :: "char \<Rightarrow> bool" where
  "numeric c \<longleftrightarrow> is_ascii_digit c \<or> c = CHR ''.''"

lemma unit_rest_shorter: "length (dropWhile P (dropWhile Q s)) < Suc (length s)"
  using length_dropWhile_le[of P "dropWhile Q s"] length_dropWhile_le[of Q s] by linarith

text \<open>The scan for the first amount that carries a unit; the loop index is the rest of the text.\<close>

function memory_scan :: "('f, 'x) heroic_env_scheme \<Rightarrow> string \<Rightarrow> nat option" where
  "memory_scan e [] = None"
| "memory_scan e (c # s) =
     (if \<not> is_ascii_digit c then memory_scan e s
      else case he_parse_f64 e (takeWhile numeric (c # s)) of
        None \<Rightarrow> None
      | Some amount \<Rightarrow>
          (let rest = dropWhile is_ascii_whitespace (dropWhile numeric s) in
           if starts_with ''gib'' rest \<or> starts_with ''gb'' rest then Some (he_scale e amount (1024 ^ 3))
           else if starts_with ''mib'' rest \<or> starts_with ''mb'' rest then Some (he_scale e amount (1024 ^ 2))
           else memory_scan e rest))"
  by pat_completeness auto
termination by (relation "measure (\<lambda>(_, s). length s)") (simp_all add: unit_rest_shorter)

definition memory_bytes :: "('f, 'x) heroic_env_scheme \<Rightarrow> string \<Rightarrow> nat option" where
  "memory_bytes e v = memory_scan e (map ascii_lower v)"

definition memory_compatibility ::
  "('f, 'x) heroic_env_scheme \<Rightarrow> publisher_requirement list \<Rightarrow> nat option \<Rightarrow> memory_compat option" where
  "memory_compatibility e requirements system_memory =
     (case system_memory of
        None \<Rightarrow> None
      | Some memory_size \<Rightarrow>
     (case find (\<lambda>r. contains ''memory'' (map ascii_lower (pq_title r)) \<or> contains ''ram'' (map ascii_lower (pq_title r))) requirements of
        None \<Rightarrow> None
      | Some memory \<Rightarrow>
          let minimum = Option.bind (pq_minimum memory) (memory_bytes e);
              recommended = Option.bind (pq_recommended memory) (memory_bytes e);
              compat = (\<lambda>status. Some \<lparr>mc_status = status, mc_system_memory_bytes = memory_size,
                          mc_minimum_bytes = minimum, mc_recommended_bytes = recommended\<rparr>) in
          if (case recommended of Some r \<Rightarrow> r \<le> memory_size | None \<Rightarrow> False) then compat ''recommended''
          else case minimum of
            Some m \<Rightarrow> if m \<le> memory_size then compat ''minimum'' else compat ''below_minimum''
          | None \<Rightarrow> if recommended \<noteq> None then compat ''below_recommended'' else None))"

definition first_word :: "string \<Rightarrow> string option" where
  "first_word s =
     (let w = takeWhile (\<lambda>c. \<not> is_whitespace c) (dropWhile is_whitespace s) in if w = [] then None else Some w)"

definition system_memory_bytes :: "string option \<Rightarrow> nat option" where
  "system_memory_bytes meminfo =
     (case Option.bind (Option.bind (Option.bind meminfo
             (\<lambda>text. find_map (strip_prefix ''MemTotal:'') (str_lines text))) first_word) parse_u64 of
        None \<Rightarrow> None
      | Some total_kib \<Rightarrow> Some (total_kib * 1024 mod 2 ^ 64))"

section \<open>A record\<close>

definition json_count :: "nat option \<Rightarrow> json" where
  "json_count n = (case n of None \<Rightarrow> JNull | Some n \<Rightarrow> JNumber (show_nat n))"

definition requirement_json :: "publisher_requirement \<Rightarrow> json" where
  "requirement_json r = JObject
     [(''title'', JString (pq_title r)), (''minimum'', json_opt (pq_minimum r)), (''recommended'', json_opt (pq_recommended r))]"

definition compat_json :: "memory_compat option \<Rightarrow> json" where
  "compat_json c =
     (case c of
        None \<Rightarrow> JNull
      | Some c \<Rightarrow> JObject
          [(''status'', JString (mc_status c)), (''system_memory_bytes'', JNumber (show_nat (mc_system_memory_bytes c))),
           (''minimum_bytes'', json_count (mc_minimum_bytes c)), (''recommended_bytes'', json_count (mc_recommended_bytes c))])"

text \<open>What \<^verbatim>\<open>heroic_record\<close> is called with, besides the store, the runner and the application id.\<close>

record heroic_facts =
  hf_title :: string
  hf_description :: "string option"
  hf_developer :: "string option"
  hf_categories :: "string list"
  hf_artwork :: "string option"
  hf_version :: "string option"
  hf_platform :: "string option"
  hf_install_size :: "json option"
  hf_cloud_saves :: bool
  hf_requirements :: "publisher_requirement list"

definition heroic_record ::
  "('f, 'x) heroic_env_scheme \<Rightarrow> string \<Rightarrow> string \<Rightarrow> string \<Rightarrow> heroic_facts \<Rightarrow> catalog_record" where
  "heroic_record e store_id runner application_id f =
     (let store = (if store_id = ''epic'' then ''Epic Games'' else if store_id = ''gog'' then ''GOG'' else store_id) in
      \<lparr>cr_id = ''heroic:'' @ store_id @ '':'' @ application_id,
       cr_title = hf_title f, cr_kind = ''game'',
       cr_launch_id = Some (runner @ '':'' @ application_id),
       cr_icon = hf_artwork f,
       cr_metadata = JObject
         [(''description'', json_opt (hf_description f)), (''developer'', json_opt (hf_developer f)),
          (''categories'', JArray (map JString (hf_categories f))), (''store'', JString store), (''runner'', JString runner),
          (''version'', json_opt (hf_version f)), (''platform'', json_opt (hf_platform f)),
          (''install_size_bytes'', unwrap_or JNull (hf_install_size f)), (''cloud_saves'', JBool (hf_cloud_saves f)),
          (''requirements'', JArray (map requirement_json (hf_requirements f))),
          (''memory_compatibility'', compat_json (memory_compatibility e (hf_requirements f) (system_memory_bytes (he_meminfo e)))),
          (''provenance'', JString ''heroic'')],
       cr_updated_at = he_now e\<rparr>)"

definition is_dlc :: "json \<Rightarrow> bool" where
  "is_dlc install \<longleftrightarrow> Option.bind (json_get ''is_dlc'' install) json_bool = Some True"

section \<open>Epic games\<close>

definition epic_game_info :: "('f, 'x) heroic_env_scheme \<Rightarrow> string \<Rightarrow> string + (string \<times> json) list" where
  "epic_game_info e path =
     (case read_json_if_exists e path of
        Inl err \<Rightarrow> Inl err
      | Inr None \<Rightarrow> Inr []
      | Inr (Some cache) \<Rightarrow> Inr (unwrap_or [] (json_object cache)))"

definition or_game :: "string list \<Rightarrow> string list" where
  "or_game categories = (if categories = [] then [''Game''] else categories)"

definition epic_categories :: "json \<Rightarrow> string list" where
  "epic_categories metadata = or_game (List.map_filter (\<lambda>c. string_at c [''path'']) (array_at metadata [''categories'']))"

definition artwork_of_kind :: "json list \<Rightarrow> string \<Rightarrow> string option" where
  "artwork_of_kind images kind =
     Option.bind (find (\<lambda>image. Option.bind (json_get ''type'' image) json_str = Some kind) images)
       (\<lambda>image. string_at image [''url''])"

definition epic_artwork :: "json \<Rightarrow> string option" where
  "epic_artwork metadata =
     Option.bind (Option.bind (json_get ''keyImages'' metadata) json_array) (\<lambda>images.
       find_map (artwork_of_kind images) [''DieselGameBoxTall'', ''OfferImageTall'', ''DieselGameBox'', ''OfferImageWide''])"

definition epic_facts :: "(string \<times> json) list \<Rightarrow> string \<Rightarrow> json \<Rightarrow> json \<Rightarrow> heroic_facts" where
  "epic_facts game_info application_id install metadata =
     (let catalog_metadata = unwrap_or metadata (json_get ''metadata'' metadata) in
      \<lparr>hf_title = unwrap_or application_id (or_option (string_at catalog_metadata [''title''])
         (or_option (string_at metadata [''app_title'']) (string_at install [''title'']))),
       hf_description = or_option (string_at catalog_metadata [''description'']) (string_at catalog_metadata [''shortDescription'']),
       hf_developer = string_at catalog_metadata [''developer''],
       hf_categories = epic_categories catalog_metadata,
       hf_artwork = epic_artwork catalog_metadata,
       hf_version = string_at install [''version''], hf_platform = string_at install [''platform''],
       hf_install_size = Option.bind (json_get ''install_size'' install) json_u64,
       hf_cloud_saves = (Option.bind (json_at [''customAttributes'', ''CloudSaveFolder'', ''value''] catalog_metadata) json_str \<noteq> None),
       hf_requirements = (case Option.bind (Option.bind (json_get ''namespace'' catalog_metadata) json_str) (map_of game_info) of
          None \<Rightarrow> [] | Some info \<Rightarrow> publisher_requirements info)\<rparr>)"

fun epic_records ::
  "('f, 'x) heroic_env_scheme \<Rightarrow> string \<Rightarrow> (string \<times> json) list \<Rightarrow> (string \<times> json) list \<Rightarrow> string + catalog_record list" where
  "epic_records e legendary_directory game_info [] = Inr []"
| "epic_records e legendary_directory game_info ((key, install) # rest) =
     (let application_id = unwrap_or key (string_at install [''app_name'']) in
      if is_dlc install \<or> \<not> valid_application_id application_id
      then epic_records e legendary_directory game_info rest
      else case read_json_if_exists e (path_join (path_join legendary_directory ''metadata'') (application_id @ ''.json'')) of
        Inl err \<Rightarrow> Inl err
      | Inr metadata \<Rightarrow>
          map_sum id (Cons (heroic_record e ''epic'' ''legendary'' application_id
              (epic_facts game_info application_id install (unwrap_or JNull metadata))))
            (epic_records e legendary_directory game_info rest))"

definition discover_epic :: "('f, 'x) heroic_env_scheme \<Rightarrow> string \<Rightarrow> string + catalog_record list" where
  "discover_epic e directory =
     (let legendary_directory = path_join directory ''legendaryConfig/legendary'' in
      case read_json_if_exists e (path_join legendary_directory ''installed.json'') of
        Inl err \<Rightarrow> Inl err
      | Inr None \<Rightarrow> Inr []
      | Inr (Some installed) \<Rightarrow>
     (case json_object installed of
        None \<Rightarrow> Inl ''Heroic Epic installed.json must contain an object''
      | Some installed \<Rightarrow>
     (case epic_game_info e (path_join directory ''store_cache/legendary_gameinfo.json'') of
        Inl err \<Rightarrow> Inl err
      | Inr game_info \<Rightarrow> epic_records e legendary_directory game_info installed)))"

section \<open>GOG games\<close>

text \<open>Later entries of the cached library replace earlier ones of the same id.\<close>

definition gog_library :: "('f, 'x) heroic_env_scheme \<Rightarrow> string \<Rightarrow> string + (string \<rightharpoonup> json)" where
  "gog_library e path =
     (case read_json_if_exists e path of
        Inl err \<Rightarrow> Inl err
      | Inr None \<Rightarrow> Inr Map.empty
      | Inr (Some cache) \<Rightarrow>
          Inr (map_of (rev (List.map_filter (\<lambda>game. map_option (\<lambda>i. (i, game)) (string_at game [''app_name'']))
            (array_at cache [''games''])))))"

definition gog_facts :: "json option \<Rightarrow> string \<Rightarrow> json \<Rightarrow> json \<Rightarrow> heroic_facts" where
  "gog_facts cached application_id install info =
     (let cached_at = (\<lambda>path. Option.bind cached (\<lambda>game. string_at game path)) in
      \<lparr>hf_title = unwrap_or application_id (or_option (cached_at [''title'']) (string_at info [''name''])),
       hf_description = or_option (cached_at [''extra'', ''about'', ''description'']) (cached_at [''extra'', ''about'', ''shortDescription'']),
       hf_developer = cached_at [''developer''],
       hf_categories = or_game (case cached of None \<Rightarrow> [] | Some game \<Rightarrow> string_list_at game [''extra'', ''genres'']),
       hf_artwork = or_option (cached_at [''art_square'']) (or_option (cached_at [''art_cover'']) (cached_at [''art_icon''])),
       hf_version = string_at install [''version''], hf_platform = string_at install [''platform''],
       hf_install_size = Option.bind (json_get ''install_size'' install) json_u64,
       hf_cloud_saves = unwrap_or False (Option.bind (Option.bind cached (json_get ''cloud_save_enabled'')) json_bool),
       hf_requirements = []\<rparr>)"

fun gog_records ::
  "('f, 'x) heroic_env_scheme \<Rightarrow> (string \<rightharpoonup> json) \<Rightarrow> json list \<Rightarrow> string + catalog_record list" where
  "gog_records e library [] = Inr []"
| "gog_records e library (install # rest) =
     (if is_dlc install then gog_records e library rest
      else case string_at install [''appName''] of
        None \<Rightarrow> gog_records e library rest
      | Some application_id \<Rightarrow>
          if \<not> valid_application_id application_id then gog_records e library rest
          else case (case string_at install [''install_path''] of
                       Some path \<Rightarrow> read_json_if_exists e (path_join path (''goggame-'' @ application_id @ ''.info''))
                     | None \<Rightarrow> Inr None) of
            Inl err \<Rightarrow> Inl err
          | Inr info \<Rightarrow>
              map_sum id (Cons (heroic_record e ''gog'' ''gog'' application_id
                  (gog_facts (library application_id) application_id install (unwrap_or JNull info))))
                (gog_records e library rest))"

definition discover_gog :: "('f, 'x) heroic_env_scheme \<Rightarrow> string \<Rightarrow> string + catalog_record list" where
  "discover_gog e directory =
     (case read_json_if_exists e (path_join directory ''gog_store/installed.json'') of
        Inl err \<Rightarrow> Inl err
      | Inr None \<Rightarrow> Inr []
      | Inr (Some installed) \<Rightarrow>
     (case Option.bind (json_get ''installed'' installed) json_array of
        None \<Rightarrow> Inl ''Heroic GOG installed.json must contain an installed array''
      | Some installed \<Rightarrow>
     (case gog_library e (path_join directory ''store_cache/gog_library.json'') of
        Inl err \<Rightarrow> Inl err
      | Inr library \<Rightarrow> gog_records e library installed)))"

section \<open>The Heroic provider\<close>

definition discover_directory :: "('f, 'x) heroic_env_scheme \<Rightarrow> string \<Rightarrow> string + catalog_record list" where
  "discover_directory e directory =
     (case discover_epic e directory of
        Inl err \<Rightarrow> Inl err
      | Inr records \<Rightarrow> map_sum id (\<lambda>more. records @ more) (discover_gog e directory))"

text \<open>A directory is the same as one seen before when its components are.\<close>

fun new_directories :: "path_component list set \<Rightarrow> string list \<Rightarrow> string list" where
  "new_directories seen [] = []"
| "new_directories seen (d # ds) =
     (if path_components d \<in> seen then new_directories seen ds
      else d # new_directories (insert (path_components d) seen) ds)"

definition heroic_config_directories :: "(string \<rightharpoonup> string) \<Rightarrow> string list" where
  "heroic_config_directories var =
     (let home = var ''HOME'';
          config_home = or_option (nonempty (var ''XDG_CONFIG_HOME'')) (map_option (\<lambda>p. path_join p ''.config'') home) in
      new_directories {} (List.map_filter id
        [map_option (\<lambda>p. path_join p ''heroic'') config_home,
         map_option (\<lambda>p. path_join p ''.var/app/com.heroicgameslauncher.hgl/config/heroic'') home,
         map_option (\<lambda>p. path_join p ''snap/heroic/common/.config/heroic'') home]))"

definition entry_or_insert :: "catalog_record \<Rightarrow> (string \<rightharpoonup> catalog_record) \<Rightarrow> (string \<rightharpoonup> catalog_record)" where
  "entry_or_insert r m = (if m (cr_id r) = None then m(cr_id r \<mapsto> r) else m)"

fun scan_directories ::
  "('f, 'x) heroic_env_scheme \<Rightarrow> string list \<Rightarrow> (string \<rightharpoonup> catalog_record) \<Rightarrow> string + (string \<rightharpoonup> catalog_record)" where
  "scan_directories e [] m = Inr m"
| "scan_directories e (d # ds) m =
     (case discover_directory e d of
        Inl err \<Rightarrow> Inl err
      | Inr records \<Rightarrow> scan_directories e ds (fold entry_or_insert records m))"

definition HeroicInstalledProvider_discover :: "('f, 'x) heroic_env_scheme \<Rightarrow> string + catalog_record list" where
  "HeroicInstalledProvider_discover e =
     map_sum id (\<lambda>m. sort_key cr_title (map (the \<circ> m) (visited (he_order e) m)))
       (scan_directories e (heroic_config_directories (he_var e)) Map.empty)"

section \<open>The desktop entry provider\<close>

fun application_source_str :: "application_source \<Rightarrow> string" where
  "application_source_str System = ''system''"
| "application_source_str Local = ''local''"
| "application_source_str Flatpak = ''flatpak''"
| "application_source_str Snap = ''snap''"
| "application_source_str Nix = ''nix''"

definition desktop_record :: "string \<Rightarrow> discovered_application \<Rightarrow> catalog_record" where
  "desktop_record updated_at app =
     \<lparr>cr_id = ''desktop:'' @ da_application_id app, cr_title = da_name app, cr_kind = ''application'',
      cr_launch_id = Some (da_application_id app), cr_icon = da_icon app,
      cr_metadata = JObject [(''categories'', JArray (map JString (da_categories app))),
        (''comment'', json_opt (da_comment app)), (''source'', JString (application_source_str (da_source app)))],
      cr_updated_at = updated_at\<rparr>"

definition DesktopAppsProvider_discover ::
  "(bridge_request \<Rightarrow> string + bridge_response) \<Rightarrow> string \<Rightarrow> string + catalog_record list" where
  "DesktopAppsProvider_discover ask now =
     (case ask (DiscoverApplications DESKTOP_APPS) of
        Inl err \<Rightarrow> Inl err
      | Inr (Applications _ apps) \<Rightarrow>
          Inr (map (desktop_record now) (filter (\<lambda>a. da_launch_scheme a \<noteq> Some ''heroic'') apps))
      | Inr _ \<Rightarrow> Inl ''bridge returned an unexpected response'')"

section \<open>What is discovered can be launched\<close>

text \<open>The daemon and the bridge apply one rule to an application id.\<close>

lemma valid_application_id_rule: "valid_application_id v = valid_heroic_application_id v"
  by (simp add: valid_application_id_def valid_heroic_application_id_def)

text \<open>A record of one of the two stores, of an application whose id is valid.\<close>

definition heroic_game :: "string \<Rightarrow> heroic_runner \<Rightarrow> string \<Rightarrow> catalog_record \<Rightarrow> bool" where
  "heroic_game store runner application_id r \<longleftrightarrow>
     (store, runner) \<in> {(''epic'', Legendary), (''gog'', Gog)} \<and> valid_heroic_application_id application_id
     \<and> cr_id r = ''heroic:'' @ store @ '':'' @ application_id
     \<and> cr_launch_id r = Some (runner_str runner @ '':'' @ application_id) \<and> cr_kind r = ''game''"

lemma heroic_game_epic: "valid_application_id i \<Longrightarrow> heroic_game ''epic'' Legendary i (heroic_record e ''epic'' ''legendary'' i f)"
  by (simp add: heroic_game_def heroic_record_def valid_application_id_rule)

lemma heroic_game_gog: "valid_application_id i \<Longrightarrow> heroic_game ''gog'' Gog i (heroic_record e ''gog'' ''gog'' i f)"
  by (simp add: heroic_game_def heroic_record_def valid_application_id_rule)

text \<open>The installed games of a list: what is no add-on and has a valid id.\<close>

definition epic_installed :: "(string \<times> json) list \<Rightarrow> string list" where
  "epic_installed installed =
     filter valid_application_id (map (\<lambda>(key, install). unwrap_or key (string_at install [''app_name'']))
       (filter (\<lambda>(_, install). \<not> is_dlc install) installed))"

definition gog_installed :: "json list \<Rightarrow> string list" where
  "gog_installed installed =
     filter valid_application_id (List.map_filter (\<lambda>install. string_at install [''appName''])
       (filter (\<lambda>install. \<not> is_dlc install) installed))"

lemma epic_records_installed:
  "epic_records e d info installed = Inr rs \<Longrightarrow> list_all2 (heroic_game ''epic'' Legendary) (epic_installed installed) rs"
proof (induction installed arbitrary: rs)
  case (Cons entry installed)
  obtain key install where entry: "entry = (key, install)" by (cases entry)
  let ?i = "unwrap_or key (string_at install [''app_name''])"
  show ?case
  proof (cases "is_dlc install \<or> \<not> valid_application_id ?i")
    case True
    then have "epic_records e d info installed = Inr rs" "epic_installed (entry # installed) = epic_installed installed"
      using Cons.prems by (auto simp: entry epic_installed_def Let_def)
    then show ?thesis using Cons.IH by simp
  next
    case False
    obtain f rs' where rs: "rs = heroic_record e ''epic'' ''legendary'' ?i f # rs'" and rest: "epic_records e d info installed = Inr rs'"
      using Cons.prems False by (cases "epic_records e d info installed") (fastforce simp: entry Let_def split: sum.splits)+
    have "epic_installed (entry # installed) = ?i # epic_installed installed" using False by (simp add: entry epic_installed_def)
    then show ?thesis using Cons.IH[OF rest] False by (simp add: rs heroic_game_epic)
  qed
qed (simp add: epic_installed_def)

lemma gog_records_installed:
  "gog_records e library installed = Inr rs \<Longrightarrow> list_all2 (heroic_game ''gog'' Gog) (gog_installed installed) rs"
proof (induction installed arbitrary: rs)
  case (Cons install installed)
  show ?case
  proof (cases "string_at install [''appName'']")
    case None
    then have "gog_records e library installed = Inr rs" "gog_installed (install # installed) = gog_installed installed"
      using Cons.prems by (auto simp: gog_installed_def map_filter_simps split: if_splits)
    then show ?thesis using Cons.IH by simp
  next
    case (Some i)
    show ?thesis
    proof (cases "is_dlc install \<or> \<not> valid_application_id i")
      case True
      then have "gog_records e library installed = Inr rs" "gog_installed (install # installed) = gog_installed installed"
        using Cons.prems Some by (auto simp: gog_installed_def map_filter_simps split: if_splits)
      then show ?thesis using Cons.IH by simp
    next
      case False
      obtain f rs' where rs: "rs = heroic_record e ''gog'' ''gog'' i f # rs'" and rest: "gog_records e library installed = Inr rs'"
        using Cons.prems False Some by (cases "gog_records e library installed") (fastforce split: sum.splits)+
      have "gog_installed (install # installed) = i # gog_installed installed"
        using False Some by (simp add: gog_installed_def map_filter_simps)
      then show ?thesis using Cons.IH[OF rest] False by (simp add: rs heroic_game_gog)
    qed
  qed
qed (simp add: gog_installed_def map_filter_simps)

definition some_heroic_game :: "catalog_record \<Rightarrow> bool" where
  "some_heroic_game r \<longleftrightarrow> (\<exists>store runner i. heroic_game store runner i r)"

lemma list_all2_some: "list_all2 (heroic_game store runner) is rs \<Longrightarrow> r \<in> set rs \<Longrightarrow> some_heroic_game r"
  by (force simp: some_heroic_game_def list_all2_conv_all_nth in_set_conv_nth)

lemma discover_directory_games: "discover_directory e d = Inr rs \<Longrightarrow> r \<in> set rs \<Longrightarrow> some_heroic_game r"
proof -
  assume d: "discover_directory e d = Inr rs" and r: "r \<in> set rs"
  then obtain es gs where es: "discover_epic e d = Inr es" and gs: "discover_gog e d = Inr gs" and rs: "rs = es @ gs"
    by (cases "discover_epic e d"; cases "discover_gog e d") (auto simp: discover_directory_def)
  have "es = [] \<or> (\<exists>dir info installed. epic_records e dir info installed = Inr es)"
    using es by (auto simp: discover_epic_def Let_def split: sum.splits option.splits)
  moreover have "gs = [] \<or> (\<exists>library installed. gog_records e library installed = Inr gs)"
    using gs by (auto simp: discover_gog_def split: sum.splits option.splits)
  moreover have "some_heroic_game r" if "epic_records e dir info installed = Inr es" "r \<in> set es" for dir info installed
    using epic_records_installed[OF that(1)] that(2) by (rule list_all2_some)
  moreover have "some_heroic_game r" if "gog_records e library installed = Inr gs" "r \<in> set gs" for library installed
    using gog_records_installed[OF that(1)] that(2) by (rule list_all2_some)
  ultimately show ?thesis using r unfolding rs by auto
qed

definition games_by_id :: "(string \<rightharpoonup> catalog_record) \<Rightarrow> bool" where
  "games_by_id m \<longleftrightarrow> (\<forall>i r. m i = Some r \<longrightarrow> cr_id r = i \<and> some_heroic_game r)"

lemma entry_or_insert_games: "games_by_id m \<Longrightarrow> some_heroic_game r \<Longrightarrow> games_by_id (entry_or_insert r m)"
  by (simp add: games_by_id_def entry_or_insert_def)

lemma scan_directories_keep:
  "scan_directories e ds m = Inr m' \<Longrightarrow> games_by_id m \<Longrightarrow> games_by_id m'"
proof (induction ds arbitrary: m)
  case (Cons d ds)
  obtain rs where rs: "discover_directory e d = Inr rs" and scan: "scan_directories e ds (fold entry_or_insert rs m) = Inr m'"
    using Cons.prems(1) by (auto split: sum.splits)
  have "games_by_id (fold entry_or_insert rs m)"
    by (rule fold_invariant[where P = games_by_id and Q = some_heroic_game])
      (use discover_directory_games[OF rs] Cons.prems(2) entry_or_insert_games in auto)
  then show ?case by (rule Cons.IH[OF scan])
qed simp

lemma heroic_records_are_games:
  assumes "HeroicInstalledProvider_discover e = Inr records" and "r \<in> set records"
  shows "some_heroic_game r"
proof -
  obtain m where m: "scan_directories e (heroic_config_directories (he_var e)) Map.empty = Inr m"
    and records: "records = sort_key cr_title (map (the \<circ> m) (visited (he_order e) m))"
    using assms(1) by (cases "scan_directories e (heroic_config_directories (he_var e)) Map.empty")
      (auto simp: HeroicInstalledProvider_discover_def)
  then obtain i where "m i = Some r" using assms(2) visited_subset by fastforce
  then show ?thesis using scan_directories_keep[OF m] by (auto simp: games_by_id_def)
qed

text \<open>The rows a refresh publishes under its source are its records.\<close>

lemma published_rows:
  assumes "keyed li_id (library_items db)" and "CatalogStore_replace_source None s records db = (Inr u, db')"
    and "row \<in> set (library_items db')" and "li_source_id row = s"
  shows "\<exists>r\<in>set records. row = library_row_of s r"
proof -
  have db': "db' = snd (CatalogStore_replace_source None s records db)" using assms(2) by simp
  have "items_by_id db' (li_id row) = Some row"
    using keyed_replace_source[OF assms(1)] assms(3) unfolding db' items_by_id_def by (simp add: lookup_keyed)
  then show ?thesis
    unfolding db' items_by_id_replace_source[OF assms(1)] using assms(4)
    by (auto simp: map_add_Some_iff option_filter_def split: option.splits if_splits dest!: map_of_SomeD)
qed

lemma split_once_clean: "d \<notin> set p \<Longrightarrow> split_once d (p @ d # s) = Some (p, s)"
  by (induction p) auto

lemma heroic_target_of_record: "i \<noteq> [] \<Longrightarrow> heroic_launch_target (runner_str runner @ '':'' @ i) = Some (runner, i)"
  using split_once_clean[of "CHR '':''" "runner_str runner" i]
  by (cases runner) (simp_all add: heroic_launch_target_def)

text \<open>
  C16: every game that Heroic has installed and discovery publishes can be launched. After a refresh of
  the Heroic source, each of its rows in the catalog is planned as a Heroic launch of the runner and
  application the row's id names, and the id of the application passes the bridge's check, so the
  bridge never refuses a discovered game for its name.
\<close>

theorem discovered_heroic_games_launch:
  assumes "keyed li_id (library_items db)"
    and "discover_source HEROIC (HeroicInstalledProvider_discover e) None describe (db, events) = (Inr n, db', events')"
    and "row \<in> set (library_items db')" and "li_source_id row = HEROIC"
  shows "\<exists>store runner application_id.
    launch_catalog (catalog_item_from_row db' row) i prof
      = Some \<lparr>lp_request = LaunchHeroicGame runner application_id i prof,
              lp_activity = catalog_activity_entry (catalog_item_from_row db' row)\<rparr>
    \<and> valid_heroic_application_id application_id
    \<and> li_id row = ''heroic:'' @ store @ '':'' @ application_id
    \<and> (store, runner) \<in> {(''epic'', Legendary), (''gog'', Gog)}"
proof -
  obtain records u where records: "HeroicInstalledProvider_discover e = Inr records"
    and replaced: "CatalogStore_replace_source None HEROIC records db = (Inr u, db')"
    using assms(2) by (auto simp: discover_source_def split: sum.splits prod.splits)
  obtain r where r: "r \<in> set records" "row = library_row_of HEROIC r"
    using published_rows[OF assms(1) replaced assms(3,4)] by blast
  obtain store runner application_id where game: "heroic_game store runner application_id r"
    using heroic_records_are_games[OF records r(1)] by (auto simp: some_heroic_game_def)
  then have "application_id \<noteq> []" by (auto simp: heroic_game_def valid_heroic_application_id_def)
  then show ?thesis
    using game heroic_target_of_record[of application_id runner] r(2)
    by (intro exI[of _ store] exI[of _ runner] exI[of _ application_id])
      (simp add: launch_catalog_def catalog_item_from_row_def library_row_of_def heroic_game_def Let_def
        HEROIC_def STREMIO_def STREMIO_ARRIVALS_def)
qed

text \<open>One game installed through Heroic's Epic store, and nothing cached about it.\<close>

definition demo_heroic :: "nat heroic_env" where
  "demo_heroic = \<lparr>he_read = (\<lambda>p. if p = ''/h/.config/heroic/legendaryConfig/legendary/installed.json'' then FileText ''i'' else FileMissing),
     he_parse = (\<lambda>_. Inr (JObject [(''Quail'', JObject [])])), he_parse_f64 = (\<lambda>_. None), he_scale = (*),
     he_var = (\<lambda>v. if v = ''HOME'' then Some ''/h'' else None), he_meminfo = None, he_order = [''heroic:epic:Quail''], he_now = ''t''\<rparr>"

definition demo_heroic_game :: catalog_record where
  "demo_heroic_game = heroic_record demo_heroic ''epic'' ''legendary'' ''Quail'' (epic_facts [] ''Quail'' (JObject []) JNull)"

lemma demo_heroic_discovered: "HeroicInstalledProvider_discover demo_heroic = Inr [demo_heroic_game]"
  by code_simp

theorem discovered_heroic_games_launch_witness:
  "let db' = \<lparr>library_items = [library_row_of HEROIC demo_heroic_game], catalog_enrichments = [], item_traits = []\<rparr>;
       row = library_row_of HEROIC demo_heroic_game in
    \<exists>store runner application_id.
      launch_catalog (catalog_item_from_row db' row) ''s'' input_profile.Native
        = Some \<lparr>lp_request = LaunchHeroicGame runner application_id ''s'' input_profile.Native,
                lp_activity = catalog_activity_entry (catalog_item_from_row db' row)\<rparr>
      \<and> valid_heroic_application_id application_id
      \<and> li_id row = ''heroic:'' @ store @ '':'' @ application_id
      \<and> (store, runner) \<in> {(''epic'', Legendary), (''gog'', Gog)}"
proof -
  let ?db = "\<lparr>library_items = [], catalog_enrichments = [], item_traits = []\<rparr>"
  let ?db' = "\<lparr>library_items = [library_row_of HEROIC demo_heroic_game], catalog_enrichments = [], item_traits = []\<rparr>"
  have run: "discover_source HEROIC (HeroicInstalledProvider_discover demo_heroic) None (\<lambda>_. []) (?db, [])
      = (Inr 1, ?db', [LibraryChanged HEROIC 1])"
    by (simp add: demo_heroic_discovered discover_source_def CatalogStore_replace_source_def upsert_row_def)
  have "keyed li_id (library_items ?db)" by simp
  from discovered_heroic_games_launch[OF this run, of "library_row_of HEROIC demo_heroic_game" "''s''" input_profile.Native]
  show ?thesis by (simp add: library_row_of_def Let_def)
qed

end
