(* ===== verification/Discovery_Stremio.thy ===== *)
theory Discovery_Stremio
  imports Discovery_Heroic Daemon_Links "HOL-Library.Option_ord"
begin

text \<open>
  The provider of unfinished Stremio titles, \<^verbatim>\<open>hearthdeck-daemon/src/discovery/providers/stremio.rs\<close>:
  the two calls to the account datastore, the mapping of the library to records, the desktop entry
  a record opens, and the snapshot the provider keeps between refreshes. The network, JSON coding,
  the reading of a timestamp and the text of a floating-point quotient are the record
  \<open>stremio_feed\<close>; the answers of one refresh are one such record.
\<close>

definition API_URL :: string where "API_URL = ''https://api.strem.io/api''"
definition CONTINUE_WATCHING_LIMIT :: nat where "CONTINUE_WATCHING_LIMIT = 10"
definition STREMIO_SCHEME :: string where "STREMIO_SCHEME = ''stremio''"

record stremio_feed =
  sf_post :: "string \<Rightarrow> json \<Rightarrow> http_reply"
  sf_parse :: "string \<Rightarrow> json option"
  sf_text :: "json \<Rightarrow> string"
  sf_instant :: "string \<Rightarrow> int option"
  sf_quotient :: "nat \<Rightarrow> nat \<Rightarrow> string"
  sf_ask :: "bridge_request \<Rightarrow> string + bridge_response"

record cached_library =
  cl_digest :: string
  cl_records :: "catalog_record list"

section \<open>The account datastore\<close>

definition datastore :: "stremio_feed \<Rightarrow> string \<Rightarrow> string \<Rightarrow> json \<Rightarrow> string + json" where
  "datastore e path auth_key body =
     (let payload = json_set ''authKey'' (JString auth_key) body;
          url = API_URL @ ''/'' @ path in
      case sf_post e url payload of
        Unreachable \<Rightarrow> Inl (''could not reach '' @ url)
      | Unreadable \<Rightarrow> Inl (''could not read the answer from '' @ url)
      | Reply status answer \<Rightarrow>
     (case sf_parse e answer of
        None \<Rightarrow> Inl (url @ '' answered with HTTP '' @ status @ '' and a body that is not JSON'')
      | Some parsed \<Rightarrow>
     (case envelope_error parsed of
        Some message \<Rightarrow> Inl (''the Stremio account API refused '' @ path @ '': '' @ message)
      | None \<Rightarrow> Inr parsed)))"

definition datastore_meta :: "stremio_feed \<Rightarrow> string \<Rightarrow> string + json" where
  "datastore_meta e auth_key = datastore e ''datastoreMeta'' auth_key (JObject [(''collection'', JString ''libraryItem'')])"

definition datastore_get :: "stremio_feed \<Rightarrow> string \<Rightarrow> string + json" where
  "datastore_get e auth_key = datastore e ''datastoreGet'' auth_key
     (JObject [(''collection'', JString ''libraryItem''), (''ids'', JArray []), (''all'', JBool True)])"

definition digest_of :: "stremio_feed \<Rightarrow> json \<Rightarrow> string" where
  "digest_of e meta = (case json_get ''result'' meta of None \<Rightarrow> [] | Some v \<Rightarrow> sf_text e v)"

section \<open>From an item to a record\<close>

definition json_nat :: "json \<Rightarrow> nat option" where
  "json_nat v = (case json_u64 v of Some (JNumber s) \<Rightarrow> Some (nat_of_digits s) | _ \<Rightarrow> None)"

definition item_state :: "json \<Rightarrow> json" where
  "item_state item = unwrap_or JNull (json_get ''state'' item)"

definition flag :: "json \<Rightarrow> string \<Rightarrow> bool" where
  "flag item key = unwrap_or False (Option.bind (json_get key item) json_bool)"

definition time_offset :: "json \<Rightarrow> nat" where
  "time_offset item = unwrap_or 0 (Option.bind (json_get ''timeOffset'' (item_state item)) json_nat)"

definition title_duration :: "json \<Rightarrow> nat" where
  "title_duration item = unwrap_or 0 (Option.bind (json_get ''duration'' (item_state item)) json_nat)"

definition progress :: "stremio_feed \<Rightarrow> nat \<Rightarrow> nat \<Rightarrow> json" where
  "progress e offset duration = JNumber (if duration = 0 then ''0.0'' else sf_quotient e offset duration)"

definition minutes_left :: "nat \<Rightarrow> nat \<Rightarrow> nat" where
  "minutes_left offset duration = (duration - offset) div 60000"

definition mtime :: "stremio_feed \<Rightarrow> json \<Rightarrow> int option" where
  "mtime e item = Option.bind (Option.bind (json_get ''_mtime'' item) json_str) (sf_instant e)"

definition item_type :: "json \<Rightarrow> string" where
  "item_type item = unwrap_or ''other'' (Option.bind (json_get ''type'' item) json_str)"

definition in_continue_watching :: "json \<Rightarrow> bool" where
  "in_continue_watching item \<longleftrightarrow>
     Option.bind (json_get ''type'' item) json_str \<noteq> Some ''other''
     \<and> \<not> (flag item ''removed'' \<and> \<not> flag item ''temp'') \<and> 0 < time_offset item"

definition season_episode :: "json \<Rightarrow> string \<Rightarrow> (nat \<times> nat) option" where
  "season_episode item i =
     Option.bind (Option.bind (json_get ''video_id'' (item_state item)) json_str) (\<lambda>video_id.
     Option.bind (strip_prefix i video_id) (\<lambda>rest.
       case split (CHR '':'') (dropWhile (\<lambda>c. c = CHR '':'') rest) of
         s # ep # _ \<Rightarrow> Option.bind (parse_u64 s) (\<lambda>season. map_option (\<lambda>episode. (season, episode)) (parse_u64 ep))
       | _ \<Rightarrow> None))"

text \<open>\<^verbatim>\<open>str::replace\<close>.\<close>

function str_replace :: "string \<Rightarrow> string \<Rightarrow> string \<Rightarrow> string" where
  "str_replace p q [] = []"
| "str_replace p q (c # s) =
     (if p \<noteq> [] \<and> take (length p) (c # s) = p then q @ str_replace p q (drop (length p) (c # s))
      else c # str_replace p q s)"
  by pat_completeness auto
termination by (relation "measure (\<lambda>(_, _, s). length s)") auto

definition poster :: "json \<Rightarrow> string option" where
  "poster item = map_option (str_replace ''/poster/small/'' ''/poster/medium/'') (string_at item [''poster''])"

definition or_null :: "json option \<Rightarrow> json" where
  "or_null v = unwrap_or JNull v"

definition title_metadata :: "stremio_feed \<Rightarrow> json \<Rightarrow> string \<Rightarrow> json" where
  "title_metadata e item i =
     (let offset = time_offset item; duration = title_duration item;
          metadata = JObject
            [(''source'', JString STREMIO), (''type'', JString (item_type item)),
             (''progress'', progress e offset duration),
             (''time_offset_ms'', JNumber (show_nat offset)), (''duration_ms'', JNumber (show_nat duration)),
             (''minutes_left'', JNumber (show_nat (minutes_left offset duration))),
             (''video_id'', or_null (json_get ''video_id'' (item_state item))),
             (''last_watched'', or_null (json_get ''lastWatched'' (item_state item))),
             (''times_watched'', or_null (json_get ''timesWatched'' (item_state item))),
             (''year'', or_null (json_get ''year'' item))] in
      case season_episode item i of
        None \<Rightarrow> metadata
      | Some (season, episode) \<Rightarrow>
          json_set ''episode'' (JNumber (show_nat episode)) (json_set ''season'' (JNumber (show_nat season)) metadata))"

definition title_record :: "stremio_feed \<Rightarrow> json \<Rightarrow> catalog_record option" where
  "title_record e item =
     (case string_at item [''_id''] of
        None \<Rightarrow> None
      | Some i \<Rightarrow> Some
          \<lparr>cr_id = STREMIO @ '':'' @ i, cr_title = unwrap_or i (string_at item [''name'']), cr_kind = item_type item,
           cr_launch_id = None, cr_icon = poster item, cr_metadata = title_metadata e item i,
           cr_updated_at = unwrap_or [] (Option.bind (json_get ''_mtime'' item) json_str)\<rparr>)"

text \<open>Stable, newest first; an item whose time cannot be read comes last.\<close>

definition newest_items :: "stremio_feed \<Rightarrow> json list \<Rightarrow> json list" where
  "newest_items e items = rev (sort_key (mtime e) (rev items))"

definition continue_watching :: "stremio_feed \<Rightarrow> json \<Rightarrow> string + catalog_record list" where
  "continue_watching e library =
     (case Option.bind (json_get ''result'' library) json_array of
        None \<Rightarrow> Inl ''the Stremio datastore answered without a result list''
      | Some items \<Rightarrow>
          Inr (List.map_filter (title_record e)
            (take CONTINUE_WATCHING_LIMIT (newest_items e (filter in_continue_watching items)))))"

section \<open>The desktop entry a title opens\<close>

definition pick_stremio :: "discovered_application list \<Rightarrow> string option" where
  "pick_stremio apps =
     map_option da_application_id (or_option
       (find (\<lambda>a. da_launch_scheme a = Some STREMIO_SCHEME) apps)
       (find (\<lambda>a. contains STREMIO_SCHEME (map ascii_lower (da_application_id a))
              \<or> contains STREMIO_SCHEME (map ascii_lower (da_name a))) apps))"

definition desktop_entry_for_stremio :: "(bridge_request \<Rightarrow> string + bridge_response) \<Rightarrow> string option" where
  "desktop_entry_for_stremio ask =
     (case ask (DiscoverApplications DESKTOP_APPS) of
        Inr (Applications _ apps) \<Rightarrow> pick_stremio apps
      | _ \<Rightarrow> None)"

definition with_launch :: "string option \<Rightarrow> catalog_record list \<Rightarrow> catalog_record list" where
  "with_launch launch_id records = map (\<lambda>r. r\<lparr>cr_launch_id := launch_id\<rparr>) records"

section \<open>A refresh\<close>

definition StremioProvider_discover ::
  "stremio_feed \<Rightarrow> string option \<Rightarrow> settings_db \<Rightarrow> cached_library option
     \<Rightarrow> (string + catalog_record list) \<times> cached_library option" where
  "StremioProvider_discover e fault db cached =
     (case StremioRepository_credentials fault db of
        Inl err \<Rightarrow> (Inl err, cached)
      | Inr None \<Rightarrow> (Inr [], None)
      | Inr (Some credentials) \<Rightarrow>
     (case datastore_meta e (sc_auth_key credentials) of
        Inl err \<Rightarrow> (Inl err, cached)
      | Inr meta \<Rightarrow>
          let digest = digest_of e meta in
          case option_filter (\<lambda>c. cl_digest c = digest) cached of
            Some c \<Rightarrow> (Inr (cl_records c), cached)
          | None \<Rightarrow>
     (case datastore_get e (sc_auth_key credentials) of
        Inl err \<Rightarrow> (Inl err, cached)
      | Inr library \<Rightarrow>
     (case continue_watching e library of
        Inl err \<Rightarrow> (Inl err, cached)
      | Inr records \<Rightarrow>
          let records = with_launch (desktop_entry_for_stremio (sf_ask e)) records in
          (Inr records, Some \<lparr>cl_digest = digest, cl_records = records\<rparr>)))))"

section \<open>The row holds the newest unfinished titles\<close>

lemma set_newest_items [simp]: "set (newest_items e items) = set items"
  by (simp add: newest_items_def)

lemma sorted_newest_items: "sorted_wrt (\<lambda>a b. mtime e b \<le> mtime e a) (newest_items e items)"
  unfolding newest_items_def sorted_wrt_rev
  using sorted_sort_key[of "mtime e" "rev items"] by (simp add: sorted_map)

text \<open>
  A refresh publishes at most ten records, each of an unfinished item of the library, and an
  unfinished item that is left out is not newer than any of the items that were taken.
\<close>

lemma continue_watching_newest:
  assumes "continue_watching e library = Inr records"
    and "Option.bind (json_get ''result'' library) json_array = Some items"
  shows "length records \<le> CONTINUE_WATCHING_LIMIT"
    and "r \<in> set records \<Longrightarrow> \<exists>item\<in>set items. in_continue_watching item \<and> title_record e item = Some r"
    and "item \<in> set items \<Longrightarrow> in_continue_watching item \<Longrightarrow> title_record e item = Some r \<Longrightarrow> r \<notin> set records
      \<Longrightarrow> other \<in> set (take CONTINUE_WATCHING_LIMIT (newest_items e (filter in_continue_watching items)))
      \<Longrightarrow> mtime e item \<le> mtime e other"
proof -
  let ?all = "newest_items e (filter in_continue_watching items)"
  have records: "records = List.map_filter (title_record e) (take CONTINUE_WATCHING_LIMIT ?all)"
    using assms by (simp add: continue_watching_def)
  have "length (List.map_filter f xs) \<le> length xs" for f :: "json \<Rightarrow> catalog_record option" and xs
    by (induction xs) (auto simp: map_filter_simps split: option.splits)
  from this[of "title_record e" "take CONTINUE_WATCHING_LIMIT ?all"] show "length records \<le> CONTINUE_WATCHING_LIMIT"
    unfolding records by simp
  have in_records: "r \<in> set records \<longleftrightarrow> (\<exists>item\<in>set (take CONTINUE_WATCHING_LIMIT ?all). title_record e item = Some r)" for r
    unfolding records by (force simp: List.map_filter_def)
  show "r \<in> set records \<Longrightarrow> \<exists>item\<in>set items. in_continue_watching item \<and> title_record e item = Some r"
    using in_records[of r] set_take_subset[of CONTINUE_WATCHING_LIMIT ?all] by auto
  assume item: "item \<in> set items" "in_continue_watching item" "title_record e item = Some r" "r \<notin> set records"
    and other: "other \<in> set (take CONTINUE_WATCHING_LIMIT ?all)"
  have "item \<in> set ?all" using item by simp
  then have "item \<in> set (drop CONTINUE_WATCHING_LIMIT ?all)"
    using in_records[of r] item(3,4) append_take_drop_id[of CONTINUE_WATCHING_LIMIT ?all] by (metis Un_iff set_append)
  then show "mtime e item \<le> mtime e other"
    using other sorted_newest_items[of e "filter in_continue_watching items"]
      append_take_drop_id[of CONTINUE_WATCHING_LIMIT ?all] by (metis sorted_wrt_append)
qed

section \<open>The kept snapshot\<close>

text \<open>The reference: a refresh that has nothing cached. A run threads the snapshot through.\<close>

type_synonym refresh = "stremio_feed \<times> string option \<times> settings_db"

fun fresh_read :: "refresh \<Rightarrow> string + catalog_record list" where
  "fresh_read (e, fault, db) = fst (StremioProvider_discover e fault db None)"

fun refreshes :: "refresh list \<Rightarrow> cached_library option \<Rightarrow> (string + catalog_record list) list" where
  "refreshes [] cached = []"
| "refreshes ((e, fault, db) # rs) cached =
     (case StremioProvider_discover e fault db cached of (out, cached) \<Rightarrow> out # refreshes rs cached)"

text \<open>The state of the account a refresh sees, when it sees one.\<close>

fun seen_digest :: "refresh \<Rightarrow> string option" where
  "seen_digest (e, fault, db) =
     (case StremioRepository_credentials fault db of
        Inr (Some c) \<Rightarrow> (case datastore_meta e (sc_auth_key c) of Inr meta \<Rightarrow> Some (digest_of e meta) | Inl _ \<Rightarrow> None)
      | _ \<Rightarrow> None)"

text \<open>The library the account would answer with, and the desktop entry the bridge would report.\<close>

fun library_of :: "refresh \<Rightarrow> json option" where
  "library_of (e, fault, db) =
     (case StremioRepository_credentials fault db of
        Inr (Some c) \<Rightarrow> (case datastore_get e (sc_auth_key c) of Inr library \<Rightarrow> Some library | Inl _ \<Rightarrow> None)
      | _ \<Rightarrow> None)"

definition entry_of :: "refresh \<Rightarrow> string option" where
  "entry_of x = desktop_entry_for_stremio (sf_ask (fst x))"

text \<open>
  What is assumed of the account: while its digest (the item ids and times of change that
  \<^verbatim>\<open>datastoreMeta\<close> answers) stays the same, \<^verbatim>\<open>datastoreGet\<close> answers with the same library. Dates and
  quotients are decoded the same way every time. Nothing is assumed of the desktop entries.
\<close>

definition digest_identifies :: "refresh list \<Rightarrow> bool" where
  "digest_identifies rounds \<longleftrightarrow>
     (\<forall>x\<in>set rounds. \<forall>y\<in>set rounds.
        sf_instant (fst x) = sf_instant (fst y) \<and> sf_quotient (fst x) = sf_quotient (fst y)
      \<and> (\<forall>l l'. seen_digest x \<noteq> None \<and> seen_digest x = seen_digest y
           \<and> library_of x = Some l \<and> library_of y = Some l' \<longrightarrow> l = l'))"

lemma continue_watching_cong:
  assumes "sf_instant e = sf_instant e'" and "sf_quotient e = sf_quotient e'"
  shows "continue_watching e library = continue_watching e' library"
proof -
  have "mtime e = mtime e'" using assms(1) by (intro ext) (simp add: mtime_def)
  moreover have "progress e = progress e'" using assms(2) by (intro ext) (simp add: progress_def)
  then have "title_metadata e = title_metadata e'" by (intro ext) (simp only: title_metadata_def)
  then have "title_record e = title_record e'" by (intro ext) (simp only: title_record_def)
  moreover have "newest_items e = newest_items e'" using calculation(1) by (intro ext) (simp add: newest_items_def)
  ultimately show ?thesis by (simp only: continue_watching_def)
qed

lemma with_launch_again [simp]: "with_launch l (with_launch l' rs) = with_launch l rs"
  by (simp add: with_launch_def)

lemmas discover_simps = StremioProvider_discover_def option_filter_def Let_def

lemma fresh_titles:
  assumes "seen_digest x \<noteq> None" and "fresh_read x = Inr rs"
  shows "\<exists>library titles. library_of x = Some library \<and> continue_watching (fst x) library = Inr titles
    \<and> rs = with_launch (entry_of x) titles"
  using assms by (cases x) (auto simp: discover_simps entry_of_def split: sum.splits option.splits)

lemma unlinked_reads_nothing: "seen_digest x = None \<Longrightarrow> fresh_read x = Inr rs \<Longrightarrow> rs = []"
  by (cases x) (auto simp: discover_simps split: sum.splits option.splits)

lemma same_digest_same_titles:
  assumes "digest_identifies rounds" and "x \<in> set rounds" and "y \<in> set rounds"
    and "seen_digest x \<noteq> None" and "seen_digest x = seen_digest y"
    and "fresh_read x = Inr rs" and "fresh_read y = Inr rs'"
  shows "rs' = with_launch (entry_of y) rs"
proof -
  obtain l ts where x: "library_of x = Some l" "continue_watching (fst x) l = Inr ts" "rs = with_launch (entry_of x) ts"
    using fresh_titles[OF assms(4,6)] by blast
  have "seen_digest y \<noteq> None" using assms(4,5) by simp
  from fresh_titles[OF this assms(7)] obtain l' ts' where
    y: "library_of y = Some l'" "continue_watching (fst y) l' = Inr ts'" "rs' = with_launch (entry_of y) ts'" by blast
  have "l = l'" and same: "sf_instant (fst x) = sf_instant (fst y)" "sf_quotient (fst x) = sf_quotient (fst y)"
    using assms(1-5) x(1) y(1) unfolding digest_identifies_def by blast+
  then have "ts = ts'" using x(2) y(2) continue_watching_cong[OF same, of l] by simp
  then show ?thesis using x(3) y(3) by simp
qed

text \<open>The snapshot is what some earlier refresh read, under the digest it saw.\<close>

definition snapshot_of :: "refresh set \<Rightarrow> cached_library option \<Rightarrow> bool" where
  "snapshot_of seen cached \<longleftrightarrow>
     (\<forall>c. cached = Some c \<longrightarrow> (\<exists>x\<in>seen. seen_digest x = Some (cl_digest c) \<and> fresh_read x = Inr (cl_records c)))"

text \<open>What a refresh answers: its own reading, or an earlier one that saw the same digest.\<close>

definition answered_from :: "refresh set \<Rightarrow> refresh \<Rightarrow> string + catalog_record list \<Rightarrow> bool" where
  "answered_from seen x out \<longleftrightarrow> out = fresh_read x
     \<or> (\<exists>y\<in>seen. \<exists>rs. seen_digest x \<noteq> None \<and> seen_digest y = seen_digest x \<and> fresh_read y = Inr rs \<and> out = Inr rs)"

lemma discover_step:
  assumes "StremioProvider_discover e fault db cached = (out, cached')" and "snapshot_of seen cached"
  shows "snapshot_of (insert (e, fault, db) seen) cached'"
    and "answered_from seen (e, fault, db) out"
proof -
  show "snapshot_of (insert (e, fault, db) seen) cached'"
    using assms by (auto simp: discover_simps snapshot_of_def split: sum.splits option.splits if_splits)
  have "out = fresh_read (e, fault, db)
      \<or> (\<exists>c. cached = Some c \<and> seen_digest (e, fault, db) = Some (cl_digest c) \<and> out = Inr (cl_records c))"
    using assms(1) by (auto simp: discover_simps split: sum.splits option.splits if_splits)
  then show "answered_from seen (e, fault, db) out"
    using assms(2) unfolding answered_from_def snapshot_of_def by (metis option.distinct(1))
qed

lemma refreshes_answered:
  assumes "snapshot_of seen cached" and "k < length rounds"
  shows "answered_from (seen \<union> set (take k rounds)) (rounds ! k) (refreshes rounds cached ! k)"
  using assms
proof (induction rounds arbitrary: seen cached k)
  case (Cons x rounds)
  obtain e fault db where x: "x = (e, fault, db)" by (cases x)
  obtain out cached' where step: "StremioProvider_discover e fault db cached = (out, cached')" by fastforce
  note kept = discover_step[OF step Cons.prems(1)]
  show ?case
  proof (cases k)
    case 0
    then show ?thesis using kept(2) by (simp add: x step)
  next
    case (Suc k')
    have "answered_from (insert x seen \<union> set (take k' rounds)) (rounds ! k') (refreshes rounds cached' ! k')"
      using kept(1) Cons.prems(2) Suc by (intro Cons.IH) (simp_all add: x)
    then show ?thesis using Suc by (simp add: x step)
  qed
qed simp

text \<open>
  C17: keeping the last snapshot does not change which titles are published. A refresh answers
  either with its own reading of the account or with that of an earlier refresh that saw the same
  digest. So in any run in which equal digests mean equal libraries, wherever a fresh reading
  succeeds, the refresh publishes the very records of that reading, all with the launch target that
  was found by a refresh of the same digest at or before it; and a refresh fails only when a fresh
  reading fails too. The launch target may lag behind: the digest says nothing of the installed
  applications, so a Stremio installed later is missed while the account does not change, although
  the comment at \<^verbatim>\<open>stremio.rs:327\<close> says the next refresh picks it up
  (\<open>entry_installed_later_is_missed\<close>). Where the entry did not change, the records are equal.
\<close>

theorem cached_refresh_reads_the_same_titles:
  assumes "digest_identifies rounds" and "k < length rounds"
  shows "let x = rounds ! k; out = refreshes rounds None ! k in
    (out = fresh_read x \<or> (\<exists>y\<in>set (take k rounds). \<exists>rs. seen_digest x \<noteq> None
        \<and> seen_digest y = seen_digest x \<and> fresh_read y = Inr rs \<and> out = Inr rs))
    \<and> (\<forall>rs. fresh_read x = Inr rs \<longrightarrow>
        (\<exists>y\<in>set (take (Suc k) rounds). seen_digest y = seen_digest x \<and> out = Inr (with_launch (entry_of y) rs)))
    \<and> (\<forall>rs. fresh_read x = Inr rs \<and> (\<forall>y\<in>set (take k rounds). entry_of y = entry_of x) \<longrightarrow> out = Inr rs)
    \<and> (\<forall>err. out = Inl err \<longrightarrow> fresh_read x = Inl err)"
proof -
  define x where "x = rounds ! k"
  define out where "out = refreshes rounds None ! k"
  have origin: "answered_from (set (take k rounds)) x out"
    using refreshes_answered[of "{}" None k rounds] assms(2) by (simp add: x_def out_def snapshot_of_def)
  have last: "set (take (Suc k) rounds) = insert x (set (take k rounds))"
    using assms(2) by (simp add: x_def take_Suc_conv_app_nth)
  have x: "x \<in> set rounds" using assms(2) by (simp add: x_def)
  have own: "rs = with_launch (entry_of x) rs" if "fresh_read x = Inr rs" for rs
  proof (cases "seen_digest x")
    case None
    with unlinked_reads_nothing that have "rs = []" by blast
    then show ?thesis by (simp add: with_launch_def)
  next
    case (Some d)
    then show ?thesis using same_digest_same_titles[OF assms(1) x x _ refl that that] by simp
  qed
  have titles: "\<exists>y\<in>set (take (Suc k) rounds). seen_digest y = seen_digest x \<and> out = Inr (with_launch (entry_of y) rs)"
    if fresh: "fresh_read x = Inr rs" for rs
    using origin unfolding answered_from_def
  proof (elim disjE bexE exE conjE)
    assume "out = fresh_read x"
    then show ?thesis using fresh own[OF fresh] last by auto
  next
    fix y rs'
    assume y: "y \<in> set (take k rounds)" "seen_digest x \<noteq> None" "seen_digest y = seen_digest x"
      "fresh_read y = Inr rs'" "out = Inr rs'"
    then have "y \<in> set rounds" by (meson in_set_takeD)
    from same_digest_same_titles[OF assms(1) x this y(2) y(3)[symmetric] fresh y(4)] y last show ?thesis by auto
  qed
  have "out = Inr rs" if "fresh_read x = Inr rs" "\<forall>y\<in>set (take k rounds). entry_of y = entry_of x" for rs
    using titles[OF that(1)] that(2) own[OF that(1)] last by auto
  moreover have "fresh_read x = Inl err" if "out = Inl err" for err
    using origin that by (auto simp only: answered_from_def sum.distinct)
  ultimately show ?thesis
    using origin titles unfolding Let_def x_def[symmetric] out_def[symmetric] answered_from_def by blast
qed

text \<open>An account with one unfinished film, on a host whose applications are given.\<close>

definition demo_title :: json where
  "demo_title = JObject [(''_id'', JString ''tt1''), (''type'', JString ''movie''), (''name'', JString ''A''), (''_mtime'', JString ''t''),
     (''state'', JObject [(''timeOffset'', JNumber ''5''), (''duration'', JNumber ''9'')])]"

definition demo_feed :: "discovered_application list \<Rightarrow> stremio_feed" where
  "demo_feed apps = \<lparr>sf_post = (\<lambda>url _. Reply ''200 OK'' url),
     sf_parse = (\<lambda>_. Some (JObject [(''result'', JArray [demo_title])])),
     sf_text = (\<lambda>_. ''digest''), sf_instant = (\<lambda>_. Some 0), sf_quotient = (\<lambda>_ _. ''0.5''),
     sf_ask = (\<lambda>_. Inr (Applications DESKTOP_APPS apps))\<rparr>"

definition demo_account :: settings_db where
  "demo_account = \<lparr>user_settings_table = None, romm_settings_table = None,
     stremio_settings_table = Some \<lparr>ss_auth_key = ''k'', ss_linked_at = ''t'', ss_updated_at = ''t''\<rparr>, tmdb_settings_table = None\<rparr>"

definition demo_stremio_app :: discovered_application where
  "demo_stremio_app = \<lparr>da_application_id = ''s.desktop'', da_name = ''S'', da_comment = None, da_icon = None, da_categories = [],
     da_launch_scheme = Some ''stremio'', da_source = System\<rparr>"

lemma demo_refresh:
  "map_sum id (map cr_launch_id) (fresh_read (demo_feed apps, None, demo_account)) = Inr [pick_stremio apps]"
  "StremioProvider_discover (demo_feed apps) None demo_account (Some \<lparr>cl_digest = ''digest'', cl_records = records\<rparr>)
     = (Inr records, Some \<lparr>cl_digest = ''digest'', cl_records = records\<rparr>)"
  "\<exists>records. StremioProvider_discover (demo_feed apps) None demo_account None
     = (Inr records, Some \<lparr>cl_digest = ''digest'', cl_records = records\<rparr>)"
proof -
  have "json_nat (JNumber ''5'') = Some 5" by (simp add: json_nat_def is_ascii_digit_def nat_of_digits_def less_eq_char_def)
  then have unfinished: "in_continue_watching demo_title"
    by (simp add: in_continue_watching_def demo_title_def time_offset_def item_state_def unwrap_or_def flag_def)
  have "string_at demo_title [''_id''] = Some ''tt1''" by code_simp
  then obtain r where r: "title_record (demo_feed apps) demo_title = Some r" by (simp add: title_record_def)
  have answer: "datastore (demo_feed apps) path k body = Inr (JObject [(''result'', JArray [demo_title])])" for path k body
    by (simp add: datastore_def demo_feed_def Let_def envelope_error_def option_filter_def)
  have "continue_watching (demo_feed apps) (JObject [(''result'', JArray [demo_title])]) = Inr [r]"
    by (simp add: continue_watching_def newest_items_def unfinished r map_filter_simps CONTINUE_WATCHING_LIMIT_def)
  then show "map_sum id (map cr_launch_id) (fresh_read (demo_feed apps, None, demo_account)) = Inr [pick_stremio apps]"
    "\<exists>records. StremioProvider_discover (demo_feed apps) None demo_account None
       = (Inr records, Some \<lparr>cl_digest = ''digest'', cl_records = records\<rparr>)"
    "StremioProvider_discover (demo_feed apps) None demo_account (Some \<lparr>cl_digest = ''digest'', cl_records = records\<rparr>)
       = (Inr records, Some \<lparr>cl_digest = ''digest'', cl_records = records\<rparr>)"
    using answer
    by (simp_all add: discover_simps StremioRepository_credentials_def demo_account_def datastore_meta_def datastore_get_def digest_of_def
        with_launch_def desktop_entry_for_stremio_def demo_feed_def)
qed

lemma demo_pick: "pick_stremio [demo_stremio_app] = Some ''s.desktop''" "pick_stremio [] = None"
  by code_simp+

theorem cached_refresh_reads_the_same_titles_witness:
  "let x = (demo_feed [demo_stremio_app], None, demo_account) in
    digest_identifies [x, x] \<and> refreshes [x, x] None ! 1 = fresh_read x
    \<and> map_sum id (map cr_launch_id) (fresh_read x) = Inr [Some ''s.desktop'']"
proof -
  let ?x = "(demo_feed [demo_stremio_app], None, demo_account)"
  obtain rs where fresh: "fresh_read ?x = Inr rs"
    using demo_refresh(1)[of "[demo_stremio_app]"] by (cases "fresh_read ?x") (simp_all del: fresh_read.simps)
  have ok: "digest_identifies [?x, ?x]" by (auto simp: digest_identifies_def simp del: library_of.simps seen_digest.simps)
  have "refreshes [?x, ?x] None ! 1 = fresh_read ?x"
    using cached_refresh_reads_the_same_titles[OF ok, of 1] fresh
    by (auto simp: Let_def simp del: fresh_read.simps refreshes.simps seen_digest.simps)
  then show ?thesis
    using ok demo_refresh(1)[of "[demo_stremio_app]"] by (simp add: Let_def demo_pick del: fresh_read.simps refreshes.simps)
qed

text \<open>
  The desktop entry is part of the snapshot but not of the digest: a Stremio that is installed after a
  refresh is not picked up by the next one while the account does not change.
\<close>

lemma entry_installed_later_is_missed:
  "map (map_sum id (map cr_launch_id)) (refreshes [(demo_feed [], None, demo_account), (demo_feed [demo_stremio_app], None, demo_account)] None)
     = [Inr [None], Inr [None]]"
  "map_sum id (map cr_launch_id) (fresh_read (demo_feed [demo_stremio_app], None, demo_account)) = Inr [Some ''s.desktop'']"
proof -
  obtain records where "StremioProvider_discover (demo_feed []) None demo_account None
      = (Inr records, Some \<lparr>cl_digest = ''digest'', cl_records = records\<rparr>)" using demo_refresh(3) by blast
  then show "map (map_sum id (map cr_launch_id)) (refreshes [(demo_feed [], None, demo_account), (demo_feed [demo_stremio_app], None, demo_account)] None)
     = [Inr [None], Inr [None]]" using demo_refresh(1)[of "[]"] by (simp add: demo_refresh(2) demo_pick)
  show "map_sum id (map cr_launch_id) (fresh_read (demo_feed [demo_stremio_app], None, demo_account)) = Inr [Some ''s.desktop'']"
    using demo_refresh(1)[of "[demo_stremio_app]"] by (simp only: demo_pick)
qed

end
