(* ===== verification/Discovery_Arrivals.thy ===== *)
theory Discovery_Arrivals
  imports Discovery_Stremio Rust_Iterators
begin

text \<open>
  The provider of new arrivals, \<^verbatim>\<open>hearthdeck-daemon/src/discovery/providers/arrivals.rs\<close>: the requests
  to TMDB, the decision whether a title can be watched at home, and the records of the banner. TMDB,
  JSON, the calendar and floating-point numbers (a linearly ordered type, ordered as
  \<^verbatim>\<open>f64::total_cmp\<close>; a JSON number is never NaN) are the record \<open>tmdb_feed\<close>. A date is its day number.
\<close>

definition TMDB_URL :: string where "TMDB_URL = ''https://api.themoviedb.org/3''"
definition IMAGE_URL :: string where "IMAGE_URL = ''https://image.tmdb.org/t/p''"
definition DIGITAL_RELEASE :: nat where "DIGITAL_RELEASE = 4"
definition PHYSICAL_RELEASE :: nat where "PHYSICAL_RELEASE = 5"
definition NEW_ARRIVALS_LIMIT :: nat where "NEW_ARRIVALS_LIMIT = 10"
definition AVAILABILITY_WINDOW_DAYS :: nat where "AVAILABILITY_WINDOW_DAYS = 60"
definition CANDIDATES_PER_TYPE :: nat where "CANDIDATES_PER_TYPE = 20"

datatype tmdb_auth = BearerToken string | KeyParameter string

record tmdb_request =
  tq_url :: string
  tq_params :: "(string \<times> string) list"
  tq_auth :: tmdb_auth

text \<open>The messages of \<^verbatim>\<open>reqwest\<close> are without the URL; a status has a number and a text.\<close>

datatype tmdb_reply = TmdbUnreachable string | TmdbUnreadable string | TmdbReply nat string string

record 'f tmdb_feed =
  tf_send :: "tmdb_request \<Rightarrow> tmdb_reply"
  tf_parse :: "string \<Rightarrow> json option"
  tf_f64 :: "string \<Rightarrow> 'f"
  tf_zero :: 'f
  tf_f64_text :: "'f \<Rightarrow> string"
  tf_day :: "string \<Rightarrow> int option"
  tf_instant_day :: "string \<Rightarrow> int option"
  tf_day_text :: "int \<Rightarrow> string"
  tf_year :: "int \<Rightarrow> int"
  tf_var :: "string \<rightharpoonup> string"
  tf_ask :: "bridge_request \<Rightarrow> string + bridge_response"

record market =
  mk_region :: string
  mk_language :: string

record 'f available =
  wt_kind :: string
  wt_imdb_id :: string
  wt_title :: string
  wt_since :: int
  wt_how :: string
  wt_market :: string
  wt_year :: "int option"
  wt_popularity :: 'f
  wt_poster :: "string option"
  wt_background :: "string option"
  wt_logo :: "string option"
  wt_description :: "string option"
  wt_rating :: "'f option"

section \<open>Asking TMDB\<close>

definition tmdb_request_of :: "string \<Rightarrow> (string \<times> string) list \<Rightarrow> string \<Rightarrow> tmdb_request" where
  "tmdb_request_of path params api_key =
     \<lparr>tq_url = TMDB_URL @ path, tq_params = params,
      tq_auth = (if CHR ''.'' \<in> set api_key then BearerToken api_key else KeyParameter api_key)\<rparr>"

definition tmdb_get_json :: "('f, 'x) tmdb_feed_scheme \<Rightarrow> tmdb_request \<Rightarrow> string \<Rightarrow> string + json" where
  "tmdb_get_json e request what =
     (case tf_send e request of
        TmdbUnreachable err \<Rightarrow> Inl (''could not reach TMDB for '' @ what @ '': '' @ err)
      | TmdbUnreadable err \<Rightarrow> Inl (''could not read TMDB's answer for '' @ what @ '': '' @ err)
      | TmdbReply status status_text body \<Rightarrow>
     (case tf_parse e body of
        None \<Rightarrow> Inl (''TMDB answered HTTP '' @ status_text @ '' for '' @ what @ '' with a body that is not JSON'')
      | Some parsed \<Rightarrow>
          if \<not> (200 \<le> status \<and> status < 300)
          then Inl (''TMDB refused '' @ what @ '' with HTTP '' @ status_text @ '': ''
                 @ unwrap_or ''no status message'' (Option.bind (json_get ''status_message'' parsed) json_str))
          else Inr parsed))"

definition window_start :: "('f, 'x) tmdb_feed_scheme \<Rightarrow> int \<Rightarrow> string" where
  "window_start e today = tf_day_text e (today - int AVAILABILITY_WINDOW_DAYS)"

definition candidate_ids :: "json \<Rightarrow> nat list" where
  "candidate_ids page =
     take CANDIDATES_PER_TYPE (List.map_filter (\<lambda>c. Option.bind (json_get ''id'' c) json_nat) (array_at page [''results'']))"

definition preferred_language :: "string \<Rightarrow> string" where
  "preferred_language tag = hd (split (CHR ''-'') tag)"

definition tmdb_detail :: "('f, 'x) tmdb_feed_scheme \<Rightarrow> string \<Rightarrow> nat \<Rightarrow> string \<Rightarrow> market \<Rightarrow> string + json" where
  "tmdb_detail e kind i api_key market =
     tmdb_get_json e (tmdb_request_of (''/'' @ kind @ ''/'' @ show_nat i)
       [(''language'', mk_language market),
        (''append_to_response'', if kind = ''movie'' then ''external_ids,images,release_dates'' else ''external_ids,images''),
        (''include_image_language'', preferred_language (mk_language market) @ '',en,null'')] api_key) ''a title's detail''"

section \<open>What a detail says\<close>

definition day :: "('f, 'x) tmdb_feed_scheme \<Rightarrow> json option \<Rightarrow> int option" where
  "day e v =
     (case Option.bind v json_str of
        None \<Rightarrow> None
      | Some s \<Rightarrow> (case tf_day e (trim s) of Some d \<Rightarrow> Some d | None \<Rightarrow> tf_instant_day e (trim s)))"

definition is_title_id :: "string \<Rightarrow> bool" where
  "is_title_id i \<longleftrightarrow>
     (case strip_prefix ''tt'' i of
        None \<Rightarrow> False
      | Some digits \<Rightarrow> digits \<noteq> [] \<and> list_all is_ascii_digit digits)"

definition imdb_id :: "json \<Rightarrow> string option" where
  "imdb_id detail =
     option_filter is_title_id (map_option trim (Option.bind (json_at [''external_ids'', ''imdb_id''] detail) json_str))"

definition detail_title :: "json \<Rightarrow> string \<Rightarrow> string option" where
  "detail_title detail kind = string_at detail [if kind = ''series'' then ''name'' else ''title'']"

fun json_f64 :: "('f, 'x) tmdb_feed_scheme \<Rightarrow> json \<Rightarrow> 'f option" where
  "json_f64 e (JNumber s) = Some (tf_f64 e s)"
| "json_f64 e _ = None"

definition number :: "('f, 'x) tmdb_feed_scheme \<Rightarrow> json \<Rightarrow> string \<Rightarrow> 'f option" where
  "number e detail key = Option.bind (json_get key detail) (json_f64 e)"

definition original_year :: "('f, 'x) tmdb_feed_scheme \<Rightarrow> json \<Rightarrow> string \<Rightarrow> int option" where
  "original_year e detail kind =
     map_option (tf_year e) (day e (json_get (if kind = ''series'' then ''first_air_date'' else ''release_date'') detail))"

definition image :: "json option \<Rightarrow> string \<Rightarrow> string option" where
  "image path size_name =
     map_option (\<lambda>p. IMAGE_URL @ ''/'' @ size_name @ p)
       (option_filter (\<lambda>p. p \<noteq> []) (map_option trim (Option.bind path json_str)))"

definition logo_rank :: "string \<Rightarrow> json \<Rightarrow> nat" where
  "logo_rank preferred logo =
     (case Option.bind (json_get ''iso_639_1'' logo) json_str of
        None \<Rightarrow> 1
      | Some tag \<Rightarrow> if eq_ignore_ascii_case tag preferred then 0 else if tag = ''en'' then 2 else 3)"

definition logo :: "json \<Rightarrow> string \<Rightarrow> string option" where
  "logo detail tag =
     Option.bind (Option.bind (json_at [''images'', ''logos''] detail) json_array) (\<lambda>logos.
       map_option (\<lambda>(_, path). IMAGE_URL @ ''/w500'' @ path)
         (min_by fst (List.map_filter (\<lambda>l. map_option (\<lambda>path. (logo_rank (preferred_language tag) l, path))
            (string_at l [''file_path''])) logos)))"

section \<open>Whether it can be watched\<close>

definition release_rows :: "json \<Rightarrow> json list option" where
  "release_rows detail = Option.bind (json_at [''release_dates'', ''results''] detail) json_array"

definition row_country :: "json \<Rightarrow> string option" where
  "row_country entry = Option.bind (json_get ''iso_3166_1'' entry) json_str"

definition country_releases :: "json \<Rightarrow> string \<Rightarrow> json list option" where
  "country_releases detail country =
     Option.bind (release_rows detail) (\<lambda>rows.
     Option.bind (find (\<lambda>entry. case row_country entry of None \<Rightarrow> False | Some code \<Rightarrow> eq_ignore_ascii_case code country) rows) (\<lambda>entry.
     Option.bind (json_get ''release_dates'' entry) json_array))"

definition home_release :: "('f, 'x) tmdb_feed_scheme \<Rightarrow> int \<Rightarrow> json \<Rightarrow> (int \<times> string) option" where
  "home_release e today release =
     Option.bind (Option.bind (json_get ''type'' release) json_nat) (\<lambda>t.
     Option.bind (if t = DIGITAL_RELEASE then Some ''digital'' else if t = PHYSICAL_RELEASE then Some ''physical'' else None) (\<lambda>how.
     Option.bind (day e (json_get ''release_date'' release)) (\<lambda>released.
       if released \<le> today then Some (released, how) else None)))"

definition latest_home_release :: "('f, 'x) tmdb_feed_scheme \<Rightarrow> json list \<Rightarrow> int \<Rightarrow> (int \<times> string) option" where
  "latest_home_release e releases today = max_by fst (List.map_filter (home_release e today) releases)"

definition home_release_elsewhere ::
  "('f, 'x) tmdb_feed_scheme \<Rightarrow> json \<Rightarrow> string \<Rightarrow> int \<Rightarrow> (int \<times> string \<times> string) option" where
  "home_release_elsewhere e detail here today =
     Option.bind (release_rows detail) (\<lambda>rows.
       max_by fst (List.map_filter (\<lambda>entry.
         Option.bind (row_country entry) (\<lambda>code.
           if eq_ignore_ascii_case code here then None
           else Option.bind (country_releases detail code) (\<lambda>releases.
             map_option (\<lambda>(since, how). (since, how, code)) (latest_home_release e releases today)))) rows))"

definition within_window :: "int \<Rightarrow> int \<Rightarrow> bool" where
  "within_window since today \<longleftrightarrow> 0 \<le> today - since \<and> today - since \<le> int AVAILABILITY_WINDOW_DAYS"

definition assembled ::
  "('f :: linorder, 'x) tmdb_feed_scheme \<Rightarrow> json \<Rightarrow> string \<Rightarrow> int \<Rightarrow> string \<Rightarrow> string \<Rightarrow> market \<Rightarrow> 'f available option" where
  "assembled e detail kind since how country market =
     Option.bind (imdb_id detail) (\<lambda>imdb_id.
     Option.bind (detail_title detail kind) (\<lambda>title. Some
       \<lparr>wt_kind = kind, wt_imdb_id = imdb_id, wt_title = title, wt_since = since, wt_how = how, wt_market = country,
        wt_year = original_year e detail kind, wt_popularity = unwrap_or (tf_zero e) (number e detail ''popularity''),
        wt_poster = image (json_get ''poster_path'' detail) ''w342'',
        wt_background = image (json_get ''backdrop_path'' detail) ''w1280'',
        wt_logo = logo detail (mk_language market), wt_description = string_at detail [''overview''],
        wt_rating = option_filter (\<lambda>r. tf_zero e < r) (number e detail ''vote_average'')\<rparr>))"

definition film_release :: "('f, 'x) tmdb_feed_scheme \<Rightarrow> json \<Rightarrow> string \<Rightarrow> int \<Rightarrow> (int \<times> string \<times> string) option" where
  "film_release e detail here today =
     (case country_releases detail here of
        Some releases \<Rightarrow> map_option (\<lambda>(since, how). (since, how, here)) (latest_home_release e releases today)
      | None \<Rightarrow> home_release_elsewhere e detail here today)"

definition available_film ::
  "('f :: linorder, 'x) tmdb_feed_scheme \<Rightarrow> json \<Rightarrow> market \<Rightarrow> int \<Rightarrow> 'f available option" where
  "available_film e detail market today =
     (case film_release e detail (mk_region market) today of
        None \<Rightarrow> None
      | Some (since, how, country) \<Rightarrow>
          if within_window since today then assembled e detail ''movie'' since how country market else None)"

definition available_series ::
  "('f :: linorder, 'x) tmdb_feed_scheme \<Rightarrow> json \<Rightarrow> market \<Rightarrow> int \<Rightarrow> 'f available option" where
  "available_series e detail market today =
     (case day e (json_get ''first_air_date'' detail) of
        None \<Rightarrow> None
      | Some since \<Rightarrow>
          if within_window since today then assembled e detail ''series'' since ''aired'' (mk_region market) market else None)"

section \<open>The lists\<close>

definition details_of ::
  "('f, 'x) tmdb_feed_scheme \<Rightarrow> string \<Rightarrow> string \<Rightarrow> market \<Rightarrow> (json \<Rightarrow> 'a option) \<Rightarrow> nat list \<Rightarrow> 'a list" where
  "details_of e kind api_key market f ids =
     List.map_filter (\<lambda>i. case tmdb_detail e kind i api_key market of Inl _ \<Rightarrow> None | Inr detail \<Rightarrow> f detail) ids"

definition films ::
  "('f :: linorder, 'x) tmdb_feed_scheme \<Rightarrow> string \<Rightarrow> market \<Rightarrow> int \<Rightarrow> string + 'f available list" where
  "films e api_key market today =
     map_sum id (\<lambda>page. details_of e ''movie'' api_key market (\<lambda>d. available_film e d market today) (candidate_ids page))
       (tmdb_get_json e (tmdb_request_of ''/discover/movie''
         [(''sort_by'', ''primary_release_date.desc''), (''include_adult'', ''false''), (''with_release_type'', ''4|5''),
          (''region'', mk_region market), (''language'', mk_language market),
          (''release_date.gte'', window_start e today), (''release_date.lte'', tf_day_text e today)] api_key) ''the film release list'')"

definition series ::
  "('f :: linorder, 'x) tmdb_feed_scheme \<Rightarrow> string \<Rightarrow> market \<Rightarrow> int \<Rightarrow> string + 'f available list" where
  "series e api_key market today =
     map_sum id (\<lambda>page. details_of e ''tv'' api_key market (\<lambda>d. available_series e d market today) (candidate_ids page))
       (tmdb_get_json e (tmdb_request_of ''/discover/tv''
         [(''sort_by'', ''first_air_date.desc''), (''include_adult'', ''false''), (''language'', mk_language market),
          (''first_air_date.gte'', window_start e today), (''first_air_date.lte'', tf_day_text e today)] api_key) ''the series release list'')"

section \<open>The records\<close>

definition json_number :: "('a \<Rightarrow> string) \<Rightarrow> 'a option \<Rightarrow> json" where
  "json_number show_number n = (case n of None \<Rightarrow> JNull | Some x \<Rightarrow> JNumber (show_number x))"

definition show_year :: "int \<Rightarrow> string" where
  "show_year y = (if y < 0 then CHR ''-'' # show_nat (nat (- y)) else show_nat (nat y))"

definition arrival_record :: "('f, 'x) tmdb_feed_scheme \<Rightarrow> 'f available \<Rightarrow> catalog_record" where
  "arrival_record e a =
     (let since = tf_day_text e (wt_since a) in
      \<lparr>cr_id = STREMIO_ARRIVALS @ '':'' @ wt_imdb_id a, cr_title = wt_title a, cr_kind = wt_kind a,
       cr_launch_id = None, cr_icon = wt_poster a,
       cr_metadata = JObject
         [(''source'', JString STREMIO_ARRIVALS), (''type'', JString (wt_kind a)), (''video_id'', JString (wt_imdb_id a)),
          (''background'', json_opt (wt_background a)), (''logo'', json_opt (wt_logo a)),
          (''description'', json_opt (wt_description a)), (''year'', json_number show_year (wt_year a)),
          (''released'', JString since),
          (''availability'', JObject [(''since'', JString since), (''how'', JString (wt_how a)), (''market'', JString (wt_market a))]),
          (''tmdb_rating'', json_number (tf_f64_text e) (wt_rating a))],
       cr_updated_at = since @ ''T00:00:00Z''\<rparr>)"

text \<open>Stable, most popular first.\<close>

definition most_popular :: "'f :: linorder available list \<Rightarrow> 'f available list" where
  "most_popular titles = rev (sort_key wt_popularity (rev titles))"

definition newest_arrivals :: "('f :: linorder, 'x) tmdb_feed_scheme \<Rightarrow> 'f available list \<Rightarrow> catalog_record list" where
  "newest_arrivals e titles = map (arrival_record e) (take NEW_ARRIVALS_LIMIT (most_popular titles))"

definition NewArrivalsProvider_discover ::
  "('f :: linorder, 'x) tmdb_feed_scheme \<Rightarrow> string option \<Rightarrow> settings_db \<Rightarrow> int \<Rightarrow> string + catalog_record list" where
  "NewArrivalsProvider_discover e fault db today =
     (case TmdbRepository_credentials fault db of
        Inl err \<Rightarrow> Inl err
      | Inr None \<Rightarrow> Inr []
      | Inr (Some credentials) \<Rightarrow>
          (let key = tc_api_key credentials;
               market = \<lparr>mk_region = region (tf_var e), mk_language = language (tf_var e)\<rparr>;
               launched = (\<lambda>titles. Inr (with_launch (desktop_entry_for_stremio (tf_ask e)) (newest_arrivals e titles))) in
           case (films e key market today, series e key market today) of
             (Inl _, Inl _) \<Rightarrow> Inl ''no TMDB release list could be read''
           | (Inr fs, Inl _) \<Rightarrow> launched fs
           | (Inl _, Inr ss) \<Rightarrow> launched ss
           | (Inr fs, Inr ss) \<Rightarrow> launched (fs @ ss)))"

section \<open>An arrival can be watched, and opens\<close>

text \<open>
  A home release in a detail of TMDB: a country lists an entry of release type 4 (digital) or 5
  (physical) on that day.
\<close>

definition home_release_listed :: "('f, 'x) tmdb_feed_scheme \<Rightarrow> json \<Rightarrow> int \<Rightarrow> string \<Rightarrow> string \<Rightarrow> bool" where
  "home_release_listed e detail since how country \<longleftrightarrow>
     (\<exists>releases. country_releases detail country = Some releases \<and> (\<exists>r\<in>set releases.
        (Option.bind (json_get ''type'' r) json_nat, how) \<in> {(Some 4, ''digital''), (Some 5, ''physical'')}
        \<and> day e (json_get ''release_date'' r) = Some since))"

text \<open>
  A title that has come home, by the detail TMDB answered for it: a film by a home release listed
  there, in the market's own country or, if that lists no release of the film, in another; a series
  by its first episode; on a day of the last sixty, today included; and with an IMDb id.
\<close>

definition came_home :: "('f, 'x) tmdb_feed_scheme \<Rightarrow> string \<Rightarrow> market \<Rightarrow> int \<Rightarrow> 'f available \<Rightarrow> bool" where
  "came_home e key market today a \<longleftrightarrow>
     (\<exists>i detail. tmdb_detail e (if wt_kind a = ''series'' then ''tv'' else ''movie'') i key market = Inr detail
        \<and> imdb_id detail = Some (wt_imdb_id a) \<and> detail_title detail (wt_kind a) = Some (wt_title a)
        \<and> (wt_kind a = ''movie'' \<and> home_release_listed e detail (wt_since a) (wt_how a) (wt_market a)
             \<and> (wt_market a = mk_region market \<or> country_releases detail (mk_region market) = None)
           \<or> wt_kind a = ''series'' \<and> wt_how a = ''aired'' \<and> day e (json_get ''first_air_date'' detail) = Some (wt_since a)))
     \<and> wt_since a \<le> today \<and> today \<le> wt_since a + 60 \<and> is_title_id (wt_imdb_id a)"

lemma home_release_entry:
  assumes "home_release e today r = Some (since, how)"
  shows "(Option.bind (json_get ''type'' r) json_nat, how) \<in> {(Some 4, ''digital''), (Some 5, ''physical'')}
    \<and> day e (json_get ''release_date'' r) = Some since"
  using assms by (auto simp: home_release_def DIGITAL_RELEASE_def PHYSICAL_RELEASE_def bind_eq_Some_conv split: if_splits)

lemma latest_home_release_listed:
  assumes "country_releases detail country = Some releases"
    and "latest_home_release e releases today = Some (since, how)"
  shows "home_release_listed e detail since how country"
proof -
  have "(since, how) \<in> set (List.map_filter (home_release e today) releases)"
    using assms(2) by (auto simp: latest_home_release_def dest!: max_by_mem)
  then obtain r where "r \<in> set releases" "home_release e today r = Some (since, how)"
    by (auto simp: mem_map_filter)
  with home_release_entry[of e today r since how] assms(1) show ?thesis
    unfolding home_release_listed_def by blast
qed

lemma film_release_listed:
  assumes "film_release e detail here today = Some (since, how, country)"
  shows "home_release_listed e detail since how country \<and> (country = here \<or> country_releases detail here = None)"
proof (cases "country_releases detail here")
  case (Some releases)
  with assms show ?thesis by (auto simp: film_release_def intro: latest_home_release_listed)
next
  case None
  then obtain releases where "country_releases detail country = Some releases"
      "latest_home_release e releases today = Some (since, how)"
    using assms by (auto simp: film_release_def home_release_elsewhere_def mem_map_filter bind_eq_Some_conv
        split: if_splits dest!: max_by_mem)
  with None show ?thesis by (auto intro: latest_home_release_listed)
qed

lemma assembled_fields:
  "assembled e detail kind since how country market = Some a \<Longrightarrow>
     wt_kind a = kind \<and> wt_since a = since \<and> wt_how a = how \<and> wt_market a = country \<and> is_title_id (wt_imdb_id a)
     \<and> imdb_id detail = Some (wt_imdb_id a) \<and> detail_title detail kind = Some (wt_title a)"
  by (auto simp: assembled_def imdb_id_def option_filter_def bind_eq_Some_conv split: option.splits if_splits)

lemma available_film_home:
  assumes "tmdb_detail e ''movie'' i key market = Inr detail" and "available_film e detail market today = Some a"
  shows "came_home e key market today a"
proof -
  obtain since how country where rel: "film_release e detail (mk_region market) today = Some (since, how, country)"
    and win: "within_window since today" and a: "assembled e detail ''movie'' since how country market = Some a"
    using assms(2) by (auto simp: available_film_def split: option.splits if_splits)
  show ?thesis
    unfolding came_home_def
    using film_release_listed[OF rel] assembled_fields[OF a] assms(1) win
    by (auto simp: within_window_def AVAILABILITY_WINDOW_DAYS_def)
qed

lemma available_series_home:
  assumes "tmdb_detail e ''tv'' i key market = Inr detail" and "available_series e detail market today = Some a"
  shows "came_home e key market today a"
proof -
  obtain since where "day e (json_get ''first_air_date'' detail) = Some since"
    and "within_window since today" and a: "assembled e detail ''series'' since ''aired'' (mk_region market) market = Some a"
    using assms(2) by (auto simp: available_series_def split: option.splits if_splits)
  then show ?thesis
    unfolding came_home_def
    using assembled_fields[OF a] assms(1) by (auto simp: within_window_def AVAILABILITY_WINDOW_DAYS_def)
qed

lemma details_of_mem:
  assumes "a \<in> set (details_of e kind api_key market f ids)"
  shows "\<exists>i detail. tmdb_detail e kind i api_key market = Inr detail \<and> f detail = Some a"
proof -
  obtain i where i: "(case tmdb_detail e kind i api_key market of Inl _ \<Rightarrow> None | Inr detail \<Rightarrow> f detail) = Some a"
    using assms by (auto simp: details_of_def mem_map_filter)
  then show ?thesis by (cases "tmdb_detail e kind i api_key market") auto
qed

lemma films_home: "films e key market today = Inr fs \<Longrightarrow> a \<in> set fs \<Longrightarrow> came_home e key market today a"
  by (cases "tmdb_get_json e (tmdb_request_of ''/discover/movie''
         [(''sort_by'', ''primary_release_date.desc''), (''include_adult'', ''false''), (''with_release_type'', ''4|5''),
          (''region'', mk_region market), (''language'', mk_language market),
          (''release_date.gte'', window_start e today), (''release_date.lte'', tf_day_text e today)] key) ''the film release list''")
    (auto simp: films_def dest!: details_of_mem intro: available_film_home)

lemma series_home: "series e key market today = Inr ss \<Longrightarrow> a \<in> set ss \<Longrightarrow> came_home e key market today a"
  by (cases "tmdb_get_json e (tmdb_request_of ''/discover/tv''
         [(''sort_by'', ''first_air_date.desc''), (''include_adult'', ''false''), (''language'', mk_language market),
          (''first_air_date.gte'', window_start e today), (''first_air_date.lte'', tf_day_text e today)] key) ''the series release list''")
    (auto simp: series_def dest!: details_of_mem intro: available_series_home)

text \<open>The country and the language the titles are asked for.\<close>

definition home_market :: "('f, 'x) tmdb_feed_scheme \<Rightarrow> market" where
  "home_market e = \<lparr>mk_region = region (tf_var e), mk_language = language (tf_var e)\<rparr>"

lemma arrivals_came_home:
  assumes "NewArrivalsProvider_discover e fault db today = Inr records"
  shows "length records \<le> NEW_ARRIVALS_LIMIT"
    and "r \<in> set records \<Longrightarrow> \<exists>c a. TmdbRepository_credentials fault db = Inr (Some c)
      \<and> came_home e (tc_api_key c) (home_market e) today a
      \<and> r = (arrival_record e a)\<lparr>cr_launch_id := desktop_entry_for_stremio (tf_ask e)\<rparr>"
proof -
  let ?launched = "\<lambda>titles. with_launch (desktop_entry_for_stremio (tf_ask e)) (newest_arrivals e titles)"
  let ?home = "\<lambda>a. \<exists>c. TmdbRepository_credentials fault db = Inr (Some c) \<and> came_home e (tc_api_key c) (home_market e) today a"
  have "\<exists>titles. records = ?launched titles \<and> (\<forall>a\<in>set titles. ?home a)"
  proof (cases "TmdbRepository_credentials fault db = Inr None")
    case True
    then show ?thesis
      using assms by (intro exI[of _ "[]"]) (simp add: NewArrivalsProvider_discover_def with_launch_def newest_arrivals_def most_popular_def)
  next
    case False
    then obtain c where c: "TmdbRepository_credentials fault db = Inr (Some c)"
      using assms by (cases "TmdbRepository_credentials fault db") (auto simp: NewArrivalsProvider_discover_def)
    let ?read = "\<lambda>r. case r of Inl _ \<Rightarrow> [] | Inr titles \<Rightarrow> titles"
    let ?titles = "?read (films e (tc_api_key c) (home_market e) today) @ ?read (series e (tc_api_key c) (home_market e) today)"
    have "records = ?launched ?titles"
      using assms c by (auto simp: NewArrivalsProvider_discover_def Let_def home_market_def split: sum.splits)
    moreover have "\<forall>a\<in>set ?titles. came_home e (tc_api_key c) (home_market e) today a"
      by (auto split: sum.splits intro: films_home[OF sym] series_home[OF sym])
    ultimately show ?thesis using c by blast
  qed
  then obtain titles where "records = ?launched titles" and home: "\<forall>a\<in>set titles. ?home a" by blast
  moreover have "set (take n (most_popular titles)) \<subseteq> set titles" for n
    using set_take_subset[of n "most_popular titles"] by (simp add: most_popular_def)
  ultimately show "length records \<le> NEW_ARRIVALS_LIMIT"
    and "r \<in> set records \<Longrightarrow> \<exists>c a. TmdbRepository_credentials fault db = Inr (Some c)
      \<and> came_home e (tc_api_key c) (home_market e) today a
      \<and> r = (arrival_record e a)\<lparr>cr_launch_id := desktop_entry_for_stremio (tf_ask e)\<rparr>"
    by (fastforce simp: with_launch_def newest_arrivals_def)+
qed

lemma title_id_chars: "is_title_id i \<Longrightarrow> c \<in> set i \<Longrightarrow> c = CHR ''t'' \<or> is_ascii_digit c"
  by (auto simp: is_title_id_def list_all_iff split: option.splits)

lemma trim_no_space:
  assumes "\<forall>c\<in>set s. \<not> is_whitespace c"
  shows "trim s = s"
proof -
  have "dropWhile is_whitespace s = s" if "\<forall>c\<in>set s. \<not> is_whitespace c" for s using that by (cases s) auto
  from this[of s] this[of "rev s"] show ?thesis using assms by (simp add: trim_def)
qed

lemma title_id_clean: "is_title_id i \<Longrightarrow> trim i = i \<and> i \<noteq> [] \<and> split (CHR '':'') i = [i]"
proof -
  assume i: "is_title_id i"
  have "\<not> is_whitespace c" if "c = CHR ''t'' \<or> is_ascii_digit c" for c
    using that by (auto simp: is_whitespace_def is_ascii_digit_def less_eq_char_def)
  moreover have "\<not> is_ascii_digit (CHR '':'')" by code_simp
  moreover have "i \<noteq> []" using i by (auto simp: is_title_id_def strip_prefix_def)
  ultimately show ?thesis using title_id_chars[OF i] by (auto intro!: trim_no_space split_clean)
qed

lemma imdb_id_of_title: "is_title_id i \<Longrightarrow> is_imdb_id i \<longleftrightarrow> length i \<le> 12"
  by (cases "strip_prefix ''tt'' i") (auto simp: is_title_id_def is_imdb_id_def strip_prefix_def split: if_splits)

lemma arrival_uri:
  assumes "is_title_id i" and "length i \<le> 12"
  shows "stremio_detail_uri i media = Inr (''stremio:///detail/'' @ StremioMediaType_as_str media @ ''/'' @ i)"
  using assms imdb_id_of_title[OF assms(1)] title_id_clean[OF assms(1)] by (simp add: stremio_detail_uri_def)

text \<open>What a provider stored about an item is served under the key the launch plan reads.\<close>

lemma json_get_set_other: "k \<noteq> k' \<Longrightarrow> json_get k (json_set k' v j) = json_get k j"
proof (cases j)
  case (JObject kvs)
  then show "k \<noteq> k' \<Longrightarrow> ?thesis" by (induction kvs arbitrary: j) auto
qed simp_all

lemma served_discovery: "json_get ''discovery'' (ci_metadata (catalog_item_from_row db row)) = Some (li_metadata row)"
  by (cases "form_factor_of db row") (simp_all add: catalog_item_from_row_def merged_metadata_def Let_def json_get_set_other)

text \<open>
  C18: everything on the arrivals banner can be watched at home and opens. After a refresh of the
  arrivals, each of their rows that has a desktop entry is the record of a title whose detail TMDB
  answered, and by that detail the title came home within the last sixty days and not later than
  today: a film by a digital or physical release listed on that day, a series by its first episode.
  The row shows that day and kind of release; it is planned as a Stremio launch of that title; and
  when its IMDb id has at most ten digits the bridge turns the request into the address of the
  title's own page, as a film or as a series.
\<close>

theorem arrivals_are_home_and_open:
  fixes e :: "('f :: linorder, 'x) tmdb_feed_scheme"
  assumes "keyed li_id (library_items cat)"
    and "discover_source STREMIO_ARRIVALS (NewArrivalsProvider_discover e fault db today) None describe (cat, events)
      = (Inr n, cat', events')"
    and "row \<in> set (library_items cat')" and "li_source_id row = STREMIO_ARRIVALS" and "li_launch_id row = Some app"
  shows "n \<le> 10 \<and> (\<exists>c (a :: 'f available) media. TmdbRepository_credentials fault db = Inr (Some c)
    \<and> came_home e (tc_api_key c) (home_market e) today a
    \<and> row = library_row_of STREMIO_ARRIVALS ((arrival_record e a)\<lparr>cr_launch_id := Some app\<rparr>)
    \<and> map_option lp_request (launch_catalog (catalog_item_from_row cat' row) i prof)
        = Some (LaunchStremioTitle app (wt_imdb_id a) media i prof)
    \<and> (length (wt_imdb_id a) \<le> 12 \<longrightarrow>
        stremio_detail_uri (wt_imdb_id a) media = Inr (''stremio:///detail/'' @ wt_kind a @ ''/'' @ wt_imdb_id a)))"
proof -
  obtain records u where records: "NewArrivalsProvider_discover e fault db today = Inr records" and n: "n = length records"
    and replaced: "CatalogStore_replace_source None STREMIO_ARRIVALS records cat = (Inr u, cat')"
    using assms(2) by (auto simp: discover_source_def split: sum.splits prod.splits)
  obtain r where r: "r \<in> set records" "row = library_row_of STREMIO_ARRIVALS r"
    using published_rows[OF assms(1) replaced assms(3,4)] by blast
  obtain c and a :: "'f available" where c: "TmdbRepository_credentials fault db = Inr (Some c)"
    and home: "came_home e (tc_api_key c) (home_market e) today a"
    and a: "r = (arrival_record e a)\<lparr>cr_launch_id := desktop_entry_for_stremio (tf_ask e)\<rparr>"
    using arrivals_came_home(2)[OF records r(1)] by blast
  have title: "is_title_id (wt_imdb_id a)" using home by (simp add: came_home_def)
  let ?media = "if wt_kind a = ''series'' then Series else Movie"
  have "json_get ''video_id'' (li_metadata row) = Some (JString (wt_imdb_id a))" "json_get ''type'' (li_metadata row) = Some (JString (wt_kind a))"
    by (simp_all add: r(2) a library_row_of_def arrival_record_def Let_def)
  then have target: "stremio_title_target (catalog_item_from_row cat' row) = Some (wt_imdb_id a, ?media)"
    using title_id_clean[OF title] by (simp add: stremio_title_target_def served_discovery option_filter_def)
  have served: "ci_source_id (catalog_item_from_row cat' row) = STREMIO_ARRIVALS" "ci_launch_id (catalog_item_from_row cat' row) = Some app"
    using assms(4,5) by (simp_all add: catalog_item_from_row_def Let_def)
  have "map_option lp_request (launch_catalog (catalog_item_from_row cat' row) i prof) = Some (LaunchStremioTitle app (wt_imdb_id a) ?media i prof)"
    by (simp add: launch_catalog_def served target Let_def) (simp add: HEROIC_def STREMIO_ARRIVALS_def)
  moreover have "StremioMediaType_as_str ?media = wt_kind a" using home by (auto simp: came_home_def)
  moreover have "row = library_row_of STREMIO_ARRIVALS ((arrival_record e a)\<lparr>cr_launch_id := Some app\<rparr>)"
    using assms(5) by (simp add: r(2) a library_row_of_def)
  moreover have "n \<le> 10" using arrivals_came_home(1)[OF records] by (simp add: n NEW_ARRIVALS_LIMIT_def)
  ultimately show ?thesis using c home arrival_uri[OF title, of ?media] by metis
qed

text \<open>A series that aired today, on a host with Stremio, while the film list cannot be read.\<close>

definition demo_series :: json where
  "demo_series = JObject [(''external_ids'', JObject [(''imdb_id'', JString ''tt77'')]), (''name'', JString ''A''), (''first_air_date'', JString ''d'')]"

definition demo_tmdb :: "int tmdb_feed" where
  "demo_tmdb = \<lparr>tf_send = (\<lambda>q. if tq_url q = TMDB_URL @ ''/discover/movie'' then TmdbUnreachable [] else TmdbReply 200 ''200 OK'' (tq_url q)),
     tf_parse = (\<lambda>u. Some (if u = TMDB_URL @ ''/discover/tv'' then JObject [(''results'', JArray [JObject [(''id'', JNumber ''7'')]])] else demo_series)),
     tf_f64 = (\<lambda>_. 0), tf_zero = 0, tf_f64_text = (\<lambda>_. ''0''), tf_day = (\<lambda>_. Some 100), tf_instant_day = (\<lambda>_. None),
     tf_day_text = (\<lambda>_. ''d''), tf_year = id, tf_var = Map.empty, tf_ask = (\<lambda>_. Inr (Applications DESKTOP_APPS [demo_stremio_app]))\<rparr>"

definition demo_tmdb_settings :: settings_db where
  "demo_tmdb_settings = demo_account\<lparr>tmdb_settings_table := Some \<lparr>ts_api_key = ''k'', ts_updated_at = ''t''\<rparr>\<rparr>"

lemma demo_arrivals: "\<exists>a. NewArrivalsProvider_discover demo_tmdb None demo_tmdb_settings 100
    = Inr [(arrival_record demo_tmdb a)\<lparr>cr_launch_id := Some ''s.desktop''\<rparr>]"
proof -
  let ?m = "\<lparr>mk_region = region (tf_var demo_tmdb), mk_language = language (tf_var demo_tmdb)\<rparr>"
  have i: "json_nat (JNumber ''7'') = Some 7" by (simp add: json_nat_def is_ascii_digit_def nat_of_digits_def less_eq_char_def)
  have "imdb_id demo_series = Some ''tt77''" "detail_title demo_series ''series'' = Some ''A''" by code_simp+
  moreover have "day demo_tmdb (json_get ''first_air_date'' demo_series) = Some 100" by code_simp
  ultimately obtain a where a: "available_series demo_tmdb demo_series ?m 100 = Some a"
    by (simp add: available_series_def assembled_def within_window_def)
  have films: "films demo_tmdb key market 100 = Inl (''could not reach TMDB for '' @ ''the film release list'' @ '': '')" for key market
    by (simp add: films_def tmdb_get_json_def tmdb_request_of_def demo_tmdb_def)
  have "series demo_tmdb key ?m 100 = Inr [a]" for key
  proof -
    have page: "tmdb_get_json demo_tmdb (tmdb_request_of ''/discover/tv'' params key) what
        = Inr (JObject [(''results'', JArray [JObject [(''id'', JNumber ''7'')]])])" for params what
      by (simp add: tmdb_get_json_def tmdb_request_of_def demo_tmdb_def TMDB_URL_def)
    have detail: "tmdb_detail demo_tmdb ''tv'' n key ?m = Inr demo_series" for n
      by (simp add: tmdb_detail_def tmdb_get_json_def tmdb_request_of_def demo_tmdb_def TMDB_URL_def)
    show ?thesis
      by (simp add: series_def page candidate_ids_def array_at_def unwrap_or_def map_filter_simps i details_of_def detail a CANDIDATES_PER_TYPE_def)
  qed
  moreover have "desktop_entry_for_stremio (tf_ask demo_tmdb) = Some ''s.desktop''"
    by (simp add: desktop_entry_for_stremio_def demo_tmdb_def demo_pick)
  ultimately show ?thesis
    using films
    by (intro exI[of _ a]) (simp add: NewArrivalsProvider_discover_def TmdbRepository_credentials_def demo_tmdb_settings_def Let_def
        with_launch_def newest_arrivals_def most_popular_def NEW_ARRIVALS_LIMIT_def)
qed

theorem arrivals_are_home_and_open_witness:
  "\<exists>n cat' events' row c (a :: int available) media.
    discover_source STREMIO_ARRIVALS (NewArrivalsProvider_discover demo_tmdb None demo_tmdb_settings 100) None (\<lambda>_. [])
      (\<lparr>library_items = [], catalog_enrichments = [], item_traits = []\<rparr>, []) = (Inr n, cat', events')
    \<and> row \<in> set (library_items cat') \<and> TmdbRepository_credentials None demo_tmdb_settings = Inr (Some c)
    \<and> came_home demo_tmdb (tc_api_key c) (home_market demo_tmdb) 100 a
    \<and> row = library_row_of STREMIO_ARRIVALS ((arrival_record demo_tmdb a)\<lparr>cr_launch_id := Some ''s.desktop''\<rparr>)
    \<and> map_option lp_request (launch_catalog (catalog_item_from_row cat' row) ''s'' input_profile.Native)
        = Some (LaunchStremioTitle ''s.desktop'' (wt_imdb_id a) media ''s'' input_profile.Native)"
proof -
  let ?cat = "\<lparr>library_items = [], catalog_enrichments = [], item_traits = []\<rparr>"
  obtain r where r: "NewArrivalsProvider_discover demo_tmdb None demo_tmdb_settings 100 = Inr [r]" "cr_launch_id r = Some ''s.desktop''"
    using demo_arrivals by auto
  let ?row = "library_row_of STREMIO_ARRIVALS r"
  let ?cat' = "\<lparr>library_items = [?row], catalog_enrichments = [], item_traits = []\<rparr>"
  have run: "discover_source STREMIO_ARRIVALS (NewArrivalsProvider_discover demo_tmdb None demo_tmdb_settings 100) None (\<lambda>_. []) (?cat, [])
      = (Inr 1, ?cat', [LibraryChanged STREMIO_ARRIVALS 1])"
    by (simp add: r(1) discover_source_def CatalogStore_replace_source_def upsert_row_def)
  have "keyed li_id (library_items ?cat)" by simp
  note home = arrivals_are_home_and_open[OF this run, of ?row "''s.desktop''" "''s''" input_profile.Native]
  have row: "?row \<in> set (library_items ?cat')" "li_source_id ?row = STREMIO_ARRIVALS" "li_launch_id ?row = Some ''s.desktop''"
    using r(2) by (simp_all add: library_row_of_def)
  from home[OF row]
  have "\<exists>c (a :: int available) media. TmdbRepository_credentials None demo_tmdb_settings = Inr (Some c)
      \<and> came_home demo_tmdb (tc_api_key c) (home_market demo_tmdb) 100 a
      \<and> ?row = library_row_of STREMIO_ARRIVALS ((arrival_record demo_tmdb a)\<lparr>cr_launch_id := Some ''s.desktop''\<rparr>)
      \<and> map_option lp_request (launch_catalog (catalog_item_from_row ?cat' ?row) ''s'' input_profile.Native)
          = Some (LaunchStremioTitle ''s.desktop'' (wt_imdb_id a) media ''s'' input_profile.Native)"
    by blast
  then show ?thesis using run by (metis list.set_intros(1) catalog_db.select_convs(1))
qed

text \<open>
  The provider and the bridge do not apply the same rule to an IMDb id: the bridge also bounds its
  length, so a title with a longer id is drawn on the banner and refused when it is opened.
\<close>

lemma long_title_id_is_refused:
  "is_title_id ''tt12345678901''" "stremio_detail_uri ''tt12345678901'' Movie = Inl ''a video id must be an IMDb id''"
  by code_simp+

end
