(* ===== verification/Enrichment_Appstream.thy ===== *)
theory Enrichment_Appstream
  imports Daemon_Catalog Categorizer_Settings
begin

text \<open>
  The metadata provider that reads installed AppStream files,
  \<^verbatim>\<open>hearthdeck-daemon/src/enrichment/providers/appstream_local.rs\<close>. The XML library is the record
  \<open>xml_library\<close>: parsing to a root node, and what a node answers; directories and files are
  functions of their path.
\<close>

record 'n xml_library =
  xl_parse :: "string \<Rightarrow> string + 'n"
  xl_descendants :: "'n \<Rightarrow> 'n list"
  xl_children :: "'n \<Rightarrow> 'n list"
  xl_has_tag :: "'n \<Rightarrow> string \<Rightarrow> bool"
  xl_text :: "'n \<Rightarrow> string option"
  xl_attribute :: "'n \<Rightarrow> string \<Rightarrow> string option"

text \<open>A directory is unreadable, or lists paths until its end or an error.\<close>

record appstream_env =
  as_read_dir :: "string \<Rightarrow> (string list \<times> string option) option"
  as_read_file :: "string \<Rightarrow> string + string"
  as_var :: "string \<rightharpoonup> string"
  as_now :: string

section \<open>Reading a component\<close>

definition trimmed :: "string option \<Rightarrow> string option" where
  "trimmed t = option_filter (\<lambda>s. s \<noteq> []) (map_option trim t)"

definition child_text :: "('n, 'x) xml_library_scheme \<Rightarrow> 'n \<Rightarrow> string \<Rightarrow> string option" where
  "child_text x component tag =
     trimmed (Option.bind (find (\<lambda>n. xl_has_tag x n tag) (xl_children x component)) (xl_text x))"

definition tagged :: "('n, 'x) xml_library_scheme \<Rightarrow> 'n \<Rightarrow> string \<Rightarrow> 'n list" where
  "tagged x component tag = filter (\<lambda>n. xl_has_tag x n tag) (xl_descendants x component)"

definition tagged_texts :: "('n, 'x) xml_library_scheme \<Rightarrow> 'n \<Rightarrow> string \<Rightarrow> string list" where
  "tagged_texts x component tag = List.map_filter (\<lambda>n. trimmed (xl_text x n)) (tagged x component tag)"

definition description_text :: "('n, 'x) xml_library_scheme \<Rightarrow> 'n \<Rightarrow> string option" where
  "description_text x component =
     trimmed (Option.bind (find (\<lambda>n. xl_has_tag x n ''description'') (xl_descendants x component)) (\<lambda>d.
       Option.bind (find (\<lambda>n. xl_has_tag x n ''p'') (xl_descendants x d)) (xl_text x)))"

text \<open>A map ordered by key; a later URL of a type replaces an earlier one.\<close>

definition component_urls :: "('n, 'x) xml_library_scheme \<Rightarrow> 'n \<Rightarrow> (string \<times> json) list" where
  "component_urls x component =
     (let pairs = List.map_filter (\<lambda>n. Option.bind (xl_attribute x n ''type'') (\<lambda>t.
            map_option (\<lambda>u. (t, trim u)) (xl_text x n))) (tagged x component ''url'')
      in map (\<lambda>k. (k, JString (the (map_of (rev pairs) k)))) (sort (remdups (map fst pairs))))"

definition parse_component :: "('n, 'x) xml_library_scheme \<Rightarrow> string \<Rightarrow> string \<Rightarrow> string + enrichment_record" where
  "parse_component x now xml =
     (case xl_parse x xml of
        Inl err \<Rightarrow> Inl err
      | Inr document \<Rightarrow>
     (case find (\<lambda>n. xl_has_tag x n ''component'') (xl_descendants x document) of
        None \<Rightarrow> Inl ''AppStream document has no component''
      | Some component \<Rightarrow>
     (case child_text x component ''id'' of
        None \<Rightarrow> Inl ''AppStream component has no id''
      | Some primary_id \<Rightarrow> Inr
          \<lparr>er_application_ids = push_new (push_new [primary_id] (tagged_texts x component ''id'')) (tagged_texts x component ''launchable''),
           er_priority = 100,
           er_payload = JObject
             [(''summary'', json_opt (child_text x component ''summary'')),
              (''description'', json_opt (description_text x component)),
              (''developer'', json_opt (child_text x component ''developer_name'')),
              (''project_license'', json_opt (child_text x component ''project_license'')),
              (''categories'', JArray (map JString (tagged_texts x component ''category''))),
              (''urls'', JObject (component_urls x component)),
              (''icon'', json_opt (trimmed (Option.bind (find (\<lambda>n. xl_has_tag x n ''icon'') (xl_descendants x component)) (xl_text x)))),
              (''screenshots'', JArray (map JString (List.map_filter (\<lambda>n. trimmed (xl_text x n))
                 (filter (\<lambda>n. xl_attribute x n ''type'' = Some ''source'') (tagged x component ''image''))))),
              (''provenance'', JString ''appstream-local'')],
           er_updated_at = now\<rparr>)))"

section \<open>The provider\<close>

definition is_metainfo_file :: "string \<Rightarrow> bool" where
  "is_metainfo_file path =
     (case file_name path of None \<Rightarrow> False | Some n \<Rightarrow> ends_with ''.metainfo.xml'' n \<or> ends_with ''.appdata.xml'' n)"

definition metainfo_and_appdata :: "string \<Rightarrow> string list" where
  "metainfo_and_appdata d = [path_join d ''metainfo'', path_join d ''appdata'']"

definition appstream_directories :: "(string \<rightharpoonup> string) \<Rightarrow> string list" where
  "appstream_directories var =
     (case var ''XDG_DATA_HOME'' of
        Some data_home \<Rightarrow> metainfo_and_appdata data_home
      | None \<Rightarrow> (case var ''HOME'' of Some home \<Rightarrow> metainfo_and_appdata (path_join home ''.local/share'') | None \<Rightarrow> []))
     @ concat (map metainfo_and_appdata (split (CHR '':'') (unwrap_or ''/usr/local/share:/usr/share'' (var ''XDG_DATA_DIRS''))))"

definition parse_metainfo_file :: "('n, 'x) xml_library_scheme \<Rightarrow> ('y) appstream_env_scheme \<Rightarrow> string \<Rightarrow> string + enrichment_record" where
  "parse_metainfo_file x e path =
     (case as_read_file e path of Inl err \<Rightarrow> Inl err | Inr xml \<Rightarrow> parse_component x (as_now e) xml)"

definition directory_records :: "('n, 'x) xml_library_scheme \<Rightarrow> ('y) appstream_env_scheme \<Rightarrow> string list \<Rightarrow> enrichment_record list" where
  "directory_records x e paths =
     List.map_filter (\<lambda>p. if is_metainfo_file p
       then (case parse_metainfo_file x e p of Inl _ \<Rightarrow> None | Inr r \<Rightarrow> Some r) else None) paths"

fun enrich_from ::
  "('n, 'x) xml_library_scheme \<Rightarrow> ('y) appstream_env_scheme \<Rightarrow> string list \<Rightarrow> enrichment_record list \<Rightarrow> string + enrichment_record list" where
  "enrich_from x e [] records = Inr records"
| "enrich_from x e (d # ds) records =
     (case as_read_dir e d of
        None \<Rightarrow> enrich_from x e ds records
      | Some (_, Some err) \<Rightarrow> Inl err
      | Some (paths, None) \<Rightarrow> enrich_from x e ds (records @ directory_records x e paths))"

definition AppStreamLocalProvider_enrich ::
  "('n, 'x) xml_library_scheme \<Rightarrow> ('y) appstream_env_scheme \<Rightarrow> string + enrichment_record list" where
  "AppStreamLocalProvider_enrich x e = enrich_from x e (appstream_directories (as_var e)) []"

section \<open>What a record names\<close>

lemma push_new_spec:
  "distinct acc \<Longrightarrow> distinct (push_new acc vs) \<and> set (push_new acc vs) = set acc \<union> set vs \<and> (\<exists>more. push_new acc vs = acc @ more)"
proof (induction vs arbitrary: acc)
  case (Cons v vs)
  show ?case
  proof (cases "v \<in> set acc")
    case True
    then show ?thesis using Cons.IH[OF Cons.prems] by auto
  next
    case False
    then have "distinct (acc @ [v])" using Cons.prems by simp
    from Cons.IH[OF this] False show ?thesis by auto
  qed
qed simp

lemma trimmed_nonempty: "trimmed t = Some s \<Longrightarrow> s \<noteq> []"
  by (cases t) (auto simp: trimmed_def option_filter_def split: if_splits)

text \<open>
  A record names each application once: its own id first, then the other ids and the launchable
  entries of the component, none of them blank.
\<close>

lemma component_ids:
  assumes "parse_component x now xml = Inr r"
  shows "distinct (er_application_ids r) \<and> [] \<notin> set (er_application_ids r)
    \<and> (\<exists>component. child_text x component ''id'' = Some (hd (er_application_ids r))
        \<and> set (er_application_ids r) = {hd (er_application_ids r)} \<union> set (tagged_texts x component ''id'') \<union> set (tagged_texts x component ''launchable''))"
proof -
  obtain component i where i: "child_text x component ''id'' = Some i"
    and ids: "er_application_ids r = push_new (push_new [i] (tagged_texts x component ''id'')) (tagged_texts x component ''launchable'')"
    using assms by (auto simp: parse_component_def split: sum.splits option.splits)
  have texts: "[] \<notin> set (tagged_texts x component tag)" for tag
    using trimmed_nonempty by (force simp: tagged_texts_def List.map_filter_def)
  have i_nonempty: "i \<noteq> []" using i trimmed_nonempty by (auto simp: child_text_def)
  note one = push_new_spec[of "[i]" "tagged_texts x component ''id''", simplified]
  note two = push_new_spec[of "push_new [i] (tagged_texts x component ''id'')" "tagged_texts x component ''launchable''"]
  have hd: "hd (er_application_ids r) = i" using one two ids by auto
  then show ?thesis using one two texts i i_nonempty ids by auto
qed

end
