(* ===== verification/Console_Pages.thy ===== *)
theory Console_Pages
  imports Rust_Iterators Prelude "HOL-Library.AList"
begin

text \<open>
  The pages of the console grid, \<^verbatim>\<open>hearthdeck-frontend/src/screens/library/console.rs\<close>: one log of
  pages per scope, the generations that keep a late answer out of a log it does not belong to, the
  background prefetch and the bound on the cache; and the requests \<^verbatim>\<open>app/console_source.rs\<close> makes with
  them. The map of scopes is an association list: its order matters only to break a tie of stamps,
  and no two logs carry the same stamp (\<open>stamps_distinct\<close>). Grid items and version lists are
  type parameters; the geometry that decides whether the end is on screen is a function of the number
  of items. Offsets are 32-bit: the next one is reduced as the cast does.
\<close>

definition MAX_PREFETCH_INFLIGHT :: nat where "MAX_PREFETCH_INFLIGHT = 3"
definition MAX_NARROWED_SCOPES :: nat where "MAX_NARROWED_SCOPES = 8"

record console_scope =
  scope_platform :: "int option"
  scope_search :: string
  scope_facets :: "(string \<times> string) list"

definition ConsoleScope_plain :: "int option \<Rightarrow> console_scope" where
  "ConsoleScope_plain p = \<lparr>scope_platform = p, scope_search = [], scope_facets = []\<rparr>"

definition is_plain :: "console_scope \<Rightarrow> bool" where
  "is_plain s \<longleftrightarrow> scope_search s = [] \<and> scope_facets s = []"

record ('i, 'v) console_page =
  page_entries :: "'i list"
  page_versions :: "(string \<times> 'v list) list"
  page_total :: nat
  page_offset :: nat

section \<open>One scope's log\<close>

record ('i, 'v) console_listing =
  ls_entries :: "'i list"
  ls_versions :: "(string \<times> 'v list) list"
  ls_next_offset :: "nat option"
  ls_pending :: "nat option"
  ls_generation :: nat
  ls_loaded :: bool
  ls_used :: nat

definition ConsoleListing_default :: "('i, 'v) console_listing" where
  "ConsoleListing_default = \<lparr>ls_entries = [], ls_versions = [], ls_next_offset = None, ls_pending = None,
     ls_generation = 0, ls_loaded = False, ls_used = 0\<rparr>"

definition ConsoleListing_versions :: "string \<Rightarrow> ('i, 'v) console_listing \<Rightarrow> 'v list" where
  "ConsoleListing_versions entry_id log = (case map_of (ls_versions log) entry_id of None \<Rightarrow> [] | Some vs \<Rightarrow> vs)"

definition ConsoleListing_start ::
  "nat \<Rightarrow> nat \<Rightarrow> ('i, 'v) console_listing \<Rightarrow> nat option \<times> ('i, 'v) console_listing" where
  "ConsoleListing_start offset generation log =
     (if 0 < offset \<and> ls_pending log \<noteq> None then (None, log)
      else let log = (if offset = 0 then log\<lparr>ls_generation := generation, ls_next_offset := None\<rparr> else log) in
        (Some (ls_generation log), log\<lparr>ls_pending := Some (ls_generation log)\<rparr>))"

definition ConsoleListing_apply ::
  "nat \<Rightarrow> ('i, 'v) console_page \<Rightarrow> ('i, 'v) console_listing \<Rightarrow> bool \<times> ('i, 'v) console_listing" where
  "ConsoleListing_apply generation page log =
     (if generation \<noteq> ls_generation log then (False, log)
      else
        let log = log\<lparr>ls_pending := None, ls_loaded := True\<rparr>;
            log = (if page_offset page = 0 then log\<lparr>ls_entries := [], ls_versions := []\<rparr> else log);
            log = log\<lparr>ls_versions := fold (\<lambda>(i, vs) m. AList.update i vs m) (page_versions page) (ls_versions log)\<rparr>;
            loaded = page_offset page + length (page_entries page);
            more = (page_entries page \<noteq> [] \<and> loaded < page_total page) in
        (True, log\<lparr>ls_entries := ls_entries log @ page_entries page,
                   ls_next_offset := (if more then Some (loaded mod 2 ^ 32) else None)\<rparr>))"

definition ConsoleListing_failed :: "nat \<Rightarrow> ('i, 'v) console_listing \<Rightarrow> bool \<times> ('i, 'v) console_listing" where
  "ConsoleListing_failed generation log =
     (if generation \<noteq> ls_generation log then (False, log) else (True, log\<lparr>ls_pending := None\<rparr>))"

definition ConsoleListing_extend_offset :: "(nat \<Rightarrow> bool) \<Rightarrow> ('i, 'v) console_listing \<Rightarrow> nat option" where
  "ConsoleListing_extend_offset end_visible log =
     (case ls_next_offset log of
        None \<Rightarrow> None
      | Some next_page \<Rightarrow>
          if ls_pending log \<noteq> None then None
          else if end_visible (length (ls_entries log)) then Some next_page else None)"

section \<open>The logs of all scopes\<close>

datatype ensured = Cached | Loading | Requested nat

record ('i, 'v) console_scopes =
  cn_scopes :: "(console_scope \<times> ('i, 'v) console_listing) list"
  cn_prefetch :: "console_scope list"
  cn_clock :: nat
  cn_generation :: nat
  cn_source :: nat

definition ConsoleScopes_default :: "('i, 'v) console_scopes" where
  "ConsoleScopes_default = \<lparr>cn_scopes = [], cn_prefetch = [], cn_clock = 0, cn_generation = 0, cn_source = 0\<rparr>"

definition ConsoleScopes_invalidate :: "('i, 'v) console_scopes \<Rightarrow> ('i, 'v) console_scopes" where
  "ConsoleScopes_invalidate st = st\<lparr>cn_source := cn_source st + 1, cn_prefetch := [], cn_scopes := []\<rparr>"

definition ConsoleScopes_entries :: "console_scope \<Rightarrow> ('i, 'v) console_scopes \<Rightarrow> 'i list" where
  "ConsoleScopes_entries s st = (case map_of (cn_scopes st) s of None \<Rightarrow> [] | Some log \<Rightarrow> ls_entries log)"

definition ConsoleScopes_versions :: "console_scope \<Rightarrow> string \<Rightarrow> ('i, 'v) console_scopes \<Rightarrow> 'v list" where
  "ConsoleScopes_versions s entry_id st =
     (case map_of (cn_scopes st) s of None \<Rightarrow> [] | Some log \<Rightarrow> ConsoleListing_versions entry_id log)"

definition put_log ::
  "console_scope \<Rightarrow> ('i, 'v) console_listing \<Rightarrow> ('i, 'v) console_scopes \<Rightarrow> ('i, 'v) console_scopes" where
  "put_log s log st = st\<lparr>cn_scopes := AList.update s log (cn_scopes st)\<rparr>"

definition touch :: "console_scope \<Rightarrow> ('i, 'v) console_scopes \<Rightarrow> ('i, 'v) console_scopes" where
  "touch s st =
     (let st = st\<lparr>cn_clock := cn_clock st + 1\<rparr> in
      case map_of (cn_scopes st) s of
        None \<Rightarrow> st
      | Some log \<Rightarrow> put_log s (log\<lparr>ls_used := cn_clock st\<rparr>) st)"

definition narrowed :: "(console_scope \<times> ('i, 'v) console_listing) list \<Rightarrow> nat" where
  "narrowed scopes = length (filter (\<lambda>(s, _). \<not> is_plain s) scopes)"

definition droppable :: "console_scope \<times> ('i, 'v) console_listing \<Rightarrow> bool" where
  "droppable sl \<longleftrightarrow> \<not> is_plain (fst sl) \<and> ls_pending (snd sl) = None"

lemma delete_shorter: "(s, log) \<in> set al \<Longrightarrow> length (AList.delete s al) < length al"
  unfolding AList.delete_eq by (rule length_filter_less[of "(s, log)"]) auto

function evict_scopes ::
  "(console_scope \<times> ('i, 'v) console_listing) list \<Rightarrow> (console_scope \<times> ('i, 'v) console_listing) list" where
  "evict_scopes scopes =
     (if MAX_NARROWED_SCOPES < narrowed scopes then
        (case min_by (\<lambda>sl. ls_used (snd sl)) (filter droppable scopes) of
           None \<Rightarrow> scopes
         | Some oldest \<Rightarrow> evict_scopes (AList.delete (fst oldest) scopes))
      else scopes)"
  by pat_completeness auto
termination
proof (relation "measure length")
  fix scopes :: "(console_scope \<times> ('i, 'v) console_listing) list" and oldest
  assume "min_by (\<lambda>sl. ls_used (snd sl)) (filter droppable scopes) = Some oldest"
  then have "(fst oldest, snd oldest) \<in> set scopes" using min_by_mem by fastforce
  from delete_shorter[OF this] show "(AList.delete (fst oldest) scopes, scopes) \<in> measure length" by simp
qed simp

declare evict_scopes.simps [simp del]

definition evict :: "('i, 'v) console_scopes \<Rightarrow> ('i, 'v) console_scopes" where
  "evict st = st\<lparr>cn_scopes := evict_scopes (cn_scopes st)\<rparr>"

definition log_or_default :: "console_scope \<Rightarrow> ('i, 'v) console_scopes \<Rightarrow> ('i, 'v) console_listing" where
  "log_or_default s st = (case map_of (cn_scopes st) s of None \<Rightarrow> ConsoleListing_default | Some log \<Rightarrow> log)"

definition ConsoleScopes_begin ::
  "console_scope \<Rightarrow> nat \<Rightarrow> ('i, 'v) console_scopes \<Rightarrow> nat option \<times> ('i, 'v) console_scopes" where
  "ConsoleScopes_begin s offset st =
     (let st = (if offset = 0 then st\<lparr>cn_generation := cn_generation st + 1\<rparr> else st) in
      case ConsoleListing_start offset (cn_generation st) (log_or_default s st) of
        (generation, log) \<Rightarrow> (generation, evict (touch s (put_log s log st))))"

definition ConsoleScopes_ensure :: "console_scope \<Rightarrow> ('i, 'v) console_scopes \<Rightarrow> ensured \<times> ('i, 'v) console_scopes" where
  "ConsoleScopes_ensure s st =
     (let st = touch s st;
          log = map_of (cn_scopes st) s in
      if (case log of None \<Rightarrow> False | Some log \<Rightarrow> ls_loaded log) then (Cached, st)
      else if (case log of None \<Rightarrow> False | Some log \<Rightarrow> ls_pending log \<noteq> None) then (Loading, st)
      else case ConsoleScopes_begin s 0 st of
        (Some generation, st) \<Rightarrow> (Requested generation, st)
      | (None, st) \<Rightarrow> (Loading, st))"

definition ConsoleScopes_apply ::
  "console_scope \<Rightarrow> nat \<Rightarrow> ('i, 'v) console_page \<Rightarrow> ('i, 'v) console_scopes \<Rightarrow> bool \<times> ('i, 'v) console_scopes" where
  "ConsoleScopes_apply s generation page st =
     (case map_of (cn_scopes st) s of
        None \<Rightarrow> (False, st)
      | Some log \<Rightarrow> (case ConsoleListing_apply generation page log of (ok, log) \<Rightarrow> (ok, put_log s log st)))"

definition ConsoleScopes_failed ::
  "console_scope \<Rightarrow> nat \<Rightarrow> ('i, 'v) console_scopes \<Rightarrow> bool \<times> ('i, 'v) console_scopes" where
  "ConsoleScopes_failed s generation st =
     (case map_of (cn_scopes st) s of
        None \<Rightarrow> (False, st)
      | Some log \<Rightarrow> (case ConsoleListing_failed generation log of (ok, log) \<Rightarrow> (ok, put_log s log st)))"

definition ConsoleScopes_extend_offset ::
  "(nat \<Rightarrow> bool) \<Rightarrow> console_scope \<Rightarrow> ('i, 'v) console_scopes \<Rightarrow> nat option" where
  "ConsoleScopes_extend_offset end_visible s st =
     Option.bind (map_of (cn_scopes st) s) (ConsoleListing_extend_offset end_visible)"

definition idle :: "console_scope \<Rightarrow> ('i, 'v) console_scopes \<Rightarrow> bool" where
  "idle s st \<longleftrightarrow>
     (case map_of (cn_scopes st) s of None \<Rightarrow> True | Some log \<Rightarrow> \<not> ls_loaded log \<and> ls_pending log = None)"

fun ConsoleScopes_queue_prefetch :: "int option list \<Rightarrow> ('i, 'v) console_scopes \<Rightarrow> ('i, 'v) console_scopes" where
  "ConsoleScopes_queue_prefetch [] st = st"
| "ConsoleScopes_queue_prefetch (p # ps) st =
     ConsoleScopes_queue_prefetch ps
       (let s = ConsoleScope_plain p in
        if idle s st \<and> s \<notin> set (cn_prefetch st) then st\<lparr>cn_prefetch := cn_prefetch st @ [s]\<rparr> else st)"

definition inflight :: "('i, 'v) console_scopes \<Rightarrow> nat" where
  "inflight st = length (filter (\<lambda>(_, log). ls_pending log \<noteq> None) (cn_scopes st))"

text \<open>The loop pops from the front of the queue, which \<^verbatim>\<open>begin\<close> does not touch.\<close>

fun prefetch_loop ::
  "console_scope list \<Rightarrow> ('i, 'v) console_scopes \<Rightarrow> (console_scope \<times> nat) list \<times> ('i, 'v) console_scopes" where
  "prefetch_loop [] st = ([], st\<lparr>cn_prefetch := []\<rparr>)"
| "prefetch_loop (s # queue) st =
     (if \<not> inflight st < MAX_PREFETCH_INFLIGHT then ([], st\<lparr>cn_prefetch := s # queue\<rparr>)
      else if \<not> idle s st then prefetch_loop queue st
      else case ConsoleScopes_begin s 0 st of
        (None, st) \<Rightarrow> prefetch_loop queue st
      | (Some generation, st) \<Rightarrow>
          (case prefetch_loop queue st of (ready, st) \<Rightarrow> ((s, generation) # ready, st)))"

definition ConsoleScopes_next_prefetch ::
  "('i, 'v) console_scopes \<Rightarrow> (console_scope \<times> nat) list \<times> ('i, 'v) console_scopes" where
  "ConsoleScopes_next_prefetch st = prefetch_loop (cn_prefetch st) st"

end
