(* ===== verification/Console_Props.thy ===== *)
theory Console_Props
  imports Console_Pages "HOL-Library.Sublist"
begin

text \<open>
  Runs of the console grid: scopes are shown and scrolled, tabs are prefetched, requests are
  answered or fail in any order, and the connection is replaced. What a log draws is a beginning of
  the list its source serves for that scope, whatever the interleaving.
\<close>

section \<open>Runs\<close>

type_synonym page_request = "console_scope \<times> nat \<times> nat"

text \<open>
  What happens: a scope is put on screen, scrolled, a request in flight is answered with a page of at
  most so many items or fails, tabs are queued, prefetches handed out, the source is replaced.
\<close>

datatype console_event =
    ShowScope console_scope | ScrollScope console_scope "nat \<Rightarrow> bool" | PageArrives nat nat | PageFails nat
  | QueueTabs "int option list" | PumpPrefetch | RetireSource

text \<open>The source: the list of a scope, for each load of it, and the versions of an item.\<close>

type_synonym 'i source_lists = "nat \<Rightarrow> console_scope \<Rightarrow> 'i list"

definition served_page ::
  "'i source_lists \<Rightarrow> ('i \<Rightarrow> (string \<times> 'v list) option) \<Rightarrow> nat \<Rightarrow> page_request \<Rightarrow> ('i, 'v) console_page" where
  "served_page L W k r =
     (case r of (s, g, offset) \<Rightarrow>
      let items = take (Suc k) (drop offset (L g s)) in
      \<lparr>page_entries = items, page_versions = List.map_filter W items, page_total = length (L g s), page_offset = offset\<rparr>)"

definition drop_nth :: "nat \<Rightarrow> 'a list \<Rightarrow> 'a list" where
  "drop_nth i xs = take i xs @ drop (Suc i) xs"

fun console_step ::
  "'i source_lists \<Rightarrow> ('i \<Rightarrow> (string \<times> 'v list) option) \<Rightarrow> console_event
     \<Rightarrow> ('i, 'v) console_scopes \<times> page_request list \<Rightarrow> ('i, 'v) console_scopes \<times> page_request list" where
  "console_step L W (ShowScope s) (st, reqs) =
     (case ConsoleScopes_ensure s st of
        (Requested g, st) \<Rightarrow> (st, reqs @ [(s, g, 0)])
      | (_, st) \<Rightarrow> (st, reqs))"
| "console_step L W (ScrollScope s end_visible) (st, reqs) =
     (case ConsoleScopes_extend_offset end_visible s st of
        None \<Rightarrow> (st, reqs)
      | Some offset \<Rightarrow>
          (case ConsoleScopes_begin s offset st of
             (None, st) \<Rightarrow> (st, reqs)
           | (Some g, st) \<Rightarrow> (st, reqs @ [(s, g, offset)])))"
| "console_step L W (PageArrives i k) (st, reqs) =
     (if i < length reqs
      then (case reqs ! i of (s, g, offset) \<Rightarrow>
        (snd (ConsoleScopes_apply s g (served_page L W k (reqs ! i)) st), drop_nth i reqs))
      else (st, reqs))"
| "console_step L W (PageFails i) (st, reqs) =
     (if i < length reqs
      then (case reqs ! i of (s, g, offset) \<Rightarrow> (snd (ConsoleScopes_failed s g st), drop_nth i reqs))
      else (st, reqs))"
| "console_step L W (QueueTabs ps) (st, reqs) = (ConsoleScopes_queue_prefetch ps st, reqs)"
| "console_step L W PumpPrefetch (st, reqs) =
     (case ConsoleScopes_next_prefetch st of (ready, st) \<Rightarrow> (st, reqs @ map (\<lambda>(s, g). (s, g, 0)) ready))"
| "console_step L W RetireSource (st, reqs) = (ConsoleScopes_invalidate st, reqs)"

section \<open>Facts about the map of logs\<close>

lemma map_of_put_log [simp]: "map_of (cn_scopes (put_log s log st)) = (map_of (cn_scopes st))(s \<mapsto> log)"
  by (simp add: put_log_def update_conv')

lemma put_log_generation [simp]: "cn_generation (put_log s log st) = cn_generation st"
  by (simp add: put_log_def)

lemma touch_generation [simp]: "cn_generation (touch s st) = cn_generation st"
  by (simp add: touch_def Let_def split: option.splits)

lemma map_of_touch:
  "map_of (cn_scopes (touch s st)) s' = map_option (\<lambda>log. if s' = s then log\<lparr>ls_used := cn_clock st + 1\<rparr> else log) (map_of (cn_scopes st) s')"
  by (cases "map_of (cn_scopes st) s"; cases "map_of (cn_scopes st) s'") (auto simp: touch_def Let_def)

lemma evict_submap: "map_of (evict_scopes al) s = Some log \<Longrightarrow> map_of al s = Some log"
proof (induction al rule: evict_scopes.induct)
  case (1 al)
  show ?case
  proof (cases "MAX_NARROWED_SCOPES < narrowed al")
    case False
    then show ?thesis using 1(2) by (simp add: evict_scopes.simps[of al])
  next
    case True
    show ?thesis
    proof (cases "min_by (\<lambda>sl. ls_used (snd sl)) (filter droppable al)")
      case None
      then show ?thesis using 1(2) by (simp add: evict_scopes.simps[of al] split: if_splits)
    next
      case (Some oldest)
      then show ?thesis using 1(2) 1(1)[OF True Some] True
        by (simp add: evict_scopes.simps[of al] delete_conv' split: if_splits)
    qed
  qed
qed

lemma begin_log:
  assumes "map_of (cn_scopes (snd (ConsoleScopes_begin s offset st))) s' = Some log'"
  shows "\<exists>log u. log' = log\<lparr>ls_used := u\<rparr> \<and> (if s' = s
    then log = snd (ConsoleListing_start offset (cn_generation (snd (ConsoleScopes_begin s offset st))) (log_or_default s st))
    else map_of (cn_scopes st) s' = Some log)"
proof -
  let ?st = "if offset = 0 then st\<lparr>cn_generation := cn_generation st + 1\<rparr> else st"
  obtain g l where start: "ConsoleListing_start offset (cn_generation ?st) (log_or_default s ?st) = (g, l)" by fastforce
  have same: "log_or_default s ?st = log_or_default s st" by (simp add: log_or_default_def)
  have b: "ConsoleScopes_begin s offset st = (g, evict (touch s (put_log s l ?st)))"
    by (simp add: ConsoleScopes_begin_def Let_def start)
  have gen: "cn_generation (snd (ConsoleScopes_begin s offset st)) = cn_generation ?st" by (simp add: b evict_def)
  have "map_of (cn_scopes (touch s (put_log s l ?st))) s' = Some log'"
    using assms evict_submap unfolding b by (auto simp: evict_def)
  then obtain log where log: "map_of (cn_scopes (put_log s l ?st)) s' = Some log"
    and log': "log' = (if s' = s then log\<lparr>ls_used := cn_clock (put_log s l ?st) + 1\<rparr> else log)"
    by (auto simp: map_of_touch)
  have "log' = log\<lparr>ls_used := ls_used log'\<rparr>" using log' by auto
  moreover have "if s' = s then log = l else map_of (cn_scopes st) s' = Some log" using log by (auto split: if_splits)
  ultimately show ?thesis
    using start unfolding gen same by (intro exI[of _ log] exI[of _ "ls_used log'"]) auto
qed

section \<open>The invariant\<close>

definition outstanding :: "page_request list \<Rightarrow> console_scope \<Rightarrow> nat \<Rightarrow> page_request list" where
  "outstanding reqs s g = filter (\<lambda>(s', g', _). s' = s \<and> g' = g) reqs"

text \<open>
  A log that has not answered is empty; one that has holds the list of its load up to the next offset,
  or all of it. It waits exactly when one request of its load is in flight, and that is for the page
  it lacks.
\<close>

definition log_ok :: "'i source_lists \<Rightarrow> page_request list \<Rightarrow> console_scope \<Rightarrow> ('i, 'v) console_listing \<Rightarrow> bool" where
  "log_ok L reqs s log \<longleftrightarrow>
     (let g = ls_generation log; items = L g s in
      (if ls_loaded log
       then (case ls_next_offset log of
               None \<Rightarrow> ls_entries log = items
             | Some n \<Rightarrow> 0 < n \<and> n < length items \<and> ls_entries log = take n items)
       else ls_entries log = [] \<and> ls_next_offset log = None)
      \<and> (case ls_pending log of
           None \<Rightarrow> outstanding reqs s g = []
         | Some g' \<Rightarrow> g' = g \<and> (if ls_loaded log
             then ls_next_offset log \<noteq> None \<and> outstanding reqs s g = [(s, g, the (ls_next_offset log))]
             else outstanding reqs s g = [(s, g, 0)])))"

definition console_inv :: "'i source_lists \<Rightarrow> ('i, 'v) console_scopes \<times> page_request list \<Rightarrow> bool" where
  "console_inv L x \<longleftrightarrow> (case x of (st, reqs) \<Rightarrow>
     (\<forall>s log. map_of (cn_scopes st) s = Some log \<longrightarrow> log_ok L reqs s log \<and> ls_generation log \<le> cn_generation st)
     \<and> (\<forall>(s, g, offset)\<in>set reqs. g \<le> cn_generation st))"

lemma console_invI:
  assumes "\<And>s log. map_of (cn_scopes st) s = Some log \<Longrightarrow> log_ok L reqs s log \<and> ls_generation log \<le> cn_generation st"
    and "\<And>s g offset. (s, g, offset) \<in> set reqs \<Longrightarrow> g \<le> cn_generation st"
  shows "console_inv L (st, reqs)"
  using assms by (auto simp: console_inv_def)

lemma console_inv_log: "console_inv L (st, reqs) \<Longrightarrow> map_of (cn_scopes st) s = Some log \<Longrightarrow> log_ok L reqs s log \<and> ls_generation log \<le> cn_generation st"
  by (simp add: console_inv_def)

lemma console_inv_req: "console_inv L (st, reqs) \<Longrightarrow> (s, g, offset) \<in> set reqs \<Longrightarrow> g \<le> cn_generation st"
  by (auto simp: console_inv_def)

lemma log_ok_unloaded: "log_ok L reqs s log \<Longrightarrow> \<not> ls_loaded log \<Longrightarrow> ls_entries log = [] \<and> ls_next_offset log = None"
  by (simp add: log_ok_def Let_def)

lemma log_ok_used [simp]: "log_ok L reqs s (log\<lparr>ls_used := u\<rparr>) = log_ok L reqs s log"
  by (simp add: log_ok_def Let_def cong: option.case_cong)

lemma outstanding_other: "s \<noteq> s' \<or> g \<noteq> g' \<Longrightarrow> outstanding (reqs @ [(s, g, offset)]) s' g' = outstanding reqs s' g'"
  by (auto simp: outstanding_def)

lemma outstanding_new: "outstanding (reqs @ [(s, g, offset)]) s g = outstanding reqs s g @ [(s, g, offset)]"
  by (simp add: outstanding_def)

lemma log_ok_other:
  "s \<noteq> s' \<or> g \<noteq> ls_generation log \<Longrightarrow> log_ok L (reqs @ [(s, g, offset)]) s' log = log_ok L reqs s' log"
  by (simp add: log_ok_def Let_def outstanding_other cong: option.case_cong)

lemma outstanding_fresh: "console_inv L (st, reqs) \<Longrightarrow> cn_generation st < g \<Longrightarrow> outstanding reqs s g = []"
  by (fastforce simp: console_inv_def outstanding_def filter_empty_conv)

lemma outstanding_drop_nth:
  assumes "i < length reqs" and "reqs ! i = (s, g, offset)"
  shows "outstanding (drop_nth i reqs) s' g' =
    (if s' = s \<and> g' = g then drop_nth (length (outstanding (take i reqs) s g)) (outstanding reqs s g) else outstanding reqs s' g')"
proof -
  have reqs: "reqs = take i reqs @ (s, g, offset) # drop (Suc i) reqs" using assms id_take_nth_drop by metis
  have "outstanding reqs s' g' = outstanding (take i reqs) s' g' @ (if s' = s \<and> g' = g then [(s, g, offset)] else [])
      @ outstanding (drop (Suc i) reqs) s' g'"
    by (subst reqs) (simp add: outstanding_def)
  then show ?thesis by (auto simp: drop_nth_def outstanding_def)
qed

section \<open>Every step keeps it\<close>

lemma begin_first_page:
  fixes st :: "('i, 'v) console_scopes"
  assumes "console_inv L (st, reqs)" and "idle s st"
  shows "\<exists>g st'. ConsoleScopes_begin s 0 st = (Some g, st') \<and> console_inv L (st', reqs @ [(s, g, 0)])"
proof -
  let ?g = "cn_generation st + 1" and ?st' = "snd (ConsoleScopes_begin s 0 st)"
  have b: "ConsoleScopes_begin s 0 st = (Some ?g, ?st')" and gen: "cn_generation ?st' = ?g"
    by (simp_all add: ConsoleScopes_begin_def ConsoleListing_start_def Let_def evict_def)
  have log: "\<not> ls_loaded (log_or_default s st)" "ls_entries (log_or_default s st) = []"
    using assms(2) log_ok_unloaded console_inv_log[OF assms(1), of s]
    by (auto simp: idle_def log_or_default_def ConsoleListing_default_def split: option.splits)
  have fresh: "outstanding reqs s' ?g = []" for s' using assms(1) by (rule outstanding_fresh) simp
  have "log_ok L (reqs @ [(s, ?g, 0)]) s' log' \<and> ls_generation log' \<le> ?g"
    if m: "map_of (cn_scopes ?st') s' = Some log'" for s' log'
  proof -
    obtain lg u where l: "log' = lg\<lparr>ls_used := u\<rparr>" "if s' = s
        then lg = snd (ConsoleListing_start 0 (cn_generation ?st') (log_or_default s st)) else map_of (cn_scopes st) s' = Some lg"
      using begin_log[OF m] by blast
    show ?thesis
    proof (cases "s' = s")
      case True
      then show ?thesis
        using l log fresh[of s] by (simp add: gen ConsoleListing_start_def log_ok_def Let_def outstanding_new)
    next
      case False
      then show ?thesis using l console_inv_log[OF assms(1), of s' lg] by (simp add: log_ok_other)
    qed
  qed
  moreover have "g' \<le> ?g" if "(s', g', offset') \<in> set (reqs @ [(s, ?g, 0)])" for s' g' offset'
    using console_inv_req[OF assms(1), of s' g' offset'] that by auto
  ultimately have "console_inv L (?st', reqs @ [(s, ?g, 0)])" unfolding gen[symmetric] by (intro console_invI) blast+
  then show ?thesis using b by blast
qed

lemma scroll_next_page:
  fixes st :: "('i, 'v) console_scopes"
  assumes "console_inv L (st, reqs)" and "ConsoleScopes_extend_offset end_visible s st = Some offset"
    and "ConsoleScopes_begin s offset st = (r, st')"
  shows "\<exists>g. r = Some g \<and> console_inv L (st', reqs @ [(s, g, offset)])"
proof -
  obtain log where log: "map_of (cn_scopes st) s = Some log" "ls_next_offset log = Some offset" "ls_pending log = None"
    using assms(2) by (auto simp: ConsoleScopes_extend_offset_def ConsoleListing_extend_offset_def bind_eq_Some_conv
        split: option.splits if_splits)
  then have ok: "log_ok L reqs s log" and le: "ls_generation log \<le> cn_generation st" using console_inv_log[OF assms(1)] by blast+
  have loaded: "ls_loaded log" "0 < offset"
    using ok log(2) by (auto simp: log_ok_def Let_def split: if_splits)
  let ?g = "ls_generation log"
  have start: "ConsoleListing_start offset n (log_or_default s st) = (Some ?g, log\<lparr>ls_pending := Some ?g\<rparr>)" for n
    using log loaded by (simp add: ConsoleListing_start_def log_or_default_def)
  have r: "r = Some ?g" and gen: "cn_generation st' = cn_generation st"
    using assms(3) start loaded by (auto simp: ConsoleScopes_begin_def Let_def evict_def)
  have "log_ok L (reqs @ [(s, ?g, offset)]) s' log' \<and> ls_generation log' \<le> cn_generation st"
    if m: "map_of (cn_scopes st') s' = Some log'" for s' log'
  proof -
    have st': "st' = snd (ConsoleScopes_begin s offset st)" using assms(3) by simp
    obtain lg u where l: "log' = lg\<lparr>ls_used := u\<rparr>" "if s' = s
        then lg = log\<lparr>ls_pending := Some ?g\<rparr> else map_of (cn_scopes st) s' = Some lg"
      using begin_log[of s offset st s' log'] m unfolding st' start by auto
    show ?thesis
    proof (cases "s' = s")
      case True
      then show ?thesis using l log ok loaded le by (simp add: log_ok_def Let_def outstanding_new)
    next
      case False
      then show ?thesis using l console_inv_log[OF assms(1), of s' lg] by (simp add: log_ok_other)
    qed
  qed
  moreover have "g' \<le> cn_generation st" if "(s', g', offset') \<in> set (reqs @ [(s, ?g, offset)])" for s' g' offset'
    using console_inv_req[OF assms(1), of s' g' offset'] that le by auto
  ultimately have "console_inv L (st', reqs @ [(s, ?g, offset)])" unfolding gen[symmetric] by (intro console_invI) blast+
  then show ?thesis using r by blast
qed

lemma inv_without_queue [simp]: "console_inv L (st\<lparr>cn_prefetch := q\<rparr>, reqs) = console_inv L (st, reqs)"
  by (simp add: console_inv_def)

lemma prefetch_loop_inv:
  "console_inv L (st, reqs) \<Longrightarrow> prefetch_loop queue st = (ready, st') \<Longrightarrow> console_inv L (st', reqs @ map (\<lambda>(s, g). (s, g, 0)) ready)"
proof (induction queue st arbitrary: reqs ready st' rule: prefetch_loop.induct)
  case (2 s queue st)
  show ?case
  proof (cases "inflight st < MAX_PREFETCH_INFLIGHT \<and> idle s st")
    case True
    obtain g st1 where b: "ConsoleScopes_begin s 0 st = (Some g, st1)" and inv: "console_inv L (st1, reqs @ [(s, g, 0)])"
      using begin_first_page[OF "2.prems"(1)] True by blast
    obtain ready1 st2 where loop: "prefetch_loop queue st1 = (ready1, st2)" by fastforce
    then have "ready = (s, g) # ready1" "st' = st2" using "2.prems"(2) True b by auto
    then show ?thesis using "2.IH"(3)[OF _ _ b[symmetric] _ inv loop] True by simp
  next
    case False
    then show ?thesis using 2 by (auto split: if_splits)
  qed
qed auto

lemma touch_inv: "console_inv L (st, reqs) \<Longrightarrow> console_inv L (touch s st, reqs)"
  by (fastforce simp: console_inv_def map_of_touch split: if_splits)

lemma queue_inv: "console_inv L (ConsoleScopes_queue_prefetch ps st, reqs) = console_inv L (st, reqs)"
  by (induction ps st rule: ConsoleScopes_queue_prefetch.induct) (simp_all add: Let_def)

text \<open>An answered or failed request is no longer in flight; only the log it belongs to may change.\<close>

lemma answer_inv:
  assumes "console_inv L (st, reqs)" and "i < length reqs" and "reqs ! i = (s, g, offset)"
    and "cn_generation st' = cn_generation st"
    and "\<And>s'. s' \<noteq> s \<Longrightarrow> map_of (cn_scopes st') s' = map_of (cn_scopes st) s'"
    and "\<And>log. map_of (cn_scopes st) s = None \<Longrightarrow> map_of (cn_scopes st') s \<noteq> Some log"
    and "\<And>log. map_of (cn_scopes st) s = Some log \<Longrightarrow> g \<noteq> ls_generation log \<Longrightarrow> map_of (cn_scopes st') s = Some log"
    and "\<And>log. map_of (cn_scopes st) s = Some log \<Longrightarrow> g = ls_generation log \<Longrightarrow> outstanding reqs s g = [(s, g, offset)]
      \<Longrightarrow> outstanding (drop_nth i reqs) s g = []
      \<Longrightarrow> \<exists>log'. map_of (cn_scopes st') s = Some log' \<and> ls_generation log' = g \<and> log_ok L (drop_nth i reqs) s log'"
  shows "console_inv L (st', drop_nth i reqs)"
proof (rule console_invI)
  note drop = outstanding_drop_nth[OF assms(2,3)]
  have other: "log_ok L (drop_nth i reqs) s' log" if "log_ok L reqs s' log" "s' \<noteq> s \<or> g \<noteq> ls_generation log" for s' log
    using that by (auto simp: log_ok_def Let_def drop cong: option.case_cong)
  show "log_ok L (drop_nth i reqs) s' log' \<and> ls_generation log' \<le> cn_generation st'"
    if m: "map_of (cn_scopes st') s' = Some log'" for s' log'
  proof (cases "s' = s")
    case False
    then have "map_of (cn_scopes st) s' = Some log'" using assms(5)[OF False] m by simp
    from console_inv_log[OF assms(1) this] other[of s' log'] False show ?thesis using assms(4) by simp
  next
    case True
    then obtain log where log: "map_of (cn_scopes st) s = Some log" using assms(6) m by (cases "map_of (cn_scopes st) s") auto
    have ok: "log_ok L reqs s log" and le: "ls_generation log \<le> cn_generation st" using console_inv_log[OF assms(1) log] by blast+
    show ?thesis
    proof (cases "g = ls_generation log")
      case False
      then show ?thesis using assms(4) assms(7)[OF log False] m True ok le other[of s log] by simp
    next
      case g: True
      have mem: "(s, g, offset) \<in> set (outstanding reqs s g)"
        using assms(2,3) nth_mem[of i reqs] by (simp add: outstanding_def)
      then have one: "outstanding reqs s g = [(s, g, offset)]"
        using ok by (auto simp: log_ok_def Let_def g split: option.splits if_splits)
      have "outstanding (drop_nth i reqs) s g = []"
      proof -
        have "length (outstanding (take i reqs) s g) < length (outstanding reqs s g)"
          using assms(2,3) by (subst (2) id_take_nth_drop[OF assms(2)]) (simp add: outstanding_def)
        then show ?thesis using one unfolding drop by (simp add: drop_nth_def)
      qed
      then show ?thesis using assms(4) assms(8)[OF log g one] m True le g by auto
    qed
  qed
  show "g' \<le> cn_generation st'" if "(s', g', offset') \<in> set (drop_nth i reqs)" for s' g' offset'
    using that console_inv_req[OF assms(1), of s' g' offset'] assms(4)
    by (auto simp: drop_nth_def dest: in_set_takeD in_set_dropD)
qed

lemma apply_logs:
  "map_of (cn_scopes (snd (ConsoleScopes_apply s g page st))) = (case map_of (cn_scopes st) s of
     None \<Rightarrow> map_of (cn_scopes st) | Some log \<Rightarrow> (map_of (cn_scopes st))(s \<mapsto> snd (ConsoleListing_apply g page log)))"
  "cn_generation (snd (ConsoleScopes_apply s g page st)) = cn_generation st"
  by (simp_all add: ConsoleScopes_apply_def split: option.splits prod.splits)

lemma failed_logs:
  "map_of (cn_scopes (snd (ConsoleScopes_failed s g st))) = (case map_of (cn_scopes st) s of
     None \<Rightarrow> map_of (cn_scopes st) | Some log \<Rightarrow> (map_of (cn_scopes st))(s \<mapsto> snd (ConsoleListing_failed g log)))"
  "cn_generation (snd (ConsoleScopes_failed s g st)) = cn_generation st"
  by (simp_all add: ConsoleScopes_failed_def split: option.splits prod.splits)

lemma apply_generation: "ls_generation (snd (ConsoleListing_apply g page log)) = ls_generation log"
  by (simp add: ConsoleListing_apply_def Let_def)

lemma stale_answer: "g \<noteq> ls_generation log \<Longrightarrow> snd (ConsoleListing_apply g page log) = log \<and> snd (ConsoleListing_failed g log) = log"
  by (simp add: ConsoleListing_apply_def ConsoleListing_failed_def)

lemma log_ok_applied:
  assumes "log_ok L reqs s log" and "outstanding reqs s (ls_generation log) = [(s, ls_generation log, offset)]"
    and "outstanding reqs' s (ls_generation log) = []" and "length (L (ls_generation log) s) < 2 ^ 32"
  shows "log_ok L reqs' s (snd (ConsoleListing_apply (ls_generation log) (served_page L W k (s, ls_generation log, offset)) log))"
proof -
  let ?items = "L (ls_generation log) s" and ?page = "take (Suc k) (drop offset (L (ls_generation log) s))"
  have page: "offset = 0 \<and> \<not> ls_loaded log \<or> ls_loaded log \<and> 0 < offset \<and> offset < length ?items \<and> ls_entries log = take offset ?items"
    using assms(1,2) by (auto simp: log_ok_def Let_def split: option.splits if_splits)
  have grown: "(if offset = 0 then [] else ls_entries log) @ ?page = take (offset + Suc k) ?items"
    using page take_add[of offset "Suc k" ?items] by auto
  have reached: "offset + length ?page = min (offset + Suc k) (length ?items)" using page by (auto simp: min_def)
  have "?page = [] \<Longrightarrow> ?items = []" using page by auto
  then show ?thesis
    using assms(3,4) grown reached page
    by (auto simp: ConsoleListing_apply_def served_page_def log_ok_def Let_def min_def)
qed

lemma console_step_inv:
  assumes "\<forall>g s. length (L g s) < 2 ^ 32" and "console_inv L (st, reqs)"
  shows "console_inv L (console_step L W ev (st, reqs))"
proof (cases ev)
  case (ShowScope s)
  have inv: "console_inv L (touch s st, reqs)" using assms(2) by (rule touch_inv)
  show ?thesis
  proof (cases "idle s (touch s st)")
    case True
    then obtain g st' where b: "ConsoleScopes_begin s 0 (touch s st) = (Some g, st')" "console_inv L (st', reqs @ [(s, g, 0)])"
      using begin_first_page[OF inv] by blast
    then show ?thesis using True by (auto simp: ShowScope ConsoleScopes_ensure_def Let_def idle_def split: option.splits)
  next
    case False
    then show ?thesis using inv by (auto simp: ShowScope ConsoleScopes_ensure_def Let_def idle_def split: option.splits)
  qed
next
  case (ScrollScope s f)
  then show ?thesis using assms(2) scroll_next_page[OF assms(2), of f s] by (fastforce split: option.splits prod.splits)
next
  case (PageArrives i k)
  show ?thesis
  proof (cases "i < length reqs")
    case True
    obtain s g offset where r: "reqs ! i = (s, g, offset)" by (cases "reqs ! i")
    have "console_inv L (snd (ConsoleScopes_apply s g (served_page L W k (s, g, offset)) st), drop_nth i reqs)"
    proof (rule answer_inv[OF assms(2) True r apply_logs(2)])
      fix log
      assume "map_of (cn_scopes st) s = Some log" "g = ls_generation log" "outstanding reqs s g = [(s, g, offset)]"
        "outstanding (drop_nth i reqs) s g = []"
      then show "\<exists>log'. map_of (cn_scopes (snd (ConsoleScopes_apply s g (served_page L W k (s, g, offset)) st))) s = Some log'
          \<and> ls_generation log' = g \<and> log_ok L (drop_nth i reqs) s log'"
        using log_ok_applied[OF conjunct1[OF console_inv_log[OF assms(2)]] _ _ assms(1)[rule_format]] by (simp add: apply_logs apply_generation)
    qed (simp_all add: apply_logs stale_answer split: option.splits)
    then show ?thesis using True r by (simp add: PageArrives)
  qed (use assms(2) in \<open>simp add: PageArrives\<close>)
next
  case (PageFails i)
  show ?thesis
  proof (cases "i < length reqs")
    case True
    obtain s g offset where r: "reqs ! i = (s, g, offset)" by (cases "reqs ! i")
    have "console_inv L (snd (ConsoleScopes_failed s g st), drop_nth i reqs)"
    proof (rule answer_inv[OF assms(2) True r failed_logs(2)])
      fix log
      assume log: "map_of (cn_scopes st) s = Some log" and "g = ls_generation log" "outstanding (drop_nth i reqs) s g = []"
      then show "\<exists>log'. map_of (cn_scopes (snd (ConsoleScopes_failed s g st))) s = Some log'
          \<and> ls_generation log' = g \<and> log_ok L (drop_nth i reqs) s log'"
        using conjunct1[OF console_inv_log[OF assms(2) log]] by (auto simp: failed_logs ConsoleListing_failed_def log_ok_def Let_def split: option.splits if_splits)
    qed (simp_all add: failed_logs stale_answer split: option.splits)
    then show ?thesis using True r by (simp add: PageFails)
  qed (use assms(2) in \<open>simp add: PageFails\<close>)
next
  case (QueueTabs ps)
  then show ?thesis using assms(2) by (simp add: queue_inv)
next
  case PumpPrefetch
  then show ?thesis using prefetch_loop_inv[OF assms(2)] by (simp add: ConsoleScopes_next_prefetch_def split: prod.splits)
next
  case RetireSource
  then show ?thesis using assms(2) by (auto simp: console_inv_def ConsoleScopes_invalidate_def)
qed

text \<open>
  C19: the console grid never mixes, repeats or skips records. Whatever scopes are shown, scrolled and
  prefetched, in whatever order requests are answered or fail, and however often the connection is
  replaced, every log holds a beginning of the list the source served for its own scope and its own
  load, and the whole of that list once it asks for no further page; and it waits for a page exactly
  when one request of its load is in flight, so answers of a superseded load, of another scope or of
  a retired connection are never drawn.
\<close>

theorem console_log_is_a_prefix_of_its_list:
  assumes "\<forall>g s. length (L g s) < 2 ^ 32"
    and "fold (console_step L W) events (ConsoleScopes_default, []) = (st, reqs)"
    and "map_of (cn_scopes st) s = Some log"
  shows "prefix (ls_entries log) (L (ls_generation log) s)
    \<and> (ls_loaded log \<and> ls_next_offset log = None \<longrightarrow> ls_entries log = L (ls_generation log) s)
    \<and> length (outstanding reqs s (ls_generation log)) = (if ls_pending log = None then 0 else 1)"
proof -
  have start: "console_inv L (ConsoleScopes_default, [])" by (simp add: console_inv_def ConsoleScopes_default_def)
  have "console_inv L (fold (console_step L W) events x)" if "console_inv L x" for x
    using that
  proof (induction events arbitrary: x)
    case (Cons ev events)
    have "console_inv L (console_step L W ev x)" using console_step_inv[OF assms(1)] Cons.prems by (cases x) simp
    then show ?case using Cons.IH by simp
  qed simp
  from this[OF start] have "log_ok L reqs s log" using console_inv_log assms(2,3) by (metis (no_types, lifting))
  then show ?thesis
    by (auto simp: log_ok_def Let_def take_is_prefix split: option.splits if_splits)
qed

text \<open>A console of three games, its page arriving after a scroll to the end.\<close>

definition demo_games :: "nat source_lists" where
  "demo_games g s = [1, 2, 3]"

definition demo_console_events :: "console_event list" where
  "demo_console_events = [ShowScope (ConsoleScope_plain None), ScrollScope (ConsoleScope_plain None) (\<lambda>_. True), PageArrives 0 2]"

theorem console_log_is_a_prefix_of_its_list_witness:
  "\<exists>st reqs log. fold (console_step demo_games (\<lambda>_. None :: (string \<times> nat list) option)) demo_console_events (ConsoleScopes_default, []) = (st, reqs)
    \<and> map_of (cn_scopes st) (ConsoleScope_plain None) = Some log \<and> ls_entries log = [1, 2, 3] \<and> ls_pending log = None
    \<and> prefix (ls_entries log) (demo_games (ls_generation log) (ConsoleScope_plain None))"
proof -
  let ?run = "fold (console_step demo_games (\<lambda>_. None :: (string \<times> nat list) option)) demo_console_events (ConsoleScopes_default, [])"
  have result: "map_option (\<lambda>log. (ls_entries log, ls_pending log)) (map_of (cn_scopes (fst ?run)) (ConsoleScope_plain None)) = Some ([1, 2, 3], None)"
    by code_simp
  then obtain log where log: "map_of (cn_scopes (fst ?run)) (ConsoleScope_plain None) = Some log" "ls_entries log = [1, 2, 3]" "ls_pending log = None"
    by auto
  have "\<forall>g s. length (demo_games g s) < 2 ^ 32" by (simp add: demo_games_def)
  from console_log_is_a_prefix_of_its_list[OF this prod.collapse[symmetric] log(1)] log
  show ?thesis by (intro exI[of _ "fst ?run"] exI[of _ "snd ?run"] exI[of _ log]) simp
qed

section \<open>The bound on the cache\<close>

text \<open>
  An eviction drops narrowed scopes only, and none with a page in flight; afterwards at most eight
  narrowed scopes are left, or every one that is left is waiting for a page.
\<close>

lemma evict_keeps:
  "distinct (map fst al) \<Longrightarrow> map_of al s = Some log \<Longrightarrow> is_plain s \<or> ls_pending log \<noteq> None \<Longrightarrow> map_of (evict_scopes al) s = Some log"
proof (induction al rule: evict_scopes.induct)
  case (1 al)
  show ?case
  proof (cases "MAX_NARROWED_SCOPES < narrowed al \<and> min_by (\<lambda>sl. ls_used (snd sl)) (filter droppable al) \<noteq> None")
    case False
    then show ?thesis using 1(3) by (auto simp: evict_scopes.simps[of al] split: option.splits)
  next
    case True
    then obtain oldest where oldest: "min_by (\<lambda>sl. ls_used (snd sl)) (filter droppable al) = Some oldest" by blast
    have "droppable oldest" "oldest \<in> set al" using min_by_mem[OF oldest] by auto
    then have "fst oldest \<noteq> s" using 1(2-4) by (metis droppable_def map_of_is_SomeI option.inject prod.collapse)
    then show ?thesis using 1(1)[OF conjunct1[OF True] oldest distinct_delete[OF 1(2)]] 1(3,4) True oldest
      by (simp add: evict_scopes.simps[of al] delete_conv')
  qed
qed

lemma evict_bound:
  "narrowed (evict_scopes al) \<le> MAX_NARROWED_SCOPES \<or> (\<forall>sl\<in>set (evict_scopes al). is_plain (fst sl) \<or> ls_pending (snd sl) \<noteq> None)"
proof (induction al rule: evict_scopes.induct)
  case (1 al)
  show ?case
  proof (cases "MAX_NARROWED_SCOPES < narrowed al")
    case True
    show ?thesis
    proof (cases "min_by (\<lambda>sl. ls_used (snd sl)) (filter droppable al)")
      case None
      then have "evict_scopes al = al" using True by (simp add: evict_scopes.simps[of al])
      then show ?thesis using None by (auto simp: droppable_def filter_empty_conv)
    next
      case (Some oldest)
      then show ?thesis using 1[OF True Some] True by (simp add: evict_scopes.simps[of al])
    qed
  qed (simp add: evict_scopes.simps[of al])
qed

section \<open>No two logs carry the same stamp\<close>

definition stamped :: "('i, 'v) console_scopes \<Rightarrow> bool" where
  "stamped st \<longleftrightarrow> distinct (map fst (cn_scopes st)) \<and> distinct (map (\<lambda>sl. ls_used (snd sl)) (cn_scopes st))
     \<and> (\<forall>sl\<in>set (cn_scopes st). ls_used (snd sl) \<le> cn_clock st)"

lemma set_update_keys: "distinct (map fst al) \<Longrightarrow> set (AList.update k v al) = insert (k, v) {x \<in> set al. fst x \<noteq> k}"
proof (induction al)
  case (Cons x al)
  obtain a b where x: "x = (a, b)" by (cases x)
  have "(k, c) \<notin> set al" if "a = k" for c using Cons.prems that by (force simp: x image_iff)
  then show ?case using Cons by (auto simp: x)
qed simp

lemma update_stamps:
  "distinct (map fst al) \<Longrightarrow> distinct (map (\<lambda>x. f (snd x)) al) \<Longrightarrow> (\<forall>x\<in>set al. fst x \<noteq> k \<longrightarrow> f (snd x) \<noteq> f v)
    \<Longrightarrow> distinct (map (\<lambda>x. f (snd x)) (AList.update k v al))"
proof (induction al)
  case (Cons x al)
  show ?case
  proof (cases "fst x = k")
    case True
    then have "\<forall>y\<in>set al. fst y \<noteq> k" using Cons.prems(1) by (metis distinct.simps(2) image_eqI list.map(2) list.set_map)
    then show ?thesis using Cons.prems True by (cases x) (auto simp: image_iff)
  next
    case False
    have "f (snd x) \<notin> f ` snd ` set (AList.update k v al)"
      using Cons.prems False by (auto simp: set_update_keys image_iff)
    then show ?thesis using Cons False by (cases x) (auto simp: image_image)
  qed
qed simp

lemma put_log_stamped:
  assumes "distinct (map fst (cn_scopes st))" "distinct (map (\<lambda>sl. ls_used (snd sl)) (cn_scopes st))"
    "\<forall>sl\<in>set (cn_scopes st). ls_used (snd sl) \<le> cn_clock st"
    and "\<forall>sl\<in>set (cn_scopes st). fst sl \<noteq> s \<longrightarrow> ls_used (snd sl) \<noteq> ls_used log" and "ls_used log \<le> n" and "cn_clock st \<le> n"
  shows "stamped ((put_log s log st)\<lparr>cn_clock := n\<rparr>)"
  using assms update_stamps[of "cn_scopes st" ls_used s log]
  by (auto simp: stamped_def put_log_def set_update_keys distinct_update)

lemma touch_stamped: "stamped st \<Longrightarrow> stamped (touch s st)"
proof (cases "map_of (cn_scopes st) s")
  case None
  then show "stamped st \<Longrightarrow> ?thesis" by (auto simp: touch_def Let_def stamped_def)
next
  case (Some log)
  assume st: "stamped st"
  have "touch s st = (put_log s (log\<lparr>ls_used := cn_clock st + 1\<rparr>) st)\<lparr>cn_clock := cn_clock st + 1\<rparr>"
    using Some by (simp add: touch_def Let_def put_log_def)
  also have "stamped \<dots>" using st by (intro put_log_stamped) (auto simp: stamped_def)
  finally show ?thesis .
qed

lemma evict_stamped: "stamped st \<Longrightarrow> stamped (evict st)"
proof -
  have "(distinct (map fst al) \<longrightarrow> distinct (map fst (evict_scopes al))) \<and> set (evict_scopes al) \<subseteq> set al
      \<and> (distinct (map (\<lambda>sl. ls_used (snd sl)) al) \<longrightarrow> distinct (map (\<lambda>sl. ls_used (snd sl)) (evict_scopes al)))" for al :: "(console_scope \<times> ('i, 'v) console_listing) list"
  proof (induction al rule: evict_scopes.induct)
    case (1 al)
    have del: "set (AList.delete k al) \<subseteq> set al" "distinct (map (\<lambda>sl. ls_used (snd sl)) al) \<Longrightarrow> distinct (map (\<lambda>sl. ls_used (snd sl)) (AList.delete k al))" for k
      by (auto simp: AList.delete_eq distinct_map_filter)
    show ?case
    proof (cases "MAX_NARROWED_SCOPES < narrowed al \<and> min_by (\<lambda>sl. ls_used (snd sl)) (filter droppable al) \<noteq> None")
      case True
      then obtain oldest where oldest: "min_by (\<lambda>sl. ls_used (snd sl)) (filter droppable al) = Some oldest" by blast
      then have "evict_scopes al = evict_scopes (AList.delete (fst oldest) al)" using True by (simp add: evict_scopes.simps[of al])
      then show ?thesis using 1[OF conjunct1[OF True] oldest] del[of "fst oldest"] distinct_delete[of al "fst oldest"] by auto
    next
      case False
      then have "evict_scopes al = al" by (auto simp: evict_scopes.simps[of al] split: option.splits)
      then show ?thesis by simp
    qed
  qed
  from this[of "cn_scopes st"] show "stamped st \<Longrightarrow> stamped (evict st)" by (auto simp: stamped_def evict_def)
qed

lemma begin_stamped: "stamped st \<Longrightarrow> stamped (snd (ConsoleScopes_begin s offset st))"
proof -
  assume st: "stamped st"
  let ?st = "if offset = 0 then st\<lparr>cn_generation := cn_generation st + 1\<rparr> else st"
  obtain g log where start: "ConsoleListing_start offset (cn_generation ?st) (log_or_default s ?st) = (g, log)" by fastforce
  have twice: "AList.update s x (AList.update s y al) = AList.update s x al" for x y :: "('i, 'v) console_listing" and al
    by (induction al) auto
  have "touch s (put_log s log ?st) = (put_log s (log\<lparr>ls_used := cn_clock ?st + 1\<rparr>) ?st)\<lparr>cn_clock := cn_clock ?st + 1\<rparr>"
    by (simp add: touch_def Let_def put_log_def update_conv' twice)
  also have "stamped \<dots>" using st by (intro put_log_stamped) (auto simp: stamped_def)
  finally have "stamped (evict (touch s (put_log s log ?st)))" by (rule evict_stamped)
  then show ?thesis by (simp add: ConsoleScopes_begin_def Let_def start)
qed

lemma same_stamp_stamped:
  assumes "stamped st" and "map_of (cn_scopes st) s = Some log" and "ls_used log' = ls_used log"
  shows "stamped (put_log s log' st)"
proof -
  have mem: "(s, log) \<in> set (cn_scopes st)" using assms(2) by (rule map_of_SomeD)
  have "\<forall>sl\<in>set (cn_scopes st). fst sl \<noteq> s \<longrightarrow> ls_used (snd sl) \<noteq> ls_used log'"
    using assms(1,3) mem by (force simp: stamped_def distinct_map inj_on_def)
  moreover have "ls_used log' \<le> cn_clock st" using assms(1,3) mem by (force simp: stamped_def)
  ultimately have "stamped ((put_log s log' st)\<lparr>cn_clock := cn_clock st\<rparr>)"
    using assms(1) by (intro put_log_stamped) (auto simp: stamped_def)
  then show ?thesis by (simp add: put_log_def)
qed

lemma prefetch_loop_stamped: "stamped st \<Longrightarrow> stamped (snd (prefetch_loop queue st))"
proof (induction queue st rule: prefetch_loop.induct)
  case (2 s queue st)
  obtain r st' where b: "ConsoleScopes_begin s 0 st = (r, st')" by fastforce
  have "stamped st'" using begin_stamped[OF "2.prems", of s 0] b by simp
  then show ?case
    using 2(1)[OF _ _ "2.prems"] 2(2)[OF _ _ b[symmetric]] 2(3)[OF _ _ b[symmetric]] "2.prems"
    by (cases "inflight st < MAX_PREFETCH_INFLIGHT"; cases "idle s st"; cases r) (simp_all add: b stamped_def case_prod_beta)
qed (simp add: stamped_def)

lemma stamps_distinct: "stamped (fst (fold (console_step L W) events (ConsoleScopes_default, [])))"
proof -
  have q: "stamped st \<Longrightarrow> stamped (ConsoleScopes_queue_prefetch ps st)" for ps and st :: "('a, 'b) console_scopes"
    by (induction ps st rule: ConsoleScopes_queue_prefetch.induct) (simp_all add: Let_def stamped_def)
  have "stamped (fst (console_step L W ev x))" if "stamped (fst x)" for ev x
  proof (cases ev)
    case (ShowScope s)
    then show ?thesis using that touch_stamped[of "fst x" s] begin_stamped[of "touch s (fst x)" s 0]
      by (cases x) (auto simp: ConsoleScopes_ensure_def Let_def split: option.splits prod.splits ensured.splits)
  next
    case (ScrollScope s f)
    obtain st reqs where x: "x = (st, reqs)" by (cases x)
    show ?thesis
    proof (cases "ConsoleScopes_extend_offset f s st")
      case (Some offset)
      then show ?thesis using that begin_stamped[of st s offset]
        by (cases "ConsoleScopes_begin s offset st") (simp add: x ScrollScope split: option.splits)
    qed (use that in \<open>simp add: x ScrollScope\<close>)
  next
    case (PageArrives i k)
    then show ?thesis using that same_stamp_stamped[of "fst x"]
      by (cases x) (auto simp: ConsoleScopes_apply_def ConsoleListing_apply_def Let_def split: option.splits prod.splits)
  next
    case (PageFails i)
    then show ?thesis using that same_stamp_stamped[of "fst x"]
      by (cases x) (auto simp: ConsoleScopes_failed_def ConsoleListing_failed_def split: option.splits prod.splits)
  next
    case (QueueTabs ps)
    then show ?thesis using that q by (cases x) simp
  next
    case PumpPrefetch
    then show ?thesis using that prefetch_loop_stamped[of "fst x" "cn_prefetch (fst x)"]
      by (cases x; cases "prefetch_loop (cn_prefetch (fst x)) (fst x)") (simp add: ConsoleScopes_next_prefetch_def)
  next
    case RetireSource
    then show ?thesis by (cases x) (simp add: ConsoleScopes_invalidate_def stamped_def)
  qed
  then have "stamped (fst (fold (console_step L W) events x))" if "stamped (fst x)" for x
    using that by (induction events arbitrary: x) simp_all
  then show ?thesis by (simp add: ConsoleScopes_default_def stamped_def)
qed

end
