(* ===== verification/Frontend_Library.thy ===== *)
theory Frontend_Library
  imports Api_Payloads Rust_Iterators "HOL-Library.AList"
begin

text \<open>
  The library page of the frontend: how the daemon's records become library items
  (\<^verbatim>\<open>hearthdeck-frontend/src/providers/mod.rs\<close>), what an item matches (\<^verbatim>\<open>library_item.rs\<close>,
  \<^verbatim>\<open>form_factor.rs\<close>), the tabs and filters of a section (\<^verbatim>\<open>app_group.rs\<close>, \<^verbatim>\<open>providers/filter.rs\<close>,
  \<^verbatim>\<open>screens/library/filters.rs\<close>), the user's overrides and the catalog they are applied to
  (\<^verbatim>\<open>screens/library/catalog.rs\<close>). Translated strings are a function \<open>fl\<close> of their key, and what the
  icon cache finds for a reference is a parameter. Lower-casing is that of ASCII.
\<close>

definition STORE_FILTER_PREFIX :: string where "STORE_FILTER_PREFIX = ''hearthdeck-store:''"
definition SOURCE_FILTER_PREFIX :: string where "SOURCE_FILTER_PREFIX = ''hearthdeck-source:''"
definition CONSOLE_FILTER_PREFIX :: string where "CONSOLE_FILTER_PREFIX = ''hearthdeck-console:''"
definition DESKTOP_TAB_NAME :: string where "DESKTOP_TAB_NAME = ''hearthdeck-desktop''"
definition ROMM_ASSET_PREFIX :: string where "ROMM_ASSET_PREFIX = ''/assets/''"

abbreviation to_lowercase :: "string \<Rightarrow> string" where
  "to_lowercase \<equiv> map ascii_lower"

section \<open>Library items\<close>

record console_metadata =
  cm_platform_id :: int
  cm_genres :: "string list"
  cm_regions :: "string list"

datatype icon_source = IconName string | IconPath string

record library_item =
  it_id :: string
  it_name :: string
  it_exec :: "string option"
  it_icon :: icon_source
  it_categories :: "string list"
  it_wm_class :: "string option"
  it_form_factor :: "form_factor option"
  it_store :: "string option"
  it_sources :: "string list"
  it_console :: "console_metadata option"
  it_section :: library_section

definition LibraryItem_default :: library_item where
  "LibraryItem_default = \<lparr>it_id = [], it_name = [], it_exec = None, it_icon = IconName [], it_categories = [], it_wm_class = None,
     it_form_factor = None, it_store = None, it_sources = [], it_console = None, it_section = ApplicationSection\<rparr>"

definition form_set :: "form_factor \<Rightarrow> library_item \<Rightarrow> library_item" where
  "form_set form e = e\<lparr>it_form_factor := Some form\<rparr>"

definition form_of :: "library_item \<Rightarrow> form_factor" where
  "form_of e = unwrap_or DesktopForm (it_form_factor e)"

text \<open>The rest of a category behind a prefix that is compared without case.\<close>

definition after_prefix :: "string \<Rightarrow> string \<Rightarrow> string option" where
  "after_prefix p category =
     (if length p \<le> length category \<and> eq_ignore_ascii_case (take (length p) category) p then Some (drop (length p) category) else None)"

definition matches_console :: "library_item \<Rightarrow> string \<Rightarrow> bool" where
  "matches_console e platform \<longleftrightarrow> (case it_console e of None \<Rightarrow> False | Some c \<Rightarrow> show_int (cm_platform_id c) = platform)"

definition matches_plain :: "library_item \<Rightarrow> string \<Rightarrow> bool" where
  "matches_plain e category =
     (case after_prefix STORE_FILTER_PREFIX category of
        Some s \<Rightarrow> (case it_store e of None \<Rightarrow> False | Some store \<Rightarrow> to_lowercase store = to_lowercase s)
      | None \<Rightarrow>
     (case after_prefix SOURCE_FILTER_PREFIX category of
        Some s \<Rightarrow> list_ex (\<lambda>source. to_lowercase source = to_lowercase s) (it_sources e)
      | None \<Rightarrow>
     (case FormFactor_from_category category of
        Some form \<Rightarrow> it_form_factor e = Some form
      | None \<Rightarrow> list_ex (\<lambda>c. to_lowercase c = to_lowercase category) (it_categories e))))"

definition matches_category :: "library_item \<Rightarrow> string \<Rightarrow> bool" where
  "matches_category e category =
     (case split_once (CHR '':'') category of
        Some (p, v) \<Rightarrow>
          if to_lowercase p = ''hearthdeck-console'' then matches_console e v
          else if to_lowercase p = ''hearthdeck-genre'' then
            (case it_console e of None \<Rightarrow> False | Some c \<Rightarrow> list_ex (\<lambda>g. to_lowercase g = to_lowercase v) (cm_genres c))
          else if to_lowercase p = ''hearthdeck-region'' then
            (case it_console e of None \<Rightarrow> False | Some c \<Rightarrow> list_ex (\<lambda>g. to_lowercase g = to_lowercase v) (cm_regions c))
          else matches_plain e category
      | None \<Rightarrow> matches_plain e category)"

definition store_filter_value :: "library_item \<Rightarrow> string option" where
  "store_filter_value e = map_option (\<lambda>s. STORE_FILTER_PREFIX @ s) (it_store e)"

definition source_filter_values :: "library_item \<Rightarrow> string list" where
  "source_filter_values e = map (\<lambda>s. SOURCE_FILTER_PREFIX @ s) (it_sources e)"

definition matches_facet :: "library_item \<Rightarrow> string \<Rightarrow> bool" where
  "matches_facet e v =
     (case strip_prefix CONSOLE_FILTER_PREFIX v of
        Some platform \<Rightarrow> matches_console e platform
      | None \<Rightarrow>
     (case strip_prefix ''hearthdeck-genre:'' v of
        Some genre \<Rightarrow> (case it_console e of None \<Rightarrow> False | Some c \<Rightarrow> genre \<in> set (cm_genres c))
      | None \<Rightarrow>
     (case strip_prefix ''hearthdeck-region:'' v of
        Some reg \<Rightarrow> (case it_console e of None \<Rightarrow> False | Some c \<Rightarrow> reg \<in> set (cm_regions c))
      | None \<Rightarrow>
     (case strip_prefix STORE_FILTER_PREFIX v of
        Some store \<Rightarrow> it_store e = Some store
      | None \<Rightarrow>
     (case strip_prefix SOURCE_FILTER_PREFIX v of
        Some source \<Rightarrow> source \<in> set (it_sources e)
      | None \<Rightarrow>
          if FormFactor_from_category v \<noteq> None then matches_category e v else v \<in> set (it_categories e))))))"

section \<open>From the daemon's records\<close>

datatype icon_reference = RemoteIcon string | RommAssetIcon string | FileIcon string | NamedIcon string

definition classify_icon :: "string \<Rightarrow> icon_reference option" where
  "classify_icon reference =
     (let r = trim reference in
      if r = [] then None
      else Some (if starts_with ''http://'' r \<or> starts_with ''https://'' r then RemoteIcon r
        else case strip_prefix ''file://'' r of
          Some path \<Rightarrow> FileIcon path
        | None \<Rightarrow> if starts_with ROMM_ASSET_PREFIX r then RommAssetIcon r
                  else if starts_with ''/'' r then FileIcon r else NamedIcon r))"

definition library_icon :: "string option \<Rightarrow> string \<Rightarrow> icon_source" where
  "library_icon icon fallback =
     (case Option.bind icon classify_icon of
        Some (FileIcon path) \<Rightarrow> IconPath path
      | Some (NamedIcon name) \<Rightarrow> IconName name
      | _ \<Rightarrow> IconName fallback)"

definition catalog_categories :: "catalog_item \<Rightarrow> bool \<Rightarrow> string option \<Rightarrow> string list" where
  "catalog_categories item game' store =
     (let categories = (case Option.bind (json_get ''categories'' (ci_metadata item)) json_array of None \<Rightarrow> [] | Some vs \<Rightarrow> json_strings vs);
          categories = filter (\<lambda>c. \<not> eq_ignore_ascii_case c ''game'') categories;
          categories = (if eq_ignore_ascii_case (ci_kind item) ''game'' then categories @ [''Game''] else categories);
          categories = (case store of
             None \<Rightarrow> categories
           | Some s \<Rightarrow> if list_ex (\<lambda>c. eq_ignore_ascii_case c s) categories then categories else categories @ [s]) in
      if game' then (case store of None \<Rightarrow> categories | Some s \<Rightarrow> filter (\<lambda>c. \<not> eq_ignore_ascii_case c s) categories)
      else categories)"

definition catalog_item_to_library_item :: "catalog_item \<Rightarrow> library_item" where
  "catalog_item_to_library_item item =
     (let store = Option.bind (json_get ''store'' (ci_metadata item)) json_str;
          game' = (cc_section (ci_classification item) \<noteq> ApplicationSection) in
      LibraryItem_default
        \<lparr>it_id := ''hearthdeck:'' @ ci_id item, it_name := ci_title item, it_exec := ci_launch_id item,
         it_icon := library_icon (ci_icon item) (if game' then ''applications-games'' else ''application-x-executable''),
         it_categories := catalog_categories item game' store,
         it_section := cc_section (ci_classification item), it_form_factor := cc_form_factor (ci_classification item),
         it_store := (if game' then store else None),
         it_sources := (case option_filter (\<lambda>s. s \<noteq> []) (Option.bind (json_get ''source'' (ci_metadata item)) json_str) of
             None \<Rightarrow> [] | Some origin \<Rightarrow> [origin]) @ (if cc_streaming (ci_classification item) then [''streaming''] else [])\<rparr>)"

definition belongs_in_the_app_library :: "catalog_item \<Rightarrow> bool" where
  "belongs_in_the_app_library item \<longleftrightarrow>
     (let kind = trim (ci_kind item) in kind = [] \<or> to_lowercase kind \<in> {''game'', ''application''})"

definition fetch_library_items :: "(string option \<Rightarrow> string option) \<Rightarrow> catalog_item list \<Rightarrow> library_item list" where
  "fetch_library_items resolve_icon items =
     map catalog_item_to_library_item (filter belongs_in_the_app_library (map (\<lambda>i. i\<lparr>ci_icon := resolve_icon (ci_icon i)\<rparr>) items))"

definition retro_game_to_library_item :: "retro_game \<Rightarrow> string option \<Rightarrow> library_item" where
  "retro_game_to_library_item game icon =
     LibraryItem_default
       \<lparr>it_id := ''romm:'' @ show_int (re_id game), it_name := re_title game, it_exec := Some (show_int (re_id game)),
        it_icon := library_icon icon ''applications-games'', it_categories := [''Game''], it_section := ConsoleGames,
        it_console := Some \<lparr>cm_platform_id = re_platform_id game, cm_genres = re_genres game, cm_regions = re_regions game\<rparr>\<rparr>"

definition retro_version_list :: "retro_game \<Rightarrow> retro_rom_version list" where
  "retro_version_list game =
     (if re_sibling_roms game = [] then []
      else distinguish {} (\<lparr>rv_id = re_id game, rv_title = or_else (re_version_label game) (re_title game), rv_is_main_sibling = True\<rparr>
        # re_sibling_roms game))"

section \<open>Tabs\<close>

datatype filter_type = AppIds "string list" | Categories "string list" "string list" "string list" | NoFilter

record app_group =
  ag_name :: string
  ag_icon :: string
  ag_filter :: filter_type

definition romm_console_category :: "int \<Rightarrow> string" where
  "romm_console_category platform_id = CONSOLE_FILTER_PREFIX @ show_int platform_id"

fun filter_matches :: "filter_type \<Rightarrow> library_item \<Rightarrow> bool" where
  "filter_matches (AppIds names) e \<longleftrightarrow> it_id e \<in> set names"
| "filter_matches (Categories categories exclude included) e \<longleftrightarrow>
     list_ex (matches_category e) categories \<and> it_id e \<notin> set exclude \<or> it_id e \<in> set included"
| "filter_matches NoFilter e \<longleftrightarrow> True"

definition AppGroup_matches :: "app_group \<Rightarrow> library_item \<Rightarrow> bool" where
  "AppGroup_matches g e = filter_matches (ag_filter g) e"

definition AppGroup_name :: "(string \<Rightarrow> string) \<Rightarrow> app_group \<Rightarrow> string" where
  "AppGroup_name fl g = (if ag_name g = DESKTOP_TAB_NAME then fl ''desktop-apps'' else ag_name g)"

definition romm_platform_id :: "app_group \<Rightarrow> int option" where
  "romm_platform_id g =
     (case ag_filter g of
        Categories categories _ _ \<Rightarrow> find_map (\<lambda>c. Option.bind (strip_prefix CONSOLE_FILTER_PREFIX c) parse_i64) categories
      | _ \<Rightarrow> None)"

record sections =
  se_pc_games :: "app_group list"
  se_console_games :: "app_group list"
  se_applications :: "app_group list"

fun Sections_get :: "library_section \<Rightarrow> sections \<Rightarrow> app_group list" where
  "Sections_get PcGames t = se_pc_games t"
| "Sections_get ConsoleGames t = se_console_games t"
| "Sections_get ApplicationSection t = se_applications t"

definition in_section :: "library_section \<Rightarrow> library_item \<Rightarrow> bool" where
  "in_section s e \<longleftrightarrow> s = it_section e"

definition category_tab :: "string \<Rightarrow> string \<Rightarrow> app_group" where
  "category_tab name category = \<lparr>ag_name = name, ag_icon = ''folder-symbolic'', ag_filter = Categories [category] [] []\<rparr>"

text \<open>The stores of the games, one per spelling without case, in the order of that spelling; the last spelling is kept.\<close>

definition store_values :: "library_item list \<Rightarrow> string list" where
  "store_values entries =
     (let pairs = map (\<lambda>v. (to_lowercase v, v)) (List.map_filter store_filter_value (filter (in_section PcGames) entries)) in
      map (\<lambda>k. the (map_of (rev pairs) k)) (sort (remdups (map fst pairs))))"

fun derived_groups :: "library_section \<Rightarrow> library_item list \<Rightarrow> app_group list" where
  "derived_groups PcGames entries =
     map (\<lambda>v. category_tab (or_else (strip_prefix STORE_FILTER_PREFIX v) v) v) (store_values entries)"
| "derived_groups ApplicationSection entries =
     (if list_ex (\<lambda>e. in_section ApplicationSection e \<and> form_of e = DesktopForm) entries
      then [category_tab DESKTOP_TAB_NAME (FormFactor_category_value DesktopForm)] else [])"
| "derived_groups ConsoleGames entries = []"

definition sync_category_groups :: "library_item list \<Rightarrow> sections \<Rightarrow> sections" where
  "sync_category_groups entries t =
     t\<lparr>se_pc_games := derived_groups PcGames entries, se_applications := derived_groups ApplicationSection entries\<rparr>"

definition sync_console_groups :: "(int \<times> string) list \<Rightarrow> sections \<Rightarrow> bool \<times> sections" where
  "sync_console_groups reported t =
     (let groups = map (\<lambda>(i, name). category_tab name (romm_console_category i)) reported in
      if se_console_games t = groups then (False, t) else (True, t\<lparr>se_console_games := groups\<rparr>))"

definition filtered_by_facets ::
  "library_section \<Rightarrow> nat option \<Rightarrow> string \<Rightarrow> library_item list \<Rightarrow> (string \<times> string) list \<Rightarrow> sections \<Rightarrow> library_item list" where
  "filtered_by_facets s tab input entries facets t =
     (let group = Option.bind tab (\<lambda>i. if i < length (Sections_get s t) then Some (Sections_get s t ! i) else None);
          couch_only = (s = ApplicationSection \<and> tab = None \<and> input = []) in
      filter (\<lambda>e.
        in_section s e \<and> \<not> (couch_only \<and> form_of e \<noteq> Couch)
        \<and> (case group of None \<Rightarrow> True | Some g \<Rightarrow> AppGroup_matches g e)
        \<and> list_all (\<lambda>(_, v). matches_facet e v) facets
        \<and> \<not> (input \<noteq> [] \<and> \<not> contains (to_lowercase input) (to_lowercase (it_name e)) \<and> \<not> matches_category e input)) entries)"

section \<open>Facets\<close>

record facet_option =
  fo_value :: string
  fo_label :: string

record facet =
  fc_id :: string
  fc_label :: string
  fc_options :: "facet_option list"

definition source_label :: "string \<Rightarrow> string" where
  "source_label source =
     or_else (map_of [(''system'', ''System''), (''local'', ''Local''), (''flatpak'', ''Flatpak''), (''snap'', ''Snap''),
       (''nix'', ''Nix''), (''streaming'', ''Streaming'')] source) source"

definition facet_value_label :: "string \<Rightarrow> string" where
  "facet_value_label v =
     (case strip_prefix SOURCE_FILTER_PREFIX v of
        Some source \<Rightarrow> source_label source
      | None \<Rightarrow> or_else (strip_prefix STORE_FILTER_PREFIX v) v)"

definition facet_of :: "string \<Rightarrow> string \<Rightarrow> string list \<Rightarrow> facet list" where
  "facet_of i label values =
     (let options = map (\<lambda>v. \<lparr>fo_value = v, fo_label = facet_value_label v\<rparr>) (sort (remdups values)) in
      if length options < 2 then [] else [\<lparr>fc_id = i, fc_label = label, fc_options = options\<rparr>])"

fun section_facets :: "(string \<Rightarrow> string) \<Rightarrow> library_section \<Rightarrow> library_item list \<Rightarrow> facet list" where
  "section_facets fl PcGames entries =
     facet_of ''store'' (fl ''filter-store'') (List.map_filter store_filter_value (filter (in_section PcGames) entries))"
| "section_facets fl ApplicationSection entries =
     facet_of ''source'' (fl ''filter-source'') (concat (map source_filter_values (filter (in_section ApplicationSection) entries)))"
| "section_facets fl ConsoleGames entries = []"

fun position :: "('a \<Rightarrow> bool) \<Rightarrow> 'a list \<Rightarrow> nat option" where
  "position P [] = None"
| "position P (x # xs) = (if P x then Some 0 else map_option Suc (position P xs))"

definition cycle :: "facet \<Rightarrow> string option \<Rightarrow> int \<Rightarrow> string option" where
  "cycle f current delta =
     (let len = int (length (fc_options f)) + 1;
          index = (case Option.bind current (\<lambda>v. position (\<lambda>o'. fo_value o' = v) (fc_options f)) of
             None \<Rightarrow> 0 | Some p \<Rightarrow> int p + 1);
          next_index = (index + delta) mod len in
      if next_index = 0 then None else Some (fo_value (fc_options f ! nat (next_index - 1))))"

datatype filter_message =
  SelectFacet string "string option" | CycleFacet nat int | ToggleDrawer | CloseDrawer | ClearFacets

record filter_state =
  fs_facets :: "facet list"
  fs_selected :: "(string \<times> string) list"
  fs_open :: bool

definition select_facet :: "string \<Rightarrow> string option \<Rightarrow> filter_state \<Rightarrow> filter_state" where
  "select_facet i v st =
     st\<lparr>fs_selected := (case v of Some v \<Rightarrow> AList.update i v (fs_selected st) | None \<Rightarrow> AList.delete i (fs_selected st))\<rparr>"

text \<open>The effect of a message: whether the page has to be filtered again.\<close>

fun filter_update :: "filter_message \<Rightarrow> filter_state \<Rightarrow> bool \<times> filter_state" where
  "filter_update (SelectFacet i v) st = (True, select_facet i v st)"
| "filter_update (CycleFacet row delta) st =
     (if row < length (fs_facets st)
      then let f = fs_facets st ! row in (True, select_facet (fc_id f) (cycle f (map_of (fs_selected st) (fc_id f)) delta) st)
      else (False, st))"
| "filter_update ClearFacets st = (True, st\<lparr>fs_selected := []\<rparr>)"
| "filter_update ToggleDrawer st = (False, st\<lparr>fs_open := \<not> fs_open st\<rparr>)"
| "filter_update CloseDrawer st = (False, st\<lparr>fs_open := False\<rparr>)"

definition load_console_facets :: "(string \<Rightarrow> string) \<Rightarrow> facet list \<Rightarrow> filter_state \<Rightarrow> filter_state" where
  "load_console_facets fl facets st =
     st\<lparr>fs_facets := map (\<lambda>f. if fc_id f = ''genre'' then f\<lparr>fc_label := fl ''filter-genre''\<rparr>
        else if fc_id f = ''region'' then f\<lparr>fc_label := fl ''filter-region''\<rparr> else f) facets\<rparr>"

definition offered :: "facet list \<Rightarrow> string \<times> string \<Rightarrow> bool" where
  "offered facets sel \<longleftrightarrow> list_ex (\<lambda>f. fc_id f = fst sel \<and> snd sel \<in> fo_value ` set (fc_options f)) facets"

definition load_local_facets :: "(string \<Rightarrow> string) \<Rightarrow> library_section \<Rightarrow> library_item list \<Rightarrow> filter_state \<Rightarrow> filter_state" where
  "load_local_facets fl s catalog st =
     (if s \<noteq> ConsoleGames
      then let facets = section_facets fl s catalog in
        st\<lparr>fs_facets := facets, fs_selected := filter (offered facets) (fs_selected st)\<rparr>
      else st)"

definition clear_source :: "filter_state \<Rightarrow> filter_state" where
  "clear_source st = st\<lparr>fs_facets := [], fs_selected := []\<rparr>"

section \<open>The user's choices\<close>

record app_library_config =
  lc_desktop_input_apps :: "string list"
  lc_form_overrides :: "string \<rightharpoonup> form_factor"

definition desktop_input_enabled :: "string \<Rightarrow> app_library_config \<Rightarrow> bool" where
  "desktop_input_enabled i c \<longleftrightarrow> i \<in> set (lc_desktop_input_apps c)"

definition desktop_input_for :: "library_item \<Rightarrow> app_library_config \<Rightarrow> bool" where
  "desktop_input_for e c \<longleftrightarrow>
     desktop_input_enabled (it_id e) c \<noteq> (in_section ApplicationSection e \<and> form_of e = DesktopForm)"

definition set_form_override :: "string \<Rightarrow> form_factor \<Rightarrow> app_library_config \<Rightarrow> app_library_config" where
  "set_form_override i form c = c\<lparr>lc_form_overrides := (lc_form_overrides c)(i \<mapsto> form)\<rparr>"

definition override_item :: "app_library_config \<Rightarrow> library_item \<Rightarrow> library_item" where
  "override_item c e =
     (case lc_form_overrides c (it_id e) of
        None \<Rightarrow> e
      | Some form \<Rightarrow> if form_of e \<noteq> form then form_set form e else e)"

definition apply_form_overrides :: "app_library_config \<Rightarrow> library_item list \<Rightarrow> library_item list" where
  "apply_form_overrides c entries = map (override_item c) entries"

definition toggle_desktop_input :: "string \<Rightarrow> app_library_config \<Rightarrow> app_library_config" where
  "toggle_desktop_input i c =
     c\<lparr>lc_desktop_input_apps := (if desktop_input_enabled i c then filter (\<lambda>x. x \<noteq> i) (lc_desktop_input_apps c)
        else lc_desktop_input_apps c @ [i])\<rparr>"

record library_catalog =
  ca_source :: "library_item list"
  ca_entries :: "library_item list"

definition Catalog_project :: "app_library_config \<Rightarrow> library_catalog \<Rightarrow> bool \<times> library_catalog" where
  "Catalog_project c cat =
     (let entries = apply_form_overrides c (ca_source cat) in
      if entries = ca_entries cat then (False, cat) else (True, cat\<lparr>ca_entries := entries\<rparr>))"

definition Catalog_replace :: "library_item list \<Rightarrow> app_library_config \<Rightarrow> library_catalog \<Rightarrow> bool \<times> library_catalog" where
  "Catalog_replace source c cat = Catalog_project c (cat\<lparr>ca_source := source\<rparr>)"

end
