(* ===== verification/Library_Tabs.thy ===== *)
theory Library_Tabs
  imports Frontend_Library
begin

text \<open>
  What the tabs of the library show: the two views of the applications divide what the daemon serves
  between them, whatever the user moved, and every game of a store is under the one tab of its store.
\<close>

section \<open>Matching a tab\<close>

lemma form_category:
  "matches_category e (FormFactor_category_value form) \<longleftrightarrow> it_form_factor e = Some form"
proof -
  have "split_once (CHR '':'') (FormFactor_category_value form) \<noteq> None \<and>
      fst (the (split_once (CHR '':'') (FormFactor_category_value form))) = ''hearthdeck-form''"
    by (cases form) simp_all
  then obtain v where v: "split_once (CHR '':'') (FormFactor_category_value form) = Some (''hearthdeck-form'', v)"
    by (cases "split_once (CHR '':'') (FormFactor_category_value form)") auto
  have l: "map ascii_lower ''hearthdeck-form'' = ''hearthdeck-form''" by code_simp
  have c: "after_prefix STORE_FILTER_PREFIX (FormFactor_category_value Couch) = None"
    "after_prefix SOURCE_FILTER_PREFIX (FormFactor_category_value Couch) = None" by code_simp+
  have d: "after_prefix STORE_FILTER_PREFIX (FormFactor_category_value DesktopForm) = None"
    "after_prefix SOURCE_FILTER_PREFIX (FormFactor_category_value DesktopForm) = None" by code_simp+
  have "after_prefix STORE_FILTER_PREFIX (FormFactor_category_value form) = None"
    "after_prefix SOURCE_FILTER_PREFIX (FormFactor_category_value form) = None"
    using c d by (cases form; simp only:)+
  then show ?thesis unfolding matches_category_def v option.case prod.case l
    by (simp add: matches_plain_def category_roundtrip)
qed

lemma store_category:
  "matches_category e (STORE_FILTER_PREFIX @ s)
   \<longleftrightarrow> (case it_store e of None \<Rightarrow> False | Some store \<Rightarrow> to_lowercase store = to_lowercase s)"
proof -
  have p: "STORE_FILTER_PREFIX = ''hearthdeck-store'' @ '':''" by code_simp
  have "split_once (CHR '':'') (''hearthdeck-store'' @ CHR '':'' # s) = Some (''hearthdeck-store'', s)"
    by (rule split_once_append) simp
  then have v: "split_once (CHR '':'') (STORE_FILTER_PREFIX @ s) = Some (''hearthdeck-store'', s)"
    unfolding p append_assoc append_Cons append_Nil .
  have l: "map ascii_lower ''hearthdeck-store'' = ''hearthdeck-store''" by code_simp
  have "after_prefix STORE_FILTER_PREFIX (STORE_FILTER_PREFIX @ s) = Some s"
    by (simp add: after_prefix_def eq_ignore_ascii_case_def)
  then show ?thesis unfolding matches_category_def v option.case prod.case l by (simp add: matches_plain_def)
qed

lemma category_tab_matches: "AppGroup_matches (category_tab name c) e \<longleftrightarrow> matches_category e c"
  by (simp add: AppGroup_matches_def category_tab_def)

text \<open>Without a search and without facets a tab shows the section's records its group matches.\<close>

lemma shown_in_tab:
  "i < length (Sections_get s t) \<Longrightarrow>
   e \<in> set (filtered_by_facets s (Some i) [] entries [] t)
   \<longleftrightarrow> e \<in> set entries \<and> in_section s e \<and> AppGroup_matches (Sections_get s t ! i) e"
  by (auto simp: filtered_by_facets_def Let_def)

lemma shown_in_all:
  "e \<in> set (filtered_by_facets ApplicationSection None [] entries [] t)
   \<longleftrightarrow> e \<in> set entries \<and> in_section ApplicationSection e \<and> form_of e = Couch"
  by (auto simp: filtered_by_facets_def Let_def)

section \<open>The tabs of the stores\<close>

lemma store_values_keys: "distinct (map to_lowercase (store_values entries))"
  and store_values_set: "v \<in> set (store_values entries) \<Longrightarrow>
    \<exists>e\<in>set entries. in_section PcGames e \<and> store_filter_value e = Some v"
  and store_values_complete: "e \<in> set entries \<Longrightarrow> in_section PcGames e \<Longrightarrow> store_filter_value e = Some v \<Longrightarrow>
    \<exists>w\<in>set (store_values entries). to_lowercase w = to_lowercase v"
proof -
  let ?vs = "List.map_filter store_filter_value (filter (in_section PcGames) entries)"
  let ?pairs = "map (\<lambda>v. (to_lowercase v, v)) ?vs" and ?ks = "sort (remdups (map to_lowercase ?vs))"
  let ?f = "\<lambda>k. the (map_of (rev ?pairs) k)"
  have sv: "store_values entries = map ?f ?ks" by (simp add: store_values_def Let_def comp_def)
  have f: "?f k \<in> set ?vs \<and> to_lowercase (?f k) = k" if "k \<in> to_lowercase ` set ?vs" for k
  proof -
    from that have "k \<in> fst ` set (rev ?pairs)" by (auto simp: image_image)
    then obtain w where w: "map_of (rev ?pairs) k = Some w" by (metis map_of_eq_None_iff not_None_eq)
    then have "(k, w) \<in> set (rev ?pairs)" by (rule map_of_SomeD)
    then show ?thesis by (auto simp: w)
  qed
  have "map to_lowercase (store_values entries) = map (\<lambda>k. k) ?ks"
    unfolding sv map_map comp_def by (rule map_cong[OF refl]) (use f in auto)
  then show "distinct (map to_lowercase (store_values entries))" by simp
  show "\<exists>e\<in>set entries. in_section PcGames e \<and> store_filter_value e = Some v" if "v \<in> set (store_values entries)"
    using that f unfolding sv by (fastforce simp: mem_map_filter)
  show "\<exists>w\<in>set (store_values entries). to_lowercase w = to_lowercase v"
    if "e \<in> set entries" "in_section PcGames e" "store_filter_value e = Some v"
  proof
    have "v \<in> set ?vs" using that by (auto simp: mem_map_filter)
    then have k: "to_lowercase v \<in> to_lowercase ` set ?vs" by blast
    then show "?f (to_lowercase v) \<in> set (store_values entries)" unfolding sv by simp
    show "to_lowercase (?f (to_lowercase v)) = to_lowercase v" using f[OF k] by blast
  qed
qed

lemma store_value_matches:
  assumes "v \<in> set (store_values entries)" "it_store e = Some s"
  shows "matches_category e v \<longleftrightarrow> to_lowercase v = to_lowercase (STORE_FILTER_PREFIX @ s)"
proof -
  from store_values_set[OF assms(1)] obtain x where "v = STORE_FILTER_PREFIX @ x"
    by (auto simp: store_filter_value_def)
  then show ?thesis using assms(2) by (auto simp: store_category)
qed

lemma one_store_tab:
  assumes "e \<in> set entries" "in_section PcGames e" "it_store e = Some s"
  shows "\<exists>!i. i < length (derived_groups PcGames entries) \<and> AppGroup_matches (derived_groups PcGames entries ! i) e"
proof -
  let ?vs = "store_values entries" and ?k = "to_lowercase (STORE_FILTER_PREFIX @ s)"
  have m: "AppGroup_matches (derived_groups PcGames entries ! i) e \<longleftrightarrow> map to_lowercase ?vs ! i = ?k" if "i < length ?vs" for i
    using that store_value_matches[OF nth_mem[OF that] assms(3)] by (simp add: category_tab_matches)
  from store_values_complete[OF assms(1,2), of "STORE_FILTER_PREFIX @ s"] assms(3)
  obtain w where "w \<in> set ?vs" "to_lowercase w = ?k" by (auto simp: store_filter_value_def)
  then obtain i where i: "i < length ?vs" "map to_lowercase ?vs ! i = ?k" by (metis in_set_conv_nth nth_map)
  show ?thesis
  proof (rule ex1I[of _ i])
    show "i < length (derived_groups PcGames entries) \<and> AppGroup_matches (derived_groups PcGames entries ! i) e"
      using i m by simp
    fix j assume j: "j < length (derived_groups PcGames entries) \<and> AppGroup_matches (derived_groups PcGames entries ! j) e"
    then have j': "j < length ?vs" by simp
    with j m have "map to_lowercase ?vs ! j = map to_lowercase ?vs ! i" using i by simp
    then show "j = i" using nth_eq_iff_index_eq[OF store_values_keys[of entries], of j i] i(1) j' by simp
  qed
qed

section \<open>The two views of the applications\<close>

lemma override_item_keeps:
  "it_section (override_item c e) = it_section e" "it_id (override_item c e) = it_id e"
  "it_form_factor e \<noteq> None \<Longrightarrow> it_form_factor (override_item c e) \<noteq> None"
  by (auto simp: override_item_def form_set_def split: option.splits)

lemma converted_fields:
  "it_section (catalog_item_to_library_item i) = cc_section (ci_classification i)"
  "it_form_factor (catalog_item_to_library_item i) = cc_form_factor (ci_classification i)"
  by (simp_all add: catalog_item_to_library_item_def Let_def)

lemma listed_classification: "i \<in> set (CatalogStore_list db) \<Longrightarrow> classification_ok (ci_classification i)"
  by (auto simp: CatalogStore_list_def catalog_item_from_row_def Let_def intro: classify_ok)

lemma served_application_has_form:
  assumes "e \<in> set (apply_form_overrides c (fetch_library_items resolve_icon (CatalogStore_list db)))"
    "in_section ApplicationSection e"
  shows "it_form_factor e \<noteq> None"
proof -
  from assms(1) obtain i where i: "i \<in> set (CatalogStore_list db)"
    and e: "e = override_item c (catalog_item_to_library_item (i\<lparr>ci_icon := resolve_icon (ci_icon i)\<rparr>))"
    by (auto simp: apply_form_overrides_def fetch_library_items_def)
  have "cc_section (ci_classification i) = ApplicationSection"
    using assms(2) by (simp add: e in_section_def override_item_keeps converted_fields)
  then have "cc_form_factor (ci_classification i) \<noteq> None"
    using listed_classification[OF i] by (simp add: classification_ok_def)
  then show ?thesis unfolding e by (intro override_item_keeps) (simp add: converted_fields)
qed

lemma desktop_tab:
  assumes "e \<in> set entries" "in_section ApplicationSection e" "it_form_factor e \<noteq> None"
  shows "(\<exists>i<length (derived_groups ApplicationSection entries).
      AppGroup_matches (derived_groups ApplicationSection entries ! i) e) \<longleftrightarrow> form_of e = DesktopForm"
  using assms by (auto simp: category_tab_matches form_category[of _ DesktopForm, simplified] form_of_def unwrap_or_def list_ex_iff)

text \<open>
  C15: the tabs the library page derives from the catalog the daemon serves, whatever the icons
  resolve to and whatever applications the user moved between couch and desktop, file every entry
  once: an application is in exactly one of the Couch view and the Desktop tab, and a PC game of a
  store is under exactly one store tab, also when two spellings of the store differ in case.
\<close>

theorem library_tabs_file_every_entry_once:
  fixes resolve_icon :: "string option \<Rightarrow> string option"
  assumes entries: "entries = apply_form_overrides c (fetch_library_items resolve_icon (CatalogStore_list db))"
    and tabs: "tabs = sync_category_groups entries t"
    and e: "e \<in> set entries"
  shows "(it_section e = ApplicationSection \<longrightarrow>
      (e \<in> set (filtered_by_facets ApplicationSection None [] entries [] tabs)
       \<longleftrightarrow> \<not> (\<exists>i<length (se_applications tabs). e \<in> set (filtered_by_facets ApplicationSection (Some i) [] entries [] tabs))))
    \<and> (it_section e = PcGames \<and> it_store e \<noteq> None \<longrightarrow>
      (\<exists>!i. i < length (se_pc_games tabs) \<and> e \<in> set (filtered_by_facets PcGames (Some i) [] entries [] tabs)))"
proof (intro conjI impI)
  have groups: "se_applications tabs = derived_groups ApplicationSection entries" "se_pc_games tabs = derived_groups PcGames entries"
    by (simp_all add: tabs sync_category_groups_def)
  {
    assume s: "it_section e = ApplicationSection"
    then have s': "in_section ApplicationSection e" by (simp add: in_section_def)
    have f: "it_form_factor e \<noteq> None" using served_application_has_form e s' unfolding entries by blast
    have "(\<exists>i<length (se_applications tabs). e \<in> set (filtered_by_facets ApplicationSection (Some i) [] entries [] tabs))
        \<longleftrightarrow> form_of e = DesktopForm"
      using desktop_tab[OF e s' f] e s' shown_in_tab[of _ ApplicationSection tabs e entries] by (auto simp: groups simp del: derived_groups.simps)
    then show "e \<in> set (filtered_by_facets ApplicationSection None [] entries [] tabs)
       \<longleftrightarrow> \<not> (\<exists>i<length (se_applications tabs). e \<in> set (filtered_by_facets ApplicationSection (Some i) [] entries [] tabs))"
      using e s' by (cases "form_of e") (simp_all add: shown_in_all)
  next
    assume s: "it_section e = PcGames \<and> it_store e \<noteq> None"
    then obtain store where st: "in_section PcGames e" "it_store e = Some store" by (auto simp: in_section_def)
    have "i < length (derived_groups PcGames entries) \<and> AppGroup_matches (derived_groups PcGames entries ! i) e
        \<longleftrightarrow> i < length (se_pc_games tabs) \<and> e \<in> set (filtered_by_facets PcGames (Some i) [] entries [] tabs)" for i
      using e st(1) shown_in_tab[of i PcGames tabs e entries] by (auto simp: groups simp del: derived_groups.simps)
    then show "\<exists>!i. i < length (se_pc_games tabs) \<and> e \<in> set (filtered_by_facets PcGames (Some i) [] entries [] tabs)"
      using one_store_tab[OF e st] by simp
  }
qed

definition demo_library :: catalog_db where
  "demo_library = \<lparr>library_items =
     [library_row_of DESKTOP_APPS (demo_record ''gimp'' ''Application''),
      library_row_of HEROIC ((demo_record ''doom'' ''Game'')\<lparr>cr_metadata := JObject [(''store'', JString ''Epic'')]\<rparr>)],
     catalog_enrichments = [], item_traits = []\<rparr>"

lemma demo_entries:
  "map (\<lambda>e. (it_section e, it_store e, it_form_factor e))
     (apply_form_overrides \<lparr>lc_desktop_input_apps = [], lc_form_overrides = [''hearthdeck:gimp'' \<mapsto> Couch]\<rparr>
       (fetch_library_items (\<lambda>i. i) (CatalogStore_list demo_library)))
   = [(ApplicationSection, None, Some Couch), (PcGames, Some ''Epic'', None)]"
  by code_simp

theorem library_tabs_file_every_entry_once_witness:
  "let entries = apply_form_overrides \<lparr>lc_desktop_input_apps = [], lc_form_overrides = [''hearthdeck:gimp'' \<mapsto> Couch]\<rparr>
         (fetch_library_items (\<lambda>i. i) (CatalogStore_list demo_library));
       tabs = sync_category_groups entries \<lparr>se_pc_games = [], se_console_games = [], se_applications = []\<rparr>
   in length entries = 2
     \<and> (entries ! 0 \<in> set (filtered_by_facets ApplicationSection None [] entries [] tabs)
        \<longleftrightarrow> \<not> (\<exists>i<length (se_applications tabs). entries ! 0 \<in> set (filtered_by_facets ApplicationSection (Some i) [] entries [] tabs)))
     \<and> (\<exists>!i. i < length (se_pc_games tabs) \<and> entries ! 1 \<in> set (filtered_by_facets PcGames (Some i) [] entries [] tabs))"
proof -
  let ?c = "\<lparr>lc_desktop_input_apps = [], lc_form_overrides = [''hearthdeck:gimp'' \<mapsto> Couch]\<rparr>"
  define entries where "entries = apply_form_overrides ?c (fetch_library_items (\<lambda>i. i) (CatalogStore_list demo_library))"
  define tabs where "tabs = sync_category_groups entries \<lparr>se_pc_games = [], se_console_games = [], se_applications = []\<rparr>"
  have m: "map (\<lambda>e. (it_section e, it_store e, it_form_factor e)) entries
      = [(ApplicationSection, None, Some Couch), (PcGames, Some ''Epic'', None)]"
    unfolding entries_def by (rule demo_entries)
  have two: "length entries = 2" using arg_cong[OF m, of length] by simp
  have s: "it_section (entries ! 0) = ApplicationSection" "it_section (entries ! 1) = PcGames" "it_store (entries ! 1) \<noteq> None"
    using arg_cong[OF m, of "\<lambda>xs. xs ! 0"] arg_cong[OF m, of "\<lambda>xs. xs ! 1"] by (simp_all add: two)
  note ok = library_tabs_file_every_entry_once[OF entries_def tabs_def]
  have "entries ! 0 \<in> set entries" "entries ! 1 \<in> set entries" by (simp_all add: two)
  from ok[OF this(1)] ok[OF this(2)] two s show ?thesis
    unfolding Let_def entries_def[symmetric] tabs_def[symmetric] by blast
qed

section \<open>Facets and the controller's input\<close>

text \<open>Stepping a facet forth and back returns to where it was, when its values are distinct.\<close>

lemma position_nth: "distinct (map f xs) \<Longrightarrow> i < length xs \<Longrightarrow> position (\<lambda>x. f x = f (xs ! i)) xs = Some i"
proof (induction xs arbitrary: i)
  case (Cons x xs)
  then show ?case by (cases i) auto
qed simp

definition facet_index :: "facet \<Rightarrow> string option \<Rightarrow> int" where
  "facet_index f current =
     (case Option.bind current (\<lambda>v. position (\<lambda>o'. fo_value o' = v) (fc_options f)) of None \<Rightarrow> 0 | Some p \<Rightarrow> int p + 1)"

lemma cycle_index:
  assumes "distinct (map fo_value (fc_options f))"
  shows "facet_index f (cycle f current delta) = (facet_index f current + delta) mod (int (length (fc_options f)) + 1)"
proof -
  define n where "n = (facet_index f current + delta) mod (int (length (fc_options f)) + 1)"
  have c: "cycle f current delta = (if n = 0 then None else Some (fo_value (fc_options f ! nat (n - 1))))"
    by (simp add: cycle_def facet_index_def Let_def n_def)
  have b: "0 \<le> n" "n \<le> int (length (fc_options f))"
    using pos_mod_bound[of "int (length (fc_options f)) + 1" "facet_index f current + delta"] by (simp_all add: n_def)
  have "facet_index f (cycle f current delta) = n"
  proof (cases "n = 0")
    case False
    with b have "nat (n - 1) < length (fc_options f)" by linarith
    from position_nth[OF assms this] False b show ?thesis unfolding c by (simp add: facet_index_def)
  qed (simp add: c facet_index_def)
  then show ?thesis unfolding n_def .
qed

lemma cycle_forth_and_back:
  assumes "distinct (map fo_value (fc_options f))"
    "current = None \<or> (\<exists>v\<in>fo_value ` set (fc_options f). current = Some v)"
  shows "cycle f (cycle f current delta) (- delta) = current"
proof -
  let ?l = "int (length (fc_options f)) + 1"
  have undo: "((facet_index f current + delta) mod ?l + - delta) mod ?l = facet_index f current mod ?l"
    by (simp add: mod_simps)
  have r: "cycle f x d = (let n = (facet_index f x + d) mod ?l in
      if n = 0 then None else Some (fo_value (fc_options f ! nat (n - 1))))" for x d
    by (simp add: cycle_def facet_index_def Let_def)
  have e: "cycle f (cycle f current delta) (- delta) = (let n = facet_index f current mod ?l in
      if n = 0 then None else Some (fo_value (fc_options f ! nat (n - 1))))"
    unfolding r[of "cycle f current delta"] cycle_index[OF assms(1)] undo ..
  from assms(2) consider "current = None" | i where "i < length (fc_options f)" "current = Some (fo_value (fc_options f ! i))"
    by (auto simp: in_set_conv_nth)
  then show ?thesis
  proof cases
    case 1
    then have "facet_index f current = 0" by (simp add: facet_index_def)
    then show ?thesis unfolding e by (simp add: 1)
  next
    case 2
    then have "facet_index f current = int i + 1" using position_nth[OF assms(1)] by (simp add: facet_index_def)
    then have "facet_index f current mod ?l = int i + 1" using 2(1) by simp
    then show ?thesis unfolding e by (simp add: 2(2))
  qed
qed

text \<open>The drawer never keeps a selection the source no longer offers.\<close>

lemma local_selection_offered:
  "s \<noteq> ConsoleGames \<Longrightarrow> sel \<in> set (fs_selected (load_local_facets fl s catalog st))
   \<Longrightarrow> offered (fs_facets (load_local_facets fl s catalog st)) sel"
  by (auto simp: load_local_facets_def Let_def)

text \<open>The toggle flips the input profile an application starts with, and only that application's.\<close>

lemma toggle_flips: "desktop_input_enabled i (toggle_desktop_input j c) \<longleftrightarrow> desktop_input_enabled i c \<noteq> (i = j)"
  by (auto simp: desktop_input_enabled_def toggle_desktop_input_def)

lemma toggle_flips_input:
  "desktop_input_for e (toggle_desktop_input i c) \<longleftrightarrow> desktop_input_for e c \<noteq> (it_id e = i)"
  by (auto simp: desktop_input_for_def toggle_flips)

text \<open>
  A projection reports a change exactly when the shown entries change, and what is shown is always
  the kept source under the current overrides.
\<close>

lemma project_shows_source:
  "ca_entries (snd (Catalog_project c cat)) = apply_form_overrides c (ca_source cat)"
  "fst (Catalog_project c cat) \<longleftrightarrow> ca_entries (snd (Catalog_project c cat)) \<noteq> ca_entries cat"
  "ca_source (snd (Catalog_project c cat)) = ca_source cat"
  by (auto simp: Catalog_project_def Let_def)

text \<open>
  An application whose response names no form reads as a desktop application, so it is not in the
  Couch view, and the Desktop tab, which looks for the typed form, does not show it either; an
  override to the desktop leaves it so.
\<close>

lemma formless_application_is_in_neither_view:
  fixes e :: library_item and t :: sections
  assumes "it_section e = ApplicationSection" "it_form_factor e = None"
  defines "tabs \<equiv> sync_category_groups [e] t"
  shows "e \<notin> set (filtered_by_facets ApplicationSection None [] [e] [] tabs)
    \<and> length (se_applications tabs) = 1
    \<and> e \<notin> set (filtered_by_facets ApplicationSection (Some 0) [] [e] [] tabs)
    \<and> override_item (set_form_override (it_id e) DesktopForm c) e = e"
proof -
  have f: "form_of e = DesktopForm" using assms(2) by (simp add: form_of_def unwrap_or_def)
  have g: "se_applications tabs = [category_tab DESKTOP_TAB_NAME (FormFactor_category_value DesktopForm)]"
    using assms(1) f by (simp add: tabs_def sync_category_groups_def in_section_def)
  have "e \<notin> set (filtered_by_facets ApplicationSection (Some 0) [] [e] [] tabs)"
    using shown_in_tab[of 0 ApplicationSection tabs e "[e]"]
    by (simp add: g category_tab_matches form_category assms(2) del: FormFactor_category_value.simps)
  then show ?thesis using f g by (simp add: shown_in_all override_item_def set_form_override_def)
qed

end
