(* ===== verification/Spec2Isabelle.thy ===== *)
theory Spec2Isabelle
  imports Broker_Props Overlay_State Frontend_State Focus_Pages Collections Bridge_Run Daemon_Launch Daemon_Auth Daemon_Rules
    Daemon_Links Daemon_Romm Categorizer_Jobs Daemon_Config Daemon_Diagnostics Api_Secrets
    Discovery_Arrivals Enrichment_Appstream Console_Props Library_Tabs
begin

text \<open>
  A verification library for Hearthdeck, a console-style launcher for a living-room Linux machine.
  Hearthdeck is a set of Rust services under \<^verbatim>\<open>src/services\<close>: the input broker owns the gamepads
  and decides which program sees their buttons (\<^verbatim>\<open>hearthdeck-input\<close>); the overlay is the quick menu
  that captures them (\<^verbatim>\<open>hearthdeck-overlay\<close>); the frontend is the user interface they drive
  (\<^verbatim>\<open>hearthdeck-frontend\<close>); the bridge runs in the user's session and starts and stops
  applications as systemd units (\<^verbatim>\<open>hearthdeck-bridge\<close>); the daemon keeps the catalog, the play
  journal, the collections, the settings and the paired clients in SQLite and serves them over HTTP
  (\<^verbatim>\<open>hearthdeck-daemon\<close>); \<^verbatim>\<open>hearthdeck-ai\<close> classifies applications; \<^verbatim>\<open>hearthdeck-protocol\<close> holds
  the messages they exchange.

  \<^bold>\<open>How the parts interact.\<close> Overlay and frontend are clients of the broker: a client says who it is
  and what it wants delivered, the broker answers with events. The bridge tells the broker which
  input profile the running application needs. The daemon sends requests to the bridge and records
  what it answers; its watcher closes plays the bridge no longer reports; its provider workers fill
  the catalog, from which items are launched and rails composed. RomM, a game server on the same
  host, supplies the retro library; a child process of the daemon scans applications and the daemon
  turns its report into rails and verdicts. Everything a client sees of the daemon goes through the
  handlers of its two HTTP routers.

  \<^bold>\<open>Shared layers.\<close>
  \<^item> \<open>Prelude\<close>: handlers that return early with an error, iteration orders of hash maps, the contracts
    \<open>machine\<close> (an invariant kept by every step) and \<open>cursor\<close> (a position that stays on something).
  \<^item> \<open>Rust_Strings\<close>: strings, paths and the error-propagating host actions of the standard library.
  \<^item> \<open>Rust_Iterators\<close>: the least and the greatest of a list by a key, first or last among equals.
  \<^item> \<open>Sql_Tables\<close>: tables as lists of rows with unique keys; the contract \<open>overwriting\<close> of a table whose
    upsert replaces rows.
  \<^item> \<open>Protocol_Input\<close>, \<open>Protocol_Bridge\<close>: \<^verbatim>\<open>hearthdeck-protocol\<close> (\<^verbatim>\<open>input.rs\<close>; \<^verbatim>\<open>lib.rs\<close>, \<^verbatim>\<open>sources.rs\<close>,
    \<^verbatim>\<open>classification.rs\<close>). The framed transport reads back what it wrote and refuses oversized frames.

  \<^bold>\<open>Input.\<close>
  \<^item> \<open>Mapping_Keys\<close> (\<^verbatim>\<open>mapping.rs\<close>, the tables of \<^verbatim>\<open>linux.rs\<close>): the mapper from pads to keys refines "which
    keys are held": its events are exactly the changes of that set; axis values stay in range.
  \<^item> \<open>Ownership\<close> (\<^verbatim>\<open>ownership.rs\<close>): per pad, which owner sees which button; a pad delivers nothing until
    it was neutral, and signals respect the owner.
  \<^item> \<open>Broker\<close>, \<open>Broker_Inv\<close>, \<open>Broker_Run\<close>, \<open>Broker_Props\<close> (\<^verbatim>\<open>broker.rs\<close>): every method of \<^verbatim>\<open>Broker\<close> and
    the event loop over it; the invariant of the loop, the precedence of owners, all-or-nothing
    capture, one client per role, release on disconnect.

  \<^bold>\<open>Overlay and frontend.\<close>
  \<^item> \<open>Overlay_State\<close> (\<^verbatim>\<open>state.rs\<close>, \<^verbatim>\<open>overlay.rs\<close>): the menu machine and the process around it.
  \<^item> \<open>Frontend_State\<close> (\<^verbatim>\<open>input_ownership.rs\<close>, \<^verbatim>\<open>launch_state.rs\<close>, \<^verbatim>\<open>text_entry.rs\<close>, \<^verbatim>\<open>app/launch.rs\<close>):
    launch layer, controller ownership and text entry.
  \<^item> \<open>Focus_Library\<close>, \<open>Focus_Pages\<close> (the \<^verbatim>\<open>focus.rs\<close> of the screens): the cursors of the pages, each an
    interpretation of \<open>cursor\<close>.
  \<^item> \<open>Console_Pages\<close>, \<open>Console_Props\<close> (\<^verbatim>\<open>screens/library/console.rs\<close>): the pages loaded for each console
    scope; whatever order requests, answers, failures and evictions come in, what is drawn is a
    beginning of the list the source serves.
  \<^item> \<open>Frontend_Library\<close>, \<open>Library_Tabs\<close> (\<^verbatim>\<open>providers/mod.rs\<close>, \<^verbatim>\<open>library_item.rs\<close>, \<^verbatim>\<open>app_group.rs\<close>,
    \<^verbatim>\<open>screens/library/filters.rs\<close>, \<^verbatim>\<open>screens/library/catalog.rs\<close>): library items from the daemon's
    catalog, tabs, facets and the user's overrides; every entry is filed once.

  \<^bold>\<open>Bridge.\<close>
  \<^item> \<open>Bridge_Systemd\<close> (\<^verbatim>\<open>systemd.rs\<close>, \<^verbatim>\<open>input.rs\<close>): units, escaped scopes, the input profile. The host
    (\<^verbatim>\<open>systemctl\<close>, \<^verbatim>\<open>/proc\<close>, files, sockets) is the record \<open>bridge_host\<close> of functions on a world state.
  \<^item> \<open>Bridge_Desktop\<close> (\<^verbatim>\<open>desktop_apps.rs\<close>): desktop entries from file to command line; what is discovered
    is what launches, and quoting an argument list reads back.
  \<^item> \<open>Bridge_Retro\<close> (\<^verbatim>\<open>retroarch.rs\<close>, \<^verbatim>\<open>profiles.rs\<close>, \<^verbatim>\<open>paths.rs\<close>): path checks, managed configuration
    that a ROM's name cannot inject into, seeding that spares the user's profiles.
  \<^item> \<open>Bridge_Targets\<close> (\<^verbatim>\<open>stremio.rs\<close>, \<^verbatim>\<open>heroic.rs\<close>, \<^verbatim>\<open>core_install.rs\<close>): URIs and package names.
  \<^item> \<open>Bridge_Sessions\<close>, \<open>Bridge_Run\<close> (\<^verbatim>\<open>main.rs\<close>): every request, from the records found at
    the start; no request adds a second session, and one is dropped only after its application was seen
    stopped.

  \<^bold>\<open>Daemon.\<close>
  \<^item> \<open>Collections\<close> (\<^verbatim>\<open>collections.rs\<close>) and \<open>Daemon_Rules\<close> (\<^verbatim>\<open>collections/rules.rs\<close>): stored rails and their
    composition.
  \<^item> \<open>Daemon_Activity\<close>, \<open>Daemon_Sessions\<close>, \<open>Daemon_Launch\<close> (\<^verbatim>\<open>activity.rs\<close>, \<^verbatim>\<open>sessions.rs\<close>, \<^verbatim>\<open>launch.rs\<close>): the
    play journal is append-only and closed once; the watcher closes exactly the vanished plays.
  \<^item> \<open>Daemon_Auth\<close> (\<^verbatim>\<open>auth.rs\<close>): redemptions of pairing codes, interleaved between read and claim.
  \<^item> \<open>Daemon_Workers\<close> (\<^verbatim>\<open>provider_worker.rs\<close>, \<^verbatim>\<open>state.rs\<close>): refresh requests interleaved with the worker
    task; no refresh is lost, doubled or stuck.
  \<^item> \<open>Daemon_Catalog\<close> with \<open>Ai_Rules\<close> (\<^verbatim>\<open>catalog.rs\<close>, \<^verbatim>\<open>traits.rs\<close>, \<^verbatim>\<open>discovery.rs\<close>, \<^verbatim>\<open>enrichment.rs\<close>, \<^verbatim>\<open>rules.rs\<close>):
    a provider run as an override of the catalog map, and what a served item may claim.
  \<^item> \<open>Discovery_Heroic\<close>, \<open>Discovery_Stremio\<close>, \<open>Discovery_Arrivals\<close>, \<open>Enrichment_Appstream\<close>
    (\<^verbatim>\<open>discovery/providers\<close>, \<^verbatim>\<open>enrichment/providers\<close>): what the providers publish from the files and
    answers they read; published games launch, the cached row of Stremio is that of a fresh read, an
    arrival is at home and recent.
  \<^item> \<open>Ai_Scan\<close> (\<^verbatim>\<open>hearthdeck-ai/src/categorization\<close>): taxonomy, rule-based engine, scan and report.
  \<^item> This theory joins daemon and bridge: a planned launch is tracked by one and journaled by the other.

  \<^bold>\<open>Accounts and settings.\<close>
  \<^item> \<open>Daemon_Settings\<close> (\<^verbatim>\<open>settings.rs\<close>, \<^verbatim>\<open>tmdb.rs\<close>, \<^verbatim>\<open>tmdb/control.rs\<close>): the settings rows, the check that a
    RomM address is on this host, the market of the locale.
  \<^item> \<open>Daemon_Links\<close> (\<^verbatim>\<open>stremio.rs\<close>, \<^verbatim>\<open>stremio/control.rs\<close>) and \<open>Daemon_Romm_Link\<close> (\<^verbatim>\<open>romm_link.rs\<close>,
    \<^verbatim>\<open>romm_link/control.rs\<close>): linking an account, with polls interleaved between their awaits; an unlinked
    account stays unlinked, credentials are sent to this host only, polls keep RomM's interval.

  \<^bold>\<open>Retro library.\<close>
  \<^item> \<open>Daemon_Romm\<close> (\<^verbatim>\<open>romm.rs\<close>): the RomM client over a server with a state of its own; a favourite reads
    back, artwork is read below the resources only.
  \<^item> \<open>Daemon_Retro\<close>, \<open>Daemon_Readiness\<close>, \<open>Readiness_Props\<close> (\<^verbatim>\<open>retro.rs\<close>, \<^verbatim>\<open>readiness.rs\<close>): cores, launch plans,
    BIOS slots; the report agrees with the launch, and the sync places verified files only.

  \<^bold>\<open>Categorization service.\<close>
  \<^item> \<open>Categorizer_Settings\<close>, \<open>Daemon_Categorizer\<close>, \<open>Categorizer_Jobs\<close> (\<^verbatim>\<open>categorizer.rs\<close>,
    \<^verbatim>\<open>categorizer/control.rs\<close>): the child process and its files, the slot that admits one job, and the jobs
    interleaved with the control calls; every job ends, and disabling discards what a job decides.

  \<^bold>\<open>Configuration, diagnostics and the HTTP interface.\<close>
  \<^item> \<open>Daemon_Config\<close> (\<^verbatim>\<open>config.rs\<close>, \<^verbatim>\<open>paths.rs\<close>, the listeners of \<^verbatim>\<open>main.rs\<close>): what is served beyond this host is
    served over TLS; a planned retro launch passes the bridge's path checks.
  \<^item> \<open>Daemon_Diagnostics\<close> (\<^verbatim>\<open>diagnostics.rs\<close>): unit states, RomM's health and the redacted log tail.
  \<^item> \<open>Api_Payloads\<close>, \<open>Daemon_Api\<close> (\<^verbatim>\<open>api.rs\<close>, \<^verbatim>\<open>state.rs\<close>): the payloads, the answers to errors, and every
    handler over the state of all the components above (\<open>app_state\<close>); \<open>serve_api\<close> and \<open>serve_local\<close>
    are the two routers.
  \<^item> \<open>Api_Props\<close>: runs of requests on both listeners; a protected request needs a pairing made at the
    host, and a journaled id launches again what it named.
  \<^item> \<open>Api_Secrets\<close>: stored credentials do not influence any answer.

  \<^bold>\<open>Conventions.\<close> A struct is a record, an enum a datatype, a method a function on the record; a method
  that fails returns the state its mutations left. Calls to the operating system, a server or a
  library are parameters, so every theorem holds for all their behaviours its hypotheses allow. A
  database statement is a function on tables, with an optional fault where the code goes on after
  one. Text is a list of bytes, and case folding is that of ASCII. Instants and counters are natural
  numbers, which the code's 64-bit types do not exhaust; pad values keep their range. Every loop is
  a total function; where tasks interleave (pairing, workers, link polls, categorization jobs), the
  steps between awaits are separate and properties hold for every schedule. A handler of the HTTP
  interface is one step on the whole state: requests follow each other in any order, and the
  interleavings inside a handler are those of the component theories. The only fuel is the bounded wait for the input
  socket, which is bounded in the code as well (twenty polls).

  \<^bold>\<open>Not modelled.\<close> Drawing, layout, animation and image loading of the frontend, its
  messages between pages and its HTTP client; the matching of paths and the coding of bodies, which are the web framework's;
  JSON and XML parsing, floating point and calendar arithmetic, which are parameters of the providers;
  model inference, whose report is the answer of a run; the Wayland focus monitor, whose reports are
  events of the broker; logging; calendar formatting. Of modelled components, scroll offsets, the
  sockets and timers around the handlers, the start-up order of the daemon's services, and the
  conflict of two processes on one database are left out.

  \<^bold>\<open>What could follow.\<close> The frontend's navigation, its refresh and retry of reads (\<^verbatim>\<open>app/refresh.rs\<close>), and the
  details page.
\<close>

section \<open>From a catalog item to a tracked and journaled play\<close>

text \<open>
  The daemon's session service and the bridge's session manager joined: the service's environment
  answers a request with what the manager answers in its current state.
\<close>

definition answers :: "session_env \<Rightarrow> 'w bridge_env \<Rightarrow> 'w bridge_state \<Rightarrow> bridge_request \<Rightarrow> bool" where
  "answers e env st request \<longleftrightarrow> bridge e request = Inr (fst (handle_request env request st))"

definition planned_session_id :: "catalog_item \<Rightarrow> string \<Rightarrow> string" where
  "planned_session_id item i = (if ci_source_id item = HEROIC then HEROIC_SESSION_ID else i)"

lemma planned_launched:
  assumes "launch_catalog item i prof = Some plan"
  shows "\<exists>s. launched (lp_request plan) = Some s \<and> as_id s = planned_session_id item i"
proof -
  have "HEROIC \<noteq> STREMIO" "HEROIC \<noteq> STREMIO_ARRIVALS"
    by (simp_all add: HEROIC_def STREMIO_def STREMIO_ARRIVALS_def)
  then show ?thesis
    using launch_plan_request[OF assms]
    by (cases "lp_request plan") (auto simp: launched_def running_session_def planned_session_id_def)
qed

lemma launch_response:
  assumes "bridge e request = Inr resp" and "started_fault e = None"
  shows "snd (SessionService_launch e request entry d) = (case resp of
      LaunchAccepted s \<Rightarrow> d\<lparr>d_activity := snd (session_started None (started_at e) (play_started_at e) entry s (d_activity d)),
         d_events := d_events d @ [ApplicationSessionChanged (Some s)]\<rparr>
    | _ \<Rightarrow> d)"
  using assms by (simp add: SessionService_launch_def split: bridge_response.split)

text \<open>
  C5: launching a catalog item end to end. When the request planned for an item reaches the bridge
  (after any requests, from whatever records it was started with), its session id is new to the
  journal and the journal can be written, either the bridge tracks that session (and no other, if
  it was started with at most one record) and the journal gains exactly one running play of that
  item, or the launch fails, the bridge tracks nothing new and the daemon records and announces
  nothing.
\<close>

theorem planned_launch_is_tracked_and_journaled:
  assumes "\<forall>er\<in>set ers. order_ok (fst er)" and "written_records records" and "order_ok env"
    and "launch_catalog item i prof = Some plan"
    and "answers e env (bridge_run ers records w) (lp_request plan)" and "started_fault e = None"
    and "planned_session_id item i \<notin> ps_session_id ` set (play_sessions (d_activity d))"
  shows "let d' = snd (SessionService_launch e (lp_request plan) (lp_activity plan) d);
             st' = snd (handle_request env (lp_request plan) (bridge_run ers records w)) in
    (planned_session_id item i \<in> dom (sessions st') \<and>
     (Finite_Set.card (dom (load_managed_sessions records Map.empty)) \<le> 1 \<longrightarrow>
        dom (sessions st') = {planned_session_id item i}) \<and>
     (\<exists>row. play_sessions (d_activity d') = play_sessions (d_activity d) @ [row]
        \<and> ps_session_id row = planned_session_id item i \<and> ps_item_id row = ''hearthdeck:'' @ ci_id item \<and> is_running row))
    \<or> (d' = d \<and> sessions st' \<subseteq>\<^sub>m sessions (bridge_run ers records w))"
proof -
  obtain resp st' where h: "handle_request env (lp_request plan) (bridge_run ers records w) = (resp, st')" by force
  obtain s where s: "launched (lp_request plan) = Some s" "as_id s = planned_session_id item i"
    using planned_launched[OF assms(4)] by auto
  have "bridge e (lp_request plan) = Inr resp" using assms(5) h by (simp add: answers_def)
  note d' = launch_response[OF this assms(6), of "lp_activity plan" d]
  have new: "upsert_row ps_session_id keep_old r (play_sessions (d_activity d)) = play_sessions (d_activity d) @ [r]"
    if "ps_session_id r = planned_session_id item i" for r
    using assms(7) that by (auto simp: upsert_row_def)
  from launch_is_the_tracked_result[OF assms(1,2,3) s(1) h] show ?thesis
  proof (elim disjE exE conjE)
    fix m
    assume "resp = LaunchAccepted s" "sessions st' (as_id s) = Some m"
      "Finite_Set.card (dom (load_managed_sessions records Map.empty)) \<le> 1 \<longrightarrow> sessions st' = [as_id s \<mapsto> m]"
    then show ?thesis
      using d' h s(2) launch_plan_request[OF assms(4)]
      by (auto simp add: Let_def session_started_def new is_running_def)
  next
    fix c msg
    assume "resp = Error c msg" "sessions st' \<subseteq>\<^sub>m sessions (bridge_run ers records w)"
    then show ?thesis using d' h by (simp add: Let_def)
  qed
qed

text \<open>A Heroic game, and a daemon joined to the demonstration bridge.\<close>

definition demo_game :: catalog_item where
  "demo_game = \<lparr>ci_id = ''heroic:game'', ci_source_id = HEROIC, ci_title = ''Game'', ci_kind = ''game'',
     ci_launch_id = Some ''gog:game'', ci_icon = None, ci_metadata = JNull, 
     ci_classification = \<lparr>cc_section = PcGames, cc_streaming = False, cc_form_factor = None\<rparr>\<rparr>"

definition joined_env :: "string list bridge_state \<Rightarrow> nat \<Rightarrow> session_env" where
  "joined_env st t = (demo_session_env t)\<lparr>bridge := \<lambda>req. Inr (fst (handle_request unit_env req st))\<rparr>"

definition demo_plan :: launch_plan where
  "demo_plan = \<lparr>lp_request = heroic_request, lp_activity = catalog_activity_entry demo_game\<rparr>"

lemma demo_planned: "launch_catalog demo_game ''ignored'' input_profile.Native = Some demo_plan"
  using heroic_target_iff[of "''gog:game''" Gog "''game''"]
  by (simp add: launch_catalog_def demo_game_def demo_plan_def heroic_request_def)

lemma joined_answers: "answers (joined_env st t) unit_env st req" "started_fault (joined_env st t) = None"
  by (simp_all add: answers_def joined_env_def demo_session_env_def)

theorem planned_launch_is_tracked_and_journaled_witness:
  "let d' = snd (SessionService_launch (joined_env (bridge_run [] [] []) 5) (lp_request demo_plan) (lp_activity demo_plan) Daemon_start);
       st' = snd (handle_request unit_env (lp_request demo_plan) (bridge_run [] [] [])) in
    dom (sessions st') = {HEROIC_SESSION_ID} \<and>
    (\<exists>row. play_sessions (d_activity d') = [row] \<and> ps_item_id row = ''hearthdeck:heroic:game'' \<and> is_running row)"
proof -
  have sid: "planned_session_id demo_game ''ignored'' = HEROIC_SESSION_ID"
    by (simp add: planned_session_id_def demo_game_def)
  have tracked: "sessions (snd (handle_request unit_env (lp_request demo_plan) (bridge_run [] [] [])))
      = [HEROIC_SESSION_ID \<mapsto> heroic_managed]"
    by (simp add: demo_plan_def heroic_started)
  have empty: "\<not> [HEROIC_SESSION_ID \<mapsto> heroic_managed] \<subseteq>\<^sub>m sessions (bridge_run [] [] [])"
    by (simp add: bridge_start_def map_le_def)
  from planned_launch_is_tracked_and_journaled[OF _ written_records_Nil unit_env_order demo_planned,
      of "[]" _ "[]" Daemon_start,
      OF _ joined_answers] tracked empty show ?thesis
    by (auto simp: Let_def sid Daemon_start_def demo_game_def)
qed

text \<open>
  C6: a Heroic game played again is not journaled. The bridge answers every Heroic launch with the
  same session id, which the play journal treats as the same play, so once one Heroic play has
  ended, an accepted launch of any Heroic game adds no play, leaves nothing for the watcher to
  close, and its end is never recorded, announced or followed by a catalog refresh.
\<close>

theorem heroic_replay_not_journaled:
  assumes "d = fold service_step before Daemon_start"
    and "r \<in> set (play_sessions (d_activity d))"
    and "ps_session_id r = HEROIC_SESSION_ID" and "ps_outcome r \<noteq> PlayRunning"
    and "order_ok env" and "tracked st" and "answers e env st (LaunchHeroicGame runner a i prof)"
    and "fst (ended_faults e' HEROIC_SESSION_ID) = None"
  shows "let d' = snd (SessionService_launch e (LaunchHeroicGame runner a i prof) entry d) in
    play_sessions (d_activity d') = play_sessions (d_activity d)
    \<and> HEROIC_SESSION_ID \<notin> set (running_sessions (d_activity d'))
    \<and> SessionService_finished e' HEROIC_SESSION_ID d' = d'"
proof -
  let ?req = "LaunchHeroicGame runner a i prof"
  let ?d' = "snd (SessionService_launch e ?req entry d)"
  obtain resp st' where h: "handle_request env ?req st = (resp, st')" by force
  have keyed: "keyed ps_session_id (play_sessions (d_activity d))"
    using run_ok_db[of before] assms(1) by (simp add: activity_ok_def)
  have same: "play_sessions (d_activity ?d') = play_sessions (d_activity d)"
  proof -
    have "resp = LaunchAccepted (running_session HEROIC a HEROIC_SESSION_ID) \<or> (\<exists>c m. resp = Error c m)"
      using request_launches[OF assms(5,6) _ h] by (auto simp: launched_def)
    moreover have "bridge e ?req = Inr resp" using assms(7) h by (simp add: answers_def)
    moreover have "HEROIC_SESSION_ID \<in> ps_session_id ` set (play_sessions (d_activity d))"
      using assms(2,3) by force
    ultimately show ?thesis
      by (auto simp: SessionService_launch_def session_started_def running_session_def
          upsert_keep_present split: option.split)
  qed
  have idle: "\<not> is_running q" if "q \<in> set (play_sessions (d_activity ?d'))" "ps_session_id q = HEROIC_SESSION_ID" for q
    using keyed_unique[OF keyed _ assms(2)] that assms(3,4) unfolding same by (auto simp: is_running_def)
  then have "find (\<lambda>r. ps_session_id r = HEROIC_SESSION_ID \<and> is_running r) (play_sessions (d_activity ?d')) = None"
    by (auto simp: find_None_iff)
  then have "SessionService_finished e' HEROIC_SESSION_ID ?d' = ?d'"
    using assms(8) by (simp add: SessionService_finished_def session_ended_def Let_def)
  then show ?thesis using same idle running_set by (force simp: Let_def)
qed

definition demo_played :: "(session_env \<times> service_op) list" where
  "demo_played =
     [(joined_env (bridge_start [] []) 5, Launch heroic_request (catalog_activity_entry demo_game)),
      (joined_env (bridge_start [] []) 65, Reconcile)]"

definition demo_play :: play_row where
  "demo_play = \<lparr>ps_session_id = HEROIC_SESSION_ID, ps_item_id = ''hearthdeck:heroic:game'',
     ps_source_id = HEROIC, ps_started_at = 5, ps_ended_at = Some 65, ps_outcome = PlayClosed,
     ps_duration_seconds = Some 60\<rparr>"

lemma demo_played_journal:
  "play_sessions (d_activity (fold service_step demo_played Daemon_start)) = [demo_play]"
proof -
  have launch: "bridge (joined_env (bridge_start [] []) t) heroic_request
      = Inr (LaunchAccepted (running_session HEROIC ''game'' HEROIC_SESSION_ID))" for t
    by (simp add: joined_env_def heroic_started heroic_managed_def)
  have none: "bridge (joined_env (bridge_start [] []) t) ActiveApplicationSession = Inr (ApplicationSession None)" for t
    by (simp add: joined_env_def active_managed_session_def session_candidates_def bridge_start_def
        select_active_session_def unit_env_def)
  have rest: "started_fault (joined_env s t) = None" "listing_fault (joined_env s t) = None"
    "ended_faults (joined_env s t) i = (None, None)" "started_at (joined_env s t) = t"
    "play_started_at (joined_env s t) = t" "ended_at (joined_env s t) i = t"
    "elapsed (joined_env s t) x y = int y - int x" for s t i x y
    by (simp_all add: joined_env_def demo_session_env_def)
  show ?thesis
    by (simp add: demo_played_def launch none rest SessionService_launch_def SessionService_reconcile_def
        SessionService_active_def session_started_def Daemon_start_def upsert_row_def running_sessions_def
        is_running_def finished_sessions_def running_session_def SessionService_finished_def
        session_ended_def update_rows_def close_row_def demo_play_def catalog_activity_entry_def demo_game_def
        lookup_def)
qed

theorem heroic_replay_not_journaled_witness:
  "let d = fold service_step demo_played Daemon_start;
       d' = snd (SessionService_launch (joined_env (bridge_start [] []) 90) heroic_request
              (catalog_activity_entry demo_game) d) in
   play_sessions (d_activity d') = [demo_play]
   \<and> SessionService_finished (joined_env (bridge_start [] []) 150) HEROIC_SESSION_ID d' = d'"
proof -
  have f: "fst (ended_faults (joined_env (bridge_start [] []) 150) HEROIC_SESSION_ID) = None"
    by (simp add: joined_env_def demo_session_env_def)
  have r: "demo_play \<in> set (play_sessions (d_activity (fold service_step demo_played Daemon_start)))"
    "ps_session_id demo_play = HEROIC_SESSION_ID" "ps_outcome demo_play \<noteq> PlayRunning"
    by (simp_all add: demo_played_journal) (simp_all add: demo_play_def)
  show ?thesis
    using heroic_replay_not_journaled[where runner = Gog and a = "''game''" and i = "''ignored''"
        and prof = input_profile.Native and entry = "catalog_activity_entry demo_game",
        OF refl r unit_env_order start_tracked[OF written_records_Nil] joined_answers(1)[of "bridge_start [] []" 90] f]
    by (simp add: Let_def demo_played_journal heroic_request_def)
qed

end
